(* ===== verification/Prelude.thy ===== *)
theory Prelude
  imports Complex_Main "HOL-Library.AList" "HOL-Library.Char_ord"
    "HOL-Library.List_Lexorder" "HOL-Library.Multiset" "HOL-Library.Sublist"
begin

text \<open>
  Shared vocabulary of the development: the Python built-ins the agents use (string
  methods, slices, stable sorting, \<open>max\<close> with a key, insertion-ordered dictionaries,
  decimal rendering of integers) as executable functions, with the generic lemmas the
  component theories share.

  Python \<open>str\<close> values are \<^typ>\<open>string\<close>: the UTF-8 bytes of the text. Comparing
  UTF-8 bytes lexicographically is comparing code points, so sorting by a string key is
  Python's order. Case folding and stripping act on ASCII letters and ASCII white space;
  other bytes pass through unchanged.
\<close>

named_theorems py_simps \<open>defining equations of the Python built-ins\<close>

section \<open>Strings\<close>

definition is_space :: "char \<Rightarrow> bool" where
  "is_space c = (let n = of_char c :: nat in (9 \<le> n \<and> n \<le> 13) \<or> (28 \<le> n \<and> n \<le> 32))"

definition lstrip :: "string \<Rightarrow> string" where
  "lstrip s = dropWhile is_space s"

definition rstrip :: "string \<Rightarrow> string" where
  "rstrip s = rev (dropWhile is_space (rev s))"

definition strip :: "string \<Rightarrow> string" where
  "strip s = rstrip (lstrip s)"

text \<open>\<open>not s or not s.strip()\<close>: the emptiness test the validators use.\<close>

definition blank :: "string \<Rightarrow> bool" where
  "blank s = (s = [] \<or> strip s = [])"

text \<open>The class \<open>\w\<close> of the regular expressions, on ASCII.\<close>

definition word_char :: "char \<Rightarrow> bool" where
  "word_char c = (let n = of_char c :: nat
     in (48 \<le> n \<and> n \<le> 57) \<or> (65 \<le> n \<and> n \<le> 90) \<or> (97 \<le> n \<and> n \<le> 122) \<or> n = 95)"

definition lower_char :: "char \<Rightarrow> char" where
  "lower_char c = (let n = of_char c :: nat in if 65 \<le> n \<and> n \<le> 90 then char_of (n + 32) else c)"

definition lower :: "string \<Rightarrow> string" where
  "lower s = map lower_char s"

definition starts_with :: "string \<Rightarrow> string \<Rightarrow> bool" where
  "starts_with s p = prefix p s"

text \<open>The \<open>in\<close> test of Python: \<open>p in s\<close>.\<close>

fun contains :: "string \<Rightarrow> string \<Rightarrow> bool" where
  "contains p [] = (p = [])"
| "contains p (c # s) = (prefix p (c # s) \<or> contains p s)"

fun join :: "string \<Rightarrow> string list \<Rightarrow> string" where
  "join sep [] = []"
| "join sep [x] = x"
| "join sep (x # y # xs) = x @ sep @ join sep (y # xs)"

text \<open>Optional strings: \<open>x or ''\<close> of a value that may be None.\<close>

definition or_empty :: "string option \<Rightarrow> string" where
  "or_empty s = (case s of None \<Rightarrow> [] | Some t \<Rightarrow> t)"

text \<open>Text between single quotes, as the messages show selectors.\<close>

definition quoted :: "string \<Rightarrow> string" where
  "quoted s = [CHR 0x27] @ s @ [CHR 0x27]"

definition em_dash :: string where
  "em_dash = [CHR 0xE2, CHR 0x80, CHR 0x94]"

definition arrow :: string where
  "arrow = [CHR 0xE2, CHR 0x86, CHR 0x92]"

lemma contains_iff_sublist: "contains p s \<longleftrightarrow> sublist p s"
  by (induction s) (auto simp: sublist_Cons_right)

lemma contains_Nil [simp]: "contains [] s"
  by (cases s) auto

lemma contains_infix: "contains p (a @ p @ b)"
  by (simp add: contains_iff_sublist)

lemma blank_iff: "blank s \<longleftrightarrow> (\<forall>c \<in> set s. is_space c)"
  by (auto simp: blank_def strip_def rstrip_def lstrip_def dropWhile_eq_Nil_conv
      dest: set_dropWhileD) (metis dropWhile_eq_Nil_conv hd_dropWhile list.set_sel(1))

lemma not_blank_nonempty: "\<not> blank s \<Longrightarrow> s \<noteq> []"
  by (auto simp: blank_def)

section \<open>Decimal rendering of integers\<close>

function show_digits :: "int \<Rightarrow> string" where
  "show_digits n =
     (if n < 10 then [char_of (48 + n)] else show_digits (n div 10) @ [char_of (48 + n mod 10)])"
  by pat_completeness auto
termination
  by (relation "measure nat") auto

declare show_digits.simps [simp del]

definition show_int :: "int \<Rightarrow> string" where
  "show_int i = (if i < 0 then ''-'' @ show_digits (- i) else show_digits i)"

definition show_nat :: "nat \<Rightarrow> string" where
  "show_nat n = show_digits (int n)"

lemma show_digits_nonempty [simp]: "show_digits n \<noteq> []"
  by (subst show_digits.simps) simp

section \<open>Slices, sorting, maxima\<close>

text \<open>\<open>xs[:n]\<close>, where a negative bound counts from the end.\<close>

definition slice_to :: "int \<Rightarrow> 'a list \<Rightarrow> 'a list" where
  "slice_to n xs = take (nat (if n < 0 then int (length xs) + n else n)) xs"

text \<open>
  \<open>sorted(xs, key=k, reverse=True)\<close>: descending, and stable, so that elements with equal
  keys keep their order (the sort runs on the reversed list and is reversed back).
\<close>

definition sort_desc :: "('a \<Rightarrow> 'k::linorder) \<Rightarrow> 'a list \<Rightarrow> 'a list" where
  "sort_desc k xs = rev (sort_key k (rev xs))"

text \<open>\<open>max(xs, key=k)\<close> of a non-empty list: the first element with the greatest key.\<close>

fun max_from :: "('a \<Rightarrow> 'k::linorder) \<Rightarrow> 'a \<Rightarrow> 'a list \<Rightarrow> 'a" where
  "max_from k m [] = m"
| "max_from k m (x # xs) = max_from k (if k m < k x then x else m) xs"

definition max_by :: "('a \<Rightarrow> 'k::linorder) \<Rightarrow> 'a list \<Rightarrow> 'a option" where
  "max_by k xs = (case xs of [] \<Rightarrow> None | x # ys \<Rightarrow> Some (max_from k x ys))"

definition count_if :: "('a \<Rightarrow> bool) \<Rightarrow> 'a list \<Rightarrow> nat" where
  "count_if p xs = length (filter p xs)"

text \<open>The values that are not None: \<open>if x is not None: out.append(x)\<close>.\<close>

fun somes :: "'a option list \<Rightarrow> 'a list" where
  "somes [] = []"
| "somes (None # xs) = somes xs"
| "somes (Some x # xs) = x # somes xs"

text \<open>The set-and-list loop that keeps the first occurrence of every value.\<close>

fun dedup :: "'a list \<Rightarrow> 'a list" where
  "dedup [] = []"
| "dedup (x # xs) = x # filter (\<lambda>y. y \<noteq> x) (dedup xs)"

lemma set_somes: "set (somes xs) = {x. Some x \<in> set xs}"
  by (induction xs rule: somes.induct) auto

lemma somes_Nil: "somes xs = [] \<longleftrightarrow> (\<forall>x \<in> set xs. x = None)"
  by (induction xs rule: somes.induct) auto

lemma somes_append: "somes (xs @ ys) = somes xs @ somes ys"
  by (induction xs rule: somes.induct) auto

lemma set_slice_to: "set (slice_to n xs) \<subseteq> set xs"
  by (simp add: slice_to_def set_take_subset)

lemma slice_to_nat [simp]: "slice_to (int n) xs = take n xs"
  by (simp add: slice_to_def)

lemma slice_to_all: "int (length xs) \<le> n \<Longrightarrow> slice_to n xs = xs"
  by (simp add: slice_to_def)

lemma slice_to_take: "0 \<le> n \<Longrightarrow> slice_to n xs = take (nat n) xs"
  by (simp add: slice_to_def)

lemma length_slice_to: "0 \<le> n \<Longrightarrow> length (slice_to n xs) \<le> nat n"
  by (simp add: slice_to_def)

lemma mset_sort_desc [simp]: "mset (sort_desc k xs) = mset xs"
  by (simp add: sort_desc_def)

lemma set_sort_desc [simp]: "set (sort_desc k xs) = set xs"
  by (simp add: sort_desc_def)

lemma length_sort_desc [simp]: "length (sort_desc k xs) = length xs"
  by (simp add: sort_desc_def)

lemma sort_desc_Nil [simp]: "sort_desc k [] = []"
  by (simp add: sort_desc_def)

lemma sort_desc_Nil_iff [simp]: "sort_desc k xs = [] \<longleftrightarrow> xs = []"
  by (metis length_0_conv length_sort_desc)

lemma sorted_wrt_sort_desc: "sorted_wrt (\<lambda>a b. k b \<le> k a) (sort_desc k xs)"
  using sorted_sort_key[of k "rev xs"] by (simp add: sort_desc_def sorted_wrt_rev sorted_map)

lemma sort_desc_stable: "filter (\<lambda>x. k x = v) (sort_desc k xs) = filter (\<lambda>x. k x = v) xs"
  by (simp add: sort_desc_def rev_filter[symmetric] sort_key_stable)

lemma insort_key_last: "\<forall>y \<in> set ys. f y < f x \<Longrightarrow> insort_key f x ys = ys @ [x]"
  by (induction ys) (auto simp: not_le)

lemma sort_desc_snoc_newest:
  "\<forall>q \<in> set xs. k q < k r \<Longrightarrow> sort_desc k (xs @ [r]) = r # sort_desc k xs"
  by (simp add: sort_desc_def insort_key_last)

lemma max_from_in: "max_from k m xs \<in> insert m (set xs)"
  by (induction xs arbitrary: m) (fastforce split: if_splits)+

lemma max_from_ge: "x \<in> insert m (set xs) \<Longrightarrow> k x \<le> k (max_from k m xs)"
proof (induction xs arbitrary: m x)
  case Nil
  then show ?case by simp
next
  case (Cons y ys)
  let ?m = "if k m < k y then y else m"
  have "k ?m \<le> k (max_from k ?m ys)" by (rule Cons.IH) simp
  moreover have "k m \<le> k ?m" "k y \<le> k ?m" by auto
  moreover have "k x \<le> k (max_from k ?m ys)" if "x \<in> set ys"
    using that by (intro Cons.IH) simp
  ultimately show ?case using Cons.prems by (auto dest: order_trans)
qed

lemma max_by_None [simp]: "max_by k xs = None \<longleftrightarrow> xs = []"
  by (auto simp: max_by_def split: list.splits)

lemma max_by_in: "max_by k xs = Some x \<Longrightarrow> x \<in> set xs"
  using max_from_in by (fastforce simp: max_by_def split: list.splits)

lemma max_by_ge: "max_by k xs = Some x \<Longrightarrow> y \<in> set xs \<Longrightarrow> k y \<le> k x"
  by (auto simp: max_by_def split: list.splits intro: max_from_ge)

lemma count_if_le: "count_if p xs \<le> length xs"
  by (simp add: count_if_def)

lemma count_if_mset: "count_if p xs = size (filter_mset p (mset xs))"
  by (simp add: count_if_def flip: mset_filter)

lemma filter_Cons_find: "filter p xs = y # ys \<Longrightarrow> find p xs = Some y"
  by (induction xs) (auto split: if_splits)

lemma filter_Nil_find: "filter p xs = [] \<Longrightarrow> find p xs = None"
  by (induction xs) (auto split: if_splits)

lemma count_if_pos: "0 < count_if p xs \<longleftrightarrow> (\<exists>x \<in> set xs. p x)"
  by (auto simp: count_if_def filter_empty_conv)

section \<open>Insertion-ordered dictionaries\<close>

text \<open>
  A \<open>dict[str, list[T]]\<close> that is filled by \<open>if key not in d: d[key] = []\<close> followed by
  \<open>d[key].append(v)\<close>. The association list keeps the insertion order of the keys, which
  is the order \<open>d.values()\<close> and \<open>for key in d\<close> visit them in.
\<close>

definition dict_append :: "'k \<Rightarrow> 'v \<Rightarrow> ('k \<times> 'v list) list \<Rightarrow> ('k \<times> 'v list) list" where
  "dict_append key v d =
     (case map_of d key of None \<Rightarrow> d @ [(key, [v])] | Some vs \<Rightarrow> AList.update key (vs @ [v]) d)"

definition dict_get_list :: "('k \<times> 'v list) list \<Rightarrow> 'k \<Rightarrow> 'v list" where
  "dict_get_list d key = (case map_of d key of None \<Rightarrow> [] | Some vs \<Rightarrow> vs)"

text \<open>Grouping a list by a key, in order of first appearance.\<close>

definition group_by :: "('a \<Rightarrow> 'k) \<Rightarrow> 'a list \<Rightarrow> ('k \<times> 'a list) list" where
  "group_by k xs = fold (\<lambda>x d. dict_append (k x) x d) xs []"

lemma map_of_dict_append:
  "map_of (dict_append key v d) = (map_of d)(key \<mapsto> dict_get_list d key @ [v])"
  by (auto simp: dict_append_def dict_get_list_def update_conv' fun_eq_iff map_add_def
      split: option.splits)

lemma dict_get_list_append:
  "dict_get_list (dict_append key v d) k' =
     (if k' = key then dict_get_list d key @ [v] else dict_get_list d k')"
  by (simp add: dict_get_list_def map_of_dict_append)

lemma keys_dict_append: "fst ` set (dict_append key v d) = insert key (fst ` set d)"
proof (cases "map_of d key")
  case None
  then show ?thesis by (simp add: dict_append_def)
next
  case (Some vs)
  then show ?thesis by (simp add: dict_append_def dom_update)
qed

lemma distinct_keys_dict_append:
  "distinct (map fst d) \<Longrightarrow> distinct (map fst (dict_append key v d))"
  by (auto simp: dict_append_def distinct_update map_of_eq_None_iff split: option.splits)

lemma dict_get_list_fold_append:
  "dict_get_list (fold (\<lambda>x d. dict_append (k x) x d) xs d) key =
     dict_get_list d key @ filter (\<lambda>x. k x = key) xs"
  by (induction xs arbitrary: d) (auto simp: dict_get_list_append)

lemma keys_fold_append:
  "fst ` set (fold (\<lambda>x d. dict_append (k x) x d) xs d) = fst ` set d \<union> k ` set xs"
  by (induction xs arbitrary: d) (auto simp: keys_dict_append)

lemma distinct_fold_append:
  "distinct (map fst d) \<Longrightarrow> distinct (map fst (fold (\<lambda>x d. dict_append (k x) x d) xs d))"
  by (induction xs arbitrary: d) (auto simp: distinct_keys_dict_append)

lemma dict_get_list_group_by: "dict_get_list (group_by k xs) key = filter (\<lambda>x. k x = key) xs"
  by (simp add: group_by_def dict_get_list_fold_append) (simp add: dict_get_list_def)

lemma keys_group_by: "fst ` set (group_by k xs) = k ` set xs"
  by (simp add: group_by_def keys_fold_append)

lemma distinct_group_by: "distinct (map fst (group_by k xs))"
  by (simp add: group_by_def distinct_fold_append)

lemma group_by_entry:
  "(key, ys) \<in> set (group_by k xs) \<Longrightarrow> ys = filter (\<lambda>x. k x = key) xs"
  using dict_get_list_group_by[of k xs key] distinct_group_by[of k xs]
  by (simp add: dict_get_list_def)

lemma dict_get_list_member:
  "v \<in> set (dict_get_list d key) \<Longrightarrow> \<exists>vs. (key, vs) \<in> set d \<and> v \<in> set vs"
  by (cases "map_of d key") (auto simp: dict_get_list_def dest: map_of_SomeD)

section \<open>Deduplication\<close>

lemma set_dedup [simp]: "set (dedup xs) = set xs"
  by (induction xs) auto

lemma distinct_dedup [simp]: "distinct (dedup xs)"
  by (induction xs) auto

lemma dedup_filter: "dedup (filter P xs) = filter P (dedup xs)"
proof (induction xs)
  case (Cons x xs)
  show ?case
  proof (cases "P x")
    case False
    then have "filter P (filter (\<lambda>y. y \<noteq> x) (dedup xs)) = filter P (dedup xs)"
      by (auto simp: filter_filter intro!: filter_cong)
    then show ?thesis using False Cons by simp
  qed (simp add: Cons filter_filter conj_commute)
qed simp

lemma dedup_distinct: "distinct xs \<Longrightarrow> dedup xs = xs"
  by (induction xs) (auto simp: filter_id_conv)

lemma length_dedup: "length (dedup xs) \<le> length xs"
  by (induction xs) (auto intro: order_trans[OF length_filter_le])

end
