(* ===== verification/Enums.thy ===== *)
theory Enums
  imports Prelude
begin

text \<open>
  The shared enumerations of \<^verbatim>\<open>agents/schemas/enums.py\<close>, one datatype per class with the
  source's members in the source's order. \<open>members\<close> is Python's iteration over the class,
  \<open>value\<close> the member's string value, and \<open>enum_of_value\<close> the constructor call
  \<open>FailureType(s)\<close>, which raises \<open>ValueError\<close> (here None) for an unknown string.

  Constructors carry a class prefix, because several classes share member names.
\<close>

definition enum_of_value :: "'a list \<Rightarrow> ('a \<Rightarrow> string) \<Rightarrow> string \<Rightarrow> 'a option" where
  "enum_of_value members val s = find (\<lambda>x. val x = s) members"

text \<open>What every string enumeration promises: all members are listed, and values differ.\<close>

locale str_enum =
  fixes members :: "'a list" and val :: "'a \<Rightarrow> string"
  assumes complete: "x \<in> set members"
    and distinct_values: "distinct (map val members)"
begin

lemma value_inject: "val x = val y \<longleftrightarrow> x = y"
  using distinct_values complete by (auto simp: distinct_map dest: inj_onD)

lemma of_value_value: "enum_of_value members val (val x) = Some x"
proof -
  have "find (\<lambda>y. val y = val x) members \<noteq> None"
    using complete[of x] by (auto simp: find_None_iff)
  then show ?thesis
    by (auto simp: enum_of_value_def find_Some_iff value_inject)
qed

lemma of_value_Some: "enum_of_value members val s = Some x \<longleftrightarrow> val x = s"
proof
  assume "enum_of_value members val s = Some x"
  then show "val x = s" by (auto simp: enum_of_value_def find_Some_iff)
next
  assume "val x = s"
  then show "enum_of_value members val s = Some x" using of_value_value[of x] by simp
qed

lemma of_value_None: "enum_of_value members val s = None \<longleftrightarrow> s \<notin> range val"
  by (cases "enum_of_value members val s") (auto simp: of_value_value of_value_Some)

end

section \<open>FailureType\<close>

datatype failure_type =
    FT_SELECTOR_CHANGED | FT_ELEMENT_NOT_FOUND | FT_ELEMENT_NOT_INTERACTABLE | FT_TIMEOUT |
    FT_ASSERTION_FAILURE | FT_NAVIGATION_FAILURE | FT_NETWORK_ERROR | FT_APPLICATION_ERROR |
    FT_UNKNOWN

definition failure_type_members :: "failure_type list" where
  "failure_type_members =
    [FT_SELECTOR_CHANGED, FT_ELEMENT_NOT_FOUND, FT_ELEMENT_NOT_INTERACTABLE, FT_TIMEOUT,
     FT_ASSERTION_FAILURE, FT_NAVIGATION_FAILURE, FT_NETWORK_ERROR, FT_APPLICATION_ERROR,
     FT_UNKNOWN]"

fun failure_type_value :: "failure_type \<Rightarrow> string" where
  "failure_type_value FT_SELECTOR_CHANGED = ''SELECTOR_CHANGED''"
| "failure_type_value FT_ELEMENT_NOT_FOUND = ''ELEMENT_NOT_FOUND''"
| "failure_type_value FT_ELEMENT_NOT_INTERACTABLE = ''ELEMENT_NOT_INTERACTABLE''"
| "failure_type_value FT_TIMEOUT = ''TIMEOUT''"
| "failure_type_value FT_ASSERTION_FAILURE = ''ASSERTION_FAILURE''"
| "failure_type_value FT_NAVIGATION_FAILURE = ''NAVIGATION_FAILURE''"
| "failure_type_value FT_NETWORK_ERROR = ''NETWORK_ERROR''"
| "failure_type_value FT_APPLICATION_ERROR = ''APPLICATION_ERROR''"
| "failure_type_value FT_UNKNOWN = ''UNKNOWN''"

interpretation ft_enum: str_enum failure_type_members failure_type_value
proof unfold_locales
  fix x :: failure_type
  show "x \<in> set failure_type_members" by (cases x) (simp_all add: failure_type_members_def)
  show "distinct (map failure_type_value failure_type_members)" by (simp add: failure_type_members_def)
qed

section \<open>HealingStatus\<close>

datatype healing_status =
    HS_PROPOSED | HS_VALIDATION_PENDING | HS_VALIDATED_SUCCESS | HS_VALIDATED_FAILURE |
    HS_NO_SAFE_HEALING_FOUND

definition healing_status_members :: "healing_status list" where
  "healing_status_members =
    [HS_PROPOSED, HS_VALIDATION_PENDING, HS_VALIDATED_SUCCESS, HS_VALIDATED_FAILURE,
     HS_NO_SAFE_HEALING_FOUND]"

fun healing_status_value :: "healing_status \<Rightarrow> string" where
  "healing_status_value HS_PROPOSED = ''PROPOSED''"
| "healing_status_value HS_VALIDATION_PENDING = ''VALIDATION_PENDING''"
| "healing_status_value HS_VALIDATED_SUCCESS = ''VALIDATED_SUCCESS''"
| "healing_status_value HS_VALIDATED_FAILURE = ''VALIDATED_FAILURE''"
| "healing_status_value HS_NO_SAFE_HEALING_FOUND = ''NO_SAFE_HEALING_FOUND''"

interpretation hs_enum: str_enum healing_status_members healing_status_value
proof unfold_locales
  fix x :: healing_status
  show "x \<in> set healing_status_members" by (cases x) (simp_all add: healing_status_members_def)
  show "distinct (map healing_status_value healing_status_members)" by (simp add: healing_status_members_def)
qed

section \<open>TestPriority\<close>

datatype test_priority =
    TP_CRITICAL | TP_HIGH | TP_MEDIUM | TP_LOW

definition test_priority_members :: "test_priority list" where
  "test_priority_members =
    [TP_CRITICAL, TP_HIGH, TP_MEDIUM, TP_LOW]"

fun test_priority_value :: "test_priority \<Rightarrow> string" where
  "test_priority_value TP_CRITICAL = ''CRITICAL''"
| "test_priority_value TP_HIGH = ''HIGH''"
| "test_priority_value TP_MEDIUM = ''MEDIUM''"
| "test_priority_value TP_LOW = ''LOW''"

interpretation tp_enum: str_enum test_priority_members test_priority_value
proof unfold_locales
  fix x :: test_priority
  show "x \<in> set test_priority_members" by (cases x) (simp_all add: test_priority_members_def)
  show "distinct (map test_priority_value test_priority_members)" by (simp add: test_priority_members_def)
qed

section \<open>TestCategory\<close>

datatype test_category =
    TC_FUNCTIONAL | TC_NEGATIVE | TC_BOUNDARY | TC_SMOKE | TC_REGRESSION | TC_EDGE_CASE |
    TC_ACCESSIBILITY

definition test_category_members :: "test_category list" where
  "test_category_members =
    [TC_FUNCTIONAL, TC_NEGATIVE, TC_BOUNDARY, TC_SMOKE, TC_REGRESSION, TC_EDGE_CASE,
     TC_ACCESSIBILITY]"

fun test_category_value :: "test_category \<Rightarrow> string" where
  "test_category_value TC_FUNCTIONAL = ''functional''"
| "test_category_value TC_NEGATIVE = ''negative''"
| "test_category_value TC_BOUNDARY = ''boundary''"
| "test_category_value TC_SMOKE = ''smoke''"
| "test_category_value TC_REGRESSION = ''regression''"
| "test_category_value TC_EDGE_CASE = ''edge_case''"
| "test_category_value TC_ACCESSIBILITY = ''accessibility''"

interpretation tc_enum: str_enum test_category_members test_category_value
proof unfold_locales
  fix x :: test_category
  show "x \<in> set test_category_members" by (cases x) (simp_all add: test_category_members_def)
  show "distinct (map test_category_value test_category_members)" by (simp add: test_category_members_def)
qed

section \<open>TestAction\<close>

datatype test_action =
    TA_NAVIGATE | TA_CLICK | TA_FILL | TA_SELECT | TA_CHECK | TA_UNCHECK | TA_HOVER | TA_UPLOAD |
    TA_DRAG | TA_PRESS | TA_WAIT

definition test_action_members :: "test_action list" where
  "test_action_members =
    [TA_NAVIGATE, TA_CLICK, TA_FILL, TA_SELECT, TA_CHECK, TA_UNCHECK, TA_HOVER, TA_UPLOAD,
     TA_DRAG, TA_PRESS, TA_WAIT]"

fun test_action_value :: "test_action \<Rightarrow> string" where
  "test_action_value TA_NAVIGATE = ''navigate''"
| "test_action_value TA_CLICK = ''click''"
| "test_action_value TA_FILL = ''fill''"
| "test_action_value TA_SELECT = ''select''"
| "test_action_value TA_CHECK = ''check''"
| "test_action_value TA_UNCHECK = ''uncheck''"
| "test_action_value TA_HOVER = ''hover''"
| "test_action_value TA_UPLOAD = ''upload''"
| "test_action_value TA_DRAG = ''drag''"
| "test_action_value TA_PRESS = ''press''"
| "test_action_value TA_WAIT = ''wait''"

interpretation ta_enum: str_enum test_action_members test_action_value
proof unfold_locales
  fix x :: test_action
  show "x \<in> set test_action_members" by (cases x) (simp_all add: test_action_members_def)
  show "distinct (map test_action_value test_action_members)" by (simp add: test_action_members_def)
qed

section \<open>AssertionType\<close>

datatype assertion_type =
    AT_ELEMENT_VISIBLE | AT_ELEMENT_NOT_VISIBLE | AT_ELEMENT_CONTAINS_TEXT | AT_ELEMENT_HAS_TEXT |
    AT_URL_CONTAINS | AT_URL_EQUALS | AT_VALUE_EQUALS

definition assertion_type_members :: "assertion_type list" where
  "assertion_type_members =
    [AT_ELEMENT_VISIBLE, AT_ELEMENT_NOT_VISIBLE, AT_ELEMENT_CONTAINS_TEXT, AT_ELEMENT_HAS_TEXT,
     AT_URL_CONTAINS, AT_URL_EQUALS, AT_VALUE_EQUALS]"

fun assertion_type_value :: "assertion_type \<Rightarrow> string" where
  "assertion_type_value AT_ELEMENT_VISIBLE = ''element_visible''"
| "assertion_type_value AT_ELEMENT_NOT_VISIBLE = ''element_not_visible''"
| "assertion_type_value AT_ELEMENT_CONTAINS_TEXT = ''element_contains_text''"
| "assertion_type_value AT_ELEMENT_HAS_TEXT = ''element_has_text''"
| "assertion_type_value AT_URL_CONTAINS = ''url_contains''"
| "assertion_type_value AT_URL_EQUALS = ''url_equals''"
| "assertion_type_value AT_VALUE_EQUALS = ''value_equals''"

interpretation at_enum: str_enum assertion_type_members assertion_type_value
proof unfold_locales
  fix x :: assertion_type
  show "x \<in> set assertion_type_members" by (cases x) (simp_all add: assertion_type_members_def)
  show "distinct (map assertion_type_value assertion_type_members)" by (simp add: assertion_type_members_def)
qed

section \<open>ExecutionStatus\<close>

datatype execution_status =
    ES_PASSED | ES_FAILED | ES_SKIPPED | ES_ERROR

definition execution_status_members :: "execution_status list" where
  "execution_status_members =
    [ES_PASSED, ES_FAILED, ES_SKIPPED, ES_ERROR]"

fun execution_status_value :: "execution_status \<Rightarrow> string" where
  "execution_status_value ES_PASSED = ''PASSED''"
| "execution_status_value ES_FAILED = ''FAILED''"
| "execution_status_value ES_SKIPPED = ''SKIPPED''"
| "execution_status_value ES_ERROR = ''ERROR''"

interpretation es_enum: str_enum execution_status_members execution_status_value
proof unfold_locales
  fix x :: execution_status
  show "x \<in> set execution_status_members" by (cases x) (simp_all add: execution_status_members_def)
  show "distinct (map execution_status_value execution_status_members)" by (simp add: execution_status_members_def)
qed

section \<open>ChangeType\<close>

datatype change_type =
    CT_ADDED | CT_REMOVED | CT_MODIFIED | CT_UNCHANGED

definition change_type_members :: "change_type list" where
  "change_type_members =
    [CT_ADDED, CT_REMOVED, CT_MODIFIED, CT_UNCHANGED]"

fun change_type_value :: "change_type \<Rightarrow> string" where
  "change_type_value CT_ADDED = ''ADDED''"
| "change_type_value CT_REMOVED = ''REMOVED''"
| "change_type_value CT_MODIFIED = ''MODIFIED''"
| "change_type_value CT_UNCHANGED = ''UNCHANGED''"

interpretation ct_enum: str_enum change_type_members change_type_value
proof unfold_locales
  fix x :: change_type
  show "x \<in> set change_type_members" by (cases x) (simp_all add: change_type_members_def)
  show "distinct (map change_type_value change_type_members)" by (simp add: change_type_members_def)
qed

section \<open>ConfidenceLevel\<close>

datatype confidence_level =
    CL_HIGH | CL_MEDIUM | CL_LOW

definition confidence_level_members :: "confidence_level list" where
  "confidence_level_members =
    [CL_HIGH, CL_MEDIUM, CL_LOW]"

fun confidence_level_value :: "confidence_level \<Rightarrow> string" where
  "confidence_level_value CL_HIGH = ''HIGH''"
| "confidence_level_value CL_MEDIUM = ''MEDIUM''"
| "confidence_level_value CL_LOW = ''LOW''"

interpretation cl_enum: str_enum confidence_level_members confidence_level_value
proof unfold_locales
  fix x :: confidence_level
  show "x \<in> set confidence_level_members" by (cases x) (simp_all add: confidence_level_members_def)
  show "distinct (map confidence_level_value confidence_level_members)" by (simp add: confidence_level_members_def)
qed

section \<open>RecommendedAction\<close>

datatype recommended_action =
    RA_SEARCH_FOR_REPLACEMENT_SELECTOR | RA_INSPECT_CURRENT_UI | RA_CHECK_ELEMENT_STATE |
    RA_ANALYZE_APPLICATION_STATE | RA_INVESTIGATE_TIMEOUT | RA_INVESTIGATE_NAVIGATION |
    RA_REQUIRE_FURTHER_ANALYSIS

definition recommended_action_members :: "recommended_action list" where
  "recommended_action_members =
    [RA_SEARCH_FOR_REPLACEMENT_SELECTOR, RA_INSPECT_CURRENT_UI, RA_CHECK_ELEMENT_STATE,
     RA_ANALYZE_APPLICATION_STATE, RA_INVESTIGATE_TIMEOUT, RA_INVESTIGATE_NAVIGATION,
     RA_REQUIRE_FURTHER_ANALYSIS]"

fun recommended_action_value :: "recommended_action \<Rightarrow> string" where
  "recommended_action_value RA_SEARCH_FOR_REPLACEMENT_SELECTOR = ''SEARCH_FOR_REPLACEMENT_SELECTOR''"
| "recommended_action_value RA_INSPECT_CURRENT_UI = ''INSPECT_CURRENT_UI''"
| "recommended_action_value RA_CHECK_ELEMENT_STATE = ''CHECK_ELEMENT_STATE''"
| "recommended_action_value RA_ANALYZE_APPLICATION_STATE = ''ANALYZE_APPLICATION_STATE''"
| "recommended_action_value RA_INVESTIGATE_TIMEOUT = ''INVESTIGATE_TIMEOUT''"
| "recommended_action_value RA_INVESTIGATE_NAVIGATION = ''INVESTIGATE_NAVIGATION''"
| "recommended_action_value RA_REQUIRE_FURTHER_ANALYSIS = ''REQUIRE_FURTHER_ANALYSIS''"

interpretation ra_enum: str_enum recommended_action_members recommended_action_value
proof unfold_locales
  fix x :: recommended_action
  show "x \<in> set recommended_action_members" by (cases x) (simp_all add: recommended_action_members_def)
  show "distinct (map recommended_action_value recommended_action_members)" by (simp add: recommended_action_members_def)
qed

section \<open>HealingAction\<close>

datatype healing_action =
    HA_TRY_REPLACEMENT_SELECTOR | HA_SEARCH_CURRENT_UI | HA_REQUIRE_FURTHER_ANALYSIS |
    HA_DO_NOT_HEAL

definition healing_action_members :: "healing_action list" where
  "healing_action_members =
    [HA_TRY_REPLACEMENT_SELECTOR, HA_SEARCH_CURRENT_UI, HA_REQUIRE_FURTHER_ANALYSIS,
     HA_DO_NOT_HEAL]"

fun healing_action_value :: "healing_action \<Rightarrow> string" where
  "healing_action_value HA_TRY_REPLACEMENT_SELECTOR = ''TRY_REPLACEMENT_SELECTOR''"
| "healing_action_value HA_SEARCH_CURRENT_UI = ''SEARCH_CURRENT_UI''"
| "healing_action_value HA_REQUIRE_FURTHER_ANALYSIS = ''REQUIRE_FURTHER_ANALYSIS''"
| "healing_action_value HA_DO_NOT_HEAL = ''DO_NOT_HEAL''"

interpretation ha_enum: str_enum healing_action_members healing_action_value
proof unfold_locales
  fix x :: healing_action
  show "x \<in> set healing_action_members" by (cases x) (simp_all add: healing_action_members_def)
  show "distinct (map healing_action_value healing_action_members)" by (simp add: healing_action_members_def)
qed

section \<open>HealingDecision\<close>

datatype healing_decision =
    HD_RECOMMEND_HEALING | HD_REQUIRE_VALIDATION | HD_REQUIRE_FURTHER_ANALYSIS | HD_DO_NOT_HEAL

definition healing_decision_members :: "healing_decision list" where
  "healing_decision_members =
    [HD_RECOMMEND_HEALING, HD_REQUIRE_VALIDATION, HD_REQUIRE_FURTHER_ANALYSIS, HD_DO_NOT_HEAL]"

fun healing_decision_value :: "healing_decision \<Rightarrow> string" where
  "healing_decision_value HD_RECOMMEND_HEALING = ''RECOMMEND_HEALING''"
| "healing_decision_value HD_REQUIRE_VALIDATION = ''REQUIRE_VALIDATION''"
| "healing_decision_value HD_REQUIRE_FURTHER_ANALYSIS = ''REQUIRE_FURTHER_ANALYSIS''"
| "healing_decision_value HD_DO_NOT_HEAL = ''DO_NOT_HEAL''"

interpretation hd_enum: str_enum healing_decision_members healing_decision_value
proof unfold_locales
  fix x :: healing_decision
  show "x \<in> set healing_decision_members" by (cases x) (simp_all add: healing_decision_members_def)
  show "distinct (map healing_decision_value healing_decision_members)" by (simp add: healing_decision_members_def)
qed

section \<open>CandidateSource\<close>

datatype candidate_source =
    CS_HISTORICAL_MEMORY | CS_CURRENT_DOM | CS_LLM_SUGGESTION

definition candidate_source_members :: "candidate_source list" where
  "candidate_source_members =
    [CS_HISTORICAL_MEMORY, CS_CURRENT_DOM, CS_LLM_SUGGESTION]"

fun candidate_source_value :: "candidate_source \<Rightarrow> string" where
  "candidate_source_value CS_HISTORICAL_MEMORY = ''HISTORICAL_MEMORY''"
| "candidate_source_value CS_CURRENT_DOM = ''CURRENT_DOM''"
| "candidate_source_value CS_LLM_SUGGESTION = ''LLM_SUGGESTION''"

interpretation cs_enum: str_enum candidate_source_members candidate_source_value
proof unfold_locales
  fix x :: candidate_source
  show "x \<in> set candidate_source_members" by (cases x) (simp_all add: candidate_source_members_def)
  show "distinct (map candidate_source_value candidate_source_members)" by (simp add: candidate_source_members_def)
qed

section \<open>ValidationStatus\<close>

datatype validation_status =
    VS_SUCCESS | VS_FAILURE | VS_ERROR | VS_SKIPPED

definition validation_status_members :: "validation_status list" where
  "validation_status_members =
    [VS_SUCCESS, VS_FAILURE, VS_ERROR, VS_SKIPPED]"

fun validation_status_value :: "validation_status \<Rightarrow> string" where
  "validation_status_value VS_SUCCESS = ''SUCCESS''"
| "validation_status_value VS_FAILURE = ''FAILURE''"
| "validation_status_value VS_ERROR = ''ERROR''"
| "validation_status_value VS_SKIPPED = ''SKIPPED''"

interpretation vs_enum: str_enum validation_status_members validation_status_value
proof unfold_locales
  fix x :: validation_status
  show "x \<in> set validation_status_members" by (cases x) (simp_all add: validation_status_members_def)
  show "distinct (map validation_status_value validation_status_members)" by (simp add: validation_status_members_def)
qed

section \<open>HealingPatternType\<close>

datatype healing_pattern_type =
    HP_SELECTOR_CHAIN | HP_RELIABLE_REPLACEMENT | HP_UNRELIABLE_REPLACEMENT

definition healing_pattern_type_members :: "healing_pattern_type list" where
  "healing_pattern_type_members =
    [HP_SELECTOR_CHAIN, HP_RELIABLE_REPLACEMENT, HP_UNRELIABLE_REPLACEMENT]"

fun healing_pattern_type_value :: "healing_pattern_type \<Rightarrow> string" where
  "healing_pattern_type_value HP_SELECTOR_CHAIN = ''SELECTOR_CHAIN''"
| "healing_pattern_type_value HP_RELIABLE_REPLACEMENT = ''RELIABLE_REPLACEMENT''"
| "healing_pattern_type_value HP_UNRELIABLE_REPLACEMENT = ''UNRELIABLE_REPLACEMENT''"

interpretation hp_enum: str_enum healing_pattern_type_members healing_pattern_type_value
proof unfold_locales
  fix x :: healing_pattern_type
  show "x \<in> set healing_pattern_type_members" by (cases x) (simp_all add: healing_pattern_type_members_def)
  show "distinct (map healing_pattern_type_value healing_pattern_type_members)" by (simp add: healing_pattern_type_members_def)
qed

section \<open>Confidence levels are ordered\<close>

text \<open>HIGH is more confident than MEDIUM, and MEDIUM than LOW.\<close>

fun confidence_rank :: "confidence_level \<Rightarrow> nat" where
  "confidence_rank CL_LOW = 0"
| "confidence_rank CL_MEDIUM = 1"
| "confidence_rank CL_HIGH = 2"

instantiation confidence_level :: linorder
begin

definition less_eq_confidence_level :: "confidence_level \<Rightarrow> confidence_level \<Rightarrow> bool" where
  "less_eq_confidence_level a b \<longleftrightarrow> confidence_rank a \<le> confidence_rank b"

definition less_confidence_level :: "confidence_level \<Rightarrow> confidence_level \<Rightarrow> bool" where
  "less_confidence_level a b \<longleftrightarrow> confidence_rank a < confidence_rank b"

instance
proof
  fix a b :: confidence_level
  assume "a \<le> b" "b \<le> a"
  then show "a = b" by (cases a; cases b) (simp_all add: less_eq_confidence_level_def)
qed (auto simp: less_eq_confidence_level_def less_confidence_level_def)

end

lemma confidence_less [simp]: "CL_LOW < CL_MEDIUM" "CL_MEDIUM < CL_HIGH" "CL_LOW < CL_HIGH"
  by (simp_all add: less_confidence_level_def)

end
