(* ===== verification/Float64.thy ===== *)
theory Float64
  imports Prelude "HOL-Library.Log_Nat"
begin

text \<open>
  Python floats. A finite binary64 value is represented by the rational number it denotes;
  \<open>fl x\<close> is the binary64 number nearest to \<^term>\<open>x\<close>, ties to the even mantissa, with
  gradual underflow. A Python literal such as 0.8 is \<open>fl 0.8\<close>, and every arithmetic
  operation of the code rounds once: \<open>a + b\<close> is \<open>fl (a + b)\<close>. The decimal built-ins
  \<open>round(x, n)\<close>, \<open>f"{x:.4f}"\<close>, \<open>f"{x:.0%}"\<close> and \<open>str(x)\<close> are correctly
  rounded in CPython, and are defined here from the same rounding.

  Not represented: infinities, NaN and negative zero. The scores of the agents lie in [0, 1]
  (the schemas enforce it), and no operation on them overflows.
\<close>

type_synonym f64 = rat

section \<open>Rounding\<close>

definition round_even :: "rat \<Rightarrow> int" where
  "round_even x = (let f = \<lfloor>x\<rfloor>; d = x - of_int f
     in if d < 1/2 then f else if 1/2 < d then f + 1 else if even f then f else f + 1)"

definition bexp :: "rat \<Rightarrow> int" where
  "bexp x = (let (a, b) = quotient_of \<bar>x\<bar>; e = bitlen a - bitlen b
     in if 2 powi e \<le> \<bar>x\<bar> then e else e - 1)"

definition ulp_exp :: "rat \<Rightarrow> int" where
  "ulp_exp x = max (bexp x - 52) (-1074)"

definition fl :: "rat \<Rightarrow> f64" where
  "fl x = (if x = 0 then 0
     else of_int (round_even (x / 2 powi ulp_exp x)) * 2 powi ulp_exp x)"

definition py_round :: "nat \<Rightarrow> f64 \<Rightarrow> f64" where
  "py_round n x = fl (of_int (round_even (x * 10 ^ n)) / 10 ^ n)"

definition unit_interval :: "f64 \<Rightarrow> bool" where
  "unit_interval x \<longleftrightarrow> 0 \<le> x \<and> x \<le> 1"

section \<open>Decimal rendering\<close>

text \<open>\<open>f"{x:.nf}"\<close>\<close>

definition fmt_fixed :: "nat \<Rightarrow> f64 \<Rightarrow> string" where
  "fmt_fixed n x =
     (let m = round_even (\<bar>x\<bar> * 10 ^ n); whole = show_digits (m div 10 ^ n);
          frac = show_digits (m mod 10 ^ n)
      in (if x < 0 then ''-'' else []) @ whole @
         (if n = 0 then [] else ''.'' @ replicate (n - length frac) (CHR ''0'') @ frac))"

text \<open>\<open>f"{x:.0%}"\<close>: the value is multiplied by 100 as a float first.\<close>

definition fmt_percent :: "f64 \<Rightarrow> string" where
  "fmt_percent x = fmt_fixed 0 (fl (x * 100)) @ ''%''"

text \<open>
  \<open>str(x)\<close>: the shortest decimal that reads back as \<^term>\<open>x\<close>. \<open>dec_point x\<close> is the
  position of the decimal point; \<open>shortest\<close> tries 1, 2, \<dots> significant digits (17 always
  suffice for binary64).
\<close>

fun leading_zeros :: "nat \<Rightarrow> rat \<Rightarrow> nat" where
  "leading_zeros 0 x = 0"
| "leading_zeros (Suc fuel) x = (if 1/10 \<le> x then 0 else Suc (leading_zeros fuel (10 * x)))"

definition dec_point :: "rat \<Rightarrow> int" where
  "dec_point x = (if 1 \<le> x then int (length (show_digits \<lfloor>x\<rfloor>)) else - int (leading_zeros 400 x))"

definition digits_at :: "nat \<Rightarrow> rat \<Rightarrow> int \<times> int" where
  "digits_at n x = (let k = dec_point x; m = round_even (x * 10 powi (int n - k))
     in if m = 10 ^ n then (10 ^ (n - 1), k + 1) else (m, k))"

fun shortest :: "nat \<Rightarrow> nat \<Rightarrow> rat \<Rightarrow> int \<times> int \<times> nat" where
  "shortest 0 n x = (let (m, k) = digits_at n x in (m, k, n))"
| "shortest (Suc fuel) n x =
     (let (m, k) = digits_at n x
      in if fl (of_int m * 10 powi (k - int n)) = x then (m, k, n) else shortest fuel (Suc n) x)"

definition strip_zeros :: "string \<Rightarrow> string" where
  "strip_zeros s = (let t = rev (dropWhile (\<lambda>c. c = CHR ''0'') (rev s)) in if t = [] then ''0'' else t)"

definition py_str_float :: "f64 \<Rightarrow> string" where
  "py_str_float x =
     (if x = 0 then ''0.0'' else
      let (m, k, n) = shortest 16 1 \<bar>x\<bar>; ds = strip_zeros (show_digits m); l = int (length ds);
          body =
            (if - 4 < k \<and> k \<le> 16 then
               (if k \<le> 0 then ''0.'' @ replicate (nat (- k)) (CHR ''0'') @ ds
                else if l \<le> k then ds @ replicate (nat (k - l)) (CHR ''0'') @ ''.0''
                else take (nat k) ds @ ''.'' @ drop (nat k) ds)
             else take 1 ds @ (if l = 1 then [] else ''.'' @ drop 1 ds) @
                  (if k - 1 < 0 then ''e-'' else ''e+'') @
                  (let e = show_digits \<bar>k - 1\<bar> in replicate (2 - length e) (CHR ''0'') @ e))
      in (if x < 0 then ''-'' else []) @ body)"

section \<open>Rounding to an integer\<close>

lemma round_even_of_int [simp]: "round_even (of_int n) = n"
  by (simp add: round_even_def)

lemma round_even_0 [simp]: "round_even 0 = 0"
  using round_even_of_int[of 0] by simp

lemma round_even_1 [simp]: "round_even 1 = 1"
  using round_even_of_int[of 1] by simp

lemma round_even_bounds: "\<lfloor>x\<rfloor> \<le> round_even x" "round_even x \<le> \<lfloor>x\<rfloor> + 1"
  by (auto simp: round_even_def Let_def)

lemma round_even_mono:
  assumes "x \<le> y" shows "round_even x \<le> round_even y"
proof (cases "\<lfloor>x\<rfloor> = \<lfloor>y\<rfloor>")
  case True
  with assms show ?thesis by (auto simp: round_even_def Let_def)
next
  case False
  with assms have "\<lfloor>x\<rfloor> + 1 \<le> \<lfloor>y\<rfloor>" using floor_mono[of x y] by simp
  then show ?thesis using round_even_bounds[of x] round_even_bounds[of y] by linarith
qed

lemma round_even_minus: "round_even (- x) = - round_even x"
proof -
  define f d where "f = \<lfloor>x\<rfloor>" and "d = x - of_int f"
  have d: "0 \<le> d" "d < 1" by (auto simp: f_def d_def) linarith
  have x: "x = of_int f + d" by (simp add: d_def)
  show ?thesis
  proof (cases "d = 0")
    case True
    then show ?thesis using x by (metis add.right_neutral of_int_minus round_even_of_int)
  next
    case False
    with d have fm: "\<lfloor>- x\<rfloor> = - f - 1" by (intro floor_unique) (auto simp: x)
    have "- x - of_int (- f - 1) = 1 - d" by (simp add: x)
    then show ?thesis using d False
      by (simp add: round_even_def fm Let_def f_def[symmetric] d_def[symmetric])
  qed
qed

lemma round_even_le_of_int: "x \<le> of_int n \<Longrightarrow> round_even x \<le> n"
  using round_even_mono[of x "of_int n"] by simp

lemma of_int_le_round_even: "of_int n \<le> x \<Longrightarrow> n \<le> round_even x"
  using round_even_mono[of "of_int n" x] by simp

section \<open>Rounding to binary64 is monotone\<close>

lemma powi_pos [simp]: "0 < (2::rat) powi e"
  by simp

lemma bitlen_powi:
  assumes "0 < a"
  shows "2 powi (bitlen a - 1) \<le> (of_int a :: rat)" "(of_int a :: rat) < 2 powi bitlen a"
proof -
  have l: "1 \<le> bitlen a" using assms bitlen_eq_zero_iff[of a] bitlen_nonneg[of a] by linarith
  have "2 ^ nat (bitlen a - 1) \<le> a" "a < 2 ^ nat (bitlen a)"
    using bitlen_bounds[OF assms] by auto
  then have "(of_int (2 ^ nat (bitlen a - 1)) :: rat) \<le> of_int a"
    "(of_int a :: rat) < of_int (2 ^ nat (bitlen a))"
    by (simp_all only: of_int_le_iff of_int_less_iff)
  then show "2 powi (bitlen a - 1) \<le> (of_int a :: rat)" "(of_int a :: rat) < 2 powi bitlen a"
    using l by (simp_all add: power_int_nonneg_exp)
qed

lemma bexp_bounds:
  assumes "x \<noteq> 0"
  shows "2 powi bexp x \<le> \<bar>x\<bar>" "\<bar>x\<bar> < 2 powi (bexp x + 1)"
proof -
  obtain a b where ab: "quotient_of \<bar>x\<bar> = (a, b)" by fastforce
  then have b: "0 < b" and xab: "\<bar>x\<bar> = of_int a / of_int b"
    using quotient_of_denom_pos quotient_of_div by blast+
  have "0 < \<bar>x\<bar> * of_int b" using assms b by simp
  then have a: "0 < a" using b by (simp add: xab)
  define e where "e = bitlen a - bitlen b"
  have "\<bar>x\<bar> < 2 powi bitlen a / 2 powi (bitlen b - 1)"
    unfolding xab using bitlen_powi[OF a] bitlen_powi[OF b] a b
    by (intro frac_less) simp_all
  also have "\<dots> = 2 powi (e + 1)" by (simp add: e_def power_int_diff power_int_add)
  finally have up: "\<bar>x\<bar> < 2 powi (e + 1)" .
  have "2 powi (e - 1) = (2::rat) powi (bitlen a - 1) / 2 powi bitlen b"
    by (simp add: e_def power_int_diff power_int_add)
  also have "\<dots> \<le> \<bar>x\<bar>"
    unfolding xab using bitlen_powi[OF a] bitlen_powi[OF b] a b
    by (intro frac_le) simp_all
  finally have low: "2 powi (e - 1) \<le> \<bar>x\<bar>" .
  have bx: "bexp x = (if 2 powi e \<le> \<bar>x\<bar> then e else e - 1)"
    by (simp add: bexp_def ab e_def)
  show "2 powi bexp x \<le> \<bar>x\<bar>" using low by (simp add: bx)
  show "\<bar>x\<bar> < 2 powi (bexp x + 1)" using up by (simp add: bx)
qed

lemma bexp_mono:
  assumes "x \<noteq> 0" "\<bar>x\<bar> \<le> \<bar>y\<bar>"
  shows "bexp x \<le> bexp y"
proof -
  have "y \<noteq> 0" using assms by auto
  then have "2 powi bexp x < (2::rat) powi (bexp y + 1)"
    using bexp_bounds(1)[OF assms(1)] bexp_bounds(2)[of y] assms(2) by linarith
  then have "\<not> bexp y + 1 \<le> bexp x" using power_int_increasing[of "bexp y + 1" "bexp x" "2::rat"] by auto
  then show ?thesis by simp
qed

lemma fl_0 [simp]: "fl 0 = 0"
  by (simp add: fl_def)

lemma ulp_exp_minus [simp]: "ulp_exp (- x) = ulp_exp x"
  by (simp add: ulp_exp_def bexp_def)

lemma fl_minus: "fl (- x) = - fl x"
  by (simp add: fl_def round_even_minus minus_divide_left[symmetric] del: minus_divide_left)

lemma fl_nonneg: "0 \<le> x \<Longrightarrow> 0 \<le> fl x"
  by (auto simp: fl_def intro!: mult_nonneg_nonneg of_int_le_round_even[of 0, simplified])

text \<open>A power of two that the rounding unit divides bounds the rounded value too.\<close>

lemma fl_le_pow2:
  assumes "0 < x" "x \<le> 2 powi k" "ulp_exp x \<le> k"
  shows "fl x \<le> 2 powi k"
proof -
  let ?u = "(2::rat) powi ulp_exp x"
  have e: "(2::rat) powi k = of_int (2 ^ nat (k - ulp_exp x)) * ?u"
    using assms(3) by (simp add: power_int_nonneg_exp[symmetric] power_int_diff)
  have "x / ?u \<le> of_int (2 ^ nat (k - ulp_exp x))"
    using assms(2) by (simp only: e pos_divide_le_eq powi_pos)
  then have "round_even (x / ?u) \<le> 2 ^ nat (k - ulp_exp x)" by (rule round_even_le_of_int)
  then have "of_int (round_even (x / ?u)) \<le> (of_int (2 ^ nat (k - ulp_exp x)) :: rat)"
    by (simp only: of_int_le_iff)
  then show ?thesis using assms(1) unfolding e fl_def
    by (simp only: mult_right_mono powi_pos less_imp_le if_False simp_thms less_le)
       (simp add: mult_right_mono)
qed

lemma pow2_le_fl:
  assumes "2 powi k \<le> x" "ulp_exp x \<le> k"
  shows "2 powi k \<le> fl x"
proof -
  let ?u = "(2::rat) powi ulp_exp x"
  have x0: "x \<noteq> 0" using assms(1) powi_pos[of k] by linarith
  have e: "(2::rat) powi k = of_int (2 ^ nat (k - ulp_exp x)) * ?u"
    using assms(2) by (simp add: power_int_nonneg_exp[symmetric] power_int_diff)
  have "of_int (2 ^ nat (k - ulp_exp x)) \<le> x / ?u"
    using assms(1) by (simp only: e pos_le_divide_eq powi_pos)
  then have "2 ^ nat (k - ulp_exp x) \<le> round_even (x / ?u)" by (rule of_int_le_round_even)
  then have "(of_int (2 ^ nat (k - ulp_exp x)) :: rat) \<le> of_int (round_even (x / ?u))"
    by (simp only: of_int_le_iff)
  then show ?thesis using x0 unfolding e fl_def by (simp add: mult_right_mono)
qed

lemma fl_mono_nonneg:
  assumes "0 \<le> x" "x \<le> y"
  shows "fl x \<le> fl y"
proof (cases "x = 0")
  case True
  then show ?thesis using assms fl_nonneg by simp
next
  case False
  with assms have x: "0 < x" and y: "0 < y" by auto
  have be: "bexp x \<le> bexp y" using bexp_mono[of x y] x assms by simp
  show ?thesis
  proof (cases "ulp_exp x = ulp_exp y")
    case True
    have "round_even (x / 2 powi ulp_exp y) \<le> round_even (y / 2 powi ulp_exp y)"
      using assms by (intro round_even_mono divide_right_mono) simp_all
    then show ?thesis using x y by (simp add: fl_def True mult_right_mono)
  next
    case False
    then have k: "ulp_exp y = bexp y - 52" "bexp x < bexp y" "ulp_exp x \<le> bexp y"
      "ulp_exp y \<le> bexp y" using be by (auto simp: ulp_exp_def max_def split: if_splits)
    have "x \<le> 2 powi (bexp x + 1)" using bexp_bounds(2)[of x] x by simp
    also have "\<dots> \<le> 2 powi bexp y" using k by (intro power_int_increasing) auto
    finally have "fl x \<le> 2 powi bexp y" using x k by (intro fl_le_pow2)
    also have "\<dots> \<le> fl y" using bexp_bounds(1)[of y] y k by (intro pow2_le_fl) auto
    finally show ?thesis .
  qed
qed

lemma fl_mono: "x \<le> y \<Longrightarrow> fl x \<le> fl y"
  using fl_mono_nonneg[of x y] fl_mono_nonneg[of "- y" "- x"] fl_nonneg[of y] fl_nonneg[of "- x"]
  by (cases "0 \<le> x"; cases "0 \<le> y") (auto simp: fl_minus intro: order_trans)

lemma fl_1 [simp]: "fl 1 = 1"
  by code_simp

lemma fl_unit: "unit_interval x \<Longrightarrow> unit_interval (fl x)"
  using fl_mono[of 0 x] fl_mono[of x 1] by (simp add: unit_interval_def)

lemma fl_nonpos: "x \<le> 0 \<Longrightarrow> fl x \<le> 0"
  using fl_mono[of x 0] by simp

lemma py_round_mono: "x \<le> y \<Longrightarrow> py_round n x \<le> py_round n y"
  unfolding py_round_def
  by (intro fl_mono divide_right_mono) (simp_all add: round_even_mono mult_right_mono)

lemma py_round_0 [simp]: "py_round n 0 = 0"
  by (simp add: py_round_def)

lemma py_round_1 [simp]: "py_round n 1 = 1"
proof -
  have "round_even (10 ^ n) = 10 ^ n" using round_even_of_int[of "10 ^ n"] by simp
  then show ?thesis by (simp add: py_round_def)
qed

lemma py_round_unit: "unit_interval x \<Longrightarrow> unit_interval (py_round n x)"
  using py_round_mono[of 0 x n] py_round_mono[of x 1 n] by (simp add: unit_interval_def)

lemma unit_min_1: "0 \<le> x \<Longrightarrow> unit_interval (min x 1)" "0 \<le> x \<Longrightarrow> unit_interval (min 1 x)"
  by (simp_all add: unit_interval_def)

lemma unit_clamp: "unit_interval (min (max x 0) 1)"
  by (simp add: unit_interval_def)

lemma unit_0 [simp]: "unit_interval 0" and unit_1 [simp]: "unit_interval 1"
  by (simp_all add: unit_interval_def)

lemma fl_fraction_unit: "s \<le> n \<Longrightarrow> unit_interval (fl (of_nat s / of_nat n))"
  by (rule fl_unit) (auto simp: unit_interval_def divide_le_eq_1)

section \<open>Sums and means\<close>

text \<open>\<open>sum(xs)\<close> of floats: additions from the left, each rounded.\<close>

definition float_sum :: "f64 list \<Rightarrow> f64" where
  "float_sum xs = foldl (\<lambda>a x. fl (a + x)) 0 xs"

lemma float_sum_nonneg:
  assumes "\<forall>x \<in> set xs. 0 \<le> x"
  shows "0 \<le> float_sum xs"
proof -
  have "0 \<le> foldl (\<lambda>a x. fl (a + x)) a xs" if "0 \<le> a" for a
    using that assms by (induction xs arbitrary: a) (simp_all add: fl_nonneg)
  then show ?thesis by (simp add: float_sum_def)
qed

lemma fl_small_nat:
  assumes "n \<le> 16" shows "fl (of_nat n) = of_nat n"
proof -
  have "list_all (\<lambda>n. fl (of_nat n) = of_nat n) [0..<17]" by code_simp
  then show ?thesis using assms by (simp add: list_all_iff)
qed

lemma float_sum_le:
  assumes "\<forall>x \<in> set xs. x \<le> 1" "length xs \<le> 16"
  shows "float_sum xs \<le> of_nat (length xs)"
proof -
  have "foldl (\<lambda>a x. fl (a + x)) a xs \<le> of_nat (k + length xs)"
    if "a \<le> of_nat k" "k + length xs \<le> 16" for a :: rat and k
    using that assms(1)
  proof (induction xs arbitrary: a k)
    case (Cons x xs)
    have "fl (a + x) \<le> fl (of_nat (Suc k))" using Cons.prems by (intro fl_mono) simp
    also have "\<dots> = of_nat (Suc k)" using Cons.prems(2) by (intro fl_small_nat) simp
    finally show ?case using Cons.IH[of "fl (a + x)" "Suc k"] Cons.prems(2,3) by simp
  qed simp
  from this[of 0 0] assms(2) show ?thesis by (simp add: float_sum_def)
qed

lemma float_mean_unit:
  assumes "\<forall>x \<in> set xs. unit_interval x" "length xs \<le> 16"
  shows "unit_interval (fl (float_sum xs / of_nat (length xs)))"
proof (rule fl_unit)
  have "0 \<le> float_sum xs" "float_sum xs \<le> of_nat (length xs)"
    using assms by (auto intro!: float_sum_nonneg float_sum_le simp: unit_interval_def)
  then show "unit_interval (float_sum xs / of_nat (length xs))"
    by (cases "xs = []") (simp_all add: unit_interval_def divide_simps)
qed

lemma fl_minus_unit: "unit_interval x \<Longrightarrow> unit_interval (fl (1 - x))"
  by (intro fl_unit) (simp add: unit_interval_def)

section \<open>Square roots\<close>

text \<open>
  The integer square root, one bit at a time, and \<open>x ** 0.5\<close>: an integer root with more than
  53 bits and a sticky bit for the remainder, which rounds as the exact root does.
\<close>

fun isqrt_bits :: "nat \<Rightarrow> nat \<Rightarrow> nat \<Rightarrow> nat" where
  "isqrt_bits 0 n acc = acc"
| "isqrt_bits (Suc k) n acc =
     (let c = acc + 2 ^ k in isqrt_bits k n (if c * c \<le> n then c else acc))"

definition isqrt :: "nat \<Rightarrow> nat" where
  "isqrt n = isqrt_bits (nat (bitlen (int n)) div 2 + 1) n 0"

definition py_sqrt :: "f64 \<Rightarrow> f64" where
  "py_sqrt x =
     (if x \<le> 0 then 0
      else
        let s = nat (60 - bexp x div 2);
            n = nat \<lfloor>x * 4 ^ s\<rfloor>; r = isqrt n
        in fl (if of_nat (r * r) = x * 4 ^ s then of_nat r / 2 ^ s
               else of_nat (2 * r + 1) / 2 ^ (s + 1)))"

lemma isqrt_bits_bounds:
  assumes "acc * acc \<le> n" "n < (acc + 2 ^ k) * (acc + 2 ^ k)"
  shows "isqrt_bits k n acc * isqrt_bits k n acc \<le> n \<and>
    n < (isqrt_bits k n acc + 1) * (isqrt_bits k n acc + 1)"
  using assms
proof (induction k n acc rule: isqrt_bits.induct)
  case (2 k n acc)
  let ?c = "acc + 2 ^ k"
  have c: "acc + 2 ^ Suc k = ?c + 2 ^ k" by simp
  show ?case
  proof (cases "?c * ?c \<le> n")
    case True
    then show ?thesis using 2(1)[OF refl] 2(3) unfolding c by (simp add: Let_def)
  next
    case False
    then show ?thesis using 2(1)[OF refl] 2(2) by (simp add: Let_def)
  qed
qed simp

lemma isqrt_0 [simp]: "isqrt 0 = 0"
  by code_simp

lemma isqrt_bounds: "isqrt n * isqrt n \<le> n \<and> n < (isqrt n + 1) * (isqrt n + 1)"
proof (cases "n = 0")
  case False
  let ?k = "nat (bitlen (int n)) div 2 + 1"
  have "int n < 2 ^ nat (bitlen (int n))" using bitlen_bounds[of "int n"] False by (simp add: bitlen_nonneg)
  then have "n < 2 ^ nat (bitlen (int n))" by (metis of_nat_less_numeral_power_cancel_iff)
  also have "\<dots> \<le> 2 ^ (2 * ?k)" by (intro power_increasing) auto
  also have "(2::nat) ^ (2 * ?k) = 2 ^ ?k * 2 ^ ?k" by (metis mult_2 power_add)
  finally show ?thesis unfolding isqrt_def by (intro isqrt_bits_bounds) simp_all
qed simp

lemma py_sqrt_nonneg: "0 \<le> py_sqrt x"
  by (simp add: py_sqrt_def Let_def fl_nonneg)

end
