(* ===== verification/Memory_Schemas.thy ===== *)
theory Memory_Schemas
  imports Enums Float64
begin

text \<open>
  The records of \<^verbatim>\<open>agents/memory/memory_schemas.py\<close>: execution, element and healing
  records and the comparison report. The \<open>valid_\<close> predicates state the constraints the
  classes declare (\<open>min_length\<close>, \<open>ge\<close>, \<open>le\<close>, the timestamp validator); constructing a
  record that violates them raises in Python.

  A field of type \<open>Any\<close> holds a \<^theory_text>\<open>pyval\<close>, a value of Python's JSON-like data.
\<close>

datatype pyval =
    PNone
  | PBool bool
  | PInt int
  | PFloat f64
  | PStr string
  | PList "pyval list"
  | PDict "(string \<times> pyval) list"

definition opt_str :: "string option \<Rightarrow> pyval" where
  "opt_str s = (case s of None \<Rightarrow> PNone | Some t \<Rightarrow> PStr t)"

section \<open>Execution records\<close>

record failure_info =
  fi_error_message :: string
  fi_failure_type :: "failure_type option"
  fi_failed_step :: "int option"
  fi_selector :: "string option"
  fi_page_url :: "string option"
  fi_stack_trace :: "string option"

definition valid_failure_info :: "failure_info \<Rightarrow> bool" where
  "valid_failure_info f \<longleftrightarrow>
     fi_error_message f \<noteq> [] \<and> (case fi_failed_step f of None \<Rightarrow> True | Some n \<Rightarrow> 1 \<le> n)"

record execution_record =
  er_execution_id :: string
  er_test_id :: string
  er_test_name :: string
  er_timestamp :: string
  er_status :: execution_status
  er_duration_ms :: "f64 option"
  er_failure_info :: "failure_info option"
  er_metadata :: "(string \<times> pyval) list"

definition valid_execution_record :: "execution_record \<Rightarrow> bool" where
  "valid_execution_record r \<longleftrightarrow>
     er_execution_id r \<noteq> [] \<and> er_test_id r \<noteq> [] \<and> er_test_name r \<noteq> [] \<and>
     \<not> blank (er_timestamp r) \<and>
     (case er_duration_ms r of None \<Rightarrow> True | Some d \<Rightarrow> 0 \<le> d) \<and>
     (case er_failure_info r of None \<Rightarrow> True | Some f \<Rightarrow> valid_failure_info f)"

section \<open>Element records\<close>

record element_record =
  el_element_id :: string
  el_selector :: string
  el_text :: "string option"
  el_role :: "string option"
  el_page_url :: "string option"
  el_page_name :: "string option"
  el_attributes :: "(string \<times> string) list"
  el_last_seen :: string
  el_last_success_id :: "string option"

definition valid_element_record :: "element_record \<Rightarrow> bool" where
  "valid_element_record e \<longleftrightarrow>
     el_element_id e \<noteq> [] \<and> el_selector e \<noteq> [] \<and> distinct (map fst (el_attributes e))"

section \<open>Healing records\<close>

record healing_record =
  hr_healing_id :: string
  hr_test_id :: string
  hr_old_selector :: string
  hr_new_selector :: string
  hr_healing_reason :: string
  hr_confidence :: f64
  hr_validation_result :: "bool option"
  hr_timestamp :: string

definition valid_healing_record :: "healing_record \<Rightarrow> bool" where
  "valid_healing_record r \<longleftrightarrow>
     hr_healing_id r \<noteq> [] \<and> hr_test_id r \<noteq> [] \<and> hr_old_selector r \<noteq> [] \<and>
     hr_new_selector r \<noteq> [] \<and> unit_interval (hr_confidence r)"

section \<open>Comparison report\<close>

record field_change =
  fc_field_name :: string
  fc_old_value :: "string option"
  fc_new_value :: "string option"
  fc_change_type :: change_type

record comparison_result =
  cr_element_id :: string
  cr_previous_selector :: string
  cr_current_selector :: string
  cr_changes :: "field_change list"
  cr_is_identical :: bool

end
