(* ===== verification/Memory_Store.thy ===== *)
theory Memory_Store
  imports Memory_Schemas
begin

text \<open>
  The in-memory store of \<^verbatim>\<open>agents/memory/in_memory_store.py\<close>: three insertion-ordered
  dictionaries of record lists, the validating \<open>store_\<close> operations and the queries, which
  answer newest first. A rejected record is \<open>Inl\<close> of the \<open>ValueError\<close>'s message.

  \<open>healing_memory\<close> is the part of the \<open>MemoryStore\<close> interface that the healing agents
  rely on; what they need of it is proved once in the locale, and the in-memory store
  interprets it at the end.
\<close>

record mem_store =
  ms_executions :: "(string \<times> execution_record list) list"
  ms_elements :: "(string \<times> element_record list) list"
  ms_healing :: "(string \<times> healing_record list) list"

definition empty_store :: mem_store where
  "empty_store = \<lparr>ms_executions = [], ms_elements = [], ms_healing = []\<rparr>"

section \<open>Validation\<close>

definition require_text :: "string \<Rightarrow> string \<Rightarrow> string option" where
  "require_text field v = (if blank v then Some (field @ '' must not be empty'') else None)"

fun first_error :: "string option list \<Rightarrow> string option" where
  "first_error [] = None"
| "first_error (Some e # _) = Some e"
| "first_error (None # es) = first_error es"

definition validate_execution :: "execution_record \<Rightarrow> string option" where
  "validate_execution r = first_error
     [require_text ''execution_id'' (er_execution_id r),
      require_text ''test_id'' (er_test_id r),
      require_text ''test_name'' (er_test_name r)]"

definition validate_element :: "element_record \<Rightarrow> string option" where
  "validate_element r = first_error
     [require_text ''element_id'' (el_element_id r),
      require_text ''selector'' (el_selector r)]"

definition validate_healing :: "healing_record \<Rightarrow> string option" where
  "validate_healing r = first_error
     [require_text ''healing_id'' (hr_healing_id r),
      require_text ''old_selector'' (hr_old_selector r),
      require_text ''new_selector'' (hr_new_selector r)]"

section \<open>Execution history\<close>

definition store_execution :: "execution_record \<Rightarrow> mem_store \<Rightarrow> string + mem_store" where
  "store_execution r s =
     (case validate_execution r of
        Some e \<Rightarrow> Inl e
      | None \<Rightarrow> Inr (s\<lparr>ms_executions := dict_append (er_test_id r) r (ms_executions s)\<rparr>))"

definition get_execution_history :: "mem_store \<Rightarrow> string \<Rightarrow> int \<Rightarrow> execution_record list" where
  "get_execution_history s test_id limit =
     slice_to limit (sort_desc er_timestamp (dict_get_list (ms_executions s) test_id))"

definition is_passed :: "execution_record \<Rightarrow> bool" where
  "is_passed r = (er_status r = ES_PASSED)"

definition is_failed :: "execution_record \<Rightarrow> bool" where
  "is_failed r = (er_status r = ES_FAILED \<or> er_status r = ES_ERROR)"

definition get_latest_successful_execution :: "mem_store \<Rightarrow> string \<Rightarrow> execution_record option" where
  "get_latest_successful_execution s test_id =
     max_by er_timestamp (filter is_passed (dict_get_list (ms_executions s) test_id))"

definition get_failure_history :: "mem_store \<Rightarrow> string \<Rightarrow> int \<Rightarrow> execution_record list" where
  "get_failure_history s test_id limit =
     slice_to limit (sort_desc er_timestamp (filter is_failed (dict_get_list (ms_executions s) test_id)))"

section \<open>Element history\<close>

definition store_element :: "element_record \<Rightarrow> mem_store \<Rightarrow> string + mem_store" where
  "store_element r s =
     (case validate_element r of
        Some e \<Rightarrow> Inl e
      | None \<Rightarrow> Inr (s\<lparr>ms_elements := dict_append (el_element_id r) r (ms_elements s)\<rparr>))"

definition get_element_history :: "mem_store \<Rightarrow> string \<Rightarrow> element_record list" where
  "get_element_history s element_id =
     sort_desc el_last_seen (dict_get_list (ms_elements s) element_id)"

definition get_element_by_selector :: "mem_store \<Rightarrow> string \<Rightarrow> string option \<Rightarrow> element_record option" where
  "get_element_by_selector s selector page_url =
     max_by el_last_seen
       (filter (\<lambda>r. el_selector r = selector \<and> (page_url = None \<or> el_page_url r = page_url))
          (concat (map snd (ms_elements s))))"

section \<open>Healing history\<close>

definition store_healing_record :: "healing_record \<Rightarrow> mem_store \<Rightarrow> string + mem_store" where
  "store_healing_record r s =
     (case validate_healing r of
        Some e \<Rightarrow> Inl e
      | None \<Rightarrow> Inr (s\<lparr>ms_healing := dict_append (hr_old_selector r) r (ms_healing s)\<rparr>))"

definition get_healing_history :: "mem_store \<Rightarrow> string \<Rightarrow> int \<Rightarrow> healing_record list" where
  "get_healing_history s selector limit =
     slice_to limit (sort_desc hr_timestamp (dict_get_list (ms_healing s) selector))"

definition get_healing_history_for_replacement ::
  "mem_store \<Rightarrow> string \<Rightarrow> string \<Rightarrow> int \<Rightarrow> healing_record list" where
  "get_healing_history_for_replacement s old_selector new_selector limit =
     slice_to limit (sort_desc hr_timestamp
       (filter (\<lambda>r. hr_new_selector r = new_selector) (dict_get_list (ms_healing s) old_selector)))"

section \<open>Aggregated context and reset\<close>

record test_context =
  tx_test_id :: string
  tx_execution_count :: nat
  tx_pass_count :: nat
  tx_fail_count :: nat
  tx_latest_execution :: "execution_record option"
  tx_latest_success :: "execution_record option"
  tx_recent_failures :: "execution_record list"

definition get_test_context :: "mem_store \<Rightarrow> string \<Rightarrow> test_context" where
  "get_test_context s test_id =
     (let all_records = dict_get_list (ms_executions s) test_id;
          sorted_all = sort_desc er_timestamp all_records
      in \<lparr>tx_test_id = test_id,
          tx_execution_count = length all_records,
          tx_pass_count = count_if is_passed all_records,
          tx_fail_count = count_if is_failed all_records,
          tx_latest_execution = (case sorted_all of [] \<Rightarrow> None | r # _ \<Rightarrow> Some r),
          tx_latest_success = get_latest_successful_execution s test_id,
          tx_recent_failures = get_failure_history s test_id 5\<rparr>)"

definition clear_store :: "mem_store \<Rightarrow> mem_store" where
  "clear_store s = s\<lparr>ms_executions := [], ms_elements := [], ms_healing := []\<rparr>"

section \<open>Validation lemmas\<close>

lemma first_error_None: "first_error es = None \<longleftrightarrow> (\<forall>e \<in> set es. e = None)"
  by (induction es rule: first_error.induct) auto

lemma require_text_None [simp]: "require_text f v = None \<longleftrightarrow> \<not> blank v"
  by (simp add: require_text_def)

lemma validate_execution_None:
  "validate_execution r = None \<longleftrightarrow>
     \<not> blank (er_execution_id r) \<and> \<not> blank (er_test_id r) \<and> \<not> blank (er_test_name r)"
  by (simp add: validate_execution_def first_error_None)

lemma validate_element_None:
  "validate_element r = None \<longleftrightarrow> \<not> blank (el_element_id r) \<and> \<not> blank (el_selector r)"
  by (simp add: validate_element_def first_error_None)

lemma validate_healing_None:
  "validate_healing r = None \<longleftrightarrow>
     \<not> blank (hr_healing_id r) \<and> \<not> blank (hr_old_selector r) \<and> \<not> blank (hr_new_selector r)"
  by (simp add: validate_healing_def first_error_None)

lemma store_healing_record_Inr:
  "store_healing_record r s = Inr s' \<longleftrightarrow>
     validate_healing r = None \<and>
     s' = s\<lparr>ms_healing := dict_append (hr_old_selector r) r (ms_healing s)\<rparr>"
  by (auto simp: store_healing_record_def split: option.splits)

section \<open>The interface the healing agents rely on\<close>

text \<open>
  \<open>recs s k\<close> is the abstract content: the records stored for the original selector \<open>k\<close>,
  in the order they were stored.
\<close>

locale healing_memory =
  fixes store :: "healing_record \<Rightarrow> 's \<Rightarrow> string + 's"
    and history :: "'s \<Rightarrow> string \<Rightarrow> int \<Rightarrow> healing_record list"
    and pair_history :: "'s \<Rightarrow> string \<Rightarrow> string \<Rightarrow> int \<Rightarrow> healing_record list"
    and recs :: "'s \<Rightarrow> string \<Rightarrow> healing_record list"
  assumes store_accepts: "(\<exists>s'. store r s = Inr s') \<longleftrightarrow> validate_healing r = None"
    and store_recs: "store r s = Inr s' \<Longrightarrow>
        recs s' k = (if k = hr_old_selector r then recs s k @ [r] else recs s k)"
    and history_is: "history s k n = slice_to n (sort_desc hr_timestamp (recs s k))"
    and pair_history_is: "pair_history s k c n =
        slice_to n (sort_desc hr_timestamp (filter (\<lambda>r. hr_new_selector r = c) (recs s k)))"
begin

lemma history_subset: "set (history s k n) \<subseteq> set (recs s k)"
  using set_slice_to by (fastforce simp: history_is)

lemma pair_history_subset:
  "r \<in> set (pair_history s k c n) \<Longrightarrow> r \<in> set (recs s k) \<and> hr_new_selector r = c"
  using set_slice_to by (fastforce simp: pair_history_is)

lemma history_newest_first: "sorted_wrt (\<lambda>a b. hr_timestamp b \<le> hr_timestamp a) (history s k n)"
  by (simp add: history_is slice_to_def sorted_wrt_take sorted_wrt_sort_desc)

lemma history_dropped_older:
  assumes "0 \<le> n" "r \<in> set (recs s k)" "r \<notin> set (history s k n)" "q \<in> set (history s k n)"
  shows "hr_timestamp r \<le> hr_timestamp q"
proof -
  let ?l = "sort_desc hr_timestamp (recs s k)"
  have "q \<in> set (take (nat n) ?l)" "r \<notin> set (take (nat n) ?l)"
    using assms by (simp_all add: history_is slice_to_take)
  moreover have "r \<in> set (take (nat n) ?l) \<union> set (drop (nat n) ?l)"
    using assms(2) by (metis append_take_drop_id set_append set_sort_desc)
  moreover have "sorted_wrt (\<lambda>a b. hr_timestamp b \<le> hr_timestamp a)
      (take (nat n) ?l @ drop (nat n) ?l)"
    by (simp add: sorted_wrt_sort_desc)
  ultimately show ?thesis by (auto simp only: sorted_wrt_append)
qed

lemma pair_history_all:
  assumes "int (length (recs s k)) \<le> n"
  shows "set (pair_history s k c n) = {r \<in> set (recs s k). hr_new_selector r = c}"
proof -
  let ?f = "filter (\<lambda>r. hr_new_selector r = c) (recs s k)"
  have "length ?f \<le> length (recs s k)" by simp
  then have "int (length (sort_desc hr_timestamp ?f)) \<le> n"
    using assms unfolding length_sort_desc by linarith
  then show ?thesis by (simp add: pair_history_is slice_to_all)
qed

text \<open>A record newer than everything stored for its selector comes first in every history.\<close>

lemma newest_first_after_store:
  assumes "store r s = Inr s'" "1 \<le> n"
    and "\<forall>q \<in> set (recs s (hr_old_selector r)). hr_timestamp q < hr_timestamp r"
  shows "r \<in> set (history s' (hr_old_selector r) n)"
    and "r \<in> set (pair_history s' (hr_old_selector r) (hr_new_selector r) n)"
proof -
  have recs': "recs s' (hr_old_selector r) = recs s (hr_old_selector r) @ [r]"
    using store_recs[OF assms(1)] by simp
  obtain m where m: "nat n = Suc m" using assms(2) by (cases "nat n") auto
  with assms recs' show "r \<in> set (history s' (hr_old_selector r) n)"
    "r \<in> set (pair_history s' (hr_old_selector r) (hr_new_selector r) n)"
    by (simp_all add: history_is pair_history_is slice_to_take sort_desc_snoc_newest)
qed

end

definition healing_records :: "mem_store \<Rightarrow> string \<Rightarrow> healing_record list" where
  "healing_records s k = dict_get_list (ms_healing s) k"

interpretation mem: healing_memory store_healing_record get_healing_history
  get_healing_history_for_replacement healing_records
proof unfold_locales
  fix r s
  show "(\<exists>s'. store_healing_record r s = Inr s') \<longleftrightarrow> validate_healing r = None"
    by (simp add: store_healing_record_Inr)
next
  fix r s s' k
  assume "store_healing_record r s = Inr s'"
  then show "healing_records s' k =
      (if k = hr_old_selector r then healing_records s k @ [r] else healing_records s k)"
    by (auto simp: store_healing_record_Inr healing_records_def dict_get_list_append)
qed (simp_all add: get_healing_history_def get_healing_history_for_replacement_def
      healing_records_def)

end
