(* ===== verification/Healing_Evidence.thy ===== *)
theory Healing_Evidence
  imports Memory_Store
begin

text \<open>
  \<^verbatim>\<open>agents/memory/healing_evidence.py\<close>: aggregation of healing records into statistics for
  one replacement pair and for one original selector. Division and averaging are float
  operations (\<^theory_text>\<open>fl\<close>), in the order the code performs them.
\<close>

record replacement_stats =
  rs_old_selector :: string
  rs_new_selector :: string
  rs_attempts :: nat
  rs_successes :: nat
  rs_failures :: nat
  rs_inconclusive :: nat
  rs_avg_confidence :: f64
  rs_last_used :: "string option"

record selector_history =
  sh_selector :: string
  sh_total_healings :: nat
  sh_total_successes :: nat
  sh_total_failures :: nat
  sh_distinct_replacements :: nat
  sh_replacement_stats :: "replacement_stats list"

definition is_success :: "healing_record \<Rightarrow> bool" where
  "is_success r = (hr_validation_result r = Some True)"

definition is_failure :: "healing_record \<Rightarrow> bool" where
  "is_failure r = (hr_validation_result r = Some False)"

definition is_inconclusive :: "healing_record \<Rightarrow> bool" where
  "is_inconclusive r = (hr_validation_result r = None)"

definition ratio :: "nat \<Rightarrow> nat \<Rightarrow> f64" where
  "ratio s n = (if n = 0 then 0 else fl (of_nat s / of_nat n))"

definition success_rate :: "replacement_stats \<Rightarrow> f64" where
  "success_rate st = ratio (rs_successes st) (rs_attempts st)"

section \<open>Queries\<close>

definition has_selector_failed :: "mem_store \<Rightarrow> string \<Rightarrow> bool" where
  "has_selector_failed m selector = (get_healing_history m selector 1 \<noteq> [])"

definition has_replacement_succeeded :: "mem_store \<Rightarrow> string \<Rightarrow> string \<Rightarrow> bool" where
  "has_replacement_succeeded m old new =
     list_ex is_success (get_healing_history_for_replacement m old new 20)"

definition get_replacement_stats :: "mem_store \<Rightarrow> string \<Rightarrow> string \<Rightarrow> replacement_stats" where
  "get_replacement_stats m old new =
     (let records = get_healing_history_for_replacement m old new 20
      in if records = [] then
           \<lparr>rs_old_selector = old, rs_new_selector = new, rs_attempts = 0, rs_successes = 0,
            rs_failures = 0, rs_inconclusive = 0, rs_avg_confidence = 0, rs_last_used = None\<rparr>
         else
           let avg = fl (float_sum (map hr_confidence records) / of_nat (length records));
               sorted_records = sort_desc hr_timestamp records
           in \<lparr>rs_old_selector = old, rs_new_selector = new,
               rs_attempts = length records,
               rs_successes = count_if is_success records,
               rs_failures = count_if is_failure records,
               rs_inconclusive = count_if is_inconclusive records,
               rs_avg_confidence = py_round 4 (min avg 1),
               rs_last_used = (case sorted_records of [] \<Rightarrow> None | r # _ \<Rightarrow> Some (hr_timestamp r))\<rparr>)"

definition get_selector_history :: "mem_store \<Rightarrow> string \<Rightarrow> selector_history" where
  "get_selector_history m selector =
     (let all_records = get_healing_history m selector 100
      in if all_records = [] then
           \<lparr>sh_selector = selector, sh_total_healings = 0, sh_total_successes = 0,
            sh_total_failures = 0, sh_distinct_replacements = 0, sh_replacement_stats = []\<rparr>
         else
           let by_replacement = group_by hr_new_selector all_records;
               stats = map (\<lambda>(new_sel, _). get_replacement_stats m selector new_sel) by_replacement
           in \<lparr>sh_selector = selector,
               sh_total_healings = length all_records,
               sh_total_successes = sum_list (map rs_successes stats),
               sh_total_failures = sum_list (map rs_failures stats),
               sh_distinct_replacements = length by_replacement,
               sh_replacement_stats = sort_desc success_rate stats\<rparr>)"

definition get_last_successful_replacement :: "mem_store \<Rightarrow> string \<Rightarrow> string option" where
  "get_last_successful_replacement m selector =
     map_option hr_new_selector
       (max_by hr_timestamp (filter is_success (get_healing_history m selector 100)))"

definition compute_history_score :: "mem_store \<Rightarrow> string \<Rightarrow> string \<Rightarrow> f64" where
  "compute_history_score m old new =
     (let st = get_replacement_stats m old new in if rs_attempts st = 0 then 0 else success_rate st)"

section \<open>Ratios and averages\<close>

lemma ratio_unit: "s \<le> n \<Longrightarrow> unit_interval (ratio s n)"
  by (simp add: ratio_def fl_fraction_unit)

lemma ratio_0 [simp]: "ratio 0 n = 0"
  by (simp add: ratio_def)

lemma ratio_same: "0 < n \<Longrightarrow> ratio n n = 1"
  by (simp add: ratio_def)

lemma fl_1_32: "fl (1/32) = 1/32"
  by code_simp

lemma ratio_pos:
  assumes "0 < s" "s \<le> n" "n \<le> 32"
  shows "0 < ratio s n"
proof -
  have "(1/32 :: rat) \<le> of_nat s / of_nat n"
    using assms by (simp add: divide_simps)
  then have "fl (1/32) \<le> fl (of_nat s / of_nat n)" by (rule fl_mono)
  then show ?thesis using assms by (simp add: ratio_def fl_1_32)
qed

lemma count_partition:
  "count_if is_success xs + count_if is_failure xs + count_if is_inconclusive xs = length xs"
proof (induction xs)
  case (Cons r rs)
  show ?case
  proof (cases "hr_validation_result r")
    case None
    with Cons show ?thesis
      by (simp add: count_if_def is_success_def is_failure_def is_inconclusive_def)
  next
    case (Some b)
    with Cons show ?thesis
      by (cases b) (simp_all add: count_if_def is_success_def is_failure_def is_inconclusive_def)
  qed
qed (simp add: count_if_def)

section \<open>Statistics of one pair\<close>

lemma stats_selectors [simp]:
  "rs_old_selector (get_replacement_stats m old new) = old"
  "rs_new_selector (get_replacement_stats m old new) = new"
  by (simp_all add: get_replacement_stats_def Let_def)

lemma stats_counts:
  "rs_attempts (get_replacement_stats m old new) =
     length (get_healing_history_for_replacement m old new 20)"
  "rs_successes (get_replacement_stats m old new) =
     count_if is_success (get_healing_history_for_replacement m old new 20)"
  "rs_failures (get_replacement_stats m old new) =
     count_if is_failure (get_healing_history_for_replacement m old new 20)"
  "rs_inconclusive (get_replacement_stats m old new) =
     count_if is_inconclusive (get_healing_history_for_replacement m old new 20)"
  by (simp_all add: get_replacement_stats_def Let_def count_if_def)

lemma stats_partition:
  "rs_successes (get_replacement_stats m old new) + rs_failures (get_replacement_stats m old new)
     + rs_inconclusive (get_replacement_stats m old new) = rs_attempts (get_replacement_stats m old new)"
  by (simp add: stats_counts count_partition)

lemma stats_attempts_bound: "rs_attempts (get_replacement_stats m old new) \<le> 20"
  using length_slice_to[of 20] by (simp add: stats_counts get_healing_history_for_replacement_def)

lemma stats_success_le: "rs_successes (get_replacement_stats m old new) \<le>
    rs_attempts (get_replacement_stats m old new)"
  by (simp add: stats_counts count_if_le)

lemma success_rate_unit: "unit_interval (success_rate (get_replacement_stats m old new))"
  by (simp add: success_rate_def ratio_unit stats_success_le)

lemma history_score_eq: "compute_history_score m old new = success_rate (get_replacement_stats m old new)"
  by (simp add: compute_history_score_def Let_def success_rate_def ratio_def)

lemma history_score_unit: "unit_interval (compute_history_score m old new)"
  by (simp add: history_score_eq success_rate_unit)

lemma history_score_pos:
  "0 < compute_history_score m old new \<longleftrightarrow> has_replacement_succeeded m old new"
proof -
  let ?st = "get_replacement_stats m old new"
  have "0 < compute_history_score m old new \<longleftrightarrow> 0 < rs_successes ?st"
  proof
    assume "0 < compute_history_score m old new"
    then show "0 < rs_successes ?st"
      by (cases "rs_successes ?st = 0") (simp_all add: history_score_eq success_rate_def)
  next
    assume "0 < rs_successes ?st"
    then show "0 < compute_history_score m old new"
      unfolding history_score_eq success_rate_def
      using stats_success_le[of m old new] stats_attempts_bound[of m old new]
      by (intro ratio_pos) auto
  qed
  also have "\<dots> \<longleftrightarrow> has_replacement_succeeded m old new"
    by (simp add: stats_counts count_if_pos has_replacement_succeeded_def list_ex_iff)
  finally show ?thesis .
qed

lemma avg_confidence_unit:
  assumes "\<forall>r \<in> set (healing_records m old). 0 \<le> hr_confidence r"
  shows "unit_interval (rs_avg_confidence (get_replacement_stats m old new))"
proof -
  let ?rs = "get_healing_history_for_replacement m old new 20"
  have "\<forall>x \<in> set (map hr_confidence ?rs). 0 \<le> x"
    using assms mem.pair_history_subset by fastforce
  then have "0 \<le> fl (float_sum (map hr_confidence ?rs) / of_nat (length ?rs))"
    by (intro fl_nonneg divide_nonneg_nonneg float_sum_nonneg) auto
  then show ?thesis
    by (simp add: get_replacement_stats_def Let_def py_round_unit unit_min_1)
qed

section \<open>Histories of one selector\<close>

lemma distinct_replacements_eq:
  "sh_distinct_replacements (get_selector_history m k) =
     card (hr_new_selector ` set (get_healing_history m k 100))"
proof -
  let ?g = "group_by hr_new_selector (get_healing_history m k 100)"
  have "length ?g = card (fst ` set ?g)"
    using distinct_group_by[of hr_new_selector "get_healing_history m k 100"]
    by (metis distinct_card length_map set_map)
  then show ?thesis by (simp add: get_selector_history_def Let_def keys_group_by)
qed

lemma last_successful_in_history:
  assumes "get_last_successful_replacement m k = Some c"
  shows "\<exists>r \<in> set (get_healing_history m k 100). is_success r \<and> hr_new_selector r = c \<and>
    (\<forall>q \<in> set (get_healing_history m k 100). is_success q \<longrightarrow> hr_timestamp q \<le> hr_timestamp r)"
proof -
  from assms obtain r where r: "max_by hr_timestamp (filter is_success (get_healing_history m k 100)) = Some r"
    and c: "hr_new_selector r = c" by (auto simp: get_last_successful_replacement_def)
  show ?thesis using max_by_in[OF r] max_by_ge[OF r] c by auto
qed

end
