(* ===== verification/Pattern_Detector.thy ===== *)
theory Pattern_Detector
  imports Healing_Evidence
begin

text \<open>
  \<^verbatim>\<open>agents/memory/pattern_detector.py\<close>: selector chains, reliable and unreliable
  replacements. The loop that follows a chain (\<open>while True\<close>) is the function \<open>chain_from\<close>;
  it stops because every round visits a new replacement selector of a finite store.
\<close>

record healing_pattern =
  hp_pattern_type :: healing_pattern_type
  hp_selectors :: "string list"
  hp_occurrences :: nat
  hp_confidence_signal :: f64
  hp_description :: string

definition selector_chain_min_length :: nat where
  "selector_chain_min_length = 2"

definition reliable_replacement_min_successes :: nat where
  "reliable_replacement_min_successes = 2"

definition unreliable_replacement_min_failures :: nat where
  "unreliable_replacement_min_failures = 2"

section \<open>Selector chains\<close>

definition latest_success :: "mem_store \<Rightarrow> string \<Rightarrow> healing_record option" where
  "latest_success m current =
     max_by hr_timestamp (filter is_success (get_healing_history m current 100))"

text \<open>All replacement selectors the store knows: the finite set the loop moves in.\<close>

definition targets :: "mem_store \<Rightarrow> string set" where
  "targets m = hr_new_selector ` set (concat (map snd (ms_healing m)))"

lemma finite_targets: "finite (targets m)"
  by (simp add: targets_def)

lemma healing_records_member:
  "r \<in> set (healing_records m k) \<Longrightarrow> r \<in> set (concat (map snd (ms_healing m)))"
  by (force simp: healing_records_def dest: dict_get_list_member)

lemma latest_success_in:
  assumes "latest_success m current = Some r"
  shows "r \<in> set (get_healing_history m current 100)" "is_success r" "hr_new_selector r \<in> targets m"
proof -
  show A: "r \<in> set (get_healing_history m current 100)" and "is_success r"
    using max_by_in[OF assms[unfolded latest_success_def]] by auto
  show "hr_new_selector r \<in> targets m"
    using A mem.history_subset healing_records_member by (fastforce simp: targets_def)
qed

function chain_from :: "mem_store \<Rightarrow> string \<Rightarrow> string set \<Rightarrow> string list \<Rightarrow> string list" where
  "chain_from m current visited chain =
     (case latest_success m current of
        None \<Rightarrow> chain
      | Some latest \<Rightarrow>
          (let next_selector = hr_new_selector latest
           in if next_selector \<in> visited then chain
              else chain_from m next_selector (insert next_selector visited) (chain @ [next_selector])))"
  by pat_completeness auto
termination
proof (relation "measure (\<lambda>(m, _, visited, _). card (targets m - visited))", goal_cases)
  case (2 m current visited chain latest next_selector)
  then have "next_selector \<in> targets m - visited" by (simp add: latest_success_in)
  moreover have "targets m - insert next_selector visited = (targets m - visited) - {next_selector}"
    by auto
  ultimately show ?case
    using card_Diff1_less[of "targets m - visited" next_selector] by (simp add: finite_targets)
qed simp

declare chain_from.simps [simp del]

definition selector_chain :: "mem_store \<Rightarrow> string \<Rightarrow> string list" where
  "selector_chain m selector = chain_from m selector {selector} [selector]"

definition detect_selector_chain :: "mem_store \<Rightarrow> string \<Rightarrow> healing_pattern option" where
  "detect_selector_chain m selector =
     (let chain = selector_chain m selector; n = length chain
      in if n < selector_chain_min_length + 1 then None
         else
           let signal = min (fl (of_nat (n - 1) / 5)) 1
           in Some \<lparr>hp_pattern_type = HP_SELECTOR_CHAIN,
                    hp_selectors = chain,
                    hp_occurrences = n - 1,
                    hp_confidence_signal = py_round 4 signal,
                    hp_description = ''Selector chain detected: '' @
                      join ('' '' @ arrow @ '' '') chain @ '' ('' @ show_nat (n - 1) @
                      '' replacements)''\<rparr>)"

section \<open>Reliable and unreliable replacements\<close>

definition reliable_pattern :: "string \<Rightarrow> string \<Rightarrow> healing_record list \<Rightarrow> healing_pattern" where
  "reliable_pattern selector new_sel recs =
     (let successes = count_if is_success recs; total = length recs;
          rate = (if 0 < total then fl (of_nat successes / of_nat total) else 0)
      in \<lparr>hp_pattern_type = HP_RELIABLE_REPLACEMENT,
          hp_selectors = [selector, new_sel],
          hp_occurrences = successes,
          hp_confidence_signal = py_round 4 rate,
          hp_description = ''Reliable replacement: '' @ quoted selector @ '' '' @
            arrow @ '' '' @ quoted new_sel @ '' succeeded '' @
            show_nat successes @ ''/'' @ show_nat total @ '' times (rate: '' @
            fmt_percent rate @ '')''\<rparr>)"

definition detect_reliable_replacements :: "mem_store \<Rightarrow> string \<Rightarrow> healing_pattern list" where
  "detect_reliable_replacements m selector =
     (let records = get_healing_history m selector 100
      in if records = [] then []
         else map (\<lambda>(new_sel, recs). reliable_pattern selector new_sel recs)
                (filter (\<lambda>(_, recs). reliable_replacement_min_successes \<le> count_if is_success recs)
                   (group_by hr_new_selector records)))"

definition unreliable_pattern :: "string \<Rightarrow> string \<Rightarrow> healing_record list \<Rightarrow> healing_pattern" where
  "unreliable_pattern selector new_sel recs =
     (let failures = count_if is_failure recs; total = length recs;
          rate = (if 0 < total then fl (of_nat failures / of_nat total) else 0)
      in \<lparr>hp_pattern_type = HP_UNRELIABLE_REPLACEMENT,
          hp_selectors = [selector, new_sel],
          hp_occurrences = failures,
          hp_confidence_signal = py_round 4 (fl (1 - rate)),
          hp_description = ''Unreliable replacement: '' @ quoted selector @ '' '' @
            arrow @ '' '' @ quoted new_sel @ '' failed '' @
            show_nat failures @ ''/'' @ show_nat total @ '' times (failure rate: '' @
            fmt_percent rate @ '')''\<rparr>)"

definition detect_unreliable_replacements :: "mem_store \<Rightarrow> string \<Rightarrow> healing_pattern list" where
  "detect_unreliable_replacements m selector =
     (let records = get_healing_history m selector 100
      in if records = [] then []
         else map (\<lambda>(new_sel, recs). unreliable_pattern selector new_sel recs)
                (filter (\<lambda>(_, recs). unreliable_replacement_min_failures \<le> count_if is_failure recs)
                   (group_by hr_new_selector records)))"

definition detect_all_patterns :: "mem_store \<Rightarrow> string \<Rightarrow> healing_pattern list" where
  "detect_all_patterns m selector =
     (case detect_selector_chain m selector of None \<Rightarrow> [] | Some p \<Rightarrow> [p]) @
     detect_reliable_replacements m selector @ detect_unreliable_replacements m selector"

section \<open>Chain lemmas\<close>

text \<open>
  The link relation the chain follows: \<open>b\<close> is the replacement of the newest validated
  success among the 100 newest records of \<open>a\<close>.
\<close>

definition linked :: "mem_store \<Rightarrow> string \<Rightarrow> string \<Rightarrow> bool" where
  "linked m a b \<longleftrightarrow> (\<exists>r. latest_success m a = Some r \<and> hr_new_selector r = b)"

lemma chain_from_props:
  assumes "distinct chain" "chain \<noteq> []" "last chain = current" "visited = set chain"
    and "successively (linked m) chain"
  shows "distinct (chain_from m current visited chain) \<and>
    successively (linked m) (chain_from m current visited chain) \<and>
    prefix chain (chain_from m current visited chain) \<and>
    (case latest_success m (last (chain_from m current visited chain)) of
       None \<Rightarrow> True
     | Some r \<Rightarrow> hr_new_selector r \<in> set (chain_from m current visited chain))"
  using assms
proof (induction m current visited chain rule: chain_from.induct)
  case (1 m current visited chain)
  show ?case
  proof (cases "latest_success m current")
    case None
    then show ?thesis using 1 by (simp add: chain_from.simps[of m current])
  next
    case (Some r)
    let ?n = "hr_new_selector r"
    show ?thesis
    proof (cases "?n \<in> visited")
      case True
      then show ?thesis using 1 Some by (simp add: chain_from.simps[of m current])
    next
      case False
      then have eq: "chain_from m current visited chain =
          chain_from m ?n (insert ?n visited) (chain @ [?n])"
        by (simp add: chain_from.simps[of m current] Some Let_def)
      have "successively (linked m) (chain @ [?n])"
        using "1.prems" Some by (auto simp: successively_append_iff linked_def)
      then have "distinct (chain_from m ?n (insert ?n visited) (chain @ [?n])) \<and>
          successively (linked m) (chain_from m ?n (insert ?n visited) (chain @ [?n])) \<and>
          prefix (chain @ [?n]) (chain_from m ?n (insert ?n visited) (chain @ [?n])) \<and>
          (case latest_success m (last (chain_from m ?n (insert ?n visited) (chain @ [?n]))) of
             None \<Rightarrow> True
           | Some q \<Rightarrow> hr_new_selector q \<in> set (chain_from m ?n (insert ?n visited) (chain @ [?n])))"
        using "1.prems" False by (intro "1.IH"[OF Some]) auto
      then show ?thesis unfolding eq by (meson append_prefixD)
    qed
  qed
qed

lemma selector_chain_props:
  "distinct (selector_chain m k)" "successively (linked m) (selector_chain m k)"
  "prefix [k] (selector_chain m k)"
  using chain_from_props[of "[k]" k "{k}" m] by (simp_all add: selector_chain_def)

lemma group_entry_bounds:
  assumes "(c, recs) \<in> set (group_by hr_new_selector (get_healing_history m k 100))"
  shows "set recs \<subseteq> {r \<in> set (healing_records m k). hr_new_selector r = c}"
  using group_by_entry[OF assms] mem.history_subset[of m k 100] by auto

end
