(* ===== verification/Context_Comparator.thy ===== *)
theory Context_Comparator
  imports Memory_Schemas
begin

text \<open>
  \<^verbatim>\<open>agents/memory/context_comparator.py\<close>: the field-level difference of two element
  snapshots. \<open>apply_changes\<close> is the abstract reading of a report, used to state that the
  report is complete: applied to the old attributes it gives the new ones.
\<close>

definition compare_field :: "string \<Rightarrow> string option \<Rightarrow> string option \<Rightarrow> field_change option" where
  "compare_field field_name old_value new_value =
     (let change = (\<lambda>ct. Some \<lparr>fc_field_name = field_name, fc_old_value = old_value,
                               fc_new_value = new_value, fc_change_type = ct\<rparr>)
      in if old_value = None \<and> new_value = None then None
         else if old_value = None \<and> new_value \<noteq> None then change CT_ADDED
         else if old_value \<noteq> None \<and> new_value = None then change CT_REMOVED
         else if old_value \<noteq> new_value then change CT_MODIFIED
         else None)"

definition comparable_fields :: "(string \<times> (element_record \<Rightarrow> string option)) list" where
  "comparable_fields =
     [(''selector'', \<lambda>e. Some (el_selector e)),
      (''text'', el_text),
      (''role'', el_role),
      (''page_url'', el_page_url),
      (''page_name'', el_page_name)]"

definition attribute_field :: "string \<Rightarrow> string" where
  "attribute_field key = ''attributes.'' @ key"

definition attribute_change ::
  "string \<Rightarrow> string option \<Rightarrow> string option \<Rightarrow> field_change option" where
  "attribute_change key old_val new_val =
     (let change = (\<lambda>ct. Some \<lparr>fc_field_name = attribute_field key, fc_old_value = old_val,
                               fc_new_value = new_val, fc_change_type = ct\<rparr>)
      in case (old_val, new_val) of
           (None, Some _) \<Rightarrow> change CT_ADDED
         | (Some _, None) \<Rightarrow> change CT_REMOVED
         | _ \<Rightarrow> if old_val \<noteq> new_val then change CT_MODIFIED else None)"

definition compare_attributes ::
  "(string \<times> string) list \<Rightarrow> (string \<times> string) list \<Rightarrow> field_change list" where
  "compare_attributes old_attrs new_attrs =
     somes (map (\<lambda>key. attribute_change key (map_of old_attrs key) (map_of new_attrs key))
       (sort (remdups (map fst old_attrs @ map fst new_attrs))))"

definition compare_elements :: "element_record \<Rightarrow> element_record \<Rightarrow> comparison_result" where
  "compare_elements previous current =
     (let changes =
            somes (map (\<lambda>(name, get). compare_field name (get previous) (get current)) comparable_fields)
            @ compare_attributes (el_attributes previous) (el_attributes current)
      in \<lparr>cr_element_id = el_element_id previous,
          cr_previous_selector = el_selector previous,
          cr_current_selector = el_selector current,
          cr_changes = changes,
          cr_is_identical = (changes = [])\<rparr>)"

section \<open>Reading a report back\<close>

definition apply_change :: "field_change \<Rightarrow> (string \<rightharpoonup> string) \<Rightarrow> (string \<rightharpoonup> string)" where
  "apply_change c m = m(drop (length (attribute_field [])) (fc_field_name c) := fc_new_value c)"

definition apply_changes :: "field_change list \<Rightarrow> (string \<rightharpoonup> string) \<Rightarrow> (string \<rightharpoonup> string)" where
  "apply_changes cs m = fold apply_change cs m"

section \<open>Lemmas\<close>

lemma compare_field_None: "compare_field f a b = None \<longleftrightarrow> a = b"
  by (cases a; cases b) (auto simp: compare_field_def Let_def)

lemma attribute_change_None [simp]: "attribute_change k a b = None \<longleftrightarrow> a = b"
  by (cases a; cases b) (auto simp: attribute_change_def Let_def)

lemma attribute_change_same [simp]: "attribute_change k a a = None"
  by simp

lemma attribute_change_eq: "attribute_change k a b = compare_field (attribute_field k) a b"
  by (cases a; cases b) (auto simp: attribute_change_def compare_field_def Let_def)

lemma compare_field_Some:
  "compare_field f a b = Some c \<Longrightarrow>
     fc_field_name c = f \<and> fc_old_value c = a \<and> fc_new_value c = b \<and> a \<noteq> b \<and>
     fc_change_type c =
       (if a = None then CT_ADDED else if b = None then CT_REMOVED else CT_MODIFIED)"
  by (cases a; cases b) (auto simp: compare_field_def Let_def split: if_splits)

lemma attribute_keys:
  "set (sort (remdups (map fst old @ map fst new))) = dom (map_of old) \<union> dom (map_of new)"
  by (simp add: dom_map_of_conv_image_fst)

lemma compare_attributes_Nil:
  "compare_attributes old new = [] \<longleftrightarrow> map_of old = map_of new"
proof -
  have "compare_attributes old new = [] \<longleftrightarrow>
      (\<forall>k \<in> dom (map_of old) \<union> dom (map_of new). map_of old k = map_of new k)"
    unfolding compare_attributes_def somes_Nil set_map ball_simps attribute_keys by simp
  also have "\<dots> \<longleftrightarrow> map_of old = map_of new"
    by (auto simp: fun_eq_iff domIff)
  finally show ?thesis .
qed

lemma apply_attribute_change:
  assumes "attribute_change k a b = Some c"
  shows "apply_change c m = m(k := b)"
  using compare_field_Some[OF assms[unfolded attribute_change_eq]]
  by (simp add: apply_change_def attribute_field_def)

lemma apply_map_filter:
  assumes "distinct ks"
  shows "fold apply_change (somes (map (\<lambda>k. attribute_change k (old k) (new k)) ks)) m =
    (\<lambda>k. if k \<in> set ks \<and> old k \<noteq> new k then new k else m k)"
  using assms
proof (induction ks arbitrary: m)
  case Nil
  then show ?case by simp
next
  case (Cons k ks)
  show ?case
  proof (cases "attribute_change k (old k) (new k)")
    case None
    then have "old k = new k" by simp
    then show ?thesis using Cons None by (auto simp: fun_eq_iff)
  next
    case (Some c)
    then have "old k \<noteq> new k" by (metis attribute_change_None option.distinct(1))
    then show ?thesis using Cons Some
      by (auto simp: apply_attribute_change[OF Some] fun_eq_iff)
  qed
qed

lemma apply_compare_attributes:
  "apply_changes (compare_attributes old new) (map_of old) = map_of new"
proof -
  have "distinct (sort (remdups (map fst old @ map fst new)))" by simp
  then have "apply_changes (compare_attributes old new) (map_of old) =
      (\<lambda>k. if k \<in> dom (map_of old) \<union> dom (map_of new) \<and> map_of old k \<noteq> map_of new k
           then map_of new k else map_of old k)"
    unfolding apply_changes_def compare_attributes_def
    by (subst apply_map_filter) (simp_all only: attribute_keys)
  also have "\<dots> = map_of new" by (auto simp: fun_eq_iff domIff)
  finally show ?thesis .
qed

lemma compare_elements_identical:
  "cr_is_identical (compare_elements p c) \<longleftrightarrow>
     el_selector p = el_selector c \<and> el_text p = el_text c \<and> el_role p = el_role c \<and>
     el_page_url p = el_page_url c \<and> el_page_name p = el_page_name c \<and>
     map_of (el_attributes p) = map_of (el_attributes c)"
  by (simp add: compare_elements_def Let_def somes_Nil comparable_fields_def
      compare_field_None compare_attributes_Nil)

lemma compare_elements_change:
  assumes "c \<in> set (cr_changes (compare_elements p q))"
  shows "fc_old_value c \<noteq> fc_new_value c \<and>
    fc_change_type c = (if fc_old_value c = None then CT_ADDED
      else if fc_new_value c = None then CT_REMOVED else CT_MODIFIED)"
proof -
  have "\<exists>f a b. Some c = compare_field f a b"
    using assms by (auto simp: compare_elements_def Let_def set_somes compare_attributes_def
        attribute_change_eq comparable_fields_def)
  then obtain f a b where "compare_field f a b = Some c" by metis
  then show ?thesis using compare_field_Some by fastforce
qed

end
