(* ===== verification/Memory_Properties.thy ===== *)
theory Memory_Properties
  imports Pattern_Detector Context_Comparator
begin

text \<open>
  The properties of the memory layer: the store and its histories, the healing statistics,
  the pattern detector and the context comparator. \<open>sample_healing\<close> and the stores built
  from it are the concrete inputs of the witnesses.
\<close>

definition sample_healing :: "string \<Rightarrow> string \<Rightarrow> string \<Rightarrow> bool option \<Rightarrow> string \<Rightarrow> healing_record" where
  "sample_healing i old new ok ts =
     \<lparr>hr_healing_id = i, hr_test_id = ''TC_1'', hr_old_selector = old, hr_new_selector = new,
      hr_healing_reason = [], hr_confidence = 1 / 2, hr_validation_result = ok, hr_timestamp = ts\<rparr>"

definition sample_store :: mem_store where
  "sample_store = empty_store\<lparr>ms_healing :=
     [(''#a'', [sample_healing ''h1'' ''#a'' ''#b'' (Some False) ''2024-01-01'',
                sample_healing ''h2'' ''#a'' ''#c'' (Some True) ''2024-01-02'']),
      (''#c'', [sample_healing ''h3'' ''#c'' ''#d'' (Some True) ''2024-01-03''])]\<rparr>"

definition sample_element :: "string \<Rightarrow> string option \<Rightarrow> (string \<times> string) list \<Rightarrow> element_record" where
  "sample_element selector text attrs =
     \<lparr>el_element_id = ''e1'', el_selector = selector, el_text = text, el_role = Some ''button'',
      el_page_url = Some ''/login'', el_page_name = None, el_attributes = attrs,
      el_last_seen = ''2024-01-01'', el_last_success_id = None\<rparr>"

section \<open>The store\<close>

text \<open>
  Storing a healing record succeeds exactly when its id and both selectors are not blank;
  then the record is appended to the records of its original selector, and no other record
  of any kind changes. A rejected record leaves the store as it was.
\<close>

theorem store_healing_effect:
  "case store_healing_record r m of
     Inl e \<Rightarrow> blank (hr_healing_id r) \<or> blank (hr_old_selector r) \<or> blank (hr_new_selector r)
   | Inr m' \<Rightarrow>
       \<not> blank (hr_healing_id r) \<and> \<not> blank (hr_old_selector r) \<and> \<not> blank (hr_new_selector r) \<and>
       ms_executions m' = ms_executions m \<and> ms_elements m' = ms_elements m \<and>
       healing_records m' = (healing_records m)(hr_old_selector r :=
         healing_records m (hr_old_selector r) @ [r])"
proof (cases "store_healing_record r m")
  case (Inl e)
  then have "validate_healing r \<noteq> None" using mem.store_accepts by (metis Inl_Inr_False)
  then show ?thesis using Inl validate_healing_None by auto
next
  case (Inr m')
  then have "validate_healing r = None" "healing_records m' = (healing_records m)
      (hr_old_selector r := healing_records m (hr_old_selector r) @ [r])"
    "ms_executions m' = ms_executions m" "ms_elements m' = ms_elements m"
    using mem.store_recs[OF Inr] by (auto simp: store_healing_record_Inr fun_eq_iff)
  then show ?thesis using Inr by (simp add: validate_healing_None)
qed

text \<open>
  The healing history of a selector with a non-negative limit is sorted newest first, has
  as many records as the limit and the store allow, contains only stored records of that
  selector, and every stored record it leaves out is no newer than any it returns.
\<close>

theorem history_keeps_newest:
  assumes "0 \<le> n"
  shows "sorted_wrt (\<lambda>a b. hr_timestamp b \<le> hr_timestamp a) (get_healing_history m k n) \<and>
     length (get_healing_history m k n) = min (nat n) (length (healing_records m k)) \<and>
     set (get_healing_history m k n) \<subseteq> set (healing_records m k) \<and>
     (\<forall>r \<in> set (healing_records m k) - set (get_healing_history m k n).
        \<forall>q \<in> set (get_healing_history m k n). hr_timestamp r \<le> hr_timestamp q)"
proof (intro conjI ballI)
  show "length (get_healing_history m k n) = min (nat n) (length (healing_records m k))"
    by (simp add: mem.history_is slice_to_take[OF assms] min.commute)
qed (use mem.history_newest_first mem.history_subset mem.history_dropped_older[OF assms] in auto)

lemma history_keeps_newest_witness:
  "length (get_healing_history sample_store ''#a'' 1) = 1"
  using history_keeps_newest[of 1 sample_store "''#a''"]
  by (simp add: sample_store_def healing_records_def dict_get_list_def)

text \<open>
  The aggregated context of a test is consistent with its stored executions: it counts
  all of them, passed and failed ones are disjoint, the latest execution is missing exactly
  when there is none, the latest success exactly when none passed and is otherwise a passed
  record that no passed record is newer than, and the recent failures are at most five.
\<close>

theorem test_context_consistent:
  "tx_execution_count (get_test_context m t) = length (dict_get_list (ms_executions m) t) \<and>
   tx_pass_count (get_test_context m t) + tx_fail_count (get_test_context m t)
     \<le> tx_execution_count (get_test_context m t) \<and>
   (tx_latest_execution (get_test_context m t) = None \<longleftrightarrow> tx_execution_count (get_test_context m t) = 0) \<and>
   (case tx_latest_success (get_test_context m t) of
      None \<Rightarrow> tx_pass_count (get_test_context m t) = 0
    | Some r \<Rightarrow> r \<in> set (dict_get_list (ms_executions m) t) \<and> is_passed r \<and>
        (\<forall>q \<in> set (dict_get_list (ms_executions m) t). is_passed q \<longrightarrow> er_timestamp q \<le> er_timestamp r)) \<and>
   length (tx_recent_failures (get_test_context m t)) = min 5 (tx_fail_count (get_test_context m t))"
proof -
  let ?rs = "dict_get_list (ms_executions m) t"
  have disjoint: "count_if is_passed rs + count_if is_failed rs \<le> length rs" for rs
    by (induction rs) (auto simp: count_if_def is_passed_def is_failed_def)
  have latest: "case get_latest_successful_execution m t of
      None \<Rightarrow> count_if is_passed ?rs = 0
    | Some r \<Rightarrow> r \<in> set ?rs \<and> is_passed r \<and>
        (\<forall>q \<in> set ?rs. is_passed q \<longrightarrow> er_timestamp q \<le> er_timestamp r)"
  proof (cases "get_latest_successful_execution m t")
    case None
    then have "filter is_passed ?rs = []" by (simp add: get_latest_successful_execution_def)
    then show ?thesis using None by (simp add: count_if_def)
  next
    case (Some r)
    note max = Some[unfolded get_latest_successful_execution_def]
    show ?thesis using max_by_in[OF max] max_by_ge[OF max] Some by simp
  qed
  have first: "(case xs of [] \<Rightarrow> None | x # _ \<Rightarrow> Some x) = None \<longleftrightarrow> xs = []" for xs :: "'r list"
    by (cases xs) simp_all
  have recent: "length (get_failure_history m t 5) = min 5 (count_if is_failed ?rs)"
    by (simp add: get_failure_history_def slice_to_take count_if_def min.commute)
  show ?thesis
    using disjoint[of ?rs] latest recent unfolding get_test_context_def Let_def
    by (simp only: test_context.simps first sort_desc_Nil_iff length_0_conv simp_thms)
qed

section \<open>Healing statistics\<close>

definition sample_run :: execution_record where
  "sample_run = \<lparr>er_execution_id = ''x1'', er_test_id = ''TC_1'', er_test_name = ''login'',
     er_timestamp = ''2024-01-01'', er_status = ES_PASSED, er_duration_ms = Some 5, er_failure_info = None,
     er_metadata = []\<rparr>"

lemma test_context_consistent_witness:
  "tx_latest_success (get_test_context (empty_store\<lparr>ms_executions := [(''TC_1'', [sample_run])]\<rparr>) ''TC_1'')
     = Some sample_run"
proof -
  let ?m = "empty_store\<lparr>ms_executions := [(''TC_1'', [sample_run])]\<rparr>"
  have rs: "dict_get_list (ms_executions ?m) ''TC_1'' = [sample_run]"
    by (simp add: dict_get_list_def)
  moreover have "tx_pass_count (get_test_context ?m ''TC_1'') = 1"
    unfolding get_test_context_def Let_def rs by (simp add: is_passed_def count_if_def sample_run_def)
  ultimately show ?thesis
    using test_context_consistent[of ?m "''TC_1''"] by (auto split: option.splits)
qed

text \<open>
  The statistics of a replacement pair partition its attempts into successes, failures and
  inconclusive ones, cover at most 20 attempts, have a success rate in the unit interval, and
  give a positive history score exactly when one of those attempts succeeded.
\<close>

theorem replacement_stats_sound:
  "rs_successes (get_replacement_stats m old new) + rs_failures (get_replacement_stats m old new)
     + rs_inconclusive (get_replacement_stats m old new) = rs_attempts (get_replacement_stats m old new) \<and>
   rs_attempts (get_replacement_stats m old new) \<le> 20 \<and>
   unit_interval (compute_history_score m old new) \<and>
   (0 < compute_history_score m old new \<longleftrightarrow> has_replacement_succeeded m old new)"
  using stats_partition stats_attempts_bound history_score_unit history_score_pos by blast

text \<open>
  The last successful replacement of a selector is the replacement of a validated success
  that no other validated success among the 100 newest records is newer than.
\<close>

theorem last_successful_is_newest:
  assumes "get_last_successful_replacement m k = Some c"
  shows "\<exists>r \<in> set (get_healing_history m k 100). is_success r \<and> hr_new_selector r = c \<and>
     (\<forall>q \<in> set (get_healing_history m k 100). is_success q \<longrightarrow> hr_timestamp q \<le> hr_timestamp r)"
  by (rule last_successful_in_history[OF assms])

lemma last_successful_is_newest_witness:
  "\<exists>r \<in> set (get_healing_history sample_store ''#a'' 100). is_success r \<and> hr_new_selector r = ''#c''"
proof -
  have "get_last_successful_replacement sample_store ''#a'' = Some ''#c''" by code_simp
  from last_successful_is_newest[OF this] show ?thesis by blast
qed

text \<open>
  The history of a selector counts the distinct replacements among its 100 newest records
  and has one statistic for each of them, best success rate first.
\<close>

theorem selector_history_replacements:
  "sh_distinct_replacements (get_selector_history m k) =
     card (hr_new_selector ` set (get_healing_history m k 100)) \<and>
   set (map rs_new_selector (sh_replacement_stats (get_selector_history m k))) =
     hr_new_selector ` set (get_healing_history m k 100) \<and>
   sorted_wrt (\<lambda>a b. success_rate b \<le> success_rate a) (sh_replacement_stats (get_selector_history m k))"
proof -
  have "set (map rs_new_selector (sh_replacement_stats (get_selector_history m k))) =
      fst ` set (group_by hr_new_selector (get_healing_history m k 100))"
    by (simp add: get_selector_history_def Let_def image_image split_beta group_by_def)
  then show ?thesis
    using distinct_replacements_eq[of m k]
    by (simp add: keys_group_by) (simp add: get_selector_history_def Let_def sorted_wrt_sort_desc)
qed

section \<open>Patterns\<close>

text \<open>
  Following a selector chain always ends, starts at the selector, never visits a selector
  twice, and every step goes from a selector to the replacement of its newest validated
  success.
\<close>

theorem selector_chain_sound:
  "distinct (selector_chain m k) \<and> successively (linked m) (selector_chain m k) \<and>
   prefix [k] (selector_chain m k) \<and> set (selector_chain m k) \<subseteq> insert k (targets m)"
proof -
  have link: "b \<in> targets m" if "linked m a b" for a b
    using that latest_success_in(3) by (auto simp: linked_def)
  have "set xs \<subseteq> insert (hd xs) (targets m)" if "successively (linked m) xs" for xs
    using that by (induction xs rule: induct_list012) (auto dest: link)
  then show ?thesis
    using selector_chain_props[where m = m and k = k] by (force simp: prefix_def)
qed

text \<open>
  Every detected pattern has a confidence signal in the unit interval, and a reliable
  replacement is reported only for a replacement that succeeded at least twice in the 100
  newest records.
\<close>

theorem detected_patterns_sound:
  "(\<forall>p \<in> set (detect_all_patterns m k). unit_interval (hp_confidence_signal p)) \<and>
   (\<forall>p \<in> set (detect_reliable_replacements m k). \<exists>c. hp_selectors p = [k, c] \<and>
      2 \<le> count_if (\<lambda>r. hr_new_selector r = c \<and> is_success r) (get_healing_history m k 100) \<and>
      hp_occurrences p = count_if (\<lambda>r. hr_new_selector r = c \<and> is_success r) (get_healing_history m k 100))"
proof
  have rate: "unit_interval (if 0 < length rs then fl (of_nat (count_if f rs) / of_nat (length rs)) else 0)"
    for f and rs :: "healing_record list"
    by (simp add: fl_fraction_unit count_if_le)
  have "unit_interval (py_round 4 (fl (1 - x)))" if "unit_interval x" for x
    using that by (intro py_round_unit fl_unit) (auto simp: unit_interval_def)
  then show "\<forall>p \<in> set (detect_all_patterns m k). unit_interval (hp_confidence_signal p)"
    using rate py_round_unit unit_min_1 fl_nonneg
    by (auto simp: detect_all_patterns_def detect_selector_chain_def detect_reliable_replacements_def
        detect_unreliable_replacements_def reliable_pattern_def unreliable_pattern_def Let_def
        split: option.splits if_splits)
next
  have split_filter: "count_if is_success (filter (\<lambda>x. hr_new_selector x = c) rs) =
      count_if (\<lambda>r. hr_new_selector r = c \<and> is_success r) rs" for c rs
    by (simp add: count_if_def)
  show "\<forall>p \<in> set (detect_reliable_replacements m k). \<exists>c. hp_selectors p = [k, c] \<and>
      2 \<le> count_if (\<lambda>r. hr_new_selector r = c \<and> is_success r) (get_healing_history m k 100) \<and>
      hp_occurrences p = count_if (\<lambda>r. hr_new_selector r = c \<and> is_success r) (get_healing_history m k 100)"
    using split_filter
    by (auto simp: detect_reliable_replacements_def reliable_pattern_def Let_def
        reliable_replacement_min_successes_def dest!: group_by_entry split: if_splits)
qed

section \<open>Comparing elements\<close>

lemma detected_patterns_sound_witness:
  "\<exists>p. p \<in> set (detect_all_patterns sample_store ''#a'') \<and> unit_interval (hp_confidence_signal p)"
proof -
  have "detect_selector_chain sample_store ''#a'' \<noteq> None" by code_simp
  then obtain p where "detect_selector_chain sample_store ''#a'' = Some p" by blast
  then have "p \<in> set (detect_all_patterns sample_store ''#a'')"
    by (simp add: detect_all_patterns_def)
  with detected_patterns_sound[of sample_store "''#a''"] show ?thesis by blast
qed

text \<open>
  The comparison report of two element snapshots is complete and exact: it says identical
  exactly when selector, text, role, page and all attributes agree; every listed change is a
  real one with the right kind; and applying the listed attribute changes to the old
  attributes gives the new ones.
\<close>

theorem comparison_exact:
  "(cr_is_identical (compare_elements p c) \<longleftrightarrow>
      el_selector p = el_selector c \<and> el_text p = el_text c \<and> el_role p = el_role c \<and>
      el_page_url p = el_page_url c \<and> el_page_name p = el_page_name c \<and>
      map_of (el_attributes p) = map_of (el_attributes c)) \<and>
   (\<forall>x \<in> set (cr_changes (compare_elements p c)). fc_old_value x \<noteq> fc_new_value x \<and>
      fc_change_type x = (if fc_old_value x = None then CT_ADDED
        else if fc_new_value x = None then CT_REMOVED else CT_MODIFIED)) \<and>
   apply_changes (compare_attributes (el_attributes p) (el_attributes c)) (map_of (el_attributes p)) =
     map_of (el_attributes c)"
  using compare_elements_identical compare_elements_change apply_compare_attributes by blast

lemma comparison_exact_witness:
  "\<exists>x. x \<in> set (cr_changes (compare_elements (sample_element ''#a'' None []) (sample_element ''#b'' None [])))
     \<and> fc_old_value x \<noteq> fc_new_value x"
proof -
  let ?c = "compare_elements (sample_element ''#a'' None []) (sample_element ''#b'' None [])"
  have "\<not> cr_is_identical ?c"
    using comparison_exact[of "sample_element ''#a'' None []" "sample_element ''#b'' None []"]
    by (simp add: sample_element_def)
  moreover have "cr_is_identical ?c \<longleftrightarrow> cr_changes ?c = []"
    by (simp add: compare_elements_def Let_def)
  ultimately have "hd (cr_changes ?c) \<in> set (cr_changes ?c)" by simp
  with comparison_exact[of "sample_element ''#a'' None []" "sample_element ''#b'' None []"]
  show ?thesis by blast
qed

end
