(* ===== verification/Analyzer_Schemas.thy ===== *)
theory Analyzer_Schemas
  imports Memory_Schemas
begin

text \<open>
  The contracts of \<^verbatim>\<open>agents/analyzer/schemas.py\<close>: the failure as the execution layer
  reports it, the evidence items, the historical context and the analysis. Also the request
  an agent hands to its LLM client; the client itself is a parameter of the agents that
  use one.
\<close>

section \<open>Failure context (input)\<close>

record failure_context =
  fx_test_id :: string
  fx_execution_id :: string
  fx_failed_step :: int
  fx_failed_step_id :: "int option"
  fx_action :: string
  fx_target_selector :: string
  fx_expected_result :: "string option"
  fx_actual_result :: "string option"
  fx_error_message :: string
  fx_failure_category :: "failure_type option"
  fx_current_page_url :: "string option"
  fx_current_page_title :: "string option"
  fx_current_element :: "element_record option"
  fx_dom_evidence :: "(string \<times> pyval) list option"
  fx_screenshot_path :: "string option"
  fx_trace_path :: "string option"
  fx_timestamp :: "string option"
  fx_execution_metadata :: "(string \<times> pyval) list"

definition valid_failure_context :: "failure_context \<Rightarrow> bool" where
  "valid_failure_context f \<longleftrightarrow>
     fx_test_id f \<noteq> [] \<and> fx_execution_id f \<noteq> [] \<and> 1 \<le> fx_failed_step f \<and> fx_action f \<noteq> [] \<and>
     (case fx_current_element f of None \<Rightarrow> True | Some e \<Rightarrow> valid_element_record e)"

section \<open>Evidence\<close>

record failure_evidence =
  ev_type :: string
  ev_description :: string
  ev_details :: "(string \<times> pyval) list"

definition evidence_item :: "string \<Rightarrow> string \<Rightarrow> (string \<times> pyval) list \<Rightarrow> failure_evidence" where
  "evidence_item t d details = \<lparr>ev_type = t, ev_description = d, ev_details = details\<rparr>"

definition valid_failure_evidence :: "failure_evidence \<Rightarrow> bool" where
  "valid_failure_evidence e \<longleftrightarrow> ev_type e \<noteq> [] \<and> ev_description e \<noteq> []"

section \<open>Historical context\<close>

record historical_context =
  hc_executions :: nat
  hc_successes :: nat
  hc_failures :: nat
  hc_latest_success :: "execution_record option"
  hc_previous_element :: "element_record option"
  hc_comparison :: "comparison_result option"

section \<open>Failure analysis (output)\<close>

record failure_analysis =
  fa_test_id :: string
  fa_execution_id :: string
  fa_failure_type :: failure_type
  fa_root_cause :: string
  fa_confidence :: confidence_level
  fa_failed_step :: int
  fa_failed_target :: string
  fa_expected_state :: "string option"
  fa_actual_state :: "string option"
  fa_evidence :: "failure_evidence list"
  fa_historical_context :: "historical_context option"
  fa_recommended_action :: recommended_action

definition valid_failure_analysis :: "failure_analysis \<Rightarrow> bool" where
  "valid_failure_analysis a \<longleftrightarrow>
     fa_test_id a \<noteq> [] \<and> fa_execution_id a \<noteq> [] \<and> fa_root_cause a \<noteq> [] \<and>
     1 \<le> fa_failed_step a \<and> list_all valid_failure_evidence (fa_evidence a)"

section \<open>LLM requests\<close>

text \<open>
  \<open>lr_prompt\<close> is the data the prompt is rendered from with \<open>json.dumps\<close>. A client maps a
  request to a JSON object, or to an exception (None), which every caller catches.
\<close>

record llm_request =
  lr_prompt :: pyval
  lr_system_instruction :: string
  lr_response_format :: string
  lr_temperature :: f64

type_synonym llm_client = "llm_request \<Rightarrow> (string \<times> pyval) list option"

text \<open>\<open>d.get(key)\<close> with default None, and \<open>d.get(key, "")\<close>.\<close>

definition dict_get :: "(string \<times> pyval) list \<Rightarrow> string \<Rightarrow> pyval" where
  "dict_get d key = (case map_of d key of None \<Rightarrow> PNone | Some v \<Rightarrow> v)"

definition dict_get_or :: "(string \<times> pyval) list \<Rightarrow> string \<Rightarrow> pyval \<Rightarrow> pyval" where
  "dict_get_or d key dflt = (case map_of d key of None \<Rightarrow> dflt | Some v \<Rightarrow> v)"

end
