(* ===== verification/Failure_Analyzer.thy ===== *)
theory Failure_Analyzer
  imports Analyzer_Schemas Memory_Store Context_Comparator
begin

text \<open>
  The failure analysis agent of \<^verbatim>\<open>agents/analyzer/analyzer.py\<close>: retrieval of the historical
  context, the ordered deterministic rules, the optional LLM fallback for LOW confidence, and
  the recommended action. The two regular expressions of the module are the matchers
  \<open>engine_check_failed\<close> and \<open>engine_expected_actual\<close>.
\<close>

section \<open>The engine's check failures\<close>

definition lower_letter :: "char \<Rightarrow> bool" where
  "lower_letter c = (let n = of_char c :: nat in 97 \<le> n \<and> n \<le> 122)"

text \<open>\<open>assert_[a-z]+ failed\b\<close> at the start of a string.\<close>

definition check_failed_here :: "string \<Rightarrow> bool" where
  "check_failed_here s =
     (prefix ''assert_'' s \<and>
      (let t = drop 7 s; name = takeWhile lower_letter t; u = dropWhile lower_letter t
       in name \<noteq> [] \<and> prefix '' failed'' u \<and>
          (case drop 7 u of [] \<Rightarrow> True | c # _ \<Rightarrow> \<not> word_char c)))"

text \<open>The search: \<open>before\<close> says whether the previous character is a word character.\<close>

fun check_failed_search :: "bool \<Rightarrow> string \<Rightarrow> bool" where
  "check_failed_search before [] = False"
| "check_failed_search before (c # s) =
     ((\<not> before \<and> check_failed_here (c # s)) \<or> check_failed_search (word_char c) s)"

definition engine_check_failed :: "string \<Rightarrow> bool" where
  "engine_check_failed s = check_failed_search False s"

text \<open>A lazy \<open>.*?\<close> followed by a continuation: the shortest prefix after which it matches.\<close>

fun lazy_match :: "(string \<Rightarrow> 'r option) \<Rightarrow> string \<Rightarrow> (string \<times> 'r) option" where
  "lazy_match k s =
     (case k s of
        Some r \<Rightarrow> Some ([], r)
      | None \<Rightarrow> (case s of [] \<Rightarrow> None
                 | c # t \<Rightarrow> map_option (\<lambda>(m, r). (c # m, r)) (lazy_match k t)))"

fun first_some :: "'a option list \<Rightarrow> 'a option" where
  "first_some [] = None"
| "first_some (Some x # xs) = Some x"
| "first_some (None # xs) = first_some xs"

definition quote_end :: "string \<Rightarrow> unit option" where
  "quote_end s =
     (case s of [] \<Rightarrow> None
      | c # t \<Rightarrow> if c = CHR 0x27 \<and> (prefix '' ('' t \<or> t = [] \<or> t = [CHR 0x0A]) then Some () else None)"

definition match_actual :: "string \<Rightarrow> string option" where
  "match_actual s = map_option fst (lazy_match quote_end s)"

definition match_after_expected :: "string \<Rightarrow> string option" where
  "match_after_expected s =
     first_some (map (\<lambda>sep. let p = [CHR 0x27] @ sep @ [CHR 0x27]
                            in if prefix p s then match_actual (drop (length p) s) else None)
       ['', got '', '' got '', '' in ''])"

definition match_expected_here :: "string \<Rightarrow> (string \<times> string) option" where
  "match_expected_here s =
     first_some (map (\<lambda>p. if prefix (p @ [CHR 0x27]) s
                          then lazy_match match_after_expected (drop (length p + 1) s) else None)
       [''expected exactly '', ''expected ''])"

fun engine_expected_actual :: "string \<Rightarrow> (string \<times> string) option" where
  "engine_expected_actual s =
     (case match_expected_here s of
        Some m \<Rightarrow> Some m
      | None \<Rightarrow> (case s of [] \<Rightarrow> None | _ # t \<Rightarrow> engine_expected_actual t))"

section \<open>Missing-element detection\<close>

definition is_missing_element :: "string \<Rightarrow> bool" where
  "is_missing_element error_message =
     (let e = lower error_message
      in contains ''not found'' e \<or> contains ''no element'' e \<or> contains ''element_not_found'' e \<or>
         ((contains ''timeout'' e \<or> contains ''exceeded'' e) \<and>
          contains ''waiting for locator('' e \<and> \<not> contains ''resolved to'' e))"

fun action_map :: "failure_type \<Rightarrow> recommended_action" where
  "action_map FT_SELECTOR_CHANGED = RA_SEARCH_FOR_REPLACEMENT_SELECTOR"
| "action_map FT_ELEMENT_NOT_FOUND = RA_INSPECT_CURRENT_UI"
| "action_map FT_ELEMENT_NOT_INTERACTABLE = RA_CHECK_ELEMENT_STATE"
| "action_map FT_ASSERTION_FAILURE = RA_ANALYZE_APPLICATION_STATE"
| "action_map FT_TIMEOUT = RA_INVESTIGATE_TIMEOUT"
| "action_map FT_NAVIGATION_FAILURE = RA_INVESTIGATE_NAVIGATION"
| "action_map FT_NETWORK_ERROR = RA_REQUIRE_FURTHER_ANALYSIS"
| "action_map FT_APPLICATION_ERROR = RA_REQUIRE_FURTHER_ANALYSIS"
| "action_map FT_UNKNOWN = RA_REQUIRE_FURTHER_ANALYSIS"

section \<open>Historical context\<close>

definition retrieve_historical_context :: "mem_store \<Rightarrow> failure_context \<Rightarrow> historical_context" where
  "retrieve_historical_context m f =
     (let ctx = get_test_context m (fx_test_id f);
          previous = (if fx_target_selector f \<noteq> []
                      then get_element_by_selector m (fx_target_selector f) None else None)
      in \<lparr>hc_executions = tx_execution_count ctx,
          hc_successes = tx_pass_count ctx,
          hc_failures = tx_fail_count ctx,
          hc_latest_success = tx_latest_success ctx,
          hc_previous_element = previous,
          hc_comparison = None\<rparr>)"

definition compare_contexts ::
  "failure_context \<Rightarrow> historical_context \<Rightarrow> comparison_result option" where
  "compare_contexts f h =
     (case hc_previous_element h of None \<Rightarrow> None
      | Some previous \<Rightarrow>
          (case fx_current_element f of None \<Rightarrow> None
           | Some current \<Rightarrow> Some (compare_elements previous current)))"

section \<open>The rules\<close>

type_synonym verdict = "failure_type \<times> confidence_level \<times> failure_evidence list \<times> string"

text \<open>\<open>f"{x}"\<close> of an optional string.\<close>

definition py_str_opt :: "string option \<Rightarrow> string" where
  "py_str_opt s = (case s of None \<Rightarrow> ''None'' | Some t \<Rightarrow> t)"

definition field_change_evidence :: "field_change \<Rightarrow> failure_evidence" where
  "field_change_evidence c = evidence_item ''field_change''
     (''Field '' @ quoted (fc_field_name c) @ '' changed: '' @ quoted (py_str_opt (fc_old_value c)) @
      '' '' @ arrow @ '' '' @ quoted (py_str_opt (fc_new_value c)))
     [(''field'', PStr (fc_field_name c)),
      (''old_value'', PStr (py_str_opt (fc_old_value c))),
      (''new_value'', PStr (py_str_opt (fc_new_value c))),
      (''change_type'', PStr (change_type_value (fc_change_type c)))]"

definition check_selector_changed ::
  "failure_context \<Rightarrow> historical_context \<Rightarrow> failure_evidence list \<Rightarrow> verdict option" where
  "check_selector_changed f h evidence =
     (let target = fx_target_selector f; missing = is_missing_element (fx_error_message f)
      in case hc_previous_element h of
           None \<Rightarrow> None
         | Some previous \<Rightarrow>
             if \<not> missing then None
             else (case fx_current_element f of
                Some current \<Rightarrow>
                  Some (FT_SELECTOR_CHANGED, CL_HIGH,
                    evidence @
                    [evidence_item ''selector_previously_existed''
                       (''Selector '' @ quoted target @ '' was previously successful'')
                       [(''previous_selector'', PStr (el_selector previous)),
                        (''previous_text'', opt_str (el_text previous)),
                        (''previous_role'', opt_str (el_role previous))],
                     evidence_item ''alternative_element_found''
                       (''Alternative element found with selector '' @ quoted (el_selector current))
                       [(''current_selector'', PStr (el_selector current)),
                        (''current_text'', opt_str (el_text current)),
                        (''current_role'', opt_str (el_role current))]] @
                    (case hc_comparison h of None \<Rightarrow> []
                     | Some cmp \<Rightarrow> map field_change_evidence (cr_changes cmp)),
                    ''The selector '' @ quoted target @ '' no longer identifies the expected element. '' @
                    ''An alternative element with selector '' @ quoted (el_selector current) @
                    '' was found.'')
              | None \<Rightarrow>
                  Some (FT_SELECTOR_CHANGED, CL_MEDIUM,
                    evidence @
                    [evidence_item ''selector_previously_existed''
                       (''Selector '' @ quoted target @ '' was previously successful but is now missing'')
                       [(''previous_selector'', PStr (el_selector previous))],
                     evidence_item ''no_alternative_found''
                       ''No alternative element was found in the current UI'' []],
                    ''The selector '' @ quoted target @ '' was previously valid but can no longer be '' @
                    ''found. No alternative element was located.'')))"

definition check_element_not_found ::
  "failure_context \<Rightarrow> historical_context \<Rightarrow> failure_evidence list \<Rightarrow> verdict option" where
  "check_element_not_found f h evidence =
     (if is_missing_element (fx_error_message f) then
        Some (FT_ELEMENT_NOT_FOUND,
          (if hc_previous_element h = None then CL_MEDIUM else CL_HIGH),
          evidence @
          [evidence_item ''element_not_found''
             (''Target element '' @ quoted (fx_target_selector f) @ '' cannot be located'')
             [(''selector'', PStr (fx_target_selector f)), (''error'', PStr (fx_error_message f))]],
          ''The target element '' @ quoted (fx_target_selector f) @ '' cannot currently be located'')
      else None)"

definition check_element_not_interactable ::
  "failure_context \<Rightarrow> failure_evidence list \<Rightarrow> verdict option" where
  "check_element_not_interactable f evidence =
     (let e = lower (fx_error_message f)
      in if contains ''not interactable'' e \<or> contains ''not clickable'' e \<or> contains ''disabled'' e \<or>
            contains ''hidden'' e \<or> contains ''obscured'' e then
           Some (FT_ELEMENT_NOT_INTERACTABLE, CL_HIGH,
             evidence @
             [evidence_item ''element_not_interactable''
                (''Element '' @ quoted (fx_target_selector f) @ '' exists but cannot be interacted with'')
                [(''selector'', PStr (fx_target_selector f)), (''error'', PStr (fx_error_message f))]],
             ''The element '' @ quoted (fx_target_selector f) @
             '' exists but cannot currently be interacted with'')
         else None)"

definition is_assertion_keyword :: "string \<Rightarrow> bool" where
  "is_assertion_keyword e =
     (contains ''assertion'' e \<or> contains ''assert failed'' e \<or> contains ''assert error'' e \<or>
      contains ''mismatch'' e \<or> engine_check_failed e)"

text \<open>Expected and actual taken from the engine's message when the context lacks one of them.\<close>

definition with_named_states :: "failure_context \<Rightarrow> failure_context" where
  "with_named_states f =
     (if (fx_expected_result f = None \<or> fx_actual_result f = None) \<and>
         is_assertion_keyword (lower (fx_error_message f))
      then (case engine_expected_actual (fx_error_message f) of
              None \<Rightarrow> f
            | Some (ex, ac) \<Rightarrow>
                f\<lparr>fx_expected_result :=
                    (if or_empty (fx_expected_result f) = [] then Some ex else fx_expected_result f),
                  fx_actual_result :=
                    (if or_empty (fx_actual_result f) = [] then Some ac else fx_actual_result f)\<rparr>)
      else f)"

definition has_state_mismatch :: "failure_context \<Rightarrow> bool" where
  "has_state_mismatch f \<longleftrightarrow>
     fx_expected_result f \<noteq> None \<and> fx_actual_result f \<noteq> None \<and>
     fx_expected_result f \<noteq> fx_actual_result f"

definition check_assertion_failed ::
  "failure_context \<Rightarrow> failure_evidence list \<Rightarrow> verdict option" where
  "check_assertion_failed f0 evidence =
     (let keyword = is_assertion_keyword (lower (fx_error_message f0));
          f = with_named_states f0; mismatch = has_state_mismatch f
      in if keyword \<or> mismatch then
           Some (FT_ASSERTION_FAILURE, (if mismatch then CL_HIGH else CL_MEDIUM),
             evidence @
             [evidence_item ''assertion_failed''
                ''Expected application state does not match observed state''
                [(''expected'', PStr (or_empty (fx_expected_result f))),
                 (''actual'', PStr (or_empty (fx_actual_result f))),
                 (''error'', PStr (fx_error_message f))]],
             ''The expected application state does not match the observed state. Expected: '' @
             quoted (py_str_opt (fx_expected_result f)) @ '', Actual: '' @
             quoted (py_str_opt (fx_actual_result f)))
         else None)"

definition check_timeout :: "failure_context \<Rightarrow> failure_evidence list \<Rightarrow> verdict option" where
  "check_timeout f evidence =
     (if is_missing_element (fx_error_message f) then None
      else
        let e = lower (fx_error_message f)
        in if contains ''timeout'' e \<or> contains ''timed out'' e \<or> contains ''exceeded'' e then
             Some (FT_TIMEOUT, CL_HIGH,
               evidence @
               [evidence_item ''timeout'' ''Operation did not complete within the allowed time''
                  [(''error'', PStr (fx_error_message f)), (''action'', PStr (fx_action f))]],
               ''An expected operation did not complete within the allowed time'')
           else None)"

definition check_navigation_failed :: "failure_context \<Rightarrow> failure_evidence list \<Rightarrow> verdict option" where
  "check_navigation_failed f evidence =
     (let e = lower (fx_error_message f)
      in if contains ''navigation'' e \<or> contains ''navigate'' e \<or> contains ''page load'' e \<or>
            contains ''404'' e \<or> contains ''net::'' e then
           Some (FT_NAVIGATION_FAILURE, CL_HIGH,
             evidence @
             [evidence_item ''navigation_failed'' ''Expected navigation did not occur successfully''
                [(''error'', PStr (fx_error_message f)),
                 (''page_url'', PStr (or_empty (fx_current_page_url f)))]],
             ''The expected navigation did not occur successfully'')
         else None)"

definition unknown_verdict :: "failure_context \<Rightarrow> failure_evidence list \<Rightarrow> verdict" where
  "unknown_verdict f evidence =
     (FT_UNKNOWN, CL_LOW,
      evidence @
      [evidence_item ''insufficient_evidence''
         ''Available evidence is insufficient to determine the cause''
         [(''error_message'', PStr (fx_error_message f)), (''action'', PStr (fx_action f))]],
      ''Available evidence is insufficient to determine the failure cause'')"

definition classify_deterministic :: "failure_context \<Rightarrow> historical_context \<Rightarrow> verdict" where
  "classify_deterministic f h =
     (case first_some
        [check_selector_changed f h [],
         check_element_not_interactable f [],
         check_assertion_failed f [],
         check_timeout f [],
         check_navigation_failed f [],
         check_element_not_found f h []] of
        Some v \<Rightarrow> v
      | None \<Rightarrow> unknown_verdict f [])"

section \<open>LLM fallback\<close>

definition analysis_prompt ::
  "failure_context \<Rightarrow> historical_context \<Rightarrow> failure_evidence list \<Rightarrow> pyval" where
  "analysis_prompt f h evidence = PDict
     [(''task'', PStr ''Analyze this test failure and classify it.''),
      (''failure'', PDict
         [(''test_id'', PStr (fx_test_id f)), (''action'', PStr (fx_action f)),
          (''target_selector'', PStr (fx_target_selector f)),
          (''error_message'', PStr (fx_error_message f)),
          (''expected'', opt_str (fx_expected_result f)), (''actual'', opt_str (fx_actual_result f))]),
      (''historical'', PDict
         [(''previous_executions'', PInt (int (hc_executions h))),
          (''previous_successes'', PInt (int (hc_successes h))),
          (''has_previous_element'', PBool (hc_previous_element h \<noteq> None))]),
      (''current_evidence'', PList (map (\<lambda>e. PDict
         [(''type'', PStr (ev_type e)), (''description'', PStr (ev_description e))]) evidence)),
      (''valid_failure_types'', PList (map (PStr \<circ> failure_type_value) failure_type_members)),
      (''valid_confidence_levels'', PList (map (PStr \<circ> confidence_level_value) confidence_level_members)),
      (''required_response_format'', PDict
         [(''failure_type'', PStr ''one of valid_failure_types''),
          (''confidence'', PStr ''one of valid_confidence_levels''),
          (''root_cause'', PStr ''concise explanation string'')])]"

definition analysis_request ::
  "failure_context \<Rightarrow> historical_context \<Rightarrow> failure_evidence list \<Rightarrow> llm_request" where
  "analysis_request f h evidence =
     \<lparr>lr_prompt = analysis_prompt f h evidence,
      lr_system_instruction = ''You are a test failure analysis engine. '' @
        ''Respond ONLY with a JSON object containing: failure_type, confidence, root_cause. '' @
        ''Do not include any other text.'',
      lr_response_format = ''json'',
      lr_temperature = fl 0.1\<rparr>"

definition enum_of_pyval :: "'a list \<Rightarrow> ('a \<Rightarrow> string) \<Rightarrow> pyval \<Rightarrow> 'a option" where
  "enum_of_pyval members val v = (case v of PStr s \<Rightarrow> enum_of_value members val s | _ \<Rightarrow> None)"

definition validate_llm_analysis ::
  "(string \<times> pyval) list \<Rightarrow> (failure_type \<times> confidence_level \<times> string) option" where
  "validate_llm_analysis d =
     (case enum_of_pyval failure_type_members failure_type_value (dict_get_or d ''failure_type'' (PStr [])) of
        None \<Rightarrow> None
      | Some ft \<Rightarrow>
        (case enum_of_pyval confidence_level_members confidence_level_value
                (dict_get_or d ''confidence'' (PStr [])) of
           None \<Rightarrow> None
         | Some cl \<Rightarrow>
           (case dict_get_or d ''root_cause'' (PStr []) of
              PStr s \<Rightarrow> if s = [] then None else Some (ft, cl, s)
            | _ \<Rightarrow> None)))"

definition analyze_with_llm ::
  "llm_client option \<Rightarrow> failure_context \<Rightarrow> historical_context \<Rightarrow> failure_evidence list \<Rightarrow>
     (failure_type \<times> confidence_level \<times> string) option" where
  "analyze_with_llm client f h evidence =
     (case client of None \<Rightarrow> None
      | Some generate_json \<Rightarrow>
          (case generate_json (analysis_request f h evidence) of None \<Rightarrow> None
           | Some d \<Rightarrow> validate_llm_analysis d))"

section \<open>The agent\<close>

definition final_verdict ::
  "llm_client option \<Rightarrow> failure_context \<Rightarrow> historical_context \<Rightarrow> verdict" where
  "final_verdict client f h =
     (let (ft, conf, evidence, cause) = classify_deterministic f h
      in if conf = CL_LOW \<and> client \<noteq> None then
           (case analyze_with_llm client f h evidence of
              None \<Rightarrow> (ft, conf, evidence, cause)
            | Some (ft', conf', cause') \<Rightarrow>
                (ft', conf',
                 evidence @ [evidence_item ''llm_analysis''
                   ''LLM provided analysis for ambiguous failure'' [(''source'', PStr ''llm'')]],
                 cause'))
         else (ft, conf, evidence, cause))"

definition analyze :: "mem_store \<Rightarrow> llm_client option \<Rightarrow> failure_context \<Rightarrow> failure_analysis" where
  "analyze m client f =
     (let h0 = retrieve_historical_context m f;
          h = (case compare_contexts f h0 of None \<Rightarrow> h0
               | Some cmp \<Rightarrow> h0\<lparr>hc_comparison := Some cmp\<rparr>);
          (ft, conf, evidence, cause) = final_verdict client f h
      in \<lparr>fa_test_id = fx_test_id f,
          fa_execution_id = fx_execution_id f,
          fa_failure_type = ft,
          fa_root_cause = cause,
          fa_confidence = conf,
          fa_failed_step = fx_failed_step f,
          fa_failed_target = fx_target_selector f,
          fa_expected_state = fx_expected_result f,
          fa_actual_state = fx_actual_result f,
          fa_evidence = evidence,
          fa_historical_context = Some h,
          fa_recommended_action = action_map ft\<rparr>)"

end
