(* ===== verification/Analysis_Properties.thy ===== *)
theory Analysis_Properties
  imports Failure_Analyzer
begin

text \<open>
  The properties of the failure analyzer. \<open>rule_of\<close> tells which failure type, with which
  confidence, each deterministic rule can answer; the properties follow from it.
\<close>

section \<open>What each rule answers\<close>

definition good_verdict :: "verdict \<Rightarrow> bool" where
  "good_verdict v = (case v of (_, _, evidence, cause) \<Rightarrow>
     list_all valid_failure_evidence evidence \<and> cause \<noteq> [])"

lemma evidence_item_valid [simp]: "valid_failure_evidence (evidence_item t d ds) \<longleftrightarrow> t \<noteq> [] \<and> d \<noteq> []"
  by (simp add: valid_failure_evidence_def evidence_item_def)

lemma field_change_evidence_valid [simp]: "valid_failure_evidence (field_change_evidence c)"
  by (simp add: field_change_evidence_def)

lemma selector_changed_rule:
  assumes "check_selector_changed f h [] = Some (t, c, ev, cause)"
  shows "t = FT_SELECTOR_CHANGED" "c \<in> {CL_HIGH, CL_MEDIUM}" "hc_previous_element h \<noteq> None"
    "is_missing_element (fx_error_message f)" "c = CL_HIGH \<longleftrightarrow> fx_current_element f \<noteq> None"
    "good_verdict (t, c, ev, cause)"
  using assms
  by (auto simp: check_selector_changed_def Let_def good_verdict_def list_all_iff
      split: option.splits if_splits)

lemma element_not_found_rule:
  assumes "check_element_not_found f h [] = Some (t, c, ev, cause)"
  shows "t = FT_ELEMENT_NOT_FOUND" "c \<in> {CL_HIGH, CL_MEDIUM}" "good_verdict (t, c, ev, cause)"
  using assms by (auto simp: check_element_not_found_def good_verdict_def split: if_splits)

lemma element_not_interactable_rule:
  assumes "check_element_not_interactable f [] = Some (t, c, ev, cause)"
  shows "t = FT_ELEMENT_NOT_INTERACTABLE" "c = CL_HIGH" "good_verdict (t, c, ev, cause)"
  using assms
  by (auto simp: check_element_not_interactable_def Let_def good_verdict_def split: if_splits)

lemma assertion_failed_rule:
  assumes "check_assertion_failed f [] = Some (t, c, ev, cause)"
  shows "t = FT_ASSERTION_FAILURE" "c \<in> {CL_HIGH, CL_MEDIUM}" "good_verdict (t, c, ev, cause)"
  using assms by (auto simp: check_assertion_failed_def Let_def good_verdict_def split: if_splits)

lemma timeout_rule:
  assumes "check_timeout f [] = Some (t, c, ev, cause)"
  shows "t = FT_TIMEOUT" "c = CL_HIGH" "\<not> is_missing_element (fx_error_message f)"
    "good_verdict (t, c, ev, cause)"
  using assms by (auto simp: check_timeout_def Let_def good_verdict_def split: if_splits)

lemma navigation_rule:
  assumes "check_navigation_failed f [] = Some (t, c, ev, cause)"
  shows "t = FT_NAVIGATION_FAILURE" "c = CL_HIGH" "good_verdict (t, c, ev, cause)"
  using assms
  by (auto simp: check_navigation_failed_def Let_def good_verdict_def split: if_splits)

lemma unknown_rule:
  "fst (unknown_verdict f []) = FT_UNKNOWN" "fst (snd (unknown_verdict f [])) = CL_LOW"
  "good_verdict (unknown_verdict f [])"
  by (simp_all add: unknown_verdict_def good_verdict_def)

lemma first_some_Some: "first_some xs = Some v \<Longrightarrow> Some v \<in> set xs"
  by (induction xs rule: first_some.induct) auto

lemma first_some_None: "first_some xs = None \<longleftrightarrow> set xs \<subseteq> {None}"
  by (induction xs rule: first_some.induct) auto

text \<open>Which rule a verdict comes from.\<close>

lemma verdict_cases:
  obtains
    (selector) "check_selector_changed f h [] = Some (classify_deterministic f h)"
  | (interactable) "check_element_not_interactable f [] = Some (classify_deterministic f h)"
  | (assertion) "check_assertion_failed f [] = Some (classify_deterministic f h)"
  | (timeout) "check_timeout f [] = Some (classify_deterministic f h)"
  | (navigation) "check_navigation_failed f [] = Some (classify_deterministic f h)"
  | (missing) "check_element_not_found f h [] = Some (classify_deterministic f h)"
  | (unknown) "classify_deterministic f h = unknown_verdict f []" "check_element_not_found f h [] = None"
proof (cases "first_some [check_selector_changed f h [], check_element_not_interactable f [],
    check_assertion_failed f [], check_timeout f [], check_navigation_failed f [],
    check_element_not_found f h []]")
  case None
  then have "check_element_not_found f h [] = None" by (simp add: first_some_None)
  moreover have "classify_deterministic f h = unknown_verdict f []"
    unfolding classify_deterministic_def None by simp
  ultimately show ?thesis by (rule unknown[rotated])
next
  case (Some v)
  then have "classify_deterministic f h = v" by (simp add: classify_deterministic_def)
  with first_some_Some[OF Some] that show ?thesis by auto
qed

lemma deterministic_good: "good_verdict (classify_deterministic f h)"
proof -
  obtain t c ev cause where v: "classify_deterministic f h = (t, c, ev, cause)" by (metis prod_cases4)
  show ?thesis
  proof (cases rule: verdict_cases[of f h])
    case unknown
    then show ?thesis by (simp add: unknown_rule)
  qed (auto simp: v intro: selector_changed_rule element_not_interactable_rule assertion_failed_rule
      timeout_rule navigation_rule element_not_found_rule)
qed

lemma deterministic_type:
  assumes "classify_deterministic f h = (t, c, ev, cause)"
  shows "t \<notin> {FT_NETWORK_ERROR, FT_APPLICATION_ERROR}" "c = CL_LOW \<longleftrightarrow> t = FT_UNKNOWN"
    "t = FT_SELECTOR_CHANGED \<Longrightarrow> hc_previous_element h \<noteq> None \<and> is_missing_element (fx_error_message f)
       \<and> (c = CL_HIGH \<longleftrightarrow> fx_current_element f \<noteq> None)"
    "t = FT_TIMEOUT \<Longrightarrow> \<not> is_missing_element (fx_error_message f)"
    "t = FT_UNKNOWN \<Longrightarrow> \<not> is_missing_element (fx_error_message f)"
proof -
  have all: "t \<notin> {FT_NETWORK_ERROR, FT_APPLICATION_ERROR} \<and> (c = CL_LOW \<longleftrightarrow> t = FT_UNKNOWN) \<and>
    (t = FT_SELECTOR_CHANGED \<longrightarrow> hc_previous_element h \<noteq> None \<and> is_missing_element (fx_error_message f)
       \<and> (c = CL_HIGH \<longleftrightarrow> fx_current_element f \<noteq> None)) \<and>
    (t = FT_TIMEOUT \<longrightarrow> \<not> is_missing_element (fx_error_message f)) \<and>
    (t = FT_UNKNOWN \<longrightarrow> \<not> is_missing_element (fx_error_message f))"
  proof (cases rule: verdict_cases[of f h])
    case selector
    from selector_changed_rule[OF selector[unfolded assms]] show ?thesis by auto
  next
    case interactable
    from element_not_interactable_rule[OF interactable[unfolded assms]] show ?thesis by auto
  next
    case assertion
    from assertion_failed_rule[OF assertion[unfolded assms]] show ?thesis by auto
  next
    case timeout
    from timeout_rule[OF timeout[unfolded assms]] show ?thesis by auto
  next
    case navigation
    from navigation_rule[OF navigation[unfolded assms]] show ?thesis by auto
  next
    case missing
    from element_not_found_rule[OF missing[unfolded assms]] show ?thesis by auto
  next
    case unknown
    then show ?thesis using assms
      by (auto simp: unknown_verdict_def check_element_not_found_def split: if_splits)
  qed
  then show "t \<notin> {FT_NETWORK_ERROR, FT_APPLICATION_ERROR}" "c = CL_LOW \<longleftrightarrow> t = FT_UNKNOWN"
    "t = FT_SELECTOR_CHANGED \<Longrightarrow> hc_previous_element h \<noteq> None \<and> is_missing_element (fx_error_message f)
       \<and> (c = CL_HIGH \<longleftrightarrow> fx_current_element f \<noteq> None)"
    "t = FT_TIMEOUT \<Longrightarrow> \<not> is_missing_element (fx_error_message f)"
    "t = FT_UNKNOWN \<Longrightarrow> \<not> is_missing_element (fx_error_message f)"
    by blast+
qed

section \<open>The final verdict\<close>

definition context_of :: "mem_store \<Rightarrow> failure_context \<Rightarrow> historical_context" where
  "context_of m f = (let h0 = retrieve_historical_context m f
     in case compare_contexts f h0 of None \<Rightarrow> h0 | Some cmp \<Rightarrow> h0\<lparr>hc_comparison := Some cmp\<rparr>)"

lemma context_of_previous [simp]:
  "hc_previous_element (context_of m f) =
     (if fx_target_selector f \<noteq> [] then get_element_by_selector m (fx_target_selector f) None else None)"
  by (simp add: context_of_def Let_def retrieve_historical_context_def split: option.splits)

lemma analyze_fields:
  assumes "final_verdict client f (context_of m f) = (t, c, ev, cause)"
  shows "fa_failure_type (analyze m client f) = t" "fa_confidence (analyze m client f) = c"
    "fa_evidence (analyze m client f) = ev" "fa_root_cause (analyze m client f) = cause"
    "fa_recommended_action (analyze m client f) = action_map t"
  using assms by (simp_all add: analyze_def context_of_def Let_def)

lemma analyze_identity [simp]:
  "fa_test_id (analyze m client f) = fx_test_id f"
  "fa_execution_id (analyze m client f) = fx_execution_id f"
  "fa_failed_step (analyze m client f) = fx_failed_step f"
  "fa_failed_target (analyze m client f) = fx_target_selector f"
  by (simp_all add: analyze_def Let_def split: prod.splits)

lemma llm_cause: "analyze_with_llm client f h ev = Some (t, c, cause) \<Longrightarrow> cause \<noteq> []"
  by (auto simp: analyze_with_llm_def validate_llm_analysis_def split: option.splits pyval.splits if_splits)

lemma final_verdict_good: "good_verdict (final_verdict client f h)"
  using deterministic_good[of f h] llm_cause
  by (auto simp: final_verdict_def good_verdict_def split: prod.splits option.splits)

lemma final_verdict_rules:
  "fst (snd (classify_deterministic f h)) \<noteq> CL_LOW \<or> client = None \<Longrightarrow>
     final_verdict client f h = classify_deterministic f h"
  by (auto simp: final_verdict_def split: prod.splits)

section \<open>Properties\<close>

definition sample_failure :: "string \<Rightarrow> failure_context" where
  "sample_failure msg =
     \<lparr>fx_test_id = ''TC_1'', fx_execution_id = ''x1'', fx_failed_step = 2, fx_failed_step_id = Some 2,
      fx_action = ''click'', fx_target_selector = ''#a'', fx_expected_result = None,
      fx_actual_result = None, fx_error_message = msg, fx_failure_category = None,
      fx_current_page_url = Some ''/login'', fx_current_page_title = None, fx_current_element = None,
      fx_dom_evidence = None, fx_screenshot_path = None, fx_trace_path = None, fx_timestamp = None,
      fx_execution_metadata = []\<rparr>"

text \<open>
  For a well-formed failure report the analyzer always produces a well-formed analysis of
  the same test, execution, step and target: a non-empty root cause and valid evidence, with
  the recommended action of its failure type, whatever the LLM client answers.
\<close>

theorem analysis_valid:
  assumes "valid_failure_context f"
  shows "valid_failure_analysis (analyze m client f) \<and>
     fa_test_id (analyze m client f) = fx_test_id f \<and>
     fa_failed_target (analyze m client f) = fx_target_selector f \<and>
     fa_recommended_action (analyze m client f) = action_map (fa_failure_type (analyze m client f))"
proof -
  obtain t c ev cause where v: "final_verdict client f (context_of m f) = (t, c, ev, cause)"
    by (metis prod_cases4)
  show ?thesis
    using final_verdict_good[of client f "context_of m f"] assms
    by (simp add: v valid_failure_analysis_def analyze_fields[OF v] good_verdict_def
        valid_failure_context_def)
qed

lemma analysis_valid_witness:
  "valid_failure_analysis (analyze empty_store None (sample_failure ''boom''))"
proof -
  have "valid_failure_context (sample_failure ''boom'')"
    by (simp add: valid_failure_context_def sample_failure_def)
  from analysis_valid[OF this] show ?thesis by blast
qed

text \<open>
  The LLM is consulted only when the rules cannot classify: unless they answer UNKNOWN,
  the analysis is the one made without a client, and its confidence is at least MEDIUM.
\<close>

theorem llm_only_for_unknown:
  assumes "fa_failure_type (analyze m None f) \<noteq> FT_UNKNOWN"
  shows "analyze m client f = analyze m None f \<and> CL_MEDIUM \<le> fa_confidence (analyze m None f)"
proof -
  obtain t c ev cause where v: "classify_deterministic f (context_of m f) = (t, c, ev, cause)"
    by (metis prod_cases4)
  have none: "final_verdict None f (context_of m f) = (t, c, ev, cause)"
    using final_verdict_rules[of f "context_of m f" None] v by simp
  then have c: "c \<noteq> CL_LOW" using assms deterministic_type(2)[OF v] by (simp add: analyze_fields(1))
  then have "final_verdict client f (context_of m f) = (t, c, ev, cause)"
    using final_verdict_rules[of f "context_of m f" client] v by simp
  with none have "analyze m client f = analyze m None f"
    by (simp add: analyze_def context_of_def Let_def)
  moreover have "CL_MEDIUM \<le> c" using c by (cases c) (simp_all add: less_eq_confidence_level_def)
  ultimately show ?thesis using none by (simp add: analyze_fields(2))
qed

lemma llm_only_for_unknown_witness:
  "analyze empty_store (Some (\<lambda>_. Some [(''failure_type'', PStr ''NETWORK_ERROR'')]))
     (sample_failure ''Page load 404'') = analyze empty_store None (sample_failure ''Page load 404'')"
proof -
  have "fa_failure_type (analyze empty_store None (sample_failure ''Page load 404'')) \<noteq> FT_UNKNOWN"
    by code_simp
  from llm_only_for_unknown[OF this] show ?thesis by blast
qed

text \<open>
  Without an LLM the analyzer's answer is grounded: SELECTOR_CHANGED needs an element
  remembered for the failed selector and a message saying the element is missing, with HIGH
  confidence exactly when a current element was reported; a missing element is never blamed
  on a TIMEOUT nor left UNKNOWN; NETWORK_ERROR and APPLICATION_ERROR are never guessed; and
  the confidence is LOW exactly for UNKNOWN.
\<close>

theorem deterministic_analysis_grounded:
  "let a = analyze m None f in
     (fa_failure_type a = FT_SELECTOR_CHANGED \<longrightarrow>
        fx_target_selector f \<noteq> [] \<and> get_element_by_selector m (fx_target_selector f) None \<noteq> None \<and>
        is_missing_element (fx_error_message f) \<and>
        (fa_confidence a = CL_HIGH \<longleftrightarrow> fx_current_element f \<noteq> None)) \<and>
     (is_missing_element (fx_error_message f) \<longrightarrow> fa_failure_type a \<notin> {FT_TIMEOUT, FT_UNKNOWN}) \<and>
     fa_failure_type a \<notin> {FT_NETWORK_ERROR, FT_APPLICATION_ERROR} \<and>
     (fa_confidence a = CL_LOW \<longleftrightarrow> fa_failure_type a = FT_UNKNOWN)"
proof -
  obtain t c ev cause where v: "classify_deterministic f (context_of m f) = (t, c, ev, cause)"
    by (metis prod_cases4)
  then have "final_verdict None f (context_of m f) = (t, c, ev, cause)"
    using final_verdict_rules[of f "context_of m f" None] by simp
  note a = analyze_fields[OF this]
  show ?thesis
    using deterministic_type[OF v] by (auto simp: Let_def a split: if_splits)
qed

lemma deterministic_analysis_grounded_witness:
  "fa_failure_type (analyze empty_store None (sample_failure ''Element not found'')) \<notin> {FT_TIMEOUT, FT_UNKNOWN}"
proof -
  have "is_missing_element (fx_error_message (sample_failure ''Element not found''))" by code_simp
  with deterministic_analysis_grounded[of empty_store "sample_failure ''Element not found''"]
  show ?thesis by (simp add: Let_def)
qed

end
