(* ===== verification/Healing_Schemas.thy ===== *)
theory Healing_Schemas
  imports Analyzer_Schemas
begin

text \<open>
  The contracts of the healing layer: \<^verbatim>\<open>agents/healer/healing_schemas.py\<close> (scored
  candidates, recommendations, the engine's input) and \<^verbatim>\<open>agents/healer/schemas.py\<close> (the
  candidate and result exchanged with the execution engine). The \<open>valid_\<close> predicates are
  the declared field constraints and validators.
\<close>

section \<open>Scored candidates\<close>

record scored_candidate =
  sc_selector :: string
  sc_selector_type :: string
  sc_source :: candidate_source
  sc_confidence :: f64
  sc_evidence :: "string list"
  sc_text_similarity :: f64
  sc_role_similarity :: f64
  sc_type_similarity :: f64
  sc_page_similarity :: f64
  sc_historical_similarity :: f64
  sc_name_similarity :: f64
  sc_stable_attribute_similarity :: f64
  sc_healing_history_score :: f64

text \<open>The component scores, in the order the scoring formula reads them.\<close>

definition similarities :: "scored_candidate \<Rightarrow> f64 list" where
  "similarities c =
     [sc_text_similarity c, sc_role_similarity c, sc_type_similarity c, sc_page_similarity c,
      sc_historical_similarity c, sc_name_similarity c, sc_stable_attribute_similarity c,
      sc_healing_history_score c]"

definition valid_candidate :: "scored_candidate \<Rightarrow> bool" where
  "valid_candidate c \<longleftrightarrow>
     sc_selector c \<noteq> [] \<and> unit_interval (sc_confidence c) \<and>
     list_all unit_interval (similarities c)"

section \<open>Recommendations\<close>

record healing_recommendation =
  rc_test_id :: string
  rc_execution_id :: string
  rc_failed_step :: int
  rc_original_selector :: string
  rc_failure_type :: failure_type
  rc_candidates :: "scored_candidate list"
  rc_selected_candidate :: "scored_candidate option"
  rc_confidence :: confidence_level
  rc_recommended_action :: healing_action
  rc_decision :: healing_decision
  rc_evidence :: "string list"
  rc_requires_validation :: bool

definition valid_recommendation :: "healing_recommendation \<Rightarrow> bool" where
  "valid_recommendation r \<longleftrightarrow>
     rc_test_id r \<noteq> [] \<and> rc_execution_id r \<noteq> [] \<and> 1 \<le> rc_failed_step r \<and>
     list_all valid_candidate (rc_candidates r) \<and>
     (case rc_selected_candidate r of None \<Rightarrow> True | Some c \<Rightarrow> valid_candidate c) \<and>
     rc_requires_validation r"

section \<open>LLM evaluation result and healing context\<close>

record llm_evaluation_result =
  le_selected_selector :: string
  le_confidence :: f64
  le_reason :: string

definition valid_llm_evaluation :: "llm_evaluation_result \<Rightarrow> bool" where
  "valid_llm_evaluation r \<longleftrightarrow> le_selected_selector r \<noteq> [] \<and> unit_interval (le_confidence r)"

record healing_context =
  hx_failure_analysis :: failure_analysis
  hx_current_elements :: "element_record list"
  hx_page_url :: "string option"
  hx_page_title :: "string option"

section \<open>Contracts with the execution engine\<close>

record healing_candidate =
  hn_test_id :: string
  hn_failed_step :: int
  hn_healing_attempted :: bool
  hn_old_selector :: string
  hn_new_selector :: string
  hn_confidence :: f64
  hn_reason :: string
  hn_requires_validation :: bool
  hn_status :: healing_status
  hn_alternative_selectors :: "string list"

record healing_result =
  ht_test_id :: string
  ht_failed_step :: int
  ht_old_selector :: string
  ht_new_selector :: string
  ht_status :: healing_status
  ht_confidence :: f64
  ht_validated_by :: string
  ht_validation_error :: "string option"

end
