(* ===== verification/Candidate_Scorer.thy ===== *)
theory Candidate_Scorer
  imports Healing_Schemas
begin

text \<open>
  \<^verbatim>\<open>agents/healer/candidate_scorer.py\<close>: the weighted confidence of a candidate and the
  ranking. The source writes both sums out term by term; \<open>float_chain\<close> is that left-to-right
  chain of float additions.
\<close>

record scoring_weights =
  sw_text :: f64
  sw_role :: f64
  sw_type :: f64
  sw_page :: f64
  sw_historical :: f64
  sw_name :: f64
  sw_stable_attribute :: f64
  sw_healing_history :: f64

definition default_weights :: scoring_weights where
  "default_weights =
     \<lparr>sw_text = fl 0.30, sw_role = fl 0.25, sw_type = fl 0.10, sw_page = fl 0.15,
      sw_historical = fl 0.15, sw_name = fl 0.05, sw_stable_attribute = 0, sw_healing_history = 0\<rparr>"

definition weight_list :: "scoring_weights \<Rightarrow> f64 list" where
  "weight_list w =
     [sw_text w, sw_role w, sw_type w, sw_page w, sw_historical w, sw_name w,
      sw_stable_attribute w, sw_healing_history w]"

text \<open>\<open>p0 + p1 + p2 + \<dots>\<close>, rounded after every addition.\<close>

definition float_chain :: "f64 list \<Rightarrow> f64" where
  "float_chain ps = (case ps of [] \<Rightarrow> 0 | p # qs \<Rightarrow> foldl (\<lambda>a b. fl (a + b)) p qs)"

definition weights_total :: "scoring_weights \<Rightarrow> f64" where
  "weights_total w = float_chain (weight_list w)"

definition valid_weights :: "scoring_weights \<Rightarrow> bool" where
  "valid_weights w \<longleftrightarrow> list_all (\<lambda>x. 0 \<le> x) (weight_list w) \<and> 0 < weights_total w"

definition raw_score :: "scoring_weights \<Rightarrow> scored_candidate \<Rightarrow> f64" where
  "raw_score w c = float_chain (map2 (\<lambda>s x. fl (s * x)) (similarities c) (weight_list w))"

definition score_candidate :: "scoring_weights \<Rightarrow> scored_candidate \<Rightarrow> f64" where
  "score_candidate w c =
     (if weights_total w \<le> 0 then 0
      else py_round 4 (min (max (fl (raw_score w c / weights_total w)) 0) 1))"

definition score_and_update :: "scoring_weights \<Rightarrow> scored_candidate \<Rightarrow> scored_candidate" where
  "score_and_update w c = c\<lparr>sc_confidence := score_candidate w c\<rparr>"

definition rank_candidates :: "scoring_weights \<Rightarrow> scored_candidate list \<Rightarrow> scored_candidate list" where
  "rank_candidates w cs = sort_desc sc_confidence (map (score_and_update w) cs)"

section \<open>The float chain\<close>

lemma foldl_fl_mono:
  "list_all2 (\<le>) ps qs \<Longrightarrow> a \<le> b \<Longrightarrow>
     foldl (\<lambda>a x. fl (a + x)) a ps \<le> foldl (\<lambda>a x. fl (a + x)) b qs"
  by (induction ps qs arbitrary: a b rule: list_all2_induct) (simp_all add: fl_mono add_mono)

lemma float_chain_mono: "list_all2 (\<le>) ps qs \<Longrightarrow> float_chain ps \<le> float_chain qs"
  by (cases ps; cases qs) (auto simp: float_chain_def foldl_fl_mono)

lemma float_chain_zeros: "list_all (\<lambda>x. x = 0) ps \<Longrightarrow> float_chain ps = 0"
proof -
  have "foldl (\<lambda>a x. fl (a + x)) 0 ps = 0" if "list_all (\<lambda>x. x = 0) ps" for ps :: "f64 list"
    using that by (induction ps) simp_all
  then show "list_all (\<lambda>x. x = 0) ps \<Longrightarrow> float_chain ps = 0"
    by (cases ps) (auto simp: float_chain_def)
qed

lemma length_lists [simp]: "length (similarities c) = 8" "length (weight_list w) = 8"
  by (simp_all add: similarities_def weight_list_def)

section \<open>Scores\<close>

lemma score_unit: "unit_interval (score_candidate w c)"
  by (simp add: score_candidate_def py_round_unit unit_clamp)

lemma score_and_update_simps [simp]:
  "sc_confidence (score_and_update w c) = score_candidate w c"
  "sc_selector (score_and_update w c) = sc_selector c"
  "similarities (score_and_update w c) = similarities c"
  by (simp_all add: score_and_update_def similarities_def)

lemma valid_score_and_update: "valid_candidate c \<Longrightarrow> valid_candidate (score_and_update w c)"
  by (simp add: valid_candidate_def score_unit)

lemma raw_score_mono:
  assumes "list_all2 (\<le>) (similarities c) (similarities d)" "list_all (\<lambda>x. 0 \<le> x) (weight_list w)"
  shows "raw_score w c \<le> raw_score w d"
  unfolding raw_score_def
proof (rule float_chain_mono)
  show "list_all2 (\<le>) (map2 (\<lambda>s x. fl (s * x)) (similarities c) (weight_list w))
     (map2 (\<lambda>s x. fl (s * x)) (similarities d) (weight_list w))"
    using assms by (auto simp: list_all2_conv_all_nth list_all_length fl_mono mult_right_mono)
qed

lemma score_mono:
  assumes "list_all2 (\<le>) (similarities c) (similarities d)" "valid_weights w"
  shows "score_candidate w c \<le> score_candidate w d"
proof -
  have "raw_score w c \<le> raw_score w d" "0 < weights_total w"
    using assms raw_score_mono by (auto simp: valid_weights_def)
  then have "fl (raw_score w c / weights_total w) \<le> fl (raw_score w d / weights_total w)"
    by (intro fl_mono divide_right_mono) auto
  then have "min (max (fl (raw_score w c / weights_total w)) 0) 1
      \<le> min (max (fl (raw_score w d / weights_total w)) 0) 1" by (intro min.mono max.mono) auto
  then show ?thesis using \<open>0 < weights_total w\<close> py_round_mono by (simp add: score_candidate_def)
qed

lemma score_no_match: "list_all (\<lambda>x. x = 0) (similarities c) \<Longrightarrow> score_candidate w c = 0"
proof -
  assume "list_all (\<lambda>x. x = 0) (similarities c)"
  then have "raw_score w c = 0" unfolding raw_score_def
    by (intro float_chain_zeros) (auto simp: list_all_length)
  then show ?thesis by (simp add: score_candidate_def)
qed

lemma score_full_match:
  assumes "list_all (\<lambda>x. x = 1) (similarities c)" "valid_weights w"
    and "list_all (\<lambda>x. fl x = x) (weight_list w)"
  shows "score_candidate w c = 1"
proof -
  have "map2 (\<lambda>s x. fl (s * x)) (similarities c) (weight_list w) = weight_list w"
    using assms(1,3) by (intro nth_equalityI) (auto simp: list_all_length)
  then have "raw_score w c = weights_total w" by (simp add: raw_score_def weights_total_def)
  then show ?thesis using assms(2) by (simp add: score_candidate_def valid_weights_def)
qed

section \<open>Ranking\<close>

lemma rank_mset: "mset (rank_candidates w cs) = mset (map (score_and_update w) cs)"
  by (simp add: rank_candidates_def)

lemma rank_set: "set (rank_candidates w cs) = score_and_update w ` set cs"
  by (simp add: rank_candidates_def)

lemma rank_sorted: "sorted_wrt (\<lambda>a b. sc_confidence b \<le> sc_confidence a) (rank_candidates w cs)"
  by (simp add: rank_candidates_def sorted_wrt_sort_desc)

lemma rank_stable:
  "filter (\<lambda>c. sc_confidence c = v) (rank_candidates w cs) =
     filter (\<lambda>c. sc_confidence c = v) (map (score_and_update w) cs)"
  by (simp add: rank_candidates_def sort_desc_stable)

lemma rank_Nil [simp]: "rank_candidates w cs = [] \<longleftrightarrow> cs = []"
  by (simp add: rank_candidates_def)

lemma rank_valid: "list_all valid_candidate cs \<Longrightarrow> list_all valid_candidate (rank_candidates w cs)"
  by (auto simp: list_all_iff rank_set valid_score_and_update)

lemma default_weights_valid: "valid_weights default_weights"
  by code_simp

end
