(* ===== verification/Candidate_Generator.thy ===== *)
theory Candidate_Generator
  imports Healing_Evidence Candidate_Scorer
begin

text \<open>
  \<^verbatim>\<open>agents/healer/candidate_generator.py\<close>: candidate replacement selectors from the
  elements of the current page and from the healing memory. The candidates carry their
  component similarities; their confidence is 0 until the scorer sets it. The memory is the
  in-memory store of \<^theory_text>\<open>Memory_Store\<close>.
\<close>

definition stable_attributes :: "string list" where
  "stable_attributes =
     [''data-testid'', ''data-test-id'', ''data-qa'', ''data-cy'',
      ''aria-label'', ''aria-labelledby'', ''class'']"

section \<open>Comparing values\<close>

definition fold_text :: "string \<Rightarrow> string" where
  "fold_text s = lower (strip s)"

definition text_match :: "string option \<Rightarrow> string option \<Rightarrow> f64" where
  "text_match a b =
     (case (a, b) of
        (Some x, Some y) \<Rightarrow>
          if strip x = [] \<or> strip y = [] then 0 else if fold_text x = fold_text y then 1 else 0
      | _ \<Rightarrow> 0)"

definition exact_match :: "string option \<Rightarrow> string option \<Rightarrow> f64" where
  "exact_match a b =
     (case (a, b) of
        (Some x, Some y) \<Rightarrow>
          if strip x = [] \<or> strip y = [] then 0 else if fold_text x = fold_text y then 1 else 0
      | _ \<Rightarrow> 0)"

definition rstrip_slash :: "string \<Rightarrow> string" where
  "rstrip_slash s = rev (dropWhile (\<lambda>c. c = CHR ''/'') (rev s))"

definition page_match :: "string \<Rightarrow> string \<Rightarrow> f64" where
  "page_match a b =
     (if a = [] \<or> b = [] then 0
      else if rstrip_slash (strip a) = rstrip_slash (strip b) then 1 else 0)"

definition infer_selector_type :: "string \<Rightarrow> string" where
  "infer_selector_type selector =
     (let s = strip selector in
      if starts_with s ''#'' then ''id''
      else if starts_with s ''//'' \<or> starts_with s ''(//'' then ''xpath''
      else if starts_with s ''[name='' \<or> starts_with s (''[name='' @ [CHR 0x22]) then ''name''
      else if starts_with s ''.'' then ''class''
      else ''css'')"

definition attr_get :: "(string \<times> string) list \<Rightarrow> string \<Rightarrow> string" where
  "attr_get attrs key = or_empty (map_of attrs key)"

definition attr_agrees :: "(string \<times> string) list \<Rightarrow> (string \<times> string) list \<Rightarrow> string \<Rightarrow> bool" where
  "attr_agrees a b key =
     (let x = fold_text (attr_get a key); y = fold_text (attr_get b key)
      in x \<noteq> [] \<and> y \<noteq> [] \<and> x = y)"

definition stable_attribute_match :: "(string \<times> string) list \<Rightarrow> (string \<times> string) list \<Rightarrow> f64" where
  "stable_attribute_match a b =
     (let relevant = filter (\<lambda>k. map_of a k \<noteq> None \<or> map_of b k \<noteq> None) stable_attributes
      in if relevant = [] then 0
         else fl (of_nat (count_if (attr_agrees a b) relevant) / of_nat (length relevant)))"

definition get_matching_stable_attributes ::
  "(string \<times> string) list \<Rightarrow> (string \<times> string) list \<Rightarrow> string list" where
  "get_matching_stable_attributes a b = sort (filter (attr_agrees a b) stable_attributes)"

section \<open>Similarities and evidence of one element\<close>

record similarity_scores =
  sim_text :: f64
  sim_role :: f64
  sim_type :: f64
  sim_page :: f64
  sim_name :: f64
  sim_stable_attribute :: f64

definition str_or :: "string option \<Rightarrow> string option \<Rightarrow> string option" where
  "str_or a b = (if or_empty a = [] then b else a)"

definition compute_similarity ::
  "element_record \<Rightarrow> element_record \<Rightarrow> string option \<Rightarrow> similarity_scores" where
  "compute_similarity previous current page_url =
     \<lparr>sim_text = text_match (el_text previous) (el_text current),
      sim_role = exact_match (el_role previous) (el_role current),
      sim_type = exact_match (Some (attr_get (el_attributes previous) ''type''))
                   (Some (attr_get (el_attributes current) ''type'')),
      sim_page = page_match (or_empty (el_page_url previous))
                   (or_empty (str_or (el_page_url current) page_url)),
      sim_name = exact_match (Some (attr_get (el_attributes previous) ''name''))
                   (Some (attr_get (el_attributes current) ''name'')),
      sim_stable_attribute = stable_attribute_match (el_attributes previous) (el_attributes current)\<rparr>"

definition evidence_if :: "bool \<Rightarrow> string \<Rightarrow> string list" where
  "evidence_if b e = (if b then [e] else [])"

definition build_evidence ::
  "element_record \<Rightarrow> element_record \<Rightarrow> similarity_scores \<Rightarrow> string list" where
  "build_evidence previous current sims =
     (let type_val = attr_get (el_attributes previous) ''type'';
          name_val = attr_get (el_attributes previous) ''name'';
          matching = get_matching_stable_attributes (el_attributes previous) (el_attributes current)
      in evidence_if (sim_text sims > 0 \<and> or_empty (el_text previous) \<noteq> [])
           (''Same visible text: '' @ or_empty (el_text previous)) @
         evidence_if (sim_role sims > 0 \<and> or_empty (el_role previous) \<noteq> [])
           (''Same role: '' @ or_empty (el_role previous)) @
         evidence_if (sim_type sims > 0 \<and> type_val \<noteq> []) (''Same element type: '' @ type_val) @
         evidence_if (sim_page sims > 0) ''Same page context'' @
         evidence_if (sim_name sims > 0 \<and> name_val \<noteq> []) (''Same name attribute: '' @ name_val) @
         evidence_if (sim_stable_attribute sims > 0 \<and> matching \<noteq> [])
           (''Matching stable attributes: '' @ join '', '' matching) @
         evidence_if (el_selector previous \<noteq> el_selector current)
           (''Selector changed: '' @ quoted (el_selector previous) @ '' '' @ arrow @ '' '' @
            quoted (el_selector current)))"

section \<open>Candidates from the current page\<close>

definition current_candidate ::
  "element_record \<Rightarrow> string option \<Rightarrow> element_record \<Rightarrow> scored_candidate" where
  "current_candidate previous page_url current =
     (let sims = compute_similarity previous current page_url
      in \<lparr>sc_selector = el_selector current,
          sc_selector_type = infer_selector_type (el_selector current),
          sc_source = CS_CURRENT_DOM,
          sc_confidence = 0,
          sc_evidence = build_evidence previous current sims,
          sc_text_similarity = sim_text sims,
          sc_role_similarity = sim_role sims,
          sc_type_similarity = sim_type sims,
          sc_page_similarity = sim_page sims,
          sc_historical_similarity = 0,
          sc_name_similarity = sim_name sims,
          sc_stable_attribute_similarity = sim_stable_attribute sims,
          sc_healing_history_score = 0\<rparr>)"

fun generate_from_current_elements ::
  "element_record \<Rightarrow> element_record list \<Rightarrow> string option \<Rightarrow> scored_candidate list" where
  "generate_from_current_elements previous [] page_url = []"
| "generate_from_current_elements previous (current # rest) page_url =
     (if el_selector current = el_selector previous
      then generate_from_current_elements previous rest page_url
      else current_candidate previous page_url current
             # generate_from_current_elements previous rest page_url)"

section \<open>Candidates from the healing memory\<close>

definition compute_healing_history_score :: "mem_store \<Rightarrow> string \<Rightarrow> string \<Rightarrow> f64" where
  "compute_healing_history_score m old new =
     (let records = get_healing_history_for_replacement m old new 20
      in if records = [] then 0
         else fl (of_nat (count_if is_success records) / of_nat (length records)))"

definition historical_candidate :: "mem_store \<Rightarrow> string \<Rightarrow> healing_record \<Rightarrow> scored_candidate" where
  "historical_candidate m original r =
     (let score = compute_healing_history_score m original (hr_new_selector r)
      in \<lparr>sc_selector = hr_new_selector r,
          sc_selector_type = infer_selector_type (hr_new_selector r),
          sc_source = CS_HISTORICAL_MEMORY,
          sc_confidence = 0,
          sc_evidence =
            [''Previously healed: '' @ quoted original @ '' '' @ arrow @ '' '' @ quoted (hr_new_selector r),
             ''Previous confidence: '' @ fmt_fixed 2 (hr_confidence r)] @
            evidence_if (hr_healing_reason r \<noteq> []) (''Previous reason: '' @ hr_healing_reason r) @
            evidence_if (score > 0) (''Historical success rate: '' @ fmt_percent score),
          sc_text_similarity = 0,
          sc_role_similarity = 0,
          sc_type_similarity = 0,
          sc_page_similarity = 0,
          sc_historical_similarity = 1,
          sc_name_similarity = 0,
          sc_stable_attribute_similarity = 0,
          sc_healing_history_score = score\<rparr>)"

definition generate_from_historical_memory :: "mem_store \<Rightarrow> string \<Rightarrow> scored_candidate list" where
  "generate_from_historical_memory m original =
     map (historical_candidate m original) (filter is_success (get_healing_history m original 10))"

definition get_previous_element :: "mem_store \<Rightarrow> failure_analysis \<Rightarrow> element_record option" where
  "get_previous_element m a =
     (case Option.bind (fa_historical_context a) hc_previous_element of
        Some e \<Rightarrow> Some e
      | None \<Rightarrow> if fa_failed_target a \<noteq> [] then get_element_by_selector m (fa_failed_target a) None
                else None)"

definition generate_candidates :: "mem_store \<Rightarrow> healing_context \<Rightarrow> scored_candidate list" where
  "generate_candidates m ctx =
     (let a = hx_failure_analysis ctx;
          current =
            (case get_previous_element m a of
               Some previous \<Rightarrow>
                 if hx_current_elements ctx \<noteq> []
                 then generate_from_current_elements previous (hx_current_elements ctx) (hx_page_url ctx)
                 else []
             | None \<Rightarrow> []);
          existing = set (map sc_selector current);
          historical =
            (if fa_failed_target a \<noteq> []
             then filter (\<lambda>c. sc_selector c \<notin> existing)
                    (generate_from_historical_memory m (fa_failed_target a))
             else [])
      in current @ historical)"

section \<open>Similarities are in the unit interval\<close>

lemma match_unit [simp]:
  "unit_interval (text_match a b)" "unit_interval (exact_match a b)" "unit_interval (page_match s t)"
  by (auto simp: text_match_def exact_match_def page_match_def split: option.splits)

lemma text_match_pos:
  "0 < text_match a b \<longleftrightarrow>
     (\<exists>x y. a = Some x \<and> b = Some y \<and> strip x \<noteq> [] \<and> strip y \<noteq> [] \<and> fold_text x = fold_text y)"
  by (auto simp: text_match_def split: option.splits)

lemma stable_attribute_match_unit [simp]: "unit_interval (stable_attribute_match a b)"
  by (simp add: stable_attribute_match_def Let_def fl_fraction_unit count_if_le)

lemma generator_score_eq: "compute_healing_history_score m old new = compute_history_score m old new"
  by (simp add: compute_healing_history_score_def history_score_eq success_rate_def ratio_def
      stats_counts Let_def)

section \<open>Origin and validity of the candidates\<close>

lemma current_candidate_simps [simp]:
  "sc_selector (current_candidate p u e) = el_selector e"
  "sc_source (current_candidate p u e) = CS_CURRENT_DOM"
  "sc_confidence (current_candidate p u e) = 0"
  by (simp_all add: current_candidate_def Let_def)

lemma historical_candidate_simps [simp]:
  "sc_selector (historical_candidate m k r) = hr_new_selector r"
  "sc_source (historical_candidate m k r) = CS_HISTORICAL_MEMORY"
  "sc_confidence (historical_candidate m k r) = 0"
  "sc_healing_history_score (historical_candidate m k r) = compute_history_score m k (hr_new_selector r)"
  by (simp_all add: historical_candidate_def Let_def generator_score_eq)

lemma similarities_current_unit: "list_all unit_interval (similarities (current_candidate p u e))"
  by (simp add: similarities_def current_candidate_def Let_def compute_similarity_def)

lemma similarities_historical_unit: "list_all unit_interval (similarities (historical_candidate m k r))"
  by (simp add: similarities_def historical_candidate_def Let_def generator_score_eq history_score_unit)

lemma generate_from_current_elements_eq:
  "generate_from_current_elements p es u =
     map (current_candidate p u) (filter (\<lambda>e. el_selector e \<noteq> el_selector p) es)"
  by (induction es) auto

lemma generate_candidates_cases:
  assumes "c \<in> set (generate_candidates m ctx)"
  obtains
    (current) p e where
      "get_previous_element m (hx_failure_analysis ctx) = Some p" "e \<in> set (hx_current_elements ctx)"
      "el_selector e \<noteq> el_selector p" "c = current_candidate p (hx_page_url ctx) e"
  | (historical) r where
      "fa_failed_target (hx_failure_analysis ctx) \<noteq> []"
      "r \<in> set (get_healing_history m (fa_failed_target (hx_failure_analysis ctx)) 10)"
      "is_success r" "c = historical_candidate m (fa_failed_target (hx_failure_analysis ctx)) r"
proof -
  let ?a = "hx_failure_analysis ctx"
  have "(\<exists>p e. get_previous_element m ?a = Some p \<and> e \<in> set (hx_current_elements ctx) \<and>
          el_selector e \<noteq> el_selector p \<and> c = current_candidate p (hx_page_url ctx) e) \<or>
        (\<exists>r. fa_failed_target ?a \<noteq> [] \<and> r \<in> set (get_healing_history m (fa_failed_target ?a) 10) \<and>
          is_success r \<and> c = historical_candidate m (fa_failed_target ?a) r)"
    using assms
    by (cases "get_previous_element m ?a")
      (auto simp: generate_candidates_def Let_def generate_from_current_elements_eq
        generate_from_historical_memory_def split: if_splits)
  then show ?thesis using current historical by blast
qed

lemma generated_similarities:
  assumes "c \<in> set (generate_candidates m ctx)"
  shows "list_all unit_interval (similarities c)" "sc_confidence c = 0"
  using assms similarities_current_unit similarities_historical_unit
  by (cases rule: generate_candidates_cases; simp)+

definition elements_named :: "element_record list \<Rightarrow> bool" where
  "elements_named es \<longleftrightarrow> (\<forall>e \<in> set es. el_selector e \<noteq> [])"

definition healings_named :: "mem_store \<Rightarrow> bool" where
  "healings_named m \<longleftrightarrow> (\<forall>k. \<forall>r \<in> set (healing_records m k). hr_new_selector r \<noteq> [])"

lemma generated_valid:
  assumes "c \<in> set (generate_candidates m ctx)" "elements_named (hx_current_elements ctx)"
    "healings_named m"
  shows "valid_candidate c"
  using assms(1)
proof (cases rule: generate_candidates_cases)
  case (current p e)
  then show ?thesis using assms(2) similarities_current_unit
    by (simp add: valid_candidate_def elements_named_def)
next
  case (historical r)
  then have "r \<in> set (healing_records m (fa_failed_target (hx_failure_analysis ctx)))"
    using mem.history_subset by blast
  then show ?thesis using historical assms(3) similarities_historical_unit
    by (simp add: valid_candidate_def healings_named_def)
qed

lemma historical_not_current:
  assumes "c \<in> set (generate_candidates m ctx)" "sc_source c = CS_HISTORICAL_MEMORY"
    and "e \<in> set (hx_current_elements ctx)"
    and "get_previous_element m (hx_failure_analysis ctx) = Some p" "el_selector e \<noteq> el_selector p"
  shows "sc_selector c \<noteq> el_selector e"
  using assms
  by (auto simp: generate_candidates_def Let_def generate_from_current_elements_eq image_iff
      generate_from_historical_memory_def split: if_splits)

end
