(* ===== verification/LLM_Evaluator.thy ===== *)
theory LLM_Evaluator
  imports Healing_Schemas
begin

text \<open>
  \<^verbatim>\<open>agents/healer/llm_healing_evaluator.py\<close>: the prompt for ambiguous candidates, the
  validation of the response and the grounding check. The client is a parameter; an
  exception it raises is None, which the evaluator turns into "no evaluation".
\<close>

section \<open>Prompt\<close>

definition score_entry :: "string \<Rightarrow> f64 \<Rightarrow> (string \<times> pyval) list" where
  "score_entry key x = (if 0 < x then [(key, PFloat x)] else [])"

definition similarity_entries :: "scored_candidate \<Rightarrow> (string \<times> pyval) list" where
  "similarity_entries c =
     score_entry ''text'' (sc_text_similarity c) @
     score_entry ''role'' (sc_role_similarity c) @
     score_entry ''type'' (sc_type_similarity c) @
     score_entry ''page'' (sc_page_similarity c) @
     score_entry ''name'' (sc_name_similarity c) @
     score_entry ''stable_attribute'' (sc_stable_attribute_similarity c)"

definition candidate_info :: "scored_candidate \<Rightarrow> pyval" where
  "candidate_info c =
     (let scores = similarity_entries c
      in PDict ([(''selector'', PStr (sc_selector c)),
                 (''evidence'', PList (map PStr (slice_to 5 (sc_evidence c))))] @
                (if scores \<noteq> [] then [(''similarity_scores'', PDict scores)] else [])))"

definition healing_prompt :: "scored_candidate list \<Rightarrow> string \<Rightarrow> string \<Rightarrow> pyval" where
  "healing_prompt candidates original_selector failure_type = PDict
     [(''task'', PStr ''Select the best replacement selector candidate.''),
      (''failure_type'', PStr failure_type),
      (''original_selector'', PStr original_selector),
      (''candidates'', PList (map candidate_info (slice_to 5 candidates))),
      (''instruction'', PStr
        (''Return a JSON object with: '' @
         quoted ''selected_candidate'' @ '' (one of the candidate selectors above), '' @
         quoted ''confidence'' @ '' (float 0.0-1.0), '' @
         quoted ''reason'' @ '' (concise explanation). '' @
         ''You must select from the provided candidates only.''))]"

definition healing_request :: "scored_candidate list \<Rightarrow> string \<Rightarrow> string \<Rightarrow> llm_request" where
  "healing_request candidates original_selector failure_type =
     \<lparr>lr_prompt = healing_prompt candidates original_selector failure_type,
      lr_system_instruction =
        ''You are a test healing evaluation engine. '' @
        ''Select the best replacement selector from the '' @
        ''provided candidates based ONLY on the supplied '' @
        ''evidence. Respond ONLY with a JSON object '' @
        ''containing: selected_candidate (string), '' @
        ''confidence (float 0.0-1.0), '' @
        ''reason (concise string). '' @
        ''Do not include any other text. '' @
        ''Do not invent selectors.'',
      lr_response_format = ''json'',
      lr_temperature = fl 0.1\<rparr>"

section \<open>Validation of the response\<close>

text \<open>
  \<open>float(x)\<close> of a value that passed \<open>isinstance(x, (int, float))\<close>; a bool is an int, and
  an int beyond the binary64 range raises \<open>OverflowError\<close>. None for both kinds of failure.
\<close>

definition number_of_pyval :: "pyval \<Rightarrow> f64 option" where
  "number_of_pyval v =
     (case v of
        PBool b \<Rightarrow> Some (if b then 1 else 0)
      | PInt i \<Rightarrow> if \<bar>i\<bar> < 2 ^ 1024 - 2 ^ 970 then Some (fl (of_int i)) else None
      | PFloat x \<Rightarrow> Some x
      | _ \<Rightarrow> None)"

definition validate_schema :: "(string \<times> pyval) list \<Rightarrow> llm_evaluation_result option" where
  "validate_schema d =
     (case dict_get d ''selected_candidate'' of
        PStr selected \<Rightarrow>
          if strip selected = [] then None
          else
            (case number_of_pyval (dict_get d ''confidence'') of
               None \<Rightarrow> None
             | Some x \<Rightarrow>
                 Some \<lparr>le_selected_selector = strip selected,
                       le_confidence = min (max x 0) 1,
                       le_reason = (case dict_get_or d ''reason'' (PStr []) of PStr r \<Rightarrow> r | _ \<Rightarrow> [])\<rparr>)
      | _ \<Rightarrow> None)"

definition validate_grounding :: "llm_evaluation_result \<Rightarrow> string set \<Rightarrow> bool" where
  "validate_grounding r valid_selectors = (le_selected_selector r \<in> valid_selectors)"

definition llm_evaluate_candidates ::
  "llm_client \<Rightarrow> scored_candidate list \<Rightarrow> string \<Rightarrow> string \<Rightarrow> llm_evaluation_result option" where
  "llm_evaluate_candidates generate_json candidates original_selector failure_type =
     (if length candidates < 2 then None
      else
        (case generate_json (healing_request candidates original_selector failure_type) of
           None \<Rightarrow> None
         | Some response \<Rightarrow>
             (case validate_schema response of
                None \<Rightarrow> None
              | Some r \<Rightarrow>
                  if validate_grounding r (set (map sc_selector candidates)) then Some r else None)))"

section \<open>Accepted evaluations\<close>

lemma validate_schema_valid: "validate_schema d = Some r \<Longrightarrow> valid_llm_evaluation r"
  by (auto simp: validate_schema_def valid_llm_evaluation_def unit_clamp
      split: pyval.splits option.splits if_splits)

lemma llm_evaluation_grounded:
  assumes "llm_evaluate_candidates g cs orig ft = Some r"
  shows "le_selected_selector r \<in> sc_selector ` set cs" "valid_llm_evaluation r" "2 \<le> length cs"
  using assms validate_schema_valid
  by (auto simp: llm_evaluate_candidates_def validate_grounding_def split: option.splits if_splits)

end
