(* ===== verification/Healing_Decision.thy ===== *)
theory Healing_Decision
  imports Candidate_Generator LLM_Evaluator
begin

text \<open>
  \<^verbatim>\<open>agents/healer/healing_decision.py\<close>: the pipeline from a failure analysis to a healing
  recommendation: safety rules, candidate generation, enrichment from the healing history,
  ranking, ambiguity detection, thresholds, optional LLM disambiguation, final decision.
\<close>

section \<open>Configuration\<close>

record confidence_thresholds =
  th_high :: f64
  th_medium :: f64
  th_minimum_healing :: f64
  th_ambiguity :: f64

definition default_thresholds :: confidence_thresholds where
  "default_thresholds =
     \<lparr>th_high = fl 0.80, th_medium = fl 0.50, th_minimum_healing = fl 0.30, th_ambiguity = fl 0.05\<rparr>"

definition non_healable_failures :: "failure_type list" where
  "non_healable_failures = [FT_ASSERTION_FAILURE, FT_NETWORK_ERROR, FT_APPLICATION_ERROR]"

record decision_engine =
  de_llm_client :: "llm_client option"
  de_weights :: scoring_weights
  de_thresholds :: confidence_thresholds

definition default_engine :: decision_engine where
  "default_engine =
     \<lparr>de_llm_client = None, de_weights = default_weights, de_thresholds = default_thresholds\<rparr>"

section \<open>Steps of the pipeline\<close>

definition enrich_candidate :: "mem_store \<Rightarrow> string \<Rightarrow> scored_candidate \<Rightarrow> scored_candidate" where
  "enrich_candidate m original_selector c =
     (if 0 < sc_healing_history_score c then c
      else
        let score = compute_history_score m original_selector (sc_selector c)
        in if 0 < score then
             c\<lparr>sc_healing_history_score := score,
               sc_evidence := sc_evidence c @ [''Historical success rate: '' @ fmt_percent score]\<rparr>
           else c)"

definition enrich_with_healing_evidence ::
  "mem_store \<Rightarrow> scored_candidate list \<Rightarrow> string \<Rightarrow> scored_candidate list" where
  "enrich_with_healing_evidence m cs original_selector = map (enrich_candidate m original_selector) cs"

definition check_safety_rules :: "failure_analysis \<Rightarrow> healing_recommendation option" where
  "check_safety_rules a =
     (if fa_failure_type a \<in> set non_healable_failures then
        Some \<lparr>rc_test_id = fa_test_id a,
              rc_execution_id = fa_execution_id a,
              rc_failed_step = fa_failed_step a,
              rc_original_selector = fa_failed_target a,
              rc_failure_type = fa_failure_type a,
              rc_candidates = [],
              rc_selected_candidate = None,
              rc_confidence = CL_HIGH,
              rc_recommended_action = HA_DO_NOT_HEAL,
              rc_decision = HD_DO_NOT_HEAL,
              rc_evidence = [''Failure type '' @ quoted (failure_type_value (fa_failure_type a)) @
                '' is not eligible for selector-based healing''],
              rc_requires_validation = True\<rparr>
      else None)"

definition detect_ambiguity :: "confidence_thresholds \<Rightarrow> scored_candidate list \<Rightarrow> bool" where
  "detect_ambiguity th ranked =
     (case ranked of
        c0 # c1 # _ \<Rightarrow> fl (sc_confidence c0 - sc_confidence c1) \<le> th_ambiguity th
      | _ \<Rightarrow> False)"

definition classify_confidence :: "confidence_thresholds \<Rightarrow> f64 \<Rightarrow> confidence_level" where
  "classify_confidence th score =
     (if th_high th \<le> score then CL_HIGH
      else if th_medium th \<le> score then CL_MEDIUM
      else CL_LOW)"

definition determine_action_for_confidence :: "confidence_thresholds \<Rightarrow> f64 \<Rightarrow> healing_action" where
  "determine_action_for_confidence th confidence =
     (if th_medium th \<le> confidence then HA_TRY_REPLACEMENT_SELECTOR
      else if th_minimum_healing th \<le> confidence then HA_SEARCH_CURRENT_UI
      else HA_REQUIRE_FURTHER_ANALYSIS)"

type_synonym evaluation = "scored_candidate option \<times> confidence_level \<times> healing_action"

definition evaluate_candidates ::
  "confidence_thresholds \<Rightarrow> scored_candidate list \<Rightarrow> failure_analysis \<Rightarrow> bool \<Rightarrow> evaluation" where
  "evaluate_candidates th ranked a is_ambiguous =
     (case ranked of
        [] \<Rightarrow>
          if fa_failure_type a = FT_UNKNOWN then (None, CL_LOW, HA_REQUIRE_FURTHER_ANALYSIS)
          else (None, CL_LOW, HA_DO_NOT_HEAL)
      | best # _ \<Rightarrow>
          let confidence_level = classify_confidence th (sc_confidence best)
          in if sc_confidence best < th_minimum_healing th then
               (None, CL_LOW, HA_REQUIRE_FURTHER_ANALYSIS)
             else if is_ambiguous \<and> th_medium th \<le> sc_confidence best then
               (Some best, confidence_level, HA_REQUIRE_FURTHER_ANALYSIS)
             else if sc_confidence best < th_medium th then
               (Some best, CL_LOW, HA_SEARCH_CURRENT_UI)
             else if sc_confidence best < th_high th then
               (Some best, CL_MEDIUM, HA_TRY_REPLACEMENT_SELECTOR)
             else (Some best, CL_HIGH, HA_TRY_REPLACEMENT_SELECTOR))"

definition determine_decision ::
  "scored_candidate option \<Rightarrow> confidence_level \<Rightarrow> healing_action \<Rightarrow> bool \<Rightarrow> healing_decision" where
  "determine_decision selected level action is_ambiguous =
     (if action = HA_DO_NOT_HEAL then HD_DO_NOT_HEAL
      else if is_ambiguous then HD_REQUIRE_FURTHER_ANALYSIS
      else if action = HA_REQUIRE_FURTHER_ANALYSIS then HD_REQUIRE_FURTHER_ANALYSIS
      else if selected = None then HD_DO_NOT_HEAL
      else if level = CL_HIGH then HD_RECOMMEND_HEALING
      else if level = CL_MEDIUM then HD_REQUIRE_VALIDATION
      else HD_REQUIRE_FURTHER_ANALYSIS)"

definition build_evidence_summary ::
  "failure_analysis \<Rightarrow> scored_candidate list \<Rightarrow> scored_candidate option \<Rightarrow> healing_action \<Rightarrow>
     bool \<Rightarrow> string list" where
  "build_evidence_summary a ranked selected action is_ambiguous =
     [''Failure type: '' @ failure_type_value (fa_failure_type a),
      ''Original selector: '' @ fa_failed_target a,
      ''Candidates evaluated: '' @ show_nat (length ranked)] @
     (case selected of
        Some c \<Rightarrow> [''Selected candidate: '' @ sc_selector c @ '' (confidence: '' @
                    fmt_fixed 4 (sc_confidence c) @ '')'']
      | None \<Rightarrow> [''No candidate selected'']) @
     evidence_if is_ambiguous ''Ambiguous candidates detected'' @
     [''Recommended action: '' @ healing_action_value action]"

definition attempt_llm_disambiguation ::
  "llm_client option \<Rightarrow> scored_candidate list \<Rightarrow> failure_analysis \<Rightarrow> scored_candidate option" where
  "attempt_llm_disambiguation client ranked a =
     (case client of
        None \<Rightarrow> None
      | Some generate_json \<Rightarrow>
          if length ranked < 2 then None
          else
            (case llm_evaluate_candidates generate_json ranked (fa_failed_target a)
                    (failure_type_value (fa_failure_type a)) of
               None \<Rightarrow> None
             | Some r \<Rightarrow>
                 map_option (\<lambda>c. c\<lparr>sc_confidence := le_confidence r\<rparr>)
                   (find (\<lambda>c. sc_selector c = le_selected_selector r) ranked)))"

section \<open>The pipeline\<close>

text \<open>Steps 5 to 7: the verdict on ranked candidates, with the ambiguity that remains.\<close>

definition resolve_candidates ::
  "decision_engine \<Rightarrow> scored_candidate list \<Rightarrow> failure_analysis \<Rightarrow> evaluation \<times> bool" where
  "resolve_candidates de ranked a =
     (let th = de_thresholds de;
          is_ambiguous = detect_ambiguity th ranked;
          (selected, level, action) = evaluate_candidates th ranked a is_ambiguous
      in if is_ambiguous \<and> de_llm_client de \<noteq> None \<and> 2 \<le> length ranked \<and>
            action = HA_REQUIRE_FURTHER_ANALYSIS then
           (case attempt_llm_disambiguation (de_llm_client de) ranked a of
              Some c \<Rightarrow>
                ((Some c, classify_confidence th (sc_confidence c),
                  determine_action_for_confidence th (sc_confidence c)), False)
            | None \<Rightarrow> ((selected, level, action), is_ambiguous))
         else ((selected, level, action), is_ambiguous))"

definition ranked_candidates :: "mem_store \<Rightarrow> decision_engine \<Rightarrow> healing_context \<Rightarrow> scored_candidate list" where
  "ranked_candidates m de ctx =
     rank_candidates (de_weights de)
       (enrich_with_healing_evidence m (generate_candidates m ctx)
          (fa_failed_target (hx_failure_analysis ctx)))"

definition generate_recommendation ::
  "mem_store \<Rightarrow> decision_engine \<Rightarrow> healing_context \<Rightarrow> healing_recommendation" where
  "generate_recommendation m de ctx =
     (let a = hx_failure_analysis ctx
      in case check_safety_rules a of
           Some r \<Rightarrow> r
         | None \<Rightarrow>
             let ranked = ranked_candidates m de ctx;
                 ((selected, level, action), is_ambiguous) = resolve_candidates de ranked a;
                 decision = determine_decision selected level action is_ambiguous
             in \<lparr>rc_test_id = fa_test_id a,
                 rc_execution_id = fa_execution_id a,
                 rc_failed_step = fa_failed_step a,
                 rc_original_selector = fa_failed_target a,
                 rc_failure_type = fa_failure_type a,
                 rc_candidates = ranked,
                 rc_selected_candidate = selected,
                 rc_confidence = level,
                 rc_recommended_action = action,
                 rc_decision = decision,
                 rc_evidence = build_evidence_summary a ranked selected action is_ambiguous,
                 rc_requires_validation = True\<rparr>)"

section \<open>Enrichment and ranking\<close>

lemma enrich_candidate_simps [simp]:
  "sc_selector (enrich_candidate m k c) = sc_selector c"
  "sc_confidence (enrich_candidate m k c) = sc_confidence c"
  "sc_source (enrich_candidate m k c) = sc_source c"
  by (simp_all add: enrich_candidate_def Let_def)

lemma valid_enrich: "valid_candidate c \<Longrightarrow> valid_candidate (enrich_candidate m k c)"
  by (simp add: enrich_candidate_def Let_def valid_candidate_def similarities_def history_score_unit)

lemma ranked_valid:
  assumes "elements_named (hx_current_elements ctx)" "healings_named m"
  shows "list_all valid_candidate (ranked_candidates m de ctx)"
  unfolding ranked_candidates_def
  using generated_valid[OF _ assms]
  by (intro rank_valid) (auto simp: enrich_with_healing_evidence_def list_all_iff valid_enrich)

lemma ranked_sorted:
  "sorted_wrt (\<lambda>c d. sc_confidence d \<le> sc_confidence c) (ranked_candidates m de ctx)"
  by (simp add: ranked_candidates_def rank_sorted)

lemma ranked_origin:
  assumes "c \<in> set (ranked_candidates m de ctx)"
  shows "\<exists>d \<in> set (generate_candidates m ctx). sc_selector d = sc_selector c \<and> sc_source d = sc_source c"
  using assms
  by (fastforce simp: ranked_candidates_def rank_set enrich_with_healing_evidence_def
      score_and_update_def)

section \<open>Verdicts\<close>

lemma detect_ambiguity_length: "detect_ambiguity th cs \<Longrightarrow> 2 \<le> length cs"
  by (auto simp: detect_ambiguity_def split: list.splits)

lemma llm_choice_ranked:
  assumes "attempt_llm_disambiguation client ranked a = Some c"
  shows "\<exists>d \<in> set ranked. sc_selector d = sc_selector c \<and> c = d\<lparr>sc_confidence := sc_confidence c\<rparr>"
    and "unit_interval (sc_confidence c)"
  using assms llm_evaluation_grounded(2)
  by (auto simp: attempt_llm_disambiguation_def find_Some_iff valid_llm_evaluation_def
      split: option.splits if_splits)

lemma evaluate_selected:
  assumes "evaluate_candidates th ranked a b = (Some c, level, action)"
  shows "\<exists>rest. ranked = c # rest" "th_minimum_healing th \<le> sc_confidence c"
  using assms by (auto simp: evaluate_candidates_def Let_def split: list.splits if_splits)

lemma evaluate_high:
  assumes "evaluate_candidates th ranked a b = (Some c, CL_HIGH, action)"
    and "action \<noteq> HA_REQUIRE_FURTHER_ANALYSIS"
  shows "th_high th \<le> sc_confidence c"
  using assms by (auto simp: evaluate_candidates_def Let_def split: list.splits if_splits)

lemma not_ambiguous_gap:
  assumes "\<not> detect_ambiguity th (c # rest)" "d \<in> set rest"
    and "sorted_wrt (\<lambda>c d. sc_confidence d \<le> sc_confidence c) (c # rest)"
  shows "th_ambiguity th < fl (sc_confidence c - sc_confidence d)"
proof -
  obtain e es where rest: "rest = e # es" using assms(2) by (cases rest) auto
  have "sc_confidence d \<le> sc_confidence e" using assms(2,3) rest by auto
  then have "fl (sc_confidence c - sc_confidence e) \<le> fl (sc_confidence c - sc_confidence d)"
    by (intro fl_mono) simp
  then show ?thesis using assms(1) rest by (simp add: detect_ambiguity_def)
qed

text \<open>Where the selected candidate of a resolved verdict comes from.\<close>

lemma resolve_cases:
  assumes "resolve_candidates de ranked a = ((Some c, level, action), b)"
  obtains
    (rules) rest where "ranked = c # rest" "b = detect_ambiguity (de_thresholds de) ranked"
      "evaluate_candidates (de_thresholds de) ranked a b = (Some c, level, action)"
  | (llm) d where "de_llm_client de \<noteq> None" "d \<in> set ranked" "sc_selector d = sc_selector c"
      "attempt_llm_disambiguation (de_llm_client de) ranked a = Some c" "\<not> b"
      "level = classify_confidence (de_thresholds de) (sc_confidence c)"
      "action = determine_action_for_confidence (de_thresholds de) (sc_confidence c)"
proof -
  let ?th = "de_thresholds de" and ?amb = "detect_ambiguity (de_thresholds de) ranked"
  obtain sel lev act where ev: "evaluate_candidates ?th ranked a ?amb = (sel, lev, act)"
    by (metis prod_cases3)
  show ?thesis
  proof (cases "?amb \<and> de_llm_client de \<noteq> None \<and> 2 \<le> length ranked \<and>
      act = HA_REQUIRE_FURTHER_ANALYSIS \<and>
      attempt_llm_disambiguation (de_llm_client de) ranked a \<noteq> None")
    case True
    then obtain e where e: "attempt_llm_disambiguation (de_llm_client de) ranked a = Some e" by auto
    then show ?thesis
      using True assms ev llm_choice_ranked(1)[OF e] llm
      by (auto simp: resolve_candidates_def Let_def)
  next
    case False
    then have "((sel, lev, act), ?amb) = ((Some c, level, action), b)"
      using assms ev by (auto simp: resolve_candidates_def Let_def split: option.splits if_splits)
    then have ev': "evaluate_candidates ?th ranked a b = (Some c, level, action)" and "b = ?amb"
      using ev by auto
    then show ?thesis using evaluate_selected(1)[OF ev'] rules by auto
  qed
qed

lemma recommendation_blocked:
  "fa_failure_type (hx_failure_analysis ctx) \<in> set non_healable_failures \<Longrightarrow>
     rc_decision (generate_recommendation m de ctx) = HD_DO_NOT_HEAL \<and>
     rc_selected_candidate (generate_recommendation m de ctx) = None \<and>
     rc_candidates (generate_recommendation m de ctx) = []"
  by (simp add: generate_recommendation_def check_safety_rules_def Let_def)

lemma recommendation_resolved:
  assumes "fa_failure_type (hx_failure_analysis ctx) \<notin> set non_healable_failures"
    and "resolve_candidates de (ranked_candidates m de ctx) (hx_failure_analysis ctx)
           = ((selected, level, action), b)"
  shows "rc_candidates (generate_recommendation m de ctx) = ranked_candidates m de ctx"
    "rc_selected_candidate (generate_recommendation m de ctx) = selected"
    "rc_confidence (generate_recommendation m de ctx) = level"
    "rc_recommended_action (generate_recommendation m de ctx) = action"
    "rc_decision (generate_recommendation m de ctx) = determine_decision selected level action b"
  using assms by (simp_all add: generate_recommendation_def check_safety_rules_def Let_def)

lemma recommendation_meta:
  "rc_test_id (generate_recommendation m de ctx) = fa_test_id (hx_failure_analysis ctx)"
  "rc_execution_id (generate_recommendation m de ctx) = fa_execution_id (hx_failure_analysis ctx)"
  "rc_failed_step (generate_recommendation m de ctx) = fa_failed_step (hx_failure_analysis ctx)"
  "rc_requires_validation (generate_recommendation m de ctx)"
  by (auto simp: generate_recommendation_def check_safety_rules_def Let_def
      split: option.splits prod.splits)

end
