(* ===== verification/Result_Mapper.thy ===== *)
theory Result_Mapper
  imports Healing_Decision
begin

text \<open>
  \<^verbatim>\<open>agents/healer/healing_result_mapper.py\<close>: recommendation to the candidate the execution
  engine tries, and the engine's result back to a healing record. The identifier drawn by
  \<open>uuid4\<close> is an argument.
\<close>

definition recommendation_to_healing_candidate :: "healing_recommendation \<Rightarrow> healing_candidate" where
  "recommendation_to_healing_candidate r =
     (let selected = rc_selected_candidate r;
          parts = (case selected of None \<Rightarrow> [] | Some c \<Rightarrow> slice_to 5 (sc_evidence c));
          reason_parts = (if parts = []
            then [''Action: '' @ healing_action_value (rc_recommended_action r)] else parts)
      in \<lparr>hn_test_id = rc_test_id r,
          hn_failed_step = rc_failed_step r,
          hn_healing_attempted =
            (rc_recommended_action r = HA_TRY_REPLACEMENT_SELECTOR \<and> selected \<noteq> None),
          hn_old_selector = rc_original_selector r,
          hn_new_selector = (case selected of None \<Rightarrow> [] | Some c \<Rightarrow> sc_selector c),
          hn_confidence = (case selected of None \<Rightarrow> 0 | Some c \<Rightarrow> sc_confidence c),
          hn_reason = join ''; '' reason_parts,
          hn_requires_validation = True,
          hn_status = HS_PROPOSED,
          hn_alternative_selectors =
            map sc_selector (filter (\<lambda>c. \<not> (case selected of None \<Rightarrow> False
              | Some d \<Rightarrow> sc_selector c = sc_selector d)) (rc_candidates r))\<rparr>)"

record memory_update =
  mu_healing_id :: string
  mu_test_id :: string
  mu_old_selector :: string
  mu_new_selector :: string
  mu_healing_reason :: string
  mu_confidence :: f64
  mu_validation_result :: bool

definition healing_result_to_memory_update :: "string \<Rightarrow> healing_result \<Rightarrow> memory_update" where
  "healing_result_to_memory_update uuid_hex r =
     (let is_succ = (ht_status r = HS_VALIDATED_SUCCESS)
      in \<lparr>mu_healing_id = ''heal_'' @ take 12 uuid_hex,
          mu_test_id = ht_test_id r,
          mu_old_selector = ht_old_selector r,
          mu_new_selector = ht_new_selector r,
          mu_healing_reason = ''Healing '' @ (if is_succ then ''succeeded'' else ''failed''),
          mu_confidence = ht_confidence r,
          mu_validation_result = is_succ\<rparr>)"

text \<open>\<open>HealingRecord(**update["healing_record"])\<close>, whose timestamp defaults to the clock.\<close>

definition memory_update_record :: "string \<Rightarrow> memory_update \<Rightarrow> healing_record" where
  "memory_update_record now u =
     \<lparr>hr_healing_id = mu_healing_id u,
      hr_test_id = mu_test_id u,
      hr_old_selector = mu_old_selector u,
      hr_new_selector = mu_new_selector u,
      hr_healing_reason = mu_healing_reason u,
      hr_confidence = mu_confidence u,
      hr_validation_result = Some (mu_validation_result u),
      hr_timestamp = now\<rparr>"

definition prepare_healing_result ::
  "string \<Rightarrow> string \<Rightarrow> string \<Rightarrow> bool \<Rightarrow> f64 \<Rightarrow> int \<Rightarrow> string option \<Rightarrow> healing_result" where
  "prepare_healing_result test_id old new validation_success confidence failed_step validation_error =
     \<lparr>ht_test_id = test_id,
      ht_failed_step = failed_step,
      ht_old_selector = old,
      ht_new_selector = new,
      ht_status = (if validation_success then HS_VALIDATED_SUCCESS else HS_VALIDATED_FAILURE),
      ht_confidence = confidence,
      ht_validated_by = ''execution_engine'',
      ht_validation_error = validation_error\<rparr>"

section \<open>The contract with the engine\<close>

lemma candidate_attempted_has_selector:
  assumes "hn_healing_attempted (recommendation_to_healing_candidate r)"
  shows "\<exists>c. rc_selected_candidate r = Some c \<and>
    hn_new_selector (recommendation_to_healing_candidate r) = sc_selector c \<and>
    hn_confidence (recommendation_to_healing_candidate r) = sc_confidence c"
  using assms by (auto simp: recommendation_to_healing_candidate_def Let_def)

lemma candidate_alternatives:
  assumes "rc_selected_candidate r = Some c"
  shows "s \<in> set (hn_alternative_selectors (recommendation_to_healing_candidate r)) \<longleftrightarrow>
     s \<in> sc_selector ` set (rc_candidates r) \<and> s \<noteq> sc_selector c"
  using assms by (auto simp: recommendation_to_healing_candidate_def Let_def)

lemma memory_update_success:
  "is_success (memory_update_record now (healing_result_to_memory_update u
     (prepare_healing_result t old new ok conf step err))) \<longleftrightarrow> ok"
  by (simp add: memory_update_record_def healing_result_to_memory_update_def prepare_healing_result_def
      is_success_def Let_def)

end
