(* ===== verification/Healing_Feedback.thy ===== *)
theory Healing_Feedback
  imports Healing_Evidence
begin

text \<open>
  \<^verbatim>\<open>agents/healer/healing_feedback.py\<close>: the feedback the execution engine sends after a
  browser validation, and the processor that turns it into a healing record and stores it.
  \<open>valid_feedback\<close> holds the declared constraints and the status validator.
\<close>

record healing_feedback =
  fb_healing_id :: string
  fb_test_case_id :: string
  fb_failure_id :: "string option"
  fb_execution_id :: "string option"
  fb_original_selector :: string
  fb_attempted_selector :: string
  fb_candidate_id :: "string option"
  fb_healing_status :: healing_status
  fb_validation_status :: validation_status
  fb_failure_category :: "failure_type option"
  fb_confidence :: f64
  fb_execution_attempt :: int
  fb_timestamp :: string
  fb_error_reason :: "string option"
  fb_metadata :: "(string \<times> pyval) list"

definition post_validation_statuses :: "healing_status list" where
  "post_validation_statuses = [HS_VALIDATED_SUCCESS, HS_VALIDATED_FAILURE, HS_NO_SAFE_HEALING_FOUND]"

definition valid_feedback :: "healing_feedback \<Rightarrow> bool" where
  "valid_feedback f \<longleftrightarrow>
     fb_healing_id f \<noteq> [] \<and> fb_test_case_id f \<noteq> [] \<and> fb_original_selector f \<noteq> [] \<and>
     fb_attempted_selector f \<noteq> [] \<and> fb_healing_status f \<in> set post_validation_statuses \<and>
     unit_interval (fb_confidence f) \<and> 1 \<le> fb_execution_attempt f"

definition derive_validation_result :: "healing_feedback \<Rightarrow> bool option" where
  "derive_validation_result f =
     (if fb_validation_status f = VS_SUCCESS then Some True
      else if fb_validation_status f = VS_FAILURE then Some False
      else None)"

definition build_healing_reason :: "healing_feedback \<Rightarrow> string" where
  "build_healing_reason f = join ''; ''
     ([if fb_validation_status f = VS_SUCCESS
         then ''Healing validated successfully by execution engine''
       else if fb_validation_status f = VS_FAILURE then ''Healing validation failed''
       else if fb_validation_status f = VS_ERROR then ''Healing validation encountered an error''
       else ''Healing validation was skipped''] @
      (case fb_failure_category f of None \<Rightarrow> []
       | Some c \<Rightarrow> [''failure_category='' @ failure_type_value c]) @
      (if or_empty (fb_error_reason f) = [] then []
       else [''error: '' @ or_empty (fb_error_reason f)]) @
      (if 1 < fb_execution_attempt f then [''attempt #'' @ show_int (fb_execution_attempt f)] else []))"

definition feedback_record :: "healing_feedback \<Rightarrow> healing_record" where
  "feedback_record f =
     \<lparr>hr_healing_id = fb_healing_id f,
      hr_test_id = fb_test_case_id f,
      hr_old_selector = fb_original_selector f,
      hr_new_selector = fb_attempted_selector f,
      hr_healing_reason = build_healing_reason f,
      hr_confidence = fb_confidence f,
      hr_validation_result = derive_validation_result f,
      hr_timestamp = fb_timestamp f\<rparr>"

definition process_feedback ::
  "healing_feedback \<Rightarrow> mem_store \<Rightarrow> string + (healing_record \<times> mem_store)" where
  "process_feedback f m =
     (let r = feedback_record f
      in case store_healing_record r m of
           Inl e \<Rightarrow> Inl e
         | Inr m' \<Rightarrow> Inr (r, m'))"

section \<open>What is recorded\<close>

lemma feedback_record_success: "is_success (feedback_record f) \<longleftrightarrow> fb_validation_status f = VS_SUCCESS"
  by (simp add: is_success_def feedback_record_def derive_validation_result_def)

lemma feedback_record_failure: "is_failure (feedback_record f) \<longleftrightarrow> fb_validation_status f = VS_FAILURE"
  by (simp add: is_failure_def feedback_record_def derive_validation_result_def)

lemma valid_feedback_record: "valid_feedback f \<Longrightarrow> valid_healing_record (feedback_record f)"
  by (simp add: valid_feedback_def valid_healing_record_def feedback_record_def)

lemma process_feedback_Inr:
  "process_feedback f m = Inr (r, m') \<longleftrightarrow> r = feedback_record f \<and> store_healing_record r m = Inr m'"
  by (auto simp: process_feedback_def Let_def split: sum.splits)

lemma process_feedback_accepts:
  "(\<exists>r m'. process_feedback f m = Inr (r, m')) \<longleftrightarrow>
     \<not> blank (fb_healing_id f) \<and> \<not> blank (fb_original_selector f) \<and> \<not> blank (fb_attempted_selector f)"
  by (auto simp: process_feedback_Inr store_healing_record_Inr validate_healing_None feedback_record_def)

end
