(* ===== verification/Healing_Properties.thy ===== *)
theory Healing_Properties
  imports Result_Mapper Healing_Feedback
begin

text \<open>
  The properties of the healing layer: scoring and ranking, where candidates come from, the
  decision engine's safety, and learning from the engine's feedback.
\<close>

section \<open>Sample inputs of the witnesses\<close>

definition sample_analysis :: "failure_type \<Rightarrow> failure_analysis" where
  "sample_analysis ft =
     \<lparr>fa_test_id = ''TC_1'', fa_execution_id = ''x1'', fa_failure_type = ft, fa_root_cause = ''cause'',
      fa_confidence = CL_HIGH, fa_failed_step = 1, fa_failed_target = ''#old'',
      fa_expected_state = None, fa_actual_state = None, fa_evidence = [],
      fa_historical_context = None, fa_recommended_action = RA_SEARCH_FOR_REPLACEMENT_SELECTOR\<rparr>"

definition sample_page_element :: "string \<Rightarrow> string \<Rightarrow> element_record" where
  "sample_page_element selector text =
     \<lparr>el_element_id = ''e'', el_selector = selector, el_text = Some text, el_role = None,
      el_page_url = None, el_page_name = None, el_attributes = [],
      el_last_seen = ''2024-01-01'', el_last_success_id = None\<rparr>"

definition sample_memory :: mem_store where
  "sample_memory = empty_store\<lparr>ms_elements := [(''e'', [sample_page_element ''#old'' ''A''])]\<rparr>"

definition sample_context :: healing_context where
  "sample_context =
     \<lparr>hx_failure_analysis = sample_analysis FT_SELECTOR_CHANGED,
      hx_current_elements = [sample_page_element ''#new'' ''A'', sample_page_element ''#x'' ''B''],
      hx_page_url = None, hx_page_title = None\<rparr>"

text \<open>An engine that weighs the text only, with dyadic thresholds.\<close>

definition sample_engine :: decision_engine where
  "sample_engine =
     \<lparr>de_llm_client = None,
      de_weights = \<lparr>sw_text = 1, sw_role = 0, sw_type = 0, sw_page = 0, sw_historical = 0, sw_name = 0,
        sw_stable_attribute = 0, sw_healing_history = 0\<rparr>,
      de_thresholds = \<lparr>th_high = 3/4, th_medium = 1/2, th_minimum_healing = 1/4, th_ambiguity = 1/8\<rparr>\<rparr>"

definition sample_candidate :: "string \<Rightarrow> f64 \<Rightarrow> scored_candidate" where
  "sample_candidate s x =
     \<lparr>sc_selector = s, sc_selector_type = ''id'', sc_source = CS_CURRENT_DOM, sc_confidence = x,
      sc_evidence = [], sc_text_similarity = x, sc_role_similarity = x, sc_type_similarity = x,
      sc_page_similarity = x, sc_historical_similarity = x, sc_name_similarity = x,
      sc_stable_attribute_similarity = x, sc_healing_history_score = x\<rparr>"

definition sample_feedback :: healing_feedback where
  "sample_feedback =
     \<lparr>fb_healing_id = ''heal_1'', fb_test_case_id = ''TC_1'', fb_failure_id = None,
      fb_execution_id = None, fb_original_selector = ''#old'', fb_attempted_selector = ''#new'',
      fb_candidate_id = None, fb_healing_status = HS_VALIDATED_SUCCESS,
      fb_validation_status = VS_SUCCESS, fb_failure_category = Some FT_SELECTOR_CHANGED,
      fb_confidence = 1, fb_execution_attempt = 1, fb_timestamp = ''2024-02-01'',
      fb_error_reason = None, fb_metadata = []\<rparr>"

definition sample_ranked_candidate :: "string \<Rightarrow> f64 \<Rightarrow> string list \<Rightarrow> scored_candidate" where
  "sample_ranked_candidate s x ev =
     \<lparr>sc_selector = s, sc_selector_type = ''id'', sc_source = CS_CURRENT_DOM, sc_confidence = x,
      sc_evidence = ev, sc_text_similarity = x, sc_role_similarity = 0, sc_type_similarity = 0,
      sc_page_similarity = 0, sc_historical_similarity = 0, sc_name_similarity = 0,
      sc_stable_attribute_similarity = 0, sc_healing_history_score = 0\<rparr>"

lemma sample_generated:
  "\<exists>e1 e2. generate_candidates sample_memory sample_context =
     [(sample_ranked_candidate ''#new'' 1 e1)\<lparr>sc_confidence := 0\<rparr>, sample_ranked_candidate ''#x'' 0 e2]"
proof -
  have sim1: "compute_similarity (sample_page_element ''#old'' ''A'') (sample_page_element ''#new'' ''A'') None
      = \<lparr>sim_text = 1, sim_role = 0, sim_type = 0, sim_page = 0, sim_name = 0, sim_stable_attribute = 0\<rparr>"
    by code_simp
  have sim2: "compute_similarity (sample_page_element ''#old'' ''A'') (sample_page_element ''#x'' ''B'') None
      = \<lparr>sim_text = 0, sim_role = 0, sim_type = 0, sim_page = 0, sim_name = 0, sim_stable_attribute = 0\<rparr>"
    by code_simp
  have type1: "infer_selector_type ''#new'' = ''id''" by code_simp
  have type2: "infer_selector_type ''#x'' = ''id''" by code_simp
  have prev: "get_previous_element sample_memory (sample_analysis FT_SELECTOR_CHANGED)
      = Some (sample_page_element ''#old'' ''A'')" by code_simp
  have hist: "get_healing_history sample_memory ''#old'' 10 = []" by code_simp
  show ?thesis
    by (simp add: generate_candidates_def Let_def sample_context_def prev
        generate_from_current_elements_eq generate_from_historical_memory_def current_candidate_def sim1 sim2
        sample_ranked_candidate_def)
      (simp add: sample_analysis_def hist sample_page_element_def type1 type2)
qed

lemma sample_ranked:
  "\<exists>e1 e2. ranked_candidates sample_memory sample_engine sample_context =
     [sample_ranked_candidate ''#new'' 1 e1, sample_ranked_candidate ''#x'' 0 e2]"
proof -
  obtain e1 e2 where g: "generate_candidates sample_memory sample_context =
     [(sample_ranked_candidate ''#new'' 1 e1)\<lparr>sc_confidence := 0\<rparr>, sample_ranked_candidate ''#x'' 0 e2]"
    using sample_generated by blast
  have h: "compute_history_score sample_memory ''#old'' s = 0" for s
    by (simp add: compute_history_score_def get_replacement_stats_def mem.pair_history_is
        healing_records_def sample_memory_def empty_store_def dict_get_list_def slice_to_def)
  let ?w = "de_weights sample_engine"
  have "score_candidate ?w ((sample_ranked_candidate ''#new'' 1 e1)\<lparr>sc_confidence := 0\<rparr>) = 1"
    "score_candidate ?w (sample_ranked_candidate ''#x'' 0 e2) = 0"
    by (simp_all add: score_candidate_def raw_score_def weights_total_def float_chain_def weight_list_def
        similarities_def sample_engine_def sample_ranked_candidate_def)
  then have "rank_candidates ?w [(sample_ranked_candidate ''#new'' 1 e1)\<lparr>sc_confidence := 0\<rparr>,
      sample_ranked_candidate ''#x'' 0 e2] =
      [sample_ranked_candidate ''#new'' 1 e1, sample_ranked_candidate ''#x'' 0 e2]"
    by (simp add: rank_candidates_def sort_desc_def score_and_update_def) (simp add: sample_ranked_candidate_def)
  moreover have "enrich_candidate sample_memory ''#old'' c = c" for c
    by (simp add: enrich_candidate_def h)
  moreover have "fa_failed_target (hx_failure_analysis sample_context) = ''#old''"
    by (simp add: sample_context_def sample_analysis_def)
  ultimately show ?thesis by (auto simp: ranked_candidates_def g enrich_with_healing_evidence_def)
qed

lemma sample_decision:
  "rc_decision (generate_recommendation sample_memory sample_engine sample_context) = HD_RECOMMEND_HEALING"
  "\<exists>c. rc_selected_candidate (generate_recommendation sample_memory sample_engine sample_context) = Some c
     \<and> sc_selector c = ''#new''"
  "rc_recommended_action (generate_recommendation sample_memory sample_engine sample_context)
     = HA_TRY_REPLACEMENT_SELECTOR"
proof -
  obtain e1 e2 where r: "ranked_candidates sample_memory sample_engine sample_context =
     [sample_ranked_candidate ''#new'' 1 e1, sample_ranked_candidate ''#x'' 0 e2]"
    using sample_ranked by blast
  have healable: "fa_failure_type (hx_failure_analysis sample_context) \<notin> set non_healable_failures"
    by (simp add: sample_context_def sample_analysis_def non_healable_failures_def)
  have res: "resolve_candidates sample_engine (ranked_candidates sample_memory sample_engine sample_context)
      (hx_failure_analysis sample_context) =
      ((Some (sample_ranked_candidate ''#new'' 1 e1), CL_HIGH, HA_TRY_REPLACEMENT_SELECTOR), False)"
    unfolding r
    by (simp add: resolve_candidates_def detect_ambiguity_def evaluate_candidates_def sample_engine_def
        sample_ranked_candidate_def)
  note rec = recommendation_resolved[OF healable res]
  show "rc_decision (generate_recommendation sample_memory sample_engine sample_context) = HD_RECOMMEND_HEALING"
    "\<exists>c. rc_selected_candidate (generate_recommendation sample_memory sample_engine sample_context) = Some c
       \<and> sc_selector c = ''#new''"
    "rc_recommended_action (generate_recommendation sample_memory sample_engine sample_context)
       = HA_TRY_REPLACEMENT_SELECTOR"
    using rec by (simp_all add: determine_decision_def sample_ranked_candidate_def)
qed

section \<open>Scoring and ranking\<close>

text \<open>
  With valid weights a candidate that is at least as similar in every component gets at
  least as high a confidence, and every confidence is in the unit interval.
\<close>

theorem scoring_monotone:
  assumes "valid_weights w" "list_all2 (\<le>) (similarities c) (similarities d)"
  shows "score_candidate w c \<le> score_candidate w d \<and> unit_interval (score_candidate w c)"
  using score_mono[OF assms(2,1)] score_unit by blast

lemma scoring_monotone_witness:
  "score_candidate default_weights (sample_candidate ''#a'' 0)
     \<le> score_candidate default_weights (sample_candidate ''#b'' 1)"
  using scoring_monotone[OF default_weights_valid, of "sample_candidate ''#a'' 0" "sample_candidate ''#b'' 1"]
  by (simp add: similarities_def sample_candidate_def)

text \<open>
  A candidate that matches in every component gets full confidence from the default
  weights in spite of float rounding, and one that matches in none gets zero.
\<close>

theorem scoring_extremes:
  "(list_all (\<lambda>x. x = 1) (similarities c) \<longrightarrow> score_candidate default_weights c = 1) \<and>
   (list_all (\<lambda>x. x = 0) (similarities c) \<longrightarrow> score_candidate default_weights c = 0)"
proof -
  have "list_all (\<lambda>x. fl x = x) (weight_list default_weights)" by code_simp
  then show ?thesis using score_full_match[OF _ default_weights_valid] score_no_match by blast
qed

lemma scoring_extremes_witness:
  "score_candidate default_weights (sample_candidate ''#a'' 1) = 1"
  using scoring_extremes[of "sample_candidate ''#a'' 1"]
  by (simp add: similarities_def sample_candidate_def)

text \<open>
  Ranking returns the scored candidates, each exactly as often as it was given, sorted by
  confidence with the highest first, and keeps the given order of candidates with equal
  confidence.
\<close>

theorem ranking_is_stable_sort:
  "mset (rank_candidates w cs) = mset (map (score_and_update w) cs) \<and>
   sorted_wrt (\<lambda>a b. sc_confidence b \<le> sc_confidence a) (rank_candidates w cs) \<and>
   filter (\<lambda>c. sc_confidence c = v) (rank_candidates w cs) =
     filter (\<lambda>c. sc_confidence c = v) (map (score_and_update w) cs)"
  using rank_mset rank_sorted rank_stable by blast

section \<open>Origin of the candidates\<close>

definition offered :: "mem_store \<Rightarrow> healing_context \<Rightarrow> string \<Rightarrow> bool" where
  "offered m ctx s \<longleftrightarrow>
     s \<in> el_selector ` set (hx_current_elements ctx) \<or>
     (\<exists>r \<in> set (healing_records m (fa_failed_target (hx_failure_analysis ctx))).
        is_success r \<and> hr_new_selector r = s)"

lemma generated_offered:
  "c \<in> set (generate_candidates m ctx) \<Longrightarrow> offered m ctx (sc_selector c)"
  by (erule generate_candidates_cases) (use mem.history_subset in \<open>fastforce simp: offered_def\<close>)+

lemma ranked_offered: "c \<in> set (ranked_candidates m de ctx) \<Longrightarrow> offered m ctx (sc_selector c)"
  using ranked_origin generated_offered by metis

text \<open>
  No candidate selector is invented: every ranked candidate's selector is the selector of
  an element of the current page or the replacement of a stored, validated success for the
  failed selector; its similarities are in the unit interval, and a historical candidate never
  repeats the selector of a current one.
\<close>

theorem candidates_grounded:
  assumes "c \<in> set (ranked_candidates m de ctx)"
  shows "offered m ctx (sc_selector c) \<and> unit_interval (sc_confidence c) \<and>
     (sc_source c = CS_HISTORICAL_MEMORY \<longrightarrow>
        (\<forall>d \<in> set (ranked_candidates m de ctx).
           sc_source d = CS_CURRENT_DOM \<longrightarrow> sc_selector d \<noteq> sc_selector c))"
proof (intro conjI impI ballI)
  show "offered m ctx (sc_selector c)" using assms by (rule ranked_offered)
  show "unit_interval (sc_confidence c)"
    using assms by (auto simp: ranked_candidates_def rank_set score_unit)
next
  fix d
  assume h: "sc_source c = CS_HISTORICAL_MEMORY" and d: "d \<in> set (ranked_candidates m de ctx)"
    "sc_source d = CS_CURRENT_DOM"
  obtain c0 where c0: "c0 \<in> set (generate_candidates m ctx)" "sc_selector c0 = sc_selector c"
    "sc_source c0 = CS_HISTORICAL_MEMORY" using ranked_origin[OF assms] h by auto
  obtain d0 where d0: "d0 \<in> set (generate_candidates m ctx)" "sc_selector d0 = sc_selector d"
    "sc_source d0 = CS_CURRENT_DOM" using ranked_origin[OF d(1)] d(2) by auto
  from d0(1,3) obtain p e where "get_previous_element m (hx_failure_analysis ctx) = Some p"
    "e \<in> set (hx_current_elements ctx)" "el_selector e \<noteq> el_selector p" "sc_selector d0 = el_selector e"
    by (cases rule: generate_candidates_cases) auto
  then show "sc_selector d \<noteq> sc_selector c"
    using historical_not_current[OF c0(1,3)] c0(2) d0(2) by metis
qed

lemma candidates_grounded_witness: "offered sample_memory sample_context ''#new''"
proof -
  obtain e1 e2 where r: "ranked_candidates sample_memory sample_engine sample_context =
     [sample_ranked_candidate ''#new'' 1 e1, sample_ranked_candidate ''#x'' 0 e2]"
    using sample_ranked by blast
  have "sample_ranked_candidate ''#new'' 1 e1
      \<in> set (ranked_candidates sample_memory sample_engine sample_context)" by (simp add: r)
  from candidates_grounded[OF this] show ?thesis by (simp add: sample_ranked_candidate_def)
qed

section \<open>The decision engine\<close>

text \<open>
  C36: The engine recommends healing outright only when it is safe: the failure type is
  healable, a candidate that is on offer is selected, its confidence reaches the high
  threshold, and it either leads every other candidate by more than the ambiguity threshold
  or was chosen among the ranked candidates by the LLM client.
\<close>

theorem recommend_healing_is_safe:
  assumes "rc_decision (generate_recommendation m de ctx) = HD_RECOMMEND_HEALING"
  shows "fa_failure_type (hx_failure_analysis ctx) \<notin> set non_healable_failures \<and>
    (\<exists>c. rc_selected_candidate (generate_recommendation m de ctx) = Some c \<and>
       th_high (de_thresholds de) \<le> sc_confidence c \<and> offered m ctx (sc_selector c) \<and>
       ((\<exists>rest. rc_candidates (generate_recommendation m de ctx) = c # rest \<and>
           (\<forall>d \<in> set rest. th_ambiguity (de_thresholds de) < fl (sc_confidence c - sc_confidence d))) \<or>
        (de_llm_client de \<noteq> None \<and>
           sc_selector c \<in> sc_selector ` set (rc_candidates (generate_recommendation m de ctx)))))"
proof -
  let ?a = "hx_failure_analysis ctx" and ?ranked = "ranked_candidates m de ctx"
    and ?th = "de_thresholds de"
  have healable: "fa_failure_type ?a \<notin> set non_healable_failures"
    using assms recommendation_blocked by fastforce
  obtain sel level action b where res: "resolve_candidates de ?ranked ?a = ((sel, level, action), b)"
    by (metis prod.exhaust)
  note r = recommendation_resolved[OF healable res]
  have d: "determine_decision sel level action b = HD_RECOMMEND_HEALING" using assms r(5) by simp
  then obtain c where c: "sel = Some c" "level = CL_HIGH" "\<not> b" "action \<noteq> HA_REQUIRE_FURTHER_ANALYSIS"
    by (cases sel) (auto simp: determine_decision_def split: if_splits)
  from res[unfolded c(1)] show ?thesis
  proof (cases rule: resolve_cases)
    case (rules rest)
    have "th_high ?th \<le> sc_confidence c"
      using evaluate_high rules(3) c(2,4) by blast
    moreover have "\<forall>d \<in> set rest. th_ambiguity ?th < fl (sc_confidence c - sc_confidence d)"
      using not_ambiguous_gap[of ?th c rest] rules(1,2) c(3) ranked_sorted[of m de ctx] by simp
    moreover have "offered m ctx (sc_selector c)" using ranked_offered[of c m de ctx] rules(1) by simp
    ultimately show ?thesis using healable r rules(1) c(1) by auto
  next
    case (llm d)
    have "th_high ?th \<le> sc_confidence c"
      using llm(6) c(2) by (simp add: classify_confidence_def split: if_splits)
    moreover have "offered m ctx (sc_selector c)" using ranked_offered[OF llm(2)] llm(3) by simp
    moreover have "sc_selector c \<in> sc_selector ` set ?ranked" using llm(2,3) by (metis image_eqI)
    ultimately show ?thesis using healable r llm(1) c(1) by auto
  qed
qed

lemma recommend_healing_is_safe_witness:
  "\<exists>c. rc_selected_candidate (generate_recommendation sample_memory sample_engine sample_context) = Some c
     \<and> 3/4 \<le> sc_confidence c"
  using recommend_healing_is_safe[OF sample_decision(1)] by (auto simp: sample_engine_def)

text \<open>
  A failure type that selectors cannot cause is never healed: the engine answers
  DO_NOT_HEAL without a candidate, and the candidate sent to the execution engine is not to
  be attempted.
\<close>

theorem non_healable_never_healed:
  assumes "fa_failure_type (hx_failure_analysis ctx) \<in> set non_healable_failures"
  shows "rc_decision (generate_recommendation m de ctx) = HD_DO_NOT_HEAL \<and>
    rc_selected_candidate (generate_recommendation m de ctx) = None \<and>
    \<not> hn_healing_attempted (recommendation_to_healing_candidate (generate_recommendation m de ctx))"
  using recommendation_blocked[OF assms] candidate_attempted_has_selector by fastforce

lemma non_healable_never_healed_witness:
  "rc_decision (generate_recommendation sample_memory sample_engine
     (sample_context\<lparr>hx_failure_analysis := sample_analysis FT_NETWORK_ERROR\<rparr>)) = HD_DO_NOT_HEAL"
proof -
  have "fa_failure_type (hx_failure_analysis
      (sample_context\<lparr>hx_failure_analysis := sample_analysis FT_NETWORK_ERROR\<rparr>)) \<in> set non_healable_failures"
    by (simp add: sample_analysis_def non_healable_failures_def)
  from non_healable_never_healed[OF this] show ?thesis by blast
qed

text \<open>
  Without an LLM client the decision for a healable failure with candidates is determined
  by the best confidence and the ambiguity alone: further analysis when the candidates are
  ambiguous or the best is below the medium threshold, validation below the high threshold,
  and a recommendation from there on.
\<close>

theorem decision_table:
  assumes "de_llm_client de = None" "th_minimum_healing (de_thresholds de) \<le> th_medium (de_thresholds de)"
    and "fa_failure_type (hx_failure_analysis ctx) \<notin> set non_healable_failures"
    and "ranked_candidates m de ctx = c # rest"
  shows "rc_decision (generate_recommendation m de ctx) =
    (if detect_ambiguity (de_thresholds de) (c # rest) \<or> sc_confidence c < th_medium (de_thresholds de)
     then HD_REQUIRE_FURTHER_ANALYSIS
     else if sc_confidence c < th_high (de_thresholds de) then HD_REQUIRE_VALIDATION
     else HD_RECOMMEND_HEALING)"
proof -
  let ?th = "de_thresholds de" and ?a = "hx_failure_analysis ctx"
  let ?b = "detect_ambiguity ?th (c # rest)"
  obtain sel level action where ev: "evaluate_candidates ?th (c # rest) ?a ?b = (sel, level, action)"
    by (metis prod_cases3)
  have "resolve_candidates de (ranked_candidates m de ctx) ?a = ((sel, level, action), ?b)"
    using assms(1,4) ev by (simp add: resolve_candidates_def Let_def)
  from recommendation_resolved(5)[OF assms(3) this]
  show ?thesis using ev assms(2)
    by (auto simp: evaluate_candidates_def determine_decision_def Let_def split: if_splits)
qed

lemma decision_table_witness:
  "rc_decision (generate_recommendation sample_memory sample_engine sample_context) = HD_RECOMMEND_HEALING"
proof -
  obtain e1 e2 where r: "ranked_candidates sample_memory sample_engine sample_context =
     [sample_ranked_candidate ''#new'' 1 e1, sample_ranked_candidate ''#x'' 0 e2]"
    using sample_ranked by blast
  show ?thesis
    using decision_table[OF _ _ _ r]
    by (simp add: sample_engine_def sample_context_def sample_analysis_def non_healable_failures_def
        detect_ambiguity_def sample_ranked_candidate_def)
qed

text \<open>
  Given a well-formed analysis, named page elements and named stored replacements, the
  engine's recommendation is well-formed, always requires validation, and its ranked
  candidates are valid and sorted.
\<close>

theorem recommendation_well_formed:
  assumes "valid_failure_analysis (hx_failure_analysis ctx)"
    and "elements_named (hx_current_elements ctx)" "healings_named m"
  shows "valid_recommendation (generate_recommendation m de ctx) \<and>
    sorted_wrt (\<lambda>a b. sc_confidence b \<le> sc_confidence a) (rc_candidates (generate_recommendation m de ctx))"
proof (cases "fa_failure_type (hx_failure_analysis ctx) \<in> set non_healable_failures")
  case True
  then show ?thesis using recommendation_blocked[OF True] recommendation_meta assms(1)
    by (simp add: valid_recommendation_def valid_failure_analysis_def)
next
  case False
  let ?a = "hx_failure_analysis ctx" and ?ranked = "ranked_candidates m de ctx"
  obtain sel level action b where res: "resolve_candidates de ?ranked ?a = ((sel, level, action), b)"
    by (metis prod.exhaust)
  note r = recommendation_resolved[OF False res]
  have valid: "list_all valid_candidate ?ranked" by (rule ranked_valid[OF assms(2,3)])
  have "valid_candidate c" if c: "sel = Some c" for c
    using res[unfolded c]
  proof (cases rule: resolve_cases)
    case (rules rest)
    then show ?thesis using valid by simp
  next
    case (llm d)
    then have "valid_candidate d" using valid by (simp add: list_all_iff)
    obtain e where "e \<in> set ?ranked" "c = e\<lparr>sc_confidence := sc_confidence c\<rparr>"
      using llm_choice_ranked(1)[OF llm(4)] by auto
    moreover have "similarities (e\<lparr>sc_confidence := x\<rparr>) = similarities e" for x
      by (simp add: similarities_def)
    moreover have "sc_selector (e\<lparr>sc_confidence := x\<rparr>) = sc_selector e" for x by simp
    ultimately show ?thesis using valid llm_choice_ranked(2)[OF llm(4)]
      by (metis list_all_iff valid_candidate_def)
  qed
  then show ?thesis
    using r recommendation_meta assms(1) valid ranked_sorted[of m de ctx]
    by (auto simp: valid_recommendation_def valid_failure_analysis_def split: option.splits)
qed

lemma recommendation_well_formed_witness:
  "valid_recommendation (generate_recommendation sample_memory sample_engine sample_context)"
proof -
  have "valid_failure_analysis (hx_failure_analysis sample_context)"
    "elements_named (hx_current_elements sample_context)" "healings_named sample_memory"
    by (simp_all add: sample_context_def sample_analysis_def valid_failure_analysis_def elements_named_def
        sample_page_element_def healings_named_def sample_memory_def empty_store_def healing_records_def
        dict_get_list_def)
  from recommendation_well_formed[OF this] show ?thesis by blast
qed

text \<open>
  The LLM can only choose: an accepted evaluation names one of the candidates it was given,
  with a confidence in the unit interval, and is asked for only with two candidates or more.
\<close>

theorem llm_choice_grounded:
  assumes "llm_evaluate_candidates client cs orig ft = Some r"
  shows "le_selected_selector r \<in> sc_selector ` set cs \<and> unit_interval (le_confidence r) \<and> 2 \<le> length cs"
  using llm_evaluation_grounded[OF assms] by (simp add: valid_llm_evaluation_def)

lemma llm_choice_grounded_witness:
  "''#a'' \<in> sc_selector ` set [sample_candidate ''#a'' 1, sample_candidate ''#b'' 1]"
proof -
  have "llm_evaluate_candidates
      (\<lambda>_. Some [(''selected_candidate'', PStr '' #a ''), (''confidence'', PInt 7)])
      [sample_candidate ''#a'' 1, sample_candidate ''#b'' 1] ''#old'' ''TIMEOUT''
    = Some \<lparr>le_selected_selector = ''#a'', le_confidence = 1, le_reason = []\<rparr>"
    by code_simp
  from llm_choice_grounded[OF this] show ?thesis by simp
qed

section \<open>Learning from feedback\<close>

text \<open>
  A healing counts as successful in memory exactly when the execution engine validated it
  with SUCCESS, and as failed exactly for FAILURE, whatever healing status the feedback
  claims; processing appends that one record to the attempted selector's original.
\<close>

theorem feedback_recorded_faithfully:
  assumes "process_feedback f m = Inr (r, m')"
  shows "healing_records m' (fb_original_selector f) = healing_records m (fb_original_selector f) @ [r] \<and>
    (\<forall>k. k \<noteq> fb_original_selector f \<longrightarrow> healing_records m' k = healing_records m k) \<and>
    hr_new_selector r = fb_attempted_selector f \<and>
    (hr_validation_result r = Some True \<longleftrightarrow> fb_validation_status f = VS_SUCCESS) \<and>
    (hr_validation_result r = Some False \<longleftrightarrow> fb_validation_status f = VS_FAILURE)"
proof -
  have r: "r = feedback_record f" and "store_healing_record r m = Inr m'"
    using assms by (auto simp: process_feedback_Inr)
  show ?thesis
    using mem.store_recs[OF \<open>store_healing_record r m = Inr m'\<close>] feedback_record_success[of f] feedback_record_failure[of f] r
    by (simp add: is_success_def is_failure_def) (simp add: feedback_record_def)
qed

lemma feedback_recorded_faithfully_witness:
  "\<exists>r m'. process_feedback sample_feedback sample_memory = Inr (r, m') \<and> hr_validation_result r = Some True"
proof -
  have "\<not> blank (fb_healing_id sample_feedback) \<and> \<not> blank (fb_original_selector sample_feedback) \<and>
     \<not> blank (fb_attempted_selector sample_feedback)" by code_simp
  then obtain r m' where p: "process_feedback sample_feedback sample_memory = Inr (r, m')"
    using process_feedback_accepts[of sample_feedback sample_memory] by blast
  from feedback_recorded_faithfully[OF p] p show ?thesis by (auto simp: sample_feedback_def)
qed

lemma success_candidate_generated:
  assumes "r \<in> set (get_healing_history m (fa_failed_target (hx_failure_analysis ctx)) 10)"
    and "is_success r" "fa_failed_target (hx_failure_analysis ctx) \<noteq> []"
  shows "\<exists>c \<in> set (generate_candidates m ctx). sc_selector c = hr_new_selector r"
proof -
  let ?k = "fa_failed_target (hx_failure_analysis ctx)"
  have h: "historical_candidate m ?k r \<in> set (generate_from_historical_memory m ?k)"
    using assms(1,2) by (simp add: generate_from_historical_memory_def)
  show ?thesis
  proof (rule ccontr)
    assume "\<not> ?thesis"
    then have "historical_candidate m ?k r \<notin> set (generate_candidates m ctx)"
      and "\<forall>c \<in> set (generate_candidates m ctx). sc_selector c \<noteq> hr_new_selector r" by auto
    then show False using h assms(3)
      by (auto simp: generate_candidates_def Let_def split: option.splits if_splits)
  qed
qed

text \<open>
  Feedback is learned: once a successful validation newer than everything stored for its
  original selector has been processed, every later healing of that selector ranks a
  candidate with the validated replacement and a positive history score.
\<close>

theorem successful_feedback_is_learned:
  assumes "process_feedback f m = Inr (r, m')" "fb_validation_status f = VS_SUCCESS"
    and "\<forall>q \<in> set (healing_records m (fb_original_selector f)). hr_timestamp q < fb_timestamp f"
    and "fa_failed_target (hx_failure_analysis ctx) = fb_original_selector f" "fb_original_selector f \<noteq> []"
  shows "\<exists>c \<in> set (ranked_candidates m' de ctx).
    sc_selector c = fb_attempted_selector f \<and> 0 < sc_healing_history_score c"
proof -
  let ?k = "fb_original_selector f" and ?n = "fb_attempted_selector f"
  have r: "store_healing_record r m = Inr m'" "is_success r" "hr_old_selector r = ?k"
    "hr_new_selector r = ?n" "hr_timestamp r = fb_timestamp f"
    using assms(1,2) by (auto simp: process_feedback_Inr feedback_record_success)
      (simp_all add: feedback_record_def)
  have newest: "\<forall>q \<in> set (healing_records m (hr_old_selector r)). hr_timestamp q < hr_timestamp r"
    using assms(3) r by simp
  have "r \<in> set (get_healing_history m' ?k 10)"
    using mem.newest_first_after_store(1)[OF r(1) _ newest, of 10] r(3) by simp
  then obtain c where c: "c \<in> set (generate_candidates m' ctx)" "sc_selector c = ?n"
    using success_candidate_generated[of r m' ctx] r(2,4) assms(4,5) by auto
  have "r \<in> set (get_healing_history_for_replacement m' ?k ?n 20)"
    using mem.newest_first_after_store(2)[OF r(1) _ newest, of 20] r(3,4) by simp
  then have score: "0 < compute_history_score m' ?k ?n"
    using r(2) by (auto simp: history_score_pos has_replacement_succeeded_def list_ex_iff)
  let ?c = "score_and_update (de_weights de) (enrich_candidate m' ?k c)"
  have "?c \<in> set (ranked_candidates m' de ctx)"
    using c(1) assms(4) by (auto simp: ranked_candidates_def rank_set enrich_with_healing_evidence_def)
  moreover have "sc_selector ?c = ?n" using c(2) by simp
  moreover have "0 < sc_healing_history_score ?c"
    using score c(2) by (simp add: score_and_update_def enrich_candidate_def Let_def)
  ultimately show ?thesis by blast
qed

lemma successful_feedback_is_learned_witness:
  "\<exists>r m'. process_feedback sample_feedback empty_store = Inr (r, m') \<and>
     (\<exists>c \<in> set (ranked_candidates m' sample_engine sample_context). sc_selector c = ''#new'')"
proof -
  have "\<not> blank (fb_healing_id sample_feedback) \<and> \<not> blank (fb_original_selector sample_feedback) \<and>
     \<not> blank (fb_attempted_selector sample_feedback)" by code_simp
  then obtain r m' where p: "process_feedback sample_feedback empty_store = Inr (r, m')"
    using process_feedback_accepts[of sample_feedback empty_store] by blast
  have "\<exists>c \<in> set (ranked_candidates m' sample_engine sample_context).
      sc_selector c = fb_attempted_selector sample_feedback \<and> 0 < sc_healing_history_score c"
    by (rule successful_feedback_is_learned[OF p])
      (simp_all add: sample_feedback_def sample_context_def sample_analysis_def healing_records_def
        empty_store_def dict_get_list_def)
  then show ?thesis using p by (auto simp: sample_feedback_def)
qed

section \<open>The contract with the execution engine\<close>

text \<open>
  The candidate sent to the execution engine always requires validation and is only a
  proposal; when healing is to be attempted it carries the selected candidate's selector and
  confidence, and its alternatives are the other ranked selectors.
\<close>

theorem engine_candidate_faithful:
  "hn_requires_validation (recommendation_to_healing_candidate r) \<and>
   hn_status (recommendation_to_healing_candidate r) = HS_PROPOSED \<and>
   (hn_healing_attempted (recommendation_to_healing_candidate r) \<longrightarrow>
     (\<exists>c. rc_selected_candidate r = Some c \<and>
        hn_new_selector (recommendation_to_healing_candidate r) = sc_selector c \<and>
        hn_confidence (recommendation_to_healing_candidate r) = sc_confidence c \<and>
        set (hn_alternative_selectors (recommendation_to_healing_candidate r)) =
          sc_selector ` set (rc_candidates r) - {sc_selector c}))"
proof -
  have "hn_requires_validation (recommendation_to_healing_candidate r) \<and>
    hn_status (recommendation_to_healing_candidate r) = HS_PROPOSED"
    by (simp add: recommendation_to_healing_candidate_def Let_def)
  then show ?thesis using candidate_attempted_has_selector[of r] candidate_alternatives[of r]
    by blast
qed

lemma engine_candidate_faithful_witness:
  "hn_new_selector (recommendation_to_healing_candidate
     (generate_recommendation sample_memory sample_engine sample_context)) = ''#new''"
proof -
  let ?r = "generate_recommendation sample_memory sample_engine sample_context"
  have "hn_healing_attempted (recommendation_to_healing_candidate ?r)"
    using sample_decision(2,3) by (auto simp: recommendation_to_healing_candidate_def Let_def)
  with engine_candidate_faithful[of ?r] sample_decision(2) show ?thesis by auto
qed

end
