(* ===== verification/Recovery_Policy.thy ===== *)
theory Recovery_Policy
  imports Healing_Decision
begin

text \<open>
  \<^verbatim>\<open>agents/orchestration/recovery_policy.py\<close>: the deterministic policy that decides what
  happens after a failure, and after a failed healing attempt. The evidence lines are built
  in the order the code appends them.

  The retriever of historical evidence is optional in the code; here it is the memory it
  reads, \<open>None\<close> when no retriever is configured.
\<close>

section \<open>Data\<close>

datatype recovery_action =
  RV_RETRY | RV_TRY_HEALING | RV_REQUIRE_FURTHER_ANALYSIS | RV_DO_NOT_HEAL | RV_ABORT

fun recovery_action_value :: "recovery_action \<Rightarrow> string" where
  "recovery_action_value RV_RETRY = ''RETRY''"
| "recovery_action_value RV_TRY_HEALING = ''TRY_HEALING''"
| "recovery_action_value RV_REQUIRE_FURTHER_ANALYSIS = ''REQUIRE_FURTHER_ANALYSIS''"
| "recovery_action_value RV_DO_NOT_HEAL = ''DO_NOT_HEAL''"
| "recovery_action_value RV_ABORT = ''ABORT''"

record recovery_decision =
  rd_workflow_id :: string
  rd_test_case_id :: string
  rd_failure_type :: "failure_type option"
  rd_decision :: recovery_action
  rd_confidence :: f64
  rd_selected_candidate :: "scored_candidate option"
  rd_reason :: string
  rd_evidence :: "string list"
  rd_attempt_number :: nat
  rd_retry_count :: nat
  rd_requires_validation :: bool
  rd_next_state :: string

text \<open>\<open>RecoveryDecision(decision=d)\<close>: every other field at its declared default.\<close>

definition recovery_decision_of :: "recovery_action \<Rightarrow> recovery_decision" where
  "recovery_decision_of d =
     \<lparr>rd_workflow_id = [], rd_test_case_id = [], rd_failure_type = None, rd_decision = d,
      rd_confidence = 0, rd_selected_candidate = None, rd_reason = [], rd_evidence = [],
      rd_attempt_number = 0, rd_retry_count = 0, rd_requires_validation = True, rd_next_state = []\<rparr>"

record failure_type_policy =
  fp_failure_type :: failure_type
  fp_healable :: bool
  fp_retryable :: bool
  fp_max_retries :: nat

definition failure_policy :: "failure_type \<Rightarrow> bool \<Rightarrow> bool \<Rightarrow> nat \<Rightarrow> failure_type_policy" where
  "failure_policy ft healable retryable n =
     \<lparr>fp_failure_type = ft, fp_healable = healable, fp_retryable = retryable, fp_max_retries = n\<rparr>"

definition default_failure_policies :: "(failure_type \<times> failure_type_policy) list" where
  "default_failure_policies =
     [(FT_SELECTOR_CHANGED, failure_policy FT_SELECTOR_CHANGED True False 0),
      (FT_ELEMENT_NOT_FOUND, failure_policy FT_ELEMENT_NOT_FOUND True False 0),
      (FT_ELEMENT_NOT_INTERACTABLE, failure_policy FT_ELEMENT_NOT_INTERACTABLE False True 2),
      (FT_ASSERTION_FAILURE, failure_policy FT_ASSERTION_FAILURE False False 0),
      (FT_TIMEOUT, failure_policy FT_TIMEOUT False True 2),
      (FT_NAVIGATION_FAILURE, failure_policy FT_NAVIGATION_FAILURE False True 2),
      (FT_NETWORK_ERROR, failure_policy FT_NETWORK_ERROR False False 0),
      (FT_APPLICATION_ERROR, failure_policy FT_APPLICATION_ERROR False False 0),
      (FT_UNKNOWN, failure_policy FT_UNKNOWN False False 0)]"

record policy_config =
  pc_max_healing_attempts :: nat
  pc_min_healing_confidence :: f64
  pc_min_candidate_score :: f64
  pc_allow_medium_confidence_healing :: bool
  pc_allow_retry :: bool
  pc_max_retries :: nat
  pc_ambiguity_margin :: f64
  pc_history_boost_weight :: f64
  pc_failure_policies :: "(string \<times> failure_type_policy) list"

definition default_policy_config :: policy_config where
  "default_policy_config =
     \<lparr>pc_max_healing_attempts = 3, pc_min_healing_confidence = fl 0.80,
      pc_min_candidate_score = fl 0.30, pc_allow_medium_confidence_healing = False,
      pc_allow_retry = True, pc_max_retries = 2, pc_ambiguity_margin = fl 0.02,
      pc_history_boost_weight = fl 0.15, pc_failure_policies = []\<rparr>"

definition valid_policy_config :: "policy_config \<Rightarrow> bool" where
  "valid_policy_config c \<longleftrightarrow>
     1 \<le> pc_max_healing_attempts c \<and> unit_interval (pc_min_healing_confidence c) \<and>
     unit_interval (pc_min_candidate_score c) \<and> unit_interval (pc_ambiguity_margin c) \<and>
     unit_interval (pc_history_boost_weight c)"

text \<open>
  \<open>RecoveryPolicy.__init__\<close>: the defaults overridden by the configured policies; keys that
  are not failure types are ignored.
\<close>

record recovery_policy =
  rp_config :: policy_config
  rp_failure_policies :: "(failure_type \<times> failure_type_policy) list"

definition merge_policies ::
  "(string \<times> failure_type_policy) list \<Rightarrow> (failure_type \<times> failure_type_policy) list" where
  "merge_policies overrides = fold
     (\<lambda>(key, p) ps. case enum_of_value failure_type_members failure_type_value key of
        None \<Rightarrow> ps | Some ft \<Rightarrow> AList.update ft p ps)
     overrides default_failure_policies"

definition make_policy :: "policy_config \<Rightarrow> recovery_policy" where
  "make_policy c = \<lparr>rp_config = c, rp_failure_policies = merge_policies (pc_failure_policies c)\<rparr>"

definition get_failure_policy :: "recovery_policy \<Rightarrow> failure_type \<Rightarrow> failure_type_policy" where
  "get_failure_policy rp ft =
     (case map_of (rp_failure_policies rp) ft of
        Some p \<Rightarrow> p
      | None \<Rightarrow> failure_policy ft False False 0)"

section \<open>Eligible candidates\<close>

definition is_attempted :: "string set \<Rightarrow> scored_candidate \<Rightarrow> bool" where
  "is_attempted attempted c = (sc_selector c \<in> attempted)"

definition is_low :: "policy_config \<Rightarrow> string set \<Rightarrow> scored_candidate \<Rightarrow> bool" where
  "is_low cfg attempted c =
     (\<not> is_attempted attempted c \<and> sc_confidence c < pc_min_candidate_score cfg)"

definition filter_eligible_candidates ::
  "policy_config \<Rightarrow> scored_candidate list \<Rightarrow> string set \<Rightarrow> string list \<Rightarrow>
     scored_candidate list \<times> string list" where
  "filter_eligible_candidates cfg candidates attempted evidence =
     (let skipped_attempted = count_if (is_attempted attempted) candidates;
          skipped_low = count_if (is_low cfg attempted) candidates
      in (filter (\<lambda>c. \<not> is_attempted attempted c \<and> \<not> is_low cfg attempted c) candidates,
          evidence @
          evidence_if (0 < skipped_attempted)
            (''Skipped '' @ show_nat skipped_attempted @ '' already-attempted candidate(s)'') @
          evidence_if (0 < skipped_low)
            (''Skipped '' @ show_nat skipped_low @ '' candidate(s) below min score ('' @
             py_str_float (pc_min_candidate_score cfg) @ '')'')))"

section \<open>Historical adjustment\<close>

definition adjust_confidence ::
  "policy_config \<Rightarrow> mem_store option \<Rightarrow> failure_analysis option \<Rightarrow> scored_candidate \<Rightarrow>
     string list \<Rightarrow> f64 \<times> string list" where
  "adjust_confidence cfg retriever analysis best evidence =
     (case (retriever, analysis) of
        (Some m, Some a) \<Rightarrow>
          if fa_failed_target a = [] then (sc_confidence best, evidence)
          else
            let stats = get_replacement_stats m (fa_failed_target a) (sc_selector best)
            in if rs_attempts stats = 0 then (sc_confidence best, evidence)
               else
                 let boost = fl (success_rate stats * pc_history_boost_weight cfg);
                     adjusted = min 1 (fl (sc_confidence best + boost));
                     ev = evidence @
                       [''Historical evidence for '' @ quoted (sc_selector best) @ '': '' @
                        show_nat (rs_successes stats) @ ''/'' @ show_nat (rs_attempts stats) @
                        '' successes (boost: +'' @ fmt_fixed 3 boost @ '')'']
                 in if 3 \<le> rs_attempts stats \<and> success_rate stats < fl 0.3 then
                      (max 0 (fl (adjusted - fl 0.2)),
                       ev @ [''Candidate '' @ quoted (sc_selector best) @
                         '' penalized: poor historical success rate ('' @
                         fmt_fixed 2 (success_rate stats) @ '')''])
                    else (adjusted, ev)
      | _ \<Rightarrow> (sc_confidence best, evidence))"

definition similarity_line :: "string \<Rightarrow> f64 \<Rightarrow> string list" where
  "similarity_line name x = evidence_if (0 < x) (name @ '': '' @ fmt_fixed 2 x)"

definition build_candidate_evidence :: "scored_candidate \<Rightarrow> string list" where
  "build_candidate_evidence c =
     similarity_line ''Text similarity'' (sc_text_similarity c) @
     similarity_line ''Role similarity'' (sc_role_similarity c) @
     similarity_line ''Type similarity'' (sc_type_similarity c) @
     similarity_line ''Page similarity'' (sc_page_similarity c) @
     similarity_line ''Stable attribute similarity'' (sc_stable_attribute_similarity c) @
     similarity_line ''Healing history score'' (sc_healing_history_score c) @
     sc_evidence c"

section \<open>Evaluating the best candidate\<close>

text \<open>The decisions of \<open>_evaluate_healing\<close>, from the fields every branch shares.\<close>

definition healing_outcome ::
  "recovery_decision \<Rightarrow> policy_config \<Rightarrow> scored_candidate \<Rightarrow> f64 \<Rightarrow> nat \<Rightarrow> string list \<Rightarrow>
     recovery_decision" where
  "healing_outcome base cfg best adjusted attempts evidence =
     (if pc_min_healing_confidence cfg \<le> adjusted then
        base\<lparr>rd_decision := RV_TRY_HEALING,
             rd_selected_candidate := Some best,
             rd_reason := ''Strong evidence supports trying replacement selector '' @
               quoted (sc_selector best) @ ''.'',
             rd_evidence := evidence @
               [''Confidence '' @ fmt_fixed 4 adjusted @ '' >= threshold '' @
                py_str_float (pc_min_healing_confidence cfg) @ '' '' @ em_dash @ '' recommend healing''] @
               build_candidate_evidence best,
             rd_attempt_number := attempts + 1,
             rd_requires_validation := True,
             rd_next_state := ''HEALING_PENDING_VALIDATION''\<rparr>
      else if pc_allow_medium_confidence_healing cfg \<and> pc_min_candidate_score cfg \<le> adjusted then
        base\<lparr>rd_decision := RV_TRY_HEALING,
             rd_selected_candidate := Some best,
             rd_reason := ''Medium-confidence candidate '' @ quoted (sc_selector best) @
               '' sent for healing with validation.'',
             rd_evidence := evidence @
               [''Medium confidence '' @ fmt_fixed 4 adjusted @ '' '' @ em_dash @
                '' healing allowed (allow_medium_confidence_healing=True)''] @
               build_candidate_evidence best,
             rd_attempt_number := attempts + 1,
             rd_requires_validation := True,
             rd_next_state := ''HEALING_PENDING_VALIDATION''\<rparr>
      else
        base\<lparr>rd_decision := RV_DO_NOT_HEAL,
             rd_reason := ''Best candidate confidence ('' @ fmt_fixed 4 adjusted @
               '') is below the minimum threshold ('' @
               py_str_float (pc_min_healing_confidence cfg) @ '').'',
             rd_evidence := evidence @
               [''Confidence '' @ fmt_fixed 4 adjusted @ '' < threshold '' @
                py_str_float (pc_min_healing_confidence cfg) @ '' '' @ em_dash @ '' do not heal''],
             rd_attempt_number := attempts,
             rd_requires_validation := False,
             rd_next_state := ''COMPLETED''\<rparr>)"

definition evaluate_healing ::
  "recovery_policy \<Rightarrow> mem_store option \<Rightarrow> failure_analysis option \<Rightarrow>
     scored_candidate \<Rightarrow> scored_candidate list \<Rightarrow> nat \<Rightarrow> nat \<Rightarrow> string \<Rightarrow> string \<Rightarrow>
     string list \<Rightarrow> recovery_decision" where
  "evaluate_healing rp retriever analysis best rest attempts retries wid tc evidence =
     (let cfg = rp_config rp;
          (adjusted, ev) = adjust_confidence cfg retriever analysis best evidence;
          ev1 = ev @ [''Best candidate: '' @ quoted (sc_selector best) @ '' (score='' @
            fmt_fixed 4 (sc_confidence best) @ '', adjusted='' @ fmt_fixed 4 adjusted @ '')''];
          base = (recovery_decision_of RV_REQUIRE_FURTHER_ANALYSIS)
            \<lparr>rd_workflow_id := wid, rd_test_case_id := tc,
             rd_failure_type := Some (case analysis of None \<Rightarrow> FT_UNKNOWN | Some a \<Rightarrow> fa_failure_type a),
             rd_confidence := adjusted, rd_retry_count := retries\<rparr>
      in case rest of
           [] \<Rightarrow> healing_outcome base cfg best adjusted attempts ev1
         | second # _ \<Rightarrow>
             let gap = fl (sc_confidence best - sc_confidence second);
                 ev2 = ev1 @ [''Second candidate: '' @ quoted (sc_selector second) @ '' (score='' @
                   fmt_fixed 4 (sc_confidence second) @ '', gap='' @ fmt_fixed 4 gap @ '')'']
             in if gap \<le> pc_ambiguity_margin cfg then
                  base\<lparr>rd_decision := RV_REQUIRE_FURTHER_ANALYSIS,
                       rd_reason := ''Top candidates are ambiguous (gap='' @ fmt_fixed 4 gap @
                         ''). Require further analysis to disambiguate.'',
                       rd_evidence := ev2 @ [''Candidates are ambiguous (gap '' @ fmt_fixed 4 gap @
                         '' <= margin '' @ py_str_float (pc_ambiguity_margin cfg) @ '')''],
                       rd_attempt_number := attempts,
                       rd_requires_validation := False,
                       rd_next_state := ''COMPLETED''\<rparr>
                else healing_outcome base cfg best adjusted attempts ev2)"

section \<open>The two entry points\<close>

text \<open>
  Rules 1 to 4 of \<open>evaluate\<close>: the decisions that do not look at the candidates. \<open>Inr ev\<close>
  is the fall-through to the candidate rules, with the evidence gathered so far.
\<close>

definition evaluate_failure_rules ::
  "recovery_policy \<Rightarrow> failure_type \<Rightarrow> nat \<Rightarrow> nat \<Rightarrow> recovery_decision \<Rightarrow> string list \<Rightarrow>
     recovery_decision + string list" where
  "evaluate_failure_rules rp ft attempts retries base evidence =
     (let cfg = rp_config rp;
          p = get_failure_policy rp ft;
          effective_max = min (fp_max_retries p) (pc_max_retries cfg);
          name = failure_type_value ft;
          used = show_nat retries @ ''/'' @ show_nat effective_max;
          not_healable = \<lambda>ev. base\<lparr>rd_decision := RV_DO_NOT_HEAL, rd_confidence := 1,
            rd_reason := ''Failure type '' @ name @ '' does not support automatic selector healing.'',
            rd_evidence := ev @ [''Failure type '' @ name @ '' is not healable''],
            rd_next_state := ''COMPLETED''\<rparr>
      in if pc_max_healing_attempts cfg \<le> attempts then
           Inl (base\<lparr>rd_decision := RV_ABORT, rd_confidence := 1,
             rd_reason := ''Maximum healing attempts ('' @ show_nat (pc_max_healing_attempts cfg) @
               '') reached. Aborting workflow.'',
             rd_evidence := evidence @ [''Maximum healing attempts reached''],
             rd_next_state := ''ABORTED''\<rparr>)
         else if \<not> fp_healable p \<and> \<not> fp_retryable p then
           Inl (base\<lparr>rd_decision := RV_DO_NOT_HEAL, rd_confidence := 1,
             rd_reason := ''Failure type '' @ name @ '' does not support automatic healing or retry.'',
             rd_evidence := evidence @
               [''Failure type '' @ name @ '' is neither healable nor retryable''],
             rd_next_state := ''COMPLETED''\<rparr>)
         else if fp_retryable p \<and> pc_allow_retry cfg then
           if retries < effective_max then
             Inl (base\<lparr>rd_decision := RV_RETRY, rd_confidence := fl 0.9,
               rd_reason := ''Transient failure ('' @ name @ ''). Retrying ('' @
                 show_nat (retries + 1) @ ''/'' @ show_nat effective_max @ '').'',
               rd_evidence := evidence @
                 [''Failure type '' @ name @ '' is retryable ('' @ used @ '' retries used)''],
               rd_next_state := ''RETRYING''\<rparr>)
           else
             let ev = evidence @ [''Retry limit reached ('' @ used @ '')'']
             in if \<not> fp_healable p then
                  Inl (base\<lparr>rd_decision := RV_REQUIRE_FURTHER_ANALYSIS, rd_confidence := fl 0.7,
                    rd_reason := ''Retries exhausted for '' @ name @ ''. Require further analysis.'',
                    rd_evidence := ev @ [''Failure type '' @ name @ '' is not healable '' @ em_dash @
                      '' require further analysis''],
                    rd_next_state := ''COMPLETED''\<rparr>)
                else Inr ev
         else if \<not> fp_healable p then Inl (not_healable evidence)
         else Inr evidence)"

text \<open>The fields and the evidence lines every decision of \<open>evaluate\<close> starts from.\<close>

definition evaluation_base :: "failure_type \<Rightarrow> nat \<Rightarrow> nat \<Rightarrow> string \<Rightarrow> string \<Rightarrow> recovery_decision" where
  "evaluation_base ft attempts retries wid tc =
     (recovery_decision_of RV_DO_NOT_HEAL)
       \<lparr>rd_workflow_id := wid, rd_test_case_id := tc, rd_failure_type := Some ft,
        rd_attempt_number := attempts, rd_retry_count := retries, rd_requires_validation := False\<rparr>"

definition evaluation_evidence ::
  "recovery_policy \<Rightarrow> failure_analysis \<Rightarrow> scored_candidate list \<Rightarrow> nat \<Rightarrow> nat \<Rightarrow> string list" where
  "evaluation_evidence rp a ranked attempts retries =
     [''Failure type: '' @ failure_type_value (fa_failure_type a),
      ''Analysis confidence: '' @ confidence_level_value (fa_confidence a),
      ''Healing attempts: '' @ show_nat attempts @ ''/'' @
        show_nat (pc_max_healing_attempts (rp_config rp)),
      ''Retry count: '' @ show_nat retries,
      ''Candidates available: '' @ show_nat (length ranked)]"

definition policy_evaluate ::
  "recovery_policy \<Rightarrow> mem_store option \<Rightarrow> failure_analysis \<Rightarrow> scored_candidate list \<Rightarrow>
     nat \<Rightarrow> nat \<Rightarrow> string set \<Rightarrow> string \<Rightarrow> string \<Rightarrow> recovery_decision" where
  "policy_evaluate rp retriever a ranked attempts retries attempted wid tc =
     (let ft = fa_failure_type a;
          base = evaluation_base ft attempts retries wid tc
      in case evaluate_failure_rules rp ft attempts retries base
                (evaluation_evidence rp a ranked attempts retries) of
           Inl d \<Rightarrow> d
         | Inr ev \<Rightarrow>
             (case filter_eligible_candidates (rp_config rp) ranked attempted ev of
                ([], ev') \<Rightarrow>
                  base\<lparr>rd_decision := RV_DO_NOT_HEAL, rd_confidence := 1,
                    rd_reason := ''No eligible healing candidates available.'',
                    rd_evidence := ev' @ [''No eligible candidates available''],
                    rd_next_state := ''COMPLETED''\<rparr>
              | (best # rest, ev') \<Rightarrow>
                  evaluate_healing rp retriever (Some a) best rest attempts retries wid tc ev'))"

definition continuation_evidence ::
  "recovery_policy \<Rightarrow> failure_type \<Rightarrow> nat \<Rightarrow> string set \<Rightarrow> string list" where
  "continuation_evidence rp ft attempts attempted =
     [''Failure type: '' @ failure_type_value ft,
      ''Healing attempts: '' @ show_nat attempts @ ''/'' @
        show_nat (pc_max_healing_attempts (rp_config rp)),
      ''Attempted selectors: '' @ show_nat (card attempted)]"

definition continuation_abort ::
  "failure_type \<Rightarrow> nat \<Rightarrow> string \<Rightarrow> string \<Rightarrow> string \<Rightarrow> string list \<Rightarrow> recovery_decision" where
  "continuation_abort ft attempts wid tc reason evidence =
     (recovery_decision_of RV_ABORT)
       \<lparr>rd_workflow_id := wid, rd_test_case_id := tc, rd_failure_type := Some ft,
        rd_confidence := 1, rd_reason := reason, rd_evidence := evidence,
        rd_attempt_number := attempts, rd_requires_validation := False,
        rd_next_state := ''ABORTED''\<rparr>"

definition evaluate_continuation ::
  "recovery_policy \<Rightarrow> mem_store option \<Rightarrow> failure_analysis option \<Rightarrow> scored_candidate list \<Rightarrow>
     nat \<Rightarrow> string set \<Rightarrow> string \<Rightarrow> string \<Rightarrow> recovery_decision" where
  "evaluate_continuation rp retriever analysis ranked attempts attempted wid tc =
     (let cfg = rp_config rp;
          ft = (case analysis of None \<Rightarrow> FT_UNKNOWN | Some a \<Rightarrow> fa_failure_type a);
          evidence = continuation_evidence rp ft attempts attempted
      in if pc_max_healing_attempts cfg \<le> attempts then
           continuation_abort ft attempts wid tc
             (''Maximum healing attempts ('' @ show_nat (pc_max_healing_attempts cfg) @ '') reached.'')
             (evidence @ [''Maximum healing attempts reached''])
         else
           (case filter_eligible_candidates cfg ranked attempted evidence of
              ([], ev') \<Rightarrow>
                continuation_abort ft attempts wid tc
                  (''No more eligible candidates. '' @ ''All candidates exhausted or below threshold.'')
                  (ev' @ [''No more unattempted candidates''])
            | (best # rest, ev') \<Rightarrow>
                evaluate_healing rp retriever analysis best rest attempts 0 wid tc ev'))"

section \<open>Eligible candidates\<close>

lemma eligible_eq:
  "fst (filter_eligible_candidates cfg cs attempted ev) =
     filter (\<lambda>c. sc_selector c \<notin> attempted \<and> pc_min_candidate_score cfg \<le> sc_confidence c) cs"
  by (auto simp: filter_eligible_candidates_def Let_def is_low_def is_attempted_def not_less
      intro!: filter_cong)

lemma eligible_hd:
  assumes "filter_eligible_candidates cfg cs attempted ev = (best # rest, ev')"
  shows "best \<in> set cs" "sc_selector best \<notin> attempted"
    "pc_min_candidate_score cfg \<le> sc_confidence best"
    "find (\<lambda>c. sc_selector c \<notin> attempted \<and> pc_min_candidate_score cfg \<le> sc_confidence c) cs = Some best"
proof -
  have f: "filter (\<lambda>c. sc_selector c \<notin> attempted \<and> pc_min_candidate_score cfg \<le> sc_confidence c) cs
      = best # rest"
    using assms eligible_eq[of cfg cs attempted ev] by simp
  then have "best \<in> set (filter (\<lambda>c. sc_selector c \<notin> attempted \<and>
      pc_min_candidate_score cfg \<le> sc_confidence c) cs)" by simp
  then show "best \<in> set cs" "sc_selector best \<notin> attempted"
    "pc_min_candidate_score cfg \<le> sc_confidence best" by auto
  show "find (\<lambda>c. sc_selector c \<notin> attempted \<and> pc_min_candidate_score cfg \<le> sc_confidence c) cs = Some best"
    by (rule filter_Cons_find[OF f])
qed

section \<open>Adjusted confidence\<close>

lemma success_rate_nonneg: "0 \<le> success_rate (get_replacement_stats m old new)"
  using success_rate_unit by (simp add: unit_interval_def)

lemma adjusted_unit:
  assumes "unit_interval (sc_confidence best)" "unit_interval (pc_history_boost_weight cfg)"
  shows "unit_interval (fst (adjust_confidence cfg retriever analysis best ev))"
proof -
  have nn: "0 \<le> fl (sc_confidence best + fl (success_rate (get_replacement_stats m old new)
      * pc_history_boost_weight cfg))" for m old new
    using assms success_rate_nonneg by (intro fl_nonneg add_nonneg_nonneg mult_nonneg_nonneg)
      (auto simp: unit_interval_def)
  have "fl (min 1 x - fl 0.2) \<le> 1" if "0 \<le> x" for x
  proof -
    have "fl (min 1 x - fl 0.2) \<le> fl 1" using fl_nonneg[of "0.2"] by (intro fl_mono) simp
    then show ?thesis by simp
  qed
  then show ?thesis
    using assms(1) nn by (auto simp: adjust_confidence_def Let_def unit_interval_def
        split: option.splits)
qed

section \<open>Decisions of the candidate rules\<close>

lemma healing_outcome_try:
  assumes "rd_decision (healing_outcome base cfg best adjusted n ev) = RV_TRY_HEALING"
  shows "rd_selected_candidate (healing_outcome base cfg best adjusted n ev) = Some best"
    "rd_attempt_number (healing_outcome base cfg best adjusted n ev) = n + 1"
    "rd_requires_validation (healing_outcome base cfg best adjusted n ev)"
    "pc_min_healing_confidence cfg \<le> adjusted \<or>
       (pc_allow_medium_confidence_healing cfg \<and> pc_min_candidate_score cfg \<le> adjusted)"
  using assms by (auto simp: healing_outcome_def split: if_splits)

lemma evaluate_healing_cases:
  "rd_decision (evaluate_healing rp m a best rest n r w t ev)
     \<in> {RV_TRY_HEALING, RV_DO_NOT_HEAL, RV_REQUIRE_FURTHER_ANALYSIS}"
  by (simp add: evaluate_healing_def healing_outcome_def Let_def split: prod.splits list.splits)

lemma evaluate_healing_try:
  assumes "rd_decision (evaluate_healing rp m a best rest n r w t ev) = RV_TRY_HEALING"
  shows "rd_selected_candidate (evaluate_healing rp m a best rest n r w t ev) = Some best"
    "rd_attempt_number (evaluate_healing rp m a best rest n r w t ev) = n + 1"
    "rd_requires_validation (evaluate_healing rp m a best rest n r w t ev)"
  using assms healing_outcome_try(1-3)
  by (auto simp: evaluate_healing_def Let_def split: prod.splits list.splits if_splits)

lemma evaluate_healing_thresholds:
  assumes "rd_decision (evaluate_healing rp m a best rest n r w t ev) = RV_TRY_HEALING"
    and "adjusted = fst (adjust_confidence (rp_config rp) m a best ev)"
  shows "pc_min_healing_confidence (rp_config rp) \<le> adjusted \<or>
     (pc_allow_medium_confidence_healing (rp_config rp) \<and>
      pc_min_candidate_score (rp_config rp) \<le> adjusted)"
    and "\<forall>second others. rest = second # others \<longrightarrow>
      pc_ambiguity_margin (rp_config rp) < fl (sc_confidence best - sc_confidence second)"
  using assms healing_outcome_try(4)
  by (auto simp: evaluate_healing_def Let_def split: prod.splits list.splits if_splits)

lemma evaluate_healing_selected:
  assumes "rd_decision (evaluate_healing rp m a best rest n r w t ev) \<noteq> RV_TRY_HEALING"
  shows "rd_selected_candidate (evaluate_healing rp m a best rest n r w t ev) = None"
  using assms
  by (auto simp: evaluate_healing_def healing_outcome_def recovery_decision_of_def Let_def
      split: prod.splits list.splits if_splits)

section \<open>Decisions of the entry points\<close>

definition eligible :: "policy_config \<Rightarrow> string set \<Rightarrow> scored_candidate \<Rightarrow> bool" where
  "eligible cfg attempted c \<longleftrightarrow>
     sc_selector c \<notin> attempted \<and> pc_min_candidate_score cfg \<le> sc_confidence c"

definition effective_retries :: "recovery_policy \<Rightarrow> failure_type \<Rightarrow> nat" where
  "effective_retries rp ft = min (fp_max_retries (get_failure_policy rp ft)) (pc_max_retries (rp_config rp))"

definition retry_allowed :: "recovery_policy \<Rightarrow> failure_type \<Rightarrow> nat \<Rightarrow> bool" where
  "retry_allowed rp ft retries \<longleftrightarrow>
     fp_retryable (get_failure_policy rp ft) \<and> pc_allow_retry (rp_config rp) \<and>
     retries < effective_retries rp ft"

lemma failure_rules_Inl:
  assumes "evaluate_failure_rules rp ft n r base ev = Inl d"
  shows "rd_decision d \<noteq> RV_TRY_HEALING" "rd_selected_candidate d = rd_selected_candidate base"
  using assms by (auto simp: evaluate_failure_rules_def Let_def split: if_splits)

lemma failure_rules_Inr:
  assumes "evaluate_failure_rules rp ft n r base ev = Inr ev'"
  shows "n < pc_max_healing_attempts (rp_config rp)" "fp_healable (get_failure_policy rp ft)"
    "\<not> retry_allowed rp ft r"
  using assms by (auto simp: evaluate_failure_rules_def retry_allowed_def effective_retries_def Let_def
      split: if_splits)

lemma failure_rules_abort:
  assumes "evaluate_failure_rules rp ft n r base ev = Inl d"
  shows "rd_decision d = RV_ABORT \<longleftrightarrow> pc_max_healing_attempts (rp_config rp) \<le> n"
  using assms by (auto simp: evaluate_failure_rules_def Let_def split: if_splits)

lemma failure_rules_retry:
  assumes "evaluate_failure_rules rp ft n r base ev = Inl d"
  shows "rd_decision d = RV_RETRY \<longleftrightarrow>
    n < pc_max_healing_attempts (rp_config rp) \<and> retry_allowed rp ft r"
  using assms by (auto simp: evaluate_failure_rules_def retry_allowed_def effective_retries_def Let_def
      split: if_splits)

lemma eligible_filter_Nil:
  "filter_eligible_candidates cfg cs attempted ev = ([], ev') \<Longrightarrow> find (eligible cfg attempted) cs = None"
  using eligible_eq[of cfg cs attempted ev] filter_Nil_find[of _ cs]
  by (simp add: eligible_def[abs_def])

lemma eligible_filter_Cons:
  "filter_eligible_candidates cfg cs attempted ev = (best # rest, ev') \<Longrightarrow>
     find (eligible cfg attempted) cs = Some best"
  using eligible_hd(4)[of cfg cs attempted ev best rest ev'] by (simp add: eligible_def[abs_def])

lemma policy_evaluate_cases:
  obtains
    (rules) d ev base where "evaluate_failure_rules rp (fa_failure_type a) n r base ev = Inl d"
      "policy_evaluate rp m a ranked n r attempted w t = d" "rd_selected_candidate base = None"
  | (none) "n < pc_max_healing_attempts (rp_config rp)"
      "\<not> retry_allowed rp (fa_failure_type a) r" "fp_healable (get_failure_policy rp (fa_failure_type a))"
      "find (eligible (rp_config rp) attempted) ranked = None"
      "rd_decision (policy_evaluate rp m a ranked n r attempted w t) = RV_DO_NOT_HEAL"
      "rd_selected_candidate (policy_evaluate rp m a ranked n r attempted w t) = None"
  | (candidate) best rest ev ev' where "n < pc_max_healing_attempts (rp_config rp)"
      "\<not> retry_allowed rp (fa_failure_type a) r" "fp_healable (get_failure_policy rp (fa_failure_type a))"
      "filter_eligible_candidates (rp_config rp) ranked attempted ev = (best # rest, ev')"
      "policy_evaluate rp m a ranked n r attempted w t =
         evaluate_healing rp m (Some a) best rest n r w t ev'"
proof -
  let ?base = "evaluation_base (fa_failure_type a) n r w t"
  let ?ev = "evaluation_evidence rp a ranked n r"
  have b: "rd_selected_candidate ?base = None"
    by (simp add: evaluation_base_def recovery_decision_of_def)
  show ?thesis
  proof (cases "evaluate_failure_rules rp (fa_failure_type a) n r ?base ?ev")
    case (Inl d)
    then show ?thesis using rules[OF Inl _ b] by (simp add: policy_evaluate_def Let_def)
  next
    case (Inr ev)
    note facts = failure_rules_Inr[OF Inr]
    obtain cs ev' where f: "filter_eligible_candidates (rp_config rp) ranked attempted ev = (cs, ev')"
      by fastforce
    show ?thesis
    proof (cases cs)
      case Nil
      then show ?thesis using none facts Inr f eligible_filter_Nil b by (simp add: policy_evaluate_def Let_def)
    next
      case (Cons best rest)
      then show ?thesis using candidate[OF facts(1,3,2)] Inr f by (simp add: policy_evaluate_def Let_def)
    qed
  qed
qed

lemma continuation_cases:
  obtains
    (stop) "rd_decision (evaluate_continuation rp m a ranked n attempted w t) = RV_ABORT"
      "rd_selected_candidate (evaluate_continuation rp m a ranked n attempted w t) = None"
      "pc_max_healing_attempts (rp_config rp) \<le> n \<or>
         find (eligible (rp_config rp) attempted) ranked = None"
  | (candidate) best rest ev ev' where "n < pc_max_healing_attempts (rp_config rp)"
      "filter_eligible_candidates (rp_config rp) ranked attempted ev = (best # rest, ev')"
      "evaluate_continuation rp m a ranked n attempted w t =
         evaluate_healing rp m a best rest n 0 w t ev'"
proof (cases "pc_max_healing_attempts (rp_config rp) \<le> n")
  case True
  then show ?thesis
    by (intro stop) (simp_all add: evaluate_continuation_def continuation_abort_def
        recovery_decision_of_def Let_def)
next
  case False
  let ?ev = "continuation_evidence rp (case a of None \<Rightarrow> FT_UNKNOWN | Some a \<Rightarrow> fa_failure_type a)
     n attempted"
  obtain cs ev' where f: "filter_eligible_candidates (rp_config rp) ranked attempted ?ev = (cs, ev')"
    by fastforce
  show ?thesis
  proof (cases cs)
    case Nil
    then show ?thesis using False f eligible_filter_Nil[of _ _ _ ?ev ev']
      by (intro stop) (simp_all add: evaluate_continuation_def continuation_abort_def
          recovery_decision_of_def Let_def)
  next
    case (Cons best rest)
    then show ?thesis using False f
      by (intro candidate[of ?ev best rest ev']) (simp_all add: evaluate_continuation_def Let_def)
  qed
qed

section \<open>The contract the orchestrator relies on\<close>

text \<open>
  A healing policy may propose a replacement only while attempts are left, only one of the
  ranked candidates, and never a selector that was tried before. \<open>attempts_ok\<close> is the
  bookkeeping invariant of a client that records every proposal: \<open>sent\<close> lists the proposed
  selectors, \<open>attempted\<close> is the set the policy is shown.
\<close>

definition attempts_ok :: "nat \<Rightarrow> nat \<Rightarrow> string set \<Rightarrow> string list \<Rightarrow> bool" where
  "attempts_ok limit attempts attempted sent \<longleftrightarrow>
     attempts = length sent \<and> attempts \<le> limit \<and> distinct sent \<and> set sent \<subseteq> attempted"

locale healing_policy =
  fixes limit :: nat
    and decide :: "scored_candidate list \<Rightarrow> nat \<Rightarrow> string set \<Rightarrow> recovery_decision"
  assumes proposes: "rd_decision (decide ranked n attempted) = RV_TRY_HEALING \<Longrightarrow>
      n < limit \<and> (\<exists>c \<in> set ranked. rd_selected_candidate (decide ranked n attempted) = Some c \<and>
        sc_selector c \<notin> attempted)"
    and keeps_quiet: "rd_decision (decide ranked n attempted) \<noteq> RV_TRY_HEALING \<Longrightarrow>
      rd_selected_candidate (decide ranked n attempted) = None"
begin

lemma proposal_exists:
  "rd_decision (decide ranked n attempted) = RV_TRY_HEALING \<longleftrightarrow>
     rd_selected_candidate (decide ranked n attempted) \<noteq> None"
  using proposes keeps_quiet by (metis option.distinct(1))

lemma exhausted: "limit \<le> n \<Longrightarrow> rd_selected_candidate (decide ranked n attempted) = None"
  using proposes keeps_quiet by (meson not_le)

lemma all_tried:
  "sc_selector ` set ranked \<subseteq> attempted \<Longrightarrow> rd_selected_candidate (decide ranked n attempted) = None"
  using proposes keeps_quiet by (metis image_eqI subset_eq)

lemma proposal_ranked:
  assumes "rd_selected_candidate (decide ranked n attempted) = Some c"
  shows "n < limit" "c \<in> set ranked" "sc_selector c \<notin> attempted"
  using assms proposes[of ranked n attempted] proposal_exists[of ranked n attempted] by auto

lemma attempts_ok_proposal:
  assumes "attempts_ok limit n attempted sent"
    and "rd_selected_candidate (decide ranked n attempted) = Some c"
  shows "attempts_ok limit (Suc n) (insert (sc_selector c) attempted) (sent @ [sc_selector c])"
  using assms proposal_ranked[OF assms(2)] by (auto simp: attempts_ok_def)

end

interpretation first_decision: healing_policy "pc_max_healing_attempts (rp_config rp)"
    "\<lambda>ranked n attempted. policy_evaluate rp m a ranked n r attempted w t"
  for rp m a r w t
proof
  fix ranked :: "scored_candidate list" and n :: nat and attempted :: "string set"
  show "n < pc_max_healing_attempts (rp_config rp) \<and>
     (\<exists>c \<in> set ranked. rd_selected_candidate (policy_evaluate rp m a ranked n r attempted w t) = Some c
        \<and> sc_selector c \<notin> attempted)"
    if "rd_decision (policy_evaluate rp m a ranked n r attempted w t) = RV_TRY_HEALING"
  proof (cases rule: policy_evaluate_cases[where rp = rp and m = m and a = a and ranked = ranked
        and n = n and r = r and attempted = attempted and w = w and t = t])
    case (rules d ev base)
    then show ?thesis using that failure_rules_Inl(1) by auto
  next
    case none
    then show ?thesis using that by simp
  next
    case (candidate best rest ev ev')
    then show ?thesis using that eligible_hd(1,2)[OF candidate(4)] evaluate_healing_try(1) by auto
  qed
  show "rd_selected_candidate (policy_evaluate rp m a ranked n r attempted w t) = None"
    if "rd_decision (policy_evaluate rp m a ranked n r attempted w t) \<noteq> RV_TRY_HEALING"
  proof (cases rule: policy_evaluate_cases[where rp = rp and m = m and a = a and ranked = ranked
        and n = n and r = r and attempted = attempted and w = w and t = t])
    case (rules d ev base)
    then show ?thesis using failure_rules_Inl(2) by auto
  next
    case none
    then show ?thesis by simp
  next
    case (candidate best rest ev ev')
    then show ?thesis using that evaluate_healing_selected by auto
  qed
qed

interpretation next_decision: healing_policy "pc_max_healing_attempts (rp_config rp)"
    "\<lambda>ranked n attempted. evaluate_continuation rp m a ranked n attempted w t"
  for rp m a w t
proof
  fix ranked :: "scored_candidate list" and n :: nat and attempted :: "string set"
  show "n < pc_max_healing_attempts (rp_config rp) \<and>
     (\<exists>c \<in> set ranked. rd_selected_candidate (evaluate_continuation rp m a ranked n attempted w t) = Some c
        \<and> sc_selector c \<notin> attempted)"
    if "rd_decision (evaluate_continuation rp m a ranked n attempted w t) = RV_TRY_HEALING"
  proof (cases rule: continuation_cases[where rp = rp and m = m and a = a and ranked = ranked
        and n = n and attempted = attempted and w = w and t = t])
    case stop
    then show ?thesis using that by simp
  next
    case (candidate best rest ev ev')
    then show ?thesis using that eligible_hd(1,2)[OF candidate(2)] evaluate_healing_try(1) by auto
  qed
  show "rd_selected_candidate (evaluate_continuation rp m a ranked n attempted w t) = None"
    if "rd_decision (evaluate_continuation rp m a ranked n attempted w t) \<noteq> RV_TRY_HEALING"
  proof (cases rule: continuation_cases[where rp = rp and m = m and a = a and ranked = ranked
        and n = n and attempted = attempted and w = w and t = t])
    case stop
    then show ?thesis by simp
  next
    case (candidate best rest ev ev')
    then show ?thesis using that evaluate_healing_selected by auto
  qed
qed

end
