(* ===== verification/Policy_Properties.thy ===== *)
theory Policy_Properties
  imports Recovery_Policy
begin

text \<open>
  The properties of the recovery policy: the complete decision table of \<open>evaluate\<close>, the
  conditions under which it proposes a replacement, the continuation after a failed attempt,
  and the configuration of the failure types.
\<close>

section \<open>Helper lemmas\<close>

lemma adjust_evidence: "fst (adjust_confidence cfg m a best ev) = fst (adjust_confidence cfg m a best [])"
  by (simp add: adjust_confidence_def Let_def split: option.splits)

definition adjusted_confidence ::
  "recovery_policy \<Rightarrow> mem_store option \<Rightarrow> failure_analysis option \<Rightarrow> scored_candidate \<Rightarrow> f64" where
  "adjusted_confidence rp m a best = fst (adjust_confidence (rp_config rp) m a best [])"

definition confident_enough :: "policy_config \<Rightarrow> f64 \<Rightarrow> bool" where
  "confident_enough cfg x \<longleftrightarrow> pc_min_healing_confidence cfg \<le> x \<or>
     pc_allow_medium_confidence_healing cfg \<and> pc_min_candidate_score cfg \<le> x"

definition too_close :: "policy_config \<Rightarrow> scored_candidate list \<Rightarrow> bool" where
  "too_close cfg cs = (case cs of
     best # second # _ \<Rightarrow> fl (sc_confidence best - sc_confidence second) \<le> pc_ambiguity_margin cfg
   | _ \<Rightarrow> False)"

lemma healing_outcome_decision:
  "rd_decision (healing_outcome base cfg best x n ev) =
     (if confident_enough cfg x then RV_TRY_HEALING else RV_DO_NOT_HEAL)"
  by (simp add: healing_outcome_def confident_enough_def)

lemma healing_outcome_confidence: "rd_confidence (healing_outcome base cfg best x n ev) = rd_confidence base"
  by (simp add: healing_outcome_def)

lemma evaluate_healing_decision:
  "rd_decision (evaluate_healing rp m a best rest n r w t ev) =
     (if too_close (rp_config rp) (best # rest) then RV_REQUIRE_FURTHER_ANALYSIS
      else if confident_enough (rp_config rp) (adjusted_confidence rp m a best) then RV_TRY_HEALING
      else RV_DO_NOT_HEAL)"
  using adjust_evidence[of "rp_config rp" m a best ev]
  by (simp add: evaluate_healing_def adjusted_confidence_def too_close_def Let_def
      healing_outcome_decision split: prod.splits list.splits) auto

lemma evaluate_healing_confidence:
  "rd_confidence (evaluate_healing rp m a best rest n r w t ev) = adjusted_confidence rp m a best"
  using adjust_evidence[of "rp_config rp" m a best ev]
  by (simp add: evaluate_healing_def adjusted_confidence_def Let_def healing_outcome_confidence
      split: prod.splits list.splits) auto

lemma eligible_filter_eq:
  "filter_eligible_candidates cfg cs attempted ev = (xs, ev') \<Longrightarrow> filter (eligible cfg attempted) cs = xs"
  using eligible_eq[of cfg cs attempted ev] by (simp add: eligible_def[abs_def])

lemma failure_rules_decision:
  "case evaluate_failure_rules rp ft n r base ev of
     Inl d \<Rightarrow> rd_decision d =
       (let p = get_failure_policy rp ft; cfg = rp_config rp in
        if pc_max_healing_attempts cfg \<le> n then RV_ABORT
        else if retry_allowed rp ft r then RV_RETRY
        else if fp_retryable p \<and> pc_allow_retry cfg then RV_REQUIRE_FURTHER_ANALYSIS
        else RV_DO_NOT_HEAL) \<and>
       (pc_max_healing_attempts (rp_config rp) \<le> n \<or> retry_allowed rp ft r \<or>
        \<not> fp_healable (get_failure_policy rp ft))
   | Inr _ \<Rightarrow> n < pc_max_healing_attempts (rp_config rp) \<and> \<not> retry_allowed rp ft r \<and>
       fp_healable (get_failure_policy rp ft)"
  by (auto simp: evaluate_failure_rules_def retry_allowed_def effective_retries_def Let_def
      split: if_splits)

lemma failure_rules_confidence:
  "evaluate_failure_rules rp ft n r base ev = Inl d \<Longrightarrow> rd_confidence d \<in> {1, fl 0.9, fl 0.7}"
  by (auto simp: evaluate_failure_rules_def Let_def split: if_splits)

section \<open>Sample inputs of the witnesses\<close>

definition policy_sample_analysis :: "failure_type \<Rightarrow> failure_analysis" where
  "policy_sample_analysis ft =
     \<lparr>fa_test_id = ''TC_1'', fa_execution_id = ''x1'', fa_failure_type = ft, fa_root_cause = ''cause'',
      fa_confidence = CL_HIGH, fa_failed_step = 1, fa_failed_target = ''#old'',
      fa_expected_state = None, fa_actual_state = None, fa_evidence = [],
      fa_historical_context = None, fa_recommended_action = RA_SEARCH_FOR_REPLACEMENT_SELECTOR\<rparr>"

definition policy_sample_candidate :: "string \<Rightarrow> f64 \<Rightarrow> scored_candidate" where
  "policy_sample_candidate s x =
     \<lparr>sc_selector = s, sc_selector_type = ''id'', sc_source = CS_CURRENT_DOM, sc_confidence = x,
      sc_evidence = [], sc_text_similarity = x, sc_role_similarity = 0, sc_type_similarity = 0,
      sc_page_similarity = 0, sc_historical_similarity = 0, sc_name_similarity = 0,
      sc_stable_attribute_similarity = 0, sc_healing_history_score = 0\<rparr>"

definition sample_policy :: recovery_policy where
  "sample_policy = make_policy (default_policy_config
     \<lparr>pc_min_healing_confidence := 3/4, pc_min_candidate_score := 1/4, pc_ambiguity_margin := 1/8,
      pc_history_boost_weight := 1/8\<rparr>)"

lemma sample_policy_simps:
  "rp_config sample_policy = default_policy_config
     \<lparr>pc_min_healing_confidence := 3/4, pc_min_candidate_score := 1/4, pc_ambiguity_margin := 1/8,
      pc_history_boost_weight := 1/8\<rparr>"
  "get_failure_policy sample_policy FT_SELECTOR_CHANGED = failure_policy FT_SELECTOR_CHANGED True False 0"
  by (simp_all add: sample_policy_def make_policy_def get_failure_policy_def merge_policies_def
      default_policy_config_def default_failure_policies_def)

section \<open>The decision table\<close>

text \<open>
  C37: The decision of the policy is determined, in this order, by the attempt limit, the
  retry budget of the failure type, whether the type is healable, the unattempted candidates
  above the minimum score, the gap of the best two of them, and the adjusted confidence of the
  best one.
\<close>

theorem policy_decision_table:
  "rd_decision (policy_evaluate rp m a ranked n r attempted w t) =
    (let cfg = rp_config rp; ft = fa_failure_type a; p = get_failure_policy rp ft;
         cs = filter (eligible cfg attempted) ranked in
     if pc_max_healing_attempts cfg \<le> n then RV_ABORT
     else if retry_allowed rp ft r then RV_RETRY
     else if \<not> fp_healable p then
       (if fp_retryable p \<and> pc_allow_retry cfg then RV_REQUIRE_FURTHER_ANALYSIS else RV_DO_NOT_HEAL)
     else if cs = [] then RV_DO_NOT_HEAL
     else if too_close cfg cs then RV_REQUIRE_FURTHER_ANALYSIS
     else if confident_enough cfg (adjusted_confidence rp m (Some a) (hd cs)) then RV_TRY_HEALING
     else RV_DO_NOT_HEAL)"
proof (cases rule: policy_evaluate_cases[where rp = rp and m = m and a = a and ranked = ranked
        and n = n and r = r and attempted = attempted and w = w and t = t])
  case (rules d ev base)
  then show ?thesis
    using failure_rules_decision[of rp "fa_failure_type a" n r base ev] by (auto simp: Let_def)
next
  case none
  then have "filter (eligible (rp_config rp) attempted) ranked = []"
    by (simp add: find_None_iff filter_empty_conv)
  then show ?thesis using none by (simp add: Let_def)
next
  case (candidate best rest ev ev')
  then show ?thesis using eligible_filter_eq[OF candidate(4)]
    by (simp add: evaluate_healing_decision Let_def)
qed

text \<open>
  The policy proposes a replacement only when attempts are left, the failure type is
  healable and its retries are used up; the proposal is the first ranked candidate that was
  not attempted and reaches the minimum score, its adjusted confidence is high enough, the
  decision counts the new attempt and requires validation.
\<close>

theorem policy_proposal_safe:
  assumes "rd_decision (policy_evaluate rp m a ranked n r attempted w t) = RV_TRY_HEALING"
  shows "n < pc_max_healing_attempts (rp_config rp) \<and>
    fp_healable (get_failure_policy rp (fa_failure_type a)) \<and>
    \<not> retry_allowed rp (fa_failure_type a) r \<and>
    (\<exists>c. find (eligible (rp_config rp) attempted) ranked = Some c \<and>
       rd_selected_candidate (policy_evaluate rp m a ranked n r attempted w t) = Some c \<and>
       confident_enough (rp_config rp) (adjusted_confidence rp m (Some a) c)) \<and>
    rd_attempt_number (policy_evaluate rp m a ranked n r attempted w t) = n + 1 \<and>
    rd_requires_validation (policy_evaluate rp m a ranked n r attempted w t)"
proof (cases rule: policy_evaluate_cases[where rp = rp and m = m and a = a and ranked = ranked
        and n = n and r = r and attempted = attempted and w = w and t = t])
  case (rules d ev base)
  then show ?thesis using assms failure_rules_Inl(1) by auto
next
  case none
  then show ?thesis using assms by simp
next
  case (candidate best rest ev ev')
  have d: "rd_decision (evaluate_healing rp m (Some a) best rest n r w t ev') = RV_TRY_HEALING"
    using assms candidate by simp
  show ?thesis
    using candidate eligible_filter_Cons[OF candidate(4)] evaluate_healing_try[OF d] d
    by (auto simp: evaluate_healing_decision split: if_splits)
qed

lemma policy_proposal_safe_witness:
  "rd_selected_candidate (policy_evaluate sample_policy None (policy_sample_analysis FT_SELECTOR_CHANGED)
     [policy_sample_candidate ''#a'' 1, policy_sample_candidate ''#b'' (7/8)] 1 0 {''#a''} [] [])
   = Some (policy_sample_candidate ''#b'' (7/8))"
proof -
  have "rd_decision (policy_evaluate sample_policy None (policy_sample_analysis FT_SELECTOR_CHANGED)
     [policy_sample_candidate ''#a'' 1, policy_sample_candidate ''#b'' (7/8)] 1 0 {''#a''} [] []) = RV_TRY_HEALING"
    by (simp add: policy_evaluate_def Let_def evaluate_failure_rules_def filter_eligible_candidates_def evaluate_healing_def adjust_confidence_def healing_outcome_def is_attempted_def is_low_def policy_sample_analysis_def policy_sample_candidate_def sample_policy_simps default_policy_config_def failure_policy_def)
  from policy_proposal_safe[OF this] show ?thesis
    by (simp add: eligible_def policy_sample_candidate_def sample_policy_simps)
qed

text \<open>
  After a failed attempt the policy never retries and never answers from the failure type:
  it aborts exactly when the attempts are used up or no unattempted candidate reaches the
  minimum score, and otherwise decides about the first such candidate as it does for a first
  attempt.
\<close>

theorem continuation_decision_table:
  "rd_decision (evaluate_continuation rp m a ranked n attempted w t) =
    (let cfg = rp_config rp; cs = filter (eligible cfg attempted) ranked in
     if pc_max_healing_attempts cfg \<le> n \<or> cs = [] then RV_ABORT
     else if too_close cfg cs then RV_REQUIRE_FURTHER_ANALYSIS
     else if confident_enough cfg (adjusted_confidence rp m a (hd cs)) then RV_TRY_HEALING
     else RV_DO_NOT_HEAL)"
proof (cases rule: continuation_cases[where rp = rp and m = m and a = a and ranked = ranked
        and n = n and attempted = attempted and w = w and t = t])
  case stop
  then show ?thesis by (auto simp: find_None_iff filter_empty_conv Let_def)
next
  case (candidate best rest ev ev')
  then show ?thesis using eligible_filter_eq[OF candidate(2)]
    by (simp add: evaluate_healing_decision Let_def)
qed

section \<open>Confidence\<close>

text \<open>
  The confidence of every decision is in the unit interval, so the decision record can be
  built: for a valid configuration and candidates whose confidence is in the unit interval,
  also after the historical boost and penalty are applied in float arithmetic.
\<close>

theorem decision_confidence_unit:
  assumes "valid_policy_config (rp_config rp)" "\<forall>c \<in> set ranked. unit_interval (sc_confidence c)"
  shows "unit_interval (rd_confidence (policy_evaluate rp m a ranked n r attempted w t)) \<and>
    unit_interval (rd_confidence (evaluate_continuation rp m b ranked n attempted w t))"
proof
  have adj: "unit_interval (adjusted_confidence rp m' a' c)" if "c \<in> set ranked" for m' a' c
    using that assms adjusted_unit by (simp add: adjusted_confidence_def valid_policy_config_def)
  show "unit_interval (rd_confidence (policy_evaluate rp m a ranked n r attempted w t))"
  proof (cases "evaluate_failure_rules rp (fa_failure_type a) n r
      (evaluation_base (fa_failure_type a) n r w t) (evaluation_evidence rp a ranked n r)")
    case (Inl d)
    have "fl 0.9 \<le> fl 1" "fl 0.7 \<le> fl 1" by (rule fl_mono, simp)+
    moreover have "0 \<le> fl 0.9" "0 \<le> fl 0.7" by (rule fl_nonneg, simp)+
    ultimately show ?thesis
      using Inl failure_rules_confidence[OF Inl]
      by (auto simp: policy_evaluate_def Let_def unit_interval_def)
  next
    case (Inr ev)
    obtain cs ev' where f: "filter_eligible_candidates (rp_config rp) ranked attempted ev = (cs, ev')"
      by fastforce
    then show ?thesis
      using Inr adj eligible_hd(1)[of "rp_config rp" ranked attempted ev]
      by (cases cs) (auto simp: policy_evaluate_def Let_def evaluate_healing_confidence)
  qed
  obtain cs ev' where f: "filter_eligible_candidates (rp_config rp) ranked attempted
      (continuation_evidence rp (case b of None \<Rightarrow> FT_UNKNOWN | Some x \<Rightarrow> fa_failure_type x) n attempted)
      = (cs, ev')" by fastforce
  then show "unit_interval (rd_confidence (evaluate_continuation rp m b ranked n attempted w t))"
    using adj
    by (cases cs) (auto simp: evaluate_continuation_def Let_def continuation_abort_def
        evaluate_healing_confidence eligible_hd(1))
qed

lemma decision_confidence_unit_witness:
  "unit_interval (rd_confidence (policy_evaluate sample_policy None
     (policy_sample_analysis FT_SELECTOR_CHANGED) [policy_sample_candidate ''#a'' 1] 0 0 {} [] []))"
proof -
  have "valid_policy_config (rp_config sample_policy)"
    "\<forall>c \<in> set [policy_sample_candidate ''#a'' 1]. unit_interval (sc_confidence c)"
    by (simp_all add: valid_policy_config_def sample_policy_simps default_policy_config_def
        unit_interval_def policy_sample_candidate_def)
  from decision_confidence_unit[OF this] show ?thesis by blast
qed

section \<open>Configuration\<close>

lemma map_of_merge:
  assumes "distinct (map fst overrides)"
  shows "map_of (merge_policies overrides) ft =
    (case map_of overrides (failure_type_value ft) of
       Some p \<Rightarrow> Some p | None \<Rightarrow> map_of default_failure_policies ft)"
proof -
  have "map_of (fold (\<lambda>(key, p) ps. case enum_of_value failure_type_members failure_type_value key of
        None \<Rightarrow> ps | Some ft \<Rightarrow> AList.update ft p ps) overrides ps) ft =
    (case map_of overrides (failure_type_value ft) of Some p \<Rightarrow> Some p | None \<Rightarrow> map_of ps ft)" for ps
    using assms
  proof (induction overrides arbitrary: ps)
    case (Cons kp overrides)
    obtain key p where kp: "kp = (key, p)" by fastforce
    have IH: "map_of (fold (\<lambda>(key, p) ps. case enum_of_value failure_type_members failure_type_value key of
        None \<Rightarrow> ps | Some ft \<Rightarrow> AList.update ft p ps) overrides ps) ft =
      (case map_of overrides (failure_type_value ft) of Some p \<Rightarrow> Some p | None \<Rightarrow> map_of ps ft)" for ps
      using Cons by simp
    show ?case
    proof (cases "enum_of_value failure_type_members failure_type_value key")
      case None
      then have "key \<noteq> failure_type_value ft" using ft_enum.of_value_None by auto
      then show ?thesis using IH None by (simp add: kp)
    next
      case (Some g)
      then have g: "failure_type_value g = key" using ft_enum.of_value_Some by blast
      show ?thesis
      proof (cases "g = ft")
        case True
        then have "map_of overrides (failure_type_value ft) = None"
          using Cons.prems g by (simp add: kp map_of_eq_None_iff)
        then show ?thesis using IH Some True g by (simp add: kp update_conv')
      next
        case False
        then have "key \<noteq> failure_type_value ft" using g ft_enum.value_inject by metis
        then show ?thesis using IH Some False by (simp add: kp update_conv' split: option.splits)
      qed
    qed
  qed simp
  then show ?thesis by (simp add: merge_policies_def)
qed

text \<open>
  The policy of a failure type is the configured override under its name when there is
  one, and the default otherwise; override keys that name no failure type change nothing.
\<close>

theorem configured_policy:
  assumes "distinct (map fst (pc_failure_policies cfg))"
  shows "get_failure_policy (make_policy cfg) ft =
    (case map_of (pc_failure_policies cfg) (failure_type_value ft) of
       Some p \<Rightarrow> p
     | None \<Rightarrow> the (map_of default_failure_policies ft))"
proof -
  have "map_of default_failure_policies ft \<noteq> None"
    by (cases ft) (simp_all add: default_failure_policies_def)
  then show ?thesis
    using map_of_merge[OF assms, of ft]
    by (auto simp: get_failure_policy_def make_policy_def split: option.splits)
qed

lemma configured_policy_witness:
  "fp_healable (get_failure_policy (make_policy (default_policy_config\<lparr>pc_failure_policies :=
     [(''TIMEOUT'', failure_policy FT_TIMEOUT True False 0), (''typo'', failure_policy FT_UNKNOWN True True 9)]\<rparr>))
     FT_TIMEOUT)"
proof -
  let ?cfg = "default_policy_config\<lparr>pc_failure_policies :=
     [(''TIMEOUT'', failure_policy FT_TIMEOUT True False 0), (''typo'', failure_policy FT_UNKNOWN True True 9)]\<rparr>"
  have "distinct (map fst (pc_failure_policies ?cfg))" by simp
  from configured_policy[OF this, of FT_TIMEOUT] show ?thesis by (simp add: failure_policy_def)
qed

text \<open>
  With the default failure policies a replacement is proposed only for a changed selector
  or an element that was not found, and a retry is decided only for a timeout, a navigation
  failure or an element that is not interactable, at most twice.
\<close>

theorem default_policy_scope:
  assumes "pc_failure_policies cfg = []"
  shows "(rd_decision (policy_evaluate (make_policy cfg) m a ranked n r attempted w t) = RV_TRY_HEALING \<longrightarrow>
      fa_failure_type a \<in> {FT_SELECTOR_CHANGED, FT_ELEMENT_NOT_FOUND}) \<and>
    (rd_decision (policy_evaluate (make_policy cfg) m a ranked n r attempted w t) = RV_RETRY \<longrightarrow>
      fa_failure_type a \<in> {FT_TIMEOUT, FT_NAVIGATION_FAILURE, FT_ELEMENT_NOT_INTERACTABLE} \<and> r < 2)"
proof -
  let ?rp = "make_policy cfg" and ?d = "policy_evaluate (make_policy cfg) m a ranked n r attempted w t"
  have p: "get_failure_policy ?rp ft = the (map_of default_failure_policies ft)" for ft
    using assms by (cases ft) (simp_all add: get_failure_policy_def make_policy_def merge_policies_def
        default_failure_policies_def)
  have heal: "ft \<in> {FT_SELECTOR_CHANGED, FT_ELEMENT_NOT_FOUND}" if "fp_healable (get_failure_policy ?rp ft)" for ft
    using that by (cases ft) (simp_all add: p default_failure_policies_def failure_policy_def)
  have retry: "ft \<in> {FT_TIMEOUT, FT_NAVIGATION_FAILURE, FT_ELEMENT_NOT_INTERACTABLE} \<and> r < 2"
    if "retry_allowed ?rp ft r" for ft
    using that by (cases ft) (simp_all add: retry_allowed_def effective_retries_def p
        default_failure_policies_def failure_policy_def)
  have "(rd_decision ?d = RV_TRY_HEALING \<longrightarrow> fp_healable (get_failure_policy ?rp (fa_failure_type a))) \<and>
    (rd_decision ?d = RV_RETRY \<longrightarrow> retry_allowed ?rp (fa_failure_type a) r)"
  proof (cases rule: policy_evaluate_cases[where rp = ?rp and m = m and a = a and ranked = ranked
        and n = n and r = r and attempted = attempted and w = w and t = t])
    case (rules d ev base)
    then show ?thesis using failure_rules_Inl(1)[OF rules(1)] failure_rules_retry[OF rules(1)] by simp
  next
    case none
    then show ?thesis by simp
  next
    case (candidate best rest ev ev')
    then show ?thesis by (simp add: evaluate_healing_decision)
  qed
  then show ?thesis using heal retry by blast
qed

lemma default_policy_scope_witness:
  "rd_decision (policy_evaluate (make_policy default_policy_config) None (policy_sample_analysis FT_TIMEOUT)
     [] 0 1 {} [] []) = RV_RETRY \<and>
   fa_failure_type (policy_sample_analysis FT_TIMEOUT)
     \<in> {FT_TIMEOUT, FT_NAVIGATION_FAILURE, FT_ELEMENT_NOT_INTERACTABLE}"
proof -
  have c: "pc_failure_policies default_policy_config = []" by (simp add: default_policy_config_def)
  have "rd_decision (policy_evaluate (make_policy default_policy_config) None
      (policy_sample_analysis FT_TIMEOUT) [] 0 1 {} [] []) = RV_RETRY"
    by (simp add: policy_evaluate_def Let_def evaluate_failure_rules_def make_policy_def
        get_failure_policy_def merge_policies_def default_policy_config_def default_failure_policies_def
        policy_sample_analysis_def failure_policy_def)
  with default_policy_scope[OF c] show ?thesis by blast
qed

end
