(* ===== verification/Planner_Schemas.thy ===== *)
theory Planner_Schemas
  imports Memory_Schemas
begin

text \<open>
  The planner's data contracts, \<^verbatim>\<open>agents/planner/schemas.py\<close>: the application under test
  (pages and their elements) and the test plan generated for it. The \<open>valid_\<close> predicates
  state the declared field bounds.
\<close>

section \<open>The application\<close>

record element_context =
  ec_tag :: string
  ec_id :: "string option"
  ec_name :: "string option"
  ec_type :: "string option"
  ec_role :: "string option"
  ec_text :: "string option"
  ec_placeholder :: "string option"
  ec_classes :: "string list"
  ec_attributes :: "(string \<times> string) list"
  ec_selector :: "string option"
  ec_visible :: "bool option"
  ec_interactable :: "bool option"

record page_context =
  pg_url :: string
  pg_name :: string
  pg_title :: string
  pg_description :: string
  pg_elements :: "element_context list"
  pg_forms :: "string list"
  pg_navigation_elements :: "string list"

record application_context =
  ac_app_name :: string
  ac_app_url :: string
  ac_description :: string
  ac_pages :: "page_context list"
  ac_technology_stack :: "string list"
  ac_metadata :: "(string \<times> pyval) list"

section \<open>The test plan\<close>

record test_assertion =
  as_type :: assertion_type
  as_target :: string
  as_expected :: string
  as_description :: string

record test_step =
  ts_step_number :: int
  ts_action :: test_action
  ts_target :: "string option"
  ts_value :: "string option"
  ts_description :: string
  ts_assertions :: "test_assertion list"
  ts_timeout :: "int option"
  ts_metadata :: "(string \<times> pyval) list"

definition valid_test_step :: "test_step \<Rightarrow> bool" where
  "valid_test_step s \<longleftrightarrow>
     1 \<le> ts_step_number s \<and> (case ts_timeout s of None \<Rightarrow> True | Some t \<Rightarrow> 0 \<le> t)"

record test_case =
  tc_test_id :: string
  tc_name :: string
  tc_description :: string
  tc_category :: test_category
  tc_priority :: test_priority
  tc_steps :: "test_step list"
  tc_assertions :: "test_assertion list"
  tc_page_url :: "string option"
  tc_preconditions :: "string list"
  tc_tags :: "string list"
  tc_generated_reasoning :: "string option"

definition valid_test_case :: "test_case \<Rightarrow> bool" where
  "valid_test_case t \<longleftrightarrow> list_all valid_test_step (tc_steps t)"

record test_plan =
  tp_application_name :: string
  tp_base_url :: string
  tp_generated_at :: string
  tp_test_cases :: "test_case list"
  tp_metadata :: "(string \<times> pyval) list"

definition valid_test_plan :: "test_plan \<Rightarrow> bool" where
  "valid_test_plan p \<longleftrightarrow> list_all valid_test_case (tp_test_cases p)"

end
