(* ===== verification/Workflow_Schemas.thy ===== *)
theory Workflow_Schemas
  imports Planner_Schemas Healing_Feedback Recovery_Policy
begin

text \<open>
  \<^verbatim>\<open>agents/orchestration/workflow_schemas.py\<close>: the workflow's states and transition table,
  its events, the execution result the engine reports, the state object and the
  orchestrator's configuration.
\<close>

section \<open>Workflow steps\<close>

datatype workflow_step =
    W_PLANNING | W_EXECUTION_PENDING | W_EXECUTION_SUCCESS | W_FAILURE_DETECTED |
    W_ANALYZING_FAILURE | W_GENERATING_CANDIDATES | W_RANKING_CANDIDATES | W_DECIDING_HEALING |
    W_RETRYING | W_HEALING_PENDING_VALIDATION | W_HEALING_SUCCEEDED | W_HEALING_FAILED |
    W_COMPLETED | W_ABORTED

definition workflow_step_members :: "workflow_step list" where
  "workflow_step_members =
    [W_PLANNING, W_EXECUTION_PENDING, W_EXECUTION_SUCCESS, W_FAILURE_DETECTED,
     W_ANALYZING_FAILURE, W_GENERATING_CANDIDATES, W_RANKING_CANDIDATES, W_DECIDING_HEALING,
     W_RETRYING, W_HEALING_PENDING_VALIDATION, W_HEALING_SUCCEEDED, W_HEALING_FAILED,
     W_COMPLETED, W_ABORTED]"

fun workflow_step_value :: "workflow_step \<Rightarrow> string" where
  "workflow_step_value W_PLANNING = ''PLANNING''"
| "workflow_step_value W_EXECUTION_PENDING = ''EXECUTION_PENDING''"
| "workflow_step_value W_EXECUTION_SUCCESS = ''EXECUTION_SUCCESS''"
| "workflow_step_value W_FAILURE_DETECTED = ''FAILURE_DETECTED''"
| "workflow_step_value W_ANALYZING_FAILURE = ''ANALYZING_FAILURE''"
| "workflow_step_value W_GENERATING_CANDIDATES = ''GENERATING_CANDIDATES''"
| "workflow_step_value W_RANKING_CANDIDATES = ''RANKING_CANDIDATES''"
| "workflow_step_value W_DECIDING_HEALING = ''DECIDING_HEALING''"
| "workflow_step_value W_RETRYING = ''RETRYING''"
| "workflow_step_value W_HEALING_PENDING_VALIDATION = ''HEALING_PENDING_VALIDATION''"
| "workflow_step_value W_HEALING_SUCCEEDED = ''HEALING_SUCCEEDED''"
| "workflow_step_value W_HEALING_FAILED = ''HEALING_FAILED''"
| "workflow_step_value W_COMPLETED = ''COMPLETED''"
| "workflow_step_value W_ABORTED = ''ABORTED''"

interpretation step_enum: str_enum workflow_step_members workflow_step_value
proof unfold_locales
  fix x :: workflow_step
  show "x \<in> set workflow_step_members" by (cases x) (simp_all add: workflow_step_members_def)
  show "distinct (map workflow_step_value workflow_step_members)" by (simp add: workflow_step_members_def)
qed

section \<open>Transitions\<close>

fun valid_transitions :: "workflow_step \<Rightarrow> workflow_step list" where
  "valid_transitions W_PLANNING = [W_EXECUTION_PENDING, W_ABORTED]"
| "valid_transitions W_EXECUTION_PENDING = [W_EXECUTION_SUCCESS, W_FAILURE_DETECTED]"
| "valid_transitions W_EXECUTION_SUCCESS = [W_COMPLETED]"
| "valid_transitions W_FAILURE_DETECTED = [W_ANALYZING_FAILURE]"
| "valid_transitions W_ANALYZING_FAILURE =
     [W_GENERATING_CANDIDATES, W_RETRYING, W_COMPLETED, W_ABORTED]"
| "valid_transitions W_GENERATING_CANDIDATES = [W_RANKING_CANDIDATES, W_HEALING_FAILED]"
| "valid_transitions W_RANKING_CANDIDATES = [W_DECIDING_HEALING]"
| "valid_transitions W_DECIDING_HEALING =
     [W_HEALING_PENDING_VALIDATION, W_COMPLETED, W_HEALING_FAILED, W_ABORTED]"
| "valid_transitions W_RETRYING = [W_EXECUTION_PENDING]"
| "valid_transitions W_HEALING_PENDING_VALIDATION =
     [W_HEALING_SUCCEEDED, W_HEALING_FAILED, W_HEALING_PENDING_VALIDATION, W_ABORTED]"
| "valid_transitions W_HEALING_SUCCEEDED = [W_COMPLETED]"
| "valid_transitions W_HEALING_FAILED = [W_COMPLETED]"
| "valid_transitions W_COMPLETED = []"
| "valid_transitions W_ABORTED = []"

definition is_terminal :: "workflow_step \<Rightarrow> bool" where
  "is_terminal s \<longleftrightarrow> valid_transitions s = []"

section \<open>Events\<close>

datatype workflow_event_type =
    WE_WORKFLOW_STARTED | WE_TEST_PLAN_GENERATED | WE_EXECUTION_RESULT_RECEIVED |
    WE_FAILURE_ANALYSIS_COMPLETED | WE_CANDIDATES_GENERATED | WE_CANDIDATES_RANKED |
    WE_HEALING_DECISION_CREATED | WE_HEALING_RECOMMENDATION_SENT | WE_HEALING_RESULT_RECEIVED |
    WE_HEALING_HISTORY_UPDATED | WE_WORKFLOW_COMPLETED | WE_WORKFLOW_ABORTED |
    WE_STATE_TRANSITION | WE_VALIDATION_ERROR | WE_RECOVERY_DECISION_CREATED |
    WE_RETRY_INITIATED

definition workflow_event_type_members :: "workflow_event_type list" where
  "workflow_event_type_members =
    [WE_WORKFLOW_STARTED, WE_TEST_PLAN_GENERATED, WE_EXECUTION_RESULT_RECEIVED,
     WE_FAILURE_ANALYSIS_COMPLETED, WE_CANDIDATES_GENERATED, WE_CANDIDATES_RANKED,
     WE_HEALING_DECISION_CREATED, WE_HEALING_RECOMMENDATION_SENT, WE_HEALING_RESULT_RECEIVED,
     WE_HEALING_HISTORY_UPDATED, WE_WORKFLOW_COMPLETED, WE_WORKFLOW_ABORTED, WE_STATE_TRANSITION,
     WE_VALIDATION_ERROR, WE_RECOVERY_DECISION_CREATED, WE_RETRY_INITIATED]"

fun workflow_event_type_value :: "workflow_event_type \<Rightarrow> string" where
  "workflow_event_type_value WE_WORKFLOW_STARTED = ''WORKFLOW_STARTED''"
| "workflow_event_type_value WE_TEST_PLAN_GENERATED = ''TEST_PLAN_GENERATED''"
| "workflow_event_type_value WE_EXECUTION_RESULT_RECEIVED = ''EXECUTION_RESULT_RECEIVED''"
| "workflow_event_type_value WE_FAILURE_ANALYSIS_COMPLETED = ''FAILURE_ANALYSIS_COMPLETED''"
| "workflow_event_type_value WE_CANDIDATES_GENERATED = ''CANDIDATES_GENERATED''"
| "workflow_event_type_value WE_CANDIDATES_RANKED = ''CANDIDATES_RANKED''"
| "workflow_event_type_value WE_HEALING_DECISION_CREATED = ''HEALING_DECISION_CREATED''"
| "workflow_event_type_value WE_HEALING_RECOMMENDATION_SENT = ''HEALING_RECOMMENDATION_SENT''"
| "workflow_event_type_value WE_HEALING_RESULT_RECEIVED = ''HEALING_RESULT_RECEIVED''"
| "workflow_event_type_value WE_HEALING_HISTORY_UPDATED = ''HEALING_HISTORY_UPDATED''"
| "workflow_event_type_value WE_WORKFLOW_COMPLETED = ''WORKFLOW_COMPLETED''"
| "workflow_event_type_value WE_WORKFLOW_ABORTED = ''WORKFLOW_ABORTED''"
| "workflow_event_type_value WE_STATE_TRANSITION = ''STATE_TRANSITION''"
| "workflow_event_type_value WE_VALIDATION_ERROR = ''VALIDATION_ERROR''"
| "workflow_event_type_value WE_RECOVERY_DECISION_CREATED = ''RECOVERY_DECISION_CREATED''"
| "workflow_event_type_value WE_RETRY_INITIATED = ''RETRY_INITIATED''"

interpretation event_enum: str_enum workflow_event_type_members workflow_event_type_value
proof unfold_locales
  fix x :: workflow_event_type
  show "x \<in> set workflow_event_type_members" by (cases x) (simp_all add: workflow_event_type_members_def)
  show "distinct (map workflow_event_type_value workflow_event_type_members)" by (simp add: workflow_event_type_members_def)
qed

record workflow_event =
  we_workflow_id :: string
  we_timestamp :: string
  we_event_type :: workflow_event_type
  we_step :: workflow_step
  we_message :: string
  we_metadata :: "(string \<times> pyval) list"

section \<open>Execution results\<close>

datatype execution_result_status =
    XS_SUCCESS | XS_FAILED

definition execution_result_status_members :: "execution_result_status list" where
  "execution_result_status_members =
    [XS_SUCCESS, XS_FAILED]"

fun execution_result_status_value :: "execution_result_status \<Rightarrow> string" where
  "execution_result_status_value XS_SUCCESS = ''SUCCESS''"
| "execution_result_status_value XS_FAILED = ''FAILED''"

interpretation result_enum: str_enum execution_result_status_members execution_result_status_value
proof unfold_locales
  fix x :: execution_result_status
  show "x \<in> set execution_result_status_members" by (cases x) (simp_all add: execution_result_status_members_def)
  show "distinct (map execution_result_status_value execution_result_status_members)" by (simp add: execution_result_status_members_def)
qed

record execution_result =
  xr_workflow_id :: string
  xr_test_case_id :: string
  xr_status :: execution_result_status
  xr_failure_context :: "failure_context option"

text \<open>
  The constraints on a constructed result. The validator of \<open>failure_context\<close> runs only when
  the field is given: pydantic does not validate defaults, so a FAILED result that omits the
  field is accepted, and the flow below has its own branch for it.
\<close>

definition valid_execution_result :: "execution_result \<Rightarrow> bool" where
  "valid_execution_result r \<longleftrightarrow>
     xr_workflow_id r \<noteq> [] \<and> xr_test_case_id r \<noteq> [] \<and>
     (case xr_failure_context r of None \<Rightarrow> True | Some f \<Rightarrow> valid_failure_context f)"

section \<open>Workflow state\<close>

text \<open>
  \<open>ag_ticks\<close> is not a field of the code: it counts the clock readings made for this state,
  so that the k-th call of \<open>_now()\<close> is the k-th value of the clock.
\<close>

record agent_state =
  ag_workflow_id :: string
  ag_test_plan :: "test_plan option"
  ag_current_test_case :: "test_case option"
  ag_execution_result :: "execution_result option"
  ag_failure_context :: "failure_context option"
  ag_failure_analysis :: "failure_analysis option"
  ag_healing_candidates :: "scored_candidate list"
  ag_ranked_candidates :: "scored_candidate list"
  ag_healing_decision :: "healing_decision option"
  ag_healing_recommendation :: "healing_recommendation option"
  ag_healing_result :: "healing_result option"
  ag_current_step :: workflow_step
  ag_status :: string
  ag_attempted_selectors :: "string set"
  ag_healing_attempt_count :: nat
  ag_max_healing_attempts :: nat
  ag_retry_count :: nat
  ag_max_retries :: nat
  ag_recovery_decision :: "recovery_decision option"
  ag_events :: "workflow_event list"
  ag_error_info :: "string option"
  ag_created_at :: string
  ag_updated_at :: string
  ag_ticks :: nat

text \<open>\<open>AgentState(workflow_id=w, current_step=s, max_healing_attempts=n)\<close>.\<close>

definition new_state :: "(nat \<Rightarrow> string) \<Rightarrow> string \<Rightarrow> workflow_step \<Rightarrow> nat \<Rightarrow> agent_state" where
  "new_state clock w s n =
     \<lparr>ag_workflow_id = w, ag_test_plan = None, ag_current_test_case = None,
      ag_execution_result = None, ag_failure_context = None, ag_failure_analysis = None,
      ag_healing_candidates = [], ag_ranked_candidates = [], ag_healing_decision = None,
      ag_healing_recommendation = None, ag_healing_result = None, ag_current_step = s,
      ag_status = ''active'', ag_attempted_selectors = {}, ag_healing_attempt_count = 0,
      ag_max_healing_attempts = n, ag_retry_count = 0, ag_max_retries = 2,
      ag_recovery_decision = None, ag_events = [], ag_error_info = None,
      ag_created_at = clock 0, ag_updated_at = clock 1, ag_ticks = 2\<rparr>"

section \<open>Configuration\<close>

record orchestrator_config =
  og_max_healing_attempts :: nat
  og_minimum_confidence_for_healing :: f64
  og_max_retries :: nat

definition default_orchestrator_config :: orchestrator_config where
  "default_orchestrator_config =
     \<lparr>og_max_healing_attempts = 3, og_minimum_confidence_for_healing = fl 0.30, og_max_retries = 2\<rparr>"

definition valid_orchestrator_config :: "orchestrator_config \<Rightarrow> bool" where
  "valid_orchestrator_config c \<longleftrightarrow>
     1 \<le> og_max_healing_attempts c \<and> unit_interval (og_minimum_confidence_for_healing c)"

section \<open>The transition table\<close>

lemma terminal_steps: "is_terminal s \<longleftrightarrow> s = W_COMPLETED \<or> s = W_ABORTED"
  by (cases s) (simp_all add: is_terminal_def)

lemma no_transition_to_planning: "W_PLANNING \<notin> set (valid_transitions s)"
  by (cases s) simp_all

end
