(* ===== verification/Agent_Orchestrator.thy ===== *)
theory Agent_Orchestrator
  imports Workflow_Schemas Failure_Analyzer
begin

text \<open>
  \<^verbatim>\<open>agents/orchestration/agent_orchestrator.py\<close>: the workflow state machine. Each public
  method takes the caller's state and returns the updated state or an error (the code's
  exception, as a value); the memory and the table of workflows are the \<open>world\<close> it
  changes.

  The handlers are lists of actions run in order by \<open>run_actions\<close>: changing fields
  (\<open>modify\<close>), moving to another step (\<open>goto_step\<close>, checked against the transition table)
  and appending an event (\<open>emit\<close>). A failing action stops the handler.
\<close>

section \<open>State, errors, actions\<close>

datatype workflow_error =
    No_Planner
  | Wrong_Step workflow_step workflow_step
  | Id_Mismatch string string
  | Invalid_Transition workflow_step workflow_step
  | Feedback_Rejected string
  | Not_Iterable

type_synonym clock = "nat \<Rightarrow> string"
type_synonym action = "agent_state \<Rightarrow> workflow_error + agent_state"
type_synonym planner = "application_context \<Rightarrow> nat \<Rightarrow> string + test_plan"

record orchestrator =
  oc_planner :: "planner option"
  oc_analyzer_client :: "llm_client option"
  oc_engine :: decision_engine
  oc_config :: orchestrator_config
  oc_policy :: recovery_policy
  oc_policy_reads_memory :: bool

record world =
  wo_memory :: mem_store
  wo_workflows :: "string \<rightharpoonup> agent_state"

text \<open>
  \<open>AgentOrchestrator.__init__\<close>: without a policy, one is made from the configuration. The
  flag tells whether the given policy was built with a retriever over the shared memory.
\<close>

definition make_orchestrator ::
  "planner option \<Rightarrow> llm_client option \<Rightarrow> decision_engine \<Rightarrow> orchestrator_config \<Rightarrow>
     (recovery_policy \<times> bool) option \<Rightarrow> orchestrator" where
  "make_orchestrator planner client engine cfg policy =
     (let (rp, reads) = (case policy of
            Some p \<Rightarrow> p
          | None \<Rightarrow> (make_policy (default_policy_config
              \<lparr>pc_max_healing_attempts := og_max_healing_attempts cfg,
               pc_max_retries := og_max_retries cfg,
               pc_min_healing_confidence := og_minimum_confidence_for_healing cfg\<rparr>), False))
      in \<lparr>oc_planner = planner, oc_analyzer_client = client, oc_engine = engine,
          oc_config = cfg, oc_policy = rp, oc_policy_reads_memory = reads\<rparr>)"

definition retriever_of :: "orchestrator \<Rightarrow> mem_store \<Rightarrow> mem_store option" where
  "retriever_of oc m = (if oc_policy_reads_memory oc then Some m else None)"

definition touch :: "clock \<Rightarrow> agent_state \<Rightarrow> agent_state" where
  "touch clock st = st\<lparr>ag_updated_at := clock (ag_ticks st), ag_ticks := Suc (ag_ticks st)\<rparr>"

definition modify :: "clock \<Rightarrow> (agent_state \<Rightarrow> agent_state) \<Rightarrow> action" where
  "modify clock f st = Inr (touch clock (f st))"

definition goto_step :: "clock \<Rightarrow> workflow_step \<Rightarrow> action" where
  "goto_step clock target st =
     (if target \<in> set (valid_transitions (ag_current_step st))
      then Inr (touch clock (st\<lparr>ag_current_step := target\<rparr>))
      else Inl (Invalid_Transition (ag_current_step st) target))"

definition add_event ::
  "clock \<Rightarrow> workflow_event_type \<Rightarrow> string \<Rightarrow> (string \<times> pyval) list \<Rightarrow> agent_state \<Rightarrow> agent_state" where
  "add_event clock t message metadata st =
     st\<lparr>ag_events := ag_events st @
          [\<lparr>we_workflow_id = ag_workflow_id st, we_timestamp = clock (ag_ticks st),
            we_event_type = t, we_step = ag_current_step st, we_message = message,
            we_metadata = metadata\<rparr>],
        ag_ticks := Suc (ag_ticks st)\<rparr>"

definition emit :: "clock \<Rightarrow> workflow_event_type \<Rightarrow> string \<Rightarrow> (string \<times> pyval) list \<Rightarrow> action" where
  "emit clock t message metadata st = Inr (add_event clock t message metadata st)"

primrec run_actions :: "action list \<Rightarrow> action" where
  "run_actions [] st = Inr st"
| "run_actions (f # fs) st = (case f st of Inl e \<Rightarrow> Inl e | Inr st' \<Rightarrow> run_actions fs st')"

definition and_then :: "'e + 'a \<Rightarrow> ('a \<Rightarrow> 'e + 'b) \<Rightarrow> 'e + 'b" where
  "and_then r f = (case r of Inl e \<Rightarrow> Inl e | Inr x \<Rightarrow> f x)"

definition test_case_id_of :: "agent_state \<Rightarrow> string" where
  "test_case_id_of st = (case ag_current_test_case st of None \<Rightarrow> ''unknown'' | Some t \<Rightarrow> tc_test_id t)"

definition str_list :: "string list \<Rightarrow> pyval" where
  "str_list xs = PList (map PStr xs)"

section \<open>Elements of the current page\<close>

text \<open>\<open>ElementRecord.model_validate(raw)\<close>: None where it raises \<open>ValidationError\<close>.\<close>

definition parse_opt_str :: "(string \<times> pyval) list \<Rightarrow> string \<Rightarrow> string option option" where
  "parse_opt_str d key =
     (case dict_get d key of PNone \<Rightarrow> Some None | PStr s \<Rightarrow> Some (Some s) | _ \<Rightarrow> None)"

fun parse_str_pairs :: "(string \<times> pyval) list \<Rightarrow> (string \<times> string) list option" where
  "parse_str_pairs [] = Some []"
| "parse_str_pairs ((k, PStr v) # d) = map_option (Cons (k, v)) (parse_str_pairs d)"
| "parse_str_pairs (_ # d) = None"

definition parse_element :: "string \<Rightarrow> pyval \<Rightarrow> element_record option" where
  "parse_element now raw =
     (case raw of
        PDict d \<Rightarrow>
          (case (dict_get d ''element_id'', dict_get d ''selector'', parse_opt_str d ''text'',
                 parse_opt_str d ''role'', parse_opt_str d ''page_url'', parse_opt_str d ''page_name'',
                 (case dict_get_or d ''attributes'' (PDict []) of
                    PDict attrs \<Rightarrow> parse_str_pairs attrs | _ \<Rightarrow> None),
                 dict_get_or d ''last_seen_timestamp'' (PStr now),
                 parse_opt_str d ''last_successful_execution_id'') of
             (PStr i, PStr s, Some text, Some role, Some url, Some name, Some attrs, PStr seen, Some success) \<Rightarrow>
               if i = [] \<or> s = [] then None
               else Some \<lparr>el_element_id = i, el_selector = s, el_text = text, el_role = role,
                 el_page_url = url, el_page_name = name, el_attributes = attrs,
                 el_last_seen = seen, el_last_success_id = success\<rparr>
           | _ \<Rightarrow> None)
      | _ \<Rightarrow> None)"

text \<open>
  Iterating \<open>dom_evidence.get("elements") or []\<close>: the characters of a string and the keys of
  a dict are strings, which do not validate as elements; a number is not iterable.
\<close>

definition iterate_pyval :: "pyval \<Rightarrow> pyval list option" where
  "iterate_pyval v =
     (case v of
        PNone \<Rightarrow> Some []
      | PBool b \<Rightarrow> if b then None else Some []
      | PInt i \<Rightarrow> if i = 0 then Some [] else None
      | PFloat x \<Rightarrow> if x = 0 then Some [] else None
      | PStr s \<Rightarrow> Some (map (\<lambda>c. PStr [c]) s)
      | PList vs \<Rightarrow> Some vs
      | PDict d \<Rightarrow> Some (map (PStr \<circ> fst) d))"

fun collect_elements :: "clock \<Rightarrow> nat \<Rightarrow> pyval list \<Rightarrow> element_record list \<Rightarrow> element_record list" where
  "collect_elements clock n [] elements = elements"
| "collect_elements clock n (raw # raws) elements =
     collect_elements clock (Suc n) raws
       (case parse_element (clock n) raw of
          None \<Rightarrow> elements
        | Some e \<Rightarrow>
            if list_all (\<lambda>x. el_selector x \<noteq> el_selector e) elements then elements @ [e] else elements)"

text \<open>Also the number of clock readings, one reserved for each raw element's default timestamp.\<close>

definition get_current_elements ::
  "clock \<Rightarrow> agent_state \<Rightarrow> workflow_error + (element_record list \<times> nat)" where
  "get_current_elements clock st =
     (case ag_failure_context st of
        None \<Rightarrow> Inr ([], 0)
      | Some f \<Rightarrow>
          let elements = (case fx_current_element f of None \<Rightarrow> [] | Some e \<Rightarrow> [e]);
              evidence = (case fx_dom_evidence f of None \<Rightarrow> [] | Some d \<Rightarrow> d)
          in case iterate_pyval (dict_get evidence ''elements'') of
               None \<Rightarrow> Inl Not_Iterable
             | Some raws \<Rightarrow> Inr (collect_elements clock (ag_ticks st) raws elements, length raws))"

section \<open>Failure flow: before candidates\<close>

definition no_context_actions :: "clock \<Rightarrow> action list" where
  "no_context_actions clock =
     [modify clock (\<lambda>st. st\<lparr>ag_error_info := Some ''No failure context available'',
        ag_status := ''aborted''\<rparr>),
      goto_step clock W_ABORTED]"

definition analysis_actions :: "clock \<Rightarrow> failure_analysis \<Rightarrow> action list" where
  "analysis_actions clock a =
     [modify clock (\<lambda>st. st\<lparr>ag_failure_analysis := Some a\<rparr>),
      emit clock WE_FAILURE_ANALYSIS_COMPLETED
        (''Failure analyzed: '' @ failure_type_value (fa_failure_type a) @ '', confidence='' @
         confidence_level_value (fa_confidence a))
        [(''failure_type'', PStr (failure_type_value (fa_failure_type a))),
         (''confidence'', PStr (confidence_level_value (fa_confidence a))),
         (''recommended_action'', PStr (recommended_action_value (fa_recommended_action a)))]]"

definition limit_decision :: "orchestrator \<Rightarrow> failure_analysis \<Rightarrow> agent_state \<Rightarrow> recovery_decision" where
  "limit_decision oc a st =
     (recovery_decision_of RV_ABORT)
       \<lparr>rd_workflow_id := ag_workflow_id st, rd_test_case_id := test_case_id_of st,
        rd_failure_type := Some (fa_failure_type a), rd_confidence := 1,
        rd_reason := ''Maximum healing attempts ('' @
          show_nat (og_max_healing_attempts (oc_config oc)) @ '') reached.'',
        rd_evidence := [''Healing attempts: '' @ show_nat (ag_healing_attempt_count st)],
        rd_attempt_number := ag_healing_attempt_count st,
        rd_requires_validation := False, rd_next_state := ''ABORTED''\<rparr>"

definition limit_actions :: "orchestrator \<Rightarrow> clock \<Rightarrow> failure_analysis \<Rightarrow> agent_state \<Rightarrow> action list" where
  "limit_actions oc clock a st0 =
     (let d = limit_decision oc a st0
      in [modify clock (\<lambda>st. st\<lparr>ag_recovery_decision := Some d, ag_status := ''aborted''\<rparr>),
          emit clock WE_RECOVERY_DECISION_CREATED
            (''Recovery decision: ABORT '' @ em_dash @ '' '' @ rd_reason d)
            [(''decision'', PStr ''ABORT''), (''evidence'', str_list (rd_evidence d))],
          goto_step clock W_ABORTED])"

definition retry_decision :: "failure_analysis \<Rightarrow> agent_state \<Rightarrow> recovery_decision" where
  "retry_decision a st =
     (recovery_decision_of RV_RETRY)
       \<lparr>rd_workflow_id := ag_workflow_id st, rd_test_case_id := test_case_id_of st,
        rd_failure_type := Some (fa_failure_type a), rd_confidence := fl 0.9,
        rd_reason := ''Transient failure ('' @ failure_type_value (fa_failure_type a) @
          ''). Retrying ('' @ show_nat (ag_retry_count st + 1) @ '').'',
        rd_evidence := [''Failure type: '' @ failure_type_value (fa_failure_type a),
          ''Retry count: '' @ show_nat (ag_retry_count st)],
        rd_retry_count := ag_retry_count st,
        rd_requires_validation := False, rd_next_state := ''RETRYING''\<rparr>"

definition retry_actions :: "clock \<Rightarrow> failure_analysis \<Rightarrow> agent_state \<Rightarrow> action list" where
  "retry_actions clock a st0 =
     (let d = retry_decision a st0; n = ag_retry_count st0 + 1
      in [modify clock (\<lambda>st. st\<lparr>ag_recovery_decision := Some d, ag_retry_count := n\<rparr>),
          emit clock WE_RECOVERY_DECISION_CREATED
            (''Recovery decision: RETRY '' @ em_dash @ '' '' @ rd_reason d)
            [(''decision'', PStr ''RETRY''), (''retry_count'', PInt (int n)),
             (''evidence'', str_list (rd_evidence d))],
          goto_step clock W_RETRYING,
          emit clock WE_RETRY_INITIATED
            (''Retry #'' @ show_nat n @ '' initiated for transient failure ('' @
             failure_type_value (fa_failure_type a) @ '')'') [],
          goto_step clock W_EXECUTION_PENDING])"

definition no_heal_decision :: "failure_type_policy \<Rightarrow> failure_analysis \<Rightarrow> agent_state \<Rightarrow> recovery_decision" where
  "no_heal_decision p a st =
     (let name = failure_type_value (fa_failure_type a)
      in if fp_retryable p then
           (recovery_decision_of RV_REQUIRE_FURTHER_ANALYSIS)
             \<lparr>rd_workflow_id := ag_workflow_id st, rd_failure_type := Some (fa_failure_type a),
              rd_confidence := fl 0.7,
              rd_reason := ''Retries exhausted for '' @ name @ ''. Require further analysis.'',
              rd_evidence := [''Failure type: '' @ name, ''Retry count: '' @ show_nat (ag_retry_count st)],
              rd_requires_validation := False, rd_next_state := ''COMPLETED''\<rparr>
         else
           (recovery_decision_of RV_DO_NOT_HEAL)
             \<lparr>rd_workflow_id := ag_workflow_id st, rd_failure_type := Some (fa_failure_type a),
              rd_confidence := 1,
              rd_reason := ''Failure type '' @ name @ '' does not support automatic healing.'',
              rd_evidence := [''Failure type: '' @ name],
              rd_requires_validation := False, rd_next_state := ''COMPLETED''\<rparr>)"

definition no_heal_actions :: "clock \<Rightarrow> failure_type_policy \<Rightarrow> failure_analysis \<Rightarrow> agent_state \<Rightarrow> action list" where
  "no_heal_actions clock p a st0 =
     (let d = no_heal_decision p a st0; name = recovery_action_value (rd_decision d)
      in [modify clock (\<lambda>st. st\<lparr>ag_recovery_decision := Some d, ag_status := ''completed''\<rparr>),
          emit clock WE_RECOVERY_DECISION_CREATED
            (''Recovery decision: '' @ name @ '' '' @ em_dash @ '' '' @ rd_reason d)
            [(''decision'', PStr name), (''evidence'', str_list (rd_evidence d))],
          goto_step clock W_COMPLETED,
          emit clock WE_WORKFLOW_COMPLETED
            (''Healing not attempted '' @ em_dash @ '' type='' @
             failure_type_value (fa_failure_type a) @ '', decision='' @ name) []])"

section \<open>Failure flow: candidates and decision\<close>

definition candidate_actions :: "clock \<Rightarrow> healing_recommendation \<Rightarrow> action list" where
  "candidate_actions clock r =
     [modify clock (\<lambda>st. st\<lparr>ag_healing_candidates := rc_candidates r,
        ag_ranked_candidates := rc_candidates r\<rparr>),
      emit clock WE_CANDIDATES_GENERATED
        (''Generated '' @ show_nat (length (rc_candidates r)) @ '' candidates'')
        [(''candidate_count'', PInt (int (length (rc_candidates r))))],
      goto_step clock W_RANKING_CANDIDATES,
      emit clock WE_CANDIDATES_RANKED
        (''Candidates ranked '' @ em_dash @ '' top: '' @
         (case rc_candidates r of [] \<Rightarrow> ''none'' | c # _ \<Rightarrow> sc_selector c)) [],
      goto_step clock W_DECIDING_HEALING]"

definition decision_actions :: "clock \<Rightarrow> healing_recommendation \<Rightarrow> recovery_decision \<Rightarrow> action list" where
  "decision_actions clock r d =
     [modify clock (\<lambda>st. st\<lparr>ag_recovery_decision := Some d,
        ag_healing_decision := Some (rc_decision r), ag_healing_recommendation := Some r\<rparr>),
      emit clock WE_RECOVERY_DECISION_CREATED
        (''Recovery decision: '' @ recovery_action_value (rd_decision d) @ '' '' @ em_dash @ '' '' @
         rd_reason d)
        [(''decision'', PStr (recovery_action_value (rd_decision d))),
         (''confidence'', PFloat (rd_confidence d)),
         (''selected_candidate'', opt_str (map_option sc_selector (rd_selected_candidate d))),
         (''evidence'', str_list (rd_evidence d))],
      emit clock WE_HEALING_DECISION_CREATED
        (''Decision: '' @ healing_decision_value (rc_decision r) @ '', action: '' @
         healing_action_value (rc_recommended_action r))
        [(''decision'', PStr (healing_decision_value (rc_decision r))),
         (''action'', PStr (healing_action_value (rc_recommended_action r))),
         (''confidence'', PStr (confidence_level_value (rc_confidence r)))]]"

text \<open>
  Recording a proposal and sending it: the same steps after the first decision and after a
  failed attempt, but for the text of the event.
\<close>

definition propose_actions :: "clock \<Rightarrow> string \<Rightarrow> scored_candidate \<Rightarrow> agent_state \<Rightarrow> action list" where
  "propose_actions clock prefix_text c st0 =
     (let n = ag_healing_attempt_count st0 + 1
      in [modify clock (\<lambda>st. st\<lparr>ag_attempted_selectors := insert (sc_selector c) (ag_attempted_selectors st),
            ag_healing_attempt_count := n\<rparr>),
          \<lambda>st. Inr (st\<lparr>ag_healing_recommendation :=
            map_option (\<lambda>r. r\<lparr>rc_selected_candidate := Some c\<rparr>) (ag_healing_recommendation st)\<rparr>),
          goto_step clock W_HEALING_PENDING_VALIDATION,
          emit clock WE_HEALING_RECOMMENDATION_SENT
            (prefix_text @ quoted (sc_selector c) @ '' (attempt '' @ show_nat n @ '')'')
            [(''selector'', PStr (sc_selector c)), (''confidence'', PFloat (sc_confidence c)),
             (''attempt'', PInt (int n))]])"

definition route_actions :: "clock \<Rightarrow> recovery_decision \<Rightarrow> agent_state \<Rightarrow> action list" where
  "route_actions clock d st0 =
     (case rd_decision d of
        RV_TRY_HEALING \<Rightarrow>
          (case rd_selected_candidate d of
             Some c \<Rightarrow> propose_actions clock ''Recommendation sent to Member 2: '' c st0
           | None \<Rightarrow>
               [goto_step clock W_HEALING_FAILED,
                modify clock (\<lambda>st. st\<lparr>ag_status := ''completed''\<rparr>),
                goto_step clock W_COMPLETED])
      | RV_ABORT \<Rightarrow>
          [modify clock (\<lambda>st. st\<lparr>ag_status := ''aborted''\<rparr>),
           goto_step clock W_ABORTED,
           emit clock WE_WORKFLOW_ABORTED (''Workflow aborted '' @ em_dash @ '' '' @ rd_reason d) []]
      | RV_DO_NOT_HEAL \<Rightarrow>
          [modify clock (\<lambda>st. st\<lparr>ag_status := ''completed''\<rparr>),
           goto_step clock W_COMPLETED,
           emit clock WE_WORKFLOW_COMPLETED
             (''Healing not recommended '' @ em_dash @ '' DO_NOT_HEAL'') []]
      | _ \<Rightarrow>
          [modify clock (\<lambda>st. st\<lparr>ag_status := ''completed''\<rparr>),
           goto_step clock W_COMPLETED,
           emit clock WE_WORKFLOW_COMPLETED
             (''Workflow completed '' @ em_dash @ '' decision: '' @
              recovery_action_value (rd_decision d)) []])"

definition first_recovery_decision ::
  "orchestrator \<Rightarrow> mem_store \<Rightarrow> failure_analysis \<Rightarrow> healing_recommendation \<Rightarrow> agent_state \<Rightarrow>
     recovery_decision" where
  "first_recovery_decision oc m a r st =
     policy_evaluate (oc_policy oc) (retriever_of oc m) a (rc_candidates r)
       (ag_healing_attempt_count st) (ag_retry_count st) (ag_attempted_selectors st)
       (ag_workflow_id st) (test_case_id_of st)"

definition healing_flow :: "orchestrator \<Rightarrow> clock \<Rightarrow> mem_store \<Rightarrow> failure_analysis \<Rightarrow> action" where
  "healing_flow oc clock m a st =
     and_then (goto_step clock W_GENERATING_CANDIDATES st) (\<lambda>st1.
     and_then (get_current_elements clock st1) (\<lambda>(elements, readings).
       let ctx = \<lparr>hx_failure_analysis = a, hx_current_elements = elements,
             hx_page_url = Option.bind (ag_failure_context st1) fx_current_page_url,
             hx_page_title = Option.bind (ag_failure_context st1) fx_current_page_title\<rparr>;
           r = generate_recommendation m (oc_engine oc) ctx
       in and_then (run_actions (candidate_actions clock r) (st1\<lparr>ag_ticks := ag_ticks st1 + readings\<rparr>)) (\<lambda>st2.
            let d = first_recovery_decision oc m a r st2
            in and_then (run_actions (decision_actions clock r d) st2) (\<lambda>st3.
                 run_actions (route_actions clock d st3) st3))))"

text \<open>The feasibility check of step 2, before any candidate is generated.\<close>

definition retry_due :: "recovery_policy \<Rightarrow> failure_type_policy \<Rightarrow> agent_state \<Rightarrow> bool" where
  "retry_due rp p st \<longleftrightarrow>
     fp_retryable p \<and> pc_allow_retry (rp_config rp) \<and>
     ag_retry_count st < min (fp_max_retries p) (pc_max_retries (rp_config rp))"

definition after_analysis :: "orchestrator \<Rightarrow> clock \<Rightarrow> mem_store \<Rightarrow> failure_analysis \<Rightarrow> action" where
  "after_analysis oc clock m a st =
     (let p = get_failure_policy (oc_policy oc) (fa_failure_type a)
      in if og_max_healing_attempts (oc_config oc) \<le> ag_healing_attempt_count st then
           run_actions (limit_actions oc clock a st) st
         else if retry_due (oc_policy oc) p st then run_actions (retry_actions clock a st) st
         else if \<not> fp_healable p then run_actions (no_heal_actions clock p a st) st
         else healing_flow oc clock m a st)"

definition run_failure_flow :: "orchestrator \<Rightarrow> clock \<Rightarrow> mem_store \<Rightarrow> action" where
  "run_failure_flow oc clock m st =
     and_then (goto_step clock W_ANALYZING_FAILURE st) (\<lambda>st1.
       case ag_failure_context st1 of
         None \<Rightarrow> run_actions (no_context_actions clock) st1
       | Some f \<Rightarrow>
           let a = analyze m (oc_analyzer_client oc) f
           in and_then (run_actions (analysis_actions clock a) st1) (after_analysis oc clock m a))"

section \<open>After a failed attempt\<close>

definition continuation_actions :: "clock \<Rightarrow> recovery_decision \<Rightarrow> action list" where
  "continuation_actions clock d =
     [modify clock (\<lambda>st. st\<lparr>ag_recovery_decision := Some d\<rparr>),
      emit clock WE_RECOVERY_DECISION_CREATED
        (''Continuation decision: '' @ recovery_action_value (rd_decision d) @ '' '' @ em_dash @ '' '' @
         rd_reason d)
        [(''decision'', PStr (recovery_action_value (rd_decision d))),
         (''evidence'', str_list (rd_evidence d))]]"

definition continuation_route :: "clock \<Rightarrow> recovery_decision \<Rightarrow> agent_state \<Rightarrow> action list" where
  "continuation_route clock d st0 =
     (if rd_decision d = RV_TRY_HEALING then
        (case rd_selected_candidate d of
           Some c \<Rightarrow> propose_actions clock ''Retry: recommendation sent to Member 2: '' c st0
         | None \<Rightarrow>
             [modify clock (\<lambda>st. st\<lparr>ag_status := ''completed''\<rparr>),
              goto_step clock W_HEALING_FAILED,
              goto_step clock W_COMPLETED])
      else
        [modify clock (\<lambda>st. st\<lparr>ag_status := ''completed''\<rparr>),
         goto_step clock W_HEALING_FAILED,
         goto_step clock W_COMPLETED,
         emit clock WE_WORKFLOW_COMPLETED (''Healing stopped '' @ em_dash @ '' '' @ rd_reason d) []])"

definition continuation_decision :: "orchestrator \<Rightarrow> mem_store \<Rightarrow> agent_state \<Rightarrow> recovery_decision" where
  "continuation_decision oc m st =
     evaluate_continuation (oc_policy oc) (retriever_of oc m) (ag_failure_analysis st)
       (ag_ranked_candidates st) (ag_healing_attempt_count st) (ag_attempted_selectors st)
       (ag_workflow_id st) (test_case_id_of st)"

definition try_next_candidate :: "orchestrator \<Rightarrow> clock \<Rightarrow> mem_store \<Rightarrow> action" where
  "try_next_candidate oc clock m st =
     (let d = continuation_decision oc m st
      in and_then (run_actions (continuation_actions clock d) st) (\<lambda>st1.
           run_actions (continuation_route clock d st1) st1))"

section \<open>Public methods\<close>

definition register :: "agent_state \<Rightarrow> world \<Rightarrow> world" where
  "register st w = w\<lparr>wo_workflows := (wo_workflows w)(ag_workflow_id st \<mapsto> st)\<rparr>"

definition commit :: "world \<Rightarrow> workflow_error + agent_state \<Rightarrow> world \<times> (workflow_error + agent_state)" where
  "commit w r = (case r of Inl e \<Rightarrow> (w, Inl e) | Inr st \<Rightarrow> (register st w, Inr st))"

definition planned_actions :: "clock \<Rightarrow> test_plan \<Rightarrow> action list" where
  "planned_actions clock p =
     [modify clock (\<lambda>st. st\<lparr>ag_test_plan := Some p\<rparr>),
      emit clock WE_TEST_PLAN_GENERATED
        (''Test plan generated with '' @ show_nat (length (tp_test_cases p)) @ '' test cases'')
        [(''test_case_count'', PInt (int (length (tp_test_cases p))))],
      goto_step clock W_EXECUTION_PENDING]"

definition planning_failed_actions :: "clock \<Rightarrow> string \<Rightarrow> action list" where
  "planning_failed_actions clock err =
     [modify clock (\<lambda>st. st\<lparr>ag_error_info := Some (''Planning failed: '' @ err),
        ag_status := ''aborted''\<rparr>),
      goto_step clock W_ABORTED,
      emit clock WE_WORKFLOW_ABORTED (''Planning failed: '' @ err) []]"

definition start_planning ::
  "orchestrator \<Rightarrow> clock \<Rightarrow> string \<Rightarrow> world \<Rightarrow> application_context \<Rightarrow>
     world \<times> (workflow_error + agent_state)" where
  "start_planning oc clock wid w ctx =
     (case oc_planner oc of
        None \<Rightarrow> (w, Inl No_Planner)
      | Some generate_test_plan \<Rightarrow>
          let st = add_event clock WE_WORKFLOW_STARTED
                (''Workflow started for app '' @ quoted (ac_app_name ctx))
                [(''app_name'', PStr (ac_app_name ctx)), (''app_url'', PStr (ac_app_url ctx))]
                (new_state clock wid W_PLANNING (og_max_healing_attempts (oc_config oc)))
          in commit w (case generate_test_plan ctx 10 of
               Inr p \<Rightarrow> run_actions (planned_actions clock p) st
             | Inl err \<Rightarrow> run_actions (planning_failed_actions clock err) st))"

definition execution_received :: "clock \<Rightarrow> execution_result \<Rightarrow> action list" where
  "execution_received clock r =
     [modify clock (\<lambda>st. st\<lparr>ag_execution_result := Some r\<rparr>),
      emit clock WE_EXECUTION_RESULT_RECEIVED
        (''Execution result: '' @ execution_result_status_value (xr_status r))
        [(''test_case_id'', PStr (xr_test_case_id r)),
         (''status'', PStr (execution_result_status_value (xr_status r)))]]"

definition success_actions :: "clock \<Rightarrow> action list" where
  "success_actions clock =
     [goto_step clock W_EXECUTION_SUCCESS,
      modify clock (\<lambda>st. st\<lparr>ag_status := ''completed''\<rparr>),
      goto_step clock W_COMPLETED,
      emit clock WE_WORKFLOW_COMPLETED
        (''Test execution succeeded '' @ em_dash @ '' no healing needed'') []]"

definition submit_execution_result ::
  "orchestrator \<Rightarrow> clock \<Rightarrow> world \<Rightarrow> agent_state \<Rightarrow> execution_result \<Rightarrow>
     world \<times> (workflow_error + agent_state)" where
  "submit_execution_result oc clock w st r =
     (if ag_current_step st \<noteq> W_EXECUTION_PENDING then
        (w, Inl (Wrong_Step (ag_current_step st) W_EXECUTION_PENDING))
      else if xr_workflow_id r \<noteq> ag_workflow_id st then
        (w, Inl (Id_Mismatch (xr_workflow_id r) (ag_workflow_id st)))
      else commit w
        (and_then (run_actions (execution_received clock r) st) (\<lambda>st1.
           if xr_status r = XS_SUCCESS then run_actions (success_actions clock) st1
           else
             and_then (run_actions
               [modify clock (\<lambda>st. st\<lparr>ag_failure_context := xr_failure_context r\<rparr>),
                goto_step clock W_FAILURE_DETECTED] st1) (run_failure_flow oc clock (wo_memory w)))))"

definition feedback_to_healing_result :: "healing_feedback \<Rightarrow> healing_result" where
  "feedback_to_healing_result f =
     \<lparr>ht_test_id = fb_test_case_id f, ht_failed_step = 1, ht_old_selector = fb_original_selector f,
      ht_new_selector = fb_attempted_selector f, ht_status = fb_healing_status f,
      ht_confidence = fb_confidence f, ht_validated_by = ''execution_engine'',
      ht_validation_error = fb_error_reason f\<rparr>"

definition healed_actions :: "clock \<Rightarrow> healing_feedback \<Rightarrow> action list" where
  "healed_actions clock f =
     [modify clock (\<lambda>st. st\<lparr>ag_healing_result := Some (feedback_to_healing_result f),
        ag_status := ''completed''\<rparr>),
      goto_step clock W_HEALING_SUCCEEDED,
      goto_step clock W_COMPLETED,
      emit clock WE_WORKFLOW_COMPLETED
        (''Healing succeeded '' @ em_dash @ '' selector '' @ quoted (fb_attempted_selector f) @
         '' validated'') []]"

definition attempt_failed_actions :: "clock \<Rightarrow> healing_feedback \<Rightarrow> action list" where
  "attempt_failed_actions clock f =
     [modify clock (\<lambda>st. st\<lparr>ag_healing_result := Some (feedback_to_healing_result f)\<rparr>),
      \<lambda>st. Inr (st\<lparr>ag_attempted_selectors :=
        insert (fb_attempted_selector f) (ag_attempted_selectors st)\<rparr>)]"

definition inconclusive_actions :: "clock \<Rightarrow> healing_feedback \<Rightarrow> action list" where
  "inconclusive_actions clock f =
     [modify clock (\<lambda>st. st\<lparr>ag_healing_result := Some (feedback_to_healing_result f),
        ag_error_info := Some (''Healing validation was '' @
          validation_status_value (fb_validation_status f)),
        ag_status := ''completed''\<rparr>),
      goto_step clock W_HEALING_FAILED,
      goto_step clock W_COMPLETED]"

definition healing_received :: "clock \<Rightarrow> healing_feedback \<Rightarrow> agent_state \<Rightarrow> agent_state" where
  "healing_received clock f =
     add_event clock WE_HEALING_RESULT_RECEIVED
       (''Healing result: '' @ validation_status_value (fb_validation_status f) @ '' for selector '' @
        quoted (fb_attempted_selector f))
       [(''attempted_selector'', PStr (fb_attempted_selector f)),
        (''validation_status'', PStr (validation_status_value (fb_validation_status f))),
        (''healing_status'', PStr (healing_status_value (fb_healing_status f))),
        (''attempt'', PInt (fb_execution_attempt f))]"

definition history_updated :: "clock \<Rightarrow> agent_state \<Rightarrow> agent_state" where
  "history_updated clock =
     add_event clock WE_HEALING_HISTORY_UPDATED ''Healing history updated in memory'' []"

definition route_feedback :: "orchestrator \<Rightarrow> clock \<Rightarrow> mem_store \<Rightarrow> healing_feedback \<Rightarrow> action" where
  "route_feedback oc clock m f st =
     (if fb_validation_status f = VS_SUCCESS then run_actions (healed_actions clock f) st
      else if fb_validation_status f = VS_FAILURE then
        and_then (run_actions (attempt_failed_actions clock f) st) (try_next_candidate oc clock m)
      else run_actions (inconclusive_actions clock f) st)"

definition submit_healing_result ::
  "orchestrator \<Rightarrow> clock \<Rightarrow> world \<Rightarrow> agent_state \<Rightarrow> healing_feedback \<Rightarrow>
     world \<times> (workflow_error + agent_state)" where
  "submit_healing_result oc clock w st f =
     (if ag_current_step st \<noteq> W_HEALING_PENDING_VALIDATION then
        (w, Inl (Wrong_Step (ag_current_step st) W_HEALING_PENDING_VALIDATION))
      else
        (case process_feedback f (wo_memory w) of
           Inl e \<Rightarrow> (w, Inl (Feedback_Rejected e))
         | Inr (_, m) \<Rightarrow>
             commit (w\<lparr>wo_memory := m\<rparr>)
               (route_feedback oc clock m f (history_updated clock (healing_received clock f st)))))"

definition record_healing_feedback :: "world \<Rightarrow> healing_feedback \<Rightarrow> world \<times> (workflow_error + unit)" where
  "record_healing_feedback w f =
     (case process_feedback f (wo_memory w) of
        Inl e \<Rightarrow> (w, Inl (Feedback_Rejected e))
      | Inr (_, m) \<Rightarrow> (w\<lparr>wo_memory := m\<rparr>, Inr ()))"

definition get_state :: "world \<Rightarrow> string \<Rightarrow> agent_state option" where
  "get_state w wid = wo_workflows w wid"

text \<open>The legacy check, kept by the code for compatibility.\<close>

definition should_attempt_healing :: "failure_analysis \<Rightarrow> bool" where
  "should_attempt_healing a =
     (if fa_failure_type a \<in> {FT_ASSERTION_FAILURE, FT_NETWORK_ERROR, FT_APPLICATION_ERROR} then False
      else if fa_failure_type a = FT_UNKNOWN \<and> fa_confidence a = CL_LOW then False
      else True)"

section \<open>A workflow the platform opens itself\<close>

text \<open>
  \<^verbatim>\<open>backend/orchestration/orchestrator.py\<close>, \<open>execute_test\<close>: a run of a stored test case
  enters the state machine at EXECUTION_PENDING, without a planning phase.
\<close>

definition platform_state ::
  "orchestrator \<Rightarrow> clock \<Rightarrow> int \<Rightarrow> string \<Rightarrow> string \<Rightarrow> string \<Rightarrow> nat \<Rightarrow> agent_state" where
  "platform_state oc clock execution_id app_name app_url test_id step_count =
     add_event clock WE_STATE_TRANSITION
       (''Executing test plan with '' @ show_nat step_count @ '' step(s) on browser engine'')
       [(''test_case_id'', PStr test_id), (''step_count'', PInt (int step_count))]
       (add_event clock WE_WORKFLOW_STARTED
         (''Autonomous QA workflow initiated for application '' @ quoted app_name)
         [(''app_name'', PStr app_name), (''app_url'', PStr app_url),
          (''execution_id'', PInt execution_id)]
         (new_state clock (''wf-exec-'' @ show_int execution_id) W_EXECUTION_PENDING
           (og_max_healing_attempts (oc_config oc))))"

end
