(* ===== verification/Workflow_Actions.thy ===== *)
theory Workflow_Actions
  imports Agent_Orchestrator
begin

text \<open>
  What each group of workflow actions does to the control part of the state: the step, the
  status, the counters, the attempted selectors and the proposals in the event log. Every
  lemma also says that the group runs to its end, so no transition in it is refused.
\<close>

named_theorems act_simps \<open>evaluation of workflow actions on the control part of the state\<close>

section \<open>Proposals in the event log\<close>

fun sent_event :: "workflow_event \<Rightarrow> string list" where
  "sent_event e =
     (if we_event_type e = WE_HEALING_RECOMMENDATION_SENT
      then (case dict_get (we_metadata e) ''selector'' of PStr s \<Rightarrow> [s] | _ \<Rightarrow> [])
      else [])"

definition sent_of :: "workflow_event list \<Rightarrow> string list" where
  "sent_of es = concat (map sent_event es)"

definition sent_selectors :: "agent_state \<Rightarrow> string list" where
  "sent_selectors st = sent_of (ag_events st)"

lemma sent_of_append [simp]: "sent_of (es @ es') = sent_of es @ sent_of es'"
  by (simp add: sent_of_def)

lemma sent_of_Nil [simp]: "sent_of [] = []"
  by (simp add: sent_of_def)

section \<open>Projections\<close>

lemma touch_simps [simp]:
  "ag_workflow_id (touch clock st) = ag_workflow_id st"
  "ag_current_test_case (touch clock st) = ag_current_test_case st"
  "ag_failure_context (touch clock st) = ag_failure_context st"
  "ag_failure_analysis (touch clock st) = ag_failure_analysis st"
  "ag_ranked_candidates (touch clock st) = ag_ranked_candidates st"
  "ag_healing_recommendation (touch clock st) = ag_healing_recommendation st"
  "ag_current_step (touch clock st) = ag_current_step st"
  "ag_status (touch clock st) = ag_status st"
  "ag_attempted_selectors (touch clock st) = ag_attempted_selectors st"
  "ag_healing_attempt_count (touch clock st) = ag_healing_attempt_count st"
  "ag_retry_count (touch clock st) = ag_retry_count st"
  "ag_recovery_decision (touch clock st) = ag_recovery_decision st"
  "ag_healing_result (touch clock st) = ag_healing_result st"
  "ag_events (touch clock st) = ag_events st"
  by (simp_all add: touch_def)

lemma add_event_simps [simp]:
  "ag_workflow_id (add_event clock t m md st) = ag_workflow_id st"
  "ag_current_test_case (add_event clock t m md st) = ag_current_test_case st"
  "ag_failure_context (add_event clock t m md st) = ag_failure_context st"
  "ag_failure_analysis (add_event clock t m md st) = ag_failure_analysis st"
  "ag_ranked_candidates (add_event clock t m md st) = ag_ranked_candidates st"
  "ag_healing_recommendation (add_event clock t m md st) = ag_healing_recommendation st"
  "ag_current_step (add_event clock t m md st) = ag_current_step st"
  "ag_status (add_event clock t m md st) = ag_status st"
  "ag_attempted_selectors (add_event clock t m md st) = ag_attempted_selectors st"
  "ag_healing_attempt_count (add_event clock t m md st) = ag_healing_attempt_count st"
  "ag_retry_count (add_event clock t m md st) = ag_retry_count st"
  "ag_recovery_decision (add_event clock t m md st) = ag_recovery_decision st"
  "ag_healing_result (add_event clock t m md st) = ag_healing_result st"
  by (simp_all add: add_event_def)

lemma sent_add_event [simp]:
  "sent_of (ag_events (add_event clock t m md st)) = sent_of (ag_events st) @
     (if t = WE_HEALING_RECOMMENDATION_SENT
      then (case dict_get md ''selector'' of PStr s \<Rightarrow> [s] | _ \<Rightarrow> []) else [])"
  by (simp add: add_event_def sent_of_def)

section \<open>Single actions\<close>

lemma modify_run [act_simps]: "modify clock f st = Inr (touch clock (f st))"
  by (simp add: modify_def)

lemma emit_run [act_simps]: "emit clock t m md st = Inr (add_event clock t m md st)"
  by (simp add: emit_def)

lemma goto_run [act_simps]:
  "target \<in> set (valid_transitions (ag_current_step st)) \<Longrightarrow>
     goto_step clock target st = Inr (touch clock (st\<lparr>ag_current_step := target\<rparr>))"
  by (simp add: goto_step_def)

lemma and_then_simps [simp]:
  "and_then (Inl e) f = Inl e" "and_then (Inr x) f = f x"
  by (simp_all add: and_then_def)

lemma and_then_Inr: "and_then r f = Inr y \<longleftrightarrow> (\<exists>x. r = Inr x \<and> f x = Inr y)"
  by (cases r) auto

lemma and_then_Inl: "and_then r f = Inl e \<longleftrightarrow> r = Inl e \<or> (\<exists>x. r = Inr x \<and> f x = Inl e)"
  by (cases r) auto

text \<open>The part of the state that an action group leaves alone.\<close>

definition same_control :: "agent_state \<Rightarrow> agent_state \<Rightarrow> bool" where
  "same_control st st' \<longleftrightarrow>
     ag_workflow_id st' = ag_workflow_id st \<and>
     ag_current_test_case st' = ag_current_test_case st \<and>
     ag_attempted_selectors st' = ag_attempted_selectors st \<and>
     ag_healing_attempt_count st' = ag_healing_attempt_count st \<and>
     ag_retry_count st' = ag_retry_count st \<and>
     sent_selectors st' = sent_selectors st"

section \<open>Groups that end the workflow\<close>

lemma no_context_run:
  "ag_current_step st = W_ANALYZING_FAILURE \<Longrightarrow>
     \<exists>st'. run_actions (no_context_actions clock) st = Inr st' \<and> same_control st st' \<and>
       ag_current_step st' = W_ABORTED \<and> ag_status st' = ''aborted''"
  by (simp add: no_context_actions_def act_simps same_control_def sent_selectors_def)

lemma limit_run:
  "ag_current_step st = W_ANALYZING_FAILURE \<Longrightarrow>
     \<exists>st'. run_actions (limit_actions oc clock a st0) st = Inr st' \<and> same_control st st' \<and>
       ag_current_step st' = W_ABORTED \<and> ag_status st' = ''aborted''"
  by (simp add: limit_actions_def Let_def act_simps same_control_def sent_selectors_def)

lemma no_heal_run:
  "ag_current_step st = W_ANALYZING_FAILURE \<Longrightarrow>
     \<exists>st'. run_actions (no_heal_actions clock p a st0) st = Inr st' \<and> same_control st st' \<and>
       ag_current_step st' = W_COMPLETED \<and> ag_status st' = ''completed''"
  by (simp add: no_heal_actions_def Let_def act_simps same_control_def sent_selectors_def)

lemma success_run:
  "ag_current_step st = W_EXECUTION_PENDING \<Longrightarrow>
     \<exists>st'. run_actions (success_actions clock) st = Inr st' \<and> same_control st st' \<and>
       ag_current_step st' = W_COMPLETED \<and> ag_status st' = ''completed''"
  by (simp add: success_actions_def act_simps same_control_def sent_selectors_def)

lemma healed_run:
  "ag_current_step st = W_HEALING_PENDING_VALIDATION \<Longrightarrow>
     \<exists>st'. run_actions (healed_actions clock f) st = Inr st' \<and> same_control st st' \<and>
       ag_current_step st' = W_COMPLETED \<and> ag_status st' = ''completed'' \<and>
       ag_healing_result st' = Some (feedback_to_healing_result f)"
  by (simp add: healed_actions_def act_simps same_control_def sent_selectors_def)

lemma inconclusive_run:
  "ag_current_step st = W_HEALING_PENDING_VALIDATION \<Longrightarrow>
     \<exists>st'. run_actions (inconclusive_actions clock f) st = Inr st' \<and> same_control st st' \<and>
       ag_current_step st' = W_COMPLETED \<and> ag_status st' = ''completed'' \<and>
       ag_healing_result st' = Some (feedback_to_healing_result f)"
  by (simp add: inconclusive_actions_def act_simps same_control_def sent_selectors_def)

section \<open>Groups that go on\<close>

lemma received_run:
  "\<exists>st'. run_actions (execution_received clock r) st = Inr st' \<and> same_control st st' \<and>
     ag_current_step st' = ag_current_step st \<and> ag_status st' = ag_status st \<and>
     ag_failure_context st' = ag_failure_context st"
  by (simp add: execution_received_def act_simps same_control_def sent_selectors_def)

lemma analysis_run:
  "\<exists>st'. run_actions (analysis_actions clock a) st = Inr st' \<and> same_control st st' \<and>
     ag_current_step st' = ag_current_step st \<and> ag_status st' = ag_status st \<and>
     ag_failure_context st' = ag_failure_context st \<and> ag_failure_analysis st' = Some a"
  by (simp add: analysis_actions_def act_simps same_control_def sent_selectors_def)

lemma retry_run:
  "ag_current_step st = W_ANALYZING_FAILURE \<Longrightarrow>
     \<exists>st'. run_actions (retry_actions clock a st) st = Inr st' \<and>
       ag_workflow_id st' = ag_workflow_id st \<and>
       ag_current_test_case st' = ag_current_test_case st \<and>
       ag_attempted_selectors st' = ag_attempted_selectors st \<and>
       ag_healing_attempt_count st' = ag_healing_attempt_count st \<and>
       sent_selectors st' = sent_selectors st \<and> ag_retry_count st' = Suc (ag_retry_count st) \<and>
       ag_current_step st' = W_EXECUTION_PENDING \<and> ag_status st' = ag_status st \<and>
       map_option rd_decision (ag_recovery_decision st') = Some RV_RETRY"
  by (simp add: retry_actions_def retry_decision_def recovery_decision_of_def Let_def act_simps sent_selectors_def)

lemma candidate_run:
  "ag_current_step st = W_GENERATING_CANDIDATES \<Longrightarrow>
     \<exists>st'. run_actions (candidate_actions clock r) st = Inr st' \<and> same_control st st' \<and>
       ag_current_step st' = W_DECIDING_HEALING \<and> ag_status st' = ag_status st \<and>
       ag_ranked_candidates st' = rc_candidates r \<and>
       ag_failure_analysis st' = ag_failure_analysis st"
  by (simp add: candidate_actions_def act_simps same_control_def sent_selectors_def)

lemma decision_run:
  "\<exists>st'. run_actions (decision_actions clock r d) st = Inr st' \<and> same_control st st' \<and>
     ag_current_step st' = ag_current_step st \<and> ag_status st' = ag_status st \<and>
     ag_ranked_candidates st' = ag_ranked_candidates st \<and>
     ag_failure_analysis st' = ag_failure_analysis st \<and>
     ag_recovery_decision st' = Some d \<and> ag_healing_recommendation st' = Some r"
  by (simp add: decision_actions_def act_simps same_control_def sent_selectors_def)

lemma continuation_run:
  "\<exists>st'. run_actions (continuation_actions clock d) st = Inr st' \<and> same_control st st' \<and>
     ag_current_step st' = ag_current_step st \<and> ag_status st' = ag_status st \<and>
     ag_ranked_candidates st' = ag_ranked_candidates st \<and>
     ag_failure_analysis st' = ag_failure_analysis st \<and>
     ag_healing_recommendation st' = ag_healing_recommendation st \<and>
     ag_recovery_decision st' = Some d"
  by (simp add: continuation_actions_def act_simps same_control_def sent_selectors_def)

lemma propose_run:
  assumes "W_HEALING_PENDING_VALIDATION \<in> set (valid_transitions (ag_current_step st))"
  shows "\<exists>st'. run_actions (propose_actions clock p c st) st = Inr st' \<and>
     ag_workflow_id st' = ag_workflow_id st \<and>
     ag_current_test_case st' = ag_current_test_case st \<and>
     ag_retry_count st' = ag_retry_count st \<and> ag_status st' = ag_status st \<and>
     ag_healing_attempt_count st' = Suc (ag_healing_attempt_count st) \<and>
     ag_attempted_selectors st' = insert (sc_selector c) (ag_attempted_selectors st) \<and>
     sent_selectors st' = sent_selectors st @ [sc_selector c] \<and>
     ag_current_step st' = W_HEALING_PENDING_VALIDATION \<and>
     ag_recovery_decision st' = ag_recovery_decision st \<and>
     ag_ranked_candidates st' = ag_ranked_candidates st \<and>
     ag_healing_recommendation st' =
       map_option (\<lambda>r. r\<lparr>rc_selected_candidate := Some c\<rparr>) (ag_healing_recommendation st)"
  using assms
  by (simp add: propose_actions_def Let_def act_simps sent_selectors_def dict_get_def)

lemma attempt_failed_run:
  "\<exists>st'. run_actions (attempt_failed_actions clock f) st = Inr st' \<and>
     ag_workflow_id st' = ag_workflow_id st \<and>
     ag_current_test_case st' = ag_current_test_case st \<and>
     ag_retry_count st' = ag_retry_count st \<and> ag_status st' = ag_status st \<and>
     ag_healing_attempt_count st' = ag_healing_attempt_count st \<and>
     ag_attempted_selectors st' = insert (fb_attempted_selector f) (ag_attempted_selectors st) \<and>
     sent_selectors st' = sent_selectors st \<and> ag_current_step st' = ag_current_step st \<and>
     ag_ranked_candidates st' = ag_ranked_candidates st \<and>
     ag_failure_analysis st' = ag_failure_analysis st \<and>
     ag_healing_recommendation st' = ag_healing_recommendation st"
  by (simp add: attempt_failed_actions_def act_simps sent_selectors_def)

end
