(* ===== verification/Workflow_Invariants.thy ===== *)
theory Workflow_Invariants
  imports Workflow_Actions
begin

text \<open>
  Reachable workflow states. Every accepted submission has one of three effects: it stops the
  workflow, schedules a retry, or proposes a new selector (\<open>stopped\<close>, \<open>retried\<close>, \<open>proposed\<close>).
  From that follow the invariant \<open>workflow_ok\<close> and the bound on the number of
  submissions, for any world (memory) each submission runs in.
\<close>

section \<open>Effects\<close>

definition attempt_limit :: "orchestrator \<Rightarrow> nat" where
  "attempt_limit oc = pc_max_healing_attempts (rp_config (oc_policy oc))"

definition retry_limit :: "orchestrator \<Rightarrow> nat" where
  "retry_limit oc = pc_max_retries (rp_config (oc_policy oc))"

definition stopped :: "agent_state \<Rightarrow> agent_state \<Rightarrow> bool" where
  "stopped st st' \<longleftrightarrow>
     ag_healing_attempt_count st' = ag_healing_attempt_count st \<and>
     ag_retry_count st' = ag_retry_count st \<and>
     sent_selectors st' = sent_selectors st \<and>
     ag_attempted_selectors st \<subseteq> ag_attempted_selectors st' \<and>
     (ag_current_step st' = W_COMPLETED \<and> ag_status st' = ''completed'' \<or>
      ag_current_step st' = W_ABORTED \<and> ag_status st' = ''aborted'')"

definition retried :: "orchestrator \<Rightarrow> agent_state \<Rightarrow> agent_state \<Rightarrow> bool" where
  "retried oc st st' \<longleftrightarrow>
     ag_healing_attempt_count st' = ag_healing_attempt_count st \<and>
     ag_retry_count st < retry_limit oc \<and>
     ag_retry_count st' = Suc (ag_retry_count st) \<and>
     sent_selectors st' = sent_selectors st \<and>
     ag_attempted_selectors st \<subseteq> ag_attempted_selectors st' \<and>
     ag_current_step st' = W_EXECUTION_PENDING \<and> ag_status st' = ag_status st \<and>
     map_option rd_decision (ag_recovery_decision st') = Some RV_RETRY"

text \<open>The candidate a pending validation is about, consistently in every field that names it.\<close>

definition pending_on :: "agent_state \<Rightarrow> scored_candidate \<Rightarrow> bool" where
  "pending_on st c \<longleftrightarrow>
     c \<in> set (ag_ranked_candidates st) \<and>
     (\<exists>r. ag_healing_recommendation st = Some r \<and> rc_selected_candidate r = Some c) \<and>
     (\<exists>d. ag_recovery_decision st = Some d \<and> rd_decision d = RV_TRY_HEALING \<and>
        rd_selected_candidate d = Some c) \<and>
     (\<exists>ss. sent_selectors st = ss @ [sc_selector c])"

definition proposes_with :: "orchestrator \<Rightarrow> agent_state \<Rightarrow> agent_state \<Rightarrow> scored_candidate \<Rightarrow> bool" where
  "proposes_with oc st st' c \<longleftrightarrow>
     ag_healing_attempt_count st < attempt_limit oc \<and>
     sc_selector c \<notin> ag_attempted_selectors st \<and>
     ag_healing_attempt_count st' = Suc (ag_healing_attempt_count st) \<and>
     ag_retry_count st' = ag_retry_count st \<and>
     sent_selectors st' = sent_selectors st @ [sc_selector c] \<and>
     insert (sc_selector c) (ag_attempted_selectors st) \<subseteq> ag_attempted_selectors st' \<and>
     ag_current_step st' = W_HEALING_PENDING_VALIDATION \<and> ag_status st' = ag_status st \<and>
     pending_on st' c"

definition proposed :: "orchestrator \<Rightarrow> agent_state \<Rightarrow> agent_state \<Rightarrow> bool" where
  "proposed oc st st' \<longleftrightarrow> (\<exists>c. proposes_with oc st st' c)"

lemma stopped_same:
  "same_control st st1 \<Longrightarrow> stopped st1 st' \<longleftrightarrow> stopped st st'"
  by (simp add: same_control_def stopped_def)

lemma proposed_same:
  "same_control st st1 \<Longrightarrow> ag_status st1 = ag_status st \<Longrightarrow> proposed oc st1 st' \<longleftrightarrow> proposed oc st st'"
  by (simp add: same_control_def proposed_def proposes_with_def)

lemma same_control_trans: "same_control a b \<Longrightarrow> same_control b c \<Longrightarrow> same_control a c"
  by (simp add: same_control_def)

lemma same_control_stopped:
  "same_control st st' \<Longrightarrow> ag_current_step st' = W_COMPLETED \<Longrightarrow> ag_status st' = ''completed'' \<Longrightarrow>
     stopped st st'"
  "same_control st st' \<Longrightarrow> ag_current_step st' = W_ABORTED \<Longrightarrow> ag_status st' = ''aborted'' \<Longrightarrow>
     stopped st st'"
  by (simp_all add: same_control_def stopped_def)

section \<open>Proposing a candidate\<close>

lemma propose_effect:
  assumes "W_HEALING_PENDING_VALIDATION \<in> set (valid_transitions (ag_current_step st))"
    and "ag_healing_attempt_count st < attempt_limit oc"
    and "sc_selector c \<notin> ag_attempted_selectors st"
    and "c \<in> set (ag_ranked_candidates st)"
    and "ag_recovery_decision st = Some d" "rd_decision d = RV_TRY_HEALING"
    and "rd_selected_candidate d = Some c" "ag_healing_recommendation st = Some r"
  shows "\<exists>st'. run_actions (propose_actions clock p c st) st = Inr st' \<and> proposed oc st st'"
  using propose_run[OF assms(1), of clock p c] assms(2-)
  by (fastforce simp: proposed_def proposes_with_def pending_on_def)

lemma route_effect:
  assumes "ag_current_step st = W_DECIDING_HEALING"
    and "ag_recovery_decision st = Some d" "ag_healing_recommendation st = Some r"
    and "rd_decision d = RV_TRY_HEALING \<Longrightarrow> ag_healing_attempt_count st < attempt_limit oc \<and>
      (\<exists>c \<in> set (ag_ranked_candidates st). rd_selected_candidate d = Some c \<and>
        sc_selector c \<notin> ag_attempted_selectors st)"
  shows "\<exists>st'. run_actions (route_actions clock d st) st = Inr st' \<and>
    (stopped st st' \<or> proposed oc st st')"
proof (cases "rd_decision d = RV_TRY_HEALING")
  case True
  then obtain c where c: "c \<in> set (ag_ranked_candidates st)" "rd_selected_candidate d = Some c"
    "sc_selector c \<notin> ag_attempted_selectors st" "ag_healing_attempt_count st < attempt_limit oc"
    using assms(4) by blast
  then have "\<exists>st'. run_actions (propose_actions clock ''Recommendation sent to Member 2: '' c st) st
      = Inr st' \<and> proposed oc st st'"
    using assms True by (intro propose_effect) auto
  then show ?thesis using True c by (auto simp: route_actions_def)
next
  case False
  then show ?thesis using assms(1)
    by (cases "rd_decision d")
      (simp_all add: route_actions_def act_simps stopped_def sent_selectors_def)
qed

section \<open>The failure flow\<close>

text \<open>
  The flow fails only on a failure context whose page evidence holds, under \<open>elements\<close>, a
  value that cannot be iterated.
\<close>

definition page_readable :: "failure_context option \<Rightarrow> bool" where
  "page_readable ctx =
     (case Option.bind ctx fx_dom_evidence of
        None \<Rightarrow> True
      | Some d \<Rightarrow> iterate_pyval (dict_get d ''elements'') \<noteq> None)"

lemma get_current_elements_Inl:
  "get_current_elements clock st = Inl e \<Longrightarrow> e = Not_Iterable \<and> \<not> page_readable (ag_failure_context st)"
  by (auto simp: get_current_elements_def page_readable_def Let_def dict_get_def iterate_pyval_def
      split: option.splits)

lemma get_current_elements_Inr:
  "get_current_elements clock st = Inr er \<Longrightarrow> page_readable (ag_failure_context st)"
  by (auto simp: get_current_elements_def page_readable_def Let_def split: option.splits)

text \<open>
  What follows an analysed failure: within the limit on healing attempts a retry, when the policy of the
  failure's type has one left, else healing, when the type is healable.
\<close>

definition policy_of :: "orchestrator \<Rightarrow> failure_analysis \<Rightarrow> failure_type_policy" where
  "policy_of oc a = get_failure_policy (oc_policy oc) (fa_failure_type a)"

definition retries_after :: "orchestrator \<Rightarrow> agent_state \<Rightarrow> failure_analysis \<Rightarrow> bool" where
  "retries_after oc st a \<longleftrightarrow>
     ag_healing_attempt_count st < og_max_healing_attempts (oc_config oc) \<and> retry_due (oc_policy oc) (policy_of oc a) st"

definition heals_after :: "orchestrator \<Rightarrow> agent_state \<Rightarrow> failure_analysis \<Rightarrow> bool" where
  "heals_after oc st a \<longleftrightarrow>
     ag_healing_attempt_count st < og_max_healing_attempts (oc_config oc) \<and>
     \<not> retry_due (oc_policy oc) (policy_of oc a) st \<and> fp_healable (policy_of oc a)"

text \<open>The end of a submission whose failure is healed, retried or neither.\<close>

definition ends_as ::
  "orchestrator \<Rightarrow> bool \<Rightarrow> bool \<Rightarrow> failure_context option \<Rightarrow> agent_state \<Rightarrow> workflow_error + agent_state \<Rightarrow> bool" where
  "ends_as oc heals retries ctx st res \<longleftrightarrow>
     (case res of
        Inl e \<Rightarrow> e = Not_Iterable \<and> heals \<and> \<not> page_readable ctx
      | Inr st' \<Rightarrow>
          if heals then page_readable ctx \<and> (stopped st st' \<or> proposed oc st st')
          else if retries then retried oc st st' else stopped st st')"

lemma analysis_same_control:
  "same_control st st1 \<Longrightarrow> heals_after oc st1 a = heals_after oc st a"
  "same_control st st1 \<Longrightarrow> retries_after oc st1 a = retries_after oc st a"
  by (simp_all add: same_control_def heals_after_def retries_after_def retry_due_def)

lemma healing_flow_effect:
  assumes step: "ag_current_step st = W_ANALYZING_FAILURE"
  shows "ends_as oc True retries (ag_failure_context st) st (healing_flow oc clock m a st)"
proof -
  obtain st1 where st1: "goto_step clock W_GENERATING_CANDIDATES st = Inr st1"
    "same_control st st1" "ag_status st1 = ag_status st" "ag_current_step st1 = W_GENERATING_CANDIDATES"
    "ag_failure_context st1 = ag_failure_context st"
    using step by (simp add: act_simps same_control_def sent_selectors_def)
  show ?thesis
  proof (cases "get_current_elements clock st1")
    case (Inl e)
    then show ?thesis using get_current_elements_Inl[OF Inl] st1 by (simp add: healing_flow_def ends_as_def)
  next
    case (Inr er)
    obtain elements readings where er: "er = (elements, readings)" by fastforce
    let ?r = "generate_recommendation m (oc_engine oc) \<lparr>hx_failure_analysis = a,
        hx_current_elements = elements,
        hx_page_url = Option.bind (ag_failure_context st1) fx_current_page_url,
        hx_page_title = Option.bind (ag_failure_context st1) fx_current_page_title\<rparr>"
    let ?s = "st1\<lparr>ag_ticks := ag_ticks st1 + readings\<rparr>"
    have s: "same_control st ?s" "ag_status ?s = ag_status st" "ag_current_step ?s = W_GENERATING_CANDIDATES"
      using st1 by (simp_all add: same_control_def sent_selectors_def)
    obtain st2 where st2: "run_actions (candidate_actions clock ?r) ?s = Inr st2" "same_control ?s st2"
      "ag_current_step st2 = W_DECIDING_HEALING" "ag_status st2 = ag_status st"
      "ag_ranked_candidates st2 = rc_candidates ?r"
      using candidate_run[OF s(3), of clock ?r] s(2) by auto
    let ?d = "first_recovery_decision oc m a ?r st2"
    obtain st3 where st3: "run_actions (decision_actions clock ?r ?d) st2 = Inr st3" "same_control st2 st3"
      "ag_current_step st3 = W_DECIDING_HEALING" "ag_status st3 = ag_status st"
      "ag_ranked_candidates st3 = rc_candidates ?r"
      "ag_recovery_decision st3 = Some ?d" "ag_healing_recommendation st3 = Some ?r"
      using decision_run[of clock ?r ?d st2] st2 by auto
    have sc: "same_control st st3" using s(1) st2(2) st3(2) by (meson same_control_trans)
    have "rd_decision ?d = RV_TRY_HEALING \<Longrightarrow> ag_healing_attempt_count st3 < attempt_limit oc \<and>
      (\<exists>c \<in> set (ag_ranked_candidates st3). rd_selected_candidate ?d = Some c \<and>
        sc_selector c \<notin> ag_attempted_selectors st3)"
      using first_decision.proposes st3(2,5)
      by (auto simp: first_recovery_decision_def attempt_limit_def same_control_def)
    then obtain st' where st': "run_actions (route_actions clock ?d st3) st3 = Inr st'"
      "stopped st3 st' \<or> proposed oc st3 st'"
      using route_effect[OF st3(3,6,7), of oc clock] by auto
    then have "stopped st st' \<or> proposed oc st st'"
      using stopped_same[OF sc] proposed_same[OF sc st3(4)] by blast
    then show ?thesis using st1(1,5) get_current_elements_Inr[OF Inr] Inr er st2(1) st3(1) st'(1)
      by (simp add: healing_flow_def Let_def ends_as_def)
  qed
qed

lemma after_analysis_effect:
  assumes step: "ag_current_step st = W_ANALYZING_FAILURE"
  shows "ends_as oc (heals_after oc st a) (retries_after oc st a) (ag_failure_context st) st (after_analysis oc clock m a st)"
proof -
  consider
      (limit) "after_analysis oc clock m a st = run_actions (limit_actions oc clock a st) st"
        "\<not> heals_after oc st a" "\<not> retries_after oc st a"
    | (retry) "after_analysis oc clock m a st = run_actions (retry_actions clock a st) st"
        "\<not> heals_after oc st a" "retries_after oc st a"
    | (no_heal) "after_analysis oc clock m a st = run_actions (no_heal_actions clock (policy_of oc a) a st) st"
        "\<not> heals_after oc st a" "\<not> retries_after oc st a"
    | (heal) "after_analysis oc clock m a st = healing_flow oc clock m a st" "heals_after oc st a"
    by (cases "og_max_healing_attempts (oc_config oc) \<le> ag_healing_attempt_count st";
        cases "retry_due (oc_policy oc) (policy_of oc a) st"; cases "fp_healable (policy_of oc a)")
      (simp_all add: after_analysis_def Let_def heals_after_def retries_after_def policy_of_def not_le)
  then show ?thesis
  proof cases
    case limit
    then show ?thesis
      using limit_run[OF step, of oc clock a st] same_control_stopped(2) by (auto simp: ends_as_def)
  next
    case retry
    then show ?thesis using retry_run[OF step, of clock a]
      by (auto simp: retried_def retry_limit_def retry_due_def retries_after_def ends_as_def)
  next
    case no_heal
    then show ?thesis
      using no_heal_run[OF step, of clock "policy_of oc a" a st] same_control_stopped(1) by (auto simp: ends_as_def)
  next
    case heal
    then show ?thesis using healing_flow_effect[OF step, of oc _ clock m a] by simp
  qed
qed

lemma retried_same:
  "same_control st st1 \<Longrightarrow> ag_status st1 = ag_status st \<Longrightarrow> retried oc st1 st' \<longleftrightarrow> retried oc st st'"
  by (simp add: same_control_def retried_def)

lemma ends_as_same:
  assumes "same_control st st1" "ag_status st1 = ag_status st"
  shows "ends_as oc heals retries ctx st1 res \<longleftrightarrow> ends_as oc heals retries ctx st res"
  using stopped_same[OF assms(1)] retried_same[OF assms] proposed_same[OF assms]
  by (simp add: ends_as_def split: sum.split)

text \<open>The failure of a context, as the workflow's agents read it; none without a context.\<close>

definition after_failure ::
  "orchestrator \<Rightarrow> mem_store \<Rightarrow> (failure_analysis \<Rightarrow> bool) \<Rightarrow> failure_context option \<Rightarrow> bool" where
  "after_failure oc m P ctx \<longleftrightarrow> (\<exists>f. ctx = Some f \<and> P (analyze m (oc_analyzer_client oc) f))"

lemma failure_flow_effect:
  assumes step: "ag_current_step st = W_FAILURE_DETECTED"
  shows "ends_as oc (after_failure oc m (heals_after oc st) (ag_failure_context st))
    (after_failure oc m (retries_after oc st) (ag_failure_context st)) (ag_failure_context st) st
    (run_failure_flow oc clock m st)"
proof -
  obtain st1 where st1: "goto_step clock W_ANALYZING_FAILURE st = Inr st1"
    "same_control st st1" "ag_status st1 = ag_status st" "ag_current_step st1 = W_ANALYZING_FAILURE"
    "ag_failure_context st1 = ag_failure_context st"
    using step by (simp add: act_simps same_control_def sent_selectors_def)
  show ?thesis
  proof (cases "ag_failure_context st1")
    case None
    obtain st' where st': "run_actions (no_context_actions clock) st1 = Inr st'" "stopped st1 st'"
      using no_context_run[OF st1(4), of clock] same_control_stopped(2) by blast
    then show ?thesis using None st1(1,5) stopped_same[OF st1(2)]
      by (simp add: run_failure_flow_def ends_as_def after_failure_def)
  next
    case (Some f)
    define a where "a = analyze m (oc_analyzer_client oc) f"
    obtain st2 where st2: "run_actions (analysis_actions clock a) st1 = Inr st2" "same_control st st2"
      "ag_current_step st2 = W_ANALYZING_FAILURE" "ag_status st2 = ag_status st"
      "ag_failure_context st2 = ag_failure_context st"
      using analysis_run[of clock a st1] st1(2-5) same_control_trans by auto
    have "run_failure_flow oc clock m st = after_analysis oc clock m a st2"
      by (simp add: run_failure_flow_def Let_def st1(1) Some st2(1) flip: a_def)
    then show ?thesis
      using after_analysis_effect[OF st2(3), of oc a clock m] ends_as_same[OF st2(2,4)] st2(5) Some st1(5)
      by (simp add: after_failure_def analysis_same_control[OF st2(2)] flip: a_def)
  qed
qed

section \<open>Submissions\<close>

lemma commit_Inr: "snd (commit w r) = Inr st \<longleftrightarrow> r = Inr st"
  by (cases r) (simp_all add: commit_def)

lemma commit_Inl: "snd (commit w r) = Inl e \<longleftrightarrow> r = Inl e"
  by (cases r) (simp_all add: commit_def)

text \<open>An execution result for a workflow that waits for one.\<close>

definition heals_next :: "orchestrator \<Rightarrow> mem_store \<Rightarrow> agent_state \<Rightarrow> execution_result \<Rightarrow> bool" where
  "heals_next oc m st r \<longleftrightarrow> xr_status r = XS_FAILED \<and> after_failure oc m (heals_after oc st) (xr_failure_context r)"

definition retries_next :: "orchestrator \<Rightarrow> mem_store \<Rightarrow> agent_state \<Rightarrow> execution_result \<Rightarrow> bool" where
  "retries_next oc m st r \<longleftrightarrow> xr_status r = XS_FAILED \<and> after_failure oc m (retries_after oc st) (xr_failure_context r)"

lemma after_failure_same:
  assumes "same_control st st1"
  shows "after_failure oc m (heals_after oc st1) ctx = after_failure oc m (heals_after oc st) ctx"
    "after_failure oc m (retries_after oc st1) ctx = after_failure oc m (retries_after oc st) ctx"
  using analysis_same_control[OF assms] by (simp_all add: after_failure_def)

lemma execution_effect:
  assumes step: "ag_current_step st = W_EXECUTION_PENDING" and wid: "xr_workflow_id r = ag_workflow_id st"
  shows "ends_as oc (heals_next oc (wo_memory w) st r) (retries_next oc (wo_memory w) st r) (xr_failure_context r) st
    (snd (submit_execution_result oc clock w st r))"
proof -
  obtain st1 where st1: "run_actions (execution_received clock r) st = Inr st1" "same_control st st1"
    "ag_current_step st1 = W_EXECUTION_PENDING" "ag_status st1 = ag_status st"
    using received_run[of clock r st] step by auto
  show ?thesis
  proof (cases "xr_status r = XS_SUCCESS")
    case True
    obtain st' where "run_actions (success_actions clock) st1 = Inr st'" "same_control st1 st'"
      "ag_current_step st' = W_COMPLETED" "ag_status st' = ''completed''"
      using success_run[OF st1(3)] by auto
    moreover have "stopped st st'"
      using calculation st1(2) same_control_stopped(1) same_control_trans by blast
    ultimately show ?thesis using True step wid st1(1)
      by (simp add: submit_execution_result_def commit_def ends_as_def heals_next_def retries_next_def)
  next
    case False
    let ?fail = "[modify clock (\<lambda>st. st\<lparr>ag_failure_context := xr_failure_context r\<rparr>),
                goto_step clock W_FAILURE_DETECTED]"
    obtain st2 where st2: "run_actions ?fail st1 = Inr st2" "same_control st st2"
      "ag_current_step st2 = W_FAILURE_DETECTED" "ag_status st2 = ag_status st"
      "ag_failure_context st2 = xr_failure_context r"
      using st1(2-4) by (simp add: act_simps same_control_def sent_selectors_def)
    have "snd (submit_execution_result oc clock w st r) = run_failure_flow oc clock (wo_memory w) st2"
      using False step wid st1(1) st2(1)
      by (cases "run_failure_flow oc clock (wo_memory w) st2")
        (simp_all add: submit_execution_result_def commit_def)
    moreover have "xr_status r = XS_FAILED" using False by (cases "xr_status r") auto
    ultimately show ?thesis
      using failure_flow_effect[OF st2(3), of oc "wo_memory w" clock] ends_as_same[OF st2(2,4)] st2(5)
      by (simp add: heals_next_def retries_next_def after_failure_same[OF st2(2)])
  qed
qed

lemma try_next_effect:
  assumes step: "ag_current_step st = W_HEALING_PENDING_VALIDATION"
    and rec: "ag_healing_recommendation st = Some r"
  shows "\<exists>st'. try_next_candidate oc clock m st = Inr st' \<and> (stopped st st' \<or> proposed oc st st')"
proof -
  let ?d = "continuation_decision oc m st"
  obtain st1 where st1: "run_actions (continuation_actions clock ?d) st = Inr st1" "same_control st st1"
    "ag_current_step st1 = W_HEALING_PENDING_VALIDATION" "ag_status st1 = ag_status st"
    "ag_ranked_candidates st1 = ag_ranked_candidates st" "ag_healing_recommendation st1 = Some r"
    "ag_recovery_decision st1 = Some ?d"
    using continuation_run[of clock ?d st] step rec by auto
  have "\<exists>st'. run_actions (continuation_route clock ?d st1) st1 = Inr st' \<and>
      (stopped st1 st' \<or> proposed oc st1 st')"
  proof (cases "rd_decision ?d = RV_TRY_HEALING")
    case True
    then have "ag_healing_attempt_count st < attempt_limit oc \<and> (\<exists>c \<in> set (ag_ranked_candidates st).
        rd_selected_candidate ?d = Some c \<and> sc_selector c \<notin> ag_attempted_selectors st)"
      unfolding continuation_decision_def attempt_limit_def by (rule next_decision.proposes)
    then obtain c where c: "c \<in> set (ag_ranked_candidates st1)" "rd_selected_candidate ?d = Some c"
      "sc_selector c \<notin> ag_attempted_selectors st1" "ag_healing_attempt_count st1 < attempt_limit oc"
      using st1(2,5) by (auto simp: same_control_def)
    have "W_HEALING_PENDING_VALIDATION \<in> set (valid_transitions (ag_current_step st1))"
      using st1(3) by simp
    then show ?thesis
      using propose_effect[OF _ c(4,3,1) st1(7) True c(2) st1(6)] True c(2)
      by (auto simp: continuation_route_def)
  next
    case False
    then show ?thesis using st1(3)
      by (simp add: continuation_route_def act_simps stopped_def sent_selectors_def)
  qed
  then show ?thesis
    using st1(1) stopped_same[OF st1(2)] proposed_same[OF st1(2,4)]
    by (auto simp: try_next_candidate_def Let_def)
qed

lemma route_feedback_effect:
  assumes step: "ag_current_step st = W_HEALING_PENDING_VALIDATION"
    and rec: "ag_healing_recommendation st = Some r"
  shows "\<exists>st'. route_feedback oc clock m f st = Inr st' \<and> (stopped st st' \<or> proposed oc st st')"
proof -
  consider (ok) "fb_validation_status f = VS_SUCCESS" | (no) "fb_validation_status f = VS_FAILURE"
    | (other) "fb_validation_status f \<noteq> VS_SUCCESS" "fb_validation_status f \<noteq> VS_FAILURE" by blast
  then show ?thesis
  proof cases
    case ok
    then show ?thesis using healed_run[OF step, of clock f] same_control_stopped(1)
      by (auto simp: route_feedback_def)
  next
    case no
    obtain st1 where st1: "run_actions (attempt_failed_actions clock f) st = Inr st1"
      "ag_retry_count st1 = ag_retry_count st" "ag_status st1 = ag_status st"
      "ag_healing_attempt_count st1 = ag_healing_attempt_count st"
      "ag_attempted_selectors st1 = insert (fb_attempted_selector f) (ag_attempted_selectors st)"
      "sent_selectors st1 = sent_selectors st" "ag_current_step st1 = W_HEALING_PENDING_VALIDATION"
      "ag_healing_recommendation st1 = Some r"
      using attempt_failed_run[of clock f st] step rec by auto
    obtain st' where st': "try_next_candidate oc clock m st1 = Inr st'"
      "stopped st1 st' \<or> proposed oc st1 st'"
      using try_next_effect[OF st1(7,8), of oc clock m] by blast
    from st'(2) have "stopped st st' \<or> proposed oc st st'"
    proof
      assume "stopped st1 st'"
      then show ?thesis using st1(2-6) by (simp add: stopped_def)
    next
      assume "proposed oc st1 st'"
      then have "proposed oc st st'" using st1(2-6) by (simp add: proposed_def proposes_with_def) blast
      then show ?thesis by simp
    qed
    then show ?thesis using no st1(1) st'(1) by (auto simp: route_feedback_def)
  next
    case other
    then show ?thesis using inconclusive_run[OF step, of clock f] same_control_stopped(1)
      by (auto simp: route_feedback_def)
  qed
qed

lemma healing_effect:
  assumes step: "ag_current_step st = W_HEALING_PENDING_VALIDATION"
    and rec: "ag_healing_recommendation st = Some r"
    and fb: "process_feedback f (wo_memory w) = Inr (hr, m)"
  shows "\<exists>st'. snd (submit_healing_result oc clock w st f) = Inr st' \<and>
    (stopped st st' \<or> proposed oc st st')"
proof -
  let ?s = "history_updated clock (healing_received clock f st)"
  have s: "same_control st ?s" "ag_status ?s = ag_status st"
    "ag_current_step ?s = W_HEALING_PENDING_VALIDATION" "ag_healing_recommendation ?s = Some r"
    using step rec
    by (simp_all add: history_updated_def healing_received_def same_control_def sent_selectors_def)
  obtain st' where "route_feedback oc clock m f ?s = Inr st'" "stopped ?s st' \<or> proposed oc ?s st'"
    using route_feedback_effect[OF s(3,4)] by blast
  then show ?thesis
    using step fb stopped_same[OF s(1)] proposed_same[OF s(1,2)]
    by (auto simp: submit_healing_result_def commit_def)
qed

section \<open>Reachable states\<close>

text \<open>
  A submission may run in any world: other workflows, and heals recorded outside a workflow,
  change the shared memory between two submissions.
\<close>

inductive accepted :: "orchestrator \<Rightarrow> clock \<Rightarrow> agent_state \<Rightarrow> agent_state \<Rightarrow> bool"
  for oc clock where
  execution: "snd (submit_execution_result oc clock w st r) = Inr st' \<Longrightarrow> accepted oc clock st st'"
| healing: "snd (submit_healing_result oc clock w st f) = Inr st' \<Longrightarrow> accepted oc clock st st'"

inductive reachable :: "orchestrator \<Rightarrow> clock \<Rightarrow> agent_state \<Rightarrow> bool" for oc clock where
  planned: "snd (start_planning oc clock wid w ctx) = Inr st \<Longrightarrow> reachable oc clock st"
| opened: "reachable oc clock (platform_state oc clock e name url t n)"
| submission: "reachable oc clock st \<Longrightarrow> accepted oc clock st st' \<Longrightarrow> reachable oc clock st'"

definition workflow_ok :: "orchestrator \<Rightarrow> agent_state \<Rightarrow> bool" where
  "workflow_ok oc st \<longleftrightarrow>
     attempts_ok (attempt_limit oc) (ag_healing_attempt_count st) (ag_attempted_selectors st)
       (sent_selectors st) \<and>
     ag_retry_count st \<le> retry_limit oc \<and>
     (ag_current_step st = W_EXECUTION_PENDING \<and> ag_status st = ''active'' \<and>
        ag_healing_attempt_count st = 0 \<or>
      ag_current_step st = W_HEALING_PENDING_VALIDATION \<and> ag_status st = ''active'' \<and>
        (\<exists>c. pending_on st c) \<or>
      ag_current_step st = W_COMPLETED \<and> ag_status st = ''completed'' \<or>
      ag_current_step st = W_ABORTED \<and> ag_status st = ''aborted'')"

lemma workflow_ok_stopped: "workflow_ok oc st \<Longrightarrow> stopped st st' \<Longrightarrow> workflow_ok oc st'"
  by (auto simp: workflow_ok_def stopped_def attempts_ok_def)

lemma workflow_ok_retried:
  "workflow_ok oc st \<Longrightarrow> ag_current_step st = W_EXECUTION_PENDING \<Longrightarrow> retried oc st st' \<Longrightarrow>
     workflow_ok oc st'"
  by (auto simp: workflow_ok_def retried_def attempts_ok_def)

lemma workflow_ok_proposed:
  assumes "workflow_ok oc st" "proposed oc st st'" "\<not> is_terminal (ag_current_step st)"
  shows "workflow_ok oc st'"
proof -
  obtain c where c: "proposes_with oc st st' c" using assms(2) by (auto simp: proposed_def)
  have "attempts_ok (attempt_limit oc) (ag_healing_attempt_count st) (ag_attempted_selectors st)
      (sent_selectors st)" using assms(1) by (simp add: workflow_ok_def)
  then have "attempts_ok (attempt_limit oc) (ag_healing_attempt_count st') (ag_attempted_selectors st')
      (sent_selectors st')" using c by (auto simp: attempts_ok_def proposes_with_def)
  moreover have "ag_retry_count st' \<le> retry_limit oc" "ag_status st' = ''active''"
    "ag_current_step st' = W_HEALING_PENDING_VALIDATION" "\<exists>c. pending_on st' c"
    using assms c by (auto simp: workflow_ok_def proposes_with_def terminal_steps)
  ultimately show ?thesis by (simp add: workflow_ok_def)
qed

section \<open>Accepted submissions\<close>

lemma execution_accepted:
  assumes "snd (submit_execution_result oc clock w st r) = Inr st'"
  shows "ag_current_step st = W_EXECUTION_PENDING"
    and "stopped st st' \<or> retried oc st st' \<or> proposed oc st st'"
proof -
  have pre: "ag_current_step st = W_EXECUTION_PENDING" "xr_workflow_id r = ag_workflow_id st"
    using assms by (auto simp: submit_execution_result_def split: if_splits)
  then show "ag_current_step st = W_EXECUTION_PENDING"
    and "stopped st st' \<or> retried oc st st' \<or> proposed oc st st'"
    using assms execution_effect[OF pre, of oc w clock] by (auto simp: ends_as_def split: if_splits)
qed

lemma healing_accepted:
  assumes "snd (submit_healing_result oc clock w st f) = Inr st'" "workflow_ok oc st"
  shows "ag_current_step st = W_HEALING_PENDING_VALIDATION" "stopped st st' \<or> proposed oc st st'"
proof -
  have step: "ag_current_step st = W_HEALING_PENDING_VALIDATION"
    using assms(1) by (auto simp: submit_healing_result_def split: if_splits)
  obtain hr m where fb: "process_feedback f (wo_memory w) = Inr (hr, m)"
    using assms(1) step by (auto simp: submit_healing_result_def split: sum.splits)
  obtain r where "ag_healing_recommendation st = Some r"
    using assms(2) step by (auto simp: workflow_ok_def pending_on_def)
  from healing_effect[OF step this fb, of oc clock]
  show "ag_current_step st = W_HEALING_PENDING_VALIDATION" "stopped st st' \<or> proposed oc st st'"
    using assms(1) step by auto
qed

lemma accepted_cases:
  assumes "accepted oc clock st st'" "workflow_ok oc st"
  obtains (stopped) "stopped st st'" "\<not> is_terminal (ag_current_step st)"
  | (retried) "retried oc st st'" "ag_current_step st = W_EXECUTION_PENDING"
  | (proposed) "proposed oc st st'" "\<not> is_terminal (ag_current_step st)"
  using assms(1)
proof cases
  case (execution w r)
  then show ?thesis using execution_accepted[OF execution] that by (auto simp: terminal_steps)
next
  case (healing w f)
  then show ?thesis using healing_accepted[OF healing assms(2)] that by (auto simp: terminal_steps)
qed

lemma workflow_ok_accepted: "accepted oc clock st st' \<Longrightarrow> workflow_ok oc st \<Longrightarrow> workflow_ok oc st'"
  by (erule (1) accepted_cases)
    (auto intro: workflow_ok_stopped workflow_ok_retried workflow_ok_proposed)

lemma workflow_ok_reachable: "reachable oc clock st \<Longrightarrow> workflow_ok oc st"
proof (induction rule: reachable.induct)
  case (planned wid w ctx st)
  then show ?case
    by (auto simp: start_planning_def planned_actions_def planning_failed_actions_def Let_def commit_Inr act_simps new_state_def workflow_ok_def
        attempts_ok_def sent_selectors_def split: option.splits sum.splits)
next
  case (opened e name url t n)
  then show ?case
    by (simp add: platform_state_def new_state_def workflow_ok_def attempts_ok_def sent_selectors_def)
next
  case (submission st st')
  then show ?case by (simp add: workflow_ok_accepted)
qed

section \<open>Every workflow ends\<close>

text \<open>How many submissions a workflow can still accept.\<close>

definition remaining :: "orchestrator \<Rightarrow> agent_state \<Rightarrow> nat" where
  "remaining oc st =
     (if ag_current_step st = W_EXECUTION_PENDING
      then 1 + (retry_limit oc - ag_retry_count st) + attempt_limit oc
      else if ag_current_step st = W_HEALING_PENDING_VALIDATION
      then 1 + (attempt_limit oc - ag_healing_attempt_count st)
      else 0)"

lemma remaining_decreases:
  assumes "accepted oc clock st st'" "workflow_ok oc st"
  shows "remaining oc st' < remaining oc st"
  using assms
proof (cases rule: accepted_cases)
  case stopped
  then show ?thesis using assms(2)
    by (auto simp: stopped_def remaining_def workflow_ok_def terminal_steps)
next
  case retried
  then show ?thesis by (auto simp: retried_def remaining_def)
next
  case proposed
  then show ?thesis using assms(2)
    by (auto simp: proposed_def proposes_with_def remaining_def workflow_ok_def terminal_steps)
qed

lemma accepted_run_bound:
  "(accepted oc clock ^^ n) st st' \<Longrightarrow> workflow_ok oc st \<Longrightarrow>
     workflow_ok oc st' \<and> n + remaining oc st' \<le> remaining oc st"
proof (induction n arbitrary: st')
  case (Suc n)
  then obtain u where u: "(accepted oc clock ^^ n) st u" "accepted oc clock u st'" by auto
  then show ?case
    using Suc.IH[OF u(1) Suc.prems(2)] workflow_ok_accepted[OF u(2)] remaining_decreases[OF u(2)]
    by auto
qed simp

end
