(* ===== verification/Workflow_Log.thy ===== *)
theory Workflow_Log
  imports Workflow_Invariants
begin

text \<open>
  The event log: every action only appends to it, events carry the workflow's own id, and
  their timestamps are successive readings of the clock. \<open>log_grows\<close> is that relation
  between a state and a later one; it is a preorder, and every action respects it.
\<close>

definition log_grows :: "clock \<Rightarrow> agent_state \<Rightarrow> agent_state \<Rightarrow> bool" where
  "log_grows clock st st' \<longleftrightarrow>
     ag_workflow_id st' = ag_workflow_id st \<and> ag_ticks st \<le> ag_ticks st' \<and>
     (\<exists>new ks. ag_events st' = ag_events st @ new \<and>
        (\<forall>e \<in> set new. we_workflow_id e = ag_workflow_id st) \<and>
        map we_timestamp new = map clock ks \<and> sorted_wrt (<) ks \<and>
        (\<forall>k \<in> set ks. ag_ticks st \<le> k \<and> k < ag_ticks st'))"

definition grows :: "clock \<Rightarrow> action \<Rightarrow> bool" where
  "grows clock f \<longleftrightarrow> (\<forall>st st'. f st = Inr st' \<longrightarrow> log_grows clock st st')"

definition keeps_log :: "(agent_state \<Rightarrow> agent_state) \<Rightarrow> bool" where
  "keeps_log f \<longleftrightarrow> (\<forall>st. ag_events (f st) = ag_events st \<and>
     ag_workflow_id (f st) = ag_workflow_id st \<and> ag_ticks (f st) = ag_ticks st)"

lemma log_grows_quiet:
  "ag_workflow_id st' = ag_workflow_id st \<Longrightarrow> ag_events st' = ag_events st \<Longrightarrow>
     ag_ticks st \<le> ag_ticks st' \<Longrightarrow> log_grows clock st st'"
  by (auto simp: log_grows_def intro!: exI[of _ "[]"])

lemma log_grows_refl: "log_grows clock st st"
  by (simp add: log_grows_quiet)

lemma log_grows_trans:
  assumes "log_grows clock a b" "log_grows clock b c"
  shows "log_grows clock a c"
proof -
  obtain n1 k1 where 1: "ag_events b = ag_events a @ n1" "\<forall>e \<in> set n1. we_workflow_id e = ag_workflow_id a"
    "map we_timestamp n1 = map clock k1" "sorted_wrt (<) k1" "\<forall>k \<in> set k1. ag_ticks a \<le> k \<and> k < ag_ticks b"
    using assms(1) by (auto simp: log_grows_def)
  obtain n2 k2 where 2: "ag_events c = ag_events b @ n2" "\<forall>e \<in> set n2. we_workflow_id e = ag_workflow_id b"
    "map we_timestamp n2 = map clock k2" "sorted_wrt (<) k2" "\<forall>k \<in> set k2. ag_ticks b \<le> k \<and> k < ag_ticks c"
    using assms(2) by (auto simp: log_grows_def)
  have t: "ag_workflow_id b = ag_workflow_id a" "ag_workflow_id c = ag_workflow_id b"
    "ag_ticks a \<le> ag_ticks b" "ag_ticks b \<le> ag_ticks c"
    using assms by (auto simp: log_grows_def)
  have "sorted_wrt (<) (k1 @ k2)" using 1(4,5) 2(4,5) by (fastforce simp: sorted_wrt_append)
  moreover have "\<forall>k \<in> set (k1 @ k2). ag_ticks a \<le> k \<and> k < ag_ticks c" using 1(5) 2(5) t by fastforce
  moreover have "ag_events c = ag_events a @ (n1 @ n2)" using 1(1) 2(1) by simp
  moreover have "map we_timestamp (n1 @ n2) = map clock (k1 @ k2)" using 1(3) 2(3) by simp
  moreover have "\<forall>e \<in> set (n1 @ n2). we_workflow_id e = ag_workflow_id a" using 1(2) 2(2) t(1) by auto
  ultimately show ?thesis unfolding log_grows_def using t by (metis order_trans)
qed

lemma log_grows_add_event: "log_grows clock st (add_event clock t m md st)"
  by (auto simp: log_grows_def add_event_def intro!: exI[of _ "[ag_ticks st]"])

section \<open>Actions\<close>

lemma grows_modify: "keeps_log f \<Longrightarrow> grows clock (modify clock f)"
  by (auto simp: grows_def keeps_log_def modify_def touch_def intro!: log_grows_quiet)

lemma grows_quiet: "keeps_log f \<Longrightarrow> grows clock (\<lambda>st. Inr (f st))"
  by (auto simp: grows_def keeps_log_def intro!: log_grows_quiet)

lemma grows_goto: "grows clock (goto_step clock s)"
  by (auto simp: grows_def goto_step_def touch_def intro!: log_grows_quiet split: if_splits)

lemma grows_emit: "grows clock (emit clock t m md)"
  by (simp add: grows_def emit_def log_grows_add_event)

lemma grows_run_actions:
  assumes "list_all (grows clock) fs" "run_actions fs st = Inr st'"
  shows "log_grows clock st st'"
  using assms
proof (induction fs arbitrary: st)
  case Nil
  then show ?case by (simp add: log_grows_refl)
next
  case (Cons f fs)
  then obtain u where "f st = Inr u" "run_actions fs u = Inr st'" by (auto split: sum.splits)
  moreover have "log_grows clock st u" using Cons.prems(1) calculation(1) by (simp add: grows_def)
  ultimately show ?case using Cons log_grows_trans by (meson list.pred_inject(2))
qed

lemmas grows_intros = grows_modify grows_quiet grows_goto grows_emit

lemma keeps_log_simps [simp]:
  "(\<And>st. ag_events (f st) = ag_events st) \<Longrightarrow> (\<And>st. ag_workflow_id (f st) = ag_workflow_id st) \<Longrightarrow>
     (\<And>st. ag_ticks (f st) = ag_ticks st) \<Longrightarrow> keeps_log f"
  by (simp add: keeps_log_def)

lemma groups_grow:
  "list_all (grows clock) (no_context_actions clock)"
  "list_all (grows clock) (analysis_actions clock a)"
  "list_all (grows clock) (limit_actions oc clock a st)"
  "list_all (grows clock) (retry_actions clock a st)"
  "list_all (grows clock) (no_heal_actions clock p a st)"
  "list_all (grows clock) (candidate_actions clock r)"
  "list_all (grows clock) (decision_actions clock r d)"
  "list_all (grows clock) (propose_actions clock s c st)"
  "list_all (grows clock) (continuation_actions clock d)"
  "list_all (grows clock) (execution_received clock x)"
  "list_all (grows clock) (success_actions clock)"
  "list_all (grows clock) (healed_actions clock f)"
  "list_all (grows clock) (attempt_failed_actions clock f)"
  "list_all (grows clock) (inconclusive_actions clock f)"
  "list_all (grows clock) (planned_actions clock p')"
  "list_all (grows clock) (planning_failed_actions clock err)"
  by (simp_all add: no_context_actions_def analysis_actions_def limit_actions_def retry_actions_def
      no_heal_actions_def candidate_actions_def decision_actions_def propose_actions_def
      continuation_actions_def execution_received_def success_actions_def healed_actions_def
      attempt_failed_actions_def inconclusive_actions_def planned_actions_def
      planning_failed_actions_def Let_def grows_intros)

lemma routes_grow:
  "list_all (grows clock) (route_actions clock d st)"
  "list_all (grows clock) (continuation_route clock d st)"
  by (simp_all add: route_actions_def continuation_route_def grows_intros groups_grow
      split: recovery_action.split option.split)

lemmas group_log = groups_grow[THEN grows_run_actions] routes_grow[THEN grows_run_actions]

section \<open>Handlers\<close>

lemma healing_flow_grows:
  assumes "healing_flow oc clock m a st = Inr st'"
  shows "log_grows clock st st'"
proof -
  obtain st1 elements n where 1: "goto_step clock W_GENERATING_CANDIDATES st = Inr st1"
    "get_current_elements clock st1 = Inr (elements, n)"
    using assms by (auto simp: healing_flow_def and_then_Inr)
  let ?s = "st1\<lparr>ag_ticks := ag_ticks st1 + n\<rparr>"
  obtain r st2 st3 d where
    2: "run_actions (candidate_actions clock r) ?s = Inr st2"
    "run_actions (decision_actions clock r d) st2 = Inr st3"
    "run_actions (route_actions clock d st3) st3 = Inr st'"
    using assms 1 by (auto simp: healing_flow_def and_then_Inr Let_def)
  have "log_grows clock st st1" using grows_goto 1(1) by (auto simp: grows_def)
  moreover have "log_grows clock st1 ?s" by (simp add: log_grows_quiet)
  ultimately show ?thesis
    using 2 grows_run_actions groups_grow(6,7) routes_grow(1) log_grows_trans by meson
qed

lemma after_analysis_grows:
  "after_analysis oc clock m a st = Inr st' \<Longrightarrow> log_grows clock st st'"
  by (auto simp: after_analysis_def Let_def intro: group_log healing_flow_grows split: if_splits)

lemma failure_flow_grows:
  assumes "run_failure_flow oc clock m st = Inr st'"
  shows "log_grows clock st st'"
proof -
  obtain st1 where 1: "goto_step clock W_ANALYZING_FAILURE st = Inr st1"
    using assms by (auto simp: run_failure_flow_def and_then_Inr)
  then have "log_grows clock st st1" using grows_goto by (auto simp: grows_def)
  moreover have "log_grows clock st1 st'"
  proof (cases "ag_failure_context st1")
    case None
    then show ?thesis using assms 1
      by (auto simp: run_failure_flow_def intro: group_log)
  next
    case (Some f)
    then obtain a st2 where "run_actions (analysis_actions clock a) st1 = Inr st2"
      "after_analysis oc clock m a st2 = Inr st'"
      using assms 1 by (auto simp: run_failure_flow_def and_then_Inr Let_def)
    then show ?thesis using grows_run_actions groups_grow(2) after_analysis_grows log_grows_trans by meson
  qed
  ultimately show ?thesis by (rule log_grows_trans)
qed

lemma execution_grows:
  assumes "snd (submit_execution_result oc clock w st r) = Inr st'"
  shows "log_grows clock st st'"
proof -
  obtain st1 where 1: "run_actions (execution_received clock r) st = Inr st1"
    using assms by (auto simp: submit_execution_result_def commit_Inr and_then_Inr split: if_splits)
  have "log_grows clock st1 st'"
  proof (cases "xr_status r = XS_SUCCESS")
    case True
    then have "run_actions (success_actions clock) st1 = Inr st'"
      using assms 1 by (auto simp: submit_execution_result_def commit_Inr split: if_splits)
    then show ?thesis using grows_run_actions groups_grow(11) by blast
  next
    case False
    then obtain st2 where "run_actions
        [modify clock (\<lambda>st. st\<lparr>ag_failure_context := xr_failure_context r\<rparr>),
         goto_step clock W_FAILURE_DETECTED] st1 = Inr st2"
      "run_failure_flow oc clock (wo_memory w) st2 = Inr st'"
      using assms 1
      by (auto simp del: run_actions.simps simp: submit_execution_result_def commit_Inr and_then_Inr
          split: if_splits)
    moreover have "list_all (grows clock)
        [modify clock (\<lambda>st. st\<lparr>ag_failure_context := xr_failure_context r\<rparr>),
         goto_step clock W_FAILURE_DETECTED]" by (simp add: grows_intros)
    ultimately show ?thesis using grows_run_actions failure_flow_grows log_grows_trans by blast
  qed
  then show ?thesis using 1 grows_run_actions groups_grow(10) log_grows_trans by blast
qed

lemma try_next_grows: "try_next_candidate oc clock m st = Inr st' \<Longrightarrow> log_grows clock st st'"
  using grows_run_actions groups_grow(9) routes_grow(2) log_grows_trans
  by (auto simp: try_next_candidate_def Let_def and_then_Inr) meson

lemma healing_grows:
  assumes "snd (submit_healing_result oc clock w st f) = Inr st'"
  shows "log_grows clock st st'"
proof -
  let ?s = "history_updated clock (healing_received clock f st)"
  have s: "log_grows clock st ?s"
    unfolding healing_received_def history_updated_def
    by (rule log_grows_trans[OF log_grows_add_event log_grows_add_event])
  obtain m where "route_feedback oc clock m f ?s = Inr st'"
    using assms by (auto simp: submit_healing_result_def commit_Inr split: if_splits sum.splits)
  then have "log_grows clock ?s st'"
    using grows_run_actions groups_grow(12-14) try_next_grows log_grows_trans
    by (auto simp: route_feedback_def and_then_Inr split: if_splits) (meson+)
  with s show ?thesis by (rule log_grows_trans)
qed

lemma accepted_grows: "accepted oc clock st st' \<Longrightarrow> log_grows clock st st'"
  by (auto elim!: accepted.cases intro: execution_grows healing_grows)

section \<open>Reachable logs\<close>

definition log_ok :: "clock \<Rightarrow> agent_state \<Rightarrow> bool" where
  "log_ok clock st \<longleftrightarrow> (\<exists>ks. map we_timestamp (ag_events st) = map clock ks \<and> sorted_wrt (<) ks \<and>
     (\<forall>k \<in> set ks. k < ag_ticks st)) \<and>
   (\<forall>e \<in> set (ag_events st). we_workflow_id e = ag_workflow_id st)"

lemma log_ok_grows:
  assumes "log_ok clock st" "log_grows clock st st'"
  shows "log_ok clock st'"
proof -
  obtain ks where ks: "map we_timestamp (ag_events st) = map clock ks" "sorted_wrt (<) ks"
    "\<forall>k \<in> set ks. k < ag_ticks st" using assms(1) by (auto simp: log_ok_def)
  obtain new ns where ns: "ag_events st' = ag_events st @ new" "map we_timestamp new = map clock ns"
    "sorted_wrt (<) ns" "\<forall>k \<in> set ns. ag_ticks st \<le> k \<and> k < ag_ticks st'"
    "\<forall>e \<in> set new. we_workflow_id e = ag_workflow_id st"
    "ag_workflow_id st' = ag_workflow_id st" "ag_ticks st \<le> ag_ticks st'"
    using assms(2) by (auto simp: log_grows_def)
  have "map we_timestamp (ag_events st') = map clock (ks @ ns)" using ks(1) ns(1,2) by simp
  moreover have "sorted_wrt (<) (ks @ ns)" using ks(2,3) ns(3,4) by (fastforce simp: sorted_wrt_append)
  moreover have "\<forall>k \<in> set (ks @ ns). k < ag_ticks st'" using ks(3) ns(4,7) by fastforce
  moreover have "\<forall>e \<in> set (ag_events st'). we_workflow_id e = ag_workflow_id st'"
    using assms(1) ns by (auto simp: log_ok_def)
  ultimately show ?thesis unfolding log_ok_def by blast
qed

lemma log_ok_new: "log_ok clock (new_state clock w s n)"
  by (simp add: log_ok_def new_state_def)

lemma log_ok_reachable: "reachable oc clock st \<Longrightarrow> log_ok clock st"
proof (induction rule: reachable.induct)
  case (planned wid w ctx st)
  let ?s = "add_event clock WE_WORKFLOW_STARTED
      (''Workflow started for app '' @ quoted (ac_app_name ctx))
      [(''app_name'', PStr (ac_app_name ctx)), (''app_url'', PStr (ac_app_url ctx))]
      (new_state clock wid W_PLANNING (og_max_healing_attempts (oc_config oc)))"
  have "log_ok clock ?s" using log_ok_grows log_ok_new log_grows_add_event by blast
  moreover have "log_grows clock ?s st"
    using planned
    by (auto simp del: run_actions.simps simp: start_planning_def Let_def commit_Inr
        intro: grows_run_actions[OF groups_grow(15)] grows_run_actions[OF groups_grow(16)]
        split: option.splits sum.splits)
  ultimately show ?case by (rule log_ok_grows)
next
  case (opened e name url t n)
  then show ?case
    unfolding platform_state_def using log_ok_grows log_grows_add_event log_ok_new by meson
next
  case (submission st st')
  then show ?case using accepted_grows log_ok_grows by blast
qed

end
