(* ===== verification/Workflow_Samples.thy ===== *)
theory Workflow_Samples
  imports Workflow_Log Healing_Properties Policy_Properties
begin

text \<open>
  A concrete workflow, run through the whole pipeline: a stored element \<open>#old\<close> is missing from
  the page, which now has an element \<open>#new\<close> with the same text. The failed run is analysed,
  the candidate ranked, accepted by the policy and proposed, and the workflow waits for its
  validation. The witnesses of the workflow's properties use it.
\<close>

definition counting_clock :: clock where
  "counting_clock n = replicate n CHR ''1''"

definition sample_orchestrator :: orchestrator where
  "sample_orchestrator =
     make_orchestrator None None sample_engine
       \<lparr>og_max_healing_attempts = 2, og_minimum_confidence_for_healing = 1/2, og_max_retries = 1\<rparr>
       (Some (sample_policy, False))"

definition sample_opened :: agent_state where
  "sample_opened = platform_state sample_orchestrator counting_clock 7 ''shop'' ''http://shop'' ''TC_1'' 3"

definition sample_world :: world where
  "sample_world = \<lparr>wo_memory = sample_memory, wo_workflows = Map.empty\<rparr>"

definition sample_passed :: execution_result where
  "sample_passed = \<lparr>xr_workflow_id = ''wf-exec-7'', xr_test_case_id = ''TC_1'', xr_status = XS_SUCCESS,
     xr_failure_context = None\<rparr>"

definition missing_element_failure :: failure_context where
  "missing_element_failure =
     \<lparr>fx_test_id = ''TC_1'', fx_execution_id = ''x1'', fx_failed_step = 2, fx_failed_step_id = Some 2,
      fx_action = ''click'', fx_target_selector = ''#old'', fx_expected_result = None,
      fx_actual_result = None, fx_error_message = ''not found'', fx_failure_category = None,
      fx_current_page_url = None, fx_current_page_title = None,
      fx_current_element = Some (sample_page_element ''#new'' ''A''),
      fx_dom_evidence = None, fx_screenshot_path = None, fx_trace_path = None, fx_timestamp = None,
      fx_execution_metadata = []\<rparr>"

definition sample_failed :: execution_result where
  "sample_failed = \<lparr>xr_workflow_id = ''wf-exec-7'', xr_test_case_id = ''TC_1'', xr_status = XS_FAILED,
     xr_failure_context = Some missing_element_failure\<rparr>"

definition sample_verdict :: failure_analysis where
  "sample_verdict = analyze sample_memory None missing_element_failure"

section \<open>The opened workflow\<close>

lemma sample_opened_reachable: "reachable sample_orchestrator counting_clock sample_opened"
  unfolding sample_opened_def by (rule reachable.opened)

lemma sample_opened_simps:
  "ag_current_step sample_opened = W_EXECUTION_PENDING" "ag_status sample_opened = ''active''"
  "ag_workflow_id sample_opened = ''wf-exec-7''" "ag_healing_attempt_count sample_opened = 0"
  "ag_retry_count sample_opened = 0" "ag_attempted_selectors sample_opened = {}"
  "sent_selectors sample_opened = []" "ag_current_test_case sample_opened = None"
proof -
  have "show_int 7 = ''7''" by code_simp
  then show "ag_current_step sample_opened = W_EXECUTION_PENDING" "ag_status sample_opened = ''active''"
    "ag_workflow_id sample_opened = ''wf-exec-7''" "ag_healing_attempt_count sample_opened = 0"
    "ag_retry_count sample_opened = 0" "ag_attempted_selectors sample_opened = {}"
    "sent_selectors sample_opened = []" "ag_current_test_case sample_opened = None"
    by (simp_all add: sample_opened_def platform_state_def new_state_def sent_selectors_def)
qed

lemma sample_orchestrator_simps:
  "oc_policy sample_orchestrator = sample_policy" "oc_analyzer_client sample_orchestrator = None"
  "oc_engine sample_orchestrator = sample_engine" "og_max_healing_attempts (oc_config sample_orchestrator) = 2"
  "retriever_of sample_orchestrator m = None"
  by (simp_all add: sample_orchestrator_def make_orchestrator_def retriever_of_def)

lemma sample_accepts:
  obtains st' where "snd (submit_execution_result sample_orchestrator counting_clock sample_world
      sample_opened sample_passed) = Inr st'" "ag_current_step st' = W_COMPLETED"
proof -
  have "\<exists>st'. snd (submit_execution_result sample_orchestrator counting_clock sample_world
      sample_opened sample_passed) = Inr st' \<and> ag_current_step st' = W_COMPLETED"
    by (simp add: submit_execution_result_def sample_opened_simps sample_passed_def commit_def
        execution_received_def success_actions_def act_simps)
  with that show ?thesis by blast
qed

section \<open>The failed run\<close>

lemma sample_previous:
  "get_element_by_selector sample_memory ''#old'' None = Some (sample_page_element ''#old'' ''A'')"
  by code_simp

lemma sample_verdict_simps:
  "fa_failure_type sample_verdict = FT_SELECTOR_CHANGED" "fa_failed_target sample_verdict = ''#old''"
  "Option.bind (fa_historical_context sample_verdict) hc_previous_element =
     Some (sample_page_element ''#old'' ''A'')"
proof -
  have miss: "is_missing_element ''not found''" by code_simp
  show "fa_failure_type sample_verdict = FT_SELECTOR_CHANGED" "fa_failed_target sample_verdict = ''#old''"
    "Option.bind (fa_historical_context sample_verdict) hc_previous_element =
     Some (sample_page_element ''#old'' ''A'')"
    by (simp_all add: sample_verdict_def analyze_def Let_def retrieve_historical_context_def
        missing_element_failure_def sample_previous compare_contexts_def final_verdict_def
        classify_deterministic_def check_selector_changed_def miss)
qed

definition sample_flow_context :: healing_context where
  "sample_flow_context =
     \<lparr>hx_failure_analysis = sample_verdict,
      hx_current_elements = [sample_page_element ''#new'' ''A''], hx_page_url = None, hx_page_title = None\<rparr>"

lemma sample_flow_candidates:
  "\<exists>e. rc_candidates (generate_recommendation sample_memory sample_engine sample_flow_context) =
     [sample_ranked_candidate ''#new'' 1 e]"
proof -
  have sim: "compute_similarity (sample_page_element ''#old'' ''A'') (sample_page_element ''#new'' ''A'') None
      = \<lparr>sim_text = 1, sim_role = 0, sim_type = 0, sim_page = 0, sim_name = 0, sim_stable_attribute = 0\<rparr>"
    by code_simp
  have type: "infer_selector_type ''#new'' = ''id''" by code_simp
  have prev: "get_previous_element sample_memory sample_verdict = Some (sample_page_element ''#old'' ''A'')"
    by (simp add: get_previous_element_def sample_verdict_simps)
  have hist: "get_healing_history sample_memory ''#old'' 10 = []" by code_simp
  have h: "compute_history_score sample_memory ''#old'' s = 0" for s
    by (simp add: compute_history_score_def get_replacement_stats_def mem.pair_history_is
        healing_records_def sample_memory_def empty_store_def dict_get_list_def slice_to_def)
  have enrich: "enrich_candidate sample_memory ''#old'' c = c" for c
    by (simp add: enrich_candidate_def h)
  have "\<exists>e. generate_candidates sample_memory sample_flow_context =
     [(sample_ranked_candidate ''#new'' 1 e)\<lparr>sc_confidence := 0\<rparr>]"
    by (simp add: generate_candidates_def Let_def sample_flow_context_def prev
        generate_from_current_elements_eq generate_from_historical_memory_def current_candidate_def sim
        sample_ranked_candidate_def sample_verdict_simps hist)
      (simp add: sample_page_element_def type)
  then obtain e where g: "generate_candidates sample_memory sample_flow_context =
     [(sample_ranked_candidate ''#new'' 1 e)\<lparr>sc_confidence := 0\<rparr>]" by blast
  have "score_candidate (de_weights sample_engine) ((sample_ranked_candidate ''#new'' 1 e)\<lparr>sc_confidence := 0\<rparr>) = 1"
    by (simp add: score_candidate_def raw_score_def weights_total_def float_chain_def weight_list_def
        similarities_def sample_engine_def sample_ranked_candidate_def)
  moreover have "fa_failed_target (hx_failure_analysis sample_flow_context) = ''#old''"
    by (simp add: sample_flow_context_def sample_verdict_simps)
  ultimately have "ranked_candidates sample_memory sample_engine sample_flow_context =
      [sample_ranked_candidate ''#new'' 1 e]"
    by (simp add: ranked_candidates_def g enrich_with_healing_evidence_def enrich rank_candidates_def
        sort_desc_def score_and_update_def)
      (simp add: sample_ranked_candidate_def)
  then show ?thesis
    by (auto simp: generate_recommendation_def check_safety_rules_def non_healable_failures_def
        sample_flow_context_def sample_verdict_simps Let_def split: prod.splits)
qed

lemma sample_flow_decision:
  "\<exists>d c. policy_evaluate sample_policy None sample_verdict [sample_ranked_candidate ''#new'' 1 e]
       0 0 {} w t = d \<and> rd_decision d = RV_TRY_HEALING \<and> rd_selected_candidate d = Some c \<and>
     sc_selector c = ''#new''"
  by (simp add: policy_evaluate_def Let_def evaluate_failure_rules_def filter_eligible_candidates_def
      evaluate_healing_def adjust_confidence_def healing_outcome_def is_attempted_def is_low_def
      sample_verdict_simps sample_ranked_candidate_def sample_policy_simps default_policy_config_def
      failure_policy_def)

lemma sample_pending:
  obtains st' where "snd (submit_execution_result sample_orchestrator counting_clock sample_world
      sample_opened sample_failed) = Inr st'" "ag_current_step st' = W_HEALING_PENDING_VALIDATION"
    "sent_selectors st' = [''#new'']" "ag_healing_attempt_count st' = 1"
    "reachable sample_orchestrator counting_clock st'"
proof -
  obtain e where cs: "rc_candidates (generate_recommendation sample_memory sample_engine sample_flow_context)
      = [sample_ranked_candidate ''#new'' 1 e]"
    using sample_flow_candidates by blast
  obtain d c where d: "policy_evaluate sample_policy None sample_verdict
      [sample_ranked_candidate ''#new'' 1 e] 0 0 {} ''wf-exec-7'' ''unknown'' = d"
    "rd_decision d = RV_TRY_HEALING" "rd_selected_candidate d = Some c" "sc_selector c = ''#new''"
    using sample_flow_decision by blast
  have flow: "\<exists>st'. healing_flow sample_orchestrator counting_clock sample_memory sample_verdict st = Inr st' \<and>
      ag_current_step st' = W_HEALING_PENDING_VALIDATION \<and> sent_selectors st' = [''#new''] \<and>
      ag_healing_attempt_count st' = 1"
    if "same_control sample_opened st" "ag_current_step st = W_ANALYZING_FAILURE"
      "ag_failure_context st = Some missing_element_failure" for st
  proof -
    have "ag_workflow_id st = ''wf-exec-7''" "ag_current_test_case st = None"
      "ag_healing_attempt_count st = 0" "ag_retry_count st = 0" "ag_attempted_selectors st = {}"
      "sent_of (ag_events st) = []"
      using that(1) sample_opened_simps(7) by (simp_all add: same_control_def sample_opened_simps sent_selectors_def)
    then show ?thesis
      using that(2-) d cs
      by (simp add: healing_flow_def act_simps get_current_elements_def missing_element_failure_def
          iterate_pyval_def dict_get_def candidate_actions_def decision_actions_def route_actions_def
          propose_actions_def first_recovery_decision_def sample_orchestrator_simps Let_def
          test_case_id_of_def sent_selectors_def flip: sample_flow_context_def)
  qed
  obtain st1 where st1: "run_actions (execution_received counting_clock sample_failed) sample_opened = Inr st1"
    "same_control sample_opened st1" "ag_current_step st1 = W_EXECUTION_PENDING"
    using received_run[of counting_clock sample_failed sample_opened] sample_opened_simps(1) by auto
  obtain st2 where st2: "run_actions
      [modify counting_clock (\<lambda>st. st\<lparr>ag_failure_context := Some missing_element_failure\<rparr>),
       goto_step counting_clock W_FAILURE_DETECTED] st1 = Inr st2" "same_control st1 st2"
    "ag_current_step st2 = W_FAILURE_DETECTED" "ag_failure_context st2 = Some missing_element_failure"
    using st1(3) by (simp add: act_simps same_control_def sent_selectors_def)
  obtain st3 where st3: "goto_step counting_clock W_ANALYZING_FAILURE st2 = Inr st3" "same_control st2 st3"
    "ag_current_step st3 = W_ANALYZING_FAILURE" "ag_failure_context st3 = Some missing_element_failure"
    using st2(3,4) by (simp add: act_simps same_control_def sent_selectors_def)
  obtain st4 where st4: "run_actions (analysis_actions counting_clock sample_verdict) st3 = Inr st4"
    "same_control st3 st4" "ag_current_step st4 = W_ANALYZING_FAILURE"
    "ag_failure_context st4 = Some missing_element_failure"
    using analysis_run[of counting_clock sample_verdict st3] st3(3,4) by auto
  have same: "same_control sample_opened st4" using st1(2) st2(2) st3(2) st4(2) by (meson same_control_trans)
  obtain st' where st': "healing_flow sample_orchestrator counting_clock sample_memory sample_verdict st4 = Inr st'"
    "ag_current_step st' = W_HEALING_PENDING_VALIDATION" "sent_selectors st' = [''#new'']"
    "ag_healing_attempt_count st' = 1"
    using flow[OF same st4(3,4)] by blast
  have "ag_healing_attempt_count st4 = 0"
    using same by (simp add: same_control_def sample_opened_simps)
  then have "after_analysis sample_orchestrator counting_clock sample_memory sample_verdict st4 = Inr st'"
    using st'(1)
    by (simp add: after_analysis_def Let_def sample_orchestrator_simps sample_verdict_simps
        sample_policy_simps retry_due_def failure_policy_def)
  moreover have "analyze sample_memory None missing_element_failure = sample_verdict"
    by (simp add: sample_verdict_def)
  ultimately have "run_failure_flow sample_orchestrator counting_clock sample_memory st2 = Inr st'"
    using st3(1,4) st4(1) by (simp add: run_failure_flow_def sample_orchestrator_simps)
  then have run: "snd (submit_execution_result sample_orchestrator counting_clock sample_world
      sample_opened sample_failed) = Inr st'"
    using st1(1) st2(1) sample_opened_simps(1,3)
    by (simp del: run_actions.simps add: submit_execution_result_def commit_def sample_failed_def sample_world_def)
  moreover have "reachable sample_orchestrator counting_clock st'"
    using sample_opened_reachable accepted.execution[OF run] by (rule reachable.submission)
  ultimately show ?thesis using that st'(2-4) by blast
qed

end
