(* ===== verification/Workflow_Properties.thy ===== *)
theory Workflow_Properties
  imports Workflow_Samples
begin

text \<open>
  The properties of the workflow: the outcome of every submission on every branch, the states
  that can be reached, the limits on proposals and retries, termination, and the event log.
\<close>

section \<open>Helper lemmas\<close>

lemma commit_cases:
  "(\<exists>e. r = Inl e \<and> commit w r = (w, Inl e)) \<or> (\<exists>st. r = Inr st \<and> commit w r = (register st w, Inr st))"
  by (cases r) (simp_all add: commit_def)

lemma accepted_same_id: "accepted oc clock st st' \<Longrightarrow> ag_workflow_id st' = ag_workflow_id st"
  using accepted_grows by (simp add: log_grows_def)

lemma execution_commits:
  assumes "ag_current_step st = W_EXECUTION_PENDING" "xr_workflow_id r = ag_workflow_id st"
    and "snd (submit_execution_result oc clock w st r) = x"
  shows "submit_execution_result oc clock w st r =
    (case x of Inl e \<Rightarrow> (w, Inl e) | Inr st' \<Rightarrow> (register st' w, Inr st'))"
  using assms
  by (auto simp: submit_execution_result_def commit_def split: sum.splits)

lemma reachable_recommendation:
  assumes "reachable oc clock st" "ag_current_step st = W_HEALING_PENDING_VALIDATION"
  obtains r where "ag_healing_recommendation st = Some r"
  using workflow_ok_reachable[OF assms(1)] assms(2) by (auto simp: workflow_ok_def pending_on_def)

section \<open>Submissions\<close>

text \<open>
  C8: What submitting an execution result does, completely. It is refused, with the world unchanged,
  exactly when the workflow does not wait for one, when the result names another workflow, or when a
  failed result goes to healing and carries page evidence that cannot be iterated. A failed result goes
  to healing when it carries a failure context, the limit on healing attempts is not reached, no retry
  is due for the analysed type of failure, and the type is healable. Otherwise the new state is
  registered under the workflow's own id and the workflow has stopped or waits for the validation of a
  new proposal (when the result goes to healing), retries within its budget (when a retry is due within
  the limit), or has stopped. No transition of the table is ever refused.
\<close>

theorem execution_submission_outcome:
  "case submit_execution_result oc clock w st r of
     (w', Inl e) \<Rightarrow> w' = w \<and>
       (e = Wrong_Step (ag_current_step st) W_EXECUTION_PENDING \<and>
          ag_current_step st \<noteq> W_EXECUTION_PENDING \<or>
        ag_current_step st = W_EXECUTION_PENDING \<and>
          e = Id_Mismatch (xr_workflow_id r) (ag_workflow_id st) \<and> xr_workflow_id r \<noteq> ag_workflow_id st \<or>
        ag_current_step st = W_EXECUTION_PENDING \<and> xr_workflow_id r = ag_workflow_id st \<and>
          e = Not_Iterable \<and> heals_next oc (wo_memory w) st r \<and> \<not> page_readable (xr_failure_context r))
   | (w', Inr st') \<Rightarrow>
       ag_current_step st = W_EXECUTION_PENDING \<and> xr_workflow_id r = ag_workflow_id st \<and>
       ag_workflow_id st' = ag_workflow_id st \<and>
       w' = w\<lparr>wo_workflows := (wo_workflows w)(ag_workflow_id st \<mapsto> st')\<rparr> \<and>
       (if heals_next oc (wo_memory w) st r
        then page_readable (xr_failure_context r) \<and> (stopped st st' \<or> proposed oc st st')
        else if retries_next oc (wo_memory w) st r then retried oc st st' else stopped st st')"
proof (cases "ag_current_step st = W_EXECUTION_PENDING \<and> xr_workflow_id r = ag_workflow_id st")
  case False
  then show ?thesis by (auto simp: submit_execution_result_def)
next
  case True
  then have step: "ag_current_step st = W_EXECUTION_PENDING" and wid: "xr_workflow_id r = ag_workflow_id st"
    by auto
  note ends = execution_effect[OF step wid, of oc w clock, unfolded ends_as_def]
  show ?thesis
  proof (cases "snd (submit_execution_result oc clock w st r)")
    case (Inl e)
    then show ?thesis using ends execution_commits[OF step wid Inl] step wid by simp
  next
    case (Inr st')
    then have "stopped st st' \<or> retried oc st st' \<or> proposed oc st st'"
      using ends by (auto split: if_splits)
    then have "ag_workflow_id st' = ag_workflow_id st" using Inr by (intro accepted_same_id accepted.execution)
    then show ?thesis
      using execution_commits[OF step wid Inr] ends Inr step wid by (simp add: register_def)
  qed
qed

text \<open>
  C9: What submitting healing feedback does to a reachable workflow, completely: it is refused,
  with the world unchanged, exactly when the workflow does not wait for feedback or the
  feedback cannot be recorded; otherwise the memory has learned exactly that record, the new
  state is registered under the workflow's own id, and the workflow has stopped or waits for
  the validation of a new proposal.
\<close>

theorem healing_submission_outcome:
  assumes "reachable oc clock st"
  shows "case submit_healing_result oc clock w st f of
     (w', Inl e) \<Rightarrow> w' = w \<and>
       (e = Wrong_Step (ag_current_step st) W_HEALING_PENDING_VALIDATION \<and>
          ag_current_step st \<noteq> W_HEALING_PENDING_VALIDATION \<or>
        (\<exists>msg. e = Feedback_Rejected msg \<and> process_feedback f (wo_memory w) = Inl msg))
   | (w', Inr st') \<Rightarrow>
       ag_current_step st = W_HEALING_PENDING_VALIDATION \<and> ag_workflow_id st' = ag_workflow_id st \<and>
       (\<exists>m. store_healing_record (feedback_record f) (wo_memory w) = Inr m \<and>
          w' = \<lparr>wo_memory = m, wo_workflows = (wo_workflows w)(ag_workflow_id st \<mapsto> st')\<rparr>) \<and>
       (stopped st st' \<or> proposed oc st st')"
proof (cases "ag_current_step st = W_HEALING_PENDING_VALIDATION")
  case False
  then show ?thesis by (simp add: submit_healing_result_def)
next
  case step: True
  show ?thesis
  proof (cases "process_feedback f (wo_memory w)")
    case (Inl msg)
    then show ?thesis using step by (simp add: submit_healing_result_def)
  next
    case (Inr x)
    obtain hr m where fb: "process_feedback f (wo_memory w) = Inr (hr, m)" using Inr by (cases x) auto
    obtain r where "ag_healing_recommendation st = Some r"
      using reachable_recommendation[OF assms step] .
    from healing_effect[OF step this fb, of oc clock] obtain st' where
      st': "snd (submit_healing_result oc clock w st f) = Inr st'" "stopped st st' \<or> proposed oc st st'"
      by blast
    then have "ag_workflow_id st' = ag_workflow_id st"
      by (intro accepted_same_id accepted.healing)
    moreover have "submit_healing_result oc clock w st f = (register st' (w\<lparr>wo_memory := m\<rparr>), Inr st')"
      using st'(1) step fb by (auto simp: submit_healing_result_def commit_def split: sum.splits)
    moreover have "store_healing_record (feedback_record f) (wo_memory w) = Inr m"
      using fb unfolding process_feedback_Inr by blast
    ultimately show ?thesis using step st'(2) by (simp add: register_def)
  qed
qed

lemma healing_submission_outcome_witness:
  "\<exists>st st' m. store_healing_record (feedback_record sample_feedback) sample_memory = Inr m \<and>
     submit_healing_result sample_orchestrator counting_clock sample_world st sample_feedback
       = (\<lparr>wo_memory = m, wo_workflows = [ag_workflow_id st \<mapsto> st']\<rparr>, Inr st')"
proof -
  obtain st where st: "ag_current_step st = W_HEALING_PENDING_VALIDATION"
    "reachable sample_orchestrator counting_clock st"
    using sample_pending by blast
  have "\<not> blank ''heal_1''" "\<not> blank ''#old''" "\<not> blank ''#new''" by code_simp+
  then obtain hr m where "process_feedback sample_feedback (wo_memory sample_world) = Inr (hr, m)"
    using process_feedback_accepts[of sample_feedback "wo_memory sample_world"]
    by (auto simp: sample_feedback_def)
  then show ?thesis
    using healing_submission_outcome[OF st(2), of sample_world sample_feedback] st(1)
    by (auto simp: sample_world_def split: prod.splits sum.splits)
qed

section \<open>Reachable states\<close>

text \<open>
  C10: A reachable workflow is never left in an intermediate step: it waits for an execution
  result, waits for a validation, or has ended as completed or aborted; and it has ended exactly
  when no submission, in any world, can move it any more.
\<close>

theorem reachable_states_settled:
  assumes "reachable oc clock st"
  shows "(ag_current_step st = W_EXECUTION_PENDING \<or> ag_current_step st = W_HEALING_PENDING_VALIDATION \<or>
      is_terminal (ag_current_step st)) \<and>
    ag_status st = (if ag_current_step st = W_COMPLETED then ''completed''
      else if ag_current_step st = W_ABORTED then ''aborted'' else ''active'') \<and>
    (is_terminal (ag_current_step st) \<longleftrightarrow> (\<nexists>st'. accepted oc clock st st'))"
proof -
  note ok = workflow_ok_reachable[OF assms]
  have live: "\<exists>st'. accepted oc clock st st'" if "ag_current_step st = W_EXECUTION_PENDING"
  proof -
    have "\<exists>st'. snd (submit_execution_result oc clock w st
        \<lparr>xr_workflow_id = ag_workflow_id st, xr_test_case_id = ''t'', xr_status = XS_SUCCESS,
         xr_failure_context = None\<rparr>) = Inr st'" for w
      using that by (simp add: submit_execution_result_def commit_def execution_received_def
          success_actions_def act_simps)
    then show ?thesis using accepted.execution by blast
  qed
  have heal: "\<exists>st'. accepted oc clock st st'" if step: "ag_current_step st = W_HEALING_PENDING_VALIDATION"
  proof -
    let ?f = "\<lparr>fb_healing_id = ''h'', fb_test_case_id = ''t'', fb_failure_id = None, fb_execution_id = None,
        fb_original_selector = ''#a'', fb_attempted_selector = ''#b'', fb_candidate_id = None,
        fb_healing_status = HS_VALIDATED_SUCCESS, fb_validation_status = VS_SUCCESS,
        fb_failure_category = None, fb_confidence = 1, fb_execution_attempt = 1, fb_timestamp = [],
        fb_error_reason = None, fb_metadata = []\<rparr>"
    have "\<not> blank ''h''" "\<not> blank ''#a''" "\<not> blank ''#b''" by code_simp+
    then obtain hr m where fb: "process_feedback ?f (wo_memory sample_world) = Inr (hr, m)"
      using process_feedback_accepts[of ?f "wo_memory sample_world"] by auto
    obtain r where "ag_healing_recommendation st = Some r"
      using reachable_recommendation[OF assms step] .
    from healing_effect[OF step this fb, of oc clock] show ?thesis using accepted.healing by blast
  qed
  have "\<not> accepted oc clock st st'" if "is_terminal (ag_current_step st)" for st'
    using that accepted_cases[OF _ ok] by (metis terminal_steps workflow_step.distinct)
  then show ?thesis using ok live heal by (auto simp: workflow_ok_def terminal_steps)
qed

lemma reachable_states_settled_witness: "\<exists>st'. accepted sample_orchestrator counting_clock sample_opened st'"
proof -
  from reachable_states_settled[OF sample_opened_reachable] show ?thesis by (simp add: sample_opened_simps is_terminal_def)
qed

text \<open>
  C5: In every reachable state the selectors proposed so far, read from the event log, are
  pairwise distinct, all recorded as attempted, as many as the attempts counted, and no more
  than the policy's limit; the retries stay within the policy's limit.
\<close>

theorem healing_limits_respected:
  assumes "reachable oc clock st"
  shows "distinct (sent_selectors st) \<and> set (sent_selectors st) \<subseteq> ag_attempted_selectors st \<and>
    length (sent_selectors st) = ag_healing_attempt_count st \<and>
    ag_healing_attempt_count st \<le> pc_max_healing_attempts (rp_config (oc_policy oc)) \<and>
    ag_retry_count st \<le> pc_max_retries (rp_config (oc_policy oc))"
  using workflow_ok_reachable[OF assms]
  by (auto simp: workflow_ok_def attempts_ok_def attempt_limit_def retry_limit_def)

lemma healing_limits_respected_witness:
  "\<exists>st. sent_selectors st = [''#new''] \<and> ''#new'' \<in> ag_attempted_selectors st \<and>
     ag_healing_attempt_count st = 1"
proof -
  obtain st where st: "sent_selectors st = [''#new'']" "reachable sample_orchestrator counting_clock st"
    using sample_pending by blast
  from healing_limits_respected[OF st(2)] st(1) show ?thesis by auto
qed

text \<open>
  C2: Every workflow ends: whatever is submitted, and in whatever worlds, a reachable workflow
  accepts at most one submission more than its limits of retries and healing attempts together.
\<close>

theorem workflow_terminates:
  assumes "reachable oc clock st" "(accepted oc clock ^^ n) st st'"
  shows "n \<le> 1 + pc_max_retries (rp_config (oc_policy oc)) +
      pc_max_healing_attempts (rp_config (oc_policy oc))"
proof -
  have "n + remaining oc st' \<le> remaining oc st"
    using accepted_run_bound[OF assms(2) workflow_ok_reachable[OF assms(1)]] by simp
  also have "remaining oc st \<le> 1 + retry_limit oc + attempt_limit oc"
    by (auto simp: remaining_def)
  finally show ?thesis by (simp add: retry_limit_def attempt_limit_def)
qed

lemma workflow_terminates_witness:
  "(1::nat) \<le> 1 + pc_max_retries (rp_config (oc_policy sample_orchestrator)) +
     pc_max_healing_attempts (rp_config (oc_policy sample_orchestrator))"
proof -
  obtain st' where "snd (submit_execution_result sample_orchestrator counting_clock sample_world
      sample_opened sample_failed) = Inr st'"
    using sample_pending by blast
  then have "(accepted sample_orchestrator counting_clock ^^ 1) sample_opened st'"
    unfolding relpowp_1 by (rule accepted.execution)
  with sample_opened_reachable show ?thesis by (rule workflow_terminates)
qed

text \<open>
  While a validation is pending, the recommendation, the recovery decision and the event
  log agree on the one candidate under validation, which is one of the ranked candidates.
\<close>

theorem pending_validation_consistent:
  assumes "reachable oc clock st" "ag_current_step st = W_HEALING_PENDING_VALIDATION"
  shows "\<exists>c r d. c \<in> set (ag_ranked_candidates st) \<and>
     ag_healing_recommendation st = Some r \<and> rc_selected_candidate r = Some c \<and>
     ag_recovery_decision st = Some d \<and> rd_decision d = RV_TRY_HEALING \<and>
     rd_selected_candidate d = Some c \<and>
     sent_selectors st \<noteq> [] \<and> last (sent_selectors st) = sc_selector c"
  using workflow_ok_reachable[OF assms(1)] assms(2)
  by (fastforce simp: workflow_ok_def pending_on_def)

lemma pending_validation_consistent_witness:
  "\<exists>(st :: agent_state) c r. ag_healing_recommendation st = Some r \<and> rc_selected_candidate r = Some c \<and>
     sc_selector c = ''#new''"
proof -
  obtain st where st: "sent_selectors st = [''#new'']" "ag_current_step st = W_HEALING_PENDING_VALIDATION"
    "reachable sample_orchestrator counting_clock st"
    using sample_pending by blast
  from pending_validation_consistent[OF st(3,2)] st(1) show ?thesis by fastforce
qed

section \<open>The two layers that decide\<close>

lemma precheck_decision:
  assumes "ag_current_step st = W_ANALYZING_FAILURE" "after_analysis oc clock m a st = Inr st'"
  shows "og_max_healing_attempts (oc_config oc) \<le> ag_healing_attempt_count st \<Longrightarrow>
      ag_recovery_decision st' = Some (limit_decision oc a st)"
    and "ag_healing_attempt_count st < og_max_healing_attempts (oc_config oc) \<Longrightarrow>
      retry_due (oc_policy oc) (get_failure_policy (oc_policy oc) (fa_failure_type a)) st \<Longrightarrow>
      ag_recovery_decision st' = Some (retry_decision a st)"
    and "ag_healing_attempt_count st < og_max_healing_attempts (oc_config oc) \<Longrightarrow>
      \<not> retry_due (oc_policy oc) (get_failure_policy (oc_policy oc) (fa_failure_type a)) st \<Longrightarrow>
      \<not> fp_healable (get_failure_policy (oc_policy oc) (fa_failure_type a)) \<Longrightarrow>
      ag_recovery_decision st' =
        Some (no_heal_decision (get_failure_policy (oc_policy oc) (fa_failure_type a)) a st)"
  using assms
  by (auto simp: after_analysis_def Let_def limit_actions_def retry_actions_def no_heal_actions_def act_simps)

text \<open>
  Whenever the orchestrator decides before it generates candidates, its decision is the
  one the recovery policy would make, whatever the candidates, provided both layers have the
  same attempt limit and the policy allows retries.
\<close>

theorem precheck_agrees_with_policy:
  assumes "ag_current_step st = W_ANALYZING_FAILURE" "after_analysis oc clock m a st = Inr st'"
    and "og_max_healing_attempts (oc_config oc) = pc_max_healing_attempts (rp_config (oc_policy oc))"
    and "pc_allow_retry (rp_config (oc_policy oc))"
    and "og_max_healing_attempts (oc_config oc) \<le> ag_healing_attempt_count st \<or>
      retry_due (oc_policy oc) (get_failure_policy (oc_policy oc) (fa_failure_type a)) st \<or>
      \<not> fp_healable (get_failure_policy (oc_policy oc) (fa_failure_type a))"
  shows "map_option rd_decision (ag_recovery_decision st') =
    Some (rd_decision (policy_evaluate (oc_policy oc) retriever a ranked
      (ag_healing_attempt_count st) (ag_retry_count st) (ag_attempted_selectors st) w t))"
  using precheck_decision[OF assms(1,2)] assms(3-)
  by (auto simp: policy_evaluate_def evaluate_failure_rules_def limit_decision_def retry_decision_def
      no_heal_decision_def recovery_decision_of_def retry_due_def Let_def)

definition plain_orchestrator :: orchestrator where
  "plain_orchestrator = make_orchestrator None None sample_engine default_orchestrator_config None"

lemma precheck_agrees_with_policy_witness:
  "rd_decision (policy_evaluate (oc_policy plain_orchestrator) None (sample_analysis FT_ASSERTION_FAILURE)
     [] 0 0 {} [] []) = RV_DO_NOT_HEAL"
proof -
  let ?st = "sample_opened\<lparr>ag_current_step := W_ANALYZING_FAILURE\<rparr>"
    and ?a = "sample_analysis FT_ASSERTION_FAILURE"
  have cfg: "og_max_healing_attempts (oc_config plain_orchestrator) =
      pc_max_healing_attempts (rp_config (oc_policy plain_orchestrator))"
    "pc_allow_retry (rp_config (oc_policy plain_orchestrator))"
    "og_max_healing_attempts (oc_config plain_orchestrator) = 3"
    "get_failure_policy (oc_policy plain_orchestrator) (fa_failure_type ?a) = failure_policy FT_ASSERTION_FAILURE False False 0"
    by (simp_all add: plain_orchestrator_def make_orchestrator_def make_policy_def
        default_orchestrator_config_def default_policy_config_def get_failure_policy_def
        merge_policies_def default_failure_policies_def sample_analysis_def)
  obtain st' where st': "after_analysis plain_orchestrator counting_clock sample_memory ?a ?st = Inr st'"
    "ag_recovery_decision st' = Some (no_heal_decision (failure_policy FT_ASSERTION_FAILURE False False 0) ?a ?st)"
    by (simp add: after_analysis_def Let_def cfg(3,4) sample_opened_simps retry_due_def failure_policy_def
        no_heal_actions_def act_simps)
  have "map_option rd_decision (ag_recovery_decision st') =
    Some (rd_decision (policy_evaluate (oc_policy plain_orchestrator) None ?a []
      (ag_healing_attempt_count ?st) (ag_retry_count ?st) (ag_attempted_selectors ?st) [] []))"
    by (rule precheck_agrees_with_policy[OF _ st'(1) cfg(1,2)])
      (simp_all add: cfg(4) failure_policy_def)
  then show ?thesis
    by (simp add: st'(2) sample_opened_simps no_heal_decision_def failure_policy_def
        recovery_decision_of_def Let_def)
qed

section \<open>A proposal, from the page to the policy\<close>

text \<open>The selectors a failure report shows on the page.\<close>

definition page_selectors :: "failure_context \<Rightarrow> string set" where
  "page_selectors f =
     {el_selector e | e. fx_current_element f = Some e} \<union>
     {s. \<exists>d raws raw. fx_dom_evidence f = Some d \<and>
        iterate_pyval (dict_get d ''elements'') = Some raws \<and> PDict raw \<in> set raws \<and>
        dict_get raw ''selector'' = PStr s}"

lemma parse_element_selector:
  "parse_element now raw = Some e \<Longrightarrow> \<exists>d. raw = PDict d \<and> dict_get d ''selector'' = PStr (el_selector e)"
proof -
  assume p: "parse_element now raw = Some e"
  then obtain d where d: "raw = PDict d" by (cases raw) (simp_all add: parse_element_def)
  obtain i where i: "dict_get d ''element_id'' = PStr i"
    using p d by (cases "dict_get d ''element_id''") (simp_all add: parse_element_def)
  obtain s where s: "dict_get d ''selector'' = PStr s"
    using p d i by (cases "dict_get d ''selector''") (simp_all add: parse_element_def)
  obtain t where t: "dict_get_or d ''last_seen_timestamp'' (PStr now) = PStr t"
    using p d i s by (cases "dict_get_or d ''last_seen_timestamp'' (PStr now)")
      (simp_all add: parse_element_def split: option.splits)
  have "el_selector e = s"
    using p by (simp add: parse_element_def d i s t split: option.splits if_splits) auto
  then show ?thesis using d s by simp
qed

lemma collect_elements_origin:
  "x \<in> set (collect_elements clock n raws es) \<Longrightarrow>
     x \<in> set es \<or> (\<exists>raw \<in> set raws. \<exists>now. parse_element now raw = Some x)"
proof (induction raws arbitrary: n es)
  case (Cons raw raws)
  show ?case
  proof (cases "parse_element (clock n) raw")
    case None
    then show ?thesis using Cons.IH[of "Suc n" es] Cons.prems by auto
  next
    case (Some e)
    then show ?thesis
      using Cons.IH[of "Suc n" es] Cons.IH[of "Suc n" "es @ [e]"] Cons.prems by (auto split: if_splits)
  qed
qed simp

lemma current_elements_selectors:
  assumes "get_current_elements clock st = Inr (es, n)" "ag_failure_context st = Some f" "x \<in> set es"
  shows "el_selector x \<in> page_selectors f"
proof -
  let ?d = "case fx_dom_evidence f of None \<Rightarrow> [] | Some d \<Rightarrow> d"
  obtain raws where raws: "iterate_pyval (dict_get ?d ''elements'') = Some raws"
    "es = collect_elements clock (ag_ticks st) raws
        (case fx_current_element f of None \<Rightarrow> [] | Some e \<Rightarrow> [e])"
    using assms(1,2) by (auto simp: get_current_elements_def Let_def split: option.splits)
  from collect_elements_origin[OF assms(3)[unfolded raws(2)]] show ?thesis
  proof
    assume "x \<in> set (case fx_current_element f of None \<Rightarrow> [] | Some e \<Rightarrow> [e])"
    then show ?thesis by (cases "fx_current_element f") (auto simp: page_selectors_def)
  next
    assume "\<exists>raw \<in> set raws. \<exists>now. parse_element now raw = Some x"
    then obtain raw d where d: "raw \<in> set raws" "raw = PDict d" "dict_get d ''selector'' = PStr (el_selector x)"
      using parse_element_selector by blast
    moreover obtain dom where "fx_dom_evidence f = Some dom"
      using raws(1) d(1) by (cases "fx_dom_evidence f") (simp_all add: dict_get_def iterate_pyval_def)
    ultimately show ?thesis using raws(1) by (auto simp: page_selectors_def)
  qed
qed

lemma selected_reaches_minimum:
  assumes "rd_selected_candidate (policy_evaluate rp m a ranked n r attempted w t) = Some c"
  shows "pc_min_candidate_score (rp_config rp) \<le> sc_confidence c"
proof -
  have try_it: "rd_decision (policy_evaluate rp m a ranked n r attempted w t) = RV_TRY_HEALING"
    by (simp add: first_decision.proposal_exists assms)
  show ?thesis
  proof (cases rule: policy_evaluate_cases[where rp = rp and m = m and a = a and ranked = ranked
        and n = n and r = r and attempted = attempted and w = w and t = t])
    case (candidate best rest ev ev')
    then show ?thesis using assms try_it eligible_hd(3)[OF candidate(4)] evaluate_healing_try(1) by auto
  qed (use try_it failure_rules_Inl(1) in auto)
qed

lemma route_pending:
  assumes "ag_current_step st = W_DECIDING_HEALING" "run_actions (route_actions clock d st) st = Inr st'"
    and "ag_current_step st' = W_HEALING_PENDING_VALIDATION"
    and "ag_recovery_decision st = Some d" "ag_healing_recommendation st = Some r"
    and "rd_decision d = RV_TRY_HEALING \<Longrightarrow> \<exists>c. rd_selected_candidate d = Some c"
  shows "\<exists>c. rd_selected_candidate d = Some c \<and>
    (c \<in> set (ag_ranked_candidates st) \<longrightarrow> pending_on st' c)"
proof (cases "rd_decision d = RV_TRY_HEALING")
  case True
  then obtain c where c: "rd_selected_candidate d = Some c" using assms(6) by blast
  have step: "W_HEALING_PENDING_VALIDATION \<in> set (valid_transitions (ag_current_step st))"
    using assms(1) by simp
  have "run_actions (propose_actions clock ''Recommendation sent to Member 2: '' c st) st = Inr st'"
    using assms(2) True c by (simp add: route_actions_def)
  then show ?thesis
    using propose_run[OF step, of clock "''Recommendation sent to Member 2: ''" c] assms(4,5) True c
    by (auto simp: pending_on_def)
next
  case False
  then show ?thesis using assms(1-3)
    by (cases "rd_decision d") (auto simp: route_actions_def act_simps)
qed

lemma healing_flow_pending:
  assumes step: "ag_current_step st = W_ANALYZING_FAILURE" and ctx: "ag_failure_context st = Some f"
    and run: "healing_flow oc clock m a st = Inr st'"
    and pend: "ag_current_step st' = W_HEALING_PENDING_VALIDATION"
  obtains c where "pending_on st' c" "sc_selector c \<notin> ag_attempted_selectors st"
    "pc_min_candidate_score (rp_config (oc_policy oc)) \<le> sc_confidence c"
    "fa_failure_type a \<notin> set non_healable_failures"
    "sc_selector c \<in> page_selectors f \<or>
      (\<exists>h \<in> set (healing_records m (fa_failed_target a)). is_success h \<and> hr_new_selector h = sc_selector c)"
proof -
  obtain st1 where st1: "goto_step clock W_GENERATING_CANDIDATES st = Inr st1" "same_control st st1"
    "ag_current_step st1 = W_GENERATING_CANDIDATES" "ag_failure_context st1 = Some f"
    using step ctx by (simp add: act_simps same_control_def sent_selectors_def)
  obtain es n where es: "get_current_elements clock st1 = Inr (es, n)"
    using run st1(1) by (auto simp: healing_flow_def and_then_Inr)
  define hx where "hx = \<lparr>hx_failure_analysis = a, hx_current_elements = es,
      hx_page_url = Option.bind (ag_failure_context st1) fx_current_page_url,
      hx_page_title = Option.bind (ag_failure_context st1) fx_current_page_title\<rparr>"
  define r where "r = generate_recommendation m (oc_engine oc) hx"
  let ?s = "st1\<lparr>ag_ticks := ag_ticks st1 + n\<rparr>"
  have s: "same_control st ?s" "ag_current_step ?s = W_GENERATING_CANDIDATES"
    using st1 by (simp_all add: same_control_def sent_selectors_def)
  obtain st2 where st2: "run_actions (candidate_actions clock r) ?s = Inr st2" "same_control ?s st2"
    "ag_current_step st2 = W_DECIDING_HEALING" "ag_ranked_candidates st2 = rc_candidates r"
    using candidate_run[OF s(2), of clock r] by auto
  let ?d = "first_recovery_decision oc m a r st2"
  obtain st3 where st3: "run_actions (decision_actions clock r ?d) st2 = Inr st3"
    "ag_current_step st3 = W_DECIDING_HEALING" "ag_ranked_candidates st3 = rc_candidates r"
    "ag_recovery_decision st3 = Some ?d" "ag_healing_recommendation st3 = Some r"
    using decision_run[of clock r ?d st2] st2 by auto
  have "run_actions (route_actions clock ?d st3) st3 = Inr st'"
    using run st1(1) es st2(1) st3(1) by (simp add: healing_flow_def Let_def flip: hx_def r_def)
  from route_pending[OF st3(2) this pend st3(4,5)] obtain c where
    c: "rd_selected_candidate ?d = Some c" "c \<in> set (ag_ranked_candidates st3) \<Longrightarrow> pending_on st' c"
    using first_decision.proposal_exists unfolding first_recovery_decision_def by fastforce
  have rk: "c \<in> set (rc_candidates r)" "sc_selector c \<notin> ag_attempted_selectors st2"
    using first_decision.proposal_ranked[OF c(1)[unfolded first_recovery_decision_def]] by auto
  have healable: "fa_failure_type (hx_failure_analysis hx) \<notin> set non_healable_failures"
    using rk(1) recommendation_blocked[of hx m "oc_engine oc"] by (auto simp: r_def)
  obtain sel lv act b where "resolve_candidates (oc_engine oc) (ranked_candidates m (oc_engine oc) hx)
      (hx_failure_analysis hx) = ((sel, lv, act), b)" by (metis prod_cases4 prod.collapse)
  then have "c \<in> set (ranked_candidates m (oc_engine oc) hx)"
    using recommendation_resolved(1)[OF healable] rk(1) by (simp add: r_def)
  then have "offered m hx (sc_selector c)" by (rule ranked_offered)
  then have "sc_selector c \<in> page_selectors f \<or>
      (\<exists>h \<in> set (healing_records m (fa_failed_target a)). is_success h \<and> hr_new_selector h = sc_selector c)"
    using current_elements_selectors[OF es st1(4)] by (auto simp: offered_def hx_def)
  moreover have "sc_selector c \<notin> ag_attempted_selectors st"
    using rk(2) s(1) st2(2) by (simp add: same_control_def)
  ultimately show ?thesis
    using that c(2) rk(1) st3(3) healable
      selected_reaches_minimum[OF c(1)[unfolded first_recovery_decision_def]]
    by (simp add: hx_def)
qed

lemma after_analysis_pending:
  assumes "after_analysis oc clock m a st = Inr st'" "ag_current_step st = W_ANALYZING_FAILURE"
    and "ag_current_step st' = W_HEALING_PENDING_VALIDATION"
  shows "fp_healable (get_failure_policy (oc_policy oc) (fa_failure_type a)) \<and>
    healing_flow oc clock m a st = Inr st'"
proof -
  let ?p = "get_failure_policy (oc_policy oc) (fa_failure_type a)"
  have "run_actions (limit_actions oc clock a st) st \<noteq> Inr st'"
    using limit_run[OF assms(2), of oc clock a st] assms(3) by auto
  moreover have "run_actions (retry_actions clock a st) st \<noteq> Inr st'"
    using retry_run[OF assms(2), of clock a] assms(3) by auto
  moreover have "run_actions (no_heal_actions clock ?p a st) st \<noteq> Inr st'"
    using no_heal_run[OF assms(2), of clock ?p a st] assms(3) by auto
  ultimately show ?thesis using assms(1) by (simp add: after_analysis_def Let_def split: if_splits)
qed

text \<open>
  C1: A selector is sent for validation only after a failed run with a failure report, for a
  failure type that both the policy and the decision engine heal, and only if it is new in this
  workflow, reaches the policy's minimum score, and is the selector of an element that the
  report shows on the page or of a stored, validated replacement of the failed selector.
\<close>

theorem proposal_is_safe:
  assumes "snd (submit_execution_result oc clock w st r) = Inr st'"
    and "ag_current_step st' = W_HEALING_PENDING_VALIDATION"
  shows "\<exists>f c. xr_status r = XS_FAILED \<and> xr_failure_context r = Some f \<and> pending_on st' c \<and>
    fp_healable (get_failure_policy (oc_policy oc)
      (fa_failure_type (analyze (wo_memory w) (oc_analyzer_client oc) f))) \<and>
    fa_failure_type (analyze (wo_memory w) (oc_analyzer_client oc) f) \<notin> set non_healable_failures \<and>
    sc_selector c \<notin> ag_attempted_selectors st \<and>
    pc_min_candidate_score (rp_config (oc_policy oc)) \<le> sc_confidence c \<and>
    (sc_selector c \<in> page_selectors f \<or>
     (\<exists>h \<in> set (healing_records (wo_memory w) (fx_target_selector f)).
        is_success h \<and> hr_new_selector h = sc_selector c))"
proof -
  have pre: "ag_current_step st = W_EXECUTION_PENDING" "xr_workflow_id r = ag_workflow_id st"
    using assms(1) by (auto simp: submit_execution_result_def split: if_splits)
  obtain st1 where st1: "run_actions (execution_received clock r) st = Inr st1" "same_control st st1"
    "ag_current_step st1 = W_EXECUTION_PENDING"
    using received_run[of clock r st] pre(1) by auto
  have failed: "xr_status r \<noteq> XS_SUCCESS"
    using assms pre st1(1) success_run[OF st1(3), of clock]
    by (auto simp: submit_execution_result_def commit_Inr)
  let ?fail = "[modify clock (\<lambda>st. st\<lparr>ag_failure_context := xr_failure_context r\<rparr>),
      goto_step clock W_FAILURE_DETECTED]"
  obtain st2 st3 where st2: "run_actions ?fail st1 = Inr st2"
    and st3: "goto_step clock W_ANALYZING_FAILURE st2 = Inr st3" "same_control st st3"
      "ag_current_step st3 = W_ANALYZING_FAILURE" "ag_failure_context st3 = xr_failure_context r"
    using st1(2,3) by (simp add: act_simps same_control_def sent_selectors_def)
  have flow: "run_failure_flow oc clock (wo_memory w) st2 = Inr st'"
    using assms(1) pre st1(1) st2 failed
    by (simp del: run_actions.simps add: submit_execution_result_def commit_Inr)
  obtain f where f: "xr_failure_context r = Some f"
    using flow st3 no_context_run[OF st3(3), of clock] assms(2)
    by (cases "xr_failure_context r") (auto simp: run_failure_flow_def)
  define a where "a = analyze (wo_memory w) (oc_analyzer_client oc) f"
  obtain st4 where st4: "run_actions (analysis_actions clock a) st3 = Inr st4" "same_control st3 st4"
    "ag_current_step st4 = W_ANALYZING_FAILURE" "ag_failure_context st4 = Some f"
    using analysis_run[of clock a st3] st3(3,4) f by auto
  have after: "after_analysis oc clock (wo_memory w) a st4 = Inr st'"
    using flow st3(1,4) st4(1) f by (simp add: run_failure_flow_def flip: a_def)
  note after_analysis_pending[OF after st4(3) assms(2)]
  then have heal: "fp_healable (get_failure_policy (oc_policy oc) (fa_failure_type a))"
    "healing_flow oc clock (wo_memory w) a st4 = Inr st'" by auto
  have "fa_failed_target a = fx_target_selector f"
    by (simp add: a_def analyze_def Let_def split: prod.splits)
  with healing_flow_pending[OF st4(3,4) heal(2) assms(2)] obtain c where
    "pending_on st' c" "sc_selector c \<notin> ag_attempted_selectors st4"
    "pc_min_candidate_score (rp_config (oc_policy oc)) \<le> sc_confidence c"
    "fa_failure_type a \<notin> set non_healable_failures"
    "sc_selector c \<in> page_selectors f \<or> (\<exists>h \<in> set (healing_records (wo_memory w) (fx_target_selector f)).
        is_success h \<and> hr_new_selector h = sc_selector c)"
    by metis
  moreover have "ag_attempted_selectors st4 = ag_attempted_selectors st"
    using st3(2) st4(2) by (simp add: same_control_def)
  ultimately show ?thesis using failed f heal(1) by (cases "xr_status r") (auto simp: a_def)
qed

lemma proposal_is_safe_witness:
  "fa_failure_type (analyze sample_memory None missing_element_failure) \<notin> set non_healable_failures \<and>
   ''#new'' \<in> page_selectors missing_element_failure \<union>
     hr_new_selector ` set (healing_records sample_memory ''#old'')"
proof -
  obtain st' where st': "snd (submit_execution_result sample_orchestrator counting_clock sample_world
      sample_opened sample_failed) = Inr st'" "ag_current_step st' = W_HEALING_PENDING_VALIDATION"
    "sent_selectors st' = [''#new'']"
    using sample_pending by blast
  have "xr_failure_context sample_failed = Some missing_element_failure"
    "fx_target_selector missing_element_failure = ''#old''" "wo_memory sample_world = sample_memory"
    by (simp_all add: sample_failed_def missing_element_failure_def sample_world_def)
  with proposal_is_safe[OF st'(1,2)] st'(3) show ?thesis
    by (simp add: pending_on_def sample_orchestrator_simps) (metis UnI1 UnI2 image_eqI)
qed

section \<open>The event log\<close>

text \<open>
  The event log is an audit trail: an accepted submission keeps every event it finds and
  only appends, every event of a reachable workflow carries that workflow's id, and with a
  clock that does not run backwards the timestamps of the log are in order.
\<close>

theorem event_log_append_only:
  assumes "reachable oc clock st" "accepted oc clock st st'"
    and "\<And>i j. i \<le> j \<Longrightarrow> lexordp_eq (clock i) (clock j)"
  shows "(\<exists>new. ag_events st' = ag_events st @ new) \<and>
    (\<forall>e \<in> set (ag_events st'). we_workflow_id e = ag_workflow_id st) \<and>
    sorted_wrt (\<lambda>e e'. lexordp_eq (we_timestamp e) (we_timestamp e')) (ag_events st')"
proof (intro conjI)
  show "\<exists>new. ag_events st' = ag_events st @ new"
    using accepted_grows[OF assms(2)] by (auto simp: log_grows_def)
  have ok: "log_ok clock st'"
    using assms(1,2) by (intro log_ok_reachable) (rule reachable.submission)
  then show "\<forall>e \<in> set (ag_events st'). we_workflow_id e = ag_workflow_id st"
    using accepted_same_id[OF assms(2)] by (simp add: log_ok_def)
  obtain ks where ks: "map we_timestamp (ag_events st') = map clock ks" "sorted_wrt (<) ks"
    using ok by (auto simp: log_ok_def)
  have "sorted_wrt (\<lambda>i j. lexordp_eq (clock i) (clock j)) ks"
    using ks(2) by (rule sorted_wrt_mono_rel[rotated]) (simp add: assms(3))
  then have "sorted_wrt lexordp_eq (map we_timestamp (ag_events st'))"
    unfolding ks(1) by (simp add: sorted_wrt_map)
  then show "sorted_wrt (\<lambda>e e'. lexordp_eq (we_timestamp e) (we_timestamp e')) (ag_events st')"
    by (simp add: sorted_wrt_map)
qed

lemma event_log_append_only_witness:
  "\<exists>st :: agent_state. length (ag_events sample_opened) \<le> length (ag_events st) \<and> ag_current_step st = W_COMPLETED"
proof -
  have mono: "lexordp_eq (counting_clock i) (counting_clock j)" if "i \<le> j" for i j
  proof -
    have "counting_clock j = counting_clock i @ replicate (j - i) CHR ''1''"
      using that by (simp add: counting_clock_def flip: replicate_add)
    then show ?thesis by (simp add: lexordp_eq_pref)
  qed
  obtain st where st: "snd (submit_execution_result sample_orchestrator counting_clock sample_world
      sample_opened sample_passed) = Inr st" "ag_current_step st = W_COMPLETED"
    using sample_accepts by blast
  obtain new where "ag_events st = ag_events sample_opened @ new"
    using event_log_append_only[OF sample_opened_reachable accepted.execution[OF st(1)] mono] by blast
  then show ?thesis using st(2) by (auto intro!: exI[of _ st])
qed

end
