(* ===== verification/Py_Text.thy ===== *)
theory Py_Text
  imports Prelude
begin

text \<open>
  More of Python's string library, as the execution engine and the converters use it:
  splitting on white space, parsing integers, \<open>repr\<close>, safe path segments, insertion-ordered
  dictionaries of strings.
\<close>

section \<open>Characters\<close>

definition digit :: "char \<Rightarrow> bool" where
  "digit c = (let n = of_char c :: nat in 48 \<le> n \<and> n \<le> 57)"

definition upper_char :: "char \<Rightarrow> char" where
  "upper_char c = (let n = of_char c :: nat in if 97 \<le> n \<and> n \<le> 122 then char_of (n - 32) else c)"

definition upper :: "string \<Rightarrow> string" where
  "upper s = map upper_char s"

section \<open>Characters of UTF-8 text\<close>

definition continuation_byte :: "char \<Rightarrow> bool" where
  "continuation_byte c = (let n = of_char c :: nat in 128 \<le> n \<and> n < 192)"

text \<open>\<open>len(s)\<close> and \<open>s[:n]\<close> count characters, not bytes.\<close>

definition py_len :: "string \<Rightarrow> nat" where
  "py_len s = length (filter (\<lambda>c. \<not> continuation_byte c) s)"

fun py_take :: "nat \<Rightarrow> string \<Rightarrow> string" where
  "py_take n [] = []"
| "py_take n (c # s) =
     (if continuation_byte c then c # py_take n s
      else case n of 0 \<Rightarrow> [] | Suc m \<Rightarrow> c # py_take m s)"

section \<open>Searching\<close>

text \<open>\<open>s.find(sub)\<close>, as the text before and after the first occurrence.\<close>

fun split_at_first :: "string \<Rightarrow> string \<Rightarrow> (string \<times> string) option" where
  "split_at_first sub [] = (if sub = [] then Some ([], []) else None)"
| "split_at_first sub (x # s) =
     (if prefix sub (x # s) then Some ([], drop (length sub) (x # s))
      else map_option (\<lambda>(a, b). (x # a, b)) (split_at_first sub s))"

lemma split_at_first_length:
  "split_at_first sub s = Some (a, b) \<Longrightarrow> length s = length a + length sub + length b"
proof (induction s arbitrary: a)
  case Nil
  then show ?case by (auto split: if_splits)
next
  case (Cons x s)
  show ?case
  proof (cases "prefix sub (x # s)")
    case True
    with Cons.prems show ?thesis using prefix_length_le[OF True] by auto
  next
    case False
    with Cons show ?thesis by auto
  qed
qed

section \<open>White space\<close>

text \<open>\<open>s.split()\<close>: the maximal runs of other characters.\<close>

fun words_from :: "string \<Rightarrow> string \<Rightarrow> string list" where
  "words_from w [] = (if w = [] then [] else [w])"
| "words_from w (c # s) =
     (if is_space c then (if w = [] then words_from [] s else w # words_from [] s)
      else words_from (w @ [c]) s)"

definition py_split :: "string \<Rightarrow> string list" where
  "py_split s = words_from [] s"

text \<open>\<open>' '.join(s.split())\<close>\<close>

definition collapse_spaces :: "string \<Rightarrow> string" where
  "collapse_spaces s = join '' '' (py_split s)"

definition is_word :: "string \<Rightarrow> bool" where
  "is_word w \<longleftrightarrow> w \<noteq> [] \<and> list_all (\<lambda>c. \<not> is_space c) w"

lemma words_from_words:
  "list_all (\<lambda>c. \<not> is_space c) w \<Longrightarrow> list_all is_word (words_from w s)"
  by (induction w s rule: words_from.induct) (simp_all add: is_word_def)

lemma py_split_words: "list_all is_word (py_split s)"
  by (simp add: py_split_def words_from_words)

section \<open>Integers\<close>

text \<open>The digits of \<open>int(s)\<close>: single underscores may separate them.\<close>

fun digits_value :: "bool \<Rightarrow> int \<Rightarrow> string \<Rightarrow> int option" where
  "digits_value after_digit n [] = (if after_digit then Some n else None)"
| "digits_value after_digit n (c # s) =
     (if digit c then digits_value True (10 * n + (of_char c - 48)) s
      else if c = CHR ''_'' \<and> after_digit then digits_value False n s
      else None)"

definition py_int :: "string \<Rightarrow> int option" where
  "py_int s =
     (case strip s of
        [] \<Rightarrow> None
      | c # t \<Rightarrow>
          if c = CHR ''-'' then map_option uminus (digits_value False 0 t)
          else if c = CHR ''+'' then digits_value False 0 t
          else digits_value False 0 (c # t))"

definition py_isdigit :: "string \<Rightarrow> bool" where
  "py_isdigit s \<longleftrightarrow> s \<noteq> [] \<and> list_all digit s"

text \<open>\<open>f"{n:,}"\<close>: groups of three digits.\<close>

fun group3 :: "string \<Rightarrow> string" where
  "group3 (a # b # c # d # s) = a # b # c # CHR '','' # group3 (d # s)"
| "group3 s = s"

definition show_thousands :: "nat \<Rightarrow> string" where
  "show_thousands n = rev (group3 (rev (show_nat n)))"

section \<open>repr\<close>

definition hex_digit :: "nat \<Rightarrow> char" where
  "hex_digit n = (if n < 10 then char_of (48 + n) else char_of (87 + n))"

definition repr_char :: "char \<Rightarrow> char \<Rightarrow> string" where
  "repr_char q c =
     (let n = of_char c :: nat in
      if c = q \<or> c = CHR 0x5C then [CHR 0x5C, c]
      else if n = 9 then CHR 0x5C # ''t''
      else if n = 10 then CHR 0x5C # ''n''
      else if n = 13 then CHR 0x5C # ''r''
      else if n < 32 \<or> n = 127 then CHR 0x5C # ''x'' @ [hex_digit (n div 16), hex_digit (n mod 16)]
      else [c])"

definition py_repr :: "string \<Rightarrow> string" where
  "py_repr s =
     (let q = (if CHR 0x27 \<in> set s \<and> CHR 0x22 \<notin> set s then CHR 0x22 else CHR 0x27)
      in [q] @ concat (map (repr_char q) s) @ [q])"

section \<open>Path segments\<close>

text \<open>\<^verbatim>\<open>engine/artifacts.py\<close>, \<open>safe_segment\<close>: every run of other characters becomes one underscore.\<close>

definition segment_char :: "char \<Rightarrow> bool" where
  "segment_char c \<longleftrightarrow> word_char c \<or> c = CHR ''.'' \<or> c = CHR ''-''"

fun sub_unsafe :: "bool \<Rightarrow> string \<Rightarrow> string" where
  "sub_unsafe in_run [] = []"
| "sub_unsafe in_run (c # s) =
     (if segment_char c then c # sub_unsafe False s
      else if in_run then sub_unsafe True s else CHR ''_'' # sub_unsafe True s)"

definition strip_dots :: "string \<Rightarrow> string" where
  "strip_dots s =
     rev (dropWhile (\<lambda>c. c \<in> set ''._'') (rev (dropWhile (\<lambda>c. c \<in> set ''._'') s)))"

definition safe_segment :: "string \<Rightarrow> string" where
  "safe_segment value =
     (let s = strip_dots (sub_unsafe False value) in if s = [] then ''_'' else s)"

lemma sub_unsafe_chars: "c \<in> set (sub_unsafe b s) \<Longrightarrow> segment_char c"
  by (induction b s rule: sub_unsafe.induct) (auto simp: segment_char_def word_char_def split: if_splits)

lemma set_strip_dots: "set (strip_dots s) \<subseteq> set s"
  by (auto simp: strip_dots_def dest!: set_dropWhileD)

text \<open>One segment, and never one that walks out of its directory.\<close>

lemma safe_segment_chars: "c \<in> set (safe_segment v) \<Longrightarrow> segment_char c"
  using set_strip_dots[of "sub_unsafe False v"] sub_unsafe_chars[of c False v]
  by (auto simp: safe_segment_def Let_def segment_char_def word_char_def split: if_splits)

lemma strip_dots_hd: "strip_dots s \<noteq> [] \<Longrightarrow> last (strip_dots s) \<notin> set ''._''"
  unfolding strip_dots_def
  by (simp only: last_rev rev_is_Nil_conv) (metis (mono_tags, lifting) hd_dropWhile)

lemma safe_segment_stays: "safe_segment v \<noteq> [] \<and> CHR ''/'' \<notin> set (safe_segment v) \<and>
    CHR 0x5C \<notin> set (safe_segment v) \<and> safe_segment v \<noteq> ''.'' \<and> safe_segment v \<noteq> ''..''"
proof -
  have "CHR ''/'' \<notin> set (safe_segment v)" "CHR 0x5C \<notin> set (safe_segment v)"
    using safe_segment_chars[of "CHR ''/''" v] safe_segment_chars[of "CHR 0x5C" v]
    by (auto simp: segment_char_def word_char_def)
  moreover have "safe_segment v \<noteq> [] \<and> safe_segment v \<noteq> ''.'' \<and> safe_segment v \<noteq> ''..''"
  proof (cases "strip_dots (sub_unsafe False v) = []")
    case False
    then show ?thesis using strip_dots_hd[OF False] by (auto simp: safe_segment_def Let_def)
  qed (simp add: safe_segment_def)
  ultimately show ?thesis by blast
qed

lemma show_digits_chars: "0 \<le> n \<Longrightarrow> c \<in> set (show_digits n) \<Longrightarrow> digit c"
proof (induction n rule: show_digits.induct)
  case (1 n)
  have "digit (char_of (48 + k))" if "0 \<le> k" "k < 10" for k :: int
  proof -
    have "k = 0 \<or> k = 1 \<or> k = 2 \<or> k = 3 \<or> k = 4 \<or> k = 5 \<or> k = 6 \<or> k = 7 \<or> k = 8 \<or> k = 9"
      using that by presburger
    then show ?thesis by (elim disjE; simp only:; code_simp)
  qed
  then show ?case using 1 show_digits.simps[of n] by (auto split: if_splits)
qed

end
