(* ===== verification/Engine_Schemas.thy ===== *)
theory Engine_Schemas
  imports Memory_Schemas Py_Text
begin

text \<open>
  \<^verbatim>\<open>engine/schemas.py\<close>: the contract of the execution engine. Plans and their steps, element
  fingerprints, the configuration with per-run overrides, healing reports and results, with
  the declared constraints as \<open>valid_...\<close> predicates.
\<close>

section \<open>Enumerations\<close>

datatype action_type =
    AC_GOTO | AC_CLICK | AC_FILL | AC_PRESS | AC_SELECT | AC_CHECK | AC_UNCHECK | AC_HOVER |
    AC_UPLOAD | AC_DRAG | AC_ASSERT_TEXT | AC_ASSERT_VISIBLE | AC_ASSERT_HIDDEN | AC_ASSERT_URL |
    AC_ASSERT_VALUE | AC_WAIT_FOR

definition action_type_members :: "action_type list" where
  "action_type_members =
    [AC_GOTO, AC_CLICK, AC_FILL, AC_PRESS, AC_SELECT, AC_CHECK, AC_UNCHECK, AC_HOVER, AC_UPLOAD,
     AC_DRAG, AC_ASSERT_TEXT, AC_ASSERT_VISIBLE, AC_ASSERT_HIDDEN, AC_ASSERT_URL,
     AC_ASSERT_VALUE, AC_WAIT_FOR]"

fun action_type_value :: "action_type \<Rightarrow> string" where
  "action_type_value AC_GOTO = ''goto''"
| "action_type_value AC_CLICK = ''click''"
| "action_type_value AC_FILL = ''fill''"
| "action_type_value AC_PRESS = ''press''"
| "action_type_value AC_SELECT = ''select''"
| "action_type_value AC_CHECK = ''check''"
| "action_type_value AC_UNCHECK = ''uncheck''"
| "action_type_value AC_HOVER = ''hover''"
| "action_type_value AC_UPLOAD = ''upload''"
| "action_type_value AC_DRAG = ''drag''"
| "action_type_value AC_ASSERT_TEXT = ''assert_text''"
| "action_type_value AC_ASSERT_VISIBLE = ''assert_visible''"
| "action_type_value AC_ASSERT_HIDDEN = ''assert_hidden''"
| "action_type_value AC_ASSERT_URL = ''assert_url''"
| "action_type_value AC_ASSERT_VALUE = ''assert_value''"
| "action_type_value AC_WAIT_FOR = ''wait_for''"

interpretation action_enum: str_enum action_type_members action_type_value
proof unfold_locales
  fix x :: action_type
  show "x \<in> set action_type_members" by (cases x) (simp_all add: action_type_members_def)
  show "distinct (map action_type_value action_type_members)" by (simp add: action_type_members_def)
qed

datatype step_status =
    SS_PASSED | SS_FAILED | SS_HEALED

definition step_status_members :: "step_status list" where
  "step_status_members =
    [SS_PASSED, SS_FAILED, SS_HEALED]"

fun step_status_value :: "step_status \<Rightarrow> string" where
  "step_status_value SS_PASSED = ''passed''"
| "step_status_value SS_FAILED = ''failed''"
| "step_status_value SS_HEALED = ''healed''"

interpretation step_status_enum: str_enum step_status_members step_status_value
proof unfold_locales
  fix x :: step_status
  show "x \<in> set step_status_members" by (cases x) (simp_all add: step_status_members_def)
  show "distinct (map step_status_value step_status_members)" by (simp add: step_status_members_def)
qed

datatype run_status =
    RS_PASSED | RS_FAILED | RS_HEALED

definition run_status_members :: "run_status list" where
  "run_status_members =
    [RS_PASSED, RS_FAILED, RS_HEALED]"

fun run_status_value :: "run_status \<Rightarrow> string" where
  "run_status_value RS_PASSED = ''passed''"
| "run_status_value RS_FAILED = ''failed''"
| "run_status_value RS_HEALED = ''healed''"

interpretation run_status_enum: str_enum run_status_members run_status_value
proof unfold_locales
  fix x :: run_status
  show "x \<in> set run_status_members" by (cases x) (simp_all add: run_status_members_def)
  show "distinct (map run_status_value run_status_members)" by (simp add: run_status_members_def)
qed

section \<open>Element identity\<close>

record bounding_box =
  bb_x :: f64
  bb_y :: f64
  bb_width :: f64
  bb_height :: f64

definition valid_bounding_box :: "bounding_box \<Rightarrow> bool" where
  "valid_bounding_box b \<longleftrightarrow> 0 \<le> bb_width b \<and> 0 \<le> bb_height b"

record fingerprint =
  ef_tag :: "string option"
  ef_id :: "string option"
  ef_classes :: "string list"
  ef_text :: "string option"
  ef_role :: "string option"
  ef_aria_label :: "string option"
  ef_name :: "string option"
  ef_placeholder :: "string option"
  ef_attributes :: "(string \<times> string) list"
  ef_parent_chain :: "string list"
  ef_sibling_index :: "int option"
  ef_bounding_box :: "bounding_box option"

definition empty_fingerprint :: fingerprint where
  "empty_fingerprint =
     \<lparr>ef_tag = None, ef_id = None, ef_classes = [], ef_text = None, ef_role = None,
      ef_aria_label = None, ef_name = None, ef_placeholder = None, ef_attributes = [],
      ef_parent_chain = [], ef_sibling_index = None, ef_bounding_box = None\<rparr>"

record engine_target =
  tg_description :: string
  tg_primary_locator :: string
  tg_fallback_locators :: "string list"
  tg_fingerprint :: "fingerprint option"

section \<open>Plans\<close>

record engine_step =
  es_step_id :: string
  es_action :: action_type
  es_target :: "engine_target option"
  es_value :: "string option"
  es_expected :: "string option"
  es_exact :: bool
  es_timeout_ms :: int

text \<open>\<open>Step(step_id=i, action=a)\<close> with every other field at its default.\<close>

definition engine_step_of :: "string \<Rightarrow> action_type \<Rightarrow> engine_step" where
  "engine_step_of i a =
     \<lparr>es_step_id = i, es_action = a, es_target = None, es_value = None, es_expected = None,
      es_exact = False, es_timeout_ms = 5000\<rparr>"

definition valid_engine_step :: "engine_step \<Rightarrow> bool" where
  "valid_engine_step s \<longleftrightarrow> 0 \<le> es_timeout_ms s"

record engine_plan =
  ep_test_id :: string
  ep_name :: string
  ep_base_url :: string
  ep_steps :: "engine_step list"

definition valid_engine_plan :: "engine_plan \<Rightarrow> bool" where
  "valid_engine_plan p \<longleftrightarrow> ep_steps p \<noteq> [] \<and> list_all valid_engine_step (ep_steps p)"

section \<open>Configuration\<close>

record engine_config =
  nc_viewport :: string
  nc_visual_full_page :: bool
  nc_browser :: string
  nc_heal_threshold :: f64
  nc_default_timeout_ms :: int
  nc_headless :: bool
  nc_artifacts_dir :: string
  nc_slow_mo_ms :: int
  nc_tracing_enabled :: bool
  nc_max_candidates :: int
  nc_min_action_timeout_ms :: int
  nc_quick_heal_ms :: int

text \<open>The pattern of a window size: \<open>^[1-9]\d{2,3}x[1-9]\d{2,3}$\<close>.\<close>

definition window_side :: "string \<Rightarrow> bool" where
  "window_side s \<longleftrightarrow> length s \<in> {3, 4} \<and> list_all digit s \<and> hd s \<noteq> CHR ''0''"

definition valid_viewport :: "string \<Rightarrow> bool" where
  "valid_viewport s \<longleftrightarrow>
     window_side (takeWhile (\<lambda>c. c \<noteq> CHR ''x'') s) \<and>
     (case dropWhile (\<lambda>c. c \<noteq> CHR ''x'') s of [] \<Rightarrow> False | _ # h \<Rightarrow> window_side h)"

definition browser_names :: "string list" where
  "browser_names = [''chromium'', ''firefox'', ''webkit'']"

definition valid_engine_config :: "engine_config \<Rightarrow> bool" where
  "valid_engine_config c \<longleftrightarrow>
     valid_viewport (nc_viewport c) \<and> nc_browser c \<in> set browser_names \<and>
     unit_interval (nc_heal_threshold c) \<and> 0 \<le> nc_default_timeout_ms c \<and> 0 \<le> nc_slow_mo_ms c \<and>
     1 \<le> nc_max_candidates c \<and> 0 \<le> nc_min_action_timeout_ms c \<and> 0 \<le> nc_quick_heal_ms c"

text \<open>\<open>EngineConfig()\<close>: three defaults come from the environment, unchecked.\<close>

definition or_default :: "string \<Rightarrow> string \<Rightarrow> string" where
  "or_default s d = (if s = [] then d else s)"

definition default_engine_config :: "(string \<Rightarrow> string option) \<Rightarrow> engine_config" where
  "default_engine_config env =
     (let get = (\<lambda>k d. case env k of None \<Rightarrow> d | Some v \<Rightarrow> strip v)
      in \<lparr>nc_viewport = or_default (get ''ENGINE_VIEWPORT'' ''1280x720'') ''1280x720'',
          nc_visual_full_page = lower (get ''VISUAL_FULL_PAGE'' ''false'') \<in> {''true'', ''1''},
          nc_browser = or_default (lower (get ''ENGINE_BROWSER'' ''chromium'')) ''chromium'',
          nc_heal_threshold = fl 0.75, nc_default_timeout_ms = 5000, nc_headless = True,
          nc_artifacts_dir = ''artifacts'', nc_slow_mo_ms = 0, nc_tracing_enabled = False,
          nc_max_candidates = 20, nc_min_action_timeout_ms = 10000, nc_quick_heal_ms = 1500\<rparr>)"

record run_options =
  ro_heal_threshold :: "f64 option"
  ro_default_timeout_ms :: "int option"
  ro_headless :: "bool option"
  ro_artifacts_dir :: "string option"
  ro_slow_mo_ms :: "int option"
  ro_tracing_enabled :: "bool option"
  ro_max_candidates :: "int option"
  ro_min_action_timeout_ms :: "int option"
  ro_quick_heal_ms :: "int option"
  ro_browser :: "string option"
  ro_viewport :: "string option"

definition valid_run_options :: "run_options \<Rightarrow> bool" where
  "valid_run_options r \<longleftrightarrow>
     pred_option unit_interval (ro_heal_threshold r) \<and>
     pred_option (\<lambda>n. 0 \<le> n) (ro_default_timeout_ms r) \<and> pred_option (\<lambda>n. 0 \<le> n) (ro_slow_mo_ms r) \<and>
     pred_option (\<lambda>n. 1 \<le> n) (ro_max_candidates r) \<and>
     pred_option (\<lambda>n. 0 \<le> n) (ro_min_action_timeout_ms r) \<and>
     pred_option (\<lambda>n. 0 \<le> n) (ro_quick_heal_ms r) \<and>
     pred_option (\<lambda>b. b \<in> set browser_names) (ro_browser r) \<and> pred_option valid_viewport (ro_viewport r)"

text \<open>\<open>RunOptions.merged\<close>: every option that is given replaces the field it names.\<close>

definition or_else :: "'a option \<Rightarrow> 'a \<Rightarrow> 'a" where
  "or_else x d = (case x of None \<Rightarrow> d | Some v \<Rightarrow> v)"

definition merged :: "run_options \<Rightarrow> engine_config \<Rightarrow> engine_config" where
  "merged r base =
     base\<lparr>nc_viewport := or_else (ro_viewport r) (nc_viewport base),
       nc_browser := or_else (ro_browser r) (nc_browser base),
       nc_heal_threshold := or_else (ro_heal_threshold r) (nc_heal_threshold base),
       nc_default_timeout_ms := or_else (ro_default_timeout_ms r) (nc_default_timeout_ms base),
       nc_headless := or_else (ro_headless r) (nc_headless base),
       nc_artifacts_dir := or_else (ro_artifacts_dir r) (nc_artifacts_dir base),
       nc_slow_mo_ms := or_else (ro_slow_mo_ms r) (nc_slow_mo_ms base),
       nc_tracing_enabled := or_else (ro_tracing_enabled r) (nc_tracing_enabled base),
       nc_max_candidates := or_else (ro_max_candidates r) (nc_max_candidates base),
       nc_min_action_timeout_ms := or_else (ro_min_action_timeout_ms r) (nc_min_action_timeout_ms base),
       nc_quick_heal_ms := or_else (ro_quick_heal_ms r) (nc_quick_heal_ms base)\<rparr>"

section \<open>Results\<close>

record healing_signals =
  sg_attribute :: f64
  sg_text :: f64
  sg_position :: f64
  sg_structure :: f64

definition no_signals :: healing_signals where
  "no_signals = \<lparr>sg_attribute = 0, sg_text = 0, sg_position = 0, sg_structure = 0\<rparr>"

definition valid_signals :: "healing_signals \<Rightarrow> bool" where
  "valid_signals s \<longleftrightarrow> unit_interval (sg_attribute s) \<and> unit_interval (sg_text s) \<and>
     unit_interval (sg_position s) \<and> unit_interval (sg_structure s)"

record engine_candidate =
  kc_locator :: string
  kc_score :: f64
  kc_signals :: healing_signals

definition valid_engine_candidate :: "engine_candidate \<Rightarrow> bool" where
  "valid_engine_candidate c \<longleftrightarrow> unit_interval (kc_score c) \<and> valid_signals (kc_signals c)"

record healing_report =
  hp_original_locator :: string
  hp_candidates :: "engine_candidate list"
  hp_selected_locator :: "string option"
  hp_report_confidence :: f64
  hp_strategy_used :: string

definition valid_healing_report :: "healing_report \<Rightarrow> bool" where
  "valid_healing_report r \<longleftrightarrow> list_all valid_engine_candidate (hp_candidates r) \<and>
     unit_interval (hp_report_confidence r)"

record step_result =
  sr_step_id :: string
  sr_status :: step_status
  sr_error :: "string option"
  sr_duration_ms :: int
  sr_locator_used :: "string option"
  sr_healing :: "healing_report option"
  sr_screenshot_path :: "string option"
  sr_dom_snapshot_path :: "string option"
  sr_page_url :: "string option"
  sr_console_logs :: "string list"
  sr_network_errors :: "string list"

record run_result =
  tr_test_id :: string
  tr_status :: run_status
  tr_started_at :: string
  tr_duration_ms :: int
  tr_steps :: "step_result list"
  tr_artifacts_dir :: string
  tr_visual :: "(string \<times> pyval) list option"

definition passed_count :: "run_result \<Rightarrow> nat" where
  "passed_count r = count_if (\<lambda>s. sr_status s = SS_PASSED) (tr_steps r)"

definition failed_count :: "run_result \<Rightarrow> nat" where
  "failed_count r = count_if (\<lambda>s. sr_status s = SS_FAILED) (tr_steps r)"

definition healed_count :: "run_result \<Rightarrow> nat" where
  "healed_count r = count_if (\<lambda>s. sr_status s = SS_HEALED) (tr_steps r)"

section \<open>Overrides\<close>

lemma or_else_simps [simp]: "or_else None d = d" "or_else (Some v) d = v"
  by (simp_all add: or_else_def)

lemma pred_or_else: "pred_option P x \<Longrightarrow> P d \<Longrightarrow> P (or_else x d)"
  by (cases x) simp_all

lemma merged_valid: "valid_run_options r \<Longrightarrow> valid_engine_config c \<Longrightarrow> valid_engine_config (merged r c)"
  unfolding valid_run_options_def valid_engine_config_def merged_def
  by (simp add: pred_or_else[where P = valid_viewport] pred_or_else[where P = unit_interval]
      pred_or_else[where P = "\<lambda>b. b \<in> set browser_names"] pred_or_else[where P = "\<lambda>n. 0 \<le> n"]
      pred_or_else[where P = "\<lambda>n. 1 \<le> n"])

lemma step_counts: "passed_count r + failed_count r + healed_count r = length (tr_steps r)"
proof -
  have "count_if (\<lambda>s. sr_status s = SS_PASSED) xs + count_if (\<lambda>s. sr_status s = SS_FAILED) xs +
      count_if (\<lambda>s. sr_status s = SS_HEALED) xs = length xs" for xs :: "step_result list"
  proof (induction xs)
    case (Cons x xs)
    then show ?case by (cases "sr_status x") (simp_all add: count_if_def)
  qed (simp add: count_if_def)
  then show ?thesis by (simp add: passed_count_def failed_count_def healed_count_def)
qed

end
