(* ===== verification/Locators.thy ===== *)
theory Locators
  imports Engine_Schemas
begin

text \<open>
  \<^verbatim>\<open>engine/locators.py\<close>: the locators of a fingerprint, most stable first, and the ranking of
  arbitrary locator strings by the same stability classes; then the detector, \<^verbatim>\<open>engine/detector.py\<close>.
\<close>

section \<open>Building locators\<close>

definition dquote :: string where
  "dquote = [CHR 0x22]"

definition in_dquotes :: "string \<Rightarrow> string" where
  "in_dquotes s = dquote @ s @ dquote"

text \<open>\<open>s.replace('"', '\"')\<close>\<close>

definition escape_dquotes :: "string \<Rightarrow> string" where
  "escape_dquotes s = concat (map (\<lambda>c. if c = CHR 0x22 then [CHR 0x5C, CHR 0x22] else [c]) s)"

text \<open>\<open>[key="value"]\<close>\<close>

definition attr_selector :: "string \<Rightarrow> string \<Rightarrow> string" where
  "attr_selector key v = ''['' @ key @ ''='' @ in_dquotes v @ '']''"

definition has_text :: "string \<Rightarrow> string" where
  "has_text t = '':has-text('' @ in_dquotes t @ '')''"

definition truthy :: "string option \<Rightarrow> bool" where
  "truthy s \<longleftrightarrow> or_empty s \<noteq> []"

definition p_testid :: nat where "p_testid = 0"
definition p_role :: nat where "p_role = 1"
definition p_id :: nat where "p_id = 2"
definition p_aria :: nat where "p_aria = 3"
definition p_attr :: nat where "p_attr = 4"
definition p_css :: nat where "p_css = 5"
definition p_xpath :: nat where "p_xpath = 6"

definition or_str :: "string option \<Rightarrow> string option \<Rightarrow> string option" where
  "or_str a b = (if truthy a then a else b)"

text \<open>
  The locators with their classes, in the order the code appends them; None where the
  condition of the append does not hold.
\<close>

definition given :: "bool \<Rightarrow> string \<Rightarrow> string option" where
  "given b s = (if b then Some s else None)"

definition locator_entries :: "fingerprint \<Rightarrow> (nat \<times> string option) list" where
  "locator_entries fp =
     (let tag = (if truthy (ef_tag fp) then or_empty (ef_tag fp) else ''*'');
          dt = or_str (map_of (ef_attributes fp) ''data-testid'') (map_of (ef_attributes fp) ''data-test-id'');
          txt = escape_dquotes (take 80 (or_empty (ef_text fp)));
          role = or_empty (ef_role fp); aria = or_empty (ef_aria_label fp);
          type = map_of (ef_attributes fp) ''type'';
          cls = concat (map (\<lambda>c. if c = [] then [] else ''.'' @ c) (ef_classes fp))
      in [(p_testid, given (truthy dt) (attr_selector ''data-testid'' (or_empty dt))),
          (p_role,
           if truthy (ef_role fp) \<and> truthy (ef_aria_label fp)
           then Some (attr_selector ''role'' role @ attr_selector ''aria-label'' aria)
           else given (truthy (ef_role fp) \<and> truthy (ef_text fp)) (attr_selector ''role'' role @ has_text txt)),
          (p_id, given (truthy (ef_id fp)) (''#'' @ or_empty (ef_id fp))),
          (p_aria, given (truthy (ef_aria_label fp)) (attr_selector ''aria-label'' aria)),
          (p_attr, given (truthy (ef_name fp)) (tag @ attr_selector ''name'' (or_empty (ef_name fp)))),
          (p_attr, given (truthy (ef_placeholder fp))
             (attr_selector ''placeholder'' (or_empty (ef_placeholder fp)))),
          (p_attr, given (truthy (ef_text fp)) (tag @ has_text txt)),
          (p_attr, given (truthy type) (tag @ ''[type='' @ quoted (or_empty type) @ '']'')),
          (p_css, given (cls \<noteq> []) (tag @ cls)),
          (p_xpath, Some
             (if truthy (ef_id fp) then ''//'' @ tag @ ''[@id='' @ in_dquotes (or_empty (ef_id fp)) @ '']''
              else if truthy (ef_text fp)
              then ''//'' @ tag @ ''[contains(normalize-space(),'' @ in_dquotes txt @ '')]''
              else ''//'' @ tag))])"

fun appended :: "(nat \<times> string option) list \<Rightarrow> (nat \<times> string) list" where
  "appended [] = []"
| "appended ((p, None) # es) = appended es"
| "appended ((p, Some s) # es) = (p, s) # appended es"

definition locator_candidates :: "fingerprint \<Rightarrow> (nat \<times> string) list" where
  "locator_candidates fp = appended (locator_entries fp)"

definition generate_locators :: "fingerprint \<Rightarrow> string list" where
  "generate_locators fp =
     dedup (filter (\<lambda>s. s \<noteq> []) (map snd (sort_key fst (locator_candidates fp))))"

section \<open>Ranking locators\<close>

definition locator_priority :: "string \<Rightarrow> nat" where
  "locator_priority loc =
     (if contains ''data-testid'' loc \<or> contains ''data-test-id'' loc then p_testid
      else if starts_with loc ''[role='' \<and> (contains ''[aria-label='' loc \<or> contains '':has-text('' loc) then p_role
      else if starts_with loc ''#'' then p_id
      else if starts_with loc ''[aria-label='' then p_aria
      else if contains '':has-text('' loc \<or> contains ''[name='' loc \<or> contains ''[placeholder='' loc \<or>
        contains ''[type='' loc \<or> contains (''[type='' @ [CHR 0x27]) loc then p_attr
      else if starts_with loc ''//'' \<or> starts_with loc ''(//'' then p_xpath
      else p_css)"

definition rank_locators :: "string list \<Rightarrow> string list" where
  "rank_locators locators = sort_key locator_priority locators"

section \<open>The classes of the generated locators\<close>

lemma appended_subset: "(p, s) \<in> set (appended es) \<longleftrightarrow> (p, Some s) \<in> set es"
  by (induction es rule: appended.induct) auto

lemma appended_sorted: "sorted (map fst es) \<Longrightarrow> sorted (map fst (appended es))"
proof (induction es rule: appended.induct)
  case (3 p s es)
  then show ?case using appended_subset by fastforce
qed auto

lemma locator_candidates_sorted: "sorted (map fst (locator_candidates fp))"
proof -
  have "map fst (locator_entries fp) =
      [p_testid, p_role, p_id, p_aria, p_attr, p_attr, p_attr, p_attr, p_css, p_xpath]"
    by (simp add: locator_entries_def Let_def)
  then show ?thesis unfolding locator_candidates_def
    by (intro appended_sorted) (simp add: p_testid_def p_role_def p_id_def p_aria_def p_attr_def p_css_def
        p_xpath_def)
qed

lemma given_Some: "given b s = Some t \<longleftrightarrow> b \<and> t = s"
  by (auto simp: given_def)

lemma built_nonempty [simp]:
  "attr_selector k v \<noteq> []" "has_text t \<noteq> []"
  by (simp_all add: attr_selector_def has_text_def)

lemma locator_entries_nonempty: "list_all (\<lambda>(p, s). s \<noteq> Some []) (locator_entries fp)"
  unfolding locator_entries_def Let_def list.pred_inject prod.case
  by (intro conjI; simp add: given_def)

lemma locator_candidates_nonempty: "(p, s) \<in> set (locator_candidates fp) \<Longrightarrow> s \<noteq> []"
  using locator_entries_nonempty[of fp]
  by (auto simp: locator_candidates_def appended_subset list_all_iff)

text \<open>The sort and the emptiness test of the code change nothing.\<close>

lemma generate_locators_eq: "generate_locators fp = dedup (map snd (locator_candidates fp))"
proof -
  have "filter (\<lambda>s. s \<noteq> []) (map snd (locator_candidates fp)) = map snd (locator_candidates fp)"
    using locator_candidates_nonempty by (force simp: filter_id_conv)
  moreover have "sort_key fst (locator_candidates fp) = locator_candidates fp"
    by (rule sort_key_id_if_sorted[OF locator_candidates_sorted])
  ultimately show ?thesis by (simp add: generate_locators_def)
qed

lemma generate_locators_nonempty: "generate_locators fp \<noteq> []"
proof -
  have "fst (last (locator_entries fp)) = p_xpath" "snd (last (locator_entries fp)) \<noteq> None"
    by (simp_all add: locator_entries_def Let_def)
  moreover have "last (locator_entries fp) \<in> set (locator_entries fp)"
    by (rule last_in_set) (simp add: locator_entries_def Let_def)
  ultimately obtain x where "(p_xpath, Some x) \<in> set (locator_entries fp)"
    by (metis option.exhaust prod.collapse)
  then have "(p_xpath, x) \<in> set (locator_candidates fp)"
    by (simp add: locator_candidates_def appended_subset)
  then have "x \<in> set (generate_locators fp)"
    unfolding generate_locators_eq set_dedup by (force intro: image_eqI[where x = "(p_xpath, x)"])
  then show ?thesis by auto
qed

section \<open>The detector\<close>

text \<open>
  \<^verbatim>\<open>engine/detector.py\<close>: fingerprints of located elements and candidate locators of a live page.
  The page is a parameter, the record \<open>browser_page\<close>: what Playwright answers to each query
  (None where the call raises), including the two scripts that run in the browser.
\<close>

record raw_element =
  rw_tag :: "string option"
  rw_id :: "string option"
  rw_testid :: "string option"
  rw_aria_label :: "string option"
  rw_name :: "string option"
  rw_text :: "string option"
  rw_classes :: "string list"

text \<open>
  \<open>bp_count\<close> and \<open>bp_visible\<close>: \<open>page.locator(s).count()\<close> and \<open>.first.is_visible()\<close>;
  \<open>bp_evaluate\<close>: the fingerprint script on the first match (without a bounding box);
  \<open>bp_box\<close>: \<open>.first.bounding_box()\<close>; \<open>bp_query\<close>: the candidate script.
\<close>

record browser_page =
  bp_count :: "string \<Rightarrow> int option"
  bp_visible :: "string \<Rightarrow> bool option"
  bp_evaluate :: "string \<Rightarrow> fingerprint option"
  bp_box :: "string \<Rightarrow> bounding_box option option"
  bp_query :: "string list \<Rightarrow> int \<Rightarrow> raw_element list option"

definition interactive_selectors :: "string list" where
  "interactive_selectors =
     [''button'', ''input'', ''a'', ''select'', ''textarea'', ''[role]'', ''[data-testid]'', ''[aria-label]'']"

definition build_fingerprint :: "browser_page \<Rightarrow> string \<Rightarrow> fingerprint option" where
  "build_fingerprint page locator_str =
     (case bp_evaluate page locator_str of
        None \<Rightarrow> None
      | Some info \<Rightarrow>
          (case bp_box page locator_str of
             None \<Rightarrow> None
           | Some None \<Rightarrow> Some (info\<lparr>ef_bounding_box := None\<rparr>)
           | Some (Some b) \<Rightarrow>
               if valid_bounding_box b then Some (info\<lparr>ef_bounding_box := Some b\<rparr>) else None))"

definition best_locator :: "raw_element \<Rightarrow> string option" where
  "best_locator info =
     (let tag = lower (if truthy (rw_tag info) then or_empty (rw_tag info) else ''element'');
          text = strip (or_empty (rw_text info))
      in if truthy (rw_id info) then Some (''#'' @ or_empty (rw_id info))
         else if truthy (rw_testid info) then Some (attr_selector ''data-testid'' (or_empty (rw_testid info)))
         else if truthy (rw_aria_label info)
         then Some (attr_selector ''aria-label'' (escape_dquotes (or_empty (rw_aria_label info))))
         else if truthy (rw_name info) then Some (tag @ attr_selector ''name'' (or_empty (rw_name info)))
         else if text \<noteq> []
         then Some (''//'' @ tag @ ''[contains(normalize-space(),'' @ in_dquotes (escape_dquotes text) @ '')]'')
         else (case rw_classes info of [] \<Rightarrow> None | c # _ \<Rightarrow> Some (tag @ ''.'' @ c)))"

fun raw_to_locators_from :: "string list \<Rightarrow> raw_element list \<Rightarrow> int \<Rightarrow> string list" where
  "raw_to_locators_from result [] limit = result"
| "raw_to_locators_from result (info # raw) limit =
     (case best_locator info of
        None \<Rightarrow> raw_to_locators_from result raw limit
      | Some loc \<Rightarrow>
          if loc = [] \<or> loc \<in> set result then raw_to_locators_from result raw limit
          else if limit \<le> int (length result) + 1 then result @ [loc]
          else raw_to_locators_from (result @ [loc]) raw limit)"

definition raw_to_locators :: "raw_element list \<Rightarrow> int \<Rightarrow> string list" where
  "raw_to_locators raw limit = raw_to_locators_from [] raw limit"

definition extract_candidates :: "browser_page \<Rightarrow> fingerprint \<Rightarrow> int \<Rightarrow> string list" where
  "extract_candidates page fp max_candidates =
     (let tag = (if truthy (ef_tag fp) then or_empty (ef_tag fp) else ''button'')
      in case bp_query page (dedup (tag # interactive_selectors)) max_candidates of
           None \<Rightarrow> []
         | Some raw \<Rightarrow> raw_to_locators raw max_candidates)"

section \<open>The harvested locators\<close>

lemma raw_to_locators_from_props:
  assumes "distinct result" "[] \<notin> set result" "int (length result) < limit"
  shows "distinct (raw_to_locators_from result raw limit) \<and>
    [] \<notin> set (raw_to_locators_from result raw limit) \<and>
    int (length (raw_to_locators_from result raw limit)) \<le> limit"
  using assms
  by (induction result raw limit rule: raw_to_locators_from.induct) (auto split: option.splits)

lemma extract_candidates_props:
  assumes "1 \<le> n"
  shows "distinct (extract_candidates page fp n)" "[] \<notin> set (extract_candidates page fp n)"
    "int (length (extract_candidates page fp n)) \<le> n"
proof -
  have "distinct (raw_to_locators raw n) \<and> [] \<notin> set (raw_to_locators raw n) \<and>
      int (length (raw_to_locators raw n)) \<le> n" for raw
    unfolding raw_to_locators_def using assms by (intro raw_to_locators_from_props) auto
  then show "distinct (extract_candidates page fp n)" "[] \<notin> set (extract_candidates page fp n)"
    "int (length (extract_candidates page fp n)) \<le> n"
    using assms by (auto simp: extract_candidates_def Let_def split: option.splits)
qed

lemma build_fingerprint_box:
  "build_fingerprint page s = Some fp \<Longrightarrow> ef_bounding_box fp = Some b \<Longrightarrow> valid_bounding_box b"
  by (auto simp: build_fingerprint_def split: option.splits if_splits)

end
