(* ===== verification/Engine_Healer.thy ===== *)
theory Engine_Healer
  imports Locators
begin

text \<open>
  \<^verbatim>\<open>engine/healer.py\<close>: the engine's own repair of a broken locator, during a run. Stored
  fallbacks first, then a scan of the live page against the stored fingerprint, each candidate
  scored on four signals. The fuzzy text ratio of the \<^verbatim>\<open>rapidfuzz\<close> package is a parameter;
  \<open>ratio_in_range\<close> is its documented range.
\<close>

type_synonym fuzzy_ratio = "string \<Rightarrow> string \<Rightarrow> f64"

definition ratio_in_range :: "fuzzy_ratio \<Rightarrow> bool" where
  "ratio_in_range fuzz \<longleftrightarrow> (\<forall>s t. 0 \<le> fuzz s t \<and> fuzz s t \<le> 100)"

section \<open>Constants\<close>

definition w_attribute :: f64 where "w_attribute = fl 0.40"
definition w_text :: f64 where "w_text = fl 0.20"
definition w_position :: f64 where "w_position = fl 0.20"
definition w_structure :: f64 where "w_structure = fl 0.20"
definition fallback_without_fingerprint :: f64 where "fallback_without_fingerprint = fl 0.80"
definition heal_ambiguity_margin :: f64 where "heal_ambiguity_margin = fl 0.05"
definition position_falloff_px :: f64 where "position_falloff_px = 300"
definition id_anchor_score :: f64 where "id_anchor_score = fl 0.85"
definition no_identity_cap :: f64 where "no_identity_cap = fl 0.6"
definition text_same :: f64 where "text_same = fl 0.8"

definition stable_attrs :: "string list" where
  "stable_attrs = [''data-testid'', ''data-test-id'', ''type'', ''autocomplete'', ''href'', ''for'']"

definition field_of_attr :: "(string \<times> (fingerprint \<Rightarrow> string option)) list" where
  "field_of_attr = [(''id'', ef_id), (''name'', ef_name), (''placeholder'', ef_placeholder),
     (''aria-label'', ef_aria_label), (''role'', ef_role)]"

section \<open>Attributes of the broken locator\<close>

definition attr_char :: "char \<Rightarrow> bool" where
  "attr_char c \<longleftrightarrow> word_char c \<or> c = CHR '':'' \<or> c = CHR ''-''"

text \<open>\<open>\[\s*([\w:-]+)\s*[~|^$*]?=\<close> at the start of a string: the name it captures.\<close>

definition locator_attr_here :: "string \<Rightarrow> string option" where
  "locator_attr_here s =
     (case s of
        [] \<Rightarrow> None
      | c # t \<Rightarrow>
          if c \<noteq> CHR ''['' then None
          else
            let u = dropWhile is_space t; name = takeWhile attr_char u;
                v = dropWhile is_space (dropWhile attr_char u);
                w = (case v of [] \<Rightarrow> [] | d # v' \<Rightarrow> if d \<in> set ''~|^$*'' then v' else v)
            in if name \<noteq> [] \<and> prefix ''='' w then Some name else None)"

fun locator_attrs :: "string \<Rightarrow> string list" where
  "locator_attrs [] = []"
| "locator_attrs (c # s) =
     (case locator_attr_here (c # s) of None \<Rightarrow> locator_attrs s | Some a \<Rightarrow> a # locator_attrs s)"

text \<open>\<open>#([\w-]+)\<close> anywhere in the string.\<close>

fun has_locator_id :: "string \<Rightarrow> bool" where
  "has_locator_id [] = False"
| "has_locator_id (c # s) =
     (c = CHR ''#'' \<and> (case s of [] \<Rightarrow> False | d # _ \<Rightarrow> word_char d \<or> d = CHR ''-'') \<or> has_locator_id s)"

definition broken_attributes :: "string \<Rightarrow> string list" where
  "broken_attributes primary_locator =
     locator_attrs primary_locator @ (if has_locator_id primary_locator then [''id''] else [])"

section \<open>Signals\<close>

definition text_like :: "string list" where
  "text_like = ['''', ''text'', ''email'', ''password'', ''search'', ''tel'', ''url'', ''number'']"

definition input_kind :: "fingerprint \<Rightarrow> string option" where
  "input_kind fp =
     (if ef_tag fp \<noteq> Some ''input'' then None
      else
        let kind = lower (or_empty (map_of (ef_attributes fp) ''type''))
        in Some (if kind \<in> set text_like then ''text'' else kind))"

definition of_match :: "bool \<Rightarrow> f64" where
  "of_match b = (if b then 1 else 0)"

definition text_ratio :: "fuzzy_ratio \<Rightarrow> fingerprint \<Rightarrow> fingerprint \<Rightarrow> f64" where
  "text_ratio fuzz stored live = fl (fuzz (or_empty (ef_text stored)) (or_empty (ef_text live)) / 100)"

definition identity_checks :: "fuzzy_ratio \<Rightarrow> fingerprint \<Rightarrow> fingerprint \<Rightarrow> string list \<Rightarrow> bool list" where
  "identity_checks fuzz stored live ignore =
     [get live = get stored. (attr, get) \<leftarrow> field_of_attr,
        attr \<noteq> ''role'' \<and> attr \<notin> set ignore \<and> truthy (get stored)] @
     (if truthy (ef_text stored)
      then [truthy (ef_text live) \<and> text_same \<le> text_ratio fuzz stored live] else []) @
     (if truthy (map_of (ef_attributes stored) ''href'') \<and> ''href'' \<notin> set ignore
      then [map_of (ef_attributes live) ''href'' = map_of (ef_attributes stored) ''href''] else [])"

definition identity_matches :: "fuzzy_ratio \<Rightarrow> fingerprint \<Rightarrow> fingerprint \<Rightarrow> string list \<Rightarrow> bool option" where
  "identity_matches fuzz stored live ignore =
     (let checks = identity_checks fuzz stored live ignore
      in if checks = [] then None else Some (True \<in> set checks))"

definition class_overlap :: "string list \<Rightarrow> string list \<Rightarrow> f64" where
  "class_overlap a b =
     fl (of_nat (card (set a \<inter> set b)) / of_nat (card (set a \<union> set b)))"

definition attribute_checks :: "fingerprint \<Rightarrow> fingerprint \<Rightarrow> string list \<Rightarrow> f64 list" where
  "attribute_checks stored live ignore =
     [of_match (get live = get stored). (attr, get) \<leftarrow> field_of_attr,
        truthy (get stored) \<and> attr \<notin> set ignore] @
     [of_match (map_of (ef_attributes live) key = map_of (ef_attributes stored) key). key \<leftarrow> stable_attrs,
        key \<notin> set ignore \<and> truthy (map_of (ef_attributes stored) key)] @
     (if ef_classes stored \<noteq> [] then [class_overlap (ef_classes stored) (ef_classes live)] else [])"

definition mean_or_half :: "f64 list \<Rightarrow> f64" where
  "mean_or_half xs = (if xs = [] then 1/2 else fl (float_sum xs / of_nat (length xs)))"

definition attribute_signal :: "fingerprint \<Rightarrow> fingerprint \<Rightarrow> string list \<Rightarrow> f64" where
  "attribute_signal stored live ignore = mean_or_half (attribute_checks stored live ignore)"

definition text_signal :: "fuzzy_ratio \<Rightarrow> fingerprint \<Rightarrow> fingerprint \<Rightarrow> f64" where
  "text_signal fuzz stored live =
     (if \<not> truthy (ef_text stored) \<and> \<not> truthy (ef_text live) then 1
      else if \<not> truthy (ef_text stored) \<or> \<not> truthy (ef_text live) then 0
      else text_ratio fuzz stored live)"

definition centre :: "f64 \<Rightarrow> f64 \<Rightarrow> f64" where
  "centre start extent = fl (start + fl (extent / 2))"

definition position_signal :: "fingerprint \<Rightarrow> fingerprint \<Rightarrow> f64" where
  "position_signal stored live =
     (case (ef_bounding_box stored, ef_bounding_box live) of
        (Some a, Some b) \<Rightarrow>
          let dx = fl (centre (bb_x a) (bb_width a) - centre (bb_x b) (bb_width b));
              dy = fl (centre (bb_y a) (bb_height a) - centre (bb_y b) (bb_height b));
              distance = py_sqrt (fl (fl (dx * dx) + fl (dy * dy)))
          in max 0 (fl (1 - fl (distance / position_falloff_px)))
      | _ \<Rightarrow> 1/2)"

definition structure_parts :: "fingerprint \<Rightarrow> fingerprint \<Rightarrow> f64 list" where
  "structure_parts stored live =
     (if ef_parent_chain stored \<noteq> [] \<or> ef_parent_chain live \<noteq> []
      then [fl (of_nat (count_if (\<lambda>(x, y). x = y) (zip (ef_parent_chain stored) (ef_parent_chain live))) /
                of_nat (max (length (ef_parent_chain stored)) (length (ef_parent_chain live))))]
      else []) @
     (if ef_sibling_index stored \<noteq> None
      then [of_match (ef_sibling_index stored = ef_sibling_index live)] else [])"

definition structure_signal :: "fingerprint \<Rightarrow> fingerprint \<Rightarrow> f64" where
  "structure_signal stored live = mean_or_half (structure_parts stored live)"

section \<open>Scoring\<close>

definition signals_of :: "fuzzy_ratio \<Rightarrow> fingerprint \<Rightarrow> fingerprint \<Rightarrow> string list \<Rightarrow> healing_signals" where
  "signals_of fuzz stored live ignore =
     \<lparr>sg_attribute = attribute_signal stored live ignore, sg_text = text_signal fuzz stored live,
      sg_position = position_signal stored live, sg_structure = structure_signal stored live\<rparr>"

definition weighted_score :: "healing_signals \<Rightarrow> f64" where
  "weighted_score s =
     fl (fl (fl (fl (w_attribute * sg_attribute s) + fl (w_text * sg_text s)) +
         fl (w_position * sg_position s)) + fl (w_structure * sg_structure s))"

definition different_control :: "fingerprint \<Rightarrow> fingerprint \<Rightarrow> bool" where
  "different_control stored live \<longleftrightarrow>
     truthy (ef_tag stored) \<and> truthy (ef_tag live) \<and> ef_tag stored \<noteq> ef_tag live \<or>
     input_kind stored \<noteq> input_kind live"

text \<open>The identity rules: the cap on look-alikes and the floor under an unchanged identifier.\<close>

definition identity_adjusted ::
  "fuzzy_ratio \<Rightarrow> fingerprint \<Rightarrow> fingerprint \<Rightarrow> string list \<Rightarrow> f64 \<Rightarrow> f64" where
  "identity_adjusted fuzz stored live ignore score =
     (if identity_matches fuzz stored live ignore = Some False then min score no_identity_cap
      else if ''id'' \<notin> set ignore \<and> truthy (ef_id stored) \<and> ef_id live = ef_id stored
      then max score id_anchor_score
      else score)"

definition score_fingerprint ::
  "fuzzy_ratio \<Rightarrow> fingerprint \<Rightarrow> fingerprint \<Rightarrow> string list \<Rightarrow> f64 \<times> healing_signals" where
  "score_fingerprint fuzz stored live ignore =
     (if different_control stored live then 0
      else py_round 4 (min (max (identity_adjusted fuzz stored live ignore
             (weighted_score (signals_of fuzz stored live ignore))) 0) 1),
      signals_of fuzz stored live ignore)"

definition scored_locator ::
  "fuzzy_ratio \<Rightarrow> string \<Rightarrow> fingerprint option \<Rightarrow> fingerprint \<Rightarrow> string list \<Rightarrow> engine_candidate" where
  "scored_locator fuzz locator stored live ignore =
     (case stored of
        None \<Rightarrow> \<lparr>kc_locator = locator, kc_score = fallback_without_fingerprint, kc_signals = no_signals\<rparr>
      | Some fp \<Rightarrow>
          let (score, signals) = score_fingerprint fuzz fp live ignore
          in \<lparr>kc_locator = locator, kc_score = score, kc_signals = signals\<rparr>)"

section \<open>The two stages\<close>

definition resolve_unique :: "browser_page \<Rightarrow> string \<Rightarrow> fingerprint option" where
  "resolve_unique page locator =
     (case bp_count page locator of
        None \<Rightarrow> None
      | Some n \<Rightarrow>
          if n \<noteq> 1 then None
          else (case bp_visible page locator of
                  Some True \<Rightarrow> build_fingerprint page locator
                | _ \<Rightarrow> None))"

definition heal_report ::
  "string \<Rightarrow> engine_candidate list \<Rightarrow> engine_candidate option \<Rightarrow> string \<Rightarrow> healing_report" where
  "heal_report original candidates selected strategy =
     \<lparr>hp_original_locator = original,
      hp_candidates = sort_desc kc_score candidates,
      hp_selected_locator = map_option kc_locator selected,
      hp_report_confidence = (case selected of None \<Rightarrow> 0 | Some c \<Rightarrow> kc_score c),
      hp_strategy_used = strategy\<rparr>"

text \<open>
  What both stages share: the page, the stored fingerprint and the ignored attributes turn a
  locator into a scored candidate, when it resolves. \<open>try_fallbacks\<close> stops at the first
  candidate that reaches the threshold and gives it with its index; both give the locators
  tried and the candidates gathered.
\<close>

type_synonym scorer = "string \<Rightarrow> engine_candidate option"

definition live_scorer ::
  "fuzzy_ratio \<Rightarrow> browser_page \<Rightarrow> fingerprint option \<Rightarrow> string list \<Rightarrow> scorer" where
  "live_scorer fuzz page stored ignore locator =
     map_option (\<lambda>live. scored_locator fuzz locator stored live ignore) (resolve_unique page locator)"

fun try_fallbacks ::
  "scorer \<Rightarrow> f64 \<Rightarrow> nat \<Rightarrow> string list \<Rightarrow> string set \<Rightarrow> engine_candidate list \<Rightarrow>
     (engine_candidate \<times> nat) option \<times> engine_candidate list \<times> string set" where
  "try_fallbacks score threshold i [] tried cs = (None, cs, tried)"
| "try_fallbacks score threshold i (l # ls) tried cs =
     (if l \<in> tried then try_fallbacks score threshold (Suc i) ls tried cs
      else
        case score l of
          None \<Rightarrow> try_fallbacks score threshold (Suc i) ls (insert l tried) cs
        | Some c \<Rightarrow>
            if threshold \<le> kc_score c then (Some (c, i), cs @ [c], insert l tried)
            else try_fallbacks score threshold (Suc i) ls (insert l tried) (cs @ [c]))"

fun scan_locators ::
  "scorer \<Rightarrow> string list \<Rightarrow> string set \<Rightarrow> engine_candidate list \<Rightarrow> engine_candidate list" where
  "scan_locators score [] tried cs = cs"
| "scan_locators score (l # ls) tried cs =
     (if l \<in> tried then scan_locators score ls tried cs
      else scan_locators score ls (insert l tried)
             (case score l of None \<Rightarrow> cs | Some c \<Rightarrow> cs @ [c]))"

text \<open>The choice of stage 2: the best candidate, unless it is too weak or nearly tied.\<close>

definition clear_winner :: "f64 \<Rightarrow> engine_candidate list \<Rightarrow> engine_candidate option" where
  "clear_winner threshold candidates =
     (case sort_desc kc_score candidates of
        [] \<Rightarrow> None
      | best # rest \<Rightarrow>
          let runner_up = (case rest of [] \<Rightarrow> 0 | c # _ \<Rightarrow> kc_score c)
          in if threshold \<le> kc_score best \<and> heal_ambiguity_margin \<le> fl (kc_score best - runner_up)
             then Some best else None)"

definition attempt_healing ::
  "fuzzy_ratio \<Rightarrow> browser_page \<Rightarrow> engine_step \<Rightarrow> engine_config \<Rightarrow> healing_report option" where
  "attempt_healing fuzz page step cfg =
     (case es_target step of
        None \<Rightarrow> None
      | Some target \<Rightarrow>
          let primary = tg_primary_locator target; stored = tg_fingerprint target;
              score = live_scorer fuzz page stored (broken_attributes primary);
              threshold = nc_heal_threshold cfg
          in Some (case try_fallbacks score threshold 0 (tg_fallback_locators target) {primary} [] of
               (Some (c, i), cs, _) \<Rightarrow>
                 heal_report primary cs (Some c) (''fallback['' @ show_nat i @ '']'')
             | (None, cs, tried) \<Rightarrow>
                 (case stored of
                    None \<Rightarrow> heal_report primary cs None ''none''
                  | Some fp \<Rightarrow>
                      let all_cs = scan_locators score
                            (extract_candidates page fp (nc_max_candidates cfg)) tried cs
                      in case clear_winner threshold all_cs of
                           Some best \<Rightarrow> heal_report primary all_cs (Some best) ''fingerprint''
                         | None \<Rightarrow> heal_report primary all_cs None ''none'')))"

section \<open>What the two stages gather\<close>

text \<open>Each candidate once, never the broken locator, and each scored as its locator scores.\<close>

definition sound_candidates :: "scorer \<Rightarrow> string \<Rightarrow> engine_candidate list \<Rightarrow> bool" where
  "sound_candidates score primary cs \<longleftrightarrow>
     primary \<notin> kc_locator ` set cs \<and> distinct (map kc_locator cs) \<and>
     (\<forall>c \<in> set cs. score (kc_locator c) = Some c)"

definition gathered :: "scorer \<Rightarrow> string \<Rightarrow> string set \<Rightarrow> engine_candidate list \<Rightarrow> bool" where
  "gathered score primary tried cs \<longleftrightarrow>
     primary \<in> tried \<and> kc_locator ` set cs \<subseteq> tried \<and> sound_candidates score primary cs"

definition qualifies :: "scorer \<Rightarrow> f64 \<Rightarrow> string \<Rightarrow> bool" where
  "qualifies score t l \<longleftrightarrow> (case score l of None \<Rightarrow> False | Some c \<Rightarrow> t \<le> kc_score c)"

lemma sound_candidates_mset:
  "mset cs = mset ds \<Longrightarrow> sound_candidates score p cs = sound_candidates score p ds"
  using mset_eq_setD[of cs ds] mset_eq_imp_distinct_iff[of "map kc_locator cs" "map kc_locator ds"]
  by (simp add: sound_candidates_def)

text \<open>
  The contract between the stages and the scoring of one locator: a candidate carries the
  locator it was asked for.
\<close>

locale element_scorer =
  fixes score :: scorer
  assumes scored_for: "score l = Some c \<Longrightarrow> kc_locator c = l"
begin

lemma gathered_start: "gathered score p {p} []"
  by (simp add: gathered_def sound_candidates_def)

lemma gathered_skip: "gathered score p tried cs \<Longrightarrow> gathered score p (insert l tried) cs"
  by (auto simp: gathered_def sound_candidates_def)

lemma gathered_add:
  "gathered score p tried cs \<Longrightarrow> l \<notin> tried \<Longrightarrow> score l = Some c \<Longrightarrow> gathered score p (insert l tried) (cs @ [c])"
  using scored_for[of l c] by (auto simp: gathered_def sound_candidates_def)

lemma try_fallbacks_gathered:
  assumes "gathered score p tried cs" "try_fallbacks score t i ls tried cs = (r, cs', tried')"
  shows "gathered score p tried' cs'"
  using assms
  by (induction ls arbitrary: i tried cs)
     (auto split: if_splits option.splits intro: gathered_skip gathered_add)

lemma scan_locators_gathered:
  "gathered score p tried cs \<Longrightarrow> \<exists>tried'. gathered score p tried' (scan_locators score ls tried cs)"
  by (induction ls arbitrary: tried cs)
     (auto split: option.splits intro: gathered_skip gathered_add)

lemma try_fallbacks_from:
  assumes "try_fallbacks score t i ls tried cs = (r, cs', tried')"
  shows "kc_locator ` set cs' \<subseteq> kc_locator ` set cs \<union> set ls"
  using assms
proof (induction ls arbitrary: i tried cs)
  case (Cons l ls)
  have step: "?case" if "try_fallbacks score t (Suc i) ls tr cs2 = (r, cs', tried')"
    "kc_locator ` set cs2 \<subseteq> insert l (kc_locator ` set cs)" for tr cs2
    using Cons.IH[OF that(1)] that(2) by auto
  show ?case
    using Cons.prems scored_for[of l]
    by (auto split: if_splits option.splits dest!: step)
qed simp

lemma scan_locators_from:
  "kc_locator ` set (scan_locators score ls tried cs) \<subseteq> kc_locator ` set cs \<union> set ls"
proof (induction ls arbitrary: tried cs)
  case (Cons l ls)
  have "kc_locator ` set (case score l of None \<Rightarrow> cs | Some c \<Rightarrow> cs @ [c]) \<subseteq> insert l (kc_locator ` set cs)"
    using scored_for[of l] by (auto split: option.splits)
  then have "kc_locator ` set (scan_locators score ls (insert l tried)
      (case score l of None \<Rightarrow> cs | Some c \<Rightarrow> cs @ [c])) \<subseteq> insert l (kc_locator ` set cs) \<union> set ls"
    using Cons.IH[of "insert l tried" "case score l of None \<Rightarrow> cs | Some c \<Rightarrow> cs @ [c]"] by blast
  then show ?case using Cons.IH[of tried cs] by (cases "l \<in> tried") (simp_all, blast+)
qed simp

lemma try_fallbacks_chosen:
  assumes "try_fallbacks score t i ls tried cs = (Some (c, k), cs', tried')"
  shows "t \<le> kc_score c \<and> c \<in> set cs' \<and> (\<exists>j < length ls. k = i + j \<and> ls ! j = kc_locator c)"
  using assms
proof (induction ls arbitrary: i tried cs)
  case (Cons l ls)
  consider (here) "k = i" "score l = Some c" "t \<le> kc_score c" "c \<in> set cs'"
    | (later) tr cs2 where "try_fallbacks score t (Suc i) ls tr cs2 = (Some (c, k), cs', tried')"
    using Cons.prems by (auto split: if_splits option.splits)
  then show ?case
  proof cases
    case here
    then show ?thesis using scored_for[of l c] by (intro conjI exI[of _ 0]) simp_all
  next
    case later
    then obtain j where "j < length ls" "k = Suc i + j" "ls ! j = kc_locator c" "t \<le> kc_score c" "c \<in> set cs'"
      using Cons.IH by blast
    then show ?thesis by (intro conjI exI[of _ "Suc j"]) simp_all
  qed
qed simp

text \<open>
  The early return of stage 1 is the first qualifying locator of the list: a locator tried
  before is the primary one or was found wanting, so skipping it loses nothing.
\<close>

lemma try_fallbacks_find:
  assumes "\<forall>l \<in> tried. l = p \<or> \<not> qualifies score t l" "p \<in> tried"
  shows "map_option (\<lambda>(c, k). kc_locator c) (fst (try_fallbacks score t i ls tried cs)) =
    find (\<lambda>l. l \<noteq> p \<and> qualifies score t l) ls"
  using assms
proof (induction ls arbitrary: i tried cs)
  case (Cons l ls)
  have skip: "l = p \<or> \<not> qualifies score t l" if "l \<in> tried" using that Cons.prems by blast
  have more: "\<forall>x \<in> insert l tried. x = p \<or> \<not> qualifies score t x" if "\<not> qualifies score t l"
    using that Cons.prems by blast
  consider "l \<in> tried" | c where "l \<notin> tried" "score l = Some c" "t \<le> kc_score c"
    | "l \<notin> tried" "\<not> qualifies score t l"
    unfolding qualifies_def by (cases "score l") auto
  then show ?case
  proof cases
    case 1
    then show ?thesis using skip Cons.IH[OF Cons.prems] by auto
  next
    case 2
    then show ?thesis using Cons.prems(2) scored_for[of l c] by (auto simp: qualifies_def)
  next
    case 3
    then have "fst (try_fallbacks score t i (l # ls) tried cs) =
        fst (try_fallbacks score t (Suc i) ls (insert l tried)
          (case score l of None \<Rightarrow> cs | Some c \<Rightarrow> cs @ [c]))"
      by (auto simp: qualifies_def split: option.splits)
    then show ?thesis using Cons.IH[OF more] 3 Cons.prems(2) by simp
  qed
qed simp

end

lemma live_scorer_Some:
  assumes "live_scorer fuzz page stored ignore l = Some c"
  obtains live where "resolve_unique page l = Some live" "c = scored_locator fuzz l stored live ignore"
  using assms by (auto simp: live_scorer_def)

lemma kc_locator_scored [simp]: "kc_locator (scored_locator fuzz l stored live ignore) = l"
  by (auto simp: scored_locator_def split: option.splits prod.splits)

interpretation live: element_scorer "live_scorer fuzz page stored ignore"
  for fuzz page stored ignore
  by unfold_locales (auto elim: live_scorer_Some)

lemma resolve_unique_iff:
  "resolve_unique page l = Some live \<longleftrightarrow>
     bp_count page l = Some 1 \<and> bp_visible page l = Some True \<and> build_fingerprint page l = Some live"
  by (auto simp: resolve_unique_def split: option.splits bool.splits)

section \<open>The clear winner\<close>

lemma clear_winner_Some:
  assumes "clear_winner t cs = Some b"
  shows "b \<in> set cs" "t \<le> kc_score b"
    "distinct cs \<Longrightarrow> c \<in> set cs \<Longrightarrow> c \<noteq> b \<Longrightarrow> heal_ambiguity_margin \<le> fl (kc_score b - kc_score c)"
proof -
  obtain rest where s: "sort_desc kc_score cs = b # rest" and t: "t \<le> kc_score b"
    and m: "heal_ambiguity_margin \<le> fl (kc_score b - (case rest of [] \<Rightarrow> 0 | c # _ \<Rightarrow> kc_score c))"
    using assms by (auto simp: clear_winner_def Let_def split: list.splits if_splits)
  show "b \<in> set cs" using s by (metis set_sort_desc list.set_intros(1))
  show "t \<le> kc_score b" by (fact t)
  assume d: "distinct cs" and c: "c \<in> set cs" "c \<noteq> b"
  have "c \<in> set rest" using c s by (metis set_sort_desc set_ConsD)
  then obtain r rs where r: "rest = r # rs" by (cases rest) auto
  have "sorted_wrt (\<lambda>x y. kc_score y \<le> kc_score x) (b # r # rs)"
    using sorted_wrt_sort_desc[of kc_score cs] s r by simp
  then have "kc_score c \<le> kc_score r" using \<open>c \<in> set rest\<close> r by auto
  then have "fl (kc_score b - kc_score r) \<le> fl (kc_score b - kc_score c)" by (intro fl_mono) simp
  then show "heal_ambiguity_margin \<le> fl (kc_score b - kc_score c)" using m r by simp
qed

section \<open>The accepted locator\<close>

definition stage_score :: "fuzzy_ratio \<Rightarrow> browser_page \<Rightarrow> engine_target \<Rightarrow> scorer" where
  "stage_score fuzz page target =
     live_scorer fuzz page (tg_fingerprint target) (broken_attributes (tg_primary_locator target))"

text \<open>What a report says when it selects a locator, whichever stage selected it.\<close>

definition accepted :: "scorer \<Rightarrow> f64 \<Rightarrow> string \<Rightarrow> healing_report \<Rightarrow> engine_candidate \<Rightarrow> bool" where
  "accepted score threshold primary r c \<longleftrightarrow>
     hp_selected_locator r = Some (kc_locator c) \<and> hp_report_confidence r = kc_score c \<and>
     c \<in> set (hp_candidates r) \<and> threshold \<le> kc_score c \<and>
     sound_candidates score primary (hp_candidates r) \<and>
     (hp_strategy_used r = ''fingerprint'' \<longrightarrow>
        (\<forall>d \<in> set (hp_candidates r). d \<noteq> c \<longrightarrow> heal_ambiguity_margin \<le> fl (kc_score c - kc_score d)))"

lemma accepted_fallback:
  assumes "gathered score p tried cs" "c \<in> set cs" "t \<le> kc_score c" "s \<noteq> ''fingerprint''"
  shows "accepted score t p (heal_report p cs (Some c) s) c"
  using assms sound_candidates_mset[of "sort_desc kc_score cs" cs score p]
  by (simp add: accepted_def heal_report_def gathered_def)

lemma accepted_winner:
  assumes "gathered score p tried cs" "clear_winner t cs = Some c"
  shows "accepted score t p (heal_report p cs (Some c) s) c"
proof -
  have "distinct cs" using assms(1) by (auto simp: gathered_def sound_candidates_def distinct_map)
  then show ?thesis
    using assms clear_winner_Some[OF assms(2)] sound_candidates_mset[of "sort_desc kc_score cs" cs score p]
    by (simp add: accepted_def heal_report_def gathered_def)
qed

lemma attempt_healing_selected:
  assumes "attempt_healing fuzz page step cfg = Some r" "es_target step = Some target"
    "hp_selected_locator r = Some l"
  shows "\<exists>c. accepted (stage_score fuzz page target) (nc_heal_threshold cfg) (tg_primary_locator target) r c \<and>
    (l \<in> set (tg_fallback_locators target) \<or>
     (\<exists>fp. tg_fingerprint target = Some fp \<and> l \<in> set (extract_candidates page fp (nc_max_candidates cfg))))"
proof -
  let ?p = "tg_primary_locator target" and ?score = "stage_score fuzz page target"
    and ?t = "nc_heal_threshold cfg" and ?ls = "tg_fallback_locators target"
  obtain res cs tried where f: "try_fallbacks ?score ?t 0 ?ls {?p} [] = (res, cs, tried)"
    by (metis prod_cases3)
  have g: "gathered ?score ?p tried cs"
    using live.try_fallbacks_gathered[OF live.gathered_start] f unfolding stage_score_def by blast
  show ?thesis
  proof (cases res)
    case (Some ck)
    obtain c k where ck: "res = Some (c, k)" using Some by (cases ck) auto
    have r: "r = heal_report ?p cs (Some c) (''fallback['' @ show_nat k @ '']'')"
      using assms(1,2) f ck by (simp add: attempt_healing_def stage_score_def Let_def)
    obtain j where j: "?t \<le> kc_score c" "c \<in> set cs" "j < length ?ls" "?ls ! j = kc_locator c"
      using live.try_fallbacks_chosen f ck unfolding stage_score_def by blast
    have "l = kc_locator c" using assms(3) r by (simp add: heal_report_def)
    then have "l \<in> set ?ls" using j(3,4) nth_mem[of j ?ls] by simp
    moreover have "accepted ?score ?t ?p r c" unfolding r by (rule accepted_fallback[OF g j(2,1)]) simp
    ultimately show ?thesis by blast
  next
    case None
    obtain fp where fp: "tg_fingerprint target = Some fp"
      using assms f None by (auto simp: attempt_healing_def stage_score_def Let_def heal_report_def
          split: option.splits)
    define all_cs where "all_cs = scan_locators ?score (extract_candidates page fp (nc_max_candidates cfg)) tried cs"
    obtain c where c: "clear_winner ?t all_cs = Some c" and r: "r = heal_report ?p all_cs (Some c) ''fingerprint''"
      using assms f None fp by (auto simp: attempt_healing_def stage_score_def Let_def heal_report_def
          all_cs_def split: option.splits)
    obtain tried' where "gathered ?score ?p tried' all_cs"
      using live.scan_locators_gathered g unfolding stage_score_def all_cs_def by blast
    then have acc: "accepted ?score ?t ?p r c" unfolding r using c by (rule accepted_winner)
    have "l \<in> kc_locator ` set all_cs"
      using assms(3) r clear_winner_Some(1)[OF c] by (auto simp: heal_report_def)
    moreover have "kc_locator ` set all_cs \<subseteq>
        kc_locator ` set cs \<union> set (extract_candidates page fp (nc_max_candidates cfg))"
      unfolding all_cs_def stage_score_def by (rule live.scan_locators_from)
    moreover have "kc_locator ` set cs \<subseteq> set ?ls"
      using live.try_fallbacks_from[OF f[unfolded stage_score_def]] by simp
    ultimately have "l \<in> set ?ls \<or> l \<in> set (extract_candidates page fp (nc_max_candidates cfg))"
      by blast
    then show ?thesis using fp acc by blast
  qed
qed

section \<open>Bounds of the signals\<close>

lemma length_concat_options: "\<forall>x \<in> set xs. length x \<le> 1 \<Longrightarrow> length (concat xs) \<le> length xs"
  by (induction xs) auto

lemma of_match_unit [simp]: "unit_interval (of_match b)"
  by (simp add: of_match_def)

lemma class_overlap_unit [simp]: "unit_interval (class_overlap a b)"
  unfolding class_overlap_def by (intro fl_fraction_unit card_mono) auto

lemma text_ratio_unit: "ratio_in_range fuzz \<Longrightarrow> unit_interval (text_ratio fuzz a b)"
  unfolding text_ratio_def ratio_in_range_def by (intro fl_unit) (simp add: unit_interval_def)

lemma mean_or_half_unit:
  "\<forall>x \<in> set xs. unit_interval x \<Longrightarrow> length xs \<le> 16 \<Longrightarrow> unit_interval (mean_or_half xs)"
  using float_mean_unit[of xs] by (simp add: mean_or_half_def unit_interval_def[of "1/2"])

lemma attribute_checks_length: "length (attribute_checks stored live ignore) \<le> 16"
proof -
  let ?fields = "concat (map (\<lambda>(attr, get). if truthy (get stored) \<and> attr \<notin> set ignore
      then [of_match (get live = get stored)] else []) field_of_attr)"
  let ?stable = "concat (map (\<lambda>key. if key \<notin> set ignore \<and> truthy (map_of (ef_attributes stored) key)
      then [of_match (map_of (ef_attributes live) key = map_of (ef_attributes stored) key)] else []) stable_attrs)"
  have "length ?fields \<le> 5"
    by (rule length_concat_options[THEN order_trans]) (auto simp: field_of_attr_def)
  moreover have "length ?stable \<le> 6"
    by (rule length_concat_options[THEN order_trans]) (auto simp: stable_attrs_def)
  moreover have "length (attribute_checks stored live ignore) \<le> length ?fields + length ?stable + 1"
    by (simp add: attribute_checks_def)
  ultimately show ?thesis by linarith
qed

lemma attribute_signal_unit: "unit_interval (attribute_signal stored live ignore)"
  unfolding attribute_signal_def
proof (rule mean_or_half_unit[OF _ attribute_checks_length])
  show "\<forall>x \<in> set (attribute_checks stored live ignore). unit_interval x"
    by (auto simp: attribute_checks_def)
qed

lemma text_signal_unit: "ratio_in_range fuzz \<Longrightarrow> unit_interval (text_signal fuzz stored live)"
  by (simp add: text_signal_def text_ratio_unit)

lemma position_signal_unit: "unit_interval (position_signal stored live)"
proof -
  have "unit_interval (max 0 (fl (1 - fl (py_sqrt d / position_falloff_px))))" for d
  proof -
    have "0 \<le> fl (py_sqrt d / position_falloff_px)"
      by (intro fl_nonneg divide_nonneg_nonneg py_sqrt_nonneg) (simp add: position_falloff_px_def)
    then have "fl (1 - fl (py_sqrt d / position_falloff_px)) \<le> fl 1" by (intro fl_mono) simp
    then show ?thesis by (simp add: unit_interval_def)
  qed
  then show ?thesis
    by (auto simp: position_signal_def Let_def unit_interval_def[of "1/2"] split: option.splits)
qed

lemma count_if_zip: "count_if P (zip xs ys) \<le> max (length xs) (length ys)"
proof -
  have "count_if P (zip xs ys) \<le> length (zip xs ys)" by (simp only: count_if_def length_filter_le)
  then show ?thesis by (simp add: le_max_iff_disj)
qed

lemma structure_signal_unit: "unit_interval (structure_signal stored live)"
  unfolding structure_signal_def
  by (rule mean_or_half_unit) (auto simp: structure_parts_def intro!: fl_fraction_unit count_if_zip)

lemma signals_valid: "ratio_in_range fuzz \<Longrightarrow> valid_signals (signals_of fuzz stored live ignore)"
  by (simp add: valid_signals_def signals_of_def attribute_signal_unit text_signal_unit
      position_signal_unit structure_signal_unit)

section \<open>Bounds of the score\<close>

lemma score_different:
  "different_control stored live \<Longrightarrow> fst (score_fingerprint fuzz stored live ignore) = 0"
  by (simp add: score_fingerprint_def)

lemma fingerprint_unit: "unit_interval (fst (score_fingerprint fuzz stored live ignore))"
  by (auto simp: score_fingerprint_def identity_adjusted_def intro!: py_round_unit unit_clamp)

lemma score_signals: "snd (score_fingerprint fuzz stored live ignore) = signals_of fuzz stored live ignore"
  by (simp add: score_fingerprint_def identity_adjusted_def)

lemma caps_exact: "py_round 4 no_identity_cap = no_identity_cap" "py_round 4 id_anchor_score = id_anchor_score"
  by code_simp+

lemma caps_order: "0 \<le> no_identity_cap" "no_identity_cap \<le> 1" "0 \<le> id_anchor_score" "id_anchor_score \<le> 1"
  by code_simp+

lemma score_no_identity:
  assumes "identity_matches fuzz stored live ignore = Some False"
  shows "fst (score_fingerprint fuzz stored live ignore) \<le> no_identity_cap"
proof -
  have "py_round 4 (min (max (min s no_identity_cap) 0) 1) \<le> py_round 4 no_identity_cap" for s
    using caps_order by (intro py_round_mono) simp
  then show ?thesis using assms caps_exact caps_order by (simp add: score_fingerprint_def identity_adjusted_def)
qed

text \<open>A matching identifier is itself an identity match, so the cap does not apply.\<close>

lemma id_is_identity:
  assumes "''id'' \<notin> set ignore" "truthy (ef_id stored)" "ef_id live = ef_id stored"
  shows "identity_matches fuzz stored live ignore = Some True"
proof -
  have "True \<in> set (identity_checks fuzz stored live ignore)"
    using assms by (simp add: identity_checks_def field_of_attr_def)
  then show ?thesis by (auto simp: identity_matches_def Let_def)
qed

lemma score_same_id:
  assumes "\<not> different_control stored live" "''id'' \<notin> set ignore" "truthy (ef_id stored)" "ef_id live = ef_id stored"
  shows "id_anchor_score \<le> fst (score_fingerprint fuzz stored live ignore)"
proof -
  have "py_round 4 id_anchor_score \<le> py_round 4 (min (max (max s id_anchor_score) 0) 1)" for s
    using caps_order by (intro py_round_mono) simp
  then show ?thesis using assms caps_exact id_is_identity[OF assms(2-4), of fuzz]
    by (simp add: score_fingerprint_def identity_adjusted_def)
qed

section \<open>An unchanged element\<close>

lemma float_sum_ones: "\<forall>x \<in> set xs. x = 1 \<Longrightarrow> length xs \<le> 16 \<Longrightarrow> float_sum xs = of_nat (length xs)"
proof (induction xs rule: rev_induct)
  case (snoc x xs)
  then have "float_sum xs = of_nat (length xs)" by simp
  then show ?case using snoc.prems fl_small_nat[of "Suc (length xs)"]
    by (simp add: float_sum_def add.commute)
qed (simp add: float_sum_def)

lemma mean_of_ones: "\<forall>x \<in> set xs. x = 1 \<Longrightarrow> length xs \<le> 16 \<Longrightarrow> xs \<noteq> [] \<Longrightarrow> mean_or_half xs = 1"
  by (simp add: mean_or_half_def float_sum_ones)

lemma structure_signal_same:
  assumes "ef_sibling_index fp \<noteq> None" shows "structure_signal fp fp = 1"
proof -
  have "filter (\<lambda>(x, y). x = y) (zip xs xs) = zip xs xs" for xs :: "string list"
    by (auto simp: zip_same_conv_map filter_map filter_id_conv)
  then show ?thesis unfolding structure_signal_def
    using assms by (intro mean_of_ones) (auto simp: structure_parts_def of_match_def count_if_def)
qed

lemma position_signal_same: "ef_bounding_box fp = Some b \<Longrightarrow> position_signal fp fp = 1"
  by (simp add: position_signal_def Let_def py_sqrt_def position_falloff_px_def)

lemma class_overlap_same: "a \<noteq> [] \<Longrightarrow> class_overlap a a = 1"
  by (simp add: class_overlap_def card_gt_0_iff)

lemma attribute_checks_same:
  "\<forall>x \<in> set (attribute_checks fp fp ignore). x = 1"
  by (auto simp: attribute_checks_def of_match_def class_overlap_same)

text \<open>The weights and their partial sums as fractions, each rounding step by itself.\<close>

lemma weight_values:
  "w_attribute = 3602879701896397 / 9007199254740992" "w_text = 3602879701896397 / 18014398509481984"
  "w_position = 3602879701896397 / 18014398509481984" "w_structure = 3602879701896397 / 18014398509481984"
  by code_simp+

lemma weight_sums:
  "fl (3602879701896397 / 9007199254740992) = 3602879701896397 / 9007199254740992" "fl (3602879701896397 / 18014398509481984) = 3602879701896397 / 18014398509481984"
  "fl (3602879701896397 / 9007199254740992 + 3602879701896397 / 18014398509481984) = 1351079888211149 / 2251799813685248"
  "fl (1351079888211149 / 2251799813685248 + 3602879701896397 / 18014398509481984) = 3602879701896397 / 4503599627370496"
  "fl (3602879701896397 / 4503599627370496 + 3602879701896397 / 18014398509481984) = 1"
  by code_simp+

lemma full_weight:
  "weighted_score \<lparr>sg_attribute = 1, sg_text = 1, sg_position = 1, sg_structure = 1\<rparr> = 1"
  unfolding weighted_score_def weight_values healing_signals.simps mult_1_right weight_sums ..

text \<open>An element scored against its own fingerprint, when the page has a place for it.\<close>

lemma score_unchanged:
  assumes "\<And>t. fuzz t t = 100" "ef_bounding_box fp = Some b" "ef_sibling_index fp \<noteq> None"
    "attribute_checks fp fp ignore \<noteq> []" "identity_matches fuzz fp fp ignore \<noteq> Some False"
  shows "score_fingerprint fuzz fp fp ignore =
    (1, \<lparr>sg_attribute = 1, sg_text = 1, sg_position = 1, sg_structure = 1\<rparr>)"
proof -
  have "attribute_signal fp fp ignore = 1"
    using assms(4) attribute_checks_same attribute_checks_length[of fp fp ignore]
    unfolding attribute_signal_def by (intro mean_of_ones) auto
  moreover have "text_signal fuzz fp fp = 1"
    using assms(1) by (simp add: text_signal_def text_ratio_def)
  ultimately have s: "signals_of fuzz fp fp ignore =
      \<lparr>sg_attribute = 1, sg_text = 1, sg_position = 1, sg_structure = 1\<rparr>"
    using assms(2,3) by (simp add: signals_of_def position_signal_same structure_signal_same)
  have "\<not> different_control fp fp" by (simp add: different_control_def)
  then show ?thesis unfolding score_fingerprint_def s full_weight
    using assms(5) caps_order by (simp add: identity_adjusted_def max_def)
qed

end
