(* ===== verification/Engine_Runner.thy ===== *)
theory Engine_Runner
  imports Engine_Healer
begin

text \<open>
  \<^verbatim>\<open>engine/runner.py\<close>: a plan run step by step in a browser. The browser is a parameter, the
  record \<open>browser\<close> over an arbitrary world \<open>'w\<close>: what each Playwright call returns or raises,
  how long it takes, and the world it leaves. A running test is the record \<open>session\<close>: that
  world and the clock, in milliseconds. An operation takes a session to a value or an exception
  with the session after it.
\<close>

section \<open>Exceptions\<close>

datatype exn_kind = XK_Timeout | XK_Playwright | XK_Assertion | XK_Value | XK_Other

record engine_exn =
  xn_kind :: exn_kind
  xn_text :: string

definition raise_exn :: "exn_kind \<Rightarrow> string \<Rightarrow> engine_exn" where
  "raise_exn k t = \<lparr>xn_kind = k, xn_text = t\<rparr>"

section \<open>The browser\<close>

datatype element_action =
    Click | Fill string | Press string | Select string | Check | Uncheck | Hover | Drag_to string
  | Upload string string string | Wait_state string

datatype command =
    Load_state string int
  | Wait int
  | Wait_selector string int
  | Key string
  | On_element string element_action int

text \<open>
  \<open>br_page\<close>: the queries of locators and fingerprints; \<open>br_url\<close>: \<open>page.url\<close>; \<open>br_do\<close>: calls
  without a result; \<open>br_goto\<close>: the HTTP status, if the response has one; \<open>br_inner_text\<close>,
  \<open>br_input_value\<close>, \<open>br_is_visible\<close>: the three readings of an element; \<open>br_opens\<close>: the script
  that tells whether an element leads to a tab or a file (None where Playwright raises);
  \<open>br_settle\<close>: the wait for tabs and downloads after a step, with the addresses of the fresh
  tabs and the names of the files; \<open>br_log\<close>: console lines and failed requests between two
  worlds; \<open>br_capture\<close>: writing a screenshot or snapshot to a file (None if the capture failed);
  \<open>br_visual\<close>: the visual check; \<open>br_storage\<close>: cookies and storage; \<open>br_open\<close>, \<open>br_close\<close>: the
  browser session; \<open>br_mime\<close>: the system's table of media types.
\<close>

record 'w browser =
  br_page :: "'w \<Rightarrow> browser_page"
  br_url :: "'w \<Rightarrow> engine_exn + string"
  br_do :: "command \<Rightarrow> 'w \<Rightarrow> (engine_exn + unit) \<times> nat \<times> 'w"
  br_goto :: "string \<Rightarrow> int \<Rightarrow> string \<Rightarrow> 'w \<Rightarrow> (engine_exn + int option) \<times> nat \<times> 'w"
  br_inner_text :: "string \<Rightarrow> int \<Rightarrow> 'w \<Rightarrow> (engine_exn + string) \<times> nat \<times> 'w"
  br_input_value :: "string \<Rightarrow> int \<Rightarrow> 'w \<Rightarrow> (engine_exn + string) \<times> nat \<times> 'w"
  br_is_visible :: "string \<Rightarrow> 'w \<Rightarrow> (engine_exn + bool) \<times> nat \<times> 'w"
  br_opens :: "'w \<Rightarrow> string \<Rightarrow> bool option"
  br_settle :: "nat \<Rightarrow> 'w \<Rightarrow> (engine_exn + string option list \<times> string list) \<times> nat \<times> 'w"
  br_log :: "'w \<Rightarrow> 'w \<Rightarrow> string list \<times> string list"
  br_capture :: "string \<Rightarrow> 'w \<Rightarrow> (engine_exn + string option) \<times> nat \<times> 'w"
  br_visual :: "bool \<Rightarrow> string option \<Rightarrow> string \<Rightarrow> 'w \<Rightarrow> (string \<times> pyval) list option \<times> nat \<times> 'w"
  br_storage :: "'w \<Rightarrow> (engine_exn + pyval) \<times> nat \<times> 'w"
  br_open :: "engine_config \<Rightarrow> string \<Rightarrow> pyval option \<Rightarrow> 'w \<Rightarrow> (engine_exn + unit) \<times> nat \<times> 'w"
  br_close :: "'w \<Rightarrow> (engine_exn + unit) \<times> nat \<times> 'w"
  br_mime :: "string \<Rightarrow> string option"

record 'w session =
  sn_world :: 'w
  sn_clock :: int

type_synonym ('w, 'a) op = "'w session \<Rightarrow> (engine_exn + 'a) \<times> 'w session"

section \<open>Operations\<close>

definition ret :: "'a \<Rightarrow> ('w, 'a) op" where
  "ret x s = (Inr x, s)"

definition fail :: "exn_kind \<Rightarrow> string \<Rightarrow> ('w, 'a) op" where
  "fail k t s = (Inl (raise_exn k t), s)"

definition andthen :: "('w, 'a) op \<Rightarrow> ('a \<Rightarrow> ('w, 'b) op) \<Rightarrow> ('w, 'b) op" where
  "andthen m f s = (case m s of (Inl e, s') \<Rightarrow> (Inl e, s') | (Inr x, s') \<Rightarrow> f x s')"

text \<open>\<open>except\<close>: the handler runs on the exceptions it accepts, in the session they left.\<close>

definition catching :: "(exn_kind \<Rightarrow> bool) \<Rightarrow> ('w, 'a) op \<Rightarrow> (engine_exn \<Rightarrow> ('w, 'a) op) \<Rightarrow> ('w, 'a) op" where
  "catching p m h s =
     (case m s of (Inr x, s') \<Rightarrow> (Inr x, s') | (Inl e, s') \<Rightarrow> if p (xn_kind e) then h e s' else (Inl e, s'))"

definition call :: "('w \<Rightarrow> (engine_exn + 'a) \<times> nat \<times> 'w) \<Rightarrow> ('w, 'a) op" where
  "call f s =
     (case f (sn_world s) of (r, d, w) \<Rightarrow> (r, \<lparr>sn_world = w, sn_clock = sn_clock s + int d\<rparr>))"

text \<open>\<open>page.wait_for_timeout(ms)\<close> returns after at least \<open>ms\<close> milliseconds.\<close>

definition pause :: "'w browser \<Rightarrow> int \<Rightarrow> ('w, unit) op" where
  "pause br ms s =
     (case br_do br (Wait ms) (sn_world s) of
        (Inl e, d, w) \<Rightarrow> (Inl e, \<lparr>sn_world = w, sn_clock = sn_clock s + int d\<rparr>)
      | (Inr _, d, w) \<Rightarrow> (Inr (), \<lparr>sn_world = w, sn_clock = sn_clock s + max ms 0 + int d\<rparr>))"

definition check :: "bool \<Rightarrow> string \<Rightarrow> ('w, unit) op" where
  "check b msg = (if b then ret () else fail XK_Assertion msg)"

definition playwright_error :: "exn_kind \<Rightarrow> bool" where
  "playwright_error k \<longleftrightarrow> k = XK_Timeout \<or> k = XK_Playwright"

definition suppress :: "('w, unit) op \<Rightarrow> ('w, unit) op" where
  "suppress m = catching playwright_error m (\<lambda>e. ret ())"

section \<open>Small helpers\<close>

definition ellipsis :: string where
  "ellipsis = [CHR 0xE2, CHR 0x80, CHR 0xA6]"

definition quote_max :: nat where "quote_max = 300"

definition quote_text :: "string \<Rightarrow> string" where
  "quote_text text =
     (if length text \<le> quote_max then quoted text
      else quoted (rstrip (take quote_max text) @ ellipsis) @ '' ('' @ show_thousands (length text) @
        '' characters)'')"

text \<open>Removes white space, the no-break space, and the ASCII, Unicode and no-break hyphens.\<close>

fun squeeze :: "string \<Rightarrow> string" where
  "squeeze [] = []"
| "squeeze (c # s) =
     (if c \<in> {CHR '' '', CHR 9, CHR 10, CHR 11, CHR 12, CHR 13, CHR ''-''} then squeeze s
      else if c = CHR 0xC2 \<and> prefix [CHR 0xA0] s then squeeze (drop 1 s)
      else if c = CHR 0xE2 \<and> (prefix [CHR 0x80, CHR 0x90] s \<or> prefix [CHR 0x80, CHR 0x91] s)
      then squeeze (drop 2 s)
      else c # squeeze s)"

definition text_contains :: "string \<Rightarrow> string \<Rightarrow> bool" where
  "text_contains actual expected =
     (let a = lower actual; e = lower expected
      in contains e a \<or> squeeze e \<noteq> [] \<and> contains (squeeze e) (squeeze a))"

definition require_value :: "engine_step \<Rightarrow> string \<Rightarrow> ('w, string) op" where
  "require_value step action_name =
     (if truthy (es_value step) then ret (or_empty (es_value step))
      else fail XK_Value (''Step '' @ py_repr (es_step_id step) @ '': action '' @ py_repr action_name @
             '' requires a value''))"

text \<open>The \<open>repr\<close> of an action, as the messages show it.\<close>

definition action_repr :: "action_type \<Rightarrow> string" where
  "action_repr a =
     ''<ActionType.'' @ upper (action_type_value a) @ '': '' @ quoted (action_type_value a) @ ''>''"

definition require_locator :: "engine_step \<Rightarrow> ('w, string) op" where
  "require_locator step =
     (case es_target step of
        None \<Rightarrow> fail XK_Value (''Step '' @ py_repr (es_step_id step) @ '': action '' @
                  action_repr (es_action step) @ '' requires a target'')
      | Some t \<Rightarrow> ret (tg_primary_locator t))"

definition tiny_png :: string where
  "tiny_png = map char_of
     [0x89, 0x50, 0x4e, 0x47, 0x0d, 0x0a, 0x1a, 0x0a, 0, 0, 0, 0x0d, 0x49, 0x48, 0x44, 0x52, 0, 0, 0, 1,
      0, 0, 0, 1, 8, 6, 0, 0, 0, 0x1f, 0x15, 0xc4, 0x89, 0, 0, 0, 0x0d, 0x49, 0x44, 0x41, 0x54, 0x78,
      0x9c, 0x63, 0x60, 0, 0, 0, 2, 0, 1, 0x54, 0xa2, 0x4f, 0x5d, 0, 0, 0, 0, 0x49, 0x45, 0x4e, 0x44,
      0xae, 0x42, 0x60, 0x82 :: nat]"

text \<open>The part after the last slash or backslash; a generated file of that name.\<close>

definition base_name :: "string \<Rightarrow> string" where
  "base_name s = rev (takeWhile (\<lambda>c. c \<noteq> CHR ''/'' \<and> c \<noteq> CHR 0x5C) (rev s))"

definition upload_payload :: "'w browser \<Rightarrow> string \<Rightarrow> element_action" where
  "upload_payload br v =
     (let name = or_default (base_name (strip v)) ''testsphere-upload.txt'';
          mime = or_default (or_empty (br_mime br name)) ''text/plain'';
          body = (if mime = ''image/png'' then tiny_png
                  else ''TestSphere test upload: '' @ name @ [CHR 10])
      in Upload name mime body)"

definition check_status :: "engine_step \<Rightarrow> string \<Rightarrow> int option \<Rightarrow> ('w, unit) op" where
  "check_status step url response =
     (case response of
        None \<Rightarrow> ret ()
      | Some status \<Rightarrow>
          let wanted = strip (or_empty (es_expected step)) in
          if py_isdigit wanted
          then check (Some status = py_int wanted)
            (''goto '' @ py_repr url @ '': expected HTTP '' @ wanted @ '', got '' @ show_int status)
          else check (status < 400)
            (''goto '' @ py_repr url @ '': the page answered HTTP '' @ show_int status))"

definition rstrip_slash :: "string \<Rightarrow> string" where
  "rstrip_slash s = rev (dropWhile (\<lambda>c. c = CHR ''/'') (rev s))"

definition url_matches :: "string \<Rightarrow> string \<Rightarrow> bool \<Rightarrow> bool" where
  "url_matches actual expected exact =
     (if exact then rstrip_slash actual = rstrip_slash expected else contains (lower expected) (lower actual))"

definition page_url :: "'w browser \<Rightarrow> 'w session \<Rightarrow> string option" where
  "page_url br s =
     (case br_url br (sn_world s) of Inl e \<Rightarrow> None | Inr u \<Rightarrow> if u = [] then None else Some u)"

definition aggregate_status :: "step_result list \<Rightarrow> run_status" where
  "aggregate_status results =
     (if SS_FAILED \<in> set (map sr_status results) then RS_FAILED
      else if SS_HEALED \<in> set (map sr_status results) then RS_HEALED
      else RS_PASSED)"

definition fingerprint_if_present :: "'w browser \<Rightarrow> engine_step \<Rightarrow> 'w session \<Rightarrow> fingerprint option" where
  "fingerprint_if_present br step s =
     (case es_target step of
        None \<Rightarrow> None
      | Some t \<Rightarrow>
          if es_action step \<in> {AC_GOTO, AC_WAIT_FOR} then None
          else (case bp_count (br_page br (sn_world s)) (tg_primary_locator t) of
                  None \<Rightarrow> None
                | Some n \<Rightarrow> if n = 0 then None
                    else build_fingerprint (br_page br (sn_world s)) (tg_primary_locator t)))"

text \<open>The target after a passing step: its new fingerprint and fallbacks, ranked.\<close>

definition enriched :: "engine_target \<Rightarrow> fingerprint \<Rightarrow> engine_target" where
  "enriched target fp =
     target\<lparr>tg_fallback_locators := rank_locators (tg_fallback_locators target @
              filter (\<lambda>l. l \<noteq> tg_primary_locator target \<and> l \<notin> set (tg_fallback_locators target))
                (generate_locators fp)),
            tg_fingerprint := Some fp\<rparr>"

definition enrich_target ::
  "'w browser \<Rightarrow> engine_target \<Rightarrow> string \<Rightarrow> fingerprint option \<Rightarrow> 'w session \<Rightarrow> engine_target" where
  "enrich_target br target locator_str fp s =
     (case (case fp of None \<Rightarrow> build_fingerprint (br_page br (sn_world s)) locator_str | Some f \<Rightarrow> Some f) of
        None \<Rightarrow> target
      | Some f \<Rightarrow> enriched target f)"

section \<open>Actions on an element\<close>

definition element_actions :: "action_type list" where
  "element_actions =
     [AC_CLICK, AC_FILL, AC_PRESS, AC_SELECT, AC_CHECK, AC_UNCHECK, AC_HOVER, AC_UPLOAD, AC_DRAG,
      AC_ASSERT_TEXT, AC_ASSERT_VALUE, AC_ASSERT_VISIBLE]"

definition on_element :: "'w browser \<Rightarrow> string \<Rightarrow> element_action \<Rightarrow> int \<Rightarrow> ('w, unit) op" where
  "on_element br loc a timeout = call (br_do br (On_element loc a timeout))"

definition with_value :: "engine_step \<Rightarrow> string \<Rightarrow> (string \<Rightarrow> ('w, unit) op) \<Rightarrow> ('w, unit) op" where
  "with_value step name f = andthen (require_value step name) f"

definition assert_text :: "'w browser \<Rightarrow> engine_step \<Rightarrow> string \<Rightarrow> int \<Rightarrow> ('w, unit) op" where
  "assert_text br step loc timeout =
     (let expected = collapse_spaces (or_empty (es_expected step)) in
      andthen (call (br_inner_text br loc timeout)) (\<lambda>text.
        let actual = collapse_spaces text in
        if es_exact step
        then check (actual = expected)
          (''assert_text failed: expected exactly '' @ quote_text expected @ '', got '' @ quote_text actual)
        else check (text_contains actual expected)
          (''assert_text failed: expected '' @ quote_text expected @ '' in '' @ quote_text actual)))"

definition assert_value :: "'w browser \<Rightarrow> engine_step \<Rightarrow> string \<Rightarrow> int \<Rightarrow> ('w, unit) op" where
  "assert_value br step loc timeout =
     (let expected = or_empty (es_expected step) in
      andthen (call (br_input_value br loc timeout)) (\<lambda>actual.
        check (actual = expected)
          (''assert_value failed: expected '' @ py_repr expected @ '', got '' @ py_repr actual)))"

definition assert_visible :: "'w browser \<Rightarrow> string \<Rightarrow> int \<Rightarrow> ('w, unit) op" where
  "assert_visible br loc timeout =
     andthen (on_element br loc (Wait_state ''visible'') timeout) (\<lambda>_.
     andthen (call (br_is_visible br loc)) (\<lambda>b.
       check b (''assert_visible failed: '' @ py_repr loc @ '' is not visible'')))"

definition assert_hidden :: "'w browser \<Rightarrow> string \<Rightarrow> int \<Rightarrow> ('w, unit) op" where
  "assert_hidden br loc timeout =
     catching (\<lambda>k. k = XK_Timeout) (on_element br loc (Wait_state ''hidden'') timeout)
       (\<lambda>e. fail XK_Assertion (''assert_hidden failed: '' @ py_repr loc @ '' is still visible''))"

definition element_op :: "'w browser \<Rightarrow> engine_step \<Rightarrow> string \<Rightarrow> int \<Rightarrow> ('w, unit) op" where
  "element_op br step loc timeout =
     (case es_action step of
        AC_CLICK \<Rightarrow> on_element br loc Click timeout
      | AC_FILL \<Rightarrow> with_value step ''fill'' (\<lambda>v. on_element br loc (Fill v) timeout)
      | AC_PRESS \<Rightarrow> with_value step ''press'' (\<lambda>v. on_element br loc (Press v) timeout)
      | AC_SELECT \<Rightarrow> with_value step ''select'' (\<lambda>v. on_element br loc (Select v) timeout)
      | AC_CHECK \<Rightarrow> on_element br loc Check timeout
      | AC_UNCHECK \<Rightarrow> on_element br loc Uncheck timeout
      | AC_HOVER \<Rightarrow> on_element br loc Hover timeout
      | AC_DRAG \<Rightarrow> with_value step ''drag'' (\<lambda>v. on_element br loc (Drag_to v) timeout)
      | AC_UPLOAD \<Rightarrow> with_value step ''upload'' (\<lambda>v. on_element br loc (upload_payload br v) timeout)
      | AC_ASSERT_TEXT \<Rightarrow> assert_text br step loc timeout
      | AC_ASSERT_VALUE \<Rightarrow> assert_value br step loc timeout
      | AC_ASSERT_VISIBLE \<Rightarrow> assert_visible br loc timeout
      | AC_ASSERT_HIDDEN \<Rightarrow> assert_hidden br loc timeout
      | a \<Rightarrow> fail XK_Value (''Unhandled action '' @ action_repr a @ '' in _perform_action_with_locator''))"

definition perform_action_with_locator ::
  "'w browser \<Rightarrow> engine_step \<Rightarrow> string \<Rightarrow> engine_config \<Rightarrow> ('w, string) op" where
  "perform_action_with_locator br step loc cfg =
     (let floor = nc_min_action_timeout_ms cfg;
          timeout = max (if es_timeout_ms step = 0 then floor else es_timeout_ms step) floor
      in andthen (element_op br step loc timeout) (\<lambda>_. ret loc))"

section \<open>Other actions\<close>

definition nav_timeout :: "engine_step \<Rightarrow> int" where
  "nav_timeout step = max (if es_timeout_ms step = 0 then 15000 else es_timeout_ms step) 15000"

definition goto_page :: "'w browser \<Rightarrow> engine_step \<Rightarrow> ('w, unit) op" where
  "goto_page br step =
     andthen (require_value step ''goto'') (\<lambda>url.
     andthen (catching (\<lambda>k. True)
         (call (br_goto br url (nav_timeout step) ''domcontentloaded''))
         (\<lambda>e. call (br_goto br url (nav_timeout step) ''commit''))) (\<lambda>response.
     andthen (check_status step url response) (\<lambda>_.
     andthen (suppress (call (br_do br (Load_state ''load'' 10000)))) (\<lambda>_.
       suppress (call (br_do br (Load_state ''networkidle'' 2000)))))))"

definition wait_for :: "'w browser \<Rightarrow> engine_step \<Rightarrow> ('w, unit) op" where
  "wait_for br step =
     (let v = strip (or_empty (es_value step)); timeout = es_timeout_ms step;
          selector = call (br_do br (Wait_selector v timeout))
      in if v = []
         then suppress (call (br_do br (Load_state ''networkidle''
                (min (if timeout = 0 then 5000 else timeout) 5000))))
         else (case py_int v of
                 None \<Rightarrow> selector
               | Some ms \<Rightarrow> catching (\<lambda>k. k = XK_Value) (pause br ms) (\<lambda>e. selector)))"

text \<open>The poll of \<open>assert_url\<close>: every round waits 200 ms, so the deadline is reached.\<close>

function await_url ::
  "'w browser \<Rightarrow> string \<Rightarrow> bool \<Rightarrow> int \<Rightarrow> 'w session \<Rightarrow> (engine_exn + unit) \<times> 'w session" where
  "await_url br expected exact deadline s =
     (case br_url br (sn_world s) of
        Inl e \<Rightarrow> (Inl e, s)
      | Inr url \<Rightarrow>
          if url_matches url expected exact then (Inr (), s)
          else if deadline \<le> sn_clock s
          then fail XK_Assertion
             (if exact then ''assert_url failed: expected '' @ py_repr expected @ '', got '' @ py_repr url
              else ''assert_url failed: expected '' @ py_repr expected @ '' in '' @ py_repr url) s
          else (case pause br 200 s of
                  (Inl e, s') \<Rightarrow> (Inl e, s')
                | (Inr _, s') \<Rightarrow> await_url br expected exact deadline s'))"
  by pat_completeness auto
termination
  by (relation "measure (\<lambda>(br, expected, exact, deadline, s). nat (deadline - sn_clock s))")
     (auto simp: pause_def split: prod.splits sum.splits)

declare await_url.simps [simp del]

definition assert_url :: "'w browser \<Rightarrow> engine_step \<Rightarrow> ('w, unit) op" where
  "assert_url br step s =
     await_url br (or_empty (or_str (es_expected step) (es_value step))) (es_exact step)
       (sn_clock s + max (if es_timeout_ms step = 0 then 5000 else es_timeout_ms step) 1000) s"

definition perform_action :: "'w browser \<Rightarrow> engine_step \<Rightarrow> engine_config \<Rightarrow> ('w, string option) op" where
  "perform_action br step cfg =
     (if es_action step = AC_GOTO then andthen (goto_page br step) (\<lambda>_. ret None)
      else if es_action step = AC_WAIT_FOR then andthen (wait_for br step) (\<lambda>_. ret None)
      else if es_action step = AC_ASSERT_URL then andthen (assert_url br step) (\<lambda>_. ret None)
      else if es_action step = AC_PRESS \<and> es_target step = None
      then andthen (with_value step ''press'' (\<lambda>v. call (br_do br (Key v)))) (\<lambda>_. ret None)
      else andthen (require_locator step) (\<lambda>loc.
           andthen (perform_action_with_locator br step loc cfg) (\<lambda>used. ret (Some used))))"

section \<open>One step\<close>

definition may_open :: "action_type list" where
  "may_open = [AC_CLICK, AC_PRESS, AC_DRAG]"

text \<open>\<open>_open_grace\<close>, in milliseconds.\<close>

definition open_grace :: "'w browser \<Rightarrow> engine_step \<Rightarrow> 'w session \<Rightarrow> nat" where
  "open_grace br step s =
     (if es_action step \<notin> set may_open then 0
      else case es_target step of
             None \<Rightarrow> 150
           | Some t \<Rightarrow>
               (case bp_count (br_page br (sn_world s)) (tg_primary_locator t) of
                  None \<Rightarrow> 150
                | Some n \<Rightarrow>
                    if n \<noteq> 0 \<and> br_opens br (sn_world s) (tg_primary_locator t) = Some True
                    then 1000 else 150))"

definition capture_path :: "string \<Rightarrow> string \<Rightarrow> string \<Rightarrow> string \<Rightarrow> string" where
  "capture_path base_dir test_id step_id file =
     base_dir @ ''/'' @ safe_segment test_id @ ''/'' @ safe_segment step_id @ ''/'' @ file"

definition write_screenshot :: "'w browser \<Rightarrow> string \<Rightarrow> string \<Rightarrow> string \<Rightarrow> ('w, string option) op" where
  "write_screenshot br test_id step_id base_dir =
     call (br_capture br (capture_path base_dir test_id step_id ''screenshot.png''))"

definition write_dom_snapshot :: "'w browser \<Rightarrow> string \<Rightarrow> string \<Rightarrow> string \<Rightarrow> ('w, string option) op" where
  "write_dom_snapshot br test_id step_id base_dir =
     call (br_capture br (capture_path base_dir test_id step_id ''dom.html''))"

text \<open>What one step needs besides the step: the run's names and where the step began.\<close>

record 'w step_env =
  sv_browser :: "'w browser"
  sv_ratio :: fuzzy_ratio
  sv_config :: engine_config
  sv_test_id :: string
  sv_artifacts_dir :: string

definition selects :: "healing_report option \<Rightarrow> bool" where
  "selects h = (case h of None \<Rightarrow> False | Some r \<Rightarrow> truthy (hp_selected_locator r))"

definition heal_now :: "'w step_env \<Rightarrow> engine_step \<Rightarrow> 'w session \<Rightarrow> healing_report option" where
  "heal_now env step s =
     attempt_healing (sv_ratio env) (br_page (sv_browser env) (sn_world s)) step (sv_config env)"

definition heal_missing_early :: "'w step_env \<Rightarrow> engine_step \<Rightarrow> ('w, healing_report option) op" where
  "heal_missing_early env step =
     (case es_target step of
        None \<Rightarrow> ret None
      | Some t \<Rightarrow>
          if es_action step \<notin> set element_actions \<or> nc_quick_heal_ms (sv_config env) \<le> 0 then ret None
          else if tg_fallback_locators t = [] \<and> tg_fingerprint t = None then ret None
          else catching playwright_error
                 (andthen (on_element (sv_browser env) (tg_primary_locator t) (Wait_state ''attached'')
                     (nc_quick_heal_ms (sv_config env))) (\<lambda>_. ret None))
                 (\<lambda>e s. (Inr (if selects (heal_now env step s) then heal_now env step s else None), s)))"

definition healed_result ::
  "'w step_env \<Rightarrow> engine_step \<Rightarrow> healing_report \<Rightarrow> 'w session \<Rightarrow> ('w, step_result) op" where
  "healed_result env step healing start =
     andthen (perform_action_with_locator (sv_browser env) step (or_empty (hp_selected_locator healing))
         (sv_config env)) (\<lambda>used s1.
     andthen (write_screenshot (sv_browser env) (sv_test_id env) (es_step_id step) (sv_artifacts_dir env)) (\<lambda>shot.
     andthen (write_dom_snapshot (sv_browser env) (sv_test_id env) (es_step_id step) (sv_artifacts_dir env)) (\<lambda>dom s.
       (Inr \<lparr>sr_step_id = es_step_id step, sr_status = SS_HEALED, sr_error = None,
             sr_duration_ms = sn_clock s1 - sn_clock start, sr_locator_used = Some used,
             sr_healing = Some healing, sr_screenshot_path = shot, sr_dom_snapshot_path = dom,
             sr_page_url = page_url (sv_browser env) s,
             sr_console_logs = fst (br_log (sv_browser env) (sn_world start) (sn_world s)),
             sr_network_errors = snd (br_log (sv_browser env) (sn_world start) (sn_world s))\<rparr>, s))) s1)"

definition passed_result ::
  "'w step_env \<Rightarrow> engine_step \<Rightarrow> string option \<Rightarrow> 'w session \<Rightarrow> 'w session \<Rightarrow> step_result" where
  "passed_result env step used start s =
     \<lparr>sr_step_id = es_step_id step, sr_status = SS_PASSED, sr_error = None,
      sr_duration_ms = sn_clock s - sn_clock start, sr_locator_used = used, sr_healing = None,
      sr_screenshot_path = None, sr_dom_snapshot_path = None,
      sr_page_url = page_url (sv_browser env) s,
      sr_console_logs = fst (br_log (sv_browser env) (sn_world start) (sn_world s)),
      sr_network_errors = snd (br_log (sv_browser env) (sn_world start) (sn_world s))\<rparr>"

definition failed_result ::
  "'w step_env \<Rightarrow> engine_step \<Rightarrow> string \<Rightarrow> int \<Rightarrow> healing_report option \<Rightarrow> 'w session \<Rightarrow> ('w, step_result) op" where
  "failed_result env step msg duration healing start =
     andthen (write_screenshot (sv_browser env) (sv_test_id env) (es_step_id step) (sv_artifacts_dir env)) (\<lambda>shot.
     andthen (write_dom_snapshot (sv_browser env) (sv_test_id env) (es_step_id step) (sv_artifacts_dir env)) (\<lambda>dom s.
       (Inr \<lparr>sr_step_id = es_step_id step, sr_status = SS_FAILED, sr_error = Some msg,
             sr_duration_ms = duration, sr_locator_used = None, sr_healing = healing,
             sr_screenshot_path = shot, sr_dom_snapshot_path = dom,
             sr_page_url = page_url (sv_browser env) s,
             sr_console_logs = fst (br_log (sv_browser env) (sn_world start) (sn_world s)),
             sr_network_errors = snd (br_log (sv_browser env) (sn_world start) (sn_world s))\<rparr>, s)))"

text \<open>The \<open>try\<close> block: an early heal, or the action and the enrichment of its target.\<close>

definition enriched_step ::
  "'w step_env \<Rightarrow> engine_step \<Rightarrow> string option \<Rightarrow> fingerprint option \<Rightarrow> 'w session \<Rightarrow> engine_step" where
  "enriched_step env step used fp s =
     (case es_target step of
        None \<Rightarrow> step
      | Some t \<Rightarrow>
          if truthy used
          then step\<lparr>es_target := Some (enrich_target (sv_browser env) t (or_empty used) fp s)\<rparr>
          else step)"

definition step_body :: "'w step_env \<Rightarrow> engine_step \<Rightarrow> 'w session \<Rightarrow> ('w, step_result \<times> engine_step) op" where
  "step_body env step start =
     andthen (heal_missing_early env step) (\<lambda>healing s0.
       case healing of
         Some h \<Rightarrow> andthen (healed_result env step h start) (\<lambda>r. ret (r, step)) s0
       | None \<Rightarrow>
           andthen (perform_action (sv_browser env) step (sv_config env)) (\<lambda>used s.
             let step' = enriched_step env step used (fingerprint_if_present (sv_browser env) step s0) s
             in (Inr (passed_result env step used start s, step'), s)) s0)"

text \<open>The \<open>except\<close> block: a failed check is a result; anything else may be healed once.\<close>

definition step_handler ::
  "'w step_env \<Rightarrow> engine_step \<Rightarrow> 'w session \<Rightarrow> engine_exn \<Rightarrow> ('w, step_result) op" where
  "step_handler env step start e s =
     (let duration = sn_clock s - sn_clock start;
          healing = (if xn_kind e = XK_Assertion then None else heal_now env step s)
      in case healing of
           Some h \<Rightarrow>
             if truthy (hp_selected_locator h)
             then catching (\<lambda>k. True) (healed_result env step h start)
                    (\<lambda>e'. failed_result env step (''Healing failed on retry: '' @ xn_text e') duration healing start) s
             else failed_result env step (xn_text e) duration healing start s
         | None \<Rightarrow> failed_result env step (xn_text e) duration healing start s)"

definition execute_step :: "'w step_env \<Rightarrow> engine_step \<Rightarrow> ('w, step_result \<times> engine_step) op" where
  "execute_step env step start =
     catching (\<lambda>k. k \<noteq> XK_Other) (step_body env step start)
       (\<lambda>e. andthen (step_handler env step start e) (\<lambda>r. ret (r, step))) start"

section \<open>The run\<close>

definition opt_text :: "string option \<Rightarrow> string" where
  "opt_text s = (case s of None \<Rightarrow> ''None'' | Some t \<Rightarrow> t)"

definition with_events :: "step_result \<Rightarrow> string option list \<Rightarrow> string list \<Rightarrow> step_result" where
  "with_events r tabs files =
     r\<lparr>sr_console_logs := sr_console_logs r @ map (\<lambda>u. ''[new tab] '' @ opt_text u) tabs @
          map (\<lambda>n. ''[download] '' @ n) files\<rparr>"

text \<open>
  The loop: the exception that ended it, if any, the results so far, and the steps with their
  targets as the run left them.
\<close>

fun run_steps ::
  "'w step_env \<Rightarrow> engine_step list \<Rightarrow> 'w session \<Rightarrow>
     (engine_exn option \<times> step_result list \<times> engine_step list) \<times> 'w session" where
  "run_steps env [] s = ((None, [], []), s)"
| "run_steps env (step # steps) s =
     (case execute_step env step s of
        (Inl e, s1) \<Rightarrow> ((Some e, [], step # steps), s1)
      | (Inr (r, step'), s1) \<Rightarrow>
          (case call (br_settle (sv_browser env) (open_grace (sv_browser env) step s)) s1 of
             (Inl e, s2) \<Rightarrow> ((Some e, [], step' # steps), s2)
           | (Inr (tabs, files), s2) \<Rightarrow>
               if sr_status r = SS_FAILED then ((None, [with_events r tabs files], step' # steps), s2)
               else (case run_steps env steps s2 of
                       ((e, rs, steps'), s3) \<Rightarrow> ((e, with_events r tabs files # rs, step' # steps'), s3))))"

definition no_failure :: "step_result list \<Rightarrow> bool" where
  "no_failure rs \<longleftrightarrow> rs \<noteq> [] \<and> list_all (\<lambda>r. sr_status r \<noteq> SS_FAILED) rs"

text \<open>A passing run still shows what the browser ended on.\<close>

definition final_screenshot :: "'w step_env \<Rightarrow> step_result list \<Rightarrow> ('w, step_result list) op" where
  "final_screenshot env rs =
     (if rs \<noteq> [] \<and> sr_status (last rs) \<noteq> SS_FAILED \<and> \<not> truthy (sr_screenshot_path (last rs))
      then andthen (write_screenshot (sv_browser env) (sv_test_id env) (sr_step_id (last rs))
               (sv_artifacts_dir env))
             (\<lambda>shot. ret (butlast rs @ [(last rs)\<lparr>sr_screenshot_path := shot\<rparr>]))
      else ret rs)"

record run_request =
  rq_plan :: engine_plan
  rq_options :: "run_options option"
  rq_env :: "string \<Rightarrow> string option"
  rq_visual :: bool
  rq_baseline :: "string option"
  rq_storage :: "pyval option"
  rq_keep_state :: bool
  rq_run_name :: string
  rq_started_at :: string

definition run_config :: "run_request \<Rightarrow> engine_config" where
  "run_config q =
     (case rq_options q of
        None \<Rightarrow> default_engine_config (rq_env q)
      | Some r \<Rightarrow> merged r (default_engine_config (rq_env q)))"

record run_outcome =
  ot_result :: run_result
  ot_plan :: engine_plan
  ot_state :: "pyval option"

text \<open>
  Everything between opening and closing the browser: results, steps, visual check and stored
  session as far as they got, and the exception that ended it.
\<close>

record session_end =
  se_results :: "step_result list"
  se_steps :: "engine_step list"
  se_visual :: "(string \<times> pyval) list option"
  se_state :: "pyval option"
  se_error :: "engine_exn option"

definition visual_and_state ::
  "'w step_env \<Rightarrow> run_request \<Rightarrow> step_result list \<Rightarrow> engine_step list \<Rightarrow> 'w session \<Rightarrow> session_end \<times> 'w session" where
  "visual_and_state env q rs steps s =
     (let done = \<lparr>se_results = rs, se_steps = steps, se_visual = None, se_state = None, se_error = None\<rparr>;
          look = (if rq_visual q \<and> no_failure rs
                  then call (\<lambda>w. apfst Inr (br_visual (sv_browser env) (nc_visual_full_page (run_config q))
                         (rq_baseline q) (sv_artifacts_dir env) w))
                  else ret None)
      in case look s of
           (Inl e, s1) \<Rightarrow> (done\<lparr>se_error := Some e\<rparr>, s1)
         | (Inr v, s1) \<Rightarrow>
             if rq_keep_state q \<and> no_failure rs
             then (case call (br_storage (sv_browser env)) s1 of
                     (Inl e, s2) \<Rightarrow> (done\<lparr>se_visual := v, se_error := Some e\<rparr>, s2)
                   | (Inr st, s2) \<Rightarrow> (done\<lparr>se_visual := v, se_state := Some st\<rparr>, s2))
             else (done\<lparr>se_visual := v\<rparr>, s1))"

definition session_body :: "'w step_env \<Rightarrow> run_request \<Rightarrow> 'w session \<Rightarrow> session_end \<times> 'w session" where
  "session_body env q s =
     (case run_steps env (ep_steps (rq_plan q)) s of
        ((Some e, rs, steps), s1) \<Rightarrow>
          (\<lparr>se_results = rs, se_steps = steps, se_visual = None, se_state = None, se_error = Some e\<rparr>, s1)
      | ((None, rs, steps), s1) \<Rightarrow>
          (case final_screenshot env rs s1 of
             (Inl e, s2) \<Rightarrow>
               (\<lparr>se_results = rs, se_steps = steps, se_visual = None, se_state = None, se_error = Some e\<rparr>, s2)
           | (Inr rs', s2) \<Rightarrow> visual_and_state env q rs' steps s2))"

definition browser_run :: "'w step_env \<Rightarrow> run_request \<Rightarrow> 'w session \<Rightarrow> session_end \<times> 'w session" where
  "browser_run env q s =
     (case call (br_open (sv_browser env) (run_config q) (sv_artifacts_dir env @ ''/_trace.zip'') (rq_storage q)) s of
        (Inl e, s1) \<Rightarrow>
          (\<lparr>se_results = [], se_steps = ep_steps (rq_plan q), se_visual = None, se_state = None,
            se_error = Some e\<rparr>, s1)
      | (Inr _, s1) \<Rightarrow>
          (case session_body env q s1 of
             (done, s2) \<Rightarrow>
               (case call (br_close (sv_browser env)) s2 of
                  (Inl e, s3) \<Rightarrow> (done\<lparr>se_error := Some e\<rparr>, s3)
                | (Inr _, s3) \<Rightarrow> (done, s3))))"

definition session_failure :: "engine_plan \<Rightarrow> engine_exn \<Rightarrow> step_result" where
  "session_failure plan e =
     \<lparr>sr_step_id = (case ep_steps plan of [] \<Rightarrow> ''step_0'' | st # _ \<Rightarrow> es_step_id st),
      sr_status = SS_FAILED, sr_error = Some (''Browser execution error: '' @ xn_text e),
      sr_duration_ms = 0, sr_locator_used = None, sr_healing = None, sr_screenshot_path = None,
      sr_dom_snapshot_path = None, sr_page_url = None, sr_console_logs = [], sr_network_errors = []\<rparr>"

definition run_artifacts_dir :: "run_request \<Rightarrow> string" where
  "run_artifacts_dir q =
     nc_artifacts_dir (run_config q) @ ''/'' @ safe_segment (ep_test_id (rq_plan q)) @ ''-'' @ rq_run_name q"

definition run_env :: "'w browser \<Rightarrow> fuzzy_ratio \<Rightarrow> run_request \<Rightarrow> 'w step_env" where
  "run_env br fuzz q =
     \<lparr>sv_browser = br, sv_ratio = fuzz, sv_config = run_config q, sv_test_id = ep_test_id (rq_plan q),
      sv_artifacts_dir = run_artifacts_dir q\<rparr>"

definition run_test :: "'w browser \<Rightarrow> fuzzy_ratio \<Rightarrow> run_request \<Rightarrow> 'w session \<Rightarrow> run_outcome \<times> 'w session" where
  "run_test br fuzz q s =
     (case browser_run (run_env br fuzz q) q s of
        (done, s') \<Rightarrow>
             let results = se_results done @
                   (case se_error done of None \<Rightarrow> [] | Some e \<Rightarrow> [session_failure (rq_plan q) e])
             in (\<lparr>ot_result =
                    \<lparr>tr_test_id = ep_test_id (rq_plan q), tr_status = aggregate_status results,
                     tr_started_at = rq_started_at q, tr_duration_ms = sn_clock s' - sn_clock s,
                     tr_steps = results, tr_artifacts_dir = run_artifacts_dir q,
                     tr_visual = se_visual done\<rparr>,
                  ot_plan = (rq_plan q)\<lparr>ep_steps := se_steps done\<rparr>,
                  ot_state = se_state done\<rparr>, s'))"

section \<open>What a step result reports\<close>

lemma performed_locator:
  "perform_action_with_locator br step loc cfg s = (Inr used, s') \<Longrightarrow> used = loc"
  by (auto simp: perform_action_with_locator_def andthen_def ret_def Let_def split: prod.splits sum.splits)

lemma healed_result_reports:
  assumes "healed_result env step h start s = (Inr r, s')"
  shows "\<exists>s1. perform_action_with_locator (sv_browser env) step (or_empty (hp_selected_locator h)) (sv_config env) s =
      (Inr (or_empty (hp_selected_locator h)), s1) \<and>
    sr_status r = SS_HEALED \<and> sr_step_id r = es_step_id step \<and>
    sr_locator_used r = Some (or_empty (hp_selected_locator h)) \<and> sr_healing r = Some h"
  using assms performed_locator[of "sv_browser env" step _ "sv_config env" s]
  by (fastforce simp: healed_result_def andthen_def split: prod.splits sum.splits)

lemma failed_result_reports:
  assumes "failed_result env step msg d healing start s = (Inr r, s')"
  shows "sr_status r = SS_FAILED \<and> sr_step_id r = es_step_id step \<and> sr_error r = Some msg \<and>
    sr_healing r = healing \<and> sr_locator_used r = None"
  using assms by (auto simp: failed_result_def andthen_def split: prod.splits sum.splits)

text \<open>A heal of this step: proposed for the page of some moment, and its action then succeeded.\<close>

definition really_healed :: "'w step_env \<Rightarrow> engine_step \<Rightarrow> step_result \<Rightarrow> bool" where
  "really_healed env step r \<longleftrightarrow>
     (\<exists>h l s1 s2 s3. heal_now env step s1 = Some h \<and> hp_selected_locator h = Some l \<and> l \<noteq> [] \<and>
        perform_action_with_locator (sv_browser env) step l (sv_config env) s2 = (Inr l, s3) \<and>
        sr_locator_used r = Some l \<and> sr_healing r = Some h)"

lemma truthy_iff: "truthy x \<longleftrightarrow> (\<exists>l. x = Some l \<and> l \<noteq> [])"
  by (cases x) (simp_all add: truthy_def or_empty_def)

lemma healed_really:
  assumes "heal_now env step s1 = Some h" "truthy (hp_selected_locator h)"
    "healed_result env step h start s = (Inr r, s')"
  shows "sr_status r = SS_HEALED \<and> sr_step_id r = es_step_id step \<and> really_healed env step r"
  using healed_result_reports[OF assms(3)] assms(1,2)
  unfolding really_healed_def truthy_iff by (auto simp: or_empty_def)

lemma heal_missing_early_Some:
  assumes "heal_missing_early env step s = (Inr (Some h), s')"
  shows "\<exists>s1. heal_now env step s1 = Some h \<and> truthy (hp_selected_locator h)"
proof -
  obtain s1 where "(if selects (heal_now env step s1) then heal_now env step s1 else None) = Some h"
    using assms
    by (auto simp: heal_missing_early_def catching_def andthen_def ret_def
        split: option.splits prod.splits sum.splits if_splits)
  then show ?thesis by (auto simp: selects_def split: if_splits option.splits)
qed

text \<open>The three outcomes of a step, by status.\<close>

definition step_report :: "'w step_env \<Rightarrow> engine_step \<Rightarrow> step_result \<Rightarrow> bool" where
  "step_report env step r \<longleftrightarrow>
     sr_step_id r = es_step_id step \<and>
     (case sr_status r of
        SS_PASSED \<Rightarrow> \<exists>s1 s2. perform_action (sv_browser env) step (sv_config env) s1 = (Inr (sr_locator_used r), s2)
      | SS_HEALED \<Rightarrow> really_healed env step r
      | SS_FAILED \<Rightarrow> sr_error r \<noteq> None \<and> sr_locator_used r = None)"

lemma step_body_report:
  assumes "step_body env step start s = (Inr (r, step'), s')"
  shows "step_report env step r \<and> sr_status r \<noteq> SS_FAILED"
proof -
  obtain h s0 where early: "heal_missing_early env step s = (Inr h, s0)"
    using assms by (auto simp: step_body_def andthen_def split: prod.splits sum.splits)
  show ?thesis
  proof (cases h)
    case (Some x)
    then have "healed_result env step x start s0 = (Inr r, s')"
      using assms early by (auto simp: step_body_def andthen_def ret_def split: prod.splits sum.splits)
    moreover obtain s1 where h: "heal_now env step s1 = Some x" "truthy (hp_selected_locator x)"
      using heal_missing_early_Some early Some by blast
    ultimately have "sr_status r = SS_HEALED \<and> sr_step_id r = es_step_id step \<and> really_healed env step r"
      using healed_really[OF h, of start s0 r s'] by simp
    then show ?thesis by (simp add: step_report_def)
  next
    case None
    then obtain used s1 where "perform_action (sv_browser env) step (sv_config env) s0 = (Inr used, s1)"
      "r = passed_result env step used start s1"
      using assms early by (auto simp: step_body_def andthen_def Let_def split: prod.splits sum.splits)
    then show ?thesis by (auto simp: step_report_def passed_result_def)
  qed
qed

lemma step_handler_report:
  assumes "step_handler env step start e s = (Inr r, s')"
  shows "step_report env step r \<and>
    (xn_kind e = XK_Assertion \<longrightarrow>
       sr_status r = SS_FAILED \<and> sr_healing r = None \<and> sr_error r = Some (xn_text e))"
proof -
  consider (failed) msg d h s1 where "failed_result env step msg d h start s1 = (Inr r, s')"
      "xn_kind e = XK_Assertion \<Longrightarrow> h = None \<and> msg = xn_text e"
    | (healed) h where "xn_kind e \<noteq> XK_Assertion" "heal_now env step s = Some h"
      "truthy (hp_selected_locator h)" "healed_result env step h start s = (Inr r, s')"
    using assms unfolding step_handler_def Let_def catching_def
    by (auto split: if_splits option.splits prod.splits sum.splits)
  then show ?thesis
  proof cases
    case failed
    then show ?thesis using failed_result_reports[OF failed(1)] by (simp add: step_report_def)
  next
    case healed
    then show ?thesis using healed_really[OF healed(2-4)] by (simp add: step_report_def)
  qed
qed

lemma execute_step_cases:
  assumes "execute_step env step s = (Inr (r, step'), s')"
  shows "step_body env step s s = (Inr (r, step'), s') \<or>
    (\<exists>e s1. step_body env step s s = (Inl e, s1) \<and> step_handler env step s e s1 = (Inr r, s') \<and> step' = step)"
  using assms
  by (auto simp: execute_step_def catching_def andthen_def ret_def split: prod.splits sum.splits if_splits)

lemma execute_step_report:
  assumes "execute_step env step s = (Inr (r, step'), s')"
  shows "step_report env step r"
  using execute_step_cases[OF assms] step_body_report step_handler_report by blast

section \<open>What the run reports\<close>

lemma with_events_same [simp]:
  "sr_status (with_events r tabs files) = sr_status r" "sr_step_id (with_events r tabs files) = sr_step_id r"
  "sr_healing (with_events r tabs files) = sr_healing r"
  "sr_locator_used (with_events r tabs files) = sr_locator_used r"
  "sr_error (with_events r tabs files) = sr_error r"
  by (simp_all add: with_events_def)

lemma step_report_events [simp]:
  "step_report env step (with_events r tabs files) = step_report env step r"
  by (cases "sr_status r") (simp_all add: step_report_def really_healed_def)

text \<open>
  The results line up with the first steps of the plan, in order; only the last one can be a
  failure; and a run that ended without exception or failure went through the whole plan.
\<close>

definition runs_along :: "'w step_env \<Rightarrow> engine_step list \<Rightarrow> bool \<Rightarrow> step_result list \<Rightarrow> bool" where
  "runs_along env steps ended rs \<longleftrightarrow>
     list_all2 (step_report env) (take (length rs) steps) rs \<and>
     list_all (\<lambda>r. sr_status r \<noteq> SS_FAILED) (butlast rs) \<and>
     (\<not> ended \<longrightarrow> rs \<noteq> [] \<and> sr_status (last rs) = SS_FAILED \<or> length rs = length steps)"

lemma runs_along_step:
  assumes "step_report env st r"
  shows "sr_status r = SS_FAILED \<Longrightarrow> runs_along env (st # steps) ended [r]"
    "runs_along env steps ended rs \<Longrightarrow> sr_status r \<noteq> SS_FAILED \<Longrightarrow> runs_along env (st # steps) ended (r # rs)"
  using assms by (auto simp: runs_along_def)

lemma run_steps_along:
  assumes "run_steps env steps s = ((e, rs, steps'), s')"
  shows "runs_along env steps (e \<noteq> None) rs"
  using assms
proof (induction steps arbitrary: s e rs steps' s')
  case (Cons st steps)
  show ?case
  proof (cases "execute_step env st s")
    case (Pair x s1)
    show ?thesis
    proof (cases x)
      case (Inl e1)
      then show ?thesis using Cons.prems Pair by (auto simp: runs_along_def)
    next
      case (Inr rx)
      obtain r st' where rx: "rx = (r, st')" by (cases rx)
      have rep: "step_report env st r" using Pair Inr rx execute_step_report by blast
      show ?thesis
        using Cons.prems Pair Inr rx Cons.IH runs_along_step[of env st "with_events r _ _" steps] rep
        by (fastforce simp: runs_along_def[of _ _ _ "[]"] split: prod.splits sum.splits if_splits)
    qed
  qed
qed (auto simp: runs_along_def)

lemma step_report_screenshot [simp]:
  "step_report env step (r\<lparr>sr_screenshot_path := p\<rparr>) = step_report env step r"
  by (cases "sr_status r") (simp_all add: step_report_def really_healed_def)

lemma list_all2_last:
  "list_all2 P zs (rs @ [r]) \<Longrightarrow> (\<And>z. P z r \<Longrightarrow> P z r') \<Longrightarrow> list_all2 P zs (rs @ [r'])"
  by (induction rs arbitrary: zs) (auto simp: list_all2_Cons2)

lemma runs_along_last:
  assumes "runs_along env steps ended (rs @ [r])"
  shows "runs_along env steps ended (rs @ [r\<lparr>sr_screenshot_path := p\<rparr>])"
  using assms list_all2_last[of "step_report env" "take (length (rs @ [r])) steps" rs r]
  by (auto simp: runs_along_def)

lemma final_screenshot_along:
  assumes "runs_along env steps ended rs" "final_screenshot env rs s = (Inr rs', s')"
  shows "runs_along env steps ended rs'"
proof -
  consider "rs' = rs" | p where "rs \<noteq> []" "rs' = butlast rs @ [(last rs)\<lparr>sr_screenshot_path := p\<rparr>]"
  proof (cases "rs \<noteq> [] \<and> sr_status (last rs) \<noteq> SS_FAILED \<and> \<not> truthy (sr_screenshot_path (last rs))")
    case True
    then show thesis using that(2) assms(2)
      by (cases "write_screenshot (sv_browser env) (sv_test_id env) (sr_step_id (last rs)) (sv_artifacts_dir env) s")
         (auto simp: final_screenshot_def andthen_def ret_def split: sum.splits)
  next
    case False
    then show thesis using that(1) assms(2) unfolding final_screenshot_def by (simp only: if_False ret_def prod.inject sum.inject)
  qed
  then show ?thesis
  proof cases
    case 2
    then have "runs_along env steps ended (butlast rs @ [last rs])" using assms(1) by simp
    then show ?thesis unfolding 2(2) by (rule runs_along_last)
  qed (use assms(1) in simp)
qed

lemma visual_and_state_results:
  assumes "visual_and_state env q rs steps s = (done, s')"
  shows "se_results done = rs \<and> se_steps done = steps"
  using assms by (auto simp: visual_and_state_def Let_def split: prod.splits sum.splits if_splits)

lemma runs_along_ended: "runs_along env steps ended rs \<Longrightarrow> runs_along env steps True rs"
  by (simp add: runs_along_def)

lemma session_body_along:
  assumes "session_body env q s = (done, s')"
  shows "runs_along env (ep_steps (rq_plan q)) (se_error done \<noteq> None) (se_results done)"
proof -
  obtain e rs steps s1 where run: "run_steps env (ep_steps (rq_plan q)) s = ((e, rs, steps), s1)"
    by (metis prod_cases3 surj_pair)
  note along = run_steps_along[OF run]
  show ?thesis
  proof (cases e)
    case (Some x)
    then show ?thesis using assms run along by (auto simp: session_body_def)
  next
    case None
    show ?thesis
    proof (cases "final_screenshot env rs s1")
      case (Pair x s2)
      show ?thesis
      proof (cases x)
        case (Inl y)
        then show ?thesis using assms run None Pair along runs_along_ended by (auto simp: session_body_def)
      next
        case (Inr rs')
        then have "runs_along env (ep_steps (rq_plan q)) False rs'"
          using final_screenshot_along along None Pair by auto
        moreover have "se_results done = rs'"
          using assms run None Pair Inr visual_and_state_results by (fastforce simp: session_body_def)
        ultimately show ?thesis using runs_along_ended by (cases "se_error done") auto
      qed
    qed
  qed
qed

lemma runs_along_Nil: "runs_along env steps True []"
  by (simp add: runs_along_def)

lemma browser_run_along:
  assumes "browser_run env q s = (done, s')"
  shows "runs_along env (ep_steps (rq_plan q)) (se_error done \<noteq> None) (se_results done)"
proof -
  consider e where "se_error done = Some e" "se_results done = []"
    | d s1 s2 where "session_body env q s1 = (d, s2)" "se_results done = se_results d"
      "se_error done = se_error d \<or> se_error done \<noteq> None"
    using assms by (fastforce simp: browser_run_def split: prod.splits sum.splits)
  then show ?thesis
  proof cases
    case 1
    then show ?thesis by (simp add: runs_along_Nil)
  next
    case 2
    then show ?thesis using session_body_along[OF 2(1)] runs_along_ended by (cases "se_error done") auto
  qed
qed

section \<open>The executed plan\<close>

text \<open>What a run may change in a step: the fallbacks and the fingerprint of its target.\<close>

definition target_learned :: "engine_target \<Rightarrow> engine_target \<Rightarrow> bool" where
  "target_learned t t' \<longleftrightarrow>
     t' = t \<or> (\<exists>fp. t' = enriched t fp)"

definition step_learned :: "engine_step \<Rightarrow> engine_step \<Rightarrow> bool" where
  "step_learned st st' \<longleftrightarrow>
     st' = st \<or> (\<exists>t t'. es_target st = Some t \<and> target_learned t t' \<and> st' = st\<lparr>es_target := Some t'\<rparr>)"

lemma step_learned_refl [simp]: "step_learned st st" "list_all2 step_learned xs xs"
  by (simp_all add: step_learned_def list_all2_refl)

lemma enrich_target_learned: "target_learned t (enrich_target br t l fp s)"
  by (auto simp: target_learned_def enrich_target_def split: option.splits)

lemma execute_step_learned:
  assumes "execute_step env st s = (Inr (r, st'), s')"
  shows "step_learned st st'"
proof -
  have "step_learned st (enriched_step env st used fp s1)" for used fp s1
    unfolding enriched_step_def step_learned_def using enrich_target_learned
    by (cases "es_target st") (simp_all, blast)
  then have "step_learned st st''" if "step_body env st s s = (Inr (r, st''), s')" for st''
    using that
    by (auto simp: step_body_def andthen_def ret_def Let_def
        split: prod.splits sum.splits option.splits)
  then show ?thesis using execute_step_cases[OF assms] by (auto simp: step_learned_def)
qed

lemma run_steps_learned:
  assumes "run_steps env steps s = ((e, rs, steps'), s')"
  shows "list_all2 step_learned steps steps'"
  using assms
proof (induction steps arbitrary: s e rs steps' s')
  case (Cons st steps)
  show ?case
    using Cons.prems Cons.IH execute_step_learned[of env st s]
    by (auto split: prod.splits sum.splits if_splits)
qed simp

lemma session_body_steps:
  assumes "run_steps env (ep_steps (rq_plan q)) s = ((e, rs, steps), s1)" "session_body env q s = (d, s2)"
  shows "se_steps d = steps"
proof (cases e)
  case None
  then show ?thesis
  proof (cases "final_screenshot env rs s1")
    case (Pair x s3)
    then show ?thesis using assms None visual_and_state_results[of env q _ steps s3 d s2]
      by (cases x) (auto simp: session_body_def)
  qed
qed (use assms in \<open>auto simp: session_body_def\<close>)

lemma browser_run_learned:
  assumes "browser_run env q s = (done, s')"
  shows "list_all2 step_learned (ep_steps (rq_plan q)) (se_steps done)"
proof -
  consider "se_steps done = ep_steps (rq_plan q)"
    | d s1 s2 where "session_body env q s1 = (d, s2)" "se_steps done = se_steps d"
    using assms by (fastforce simp: browser_run_def split: prod.splits sum.splits)
  then show ?thesis
  proof cases
    case 2
    obtain e rs steps s3 where run: "run_steps env (ep_steps (rq_plan q)) s1 = ((e, rs, steps), s3)"
      by (metis prod_cases3 surj_pair)
    then show ?thesis using session_body_steps[OF run 2(1)] run_steps_learned[OF run] 2(2) by simp
  qed simp
qed

text \<open>What enrichment does to a target: nothing stored is lost, repeated, or made its own fallback.\<close>

definition keeps_target :: "engine_target \<Rightarrow> engine_target \<Rightarrow> bool" where
  "keeps_target t t' \<longleftrightarrow>
     tg_primary_locator t' = tg_primary_locator t \<and> tg_description t' = tg_description t \<and>
     mset (tg_fallback_locators t) \<subseteq># mset (tg_fallback_locators t') \<and>
     (distinct (tg_fallback_locators t) \<longrightarrow> distinct (tg_fallback_locators t')) \<and>
     (tg_primary_locator t \<notin> set (tg_fallback_locators t) \<longrightarrow>
        tg_primary_locator t \<notin> set (tg_fallback_locators t')) \<and>
     (t' \<noteq> t \<longrightarrow> sorted (map locator_priority (tg_fallback_locators t')) \<and> tg_fingerprint t' \<noteq> None)"

lemma target_learned_keeps: "target_learned t t' \<Longrightarrow> keeps_target t t'"
  by (auto simp: target_learned_def keeps_target_def enriched_def rank_locators_def generate_locators_def
      distinct_dedup)

definition keeps_step :: "engine_step \<Rightarrow> engine_step \<Rightarrow> bool" where
  "keeps_step st st' \<longleftrightarrow>
     st' = st\<lparr>es_target := es_target st'\<rparr> \<and> rel_option keeps_target (es_target st) (es_target st')"

lemma step_learned_keeps: "step_learned st st' \<Longrightarrow> keeps_step st st'"
proof (cases "st' = st")
  case True
  then show ?thesis using target_learned_keeps[of t t for t]
    by (cases "es_target st") (simp_all add: keeps_step_def target_learned_def)
qed (auto simp: step_learned_def keeps_step_def target_learned_keeps)

end
