(* ===== verification/Engine_Properties.thy ===== *)
theory Engine_Properties
  imports Engine_Runner
begin

text \<open>
  The properties of the execution engine: what its locator healing may select, how it scores a
  live element against the stored fingerprint, and the locators it generates and ranks. The
  samples at the start are the concrete page and plan the witnesses run on.
\<close>

section \<open>A page with one repaired field\<close>

definition sample_box :: bounding_box where
  "sample_box = \<lparr>bb_x = 10, bb_y = 20, bb_width = 100, bb_height = 30\<rparr>"

definition sample_field :: fingerprint where
  "sample_field = empty_fingerprint
     \<lparr>ef_tag := Some ''input'', ef_id := Some ''user'', ef_name := Some ''username'',
      ef_attributes := [(''type'', ''text'')], ef_sibling_index := Some 1\<rparr>"

text \<open>The stored locator broke; a fallback by name still finds the field.\<close>

definition sample_target :: engine_target where
  "sample_target = \<lparr>tg_description = ''user field'', tg_primary_locator = ''#old'',
     tg_fallback_locators = [''#gone'', ''input.name''],
     tg_fingerprint = Some (sample_field\<lparr>ef_bounding_box := Some sample_box\<rparr>)\<rparr>"

definition sample_engine_step :: engine_step where
  "sample_engine_step = (engine_step_of ''step-1'' AC_FILL)\<lparr>es_target := Some sample_target, es_value := Some ''Ada''\<rparr>"

definition sample_page :: browser_page where
  "sample_page =
     \<lparr>bp_count = (\<lambda>s. if s = ''input.name'' then Some 1 else Some 0),
      bp_visible = (\<lambda>s. Some True), bp_evaluate = (\<lambda>s. Some sample_field),
      bp_box = (\<lambda>s. Some (Some sample_box)), bp_query = (\<lambda>ss n. Some [])\<rparr>"

definition exact_ratio :: fuzzy_ratio where
  "exact_ratio s t = (if s = t then 100 else 0)"

abbreviation sample_config :: engine_config where
  "sample_config \<equiv> default_engine_config (\<lambda>k. None)"

definition placed_field :: fingerprint where
  "placed_field = sample_field\<lparr>ef_bounding_box := Some sample_box\<rparr>"

definition ones :: healing_signals where
  "ones = \<lparr>sg_attribute = 1, sg_text = 1, sg_position = 1, sg_structure = 1\<rparr>"

lemma placed_score: "score_fingerprint exact_ratio placed_field placed_field [''id''] = (1, ones)"
  unfolding ones_def
proof (rule score_unchanged)
  show "exact_ratio t t = 100" for t by (simp add: exact_ratio_def)
qed code_simp+

text \<open>Only the third locator resolves, and its element is the stored one.\<close>

lemma sample_scores:
  "stage_score exact_ratio sample_page sample_target ''#gone'' = None"
  "stage_score exact_ratio sample_page sample_target ''input.name'' =
     Some \<lparr>kc_locator = ''input.name'', kc_score = 1, kc_signals = ones\<rparr>"
proof -
  have b: "broken_attributes (tg_primary_locator sample_target) = [''id'']" by code_simp
  have "resolve_unique sample_page ''#gone'' = None" by code_simp
  moreover have "resolve_unique sample_page ''input.name'' = Some placed_field"
    by (simp add: resolve_unique_def sample_page_def build_fingerprint_def placed_field_def
        valid_bounding_box_def sample_box_def)
  ultimately show "stage_score exact_ratio sample_page sample_target ''#gone'' = None"
    "stage_score exact_ratio sample_page sample_target ''input.name'' =
     Some \<lparr>kc_locator = ''input.name'', kc_score = 1, kc_signals = ones\<rparr>"
    unfolding stage_score_def b
    by (simp_all add: live_scorer_def scored_locator_def sample_target_def placed_score flip: placed_field_def)
qed

lemma sample_threshold: "nc_heal_threshold sample_config = 3/4"
  by code_simp

definition sample_report :: healing_report where
  "sample_report =
     (let c = \<lparr>kc_locator = ''input.name'', kc_score = 1, kc_signals = ones\<rparr>
      in heal_report ''#old'' [c] (Some c) (''fallback['' @ show_nat 1 @ '']''))"

lemma sample_healing:
  "attempt_healing exact_ratio sample_page sample_engine_step sample_config = Some sample_report"
  using sample_scores
  by (simp add: attempt_healing_def sample_engine_step_def sample_target_def stage_score_def
      sample_threshold sample_report_def Let_def)

lemma sample_report_selects: "hp_selected_locator sample_report = Some ''input.name''"
  by (simp add: sample_report_def heal_report_def Let_def)

text \<open>A browser whose page is the sample page: waiting for the old locator times out.\<close>

definition sample_browser :: "unit browser" where
  "sample_browser =
     \<lparr>br_page = (\<lambda>w. sample_page), br_url = (\<lambda>w. Inr ''http://shop/''),
      br_do = (\<lambda>c w. (if c = On_element ''#old'' (Wait_state ''attached'') 1500
                        then Inl (raise_exn XK_Timeout ''not attached'') else Inr (), 5, ())),
      br_goto = (\<lambda>u t c w. (Inr (Some 200), 5, ())), br_inner_text = (\<lambda>l t w. (Inr [], 5, ())),
      br_input_value = (\<lambda>l t w. (Inr [], 5, ())), br_is_visible = (\<lambda>l w. (Inr True, 5, ())),
      br_opens = (\<lambda>w l. None), br_settle = (\<lambda>g w. (Inr ([], []), g, ())),
      br_log = (\<lambda>w w'. ([], [])), br_capture = (\<lambda>p w. (Inr (Some p), 5, ())),
      br_visual = (\<lambda>f b d w. (None, 5, ())), br_storage = (\<lambda>w. (Inr PNone, 5, ())),
      br_open = (\<lambda>c t st w. (Inr (), 5, ())), br_close = (\<lambda>w. (Inr (), 5, ())),
      br_mime = (\<lambda>n. None)\<rparr>"

definition sample_plan :: engine_plan where
  "sample_plan = \<lparr>ep_test_id = ''t1'', ep_name = ''login'', ep_base_url = ''http://shop/'',
     ep_steps = [sample_engine_step]\<rparr>"

definition sample_request :: run_request where
  "sample_request = \<lparr>rq_plan = sample_plan, rq_options = None, rq_env = (\<lambda>k. None), rq_visual = False,
     rq_baseline = None, rq_storage = None, rq_keep_state = False, rq_run_name = ''0123'',
     rq_started_at = ''2025''\<rparr>"

abbreviation sample_env :: "unit step_env" where
  "sample_env \<equiv> run_env sample_browser exact_ratio sample_request"

definition sample_session :: "unit session" where
  "sample_session = \<lparr>sn_world = (), sn_clock = 0\<rparr>"

section \<open>Properties\<close>

text \<open>
  C32: when the engine heals a step, the locator it selects is not the broken one; it comes from
  the stored fallbacks or from the live page; on the page it matches exactly one element, which
  is visible; its score is the score of that very element and reaches the configured threshold;
  with a stored fingerprint (and a positive threshold) the element is the same kind of control;
  and when the page scan chose it, every other candidate stays behind by the ambiguity margin.
\<close>

theorem engine_heal_is_safe:
  assumes "attempt_healing fuzz page step cfg = Some r" "es_target step = Some target"
    "hp_selected_locator r = Some l"
  shows "\<exists>live c.
     l \<noteq> tg_primary_locator target \<and>
     (l \<in> set (tg_fallback_locators target) \<or>
      (\<exists>fp. tg_fingerprint target = Some fp \<and> l \<in> set (extract_candidates page fp (nc_max_candidates cfg)))) \<and>
     bp_count page l = Some 1 \<and> bp_visible page l = Some True \<and> build_fingerprint page l = Some live \<and>
     c = scored_locator fuzz l (tg_fingerprint target) live (broken_attributes (tg_primary_locator target)) \<and>
     c \<in> set (hp_candidates r) \<and> hp_report_confidence r = kc_score c \<and>
     nc_heal_threshold cfg \<le> kc_score c \<and>
     (0 < nc_heal_threshold cfg \<longrightarrow> (\<forall>fp. tg_fingerprint target = Some fp \<longrightarrow> \<not> different_control fp live)) \<and>
     (hp_strategy_used r = ''fingerprint'' \<longrightarrow>
       (\<forall>d \<in> set (hp_candidates r). d \<noteq> c \<longrightarrow> heal_ambiguity_margin \<le> fl (kc_score c - kc_score d)))"
proof -
  obtain c where acc: "accepted (stage_score fuzz page target) (nc_heal_threshold cfg)
      (tg_primary_locator target) r c"
    and origin: "l \<in> set (tg_fallback_locators target) \<or> (\<exists>fp. tg_fingerprint target = Some fp \<and>
      l \<in> set (extract_candidates page fp (nc_max_candidates cfg)))"
    using attempt_healing_selected[OF assms] by blast
  have l: "l = kc_locator c" using acc assms(3) by (simp add: accepted_def)
  have other: "l \<noteq> tg_primary_locator target" using acc l unfolding accepted_def sound_candidates_def by (metis imageI)
  have score: "stage_score fuzz page target l = Some c"
    using acc l by (auto simp: accepted_def sound_candidates_def)
  obtain live where live: "resolve_unique page l = Some live"
    "c = scored_locator fuzz l (tg_fingerprint target) live (broken_attributes (tg_primary_locator target))"
    using score unfolding stage_score_def by (rule live_scorer_Some)
  have "\<not> different_control fp live"
    if "0 < nc_heal_threshold cfg" "tg_fingerprint target = Some fp" for fp
  proof
    assume "different_control fp live"
    then have "kc_score c = 0"
      using live(2) that(2) score_different[of fp live fuzz "broken_attributes (tg_primary_locator target)"]
      by (simp add: scored_locator_def case_prod_beta)
    then show False using acc that(1) by (simp add: accepted_def)
  qed
  then show ?thesis using acc origin other live by (auto simp: accepted_def resolve_unique_iff)
qed

lemma engine_heal_is_safe_witness:
  "\<exists>r live. attempt_healing exact_ratio sample_page sample_engine_step sample_config = Some r \<and>
     build_fingerprint sample_page ''input.name'' = Some live \<and>
     \<not> different_control placed_field live"
proof -
  note r = sample_healing sample_report_selects
  have t: "es_target sample_engine_step = Some sample_target" by (simp add: sample_engine_step_def)
  have "0 < nc_heal_threshold sample_config" by (simp add: sample_threshold)
  then show ?thesis
    using engine_heal_is_safe[OF r(1) t r(2)] r(1) by (auto simp: sample_target_def placed_field_def)
qed

text \<open>
  Stage 1 of the engine's healing is a linear search. The report selects the first stored
  fallback, other than the broken locator, that resolves to one visible element and scores at
  least the threshold; a repeated or already rejected locator never changes the choice. Only
  when no fallback qualifies does a report come from the page scan.
\<close>

theorem engine_first_fallback:
  assumes "es_target step = Some target"
  shows "\<exists>r. attempt_healing fuzz page step cfg = Some r \<and>
    (case find (\<lambda>l. l \<noteq> tg_primary_locator target \<and>
        qualifies (stage_score fuzz page target) (nc_heal_threshold cfg) l) (tg_fallback_locators target) of
       Some l \<Rightarrow> hp_selected_locator r = Some l
     | None \<Rightarrow> hp_strategy_used r \<in> {''fingerprint'', ''none''} \<and>
         (tg_fingerprint target = None \<longrightarrow> hp_selected_locator r = None))"
proof -
  let ?p = "tg_primary_locator target" and ?t = "nc_heal_threshold cfg"
  obtain res cs tried where f: "try_fallbacks (stage_score fuzz page target) ?t 0
      (tg_fallback_locators target) {?p} [] = (res, cs, tried)"
    by (metis prod_cases3)
  have "map_option (\<lambda>(c, k). kc_locator c) (fst (try_fallbacks (stage_score fuzz page target) ?t 0
        (tg_fallback_locators target) {?p} [])) =
      find (\<lambda>l. l \<noteq> ?p \<and> qualifies (stage_score fuzz page target) ?t l) (tg_fallback_locators target)"
    unfolding stage_score_def by (rule live.try_fallbacks_find) simp_all
  then have "map_option (\<lambda>(c, k). kc_locator c) res =
      find (\<lambda>l. l \<noteq> ?p \<and> qualifies (stage_score fuzz page target) ?t l) (tg_fallback_locators target)"
    using f by simp
  then show ?thesis
    using f assms
    by (cases res) (auto simp: attempt_healing_def stage_score_def Let_def heal_report_def split: option.splits)
qed

lemma engine_first_fallback_witness:
  "\<exists>r. attempt_healing exact_ratio sample_page sample_engine_step sample_config = Some r \<and>
     hp_selected_locator r = Some ''input.name''"
proof -
  have t: "es_target sample_engine_step = Some sample_target" by (simp add: sample_engine_step_def)
  have "find (\<lambda>l. l \<noteq> tg_primary_locator sample_target \<and>
      qualifies (stage_score exact_ratio sample_page sample_target) (nc_heal_threshold sample_config) l)
      (tg_fallback_locators sample_target) = Some ''input.name''"
    using sample_scores by (simp add: qualifies_def sample_threshold sample_target_def)
  then show ?thesis
    using engine_first_fallback[OF t, of exact_ratio sample_page sample_config] by simp
qed

text \<open>
  The score of a live element against the stored fingerprint lies in the unit interval, and
  so does every signal, whatever the two elements are; a different kind of control scores 0;
  an element that shares none of the stored identifying features never scores above 0.6; the
  same control with the same identifier never scores below 0.85.
\<close>

theorem fingerprint_score_bounds:
  assumes "ratio_in_range fuzz" "score_fingerprint fuzz stored live ignore = (score, signals)"
  shows "unit_interval score \<and> valid_signals signals \<and>
    (different_control stored live \<longrightarrow> score = 0) \<and>
    (identity_matches fuzz stored live ignore = Some False \<longrightarrow> score \<le> no_identity_cap) \<and>
    (\<not> different_control stored live \<and> ''id'' \<notin> set ignore \<and> truthy (ef_id stored) \<and>
       ef_id live = ef_id stored \<longrightarrow> id_anchor_score \<le> score)"
proof -
  have s: "score = fst (score_fingerprint fuzz stored live ignore)" "signals = signals_of fuzz stored live ignore"
    using assms(2) score_signals[of fuzz stored live ignore] by simp_all
  show ?thesis
    unfolding s using fingerprint_unit signals_valid[OF assms(1)] score_different score_no_identity score_same_id
    by (intro conjI impI) auto
qed

lemma exact_ratio_range: "ratio_in_range exact_ratio"
  by (simp add: ratio_in_range_def exact_ratio_def)

lemma fingerprint_score_bounds_witness:
  "id_anchor_score \<le> fst (score_fingerprint exact_ratio sample_field
     (sample_field\<lparr>ef_name := None, ef_parent_chain := [''div'']\<rparr>) [''name''])"
proof -
  let ?live = "sample_field\<lparr>ef_name := None, ef_parent_chain := [''div'']\<rparr>"
  have "\<not> different_control sample_field ?live" by code_simp
  moreover have "truthy (ef_id sample_field)" "ef_id ?live = ef_id sample_field" by code_simp+
  ultimately show ?thesis
    using fingerprint_score_bounds[OF exact_ratio_range, of sample_field ?live "[''name'']"
        "fst (score_fingerprint exact_ratio sample_field ?live [''name''])"
        "snd (score_fingerprint exact_ratio sample_field ?live [''name''])"] by simp
qed

text \<open>
  An element that did not change is recognised with full confidence. Scored against its own
  fingerprint (with its place on the page and something to compare besides the broken
  attribute) it gets exactly 1, in spite of the rounding of every step.
\<close>

theorem unchanged_element_scores_one:
  assumes "\<And>t. fuzz t t = 100" "ef_bounding_box fp = Some b" "ef_sibling_index fp \<noteq> None"
    "attribute_checks fp fp ignore \<noteq> []" "identity_matches fuzz fp fp ignore \<noteq> Some False"
  shows "fst (score_fingerprint fuzz fp fp ignore) = 1"
  using score_unchanged[OF assms] by simp

lemma unchanged_element_scores_one_witness:
  "fst (score_fingerprint exact_ratio placed_field placed_field [''id'']) = 1"
proof (rule unchanged_element_scores_one)
  show "exact_ratio t t = 100" for t by (simp add: exact_ratio_def)
qed code_simp+

text \<open>
  The locators generated for an element are never empty strings, never repeated, at least
  one, and come out most stable first; ranking a list of locators by stability only reorders
  it, and never swaps two locators of the same class.
\<close>

theorem locators_ranked:
  "distinct (generate_locators fp) \<and> generate_locators fp \<noteq> [] \<and> [] \<notin> set (generate_locators fp) \<and>
   sorted (map fst (locator_candidates fp)) \<and> generate_locators fp = dedup (map snd (locator_candidates fp)) \<and>
   mset (rank_locators ls) = mset ls \<and> sorted (map locator_priority (rank_locators ls)) \<and>
   filter (\<lambda>l. locator_priority l = p) (rank_locators ls) = filter (\<lambda>l. locator_priority l = p) ls"
proof -
  have "[] \<notin> set (generate_locators fp)"
    using locator_candidates_nonempty by (force simp: generate_locators_eq set_dedup)
  moreover have "distinct (generate_locators fp)" by (simp add: generate_locators_def distinct_dedup)
  ultimately show ?thesis
    by (simp add: generate_locators_nonempty locator_candidates_sorted rank_locators_def sort_key_stable)
       (simp add: generate_locators_eq)
qed

text \<open>
  C33: what a run reports is what happened. The step results follow the plan in order, one per
  step, with at most one closing entry for a browser failure; a step reported passed performed
  its action; a step reported healed was healed (the report is the healer's, its locator was
  used, and the action then succeeded on it); only the last step run can have failed; and a run
  that is not reported failed ran every step of the plan.
\<close>

theorem run_report_faithful:
  assumes "run_test br fuzz q s = (out, s')"
  shows "\<exists>rs closing. tr_steps (ot_result out) = rs @ closing \<and> length closing \<le> 1 \<and>
    list_all2 (step_report (run_env br fuzz q)) (take (length rs) (ep_steps (rq_plan q))) rs \<and>
    list_all (\<lambda>r. sr_status r \<noteq> SS_FAILED) (butlast rs) \<and>
    tr_status (ot_result out) = aggregate_status (tr_steps (ot_result out)) \<and>
    (tr_status (ot_result out) \<noteq> RS_FAILED \<longrightarrow> closing = [] \<and> length rs = length (ep_steps (rq_plan q)))"
proof -
  obtain fin where run: "browser_run (run_env br fuzz q) q s = (fin, s')"
    and steps: "tr_steps (ot_result out) = se_results fin @
      (case se_error fin of None \<Rightarrow> [] | Some e \<Rightarrow> [session_failure (rq_plan q) e])"
    and status: "tr_status (ot_result out) = aggregate_status (tr_steps (ot_result out))"
    using assms by (auto simp: run_test_def Let_def split: prod.splits)
  have along: "runs_along (run_env br fuzz q) (ep_steps (rq_plan q)) (se_error fin \<noteq> None) (se_results fin)"
    by (rule browser_run_along[OF run])
  let ?closing = "case se_error fin of None \<Rightarrow> [] | Some e \<Rightarrow> [session_failure (rq_plan q) e]"
  have "?closing = [] \<and> length (se_results fin) = length (ep_steps (rq_plan q))"
    if "tr_status (ot_result out) \<noteq> RS_FAILED"
  proof -
    have ok: "SS_FAILED \<notin> set (map sr_status (se_results fin @ ?closing))"
      using that status steps by (auto simp: aggregate_status_def split: if_splits)
    then have "se_error fin = None" by (auto simp: session_failure_def split: option.splits)
    moreover have "se_results fin \<noteq> [] \<Longrightarrow> sr_status (last (se_results fin)) \<noteq> SS_FAILED"
      using ok by (metis imageI last_in_set list.set_map UnI1 set_append map_append)
    ultimately show ?thesis using along by (auto simp: runs_along_def)
  qed
  then show ?thesis using steps status along
    by (intro exI[of _ "se_results fin"] exI[of _ ?closing]) (auto simp: runs_along_def split: option.splits)
qed

lemma sample_early:
  "heal_missing_early sample_env sample_engine_step
     \<lparr>sn_world = (), sn_clock = 5\<rparr> = (Inr (Some sample_report), \<lparr>sn_world = (), sn_clock = 10\<rparr>)"
proof -
  have "nc_quick_heal_ms sample_config = 1500" by code_simp
  moreover have "heal_now sample_env sample_engine_step s =
      Some sample_report" for s
    using sample_healing by (simp add: heal_now_def run_env_def sample_browser_def sample_request_def run_config_def)
  moreover have "tg_fallback_locators sample_target \<noteq> []" "tg_primary_locator sample_target = ''#old''"
    by (simp_all add: sample_target_def)
  ultimately show ?thesis
    by (simp add: heal_missing_early_def sample_engine_step_def[THEN arg_cong[where f = es_target]]
        sample_engine_step_def[THEN arg_cong[where f = es_action]] engine_step_of_def element_actions_def
        run_env_def run_config_def sample_request_def catching_def andthen_def on_element_def call_def
        sample_browser_def raise_exn_def playwright_error_def selects_def sample_report_selects truthy_iff)
qed

lemma sample_env_parts:
  "sv_browser sample_env = sample_browser" "sv_config sample_env = sample_config"
  by (simp_all add: run_env_def run_config_def sample_request_def)

lemma sample_calls:
  "call (br_do sample_browser (On_element l (Fill v) t)) s = (Inr (), \<lparr>sn_world = (), sn_clock = sn_clock s + 5\<rparr>)"
  "call (br_capture sample_browser p) s = (Inr (Some p), \<lparr>sn_world = (), sn_clock = sn_clock s + 5\<rparr>)"
  "call (br_open sample_browser c p st) s = (Inr (), \<lparr>sn_world = (), sn_clock = sn_clock s + 5\<rparr>)"
  "call (br_close sample_browser) s = (Inr (), \<lparr>sn_world = (), sn_clock = sn_clock s + 5\<rparr>)"
  "call (br_settle sample_browser g) s = (Inr ([], []), \<lparr>sn_world = (), sn_clock = sn_clock s + int g\<rparr>)"
  by (simp_all add: call_def sample_browser_def)

lemma sample_step_run:
  "\<exists>r c. execute_step sample_env sample_engine_step
     \<lparr>sn_world = (), sn_clock = 5\<rparr> = (Inr (r, sample_engine_step), \<lparr>sn_world = (), sn_clock = c\<rparr>) \<and>
   sr_status r = SS_HEALED \<and> truthy (sr_screenshot_path r)"
proof -
  have step: "es_action sample_engine_step = AC_FILL" "es_value sample_engine_step = Some ''Ada''"
    by (simp_all add: sample_engine_step_def engine_step_of_def)
  show ?thesis
    by (simp add: execute_step_def step_body_def catching_def andthen_def sample_early healed_result_def
        perform_action_with_locator_def element_op_def step with_value_def require_value_def truthy_iff
        or_empty_def ret_def on_element_def sample_calls write_screenshot_def write_dom_snapshot_def
        sample_env_parts sample_report_selects capture_path_def Let_def)
qed

lemma sample_run_status:
  "tr_status (ot_result (fst (run_test sample_browser exact_ratio sample_request sample_session))) = RS_HEALED"
proof -
  obtain r c where step: "execute_step sample_env sample_engine_step
      \<lparr>sn_world = (), sn_clock = 5\<rparr> = (Inr (r, sample_engine_step), \<lparr>sn_world = (), sn_clock = c\<rparr>)"
    "sr_status r = SS_HEALED" "truthy (sr_screenshot_path r)"
    using sample_step_run by auto
  have shot: "truthy (sr_screenshot_path (with_events r [] []))" using step(3) by (simp add: with_events_def)
  have plan: "rq_plan sample_request = sample_plan" "ep_steps sample_plan = [sample_engine_step]"
    "\<not> rq_visual sample_request" "\<not> rq_keep_state sample_request"
    by (simp_all add: sample_request_def sample_plan_def)
  show ?thesis
    using step(1,2) shot
    by (simp add: run_test_def browser_run_def session_body_def plan sample_calls sample_env_parts sample_session_def
        final_screenshot_def visual_and_state_def ret_def Let_def aggregate_status_def)
qed

lemma run_report_faithful_witness:
  "\<exists>r. tr_steps (ot_result (fst (run_test sample_browser exact_ratio sample_request sample_session))) = [r] \<and>
     step_report sample_env sample_engine_step r"
proof -
  let ?out = "run_test sample_browser exact_ratio sample_request sample_session"
  have steps: "ep_steps (rq_plan sample_request) = [sample_engine_step]"
    by (simp add: sample_request_def sample_plan_def)
  show ?thesis
    using run_report_faithful[of sample_browser exact_ratio sample_request sample_session "fst ?out" "snd ?out"]
      sample_run_status by (auto simp: steps length_Suc_conv)
qed

text \<open>The step ended failed with this message and this healing on record, its target as it was.\<close>

definition ended_failed :: "engine_step \<Rightarrow> string \<Rightarrow> healing_report option \<Rightarrow> step_result \<times> engine_step \<Rightarrow> bool" where
  "ended_failed step msg healing res \<longleftrightarrow>
     sr_status (fst res) = SS_FAILED \<and> sr_error (fst res) = Some msg \<and> sr_healing (fst res) = healing \<and> snd res = step"

lemma assertion_ends_step:
  assumes "step_body env step s s = (Inl e, s1)" "xn_kind e = XK_Assertion"
    "execute_step env step s = (Inr res, s')"
  shows "ended_failed step (xn_text e) None res"
  using execute_step_cases[of env step s "fst res" "snd res" s'] step_handler_report[of env step s e s1 "fst res" s'] assms
  by (auto simp: ended_failed_def)

lemma healed_result_Inl:
  "perform_action_with_locator (sv_browser env) step (or_empty (hp_selected_locator h)) (sv_config env) s = (Inl e, s1) \<Longrightarrow>
   healed_result env step h start s = (Inl e, s1)"
  by (simp add: healed_result_def andthen_def)

text \<open>
  C34: a check that finds its element and fails (an AssertionError: a wrong text, value, address or HTTP
  status, or an element that should be hidden and stays visible) ends its step as failed; it is never
  turned into a pass by another locator. If the check fails on the step's own locator, after no early
  healing, or on the locator that early healing chose, the step is reported failed with that very message
  and without a healing. If the action first failed for another reason and was retried on the locator that
  healing chose, a failure of the retry, a failed check included, is reported failed as a failed retry with
  that healing on record. The check for visibility is no such check: an element that is found and stays
  hidden makes the browser time out, and a timeout is healed like a missing element.
\<close>

theorem failed_check_not_healed:
  assumes "heal_missing_early env step s = (Inr early, s0)" "execute_step env step s = (Inr res, s')"
  shows "(\<forall>e s1. early = None \<longrightarrow> perform_action (sv_browser env) step (sv_config env) s0 = (Inl e, s1) \<longrightarrow>
       xn_kind e = XK_Assertion \<longrightarrow> ended_failed step (xn_text e) None res) \<and>
    (\<forall>h e s1. early = Some h \<longrightarrow>
       perform_action_with_locator (sv_browser env) step (or_empty (hp_selected_locator h)) (sv_config env) s0 = (Inl e, s1) \<longrightarrow>
       xn_kind e = XK_Assertion \<longrightarrow> ended_failed step (xn_text e) None res) \<and>
    (\<forall>e s1 h e' s2. early = None \<longrightarrow> perform_action (sv_browser env) step (sv_config env) s0 = (Inl e, s1) \<longrightarrow>
       xn_kind e \<noteq> XK_Assertion \<longrightarrow> heal_now env step s1 = Some h \<longrightarrow> truthy (hp_selected_locator h) \<longrightarrow>
       perform_action_with_locator (sv_browser env) step (or_empty (hp_selected_locator h)) (sv_config env) s1 = (Inl e', s2) \<longrightarrow>
       ended_failed step (''Healing failed on retry: '' @ xn_text e') (Some h) res)"
proof (intro conjI allI impI)
  fix e s1 assume "early = None" "perform_action (sv_browser env) step (sv_config env) s0 = (Inl e, s1)" "xn_kind e = XK_Assertion"
  moreover from this have "step_body env step s s = (Inl e, s1)" using assms(1) by (simp add: step_body_def andthen_def)
  ultimately show "ended_failed step (xn_text e) None res" using assertion_ends_step assms(2) by blast
next
  fix h e s1 assume "early = Some h" "xn_kind e = XK_Assertion"
    "perform_action_with_locator (sv_browser env) step (or_empty (hp_selected_locator h)) (sv_config env) s0 = (Inl e, s1)"
  moreover from this have "step_body env step s s = (Inl e, s1)"
    using assms(1) healed_result_Inl[of env step h s0 e s1 s] by (simp add: step_body_def andthen_def)
  ultimately show "ended_failed step (xn_text e) None res" using assertion_ends_step assms(2) by blast
next
  fix e s1 h e' s2 assume a: "early = None" "perform_action (sv_browser env) step (sv_config env) s0 = (Inl e, s1)"
    "xn_kind e \<noteq> XK_Assertion" "heal_now env step s1 = Some h" "truthy (hp_selected_locator h)"
    "perform_action_with_locator (sv_browser env) step (or_empty (hp_selected_locator h)) (sv_config env) s1 = (Inl e', s2)"
  then have body: "step_body env step s s = (Inl e, s1)" using assms(1) by (simp add: step_body_def andthen_def)
  then have h: "step_handler env step s e s1 = (Inr (fst res), s')" "snd res = step"
    using execute_step_cases[of env step s "fst res" "snd res" s'] assms(2) by auto
  have "failed_result env step (''Healing failed on retry: '' @ xn_text e') (sn_clock s1 - sn_clock s) (Some h) s s2 =
      (Inr (fst res), s')"
    using h(1) a healed_result_Inl[OF a(6), of s] by (simp add: step_handler_def catching_def)
  then show "ended_failed step (''Healing failed on retry: '' @ xn_text e') (Some h) res"
    using failed_result_reports h(2) unfolding ended_failed_def by blast
qed

text \<open>A check that fails: the page answers a navigation with status 404.\<close>

definition broken_browser :: "unit browser" where
  "broken_browser = sample_browser\<lparr>br_goto := (\<lambda>u t c w. (Inr (Some 404), 5, ()))\<rparr>"

definition goto_step :: engine_step where
  "goto_step = (engine_step_of ''step-1'' AC_GOTO)\<lparr>es_value := Some ''http://shop/''\<rparr>"

lemma failed_check_not_healed_witness:
  "\<exists>r s'. execute_step (run_env broken_browser exact_ratio sample_request) goto_step sample_session =
     (Inr (r, goto_step), s') \<and> sr_status r = SS_FAILED \<and> sr_healing r = None"
proof -
  let ?env = "run_env broken_browser exact_ratio sample_request"
  have step: "es_target goto_step = None" "es_action goto_step = AC_GOTO" "es_value goto_step = Some ''http://shop/''"
    "es_expected goto_step = None"
    by (simp_all add: goto_step_def engine_step_of_def)
  have early: "heal_missing_early ?env goto_step sample_session = (Inr None, sample_session)"
    by (simp add: heal_missing_early_def step ret_def)
  obtain e s1 where act: "perform_action (sv_browser ?env) goto_step (sv_config ?env) sample_session = (Inl e, s1)"
    "xn_kind e = XK_Assertion"
    by (simp add: perform_action_def step goto_page_def andthen_def require_value_def truthy_def or_empty_def
        ret_def run_env_def broken_browser_def catching_def call_def check_status_def strip_def lstrip_def
        rstrip_def py_isdigit_def check_def fail_def raise_exn_def)
  obtain r step' s' where run: "execute_step ?env goto_step sample_session = (Inr (r, step'), s')"
    using early act
    by (simp add: execute_step_def step_body_def catching_def andthen_def step_handler_def failed_result_def
        write_screenshot_def write_dom_snapshot_def call_def run_env_def broken_browser_def sample_browser_def
        ret_def)
  show ?thesis
    using failed_check_not_healed[OF early run] act run by (auto simp: ended_failed_def)
qed

text \<open>
  C35: running a plan changes nothing in it but what it learned. The executed plan has the same
  steps; only targets differ, and there the primary locator and description stay, no stored
  fallback is lost, a repetition-free list stays so, the primary locator never becomes its own
  fallback, and a target that changed has a fingerprint and its fallbacks ranked by stability.
\<close>

theorem executed_plan_learned:
  assumes "run_test br fuzz q s = (out, s')"
  shows "ot_plan out = (rq_plan q)\<lparr>ep_steps := ep_steps (ot_plan out)\<rparr> \<and>
    list_all2 keeps_step (ep_steps (rq_plan q)) (ep_steps (ot_plan out))"
proof -
  obtain fin where "browser_run (run_env br fuzz q) q s = (fin, s')"
    "ot_plan out = (rq_plan q)\<lparr>ep_steps := se_steps fin\<rparr>"
    using assms by (auto simp: run_test_def Let_def split: prod.splits)
  then show ?thesis
    using browser_run_learned[of "run_env br fuzz q" q s fin s'] step_learned_keeps
    by (auto elim: list_all2_mono)
qed

lemma executed_plan_learned_witness:
  "map es_step_id (ep_steps (ot_plan (fst (run_test sample_browser exact_ratio sample_request sample_session)))) =
     [''step-1'']"
proof -
  let ?out = "run_test sample_browser exact_ratio sample_request sample_session"
  have steps: "ep_steps (rq_plan sample_request) = [sample_engine_step]"
    by (simp add: sample_request_def sample_plan_def)
  obtain st where "ep_steps (ot_plan (fst ?out)) = [st]" "keeps_step sample_engine_step st"
    using executed_plan_learned[of sample_browser exact_ratio sample_request sample_session "fst ?out" "snd ?out"]
    unfolding steps by (auto simp: list_all2_Cons1)
  moreover have "es_step_id st = es_step_id sample_engine_step"
    using calculation(2) unfolding keeps_step_def by (metis engine_step.ext_inject engine_step.surjective
        engine_step.update_convs(3))
  ultimately show ?thesis by (simp add: sample_engine_step_def engine_step_of_def)
qed

end
