(* ===== verification/Page_Elements.thy ===== *)
theory Page_Elements
  imports Locators
begin

text \<open>
  \<^verbatim>\<open>backend/orchestration/converters.py\<close>, the elements of a page: the collector that an HTML
  parser drives, the selector that singles an element out, and the records the healer compares.
  The parser's events are the input: the calls of \<open>handle_starttag\<close>, \<open>handle_endtag\<close> and
  \<open>handle_data\<close> in order, as far as parsing got.
\<close>

section \<open>Roles\<close>

definition element_role :: "string option \<Rightarrow> (string \<times> string) list \<Rightarrow> string option" where
  "element_role tag attributes =
     (case map_of attributes ''role'' of
        Some (c # r) \<Rightarrow> Some (c # r)
      | _ \<Rightarrow>
          let tag = lower (or_empty tag) in
          if tag = ''input'' then
            let kind = lower (or_default (or_empty (map_of attributes ''type'')) ''text'') in
            if kind \<in> {''submit'', ''button'', ''reset'', ''image''} then Some ''button''
            else if kind \<in> {''checkbox'', ''radio''} then Some kind
            else Some ''textbox''
          else map_of [(''button'', ''button''), (''a'', ''link''), (''select'', ''combobox''),
                       (''textarea'', ''textbox'')] tag)"

text \<open>Collapse white space; None for empty text.\<close>

definition squash :: "string option \<Rightarrow> string option" where
  "squash text =
     (let squashed = take 200 (collapse_spaces (or_empty text))
      in if squashed = [] then None else Some squashed)"

definition element_record_from_fingerprint ::
  "fingerprint \<Rightarrow> string \<Rightarrow> string \<Rightarrow> string option \<Rightarrow> string option \<Rightarrow> string \<Rightarrow> element_record" where
  "element_record_from_fingerprint fp selector element_id page_url execution_id now =
     (let attributes = filter (\<lambda>(k, v). v \<noteq> [])
            ([(''tag'', or_empty (ef_tag fp)), (''id'', or_empty (ef_id fp)), (''name'', or_empty (ef_name fp)),
              (''aria-label'', or_empty (ef_aria_label fp)), (''placeholder'', or_empty (ef_placeholder fp))] @
             map (\<lambda>k. (k, or_empty (map_of (ef_attributes fp) k))) [''type'', ''data-testid'', ''href''])
      in \<lparr>el_element_id = element_id, el_selector = selector, el_text = squash (ef_text fp),
          el_role = element_role (ef_tag fp) (attributes @ [(''role'', or_empty (ef_role fp))]),
          el_page_url = page_url, el_page_name = None, el_attributes = attributes, el_last_seen = now,
          el_last_success_id = execution_id\<rparr>)"

section \<open>The collector\<close>

datatype html_event =
    Start_tag string "(string \<times> string option) list"
  | End_tag string
  | Data string

definition interactive_tags :: "string list" where
  "interactive_tags = [''button'', ''a'', ''input'', ''select'', ''textarea'']"

definition void_tags :: "string list" where
  "void_tags = [''area'', ''base'', ''br'', ''col'', ''embed'', ''hr'', ''img'', ''input'', ''link'', ''meta'',
     ''param'', ''source'', ''track'', ''wbr'']"

definition skip_content_tags :: "string list" where
  "skip_content_tags = [''script'', ''style'', ''template'', ''noscript'']"

definition recorded_attrs :: "string list" where
  "recorded_attrs = [''id'', ''name'', ''type'', ''data-testid'', ''aria-label'', ''placeholder'', ''href'']"

definition max_page_elements :: int where "max_page_elements = 200"

text \<open>A collected element; an open tag refers to its element by position.\<close>

record page_element =
  pe_tag :: string
  pe_attrs :: "(string \<times> string) list"
  pe_chunks :: "string list"

record collector =
  co_elements :: "page_element list"
  co_open :: "(string \<times> nat option) list"
  co_skip :: nat

definition empty_collector :: collector where
  "empty_collector = \<lparr>co_elements = [], co_open = [], co_skip = 0\<rparr>"

text \<open>\<open>{k: (v or "") for k, v in attrs}\<close>: a repeated attribute keeps its first place and last value.\<close>

definition attr_values :: "(string \<times> string option) list \<Rightarrow> (string \<times> string) list" where
  "attr_values attrs = fold (\<lambda>(k, v) d. AList.update k (or_empty v) d) attrs []"

definition has_key :: "(string \<times> string) list \<Rightarrow> string \<Rightarrow> bool" where
  "has_key d k \<longleftrightarrow> map_of d k \<noteq> None"

definition hidden_element :: "string \<Rightarrow> (string \<times> string) list \<Rightarrow> bool" where
  "hidden_element tag values \<longleftrightarrow>
     has_key values ''hidden'' \<or> map_of values ''aria-hidden'' = Some ''true'' \<or>
     tag = ''input'' \<and> lower (or_empty (map_of values ''type'')) = ''hidden''"

definition interactive_element :: "string \<Rightarrow> (string \<times> string) list \<Rightarrow> bool" where
  "interactive_element tag values \<longleftrightarrow>
     tag \<in> set interactive_tags \<or> has_key values ''role'' \<or> has_key values ''data-testid'' \<or>
     has_key values ''aria-label''"

definition collectable :: "collector \<Rightarrow> string \<Rightarrow> (string \<times> string) list \<Rightarrow> bool" where
  "collectable c tag values \<longleftrightarrow>
     interactive_element tag values \<and> \<not> hidden_element tag values \<and> co_skip c = 0 \<and>
     \<not> (tag = ''a'' \<and> \<not> has_key values ''href'')"

definition handle_starttag :: "string \<Rightarrow> (string \<times> string option) list \<Rightarrow> collector \<Rightarrow> collector" where
  "handle_starttag tag attrs c =
     (let values = attr_values attrs;
          hit = collectable c tag values;
          c1 = (if hit then c\<lparr>co_elements := co_elements c @ [\<lparr>pe_tag = tag, pe_attrs = values, pe_chunks = []\<rparr>]\<rparr>
                else c)
      in if tag \<in> set void_tags then c1
         else c1\<lparr>co_skip := (if tag \<in> set skip_content_tags then co_skip c1 + 1 else co_skip c1),
                 co_open := co_open c1 @ [(tag, if hit then Some (length (co_elements c)) else None)]\<rparr>)"

text \<open>The last open tag of that name, with everything opened after it.\<close>

fun split_last :: "string \<Rightarrow> (string \<times> nat option) list \<Rightarrow>
    ((string \<times> nat option) list \<times> (string \<times> nat option) list) option" where
  "split_last tag [] = None"
| "split_last tag (x # xs) =
     (case split_last tag xs of
        Some (kept, shut) \<Rightarrow> Some (x # kept, shut)
      | None \<Rightarrow> if fst x = tag then Some ([], x # xs) else None)"

definition handle_endtag :: "string \<Rightarrow> collector \<Rightarrow> collector" where
  "handle_endtag tag c =
     (case split_last tag (co_open c) of
        None \<Rightarrow> c
      | Some (kept, shut) \<Rightarrow>
          c\<lparr>co_open := kept,
            co_skip := fold (\<lambda>(t, _) n. if t \<in> set skip_content_tags then n - 1 else n) shut (co_skip c)\<rparr>)"

definition add_chunk :: "string \<Rightarrow> nat \<Rightarrow> page_element list \<Rightarrow> page_element list" where
  "add_chunk data i es = es[i := (es ! i)\<lparr>pe_chunks := pe_chunks (es ! i) @ [data]\<rparr>]"

definition handle_data :: "string \<Rightarrow> collector \<Rightarrow> collector" where
  "handle_data data c =
     (if co_skip c \<noteq> 0 then c
      else c\<lparr>co_elements := fold (add_chunk data) (somes (map snd (co_open c))) (co_elements c)\<rparr>)"

fun handle_event :: "html_event \<Rightarrow> collector \<Rightarrow> collector" where
  "handle_event (Start_tag tag attrs) c = handle_starttag tag attrs c"
| "handle_event (End_tag tag) c = handle_endtag tag c"
| "handle_event (Data data) c = handle_data data c"

definition collect :: "html_event list \<Rightarrow> page_element list" where
  "collect events = co_elements (fold handle_event events empty_collector)"

definition pe_text :: "page_element \<Rightarrow> string option" where
  "pe_text e = squash (Some (concat (pe_chunks e)))"

section \<open>Selectors\<close>

definition quote_css :: "string \<Rightarrow> string" where
  "quote_css v = concat (map (\<lambda>c. if c = CHR 0x5C \<or> c = CHR 0x22 then [CHR 0x5C, c] else [c]) v)"

text \<open>\<open>^[A-Za-z_][\w-]*$\<close>, where \<open>$\<close> also matches before a final newline.\<close>

definition ident_start :: "char \<Rightarrow> bool" where
  "ident_start c \<longleftrightarrow> word_char c \<and> \<not> digit c"

definition css_ident :: "string \<Rightarrow> bool" where
  "css_ident s =
     (let body = (if s \<noteq> [] \<and> last s = CHR 10 then butlast s else s) in
      case body of [] \<Rightarrow> False | c # r \<Rightarrow> ident_start c \<and> list_all (\<lambda>c. word_char c \<or> c = CHR ''-'') r)"

text \<open>The four kinds of selector the code builds, and their text.\<close>

datatype css =
    By_id string
  | By_testid string
  | By_attr string string string
  | By_text string string

fun render :: "css \<Rightarrow> string" where
  "render (By_id i) =
     (if css_ident i then ''#'' @ i else ''[id='' @ in_dquotes (quote_css i) @ '']'')"
| "render (By_testid t) = ''[data-testid='' @ in_dquotes (quote_css t) @ '']''"
| "render (By_attr tag key v) = tag @ ''['' @ key @ ''='' @ in_dquotes (quote_css v) @ '']''"
| "render (By_text tag t) = tag @ '':has-text('' @ in_dquotes (quote_css t) @ '')''"

text \<open>\<open>attrs.get(key)\<close> is truthy, and no other element of the pool has the same value.\<close>

definition sole_value :: "page_element list \<Rightarrow> page_element \<Rightarrow> string \<Rightarrow> string option" where
  "sole_value pool e key =
     (case map_of (pe_attrs e) key of
        None \<Rightarrow> None
      | Some v \<Rightarrow>
          if v \<noteq> [] \<and> count_if (\<lambda>x. map_of (pe_attrs x) key = Some v) pool = 1 then Some v else None)"

definition shows_text :: "string \<Rightarrow> page_element \<Rightarrow> bool" where
  "shows_text t x \<longleftrightarrow> (case pe_text x of None \<Rightarrow> False | Some u \<Rightarrow> contains (lower t) (lower u))"

definition unique_choice :: "page_element \<Rightarrow> page_element list \<Rightarrow> css option" where
  "unique_choice e everyone =
     (let same_tag = filter (\<lambda>x. pe_tag x = pe_tag e) everyone in
      case sole_value everyone e ''id'' of Some i \<Rightarrow> Some (By_id i) | None \<Rightarrow>
      (case sole_value everyone e ''data-testid'' of Some t \<Rightarrow> Some (By_testid t) | None \<Rightarrow>
      (case sole_value same_tag e ''name'' of Some v \<Rightarrow> Some (By_attr (pe_tag e) ''name'' v) | None \<Rightarrow>
      (case sole_value same_tag e ''aria-label'' of Some v \<Rightarrow> Some (By_attr (pe_tag e) ''aria-label'' v) | None \<Rightarrow>
      (case sole_value same_tag e ''placeholder'' of Some v \<Rightarrow> Some (By_attr (pe_tag e) ''placeholder'' v) | None \<Rightarrow>
      (case pe_text e of
         None \<Rightarrow> None
       | Some t \<Rightarrow>
           if count_if (shows_text t) same_tag = 1 then Some (By_text (pe_tag e) t) else None))))))"

definition unique_selector :: "page_element \<Rightarrow> page_element list \<Rightarrow> string option" where
  "unique_selector e everyone = map_option render (unique_choice e everyone)"

section \<open>The elements of a snapshot\<close>

definition dom_record :: "page_element \<Rightarrow> string \<Rightarrow> string option \<Rightarrow> string \<Rightarrow> element_record" where
  "dom_record e selector page_url now =
     \<lparr>el_element_id = ''dom:'' @ selector, el_selector = selector, el_text = pe_text e,
      el_role = element_role (Some (pe_tag e)) (pe_attrs e), el_page_url = page_url, el_page_name = None,
      el_attributes = (''tag'', pe_tag e) #
        filter (\<lambda>(k, v). v \<noteq> []) (map (\<lambda>k. (k, or_empty (map_of (pe_attrs e) k))) recorded_attrs),
      el_last_seen = now, el_last_success_id = None\<rparr>"

text \<open>The loop with its limit, tested after each record.\<close>

fun dom_records ::
  "page_element list \<Rightarrow> string option \<Rightarrow> int \<Rightarrow> string option \<Rightarrow> string \<Rightarrow>
     page_element list \<Rightarrow> element_record list \<Rightarrow> element_record list" where
  "dom_records everyone tag limit page_url now [] records = records"
| "dom_records everyone tag limit page_url now (e # es) records =
     (if truthy tag \<and> pe_tag e \<noteq> lower (or_empty tag)
      then dom_records everyone tag limit page_url now es records
      else case unique_selector e everyone of
             None \<Rightarrow> dom_records everyone tag limit page_url now es records
           | Some s \<Rightarrow>
               let records' = records @ [dom_record e s page_url now] in
               if limit \<le> int (length records') then records'
               else dom_records everyone tag limit page_url now es records')"

definition page_elements_from_dom ::
  "(string \<Rightarrow> html_event list) \<Rightarrow> string \<Rightarrow> string option \<Rightarrow> string option \<Rightarrow> int \<Rightarrow> string \<Rightarrow> element_record list" where
  "page_elements_from_dom parser html page_url tag limit now =
     (let es = collect (parser html) in dom_records es tag limit page_url now es [])"

section \<open>What the selectors match\<close>

text \<open>CSS on the collected elements; \<open>:has-text\<close> ignores case and matches a part of the text.\<close>

fun css_matches :: "css \<Rightarrow> page_element \<Rightarrow> bool" where
  "css_matches (By_id i) x \<longleftrightarrow> map_of (pe_attrs x) ''id'' = Some i"
| "css_matches (By_testid t) x \<longleftrightarrow> map_of (pe_attrs x) ''data-testid'' = Some t"
| "css_matches (By_attr tag key v) x \<longleftrightarrow> pe_tag x = tag \<and> map_of (pe_attrs x) key = Some v"
| "css_matches (By_text tag t) x \<longleftrightarrow> pe_tag x = tag \<and> shows_text t x"

lemma css_matches_eqs:
  "css_matches (By_id i) = (\<lambda>x. map_of (pe_attrs x) ''id'' = Some i)"
  "css_matches (By_testid t) = (\<lambda>x. map_of (pe_attrs x) ''data-testid'' = Some t)"
  "css_matches (By_attr tag key v) = (\<lambda>x. map_of (pe_attrs x) key = Some v \<and> pe_tag x = tag)"
  "css_matches (By_text tag t) = (\<lambda>x. shows_text t x \<and> pe_tag x = tag)"
  by (auto simp: fun_eq_iff)

lemma count_if_1:
  assumes "count_if P xs = 1" "e \<in> set xs" "P e"
  shows "filter P xs = [e]"
proof -
  obtain x where x: "filter P xs = [x]"
    using assms(1) by (auto simp: count_if_def length_Suc_conv)
  moreover have "e \<in> set (filter P xs)" using assms(2,3) by simp
  ultimately show ?thesis by simp
qed

lemma sole_value_Some:
  assumes "sole_value pool e key = Some v" "e \<in> set pool"
  shows "filter (\<lambda>x. map_of (pe_attrs x) key = Some v) pool = [e]"
proof (rule count_if_1)
  show "count_if (\<lambda>x. map_of (pe_attrs x) key = Some v) pool = 1" "map_of (pe_attrs e) key = Some v"
    using assms(1) by (auto simp: sole_value_def split: option.splits if_splits)
qed (rule assms(2))

lemma shows_own_text: "pe_text e = Some t \<Longrightarrow> shows_text t e"
  using contains_infix[of "lower t" "[]" "[]"] by (simp add: shows_text_def)

lemma unique_choice_matches:
  assumes "unique_choice e everyone = Some c" "e \<in> set everyone"
  shows "filter (css_matches c) everyone = [e]"
proof -
  let ?same = "filter (\<lambda>x. pe_tag x = pe_tag e) everyone"
  have e: "e \<in> set ?same" using assms(2) by simp
  have attr: "filter (css_matches (By_attr (pe_tag e) key v)) everyone = [e]"
    if "sole_value ?same e key = Some v" for key v
    using sole_value_Some[OF that e] by (simp add: css_matches_eqs conj_commute)
  have has: "filter (css_matches (By_text (pe_tag e) t)) everyone = [e]"
    if "pe_text e = Some t" "count_if (shows_text t) ?same = 1" for t
    using count_if_1[OF that(2) e shows_own_text[OF that(1)]] by (simp add: css_matches_eqs conj_commute)
  show ?thesis
    using assms(1) attr has sole_value_Some[OF _ assms(2)]
    by (auto simp: unique_choice_def Let_def css_matches_eqs(1,2) split: option.splits if_splits)
qed

section \<open>Distinct elements have distinct selectors\<close>

text \<open>Tag names without the characters that end a tag in a selector.\<close>

definition plain_tag :: "string \<Rightarrow> bool" where
  "plain_tag t \<longleftrightarrow> list_all (\<lambda>c. c \<notin> set ''#[:'') t"

fun plain_css :: "css \<Rightarrow> bool" where
  "plain_css (By_attr tag key v) = (plain_tag tag \<and> key \<in> {''name'', ''aria-label'', ''placeholder''})"
| "plain_css (By_text tag t) = plain_tag tag"
| "plain_css c = True"

lemma unique_choice_plain:
  "unique_choice e everyone = Some c \<Longrightarrow> plain_tag (pe_tag e) \<Longrightarrow> plain_css c"
  by (auto simp: unique_choice_def Let_def split: option.splits if_splits)

lemma quote_css_inj: "quote_css v = quote_css w \<Longrightarrow> v = w"
proof (induction v arbitrary: w)
  case Nil
  then show ?case by (cases w) (auto simp: quote_css_def split: if_splits)
next
  case (Cons c v)
  then obtain d w' where "w = d # w'" by (cases w) (auto simp: quote_css_def split: if_splits)
  then show ?case using Cons by (auto simp: quote_css_def split: if_splits)
qed

text \<open>How a selector's text splits at its first bracket or colon.\<close>

lemma plain_split:
  assumes "plain_tag t" "plain_tag u" "c \<in> set ''#[:''" "d \<in> set ''#[:''" "t @ c # r = u @ d # s"
  shows "t = u \<and> c = d \<and> r = s"
proof -
  have split: "takeWhile (\<lambda>c. c \<notin> set ''#[:'') (t @ c # r) = t" if "plain_tag t" "c \<in> set ''#[:''" for t c r
    using that by (auto simp: plain_tag_def list_all_iff takeWhile_append2 takeWhile_tail)
  have "t = u" using split[OF assms(1,3), of r] split[OF assms(2,4), of s] assms(5) by metis
  then show ?thesis using assms(5) by simp
qed

text \<open>The parts around that character.\<close>

fun css_parts :: "css \<Rightarrow> string \<times> char \<times> string" where
  "css_parts (By_id i) =
     (if css_ident i then ([], CHR ''#'', i) else ([], CHR ''['', ''id='' @ in_dquotes (quote_css i) @ '']''))"
| "css_parts (By_testid t) = ([], CHR ''['', ''data-testid='' @ in_dquotes (quote_css t) @ '']'')"
| "css_parts (By_attr tag key v) = (tag, CHR ''['', key @ ''='' @ in_dquotes (quote_css v) @ '']'')"
| "css_parts (By_text tag t) = (tag, CHR '':'', ''has-text('' @ in_dquotes (quote_css t) @ '')'')"

lemma render_parts: "render a = (case css_parts a of (t, c, r) \<Rightarrow> t @ c # r)"
  by (cases a) simp_all

lemma css_parts_plain: "plain_css a \<Longrightarrow> css_parts a = (t, c, r) \<Longrightarrow> plain_tag t \<and> c \<in> set ''#[:''"
  by (cases a) (auto simp: plain_tag_def split: if_splits)

lemma key_split:
  assumes "k \<in> {''name'', ''aria-label'', ''placeholder''}" "l \<in> {''name'', ''aria-label'', ''placeholder''}"
    "k @ CHR ''='' # r = l @ CHR ''='' # s"
  shows "k = l \<and> r = s"
  using assms by auto

lemma css_parts_inj:
  assumes "css_parts a = css_parts b" "plain_css a" "plain_css b"
  shows "a = b"
proof -
  have q: "v = w" if "in_dquotes (quote_css v) @ x = in_dquotes (quote_css w) @ x" for v w x
    using that by (simp add: in_dquotes_def quote_css_inj)
  show ?thesis
  proof (cases a)
    case (By_id i)
    then show ?thesis using assms q by (cases b) (auto split: if_splits)
  next
    case (By_testid t)
    then show ?thesis using assms q by (cases b) (auto split: if_splits)
  next
    case (By_attr t k v)
    show ?thesis
    proof (cases b)
      case b: (By_attr u l w)
      have k: "k \<in> {''name'', ''aria-label'', ''placeholder''}" "l \<in> {''name'', ''aria-label'', ''placeholder''}"
        using assms(2,3) By_attr b by simp_all
      have t: "t = u" and r: "k @ CHR ''='' # in_dquotes (quote_css v) @ '']'' = l @ CHR ''='' # in_dquotes (quote_css w) @ '']''"
        using assms(1) By_attr b by simp_all
      show ?thesis using key_split[OF k r] t q[of v "'']''" w] By_attr b by simp
    qed (use assms By_attr in \<open>auto split: if_splits\<close>)
  next
    case (By_text t v)
    then show ?thesis using assms q by (cases b) (auto split: if_splits)
  qed
qed

lemma render_inj:
  assumes "render a = render b" "plain_css a" "plain_css b"
  shows "a = b"
proof (rule css_parts_inj[OF _ assms(2,3)])
  obtain t c r u d s where parts: "css_parts a = (t, c, r)" "css_parts b = (u, d, s)"
    by (metis prod_cases3)
  then have "t @ c # r = u @ d # s" using assms(1) by (simp add: render_parts)
  then show "css_parts a = css_parts b"
    using plain_split[OF css_parts_plain[OF assms(2) parts(1), THEN conjunct1]
        css_parts_plain[OF assms(3) parts(2), THEN conjunct1]
        css_parts_plain[OF assms(2) parts(1), THEN conjunct2]
        css_parts_plain[OF assms(3) parts(2), THEN conjunct2]] parts by simp
qed

section \<open>The records of a page\<close>

text \<open>Selectors of records come from distinct elements, in page order.\<close>

lemma dom_records_from:
  "\<exists>xs. subseq xs es \<and> dom_records everyone tag limit page_url now es records =
     records @ map (\<lambda>e. dom_record e (the (unique_selector e everyone)) page_url now) xs \<and>
     list_all (\<lambda>e. unique_selector e everyone \<noteq> None \<and> (truthy tag \<longrightarrow> pe_tag e = lower (or_empty tag))) xs"
proof (induction es arbitrary: records)
  case (Cons e es)
  have skip: ?case if "dom_records everyone tag limit page_url now (e # es) records =
      dom_records everyone tag limit page_url now es records"
  proof -
    obtain xs where "subseq xs es" "dom_records everyone tag limit page_url now es records =
        records @ map (\<lambda>e. dom_record e (the (unique_selector e everyone)) page_url now) xs"
      "list_all (\<lambda>e. unique_selector e everyone \<noteq> None \<and> (truthy tag \<longrightarrow> pe_tag e = lower (or_empty tag))) xs"
      using Cons by blast
    then show ?thesis using that list_emb_Cons[of "(=)" xs es e] by (intro exI[of _ xs]) simp
  qed
  show ?case
  proof (cases "truthy tag \<and> pe_tag e \<noteq> lower (or_empty tag)")
    case False
    show ?thesis
    proof (cases "unique_selector e everyone")
      case (Some s)
      let ?r = "dom_record e s page_url now"
      show ?thesis
      proof (cases "limit \<le> int (length (records @ [?r]))")
        case True
        then show ?thesis using False Some by (intro exI[of _ "[e]"]) (auto simp: Let_def)
      next
        case over: False
        obtain xs where "subseq xs es" "dom_records everyone tag limit page_url now es (records @ [?r]) =
            (records @ [?r]) @ map (\<lambda>e. dom_record e (the (unique_selector e everyone)) page_url now) xs"
          "list_all (\<lambda>e. unique_selector e everyone \<noteq> None \<and> (truthy tag \<longrightarrow> pe_tag e = lower (or_empty tag))) xs"
          using Cons by blast
        then show ?thesis using False Some over by (intro exI[of _ "e # xs"]) (auto simp: Let_def)
      qed
    qed (use skip False in auto)
  qed (use skip in auto)
qed simp

end
