(* ===== verification/Py_Json.thy ===== *)
theory Py_Json
  imports Engine_Schemas Agent_Orchestrator
begin

text \<open>
  JSON values as Python sees them: truth, \<open>str\<close> and \<open>repr\<close>; and the two records that travel as
  JSON, with what \<open>model_dump(mode="json")\<close> writes and \<open>model_validate\<close> reads back. Reading
  numbers out of strings is pydantic's own: \<open>number_reader\<close> is a parameter.
\<close>

fun pv_true :: "pyval \<Rightarrow> bool" where
  "pv_true PNone = False"
| "pv_true (PBool b) = b"
| "pv_true (PInt i) = (i \<noteq> 0)"
| "pv_true (PFloat x) = (x \<noteq> 0)"
| "pv_true (PStr s) = (s \<noteq> [])"
| "pv_true (PList vs) = (vs \<noteq> [])"
| "pv_true (PDict d) = (d \<noteq> [])"

fun pv_repr :: "pyval \<Rightarrow> string" where
  "pv_repr PNone = ''None''"
| "pv_repr (PBool b) = (if b then ''True'' else ''False'')"
| "pv_repr (PInt i) = show_int i"
| "pv_repr (PFloat x) = py_str_float x"
| "pv_repr (PStr s) = py_repr s"
| "pv_repr (PList vs) = ''['' @ join '', '' (map pv_repr vs) @ '']''"
| "pv_repr (PDict d) = ''{'' @ join '', '' (map (\<lambda>(k, v). py_repr k @ '': '' @ pv_repr v) d) @ ''}''"

definition pv_str :: "pyval \<Rightarrow> string" where
  "pv_str v = (case v of PStr s \<Rightarrow> s | _ \<Rightarrow> pv_repr v)"

text \<open>\<open>a or b\<close>\<close>

definition pv_or :: "pyval \<Rightarrow> pyval \<Rightarrow> pyval" where
  "pv_or a b = (if pv_true a then a else b)"

section \<open>Reading values\<close>

record number_reader =
  nr_int :: "string \<Rightarrow> int option"
  nr_float :: "string \<Rightarrow> f64 option"

definition lax_int :: "number_reader \<Rightarrow> pyval \<Rightarrow> int option" where
  "lax_int nr v =
     (case v of
        PInt i \<Rightarrow> Some i
      | PBool b \<Rightarrow> Some (if b then 1 else 0)
      | PFloat x \<Rightarrow> if of_int \<lfloor>x\<rfloor> = x then Some \<lfloor>x\<rfloor> else None
      | PStr s \<Rightarrow> nr_int nr s
      | _ \<Rightarrow> None)"

definition lax_float :: "number_reader \<Rightarrow> pyval \<Rightarrow> f64 option" where
  "lax_float nr v =
     (case v of
        PFloat x \<Rightarrow> Some x
      | PInt i \<Rightarrow> Some (fl (of_int i))
      | PBool b \<Rightarrow> Some (if b then 1 else 0)
      | PStr s \<Rightarrow> nr_float nr s
      | _ \<Rightarrow> None)"

fun parse_strings :: "pyval list \<Rightarrow> string list option" where
  "parse_strings [] = Some []"
| "parse_strings (PStr s # vs) = map_option (Cons s) (parse_strings vs)"
| "parse_strings (_ # vs) = None"

lemma parse_strings_PStr [simp]: "parse_strings (map PStr xs) = Some xs"
  by (induction xs) simp_all

lemma parse_str_pairs_PStr [simp]: "parse_str_pairs (map (\<lambda>(k, v). (k, PStr v)) d) = Some d"
  by (induction d) auto

lemma parse_opt_str_opt_str:
  "dict_get d key = opt_str v \<Longrightarrow> parse_opt_str d key = Some v"
  by (cases v) (simp_all add: parse_opt_str_def opt_str_def)

definition parse_text :: "(string \<times> pyval) list \<Rightarrow> string \<Rightarrow> string option" where
  "parse_text d key = (case dict_get d key of PStr s \<Rightarrow> if s = [] then None else Some s | _ \<Rightarrow> None)"

definition parse_str_or :: "(string \<times> pyval) list \<Rightarrow> string \<Rightarrow> string \<Rightarrow> string option" where
  "parse_str_or d key dflt = (case dict_get_or d key (PStr dflt) of PStr s \<Rightarrow> Some s | _ \<Rightarrow> None)"

definition parse_enum :: "'a list \<Rightarrow> ('a \<Rightarrow> string) \<Rightarrow> pyval \<Rightarrow> 'a option" where
  "parse_enum members val v = (case v of PStr s \<Rightarrow> enum_of_value members val s | _ \<Rightarrow> None)"

definition parse_optional :: "(pyval \<Rightarrow> 'a option) \<Rightarrow> pyval \<Rightarrow> 'a option option" where
  "parse_optional f v = (if v = PNone then Some None else map_option Some (f v))"

definition parse_list :: "(pyval \<Rightarrow> 'a option) \<Rightarrow> pyval \<Rightarrow> 'a list option" where
  "parse_list f v =
     (case v of PList vs \<Rightarrow> if list_all (\<lambda>x. f x \<noteq> None) vs then Some (map (the \<circ> f) vs) else None | _ \<Rightarrow> None)"

lemma parse_text_PStr [simp]: "s \<noteq> [] \<Longrightarrow> dict_get d key = PStr s \<Longrightarrow> parse_text d key = Some s"
  by (simp add: parse_text_def)

section \<open>Fingerprints\<close>

definition str_dict :: "(string \<times> string) list \<Rightarrow> pyval" where
  "str_dict d = PDict (map (\<lambda>(k, v). (k, PStr v)) d)"

definition box_dump :: "bounding_box option \<Rightarrow> pyval" where
  "box_dump b =
     (case b of
        None \<Rightarrow> PNone
      | Some b \<Rightarrow> PDict [(''x'', PFloat (bb_x b)), (''y'', PFloat (bb_y b)), (''width'', PFloat (bb_width b)),
                        (''height'', PFloat (bb_height b))])"

definition fingerprint_dump :: "fingerprint \<Rightarrow> pyval" where
  "fingerprint_dump f = PDict
     [(''tag'', opt_str (ef_tag f)), (''id'', opt_str (ef_id f)), (''classes'', str_list (ef_classes f)),
      (''text'', opt_str (ef_text f)), (''role'', opt_str (ef_role f)),
      (''aria_label'', opt_str (ef_aria_label f)), (''name'', opt_str (ef_name f)),
      (''placeholder'', opt_str (ef_placeholder f)), (''attributes'', str_dict (ef_attributes f)),
      (''parent_chain'', str_list (ef_parent_chain f)),
      (''sibling_index'', case ef_sibling_index f of None \<Rightarrow> PNone | Some i \<Rightarrow> PInt i),
      (''bounding_box'', box_dump (ef_bounding_box f))]"

definition parse_string_list :: "(string \<times> pyval) list \<Rightarrow> string \<Rightarrow> string list option" where
  "parse_string_list d key =
     (case dict_get_or d key (PList []) of PList vs \<Rightarrow> parse_strings vs | _ \<Rightarrow> None)"

definition parse_string_dict :: "(string \<times> pyval) list \<Rightarrow> string \<Rightarrow> (string \<times> string) list option" where
  "parse_string_dict d key =
     (case dict_get_or d key (PDict []) of PDict ps \<Rightarrow> parse_str_pairs ps | _ \<Rightarrow> None)"

definition parse_opt_int :: "number_reader \<Rightarrow> (string \<times> pyval) list \<Rightarrow> string \<Rightarrow> int option option" where
  "parse_opt_int nr d key =
     (case dict_get d key of PNone \<Rightarrow> Some None | v \<Rightarrow> map_option Some (lax_int nr v))"

definition box_load :: "number_reader \<Rightarrow> pyval \<Rightarrow> bounding_box option option" where
  "box_load nr v =
     (case v of
        PNone \<Rightarrow> Some None
      | PDict d \<Rightarrow>
          (case (lax_float nr (dict_get d ''x''), lax_float nr (dict_get d ''y''),
                 lax_float nr (dict_get d ''width''), lax_float nr (dict_get d ''height'')) of
             (Some x, Some y, Some w, Some h) \<Rightarrow>
               if 0 \<le> w \<and> 0 \<le> h then Some (Some \<lparr>bb_x = x, bb_y = y, bb_width = w, bb_height = h\<rparr>) else None
           | _ \<Rightarrow> None)
      | _ \<Rightarrow> None)"

definition fingerprint_load :: "number_reader \<Rightarrow> pyval \<Rightarrow> fingerprint option" where
  "fingerprint_load nr v =
     (case v of
        PDict d \<Rightarrow>
          (case (parse_opt_str d ''tag'', parse_opt_str d ''id'', parse_string_list d ''classes'',
                 parse_opt_str d ''text'', parse_opt_str d ''role'', parse_opt_str d ''aria_label'',
                 parse_opt_str d ''name'', parse_opt_str d ''placeholder'', parse_string_dict d ''attributes'',
                 parse_string_list d ''parent_chain'', parse_opt_int nr d ''sibling_index'',
                 box_load nr (dict_get d ''bounding_box'')) of
             (Some tag, Some i, Some classes, Some text, Some role, Some aria, Some name, Some ph,
              Some attrs, Some chain, Some sib, Some box) \<Rightarrow>
               Some \<lparr>ef_tag = tag, ef_id = i, ef_classes = classes, ef_text = text, ef_role = role,
                     ef_aria_label = aria, ef_name = name, ef_placeholder = ph, ef_attributes = attrs,
                     ef_parent_chain = chain, ef_sibling_index = sib, ef_bounding_box = box\<rparr>
           | _ \<Rightarrow> None)
      | _ \<Rightarrow> None)"

definition valid_fingerprint :: "fingerprint \<Rightarrow> bool" where
  "valid_fingerprint f \<longleftrightarrow> pred_option valid_bounding_box (ef_bounding_box f)"

lemma box_load_dump: "pred_option valid_bounding_box b \<Longrightarrow> box_load nr (box_dump b) = Some b"
  by (cases b) (simp_all add: box_load_def box_dump_def dict_get_def lax_float_def valid_bounding_box_def)

lemma fingerprint_load_dump:
  assumes "valid_fingerprint f" shows "fingerprint_load nr (fingerprint_dump f) = Some f"
proof -
  have int: "map_option Some (lax_int nr (PInt i)) = Some (Some i)" for i
    by (simp add: lax_int_def)
  have "box_load nr (box_dump (ef_bounding_box f)) = Some (ef_bounding_box f)"
    using assms by (intro box_load_dump) (simp add: valid_fingerprint_def)
  then show ?thesis
    unfolding fingerprint_load_def fingerprint_dump_def pyval.case
    by (simp add: parse_opt_str_opt_str dict_get_def dict_get_or_def parse_string_list_def parse_string_dict_def
        str_list_def str_dict_def parse_opt_int_def lax_int_def split: option.splits)
qed

section \<open>Element records\<close>

definition element_dump :: "element_record \<Rightarrow> pyval" where
  "element_dump e = PDict
     [(''element_id'', PStr (el_element_id e)), (''selector'', PStr (el_selector e)),
      (''text'', opt_str (el_text e)), (''role'', opt_str (el_role e)), (''page_url'', opt_str (el_page_url e)),
      (''page_name'', opt_str (el_page_name e)), (''attributes'', str_dict (el_attributes e)),
      (''last_seen_timestamp'', PStr (el_last_seen e)),
      (''last_successful_execution_id'', opt_str (el_last_success_id e))]"

lemma parse_element_dump:
  assumes "el_element_id e \<noteq> []" "el_selector e \<noteq> []"
  shows "parse_element now (element_dump e) = Some e"
  using assms unfolding parse_element_def element_dump_def pyval.case
  by (simp add: parse_opt_str_opt_str dict_get_def dict_get_or_def str_dict_def)

text \<open>Elements with pairwise different selectors all arrive, in order.\<close>

lemma collect_elements_dump:
  assumes "list_all (\<lambda>e. el_element_id e \<noteq> [] \<and> el_selector e \<noteq> []) es"
    "distinct (map el_selector (seen @ es))"
  shows "collect_elements clock n (map element_dump es) seen = seen @ es"
  using assms
proof (induction es arbitrary: n seen)
  case (Cons e es)
  have "list_all (\<lambda>x. el_selector x \<noteq> el_selector e) seen"
    using Cons.prems(2) by (auto simp: list_all_iff image_iff)
  then show ?case using Cons.IH[of "seen @ [e]" "Suc n"] Cons.prems by (simp add: parse_element_dump)
qed simp

end
