(* ===== verification/Converters.thy ===== *)
theory Converters
  imports Page_Elements Py_Json
begin

text \<open>
  \<^verbatim>\<open>backend/orchestration/converters.py\<close>, the contracts between the agents and the engine: what
  earlier runs learned about a target, the engine's plan for a test case, and the execution
  result the agents receive for a run.
\<close>

section \<open>Learned targets\<close>

definition max_learned_fallbacks :: nat where "max_learned_fallbacks = 10"

type_synonym learned_map = "(string \<times> (string \<times> pyval) list) list"

text \<open>
  The two fields of an entry; None where reading them raises \<open>TypeError\<close> or \<open>ValueError\<close>.
\<close>

definition learned_fallbacks :: "(string \<times> pyval) list \<Rightarrow> string \<Rightarrow> string list option" where
  "learned_fallbacks entry selector =
     map_option (\<lambda>vs. take max_learned_fallbacks
         (map pv_str (filter (\<lambda>v. pv_true v \<and> v \<noteq> PStr selector) vs)))
       (iterate_pyval (pv_or (dict_get entry ''fallback_locators'') (PList [])))"

definition learned_fingerprint :: "number_reader \<Rightarrow> (string \<times> pyval) list \<Rightarrow> fingerprint option option" where
  "learned_fingerprint nr entry =
     (let v = dict_get entry ''fingerprint'' in
      if pv_true v then map_option Some (fingerprint_load nr v) else Some None)"

definition create_engine_target ::
  "number_reader \<Rightarrow> string option \<Rightarrow> string \<Rightarrow> learned_map \<Rightarrow> engine_target option" where
  "create_engine_target nr selector description learned =
     (if \<not> truthy selector then None
      else
        let sel = or_empty selector;
            bare = \<lparr>tg_description = description, tg_primary_locator = sel, tg_fallback_locators = [],
                    tg_fingerprint = None\<rparr>
        in Some (case map_of learned sel of
             None \<Rightarrow> bare
           | Some entry \<Rightarrow>
               if entry = [] then bare
               else (case (learned_fallbacks entry sel, learned_fingerprint nr entry) of
                       (Some ls, Some fp) \<Rightarrow> bare\<lparr>tg_fallback_locators := ls, tg_fingerprint := fp\<rparr>
                     | _ \<Rightarrow> bare)))"

text \<open>
  The index of stored rows: the keys that are strings (no selector equals another key). A key
  that is a list or a dict is unhashable: None.
\<close>

fun index_rows :: "pyval list \<Rightarrow> learned_map \<Rightarrow> learned_map option" where
  "index_rows [] m = Some m"
| "index_rows (PDict row # rows) m =
     (let key = dict_get row ''locator'' in
      if \<not> pv_true key then index_rows rows m
      else case key of
             PStr s \<Rightarrow> index_rows rows (AList.update s row m)
           | PList _ \<Rightarrow> None
           | PDict _ \<Rightarrow> None
           | _ \<Rightarrow> index_rows rows m)"
| "index_rows (_ # rows) m = index_rows rows m"

definition learned_targets_by_locator :: "pyval \<Rightarrow> learned_map option" where
  "learned_targets_by_locator rows = (case rows of PList vs \<Rightarrow> index_rows vs [] | _ \<Rightarrow> Some [])"

text \<open>The locators that healed in the run, by step; a later step of the same name wins.\<close>

definition healed_locators :: "run_result \<Rightarrow> (string \<times> string) list" where
  "healed_locators r =
     rev [(sr_step_id s, l). s \<leftarrow> tr_steps r,
            l \<leftarrow> (case (sr_status s, sr_healing s) of
                    (SS_HEALED, Some h) \<Rightarrow> if truthy (hp_selected_locator h) then [or_empty (hp_selected_locator h)] else []
                  | _ \<Rightarrow> [])]"

definition learned_list :: "(string \<times> string) list \<Rightarrow> string \<Rightarrow> engine_step \<Rightarrow> engine_target \<Rightarrow> string list" where
  "learned_list healed locator executed target =
     take max_learned_fallbacks (filter (\<lambda>l. l \<noteq> locator) (dedup
       ((case map_of healed (es_step_id executed) of None \<Rightarrow> [] | Some l \<Rightarrow> [l]) @
        (if tg_primary_locator target \<noteq> locator then [tg_primary_locator target] else []) @
        tg_fallback_locators target)))"

definition learned_entry :: "string \<Rightarrow> string list \<Rightarrow> fingerprint option \<Rightarrow> (string \<times> pyval) list" where
  "learned_entry locator fallbacks fp =
     [(''locator'', PStr locator), (''fallback_locators'', str_list fallbacks),
      (''fingerprint'', case fp of None \<Rightarrow> PNone | Some f \<Rightarrow> fingerprint_dump f)]"

fun collect_entries ::
  "(string \<times> string) list \<Rightarrow> (engine_step \<times> engine_step) list \<Rightarrow> learned_map \<Rightarrow> learned_map" where
  "collect_entries healed [] m = m"
| "collect_entries healed ((original, executed) # ps) m =
     collect_entries healed ps
       (case (es_target original, es_target executed) of
          (Some o_t, Some x_t) \<Rightarrow>
            let locator = tg_primary_locator o_t;
                fallbacks = learned_list healed locator executed x_t
            in if fallbacks = [] \<and> tg_fingerprint x_t = None then m
               else AList.update locator (learned_entry locator fallbacks (tg_fingerprint x_t)) m
        | _ \<Rightarrow> m)"

text \<open>None where \<open>zip(strict=True)\<close> raises: the plans have different lengths.\<close>

definition collect_learned_targets :: "engine_plan \<Rightarrow> engine_plan \<Rightarrow> run_result \<Rightarrow> pyval list option" where
  "collect_learned_targets original executed r =
     (if length (ep_steps original) \<noteq> length (ep_steps executed) then None
      else Some (map (PDict \<circ> snd)
             (collect_entries (healed_locators r) (zip (ep_steps original) (ep_steps executed)) [])))"

section \<open>The engine's plan\<close>

definition action_mapping :: "(test_action \<times> action_type) list" where
  "action_mapping =
     [(TA_NAVIGATE, AC_GOTO), (TA_CLICK, AC_CLICK), (TA_FILL, AC_FILL), (TA_PRESS, AC_PRESS),
      (TA_SELECT, AC_SELECT), (TA_CHECK, AC_CHECK), (TA_UNCHECK, AC_UNCHECK), (TA_HOVER, AC_HOVER),
      (TA_UPLOAD, AC_UPLOAD), (TA_DRAG, AC_DRAG), (TA_WAIT, AC_WAIT_FOR)]"

text \<open>None is the \<open>ValueError\<close> of an action without a counterpart.\<close>

definition map_action_to_engine :: "test_action \<Rightarrow> action_type option" where
  "map_action_to_engine a = map_of action_mapping a"

definition numbered_assert :: "string \<Rightarrow> bool" where
  "numbered_assert s \<longleftrightarrow> prefix ''Assert '' s \<and> py_isdigit (drop 7 s)"

definition map_assertion_to_engine ::
  "number_reader \<Rightarrow> test_assertion \<Rightarrow> learned_map \<Rightarrow> engine_step option" where
  "map_assertion_to_engine nr a learned =
     (let written = as_description a \<noteq> [] \<and> \<not> numbered_assert (as_description a);
          target = create_engine_target nr (Some (as_target a))
            (if written then ''Check: '' @ as_description a
             else ''Assertion target for '' @ assertion_type_value (as_type a)) learned;
          step = (\<lambda>action. engine_step_of (''assert-'' @ assertion_type_value (as_type a)) action)
      in if as_type a \<in> {AT_ELEMENT_CONTAINS_TEXT, AT_ELEMENT_HAS_TEXT}
         then Some ((step AC_ASSERT_TEXT)\<lparr>es_target := target, es_expected := Some (as_expected a),
                es_exact := (as_type a = AT_ELEMENT_HAS_TEXT)\<rparr>)
         else if as_type a = AT_VALUE_EQUALS
         then Some ((step AC_ASSERT_VALUE)\<lparr>es_target := target, es_expected := Some (as_expected a)\<rparr>)
         else if as_type a = AT_ELEMENT_NOT_VISIBLE
         then Some ((step AC_ASSERT_HIDDEN)\<lparr>es_target := target\<rparr>)
         else if as_type a \<in> {AT_URL_CONTAINS, AT_URL_EQUALS}
         then Some ((step AC_ASSERT_URL)\<lparr>es_expected := Some (as_expected a),
                es_exact := (as_type a = AT_URL_EQUALS)\<rparr>)
         else if as_type a \<noteq> AT_ELEMENT_VISIBLE then None
         else Some ((step AC_ASSERT_VISIBLE)\<lparr>es_target := target, es_expected := Some (as_expected a)\<rparr>))"

text \<open>The assertions of a step or of the case, renumbered from 1.\<close>

fun assertion_steps ::
  "number_reader \<Rightarrow> learned_map \<Rightarrow> string \<Rightarrow> nat \<Rightarrow> test_assertion list \<Rightarrow> engine_step list option" where
  "assertion_steps nr learned stem n [] = Some []"
| "assertion_steps nr learned stem n (a # as) =
     (case map_assertion_to_engine nr a learned of
        None \<Rightarrow> None
      | Some s \<Rightarrow> map_option (Cons (s\<lparr>es_step_id := stem @ show_nat n\<rparr>))
                    (assertion_steps nr learned stem (Suc n) as))"

definition action_step :: "number_reader \<Rightarrow> learned_map \<Rightarrow> test_step \<Rightarrow> engine_step option" where
  "action_step nr learned step =
     map_option (\<lambda>action.
         (engine_step_of (''step-'' @ show_int (ts_step_number step)) action)
           \<lparr>es_target := create_engine_target nr (ts_target step)
               (or_default (ts_description step) (''Step '' @ show_int (ts_step_number step) @ '' element'')) learned,
             es_value := ts_value step,
             es_timeout_ms := (case ts_timeout step of None \<Rightarrow> 5000 | Some t \<Rightarrow> t)\<rparr>)
       (map_action_to_engine (ts_action step))"

fun planned_steps :: "number_reader \<Rightarrow> learned_map \<Rightarrow> test_step list \<Rightarrow> engine_step list option" where
  "planned_steps nr learned [] = Some []"
| "planned_steps nr learned (step # steps) =
     (case (action_step nr learned step,
            assertion_steps nr learned (''step-'' @ show_int (ts_step_number step) @ ''-assert-'') 1 (ts_assertions step),
            planned_steps nr learned steps) of
        (Some s, Some as, Some rest) \<Rightarrow> Some (s # as @ rest)
      | _ \<Rightarrow> None)"

definition test_case_to_engine_plan ::
  "number_reader \<Rightarrow> test_case \<Rightarrow> string \<Rightarrow> learned_map \<Rightarrow> engine_plan option" where
  "test_case_to_engine_plan nr tc base_url learned =
     (case (planned_steps nr learned (tc_steps tc), assertion_steps nr learned ''case-assert-'' 1 (tc_assertions tc)) of
        (Some steps, Some checks) \<Rightarrow>
          Some \<lparr>ep_test_id = tc_test_id tc, ep_name = tc_name tc, ep_base_url = base_url,
                ep_steps = (if steps @ checks = []
                            then [(engine_step_of ''step-1-init'' AC_GOTO)\<lparr>es_value := Some base_url\<rparr>]
                            else steps @ checks)\<rparr>
      | _ \<Rightarrow> None)"

section \<open>The execution result\<close>

text \<open>
  What reading a snapshot needs: the HTML parser's events, the file system (None where the file
  cannot be read) and the time for the records. A snapshot that can be read is the UTF-8 text the
  engine wrote, so decoding it does not fail.
\<close>

record snapshot_reader =
  sp_parser :: "string \<Rightarrow> html_event list"
  sp_file :: "string \<Rightarrow> string option"
  sp_now :: string

definition read_snapshot :: "snapshot_reader \<Rightarrow> string option \<Rightarrow> string option" where
  "read_snapshot rd path = (if truthy path then sp_file rd (or_empty path) else None)"

text \<open>The first failed step and its position.\<close>

definition failed_at :: "run_result \<Rightarrow> (nat \<times> step_result) option" where
  "failed_at r = find (\<lambda>(i, s). sr_status s = SS_FAILED) (enumerate 0 (tr_steps r))"

definition plan_step :: "engine_plan \<Rightarrow> nat \<Rightarrow> engine_step option" where
  "plan_step p i = (if i < length (ep_steps p) then Some (ep_steps p ! i) else None)"

definition step_target :: "engine_step option \<Rightarrow> engine_target option" where
  "step_target s = (case s of None \<Rightarrow> None | Some st \<Rightarrow> es_target st)"

definition dom_evidence ::
  "snapshot_reader \<Rightarrow> step_result \<Rightarrow> string \<Rightarrow> string option \<Rightarrow> string option \<Rightarrow> (string \<times> pyval) list option" where
  "dom_evidence rd res selector page_url tag =
     (case read_snapshot rd (sr_dom_snapshot_path res) of
        None \<Rightarrow> None
      | Some html \<Rightarrow>
          if html = [] then None
          else Some [(''snapshot_path'', opt_str (sr_dom_snapshot_path res)),
                     (''elements'', PList (map element_dump (filter (\<lambda>e. el_selector e \<noteq> selector)
                        (page_elements_from_dom (sp_parser rd) html page_url tag max_page_elements (sp_now rd)))))])"

definition failure_context_of ::
  "snapshot_reader \<Rightarrow> run_result \<Rightarrow> string \<Rightarrow> string \<Rightarrow> engine_plan option \<Rightarrow> failure_context" where
  "failure_context_of rd r workflow_id test_case_id plan =
     (let failed = failed_at r;
          st = (case (failed, plan) of (Some (i, _), Some p) \<Rightarrow> plan_step p i | _ \<Rightarrow> None);
          selector = (case step_target st of None \<Rightarrow> [] | Some t \<Rightarrow> tg_primary_locator t);
          tag = (case step_target st of None \<Rightarrow> None
                 | Some t \<Rightarrow> (case tg_fingerprint t of None \<Rightarrow> None | Some f \<Rightarrow> ef_tag f));
          page_url = or_str (case failed of None \<Rightarrow> None | Some (_, s) \<Rightarrow> sr_page_url s)
                       (map_option ep_base_url plan)
      in \<lparr>fx_test_id = test_case_id, fx_execution_id = workflow_id,
          fx_failed_step = (case failed of None \<Rightarrow> 1 | Some (i, _) \<Rightarrow> int i + 1),
          fx_failed_step_id = Some (case failed of None \<Rightarrow> 1 | Some (i, _) \<Rightarrow> int i + 1),
          fx_action = (case st of None \<Rightarrow> ''click'' | Some s \<Rightarrow> action_type_value (es_action s)),
          fx_target_selector = selector, fx_expected_result = None, fx_actual_result = None,
          fx_error_message = or_default (case failed of None \<Rightarrow> [] | Some (_, s) \<Rightarrow> or_empty (sr_error s))
            ''Execution step failed'',
          fx_failure_category = None, fx_current_page_url = page_url, fx_current_page_title = None,
          fx_current_element = None,
          fx_dom_evidence = (case failed of
              None \<Rightarrow> None
            | Some (_, s) \<Rightarrow> if selector = [] then None else dom_evidence rd s selector page_url tag),
          fx_screenshot_path = (case failed of None \<Rightarrow> None | Some (_, s) \<Rightarrow> sr_screenshot_path s),
          fx_trace_path = None, fx_timestamp = None, fx_execution_metadata = []\<rparr>)"

definition engine_result_to_execution_result ::
  "snapshot_reader \<Rightarrow> run_result \<Rightarrow> string \<Rightarrow> string \<Rightarrow> engine_plan option \<Rightarrow> execution_result" where
  "engine_result_to_execution_result rd r workflow_id test_case_id plan =
     (if tr_status r \<in> {RS_PASSED, RS_HEALED}
      then \<lparr>xr_workflow_id = workflow_id, xr_test_case_id = test_case_id, xr_status = XS_SUCCESS,
            xr_failure_context = None\<rparr>
      else \<lparr>xr_workflow_id = workflow_id, xr_test_case_id = test_case_id, xr_status = XS_FAILED,
            xr_failure_context = Some (failure_context_of rd r workflow_id test_case_id plan)\<rparr>)"

section \<open>The converted plan\<close>

text \<open>Every planner action and every assertion type has an engine action.\<close>

fun engine_action :: "test_action \<Rightarrow> action_type" where
  "engine_action TA_NAVIGATE = AC_GOTO"
| "engine_action TA_CLICK = AC_CLICK"
| "engine_action TA_FILL = AC_FILL"
| "engine_action TA_PRESS = AC_PRESS"
| "engine_action TA_SELECT = AC_SELECT"
| "engine_action TA_CHECK = AC_CHECK"
| "engine_action TA_UNCHECK = AC_UNCHECK"
| "engine_action TA_HOVER = AC_HOVER"
| "engine_action TA_UPLOAD = AC_UPLOAD"
| "engine_action TA_DRAG = AC_DRAG"
| "engine_action TA_WAIT = AC_WAIT_FOR"

fun check_action :: "assertion_type \<Rightarrow> action_type" where
  "check_action AT_ELEMENT_VISIBLE = AC_ASSERT_VISIBLE"
| "check_action AT_ELEMENT_NOT_VISIBLE = AC_ASSERT_HIDDEN"
| "check_action AT_ELEMENT_CONTAINS_TEXT = AC_ASSERT_TEXT"
| "check_action AT_ELEMENT_HAS_TEXT = AC_ASSERT_TEXT"
| "check_action AT_URL_CONTAINS = AC_ASSERT_URL"
| "check_action AT_URL_EQUALS = AC_ASSERT_URL"
| "check_action AT_VALUE_EQUALS = AC_ASSERT_VALUE"

lemma map_action_total: "map_action_to_engine a = Some (engine_action a)"
  by (cases a) (simp_all add: map_action_to_engine_def action_mapping_def)

lemma map_assertion_total:
  "\<exists>s. map_assertion_to_engine nr a learned = Some s \<and> es_action s = check_action (as_type a) \<and>
     es_timeout_ms s = 5000"
  by (cases "as_type a") (simp_all add: map_assertion_to_engine_def engine_step_of_def)

lemma assertion_steps_total:
  "\<exists>ss. assertion_steps nr learned stem n as = Some ss \<and>
     map es_action ss = map (check_action \<circ> as_type) as \<and> list_all valid_engine_step ss \<and>
     map es_step_id ss = map (\<lambda>k. stem @ show_nat k) [n..<n + length as]"
proof (induction as arbitrary: n)
  case (Cons a as)
  obtain s where s: "map_assertion_to_engine nr a learned = Some s" "es_action s = check_action (as_type a)"
    "es_timeout_ms s = 5000"
    using map_assertion_total by blast
  have range: "[n..<n + length (a # as)] = n # [Suc n..<Suc n + length as]"
    using upt_rec[of n "n + length (a # as)"] by (simp del: upt_Suc)
  show ?case using Cons[of "Suc n"] s unfolding range by (auto simp: valid_engine_step_def)
qed simp

lemma action_step_total:
  "\<exists>s. action_step nr learned st = Some s \<and> es_action s = engine_action (ts_action st) \<and>
     es_step_id s = ''step-'' @ show_int (ts_step_number st) \<and> es_value s = ts_value st \<and>
     (valid_test_step st \<longrightarrow> valid_engine_step s)"
  by (auto simp: action_step_def map_action_total engine_step_of_def valid_test_step_def
      valid_engine_step_def split: option.splits)

text \<open>The actions of a plan and the names of its steps, as the test case lists them.\<close>

definition step_actions :: "test_step \<Rightarrow> action_type list" where
  "step_actions st = engine_action (ts_action st) # map (check_action \<circ> as_type) (ts_assertions st)"

definition step_names :: "test_step \<Rightarrow> string list" where
  "step_names st = (let stem = ''step-'' @ show_int (ts_step_number st) in
     stem # map (\<lambda>k. stem @ ''-assert-'' @ show_nat k) [1..<Suc (length (ts_assertions st))])"

lemma planned_steps_total:
  "\<exists>ss. planned_steps nr learned sts = Some ss \<and> map es_action ss = concat (map step_actions sts) \<and>
     map es_step_id ss = concat (map step_names sts) \<and>
     (list_all valid_test_step sts \<longrightarrow> list_all valid_engine_step ss)"
proof (induction sts)
  case (Cons st sts)
  obtain s where s: "action_step nr learned st = Some s" "es_action s = engine_action (ts_action st)"
    "es_step_id s = ''step-'' @ show_int (ts_step_number st)" "valid_test_step st \<longrightarrow> valid_engine_step s"
    using action_step_total by blast
  obtain as where as: "assertion_steps nr learned (''step-'' @ show_int (ts_step_number st) @ ''-assert-'') 1
      (ts_assertions st) = Some as" "map es_action as = map (check_action \<circ> as_type) (ts_assertions st)"
    "list_all valid_engine_step as"
    "map es_step_id as = map (\<lambda>k. (''step-'' @ show_int (ts_step_number st) @ ''-assert-'') @ show_nat k)
       [1..<1 + length (ts_assertions st)]"
    using assertion_steps_total by blast
  obtain ss where "planned_steps nr learned sts = Some ss" "map es_action ss = concat (map step_actions sts)"
    "map es_step_id ss = concat (map step_names sts)"
    "list_all valid_test_step sts \<longrightarrow> list_all valid_engine_step ss"
    using Cons by blast
  then show ?case using s as by (simp add: step_actions_def[of st] step_names_def[of st] Let_def)
qed simp

section \<open>Names of steps\<close>

lemma show_digits_inj: "0 \<le> m \<Longrightarrow> 0 \<le> n \<Longrightarrow> show_digits m = show_digits n \<Longrightarrow> m = n"
proof (induction m arbitrary: n rule: show_digits.induct)
  case (1 m)
  have digit: "a = b" if "char_of (48 + a) = (char_of (48 + b) :: char)" "0 \<le> a" "a < 10" "0 \<le> b" "b < 10" for a b :: int
  proof -
    have "(48 + a) mod 256 = (48 + b) mod 256" using that(1) by (metis of_char_of)
    then show ?thesis using that(2-) by simp
  qed
  have len: "length (show_digits k) = 1 \<longleftrightarrow> k < 10" if "0 \<le> k" for k
    by (subst show_digits.simps) (simp add: that)
  show ?case
  proof (cases "m < 10")
    case True
    then have "n < 10" using 1 len by (metis)
    then show ?thesis using True 1(2-) digit[of m n] by (simp add: show_digits.simps[of m] show_digits.simps[of n])
  next
    case False
    then have n: "\<not> n < 10" using 1 len by metis
    have "show_digits (m div 10) = show_digits (n div 10)" "char_of (48 + m mod 10) = (char_of (48 + n mod 10) :: char)"
      using 1(4) False n by (simp_all add: show_digits.simps[of m] show_digits.simps[of n])
    then have "m div 10 = n div 10" "m mod 10 = n mod 10"
      using 1(1)[OF False, of "n div 10"] 1(2,3) digit[of "m mod 10" "n mod 10"] by auto
    then show ?thesis by (metis div_mult_mod_eq)
  qed
qed

lemma show_nat_inj: "show_nat m = show_nat n \<Longrightarrow> m = n"
  using show_digits_inj[of "int m" "int n"] by (simp add: show_nat_def)

text \<open>The number in a step's name, and the names the steps and checks of a case get.\<close>

definition name_number :: "string \<Rightarrow> string" where
  "name_number x = takeWhile digit (drop 5 x)"

lemma name_number_step:
  assumes "1 \<le> n" "r = [] \<or> \<not> digit (hd r)"
  shows "name_number (''step-'' @ show_int n @ r) = show_int n"
proof -
  have "takeWhile digit (show_digits n @ r) = show_digits n"
    using assms show_digits_chars[of n] by (cases r) (auto simp: takeWhile_append takeWhile_eq_all_conv)
  then show ?thesis using assms(1) by (simp add: name_number_def show_int_def)
qed

lemma step_names_number:
  assumes "valid_test_step st" "x \<in> set (step_names st)"
  shows "take 5 x = ''step-'' \<and> name_number x = show_int (ts_step_number st)"
proof -
  have n: "1 \<le> ts_step_number st" using assms(1) by (simp add: valid_test_step_def)
  have dash: "\<not> digit (CHR ''-'')" by code_simp
  obtain r where "x = ''step-'' @ show_int (ts_step_number st) @ r" "r = [] \<or> \<not> digit (hd r)"
    using assms(2) dash by (auto simp: step_names_def Let_def)
  then show ?thesis using name_number_step[OF n, of r] by simp
qed

lemma distinct_step_names: "distinct (step_names st)"
  by (auto simp: step_names_def Let_def distinct_map intro!: inj_onI dest: show_nat_inj)

lemma show_int_inj: "1 \<le> m \<Longrightarrow> 1 \<le> n \<Longrightarrow> show_int m = show_int n \<Longrightarrow> m = n"
  using show_digits_inj[of m n] by (simp add: show_int_def)

lemma distinct_all_names:
  assumes "list_all valid_test_step sts" "distinct (map ts_step_number sts)"
  shows "distinct (concat (map step_names sts))"
  using assms
proof (induction sts)
  case (Cons st sts)
  have "set (step_names st) \<inter> set (step_names t) = {}" if "t \<in> set sts" for t
  proof -
    have v: "valid_test_step st" "valid_test_step t" using Cons.prems(1) that by (auto simp: list_all_iff)
    have "ts_step_number st \<noteq> ts_step_number t" using Cons.prems(2) that by auto
    then have "show_int (ts_step_number st) \<noteq> show_int (ts_step_number t)"
      using v show_int_inj by (auto simp: valid_test_step_def)
    then show ?thesis using step_names_number[OF v(1)] step_names_number[OF v(2)] by force
  qed
  then show ?case using Cons distinct_step_names[of st] by auto
qed simp

definition case_names :: "nat \<Rightarrow> string list" where
  "case_names n = map (\<lambda>k. ''case-assert-'' @ show_nat k) [1..<Suc n]"

lemma distinct_case_names: "distinct (case_names n)"
  by (auto simp: case_names_def distinct_map intro!: inj_onI dest: show_nat_inj)

lemma case_names_disjoint:
  assumes "list_all valid_test_step sts"
  shows "set (concat (map step_names sts)) \<inter> set (case_names n) = {}"
proof -
  have "take 5 x = ''step-''" if "x \<in> set (concat (map step_names sts))" for x
    using that assms step_names_number by (auto simp: list_all_iff)
  moreover have "take 5 x = ''case-''" if "x \<in> set (case_names n)" for x
    using that by (auto simp: case_names_def)
  ultimately show ?thesis by force
qed

lemma test_case_plan_total:
  "\<exists>p. test_case_to_engine_plan nr tc url learned = Some p \<and> ep_test_id p = tc_test_id tc \<and> ep_base_url p = url \<and>
     (let acts = concat (map step_actions (tc_steps tc)) @ map (check_action \<circ> as_type) (tc_assertions tc);
          names = concat (map step_names (tc_steps tc)) @ case_names (length (tc_assertions tc))
      in map es_action (ep_steps p) = (if acts = [] then [AC_GOTO] else acts) \<and>
         map es_step_id (ep_steps p) = (if acts = [] then [''step-1-init''] else names)) \<and>
     (valid_test_case tc \<longrightarrow> valid_engine_plan p)"
proof -
  obtain ss where ss: "planned_steps nr learned (tc_steps tc) = Some ss"
    "map es_action ss = concat (map step_actions (tc_steps tc))"
    "map es_step_id ss = concat (map step_names (tc_steps tc))"
    "list_all valid_test_step (tc_steps tc) \<longrightarrow> list_all valid_engine_step ss"
    using planned_steps_total by blast
  obtain as where as: "assertion_steps nr learned ''case-assert-'' 1 (tc_assertions tc) = Some as"
    "map es_action as = map (check_action \<circ> as_type) (tc_assertions tc)" "list_all valid_engine_step as"
    "map es_step_id as = map (\<lambda>k. ''case-assert-'' @ show_nat k) [1..<1 + length (tc_assertions tc)]"
    using assertion_steps_total by blast
  have names: "map es_step_id as = case_names (length (tc_assertions tc))"
    unfolding as(4) case_names_def by simp
  have empty: "ss @ as = [] \<longleftrightarrow> concat (map step_actions (tc_steps tc)) @
      map (check_action \<circ> as_type) (tc_assertions tc) = []"
    using ss(2) as(2) by (metis append_is_Nil_conv map_is_Nil_conv)
  show ?thesis
    using ss as(1-3) names empty
    by (auto simp: test_case_to_engine_plan_def Let_def valid_engine_plan_def valid_test_case_def
        valid_engine_step_def engine_step_of_def)
qed

section \<open>Learned targets, stored and read back\<close>

text \<open>What the run learned about one stored locator, in plan order; the last counts.\<close>

fun learned_about ::
  "(string \<times> string) list \<Rightarrow> (engine_step \<times> engine_step) list \<Rightarrow> string \<Rightarrow> (string list \<times> fingerprint option) list" where
  "learned_about healed [] l = []"
| "learned_about healed ((original, executed) # ps) l =
     (case (es_target original, es_target executed) of
        (Some o_t, Some x_t) \<Rightarrow>
          if tg_primary_locator o_t = l \<and>
             \<not> (learned_list healed l executed x_t = [] \<and> tg_fingerprint x_t = None)
          then [(learned_list healed l executed x_t, tg_fingerprint x_t)] else []
      | _ \<Rightarrow> []) @ learned_about healed ps l"

definition latest_entry :: "string \<Rightarrow> (string list \<times> fingerprint option) list \<Rightarrow> (string \<times> pyval) list option \<Rightarrow>
    (string \<times> pyval) list option" where
  "latest_entry l xs d = (if xs = [] then d else Some (learned_entry l (fst (last xs)) (snd (last xs))))"

lemma map_of_collect_entries:
  "map_of (collect_entries healed ps m) l = latest_entry l (learned_about healed ps l) (map_of m l)"
  by (induction healed ps m rule: collect_entries.induct)
     (auto simp: latest_entry_def update_conv' Let_def split: option.splits)

lemma distinct_collect_entries:
  "distinct (map fst m) \<Longrightarrow> distinct (map fst (collect_entries healed ps m))"
  by (induction healed ps m rule: collect_entries.induct)
     (auto simp: Let_def distinct_update split: option.splits)

text \<open>Rows whose key is their own locator come back as the map they were.\<close>

definition own_key :: "string \<times> (string \<times> pyval) list \<Rightarrow> bool" where
  "own_key e \<longleftrightarrow> fst e \<noteq> [] \<and> dict_get (snd e) ''locator'' = PStr (fst e)"

lemma index_rows_entries:
  assumes "list_all own_key es"
  shows "index_rows (map (PDict \<circ> snd) es) m = Some (fold (\<lambda>(k, row). AList.update k row) es m)"
  using assms by (induction es arbitrary: m) (auto simp: own_key_def Let_def)

lemma map_of_fold_update:
  "distinct (map fst es) \<Longrightarrow>
     map_of (fold (\<lambda>(k, row). AList.update k row) es m) l = (case map_of es l of None \<Rightarrow> map_of m l | Some r \<Rightarrow> Some r)"
proof (induction es arbitrary: m)
  case (Cons e es)
  obtain k row where e: "e = (k, row)" by (cases e)
  have none: "map_of es k = None" using Cons.prems e by (simp add: map_of_eq_None_iff)
  have ih: "map_of (fold (\<lambda>(k, row). AList.update k row) es (AList.update k row m)) l =
      (case map_of es l of None \<Rightarrow> map_of (AList.update k row m) l | Some r \<Rightarrow> Some r)"
    using Cons.IH Cons.prems e by simp
  show ?case
  proof (cases "l = k")
    case True
    then show ?thesis using ih none e by (simp add: update_conv')
  next
    case False
    then show ?thesis using ih e by (cases "map_of es l") (simp_all add: update_conv')
  qed
qed simp

lemma pv_true_fingerprint [simp]: "pv_true (fingerprint_dump f)"
  by (simp add: fingerprint_dump_def)

lemma learned_entry_decode:
  assumes "[] \<notin> set ls" "l \<notin> set ls" "length ls \<le> max_learned_fallbacks" "pred_option valid_fingerprint fp"
  shows "learned_fallbacks (learned_entry l ls fp) l = Some ls"
    "learned_fingerprint nr (learned_entry l ls fp) = Some fp"
proof -
  have "filter (\<lambda>v. pv_true v \<and> v \<noteq> PStr l) (map PStr ls) = map PStr ls"
    using assms(1,2) by (auto simp: filter_id_conv)
  moreover have "map pv_str (map PStr ls) = ls" by (simp add: pv_str_def comp_def)
  ultimately show "learned_fallbacks (learned_entry l ls fp) l = Some ls"
    using assms(3) by (cases ls)
      (simp_all add: learned_fallbacks_def learned_entry_def dict_get_def pv_or_def str_list_def iterate_pyval_def)
  show "learned_fingerprint nr (learned_entry l ls fp) = Some fp"
    using assms(4) by (cases fp)
      (simp_all add: learned_fingerprint_def learned_entry_def dict_get_def fingerprint_load_dump)
qed

text \<open>The executed plan's targets are as the engine leaves them.\<close>

definition sane_target :: "engine_target \<Rightarrow> bool" where
  "sane_target t \<longleftrightarrow> tg_primary_locator t \<noteq> [] \<and> [] \<notin> set (tg_fallback_locators t) \<and>
     pred_option valid_fingerprint (tg_fingerprint t)"

definition sane_plan :: "engine_plan \<Rightarrow> bool" where
  "sane_plan p \<longleftrightarrow> list_all (\<lambda>s. pred_option sane_target (es_target s)) (ep_steps p)"

lemma sane_locator: "pred_option sane_target x \<Longrightarrow> pred_option (\<lambda>t. tg_primary_locator t \<noteq> []) x"
  by (cases x) (simp_all add: sane_target_def)

lemma healed_locators_nonempty: "map_of (healed_locators r) i = Some l \<Longrightarrow> l \<noteq> []"
  by (drule map_of_SomeD)
     (auto simp: healed_locators_def truthy_def split: option.splits step_status.splits if_splits)

lemma learned_list_props:
  assumes "sane_target t" "\<And>i l. map_of healed i = Some l \<Longrightarrow> l \<noteq> []"
  shows "[] \<notin> set (learned_list healed l st t)" "l \<notin> set (learned_list healed l st t)"
    "length (learned_list healed l st t) \<le> max_learned_fallbacks"
proof -
  have "[] \<notin> set ((case map_of healed (es_step_id st) of None \<Rightarrow> [] | Some l \<Rightarrow> [l]) @
        (if tg_primary_locator t \<noteq> l then [tg_primary_locator t] else []) @ tg_fallback_locators t)"
    using assms by (cases "map_of healed (es_step_id st)") (auto simp: sane_target_def)
  then show "[] \<notin> set (learned_list healed l st t)" "l \<notin> set (learned_list healed l st t)"
    "length (learned_list healed l st t) \<le> max_learned_fallbacks"
    by (auto simp: learned_list_def dest!: in_set_takeD)
qed

lemma learned_about_sane:
  assumes "list_all (\<lambda>(o_s, x_s). pred_option sane_target (es_target x_s)) ps"
    "\<And>i l. map_of healed i = Some l \<Longrightarrow> l \<noteq> []" "(ls, fp) \<in> set (learned_about healed ps l)"
  shows "[] \<notin> set ls \<and> l \<notin> set ls \<and> length ls \<le> max_learned_fallbacks \<and> pred_option valid_fingerprint fp"
  using assms
proof (induction ps)
  case (Cons p ps)
  obtain o_s x_s where p: "p = (o_s, x_s)" by (cases p)
  show ?case
  proof (cases "(ls, fp) \<in> set (learned_about healed ps l)")
    case True
    then show ?thesis using Cons by simp
  next
    case False
    then obtain x_t where x: "es_target x_s = Some x_t" "ls = learned_list healed l x_s x_t" "fp = tg_fingerprint x_t"
      using Cons.prems(3) p
      by (cases "es_target o_s"; cases "es_target x_s") (auto split: if_splits)
    then have "sane_target x_t" using Cons.prems(1) p by simp
    then show ?thesis using learned_list_props[of x_t healed l x_s] Cons.prems(2) x by (simp add: sane_target_def)
  qed
qed simp

lemma set_AList_update: "set (AList.update k v m) \<subseteq> insert (k, v) (set m)"
  by (induction m) auto

lemma collect_entries_keys:
  assumes "list_all (\<lambda>(o_s, x_s). pred_option (\<lambda>t. tg_primary_locator t \<noteq> []) (es_target o_s)) ps"
    "list_all own_key m"
  shows "list_all own_key (collect_entries healed ps m)"
  using assms
proof (induction healed ps m rule: collect_entries.induct)
  case (2 healed original executed ps m)
  have upd: "list_all own_key (AList.update l (learned_entry l ls fp) m)" if "l \<noteq> []" for l ls fp
  proof -
    have "own_key (l, learned_entry l ls fp)" using that by (simp add: own_key_def learned_entry_def dict_get_def)
    then show ?thesis using 2(3) set_AList_update[of l "learned_entry l ls fp" m] by (auto simp: list_all_iff)
  qed
  show ?case
    using 2 upd by (cases "es_target original"; cases "es_target executed") (auto simp: Let_def)
qed simp

text \<open>A stored row restores the target it describes.\<close>

definition restored :: "string \<Rightarrow> string \<Rightarrow> (string list \<times> fingerprint option) list \<Rightarrow> engine_target" where
  "restored description l xs =
     \<lparr>tg_description = description, tg_primary_locator = l,
      tg_fallback_locators = (if xs = [] then [] else fst (last xs)),
      tg_fingerprint = (if xs = [] then None else snd (last xs))\<rparr>"

lemma learned_round_trip:
  assumes "collect_learned_targets original executed r = Some rows"
    "sane_plan original" "sane_plan executed" "l \<noteq> []"
  shows "\<exists>m. learned_targets_by_locator (PList rows) = Some m \<and>
    create_engine_target nr (Some l) d m =
      Some (restored d l (learned_about (healed_locators r) (zip (ep_steps original) (ep_steps executed)) l))"
proof -
  let ?ps = "zip (ep_steps original) (ep_steps executed)" and ?h = "healed_locators r"
  define es where "es = collect_entries ?h ?ps []"
  define xs where "xs = learned_about ?h ?ps l"
  have rows: "rows = map (PDict \<circ> snd) es"
    using assms(1) by (simp add: collect_learned_targets_def es_def split: if_splits)
  have keys: "list_all own_key es" unfolding es_def
    using assms(2) sane_locator by (intro collect_entries_keys)
      (auto simp: list_all_iff sane_plan_def dest!: set_zip_leftD)
  have dist: "distinct (map fst es)" by (simp add: es_def distinct_collect_entries)
  have index: "learned_targets_by_locator (PList rows) = Some (fold (\<lambda>(k, row). AList.update k row) es [])"
    using index_rows_entries[of es "[]"] keys unfolding rows
    by (simp add: learned_targets_by_locator_def)
  have entry: "map_of (fold (\<lambda>(k, row). AList.update k row) es []) l = latest_entry l xs None"
    using map_of_fold_update[OF dist, of "[]" l] map_of_collect_entries[of ?h ?ps "[]" l]
    by (simp add: es_def xs_def split: option.splits)
  have ok: "[] \<notin> set ls \<and> l \<notin> set ls \<and> length ls \<le> max_learned_fallbacks \<and> pred_option valid_fingerprint fp"
    if "(ls, fp) \<in> set xs" for ls fp
    using that assms(3) healed_locators_nonempty unfolding xs_def
    by (intro learned_about_sane[of ?ps ?h]) (auto simp: list_all_iff sane_plan_def dest!: set_zip_rightD)
  have "create_engine_target nr (Some l) d (fold (\<lambda>(k, row). AList.update k row) es []) =
      Some (restored d l xs)"
  proof (cases xs rule: rev_cases)
    case Nil
    then show ?thesis using entry assms(4)
      by (simp add: create_engine_target_def latest_entry_def restored_def truthy_def or_empty_def)
  next
    case (snoc ys x)
    obtain ls fp where x: "x = (ls, fp)" by (cases x)
    have "(ls, fp) \<in> set xs" using snoc x by simp
    then have dec: "learned_fallbacks (learned_entry l ls fp) l = Some ls"
      "learned_fingerprint nr (learned_entry l ls fp) = Some fp"
      using ok learned_entry_decode by blast+
    have "learned_entry l ls fp \<noteq> []" by (simp add: learned_entry_def)
    then show ?thesis using entry assms(4) snoc x dec
      by (simp add: create_engine_target_def latest_entry_def restored_def truthy_def or_empty_def)
  qed
  then show ?thesis using index by (simp add: xs_def)
qed

end
