(* ===== verification/Converter_Properties.thy ===== *)
theory Converter_Properties
  imports Converters
begin

text \<open>
  The properties of the contract converters: the selectors of a page snapshot, the way of the
  page's elements to the healer, what a run learned and the next run restores, the engine's plan
  and the execution result.
\<close>

section \<open>Lemmas on snapshots\<close>

lemma render_nonempty [simp]: "render c \<noteq> []"
  by (cases c) auto

lemma page_record_origin:
  assumes "r \<in> set (page_elements_from_dom parser html url tag limit now)"
  obtains e c where "e \<in> set (collect (parser html))" "unique_choice e (collect (parser html)) = Some c"
    "r = dom_record e (render c) url now" "truthy tag \<longrightarrow> pe_tag e = lower (or_empty tag)"
proof -
  let ?es = "collect (parser html)"
  obtain xs where xs: "subseq xs ?es"
    "page_elements_from_dom parser html url tag limit now =
       map (\<lambda>e. dom_record e (the (unique_selector e ?es)) url now) xs"
    "list_all (\<lambda>e. unique_selector e ?es \<noteq> None \<and> (truthy tag \<longrightarrow> pe_tag e = lower (or_empty tag))) xs"
    using dom_records_from[of ?es ?es tag limit url now "[]"]
    by (auto simp: page_elements_from_dom_def Let_def)
  then obtain e where e: "e \<in> set xs" "r = dom_record e (the (unique_selector e ?es)) url now"
    using assms by auto
  then obtain c where "unique_choice e ?es = Some c"
    using xs(3) by (auto simp: list_all_iff unique_selector_def)
  then show ?thesis
    using that[of e c] e xs by (auto simp: list_all_iff unique_selector_def elim: list_emb_set)
qed

lemma unique_element_once:
  assumes "unique_choice e es = Some c" "e \<in> set es"
  shows "count_list es e = 1"
proof -
  have f: "filter (css_matches c) es = [e]" using unique_choice_matches[OF assms] .
  have "e \<in> set (filter (css_matches c) es)" unfolding f by simp
  then have "css_matches c e" by simp
  then have "filter (\<lambda>x. e = x) es = filter (\<lambda>x. e = x) (filter (css_matches c) es)"
    by (auto intro: filter_cong)
  then have "filter (\<lambda>x. e = x) es = [e]" using f by simp
  then show ?thesis by (simp add: count_list_eq_length_filter)
qed

lemma subseq_distinct_of_unique:
  assumes "subseq xs es" "\<And>e. e \<in> set xs \<Longrightarrow> count_list es e = 1"
  shows "distinct xs"
proof -
  have "count_list xs e \<le> 1" for e
  proof (cases "e \<in> set xs")
    case True
    have "subseq (filter (\<lambda>x. e = x) xs) (filter (\<lambda>x. e = x) es)"
      using assms(1) by (rule subseq_filter)
    then have "length (filter (\<lambda>x. e = x) xs) \<le> length (filter (\<lambda>x. e = x) es)"
      by (rule list_emb_length)
    then show ?thesis using assms(2)[OF True] by (simp add: count_list_eq_length_filter)
  qed (simp add: count_list_0_iff)
  then show ?thesis
  proof (induction xs)
    case (Cons x xs)
    have "count_list xs x = 0" using Cons.prems[of x] by simp
    then have "x \<notin> set xs" by (simp add: count_list_0_iff)
    moreover have "count_list xs e \<le> 1" for e using Cons.prems[of e] by (auto split: if_splits)
    ultimately show ?case using Cons.IH by simp
  qed simp
qed

lemma page_selectors_distinct:
  assumes "list_all (plain_tag \<circ> pe_tag) (collect (parser html))"
  shows "distinct (map el_selector (page_elements_from_dom parser html url tag limit now))"
proof -
  let ?es = "collect (parser html)"
  obtain xs where xs: "subseq xs ?es"
    "page_elements_from_dom parser html url tag limit now =
       map (\<lambda>e. dom_record e (the (unique_selector e ?es)) url now) xs"
    "list_all (\<lambda>e. unique_selector e ?es \<noteq> None \<and> (truthy tag \<longrightarrow> pe_tag e = lower (or_empty tag))) xs"
    using dom_records_from[of ?es ?es tag limit url now "[]"]
    by (auto simp: page_elements_from_dom_def Let_def)
  have chosen: "e \<in> set ?es \<and> (\<exists>c. unique_choice e ?es = Some c \<and> plain_css c)" if "e \<in> set xs" for e
  proof -
    have e: "e \<in> set ?es" using that xs(1) by (auto elim: list_emb_set)
    have "unique_selector e ?es \<noteq> None" using that xs(3) by (simp add: list_all_iff)
    then obtain c where "unique_choice e ?es = Some c" by (auto simp: unique_selector_def)
    then show ?thesis using e assms unique_choice_plain[of e ?es c] by (auto simp: list_all_iff)
  qed
  have "distinct xs"
    using chosen unique_element_once by (intro subseq_distinct_of_unique[OF xs(1)]) blast
  moreover have "inj_on (\<lambda>e. the (unique_selector e ?es)) (set xs)"
  proof (rule inj_onI)
    fix e f assume ef: "e \<in> set xs" "f \<in> set xs" "the (unique_selector e ?es) = the (unique_selector f ?es)"
    then obtain c d where cd: "unique_choice e ?es = Some c" "plain_css c" "unique_choice f ?es = Some d" "plain_css d"
      using chosen by meson
    then have "c = d" using ef(3) render_inj by (simp add: unique_selector_def)
    then show "e = f"
      using cd unique_choice_matches chosen ef(1,2) by (metis list.inject)
  qed
  ultimately show ?thesis unfolding xs(2) by (simp add: distinct_map dom_record_def comp_def)
qed

lemma distinct_map_filter_sub: "distinct (map f xs) \<Longrightarrow> distinct (map f (filter P xs))"
  by (induction xs) auto

text \<open>The DOM evidence of a failure, read by the healer, is the page without the failed locator.\<close>

lemma current_elements_of_evidence:
  assumes "ag_failure_context st = Some f" "fx_current_element f = None"
    "fx_dom_evidence f = dom_evidence rd s sel url tag"
    "read_snapshot rd (sr_dom_snapshot_path s) = Some html" "html \<noteq> []"
    "list_all (plain_tag \<circ> pe_tag) (collect (sp_parser rd html))"
  shows "map_sum id fst (get_current_elements clock st) = Inr (filter (\<lambda>e. el_selector e \<noteq> sel)
    (page_elements_from_dom (sp_parser rd) html url tag max_page_elements (sp_now rd)))"
proof -
  let ?all = "page_elements_from_dom (sp_parser rd) html url tag max_page_elements (sp_now rd)"
  let ?es = "filter (\<lambda>e. el_selector e \<noteq> sel) ?all"
  have named: "el_element_id e \<noteq> [] \<and> el_selector e \<noteq> []" if "e \<in> set ?all" for e
    by (rule page_record_origin[OF that]) (simp add: dom_record_def)
  have "collect_elements clock n (map element_dump ?es) [] = [] @ ?es" for n
    using named page_selectors_distinct[of "sp_parser rd" html, OF assms(6)]
    by (intro collect_elements_dump) (auto simp: list_all_iff distinct_map_filter_sub)
  then show ?thesis
    using assms(1-5) by (simp add: get_current_elements_def dom_evidence_def dict_get_def iterate_pyval_def Let_def)
qed

section \<open>A sample page and plan\<close>

definition sample_events :: "string \<Rightarrow> html_event list" where
  "sample_events html =
     [Start_tag ''form'' [], Start_tag ''button'' [(''id'', Some ''save'')], Data ''Save'', End_tag ''button'',
      Start_tag ''input'' [(''name'', Some ''q'')], End_tag ''form'']"

definition no_numbers :: number_reader where
  "no_numbers = \<lparr>nr_int = (\<lambda>_. None), nr_float = (\<lambda>_. None)\<rparr>"

definition sample_reader :: snapshot_reader where
  "sample_reader = \<lparr>sp_parser = sample_events, sp_file = (\<lambda>path. Some ''<form>''), sp_now = ''2025''\<rparr>"

definition target_at :: "string \<Rightarrow> string list \<Rightarrow> engine_target" where
  "target_at l ls = \<lparr>tg_description = ''the button'', tg_primary_locator = l, tg_fallback_locators = ls,
     tg_fingerprint = None\<rparr>"

definition plan_of :: "engine_target \<Rightarrow> engine_plan" where
  "plan_of t = \<lparr>ep_test_id = ''t1'', ep_name = ''save'', ep_base_url = ''http://shop/'',
     ep_steps = [(engine_step_of ''step-1'' AC_CLICK)\<lparr>es_target := Some t\<rparr>]\<rparr>"

definition failed_run :: run_result where
  "failed_run = \<lparr>tr_test_id = ''t1'', tr_status = RS_FAILED, tr_started_at = ''2025'', tr_duration_ms = 1,
     tr_steps = [\<lparr>sr_step_id = ''step-1'', sr_status = SS_FAILED, sr_error = Some ''Timeout'',
       sr_duration_ms = 1, sr_locator_used = None, sr_healing = None, sr_screenshot_path = None,
       sr_dom_snapshot_path = Some ''dom.html'', sr_page_url = None, sr_console_logs = [],
       sr_network_errors = []\<rparr>],
     tr_artifacts_dir = ''a'', tr_visual = None\<rparr>"

lemma sample_events_plain: "list_all (plain_tag \<circ> pe_tag) (collect (sp_parser sample_reader html))"
proof -
  have "collect (sp_parser sample_reader html) = collect (sample_events [])"
    by (simp add: sample_reader_def sample_events_def)
  then show ?thesis by (simp only:) code_simp
qed

lemma failed_at_None:
  assumes "failed_at r = None"
  shows "SS_FAILED \<notin> sr_status ` set (tr_steps r)"
proof
  assume "SS_FAILED \<in> sr_status ` set (tr_steps r)"
  then obtain i where i: "i < length (tr_steps r)" "sr_status (tr_steps r ! i) = SS_FAILED"
    by (auto simp: in_set_conv_nth)
  then have "(i, tr_steps r ! i) \<in> set (enumerate 0 (tr_steps r))"
    by (simp add: in_set_enumerate_eq)
  then show False using assms i(2) by (force simp: failed_at_def find_None_iff)
qed

lemma failed_among:
  assumes "i < length (tr_steps r)" "sr_status (tr_steps r ! i) = SS_FAILED"
  shows "SS_FAILED \<in> sr_status ` set (tr_steps r)"
  using nth_mem[OF assms(1)] assms(2) by force

lemma failed_at_Some:
  assumes "failed_at r = Some (i, s)"
  shows "s = tr_steps r ! i \<and> i < length (tr_steps r) \<and> sr_status s = SS_FAILED \<and>
    (\<forall>j<i. sr_status (tr_steps r ! j) \<noteq> SS_FAILED)"
proof -
  have "\<exists>n<length (enumerate 0 (tr_steps r)). (\<lambda>(i, s). sr_status s = SS_FAILED) (enumerate 0 (tr_steps r) ! n) \<and>
      (i, s) = enumerate 0 (tr_steps r) ! n \<and>
      (\<forall>j<n. \<not> (\<lambda>(i, s). sr_status s = SS_FAILED) (enumerate 0 (tr_steps r) ! j))"
    using assms by (simp add: failed_at_def find_Some_iff)
  then show ?thesis by (auto simp: nth_enumerate_eq)
qed

section \<open>Properties\<close>

text \<open>
  The selector of every element read out of a page snapshot matches, among the page's
  collected elements, exactly the element it was built for, and the record is that element's;
  when the broken target's tag is known only elements of that tag are recorded.
\<close>

theorem page_selectors_exact:
  assumes "r \<in> set (page_elements_from_dom parser html url tag limit now)"
  shows "\<exists>e c. r = dom_record e (render c) url now \<and>
    filter (css_matches c) (collect (parser html)) = [e] \<and>
    (truthy tag \<longrightarrow> pe_tag e = lower (or_empty tag))"
proof (rule page_record_origin[OF assms])
  fix e c
  assume "e \<in> set (collect (parser html))" "unique_choice e (collect (parser html)) = Some c"
    "r = dom_record e (render c) url now" "truthy tag \<longrightarrow> pe_tag e = lower (or_empty tag)"
  then show ?thesis using unique_choice_matches by blast
qed

theorem page_selectors_exact_witness:
  "\<exists>e c. hd (page_elements_from_dom sample_events [] None None 9 ''2025'') = dom_record e (render c) None ''2025'' \<and>
    filter (css_matches c) (collect (sample_events [])) = [e]"
proof -
  have "page_elements_from_dom sample_events [] None None 9 ''2025'' \<noteq> []" by code_simp
  then show ?thesis using page_selectors_exact[of _ sample_events "[]" None None 9 "''2025''"]
    by (meson list.set_sel(1))
qed

text \<open>
  C38: What of the page reaches the healer. When a run failed on a step with a locator and its page
  snapshot was saved, can be read and is not empty, the elements the healer compares, read back by the
  orchestrator from the failure context, are the records that the snapshot yields, in page order, without
  the failed locator's own: nothing is lost or altered on the way through the DOM evidence, and their
  selectors are pairwise different. The snapshot yields a record for each interactive element of the
  fingerprint's tag (of any tag when there is none) that has a selector matching it alone, the first 200 of
  them; elements without such a selector are left out. Tag names are assumed to be plain, as the HTML
  parser gives them.
\<close>

theorem page_reaches_healer:
  assumes "ag_failure_context st = xr_failure_context (engine_result_to_execution_result rd r wid tid (Some p))"
    "tr_status r = RS_FAILED" "failed_at r = Some (i, s)"
    "step_target (plan_step p i) = Some t" "tg_primary_locator t \<noteq> []"
    "read_snapshot rd (sr_dom_snapshot_path s) = Some html" "html \<noteq> []"
    "list_all (plain_tag \<circ> pe_tag) (collect (sp_parser rd html))"
  shows "\<exists>es. map_sum id fst (get_current_elements clock st) = Inr es \<and> distinct (map el_selector es) \<and>
    es = filter (\<lambda>e. el_selector e \<noteq> tg_primary_locator t)
      (page_elements_from_dom (sp_parser rd) html (or_str (sr_page_url s) (Some (ep_base_url p)))
        (Option.bind (tg_fingerprint t) ef_tag) max_page_elements (sp_now rd))"
proof -
  let ?f = "failure_context_of rd r wid tid (Some p)"
  let ?url = "or_str (sr_page_url s) (Some (ep_base_url p))"
  have f: "ag_failure_context st = Some ?f"
    using assms(1,2) by (simp add: engine_result_to_execution_result_def)
  have tag: "(case tg_fingerprint t of None \<Rightarrow> None | Some f \<Rightarrow> ef_tag f) = Option.bind (tg_fingerprint t) ef_tag"
    by (cases "tg_fingerprint t") simp_all
  have e: "fx_current_element ?f = None" "fx_dom_evidence ?f =
      dom_evidence rd s (tg_primary_locator t) ?url (Option.bind (tg_fingerprint t) ef_tag)"
    using assms(3,4,5) by (simp_all add: failure_context_of_def Let_def tag)
  show ?thesis
    using current_elements_of_evidence[OF f e assms(6-8), of clock]
      page_selectors_distinct[of "sp_parser rd" html, OF assms(8)] by (simp add: distinct_map_filter_sub)
qed

theorem page_reaches_healer_witness:
  "\<exists>es. map_sum id fst (get_current_elements (\<lambda>n. ''2025'')
      ((new_state (\<lambda>n. ''2025'') ''w1'' W_FAILURE_DETECTED 2)\<lparr>ag_failure_context :=
        xr_failure_context (engine_result_to_execution_result sample_reader failed_run ''w1'' ''t1''
          (Some (plan_of (target_at ''#send'' []))))\<rparr>)) = Inr es \<and>
    distinct (map el_selector es) \<and> map el_selector es = [''#save'', ''input[name='' @ in_dquotes ''q'' @ '']'']"
proof -
  let ?p = "plan_of (target_at ''#send'' [])"
  have first: "failed_at failed_run = Some (0, hd (tr_steps failed_run))" by code_simp
  have t: "step_target (plan_step ?p 0) = Some (target_at ''#send'' [])" by code_simp
  have url: "sr_page_url (hd (tr_steps failed_run)) = None" by code_simp
  have snap: "read_snapshot sample_reader (sr_dom_snapshot_path (hd (tr_steps failed_run))) = Some ''<form>''"
    by code_simp
  have page: "map el_selector (filter (\<lambda>e. el_selector e \<noteq> tg_primary_locator (target_at ''#send'' []))
      (page_elements_from_dom (sp_parser sample_reader) ''<form>''
        (or_str (sr_page_url (hd (tr_steps failed_run))) (Some (ep_base_url ?p)))
        (Option.bind (tg_fingerprint (target_at ''#send'' [])) ef_tag) max_page_elements (sp_now sample_reader))) =
      [''#save'', ''input[name='' @ in_dquotes ''q'' @ '']'']"
    by code_simp
  show ?thesis
    using page_reaches_healer[of "(new_state (\<lambda>n. ''2025'') ''w1'' W_FAILURE_DETECTED 2)\<lparr>ag_failure_context :=
        xr_failure_context (engine_result_to_execution_result sample_reader failed_run ''w1'' ''t1'' (Some ?p))\<rparr>"
        sample_reader failed_run "''w1''" "''t1''" ?p, OF _ _ first t _ snap, of "\<lambda>n. ''2025''"] page sample_events_plain
    by (auto simp: failed_run_def target_at_def)
qed

text \<open>
  What a run learned about a stored locator (the locator it healed to, a replaced primary
  locator, the fallbacks, the fingerprint) is stored as JSON rows; reading those rows back, the
  next run's target for that locator carries exactly the latest of it, and a locator nothing was
  learned about gets a bare target.
\<close>

theorem learned_targets_restored:
  assumes "collect_learned_targets original executed r = Some rows"
    "sane_plan original" "sane_plan executed" "l \<noteq> []"
  shows "\<exists>m. learned_targets_by_locator (PList rows) = Some m \<and>
    create_engine_target nr (Some l) d m =
      Some (restored d l (learned_about (healed_locators r) (zip (ep_steps original) (ep_steps executed)) l))"
  by (rule learned_round_trip[OF assms])

theorem learned_targets_restored_witness:
  "\<exists>rows m. collect_learned_targets (plan_of (target_at ''#old'' [])) (plan_of (target_at ''#new'' [''#old'', ''b'']))
      failed_run = Some rows \<and> learned_targets_by_locator (PList rows) = Some m \<and>
    create_engine_target no_numbers (Some ''#old'') ''d'' m = Some
      \<lparr>tg_description = ''d'', tg_primary_locator = ''#old'', tg_fallback_locators = [''#new'', ''b''],
       tg_fingerprint = None\<rparr>"
proof -
  let ?o = "plan_of (target_at ''#old'' [])" and ?x = "plan_of (target_at ''#new'' [''#old'', ''b''])"
  obtain rows where rows: "collect_learned_targets ?o ?x failed_run = Some rows"
    by (simp add: collect_learned_targets_def plan_of_def)
  have sane: "sane_plan ?o" "sane_plan ?x"
    by (simp_all add: sane_plan_def plan_of_def target_at_def sane_target_def)
  have "restored ''d'' ''#old'' (learned_about (healed_locators failed_run) (zip (ep_steps ?o) (ep_steps ?x)) ''#old'') =
      \<lparr>tg_description = ''d'', tg_primary_locator = ''#old'', tg_fallback_locators = [''#new'', ''b''],
       tg_fingerprint = None\<rparr>"
    by code_simp
  then show ?thesis
    using rows learned_targets_restored[OF rows sane, of "''#old''" no_numbers "''d''"] by auto
qed

text \<open>What a step of the engine's plan does: its action, locator, value, expected text, exactness and timeout.\<close>

type_synonym shown_step = "action_type \<times> string option \<times> string option \<times> string option \<times> bool \<times> int"

definition shown :: "engine_step \<Rightarrow> shown_step" where
  "shown s = (es_action s, map_option tg_primary_locator (es_target s), es_value s, es_expected s, es_exact s, es_timeout_ms s)"

definition some_locator :: "string \<Rightarrow> string option" where
  "some_locator l = (if l = [] then None else Some l)"

definition wanted_step :: "test_step \<Rightarrow> shown_step" where
  "wanted_step st = (engine_action (ts_action st), some_locator (or_empty (ts_target st)), ts_value st, None, False,
     case ts_timeout st of None \<Rightarrow> 5000 | Some t \<Rightarrow> t)"

text \<open>Only checks of the address have no locator, only the check for a hidden element no expected text.\<close>

definition wanted_check :: "test_assertion \<Rightarrow> shown_step" where
  "wanted_check a = (check_action (as_type a),
     if as_type a \<in> {AT_URL_CONTAINS, AT_URL_EQUALS} then None else some_locator (as_target a), None,
     if as_type a = AT_ELEMENT_NOT_VISIBLE then None else Some (as_expected a),
     as_type a \<in> {AT_ELEMENT_HAS_TEXT, AT_URL_EQUALS}, 5000)"

definition wanted_steps :: "test_case \<Rightarrow> shown_step list" where
  "wanted_steps tc =
     concat (map (\<lambda>st. wanted_step st # map wanted_check (ts_assertions st)) (tc_steps tc)) @ map wanted_check (tc_assertions tc)"

lemma target_shown: "map_option tg_primary_locator (create_engine_target nr sel d m) = some_locator (or_empty sel)"
  by (auto simp: create_engine_target_def Let_def some_locator_def truthy_def split: option.split)

lemma action_step_shown: "action_step nr learned st = Some s \<Longrightarrow> shown s = wanted_step st"
  by (auto simp: action_step_def map_action_total engine_step_of_def shown_def wanted_step_def target_shown)

lemma check_shown: "map_assertion_to_engine nr a learned = Some s \<Longrightarrow> shown (s\<lparr>es_step_id := i\<rparr>) = wanted_check a"
  by (cases "as_type a")
    (auto simp: map_assertion_to_engine_def Let_def engine_step_of_def shown_def wanted_check_def target_shown or_empty_def)

lemma assertion_steps_shown: "assertion_steps nr learned stem n as = Some ss \<Longrightarrow> map shown ss = map wanted_check as"
  by (induction as arbitrary: n ss) (auto simp: check_shown split: option.splits)

lemma planned_steps_shown:
  "planned_steps nr learned sts = Some ss \<Longrightarrow>
   map shown ss = concat (map (\<lambda>st. wanted_step st # map wanted_check (ts_assertions st)) sts)"
  by (induction sts arbitrary: ss)
    (auto simp: action_step_shown assertion_steps_shown split: option.splits)

lemma plan_shown:
  assumes "test_case_to_engine_plan nr tc url learned = Some p"
  shows "ep_test_id p = tc_test_id tc" "ep_name p = tc_name tc" "ep_base_url p = url"
    "map shown (ep_steps p) =
      (if wanted_steps tc = [] then [(AC_GOTO, None, Some url, None, False, 5000)] else wanted_steps tc)"
proof -
  obtain ss cs where steps: "planned_steps nr learned (tc_steps tc) = Some ss"
    "assertion_steps nr learned ''case-assert-'' 1 (tc_assertions tc) = Some cs"
    using assms by (auto simp: test_case_to_engine_plan_def split: option.splits)
  have "map shown (ss @ cs) = wanted_steps tc"
    using planned_steps_shown[OF steps(1)] assertion_steps_shown[OF steps(2)] by (simp add: wanted_steps_def)
  moreover from this have "ss @ cs = [] \<longleftrightarrow> wanted_steps tc = []" by (metis map_is_Nil_conv)
  ultimately show "ep_test_id p = tc_test_id tc" "ep_name p = tc_name tc" "ep_base_url p = url"
    "map shown (ep_steps p) =
      (if wanted_steps tc = [] then [(AC_GOTO, None, Some url, None, False, 5000)] else wanted_steps tc)"
    using assms steps by (auto simp: test_case_to_engine_plan_def shown_def engine_step_of_def)
qed

text \<open>
  C39: Every valid stored test case converts to a valid engine plan of the same id and name for the base
  URL: the conversion never raises. The plan does what the case says, in its written order, each check
  right after its step and the case's own checks last: every step keeps its action, locator, value and
  timeout (5 seconds when it names none), and every check its kind, locator (none for the address), expected
  text (none for a hidden element) and whether the match is exact. An empty case opens the base URL. When
  the step numbers of the case differ, no two steps of the plan share a name.
\<close>

theorem converted_plan_faithful:
  assumes "valid_test_case tc"
  shows "\<exists>p. test_case_to_engine_plan nr tc url learned = Some p \<and> valid_engine_plan p \<and>
    ep_test_id p = tc_test_id tc \<and> ep_name p = tc_name tc \<and> ep_base_url p = url \<and>
    map shown (ep_steps p) =
      (let steps = concat (map (\<lambda>st. wanted_step st # map wanted_check (ts_assertions st)) (tc_steps tc)) @
             map wanted_check (tc_assertions tc)
       in if steps = [] then [(AC_GOTO, None, Some url, None, False, 5000)] else steps) \<and>
    (distinct (map ts_step_number (tc_steps tc)) \<longrightarrow> distinct (map es_step_id (ep_steps p)))"
proof -
  obtain p where p: "test_case_to_engine_plan nr tc url learned = Some p" "valid_engine_plan p"
    "let acts = concat (map step_actions (tc_steps tc)) @ map (check_action \<circ> as_type) (tc_assertions tc);
          names = concat (map step_names (tc_steps tc)) @ case_names (length (tc_assertions tc))
      in map es_action (ep_steps p) = (if acts = [] then [AC_GOTO] else acts) \<and>
         map es_step_id (ep_steps p) = (if acts = [] then [''step-1-init''] else names)"
    using test_case_plan_total[of nr tc url learned] assms by blast
  have steps: "list_all valid_test_step (tc_steps tc)" using assms by (simp add: valid_test_case_def)
  have "distinct (concat (map step_names (tc_steps tc)) @ case_names (length (tc_assertions tc)))"
    if "distinct (map ts_step_number (tc_steps tc))"
    using distinct_all_names[OF steps that] distinct_case_names
      case_names_disjoint[OF steps] by (simp add: distinct_append)
  then have "distinct (map ts_step_number (tc_steps tc)) \<longrightarrow> distinct (map es_step_id (ep_steps p))"
    using p(3) by (auto simp: Let_def split: if_splits)
  then show ?thesis using p(1,2) plan_shown[OF p(1)]
    by (intro exI[of _ p]) (simp add: wanted_steps_def Let_def)
qed

definition sample_check :: test_assertion where
  "sample_check = \<lparr>as_type = AT_URL_CONTAINS, as_target = [], as_expected = ''done'', as_description = ''saved''\<rparr>"

definition sample_test_step :: test_step where
  "sample_test_step = \<lparr>ts_step_number = 1, ts_action = TA_CLICK, ts_target = Some ''#save'', ts_value = None,
     ts_description = ''save'', ts_assertions = [sample_check], ts_timeout = Some 900, ts_metadata = []\<rparr>"

definition sample_case :: test_case where
  "sample_case = \<lparr>tc_test_id = ''t1'', tc_name = ''save'', tc_description = [],
     tc_category = TC_FUNCTIONAL, tc_priority = TP_MEDIUM, tc_steps = [sample_test_step],
     tc_assertions = [], tc_page_url = None, tc_preconditions = [], tc_tags = [],
     tc_generated_reasoning = None\<rparr>"

theorem converted_plan_faithful_witness:
  "\<exists>p. test_case_to_engine_plan no_numbers sample_case ''http://shop/'' [] = Some p \<and> valid_engine_plan p \<and>
    map shown (ep_steps p) =
      [(AC_CLICK, Some ''#save'', None, None, False, 900), (AC_ASSERT_URL, None, None, Some ''done'', False, 5000)] \<and>
    distinct (map es_step_id (ep_steps p))"
proof -
  have "valid_test_case sample_case" "distinct (map ts_step_number (tc_steps sample_case))"
    by code_simp+
  moreover have "concat (map (\<lambda>st. wanted_step st # map wanted_check (ts_assertions st)) (tc_steps sample_case)) @
      map wanted_check (tc_assertions sample_case) =
      [(AC_CLICK, Some ''#save'', None, None, False, 900), (AC_ASSERT_URL, None, None, Some ''done'', False, 5000)]"
    by code_simp
  ultimately show ?thesis
    using converted_plan_faithful[of sample_case no_numbers "''http://shop/''" "[]"] by (auto simp: Let_def)
qed

text \<open>
  C40: The execution result the agents receive for a run is well-formed, names the workflow and the test,
  and reports success, without a failure, exactly when the run passed or was healed. Any other run is
  reported as failed with a context that describes its first failed step: its position, counted from 1, its
  error, the page it was on (the plan's base URL when unknown) and its screenshot. Action and locator are
  those of the plan's step at that position; a failure past the plan's last step, which the engine adds when
  the browser fails on closing, is reported as a click without a locator. A failed run without a failed step
  is reported at position 1.
\<close>

theorem execution_result_of_run:
  assumes "wid \<noteq> []" "tid \<noteq> []"
  shows "\<exists>x. engine_result_to_execution_result rd r wid tid (Some p) = x \<and> valid_execution_result x \<and>
    xr_workflow_id x = wid \<and> xr_test_case_id x = tid \<and>
    (if tr_status r = RS_PASSED \<or> tr_status r = RS_HEALED
     then xr_status x = XS_SUCCESS \<and> xr_failure_context x = None
     else xr_status x = XS_FAILED \<and>
       (\<exists>f. xr_failure_context x = Some f \<and> fx_test_id f = tid \<and> fx_execution_id f = wid \<and>
         (if SS_FAILED \<in> sr_status ` set (tr_steps r)
          then \<exists>i<length (tr_steps r). sr_status (tr_steps r ! i) = SS_FAILED \<and>
            (\<forall>j<i. sr_status (tr_steps r ! j) \<noteq> SS_FAILED) \<and>
            fx_failed_step f = int i + 1 \<and>
            fx_error_message f = or_default (or_empty (sr_error (tr_steps r ! i))) ''Execution step failed'' \<and>
            fx_current_page_url f = or_str (sr_page_url (tr_steps r ! i)) (Some (ep_base_url p)) \<and>
            fx_screenshot_path f = sr_screenshot_path (tr_steps r ! i) \<and>
            (if i < length (ep_steps p)
             then fx_action f = action_type_value (es_action (ep_steps p ! i)) \<and>
               fx_target_selector f = (case es_target (ep_steps p ! i) of None \<Rightarrow> [] | Some t \<Rightarrow> tg_primary_locator t)
             else fx_action f = ''click'' \<and> fx_target_selector f = [])
          else fx_failed_step f = 1 \<and> fx_error_message f = ''Execution step failed'' \<and>
            fx_action f = ''click'' \<and> fx_target_selector f = [])))"
proof (cases "tr_status r = RS_PASSED \<or> tr_status r = RS_HEALED")
  case True
  then show ?thesis using assms by (auto simp: engine_result_to_execution_result_def valid_execution_result_def)
next
  case False
  let ?f = "failure_context_of rd r wid tid (Some p)"
  have x: "engine_result_to_execution_result rd r wid tid (Some p) =
      \<lparr>xr_workflow_id = wid, xr_test_case_id = tid, xr_status = XS_FAILED, xr_failure_context = Some ?f\<rparr>"
    using False by (auto simp: engine_result_to_execution_result_def)
  have act: "action_type_value a \<noteq> []" for a by (cases a) simp_all
  have ok: "valid_failure_context ?f" "fx_test_id ?f = tid" "fx_execution_id ?f = wid"
    using assms act by (auto simp: failure_context_of_def Let_def valid_failure_context_def split: option.split)
  show ?thesis
  proof (cases "failed_at r")
    case None
    then have "SS_FAILED \<notin> sr_status ` set (tr_steps r)" by (rule failed_at_None)
    then show ?thesis using None x ok False assms
      by (simp add: valid_execution_result_def) (simp add: failure_context_of_def Let_def step_target_def or_default_def)
  next
    case (Some found)
    obtain i s where found: "failed_at r = Some (i, s)" using Some by (cases found) simp
    have i: "failed_at r = Some (i, tr_steps r ! i)" "i < length (tr_steps r)"
      "sr_status (tr_steps r ! i) = SS_FAILED" "\<forall>j<i. sr_status (tr_steps r ! j) \<noteq> SS_FAILED"
      using found failed_at_Some[OF found] by blast+
    have "SS_FAILED \<in> sr_status ` set (tr_steps r)" using i(2,3) by (rule failed_among)
    moreover have "fx_failed_step ?f = int i + 1"
      "fx_error_message ?f = or_default (or_empty (sr_error (tr_steps r ! i))) ''Execution step failed''"
      "fx_current_page_url ?f = or_str (sr_page_url (tr_steps r ! i)) (Some (ep_base_url p))"
      "fx_screenshot_path ?f = sr_screenshot_path (tr_steps r ! i)"
      unfolding failure_context_of_def Let_def i(1) by simp_all
    moreover have "if i < length (ep_steps p)
       then fx_action ?f = action_type_value (es_action (ep_steps p ! i)) \<and>
         fx_target_selector ?f = (case es_target (ep_steps p ! i) of None \<Rightarrow> [] | Some t \<Rightarrow> tg_primary_locator t)
       else fx_action ?f = ''click'' \<and> fx_target_selector ?f = []"
      unfolding failure_context_of_def Let_def i(1) by (simp add: plan_step_def step_target_def)
    ultimately show ?thesis using x ok False assms i(2-4)
      unfolding x by (simp add: valid_execution_result_def)
  qed
qed

text \<open>A run that failed after its only step, and one that was healed.\<close>

definition closing_run :: run_result where
  "closing_run = failed_run\<lparr>tr_steps := [(hd (tr_steps failed_run))\<lparr>sr_status := SS_PASSED\<rparr>, hd (tr_steps failed_run)]\<rparr>"

theorem execution_result_of_run_witness:
  "(\<exists>f. xr_failure_context (engine_result_to_execution_result sample_reader failed_run ''w1'' ''t1''
      (Some (plan_of (target_at ''#send'' [])))) = Some f \<and> fx_failed_step f = 1 \<and>
      fx_target_selector f = ''#send'' \<and> fx_action f = ''click'') \<and>
   (\<exists>f. xr_failure_context (engine_result_to_execution_result sample_reader closing_run ''w1'' ''t1''
      (Some (plan_of (target_at ''#send'' [])))) = Some f \<and> fx_failed_step f = 2 \<and> fx_target_selector f = []) \<and>
   xr_status (engine_result_to_execution_result sample_reader (failed_run\<lparr>tr_status := RS_HEALED\<rparr>) ''w1'' ''t1''
      (Some (plan_of (target_at ''#send'' [])))) = XS_SUCCESS"
proof (intro conjI)
  let ?p = "plan_of (target_at ''#send'' [])"
  have run: "length (tr_steps failed_run) = 1" "sr_status (tr_steps failed_run ! 0) = SS_FAILED"
    "tr_status failed_run = RS_FAILED" by (simp_all add: failed_run_def)
  have closing: "length (tr_steps closing_run) = 2" "sr_status (tr_steps closing_run ! 0) = SS_PASSED"
    "sr_status (tr_steps closing_run ! 1) = SS_FAILED" "tr_status closing_run = RS_FAILED"
    by (simp_all add: closing_run_def failed_run_def)
  have plan: "length (ep_steps ?p) = 1" "es_target (ep_steps ?p ! 0) = Some (target_at ''#send'' [])"
    "es_action (ep_steps ?p ! 0) = AC_CLICK" "tg_primary_locator (target_at ''#send'' []) = ''#send''"
    by (simp_all add: plan_of_def engine_step_of_def target_at_def)
  note result = execution_result_of_run[of "''w1''" "''t1''" sample_reader _ ?p]
  show "\<exists>f. xr_failure_context (engine_result_to_execution_result sample_reader failed_run ''w1'' ''t1'' (Some ?p)) = Some f \<and>
      fx_failed_step f = 1 \<and> fx_target_selector f = ''#send'' \<and> fx_action f = ''click''"
    using result[of failed_run] run plan failed_among[of 0 failed_run] unfolding run(1) by (simp add: plan) blast
  have second: "i = 1" if "i < 2" "sr_status (tr_steps closing_run ! i) = SS_FAILED" for i
    using that closing(2) by (auto simp: less_2_cases_iff)
  show "\<exists>f. xr_failure_context (engine_result_to_execution_result sample_reader closing_run ''w1'' ''t1'' (Some ?p)) = Some f \<and>
      fx_failed_step f = 2 \<and> fx_target_selector f = []"
  proof -
    obtain f i where "xr_failure_context (engine_result_to_execution_result sample_reader closing_run ''w1'' ''t1'' (Some ?p)) = Some f"
      "i < 2" "sr_status (tr_steps closing_run ! i) = SS_FAILED" "fx_failed_step f = int i + 1"
      "\<not> i < length (ep_steps ?p) \<longrightarrow> fx_target_selector f = []"
      using result[of closing_run] failed_among[of 1 closing_run, unfolded closing] unfolding closing(1)
      by (auto simp: closing(4))
    then show ?thesis using second[of i] plan(1) by auto
  qed
  show "xr_status (engine_result_to_execution_result sample_reader (failed_run\<lparr>tr_status := RS_HEALED\<rparr>) ''w1'' ''t1'' (Some ?p)) =
      XS_SUCCESS"
    using result[of "failed_run\<lparr>tr_status := RS_HEALED\<rparr>"] by auto
qed

end
