(* ===== verification/Stored_Tests.thy ===== *)
theory Stored_Tests
  imports Converters
begin

text \<open>
  \<^verbatim>\<open>backend/orchestration/orchestrator.py\<close>, from a stored test to a plan: the stored steps read
  out of a test case's description, the plan with a healed selector, and the lines that describe
  steps to a reader. The description is given as the value \<open>json.loads\<close> makes of it.
\<close>

section \<open>A healed selector in the plan\<close>

text \<open>The steps whose locator is the broken one; without any, the failed step if it has a target.\<close>

definition broken_steps :: "engine_step list \<Rightarrow> string \<Rightarrow> int \<Rightarrow> bool list" where
  "broken_steps steps broken failed_step =
     (let hits = map (\<lambda>st. broken \<noteq> [] \<and> map_option tg_primary_locator (es_target st) = Some broken) steps
      in if list_ex id hits then hits
         else map (\<lambda>(i, st). int i = failed_step - 1 \<and> es_target st \<noteq> None) (enumerate 0 steps))"

definition with_locator :: "string \<Rightarrow> engine_step \<Rightarrow> engine_step" where
  "with_locator l st = st\<lparr>es_target := map_option (\<lambda>t. t\<lparr>tg_primary_locator := l\<rparr>) (es_target st)\<rparr>"

definition apply_healed_selector :: "engine_plan \<Rightarrow> string \<Rightarrow> int \<Rightarrow> string \<Rightarrow> engine_plan" where
  "apply_healed_selector plan broken failed_step healed =
     plan\<lparr>ep_steps := map2 (\<lambda>st hit. if hit then with_locator healed st else st) (ep_steps plan)
       (broken_steps (ep_steps plan) broken failed_step)\<rparr>"

section \<open>Describing a step\<close>

definition capitalize :: "string \<Rightarrow> string" where
  "capitalize s = (case s of [] \<Rightarrow> [] | c # r \<Rightarrow> upper [c] @ lower r)"

definition step_verbs :: "(string \<times> string) list" where
  "step_verbs =
     [(''goto'', ''Open''), (''click'', ''Click''), (''fill'', ''Type into''), (''press'', ''Press''),
      (''select'', ''Choose in''), (''assert_text'', ''Check the text of''),
      (''assert_visible'', ''Check that it shows''), (''wait_for'', ''Wait for''),
      (''assert_hidden'', ''Check that it's gone:''), (''assert_url'', ''Check the page address'')]"

definition step_verb :: "action_type \<Rightarrow> string" where
  "step_verb a = (let name = action_type_value a in
     case map_of step_verbs name of
       Some v \<Rightarrow> v
     | None \<Rightarrow> capitalize (map (\<lambda>c. if c = CHR ''_'' then CHR '' '' else c) name))"

definition shown_target :: "engine_target option \<Rightarrow> string" where
  "shown_target target =
     (case target of
        None \<Rightarrow> []
      | Some t \<Rightarrow>
          if tg_description t = [] \<or> prefix ''assertion target'' (lower (tg_description t))
          then tg_primary_locator t else tg_description t)"

definition describe_step :: "engine_step \<Rightarrow> string" where
  "describe_step step =
     (let a = es_action step; verb = step_verb a; value = or_empty (es_value step);
          expected = or_empty (es_expected step); target = shown_target (es_target step);
          line = strip (verb @ '' '' @ target)
      in if a = AC_GOTO then verb @ '' '' @ or_default value ''the page''
         else if a = AC_ASSERT_URL then verb @ '' contains '' @ in_dquotes (take 80 expected)
         else if prefix ''Check: '' (case es_target step of None \<Rightarrow> [] | Some t \<Rightarrow> tg_description t)
         then tg_description (the (es_target step))
         else if a = AC_FILL \<and> value \<noteq> []
         then line @ '' ('' @ show_nat (length value) @ '' characters)''
         else if a = AC_ASSERT_TEXT \<and> expected \<noteq> []
         then line @ '' contains '' @ in_dquotes (take 80 expected)
         else if a = AC_PRESS \<and> value \<noteq> []
         then strip (''Press '' @ take 20 value @ '' in '' @ target)
         else if a = AC_SELECT \<and> value \<noteq> [] then line @ '' '' @ take 40 value
         else line)"

section \<open>Stored steps\<close>

definition assertion_type_named :: "string \<Rightarrow> assertion_type" where
  "assertion_type_named name =
     (case enum_of_value assertion_type_members assertion_type_value name of
        Some t \<Rightarrow> t
      | None \<Rightarrow>
          if contains ''url'' name
          then (if contains ''equal'' name \<or> contains ''exact'' name then AT_URL_EQUALS else AT_URL_CONTAINS)
          else if contains ''value'' name then AT_VALUE_EQUALS
          else if contains ''text'' name
          then (if contains ''has_text'' name \<or> contains ''exact'' name then AT_ELEMENT_HAS_TEXT
                else AT_ELEMENT_CONTAINS_TEXT)
          else if contains ''not'' name \<or> contains ''hidden'' name then AT_ELEMENT_NOT_VISIBLE
          else AT_ELEMENT_VISIBLE)"

text \<open>\<open>str | None\<close> and \<open>str\<close> fields: None where validation fails.\<close>

definition opt_str_field :: "pyval \<Rightarrow> string option option" where
  "opt_str_field v = (case v of PNone \<Rightarrow> Some None | PStr s \<Rightarrow> Some (Some s) | _ \<Rightarrow> None)"

definition str_field :: "pyval \<Rightarrow> string option" where
  "str_field v = (case v of PStr s \<Rightarrow> Some s | _ \<Rightarrow> None)"

definition target_field :: "(string \<times> pyval) list \<Rightarrow> pyval" where
  "target_field s = pv_or (dict_get s ''target'') (dict_get s ''target_selector'')"

definition read_assertion :: "string \<Rightarrow> nat \<Rightarrow> (string \<times> pyval) list \<Rightarrow> test_assertion option" where
  "read_assertion act idx s =
     (case (str_field (pv_or (target_field s) (PStr [])),
            str_field (pv_or (pv_or (dict_get s ''expected'') (dict_get s ''value'')) (PStr [])),
            str_field (dict_get_or s ''description'' (PStr (''Assert '' @ show_nat idx)))) of
        (Some t, Some e, Some d) \<Rightarrow>
          Some \<lparr>as_type = assertion_type_named act, as_target = t, as_expected = e, as_description = d\<rparr>
      | _ \<Rightarrow> None)"

definition read_action :: "string \<Rightarrow> test_action option" where
  "read_action act =
     (if act \<in> {''goto'', ''open''} then Some TA_NAVIGATE
      else enum_of_value test_action_members test_action_value act)"

definition read_test_step ::
  "number_reader \<Rightarrow> string \<Rightarrow> string \<Rightarrow> nat \<Rightarrow> nat \<Rightarrow> (string \<times> pyval) list \<Rightarrow> test_step option" where
  "read_test_step nr base_url act idx before s =
     (case read_action act of
        None \<Rightarrow> None
      | Some a \<Rightarrow>
          let given = dict_get s ''value'';
              value = (if a = TA_NAVIGATE \<and> \<not> pv_true given then PStr base_url else given)
          in case (lax_int nr (dict_get_or s ''step_number'' (PInt (int before + 1))),
                   opt_str_field (target_field s), opt_str_field value,
                   str_field (dict_get_or s ''description'' (PStr (''Step '' @ show_nat idx)))) of
               (Some n, Some t, Some v, Some d) \<Rightarrow>
                 if 1 \<le> n then Some \<lparr>ts_step_number = n, ts_action = a, ts_target = t, ts_value = v,
                     ts_description = d, ts_assertions = [], ts_timeout = None, ts_metadata = []\<rparr>
                 else None
             | _ \<Rightarrow> None)"

definition written_action :: "(string \<times> pyval) list \<Rightarrow> string" where
  "written_action s = lower (strip (pv_str (dict_get_or s ''action'' (PStr ''navigate''))))"

definition is_check :: "string \<Rightarrow> bool" where
  "is_check act \<longleftrightarrow> contains ''assert'' act \<or> act \<in> set (map assertion_type_value assertion_type_members)"

definition attach_check :: "test_assertion \<Rightarrow> test_step list \<times> test_assertion list \<Rightarrow>
    test_step list \<times> test_assertion list" where
  "attach_check a acc =
     (case acc of
        ([], as) \<Rightarrow> ([], as @ [a])
      | (sts, as) \<Rightarrow> (butlast sts @ [(last sts)\<lparr>ts_assertions := ts_assertions (last sts) @ [a]\<rparr>], as))"

text \<open>The loop over the stored steps; None is the \<open>TypeError\<close>, \<open>ValueError\<close> or \<open>AttributeError\<close>.\<close>

fun read_steps :: "number_reader \<Rightarrow> string \<Rightarrow> nat \<Rightarrow> pyval list \<Rightarrow>
    test_step list \<times> test_assertion list \<Rightarrow> (test_step list \<times> test_assertion list) option" where
  "read_steps nr base_url idx [] acc = Some acc"
| "read_steps nr base_url idx (PDict s # vs) acc =
     (if is_check (written_action s)
      then (case read_assertion (written_action s) idx s of
              None \<Rightarrow> None
            | Some a \<Rightarrow> read_steps nr base_url (Suc idx) vs (attach_check a acc))
      else (case read_test_step nr base_url (written_action s) idx (length (fst acc)) s of
              None \<Rightarrow> None
            | Some st \<Rightarrow> read_steps nr base_url (Suc idx) vs (fst acc @ [st], snd acc)))"
| "read_steps nr base_url idx (_ # vs) acc = None"

definition stored_steps :: "pyval \<Rightarrow> pyval" where
  "stored_steps desc = (case desc of PDict d \<Rightarrow> dict_get_or d ''steps'' (PList []) | v \<Rightarrow> v)"

definition stored_analysis :: "pyval \<Rightarrow> pyval" where
  "stored_analysis desc = (case desc of PDict d \<Rightarrow> dict_get d ''analysis'' | _ \<Rightarrow> PNone)"

text \<open>\<open>desc\<close> is None for an empty description and for one that is not JSON; JSON null is the same.\<close>

definition read_description ::
  "number_reader \<Rightarrow> string \<Rightarrow> pyval option \<Rightarrow> (test_step list \<times> test_assertion list) option" where
  "read_description nr base_url desc =
     (case desc of
        None \<Rightarrow> Some ([], [])
      | Some PNone \<Rightarrow> Some ([], [])
      | Some v \<Rightarrow>
          (case stored_steps v of
             PList vs \<Rightarrow> read_steps nr base_url 1 vs ([], [])
           | _ \<Rightarrow> Some ([], [])))"

section \<open>The test case and its plan\<close>

record stored_test =
  st_id :: int
  st_external_id :: "string option"
  st_name :: string
  st_description :: "pyval option"
  st_healing_targets :: pyval

definition open_page :: "string \<Rightarrow> test_step" where
  "open_page url =
     \<lparr>ts_step_number = 1, ts_action = TA_NAVIGATE, ts_target = None, ts_value = Some url,
      ts_description = ''Navigate to '' @ url, ts_assertions = [], ts_timeout = None, ts_metadata = []\<rparr>"

definition stored_test_id :: "stored_test \<Rightarrow> string" where
  "stored_test_id t = or_default (or_empty (st_external_id t)) (''tc-'' @ show_int (st_id t))"

definition stored_test_case :: "number_reader \<Rightarrow> string \<Rightarrow> stored_test \<Rightarrow> test_case option" where
  "stored_test_case nr base_url t =
     map_option (\<lambda>(sts, as).
       \<lparr>tc_test_id = stored_test_id t, tc_name = st_name t, tc_description = [],
        tc_category = TC_FUNCTIONAL, tc_priority = TP_MEDIUM,
        tc_steps = (if sts = [] then [open_page base_url] else sts), tc_assertions = as,
        tc_page_url = Some base_url, tc_preconditions = [], tc_tags = [], tc_generated_reasoning = None\<rparr>)
       (read_description nr base_url (st_description t))"

text \<open>None where the row of learned targets has an unhashable locator; the run then crashes.\<close>

definition stored_plan :: "number_reader \<Rightarrow> string \<Rightarrow> stored_test \<Rightarrow> test_case \<Rightarrow> engine_plan option" where
  "stored_plan nr base_url t tc =
     Option.bind (learned_targets_by_locator (st_healing_targets t))
       (test_case_to_engine_plan nr tc base_url)"

section \<open>What a healed selector changes\<close>

lemma length_broken_steps [simp]: "length (broken_steps steps broken k) = length steps"
  by (simp add: broken_steps_def Let_def)

lemma nth_broken_steps:
  assumes "i < length steps"
  shows "broken_steps steps broken k ! i \<longleftrightarrow>
    (if broken \<noteq> [] \<and> (\<exists>st \<in> set steps. map_option tg_primary_locator (es_target st) = Some broken)
     then map_option tg_primary_locator (es_target (steps ! i)) = Some broken
     else int i = k - 1 \<and> es_target (steps ! i) \<noteq> None)"
proof -
  have "list_ex id (map (\<lambda>st. broken \<noteq> [] \<and> map_option tg_primary_locator (es_target st) = Some broken) steps) \<longleftrightarrow>
      broken \<noteq> [] \<and> (\<exists>st \<in> set steps. map_option tg_primary_locator (es_target st) = Some broken)"
    by (auto simp: list_ex_iff)
  then show ?thesis using assms by (auto simp: broken_steps_def Let_def nth_enumerate_eq)
qed

lemma apply_healed_nth:
  assumes "i < length (ep_steps plan)"
  shows "ep_steps (apply_healed_selector plan broken k healed) ! i =
    (if broken_steps (ep_steps plan) broken k ! i then with_locator healed (ep_steps plan ! i) else ep_steps plan ! i)"
  using assms by (simp add: apply_healed_selector_def)

lemma apply_healed_length [simp]:
  "length (ep_steps (apply_healed_selector plan broken k healed)) = length (ep_steps plan)"
  by (simp add: apply_healed_selector_def)

lemma apply_healed_ids [simp]:
  "map es_step_id (ep_steps (apply_healed_selector plan broken k healed)) = map es_step_id (ep_steps plan)"
  by (rule nth_equalityI) (simp_all add: apply_healed_nth with_locator_def)

lemma apply_healed_other [simp]:
  "ep_base_url (apply_healed_selector plan broken k healed) = ep_base_url plan"
  "ep_test_id (apply_healed_selector plan broken k healed) = ep_test_id plan"
  by (simp_all add: apply_healed_selector_def)

section \<open>Reading is all or nothing\<close>

text \<open>Whether an entry can be read does not depend on where it stands.\<close>

definition readable_entry :: "number_reader \<Rightarrow> string \<Rightarrow> pyval \<Rightarrow> bool" where
  "readable_entry nr url v =
     (case v of
        PDict s \<Rightarrow> if is_check (written_action s) then read_assertion (written_action s) 0 s \<noteq> None
                   else read_test_step nr url (written_action s) 0 0 s \<noteq> None
      | _ \<Rightarrow> False)"

lemma read_assertion_position: "read_assertion act i s \<noteq> None \<longleftrightarrow> read_assertion act j s \<noteq> None"
  by (cases "map_of s ''description''")
    (auto simp: read_assertion_def dict_get_or_def str_field_def split: option.splits pyval.splits)

lemma read_test_step_position:
  "read_test_step nr url act i m s \<noteq> None \<longleftrightarrow> read_test_step nr url act j n s \<noteq> None"
proof -
  have desc: "str_field (dict_get_or s ''description'' (PStr x)) \<noteq> None \<longleftrightarrow>
      str_field (dict_get_or s ''description'' (PStr y)) \<noteq> None" for x y
    by (auto simp: dict_get_or_def str_field_def split: option.splits pyval.splits)
  have num: "(\<exists>k \<ge> 1. lax_int nr (dict_get_or s ''step_number'' (PInt (int m + 1))) = Some k) \<longleftrightarrow>
      (\<exists>k \<ge> 1. lax_int nr (dict_get_or s ''step_number'' (PInt (int n + 1))) = Some k)" for m n
    by (auto simp: dict_get_or_def lax_int_def split: option.splits)
  have char: "read_test_step nr url act i m s \<noteq> None \<longleftrightarrow>
     (\<exists>a. read_action act = Some a \<and>
        (\<exists>k \<ge> 1. lax_int nr (dict_get_or s ''step_number'' (PInt (int m + 1))) = Some k) \<and>
        opt_str_field (target_field s) \<noteq> None \<and>
        opt_str_field (if a = TA_NAVIGATE \<and> \<not> pv_true (dict_get s ''value'') then PStr url else dict_get s ''value'') \<noteq> None \<and>
        str_field (dict_get_or s ''description'' (PStr (''Step '' @ show_nat i))) \<noteq> None)" for i m
    by (auto simp: read_test_step_def Let_def split: option.splits)
  show ?thesis
    unfolding char[of i m] char[of j n] num[of m n] desc[of "''Step '' @ show_nat i" "''Step '' @ show_nat j"] by (rule refl)
qed

lemma read_steps_None:
  "read_steps nr url idx vs acc = None \<longleftrightarrow> \<not> list_all (readable_entry nr url) vs"
proof (induction nr url idx vs acc rule: read_steps.induct)
  case (2 nr url idx s vs acc)
  show ?case
  proof (cases "is_check (written_action s)")
    case True
    then show ?thesis
      using 2(1) read_assertion_position[of "written_action s" idx s 0]
      by (cases "read_assertion (written_action s) idx s") (simp_all add: readable_entry_def)
  next
    case False
    then show ?thesis
      using 2(2) read_test_step_position[of nr url "written_action s" idx "length (fst acc)" s 0 0]
      by (cases "read_test_step nr url (written_action s) idx (length (fst acc)) s") (simp_all add: readable_entry_def)
  qed
qed (simp_all add: readable_entry_def)

section \<open>Every stored entry runs\<close>

text \<open>What the engine does for an entry.\<close>

definition entry_is_check :: "pyval \<Rightarrow> bool" where
  "entry_is_check v = (case v of PDict s \<Rightarrow> is_check (written_action s) | _ \<Rightarrow> False)"

definition entry_action :: "pyval \<Rightarrow> action_type" where
  "entry_action v = (case v of
      PDict s \<Rightarrow>
        if is_check (written_action s) then check_action (assertion_type_named (written_action s))
        else (case read_action (written_action s) of Some a \<Rightarrow> engine_action a | None \<Rightarrow> AC_GOTO)
    | _ \<Rightarrow> AC_GOTO)"

definition checks_of :: "test_assertion list \<Rightarrow> action_type list" where
  "checks_of as = map (check_action \<circ> as_type) as"

lemma read_assertion_action:
  "read_assertion act i s = Some a \<Longrightarrow> as_type a = assertion_type_named act"
  by (auto simp: read_assertion_def split: option.splits)

lemma read_test_step_action:
  "read_test_step nr url act i n s = Some st \<Longrightarrow>
     \<exists>a. read_action act = Some a \<and> ts_action st = a \<and> ts_assertions st = [] \<and> 1 \<le> ts_step_number st \<and>
       valid_test_step st"
  by (auto simp: read_test_step_def Let_def valid_test_step_def split: option.splits if_splits)

lemma valid_with_checks [simp]: "valid_test_step (st\<lparr>ts_assertions := as\<rparr>) = valid_test_step st"
  by (simp add: valid_test_step_def)

lemma step_actions_snoc:
  "ys \<noteq> [] \<Longrightarrow> concat (map step_actions (butlast ys @ [(last ys)\<lparr>ts_assertions := ts_assertions (last ys) @ [a]\<rparr>])) =
     concat (map step_actions ys) @ [check_action (as_type a)]"
  by (cases ys rule: rev_cases) (simp_all add: step_actions_def)

text \<open>Once there is a step, every further check joins the step before it.\<close>

lemma read_steps_after:
  assumes "read_steps nr url idx vs (sts, as) = Some (sts', as')" "sts \<noteq> []" "list_all valid_test_step sts"
  shows "concat (map step_actions sts') = concat (map step_actions sts) @ map entry_action vs \<and> as' = as \<and>
    list_all valid_test_step sts'"
  using assms
proof (induction vs arbitrary: idx sts)
  case (Cons v vs)
  obtain s where v: "v = PDict s" using Cons.prems(1) by (cases v) simp_all
  show ?case
  proof (cases "is_check (written_action s)")
    case True
    then obtain a where a: "read_assertion (written_action s) idx s = Some a"
      "read_steps nr url (Suc idx) vs (attach_check a (sts, as)) = Some (sts', as')"
      using Cons.prems(1) v by (auto split: option.splits)
    let ?sts = "butlast sts @ [(last sts)\<lparr>ts_assertions := ts_assertions (last sts) @ [a]\<rparr>]"
    have att: "attach_check a (sts, as) = (?sts, as)"
      using Cons.prems(2) by (cases sts) (simp_all add: attach_check_def)
    have valid: "list_all valid_test_step ?sts"
      using Cons.prems(2,3) by (cases sts rule: rev_cases) simp_all
    show ?thesis
      using Cons.IH[of "Suc idx" ?sts] a(2) valid True v read_assertion_action[OF a(1)]
      unfolding att step_actions_snoc[OF Cons.prems(2)] by (simp add: entry_action_def)
  next
    case False
    then obtain st where st: "read_test_step nr url (written_action s) idx (length sts) s = Some st"
      "read_steps nr url (Suc idx) vs (sts @ [st], as) = Some (sts', as')"
      using Cons.prems(1) v by (auto split: option.splits)
    have "entry_action v = engine_action (ts_action st)" "step_actions st = [engine_action (ts_action st)]"
      "valid_test_step st"
      using read_test_step_action[OF st(1)] False v by (auto simp: entry_action_def step_actions_def)
    then show ?thesis using Cons.IH[of "Suc idx" "sts @ [st]"] st(2) Cons.prems(3) by simp
  qed
qed simp

text \<open>Checks written before any step become the case's own, run last.\<close>

lemma read_steps_actions:
  assumes "read_steps nr url idx vs ([], as) = Some (sts, as')"
  shows "concat (map step_actions sts) = map entry_action (dropWhile entry_is_check vs) \<and>
    checks_of as' = checks_of as @ map entry_action (takeWhile entry_is_check vs) \<and>
    list_all valid_test_step sts"
  using assms
proof (induction vs arbitrary: idx as)
  case (Cons v vs)
  obtain s where v: "v = PDict s" using Cons.prems(1) by (cases v) simp_all
  show ?case
  proof (cases "is_check (written_action s)")
    case True
    then obtain a where a: "read_assertion (written_action s) idx s = Some a"
      "read_steps nr url (Suc idx) vs ([], as @ [a]) = Some (sts, as')"
      using Cons.prems(1) v by (auto simp: attach_check_def split: option.splits)
    show ?thesis
      using Cons.IH[OF a(2)] read_assertion_action[OF a(1)] True v
      by (simp add: entry_is_check_def entry_action_def checks_of_def)
  next
    case False
    then obtain st where st: "read_test_step nr url (written_action s) idx 0 s = Some st"
      "read_steps nr url (Suc idx) vs ([st], as) = Some (sts, as')"
      using Cons.prems(1) v by (auto split: option.splits)
    have "entry_action v = engine_action (ts_action st)" "step_actions st = [engine_action (ts_action st)]"
      "\<not> entry_is_check v" "valid_test_step st"
      using read_test_step_action[OF st(1)] False v
      by (auto simp: entry_action_def step_actions_def entry_is_check_def)
    then show ?thesis using read_steps_after[OF st(2)] by (simp add: checks_of_def)
  qed
qed simp

end
