(* ===== verification/Platform_Run.thy ===== *)
theory Platform_Run
  imports Stored_Tests Engine_Runner Workflow_Invariants
begin

text \<open>
  \<^verbatim>\<open>backend/orchestration/orchestrator.py\<close>, \<open>PlatformWorkflowOrchestrator\<close>: one execution of a
  stored test, from its plan through the browser runs, the agents' diagnosis and the validation of
  their heals to the recorded outcome and what the run taught. A browser run is the parameter
  \<open>pf_run\<close>: what it returns, with the plan as the run left it, and the state it leaves.
\<close>

section \<open>The platform\<close>

record 's platform_env =
  pf_orchestrator :: orchestrator
  pf_clock :: clock
  pf_run :: "engine_plan \<Rightarrow> bool \<Rightarrow> 's \<Rightarrow> run_outcome \<times> 's"
  pf_reader :: snapshot_reader
  pf_numbers :: number_reader
  pf_id :: "nat \<Rightarrow> string"
  pf_now :: "nat \<Rightarrow> string"

text \<open>
  \<open>pl_runs\<close> is the list \<open>runs\<close> of the execution; \<open>pl_drawn\<close> counts the identifiers and times
  drawn for records.
\<close>

record 's platform =
  pl_world :: world
  pl_browser :: 's
  pl_runs :: "run_result list"
  pl_drawn :: nat

datatype crash =
    Record_Rejected string
  | Invalid_Record
  | Workflow_Refused workflow_error
  | Plans_Differ
  | Bad_Learned_Rows

type_synonym ('s, 'a) step_of = "'s platform \<Rightarrow> (crash + 'a) \<times> 's platform"

definition draw :: "'s platform \<Rightarrow> 's platform" where
  "draw p = p\<lparr>pl_drawn := Suc (pl_drawn p)\<rparr>"

definition with_memory :: "mem_store \<Rightarrow> 's platform \<Rightarrow> 's platform" where
  "with_memory m p = p\<lparr>pl_world := (pl_world p)\<lparr>wo_memory := m\<rparr>\<rparr>"

definition memory_of :: "'s platform \<Rightarrow> mem_store" where
  "memory_of p = wo_memory (pl_world p)"

text \<open>A browser run, appended to the runs; the flag asks for the visual check of the first runs.\<close>

definition browse :: "'s platform_env \<Rightarrow> engine_plan \<Rightarrow> bool \<Rightarrow> 's platform \<Rightarrow> run_outcome \<times> 's platform" where
  "browse env plan visual p =
     (case pf_run env plan visual (pl_browser p) of
        (out, b) \<Rightarrow> (out, p\<lparr>pl_browser := b, pl_runs := pl_runs p @ [ot_result out]\<rparr>))"

definition run_error :: "run_result \<Rightarrow> string \<Rightarrow> string" where
  "run_error r dflt =
     or_default (case failed_at r of None \<Rightarrow> [] | Some (_, s) \<Rightarrow> or_empty (sr_error s)) dflt"

section \<open>Submitting a run\<close>

definition remember_target :: "'s platform_env \<Rightarrow> engine_plan \<Rightarrow> string \<Rightarrow> failure_context \<Rightarrow> ('s, unit) step_of" where
  "remember_target env plan test_id fc p =
     (case step_target (if 0 < fx_failed_step fc \<and> fx_failed_step fc \<le> int (length (ep_steps plan))
                        then plan_step plan (nat (fx_failed_step fc - 1)) else None) of
        None \<Rightarrow> (Inr (), p)
      | Some t \<Rightarrow>
          (case tg_fingerprint t of
             None \<Rightarrow> (Inr (), p)
           | Some f \<Rightarrow>
               if fx_target_selector fc = [] \<or>
                  get_element_by_selector (memory_of p) (fx_target_selector fc) None \<noteq> None
               then (Inr (), p)
               else (case store_element (element_record_from_fingerprint f (fx_target_selector fc)
                           (test_id @ '':'' @ fx_target_selector fc) (fx_current_page_url fc) None
                           (pf_now env (pl_drawn p))) (memory_of p) of
                       Inl e \<Rightarrow> (Inl (Record_Rejected e), draw p)
                     | Inr m \<Rightarrow> (Inr (), with_memory m (draw p)))))"

definition submit_ready ::
  "'s platform_env \<Rightarrow> run_result \<Rightarrow> string \<Rightarrow> string \<Rightarrow> engine_plan \<Rightarrow> ('s, execution_result) step_of" where
  "submit_ready env r wid test_id plan p =
     (let x = engine_result_to_execution_result (pf_reader env) r wid test_id (Some plan) in
      case xr_failure_context x of
        None \<Rightarrow> (Inr x, p)
      | Some fc \<Rightarrow>
          (case remember_target env plan test_id fc p of
             (Inl e, p') \<Rightarrow> (Inl e, p')
           | (Inr _, p') \<Rightarrow> (Inr x, p')))"

definition submit_run ::
  "'s platform_env \<Rightarrow> run_result \<Rightarrow> string \<Rightarrow> string \<Rightarrow> engine_plan \<Rightarrow> agent_state \<Rightarrow>
     ('s, execution_result \<times> agent_state) step_of" where
  "submit_run env r wid test_id plan st p =
     (case submit_ready env r wid test_id plan p of
        (Inl e, p1) \<Rightarrow> (Inl e, p1)
      | (Inr x, p1) \<Rightarrow>
          (case submit_execution_result (pf_orchestrator env) (pf_clock env) (pl_world p1) st x of
             (w, Inl e) \<Rightarrow> (Inl (Workflow_Refused e), p1\<lparr>pl_world := w\<rparr>)
           | (w, Inr st') \<Rightarrow> (Inr (x, st'), p1\<lparr>pl_world := w\<rparr>)))"

section \<open>Validating the agents' heals\<close>

text \<open>The candidate waiting for validation, with its recommendation.\<close>

definition pending_heal :: "agent_state \<Rightarrow> (healing_recommendation \<times> scored_candidate) option" where
  "pending_heal st =
     (case ag_healing_recommendation st of
        None \<Rightarrow> None
      | Some r \<Rightarrow>
          (case rc_selected_candidate r of
             None \<Rightarrow> None
           | Some c \<Rightarrow>
               if ag_current_step st = W_HEALING_PENDING_VALIDATION \<and>
                  map_option rd_decision (ag_recovery_decision st) = Some RV_TRY_HEALING
               then Some (r, c) else None))"

definition healed_from :: "healing_recommendation \<Rightarrow> failure_context option \<Rightarrow> string" where
  "healed_from r fc =
     or_default (rc_original_selector r) (case fc of None \<Rightarrow> [] | Some f \<Rightarrow> fx_target_selector f)"

definition run_passed :: "run_result \<Rightarrow> bool" where
  "run_passed r \<longleftrightarrow> tr_status r \<in> {RS_PASSED, RS_HEALED}"

definition validation_feedback ::
  "'s platform_env \<Rightarrow> agent_state \<Rightarrow> healing_recommendation \<Rightarrow> scored_candidate \<Rightarrow> string \<Rightarrow> run_result \<Rightarrow> nat \<Rightarrow>
     healing_feedback" where
  "validation_feedback env st r c original result drawn =
     \<lparr>fb_healing_id = pf_id env drawn, fb_test_case_id = rc_test_id r, fb_failure_id = None,
      fb_execution_id = Some (rc_execution_id r), fb_original_selector = original,
      fb_attempted_selector = sc_selector c, fb_candidate_id = None,
      fb_healing_status = (if run_passed result then HS_VALIDATED_SUCCESS else HS_VALIDATED_FAILURE),
      fb_validation_status = (if run_passed result then VS_SUCCESS else VS_FAILURE),
      fb_failure_category = Some (rc_failure_type r), fb_confidence = sc_confidence c,
      fb_execution_attempt = (if ag_healing_attempt_count st = 0 then 1 else int (ag_healing_attempt_count st)),
      fb_timestamp = pf_now env drawn,
      fb_error_reason = (if run_passed result then None
         else Some (take 500 (run_error result ''Healing validation failed''))),
      fb_metadata = [(''source'', PStr ''ai_healer''),
        (''candidate_source'', PStr (candidate_source_value (sc_source c)))]\<rparr>"

text \<open>One validation: the whole test with the replacement, and its outcome fed back.\<close>

definition validate_candidate ::
  "'s platform_env \<Rightarrow> engine_plan \<Rightarrow> failure_context option \<Rightarrow> agent_state \<Rightarrow> healing_recommendation \<Rightarrow>
     scored_candidate \<Rightarrow> ('s, agent_state \<times> run_outcome) step_of" where
  "validate_candidate env plan fc st r c p =
     (let original = healed_from r fc;
          healed = apply_healed_selector plan original
            (case fc of None \<Rightarrow> 0 | Some f \<Rightarrow> fx_failed_step f) (sc_selector c)
      in case browse env healed False p of
           (out, p1) \<Rightarrow>
             let f = validation_feedback env st r c original (ot_result out) (pl_drawn p1); p2 = draw p1
             in if \<not> valid_feedback f then (Inl Invalid_Record, p2)
                else (case submit_healing_result (pf_orchestrator env) (pf_clock env) (pl_world p2) st f of
                        (w, Inl e) \<Rightarrow> (Inl (Workflow_Refused e), p2\<lparr>pl_world := w\<rparr>)
                      | (w, Inr st') \<Rightarrow> (Inr (st', out), p2\<lparr>pl_world := w\<rparr>)))"

fun validate_ai_heal ::
  "'s platform_env \<Rightarrow> engine_plan \<Rightarrow> failure_context option \<Rightarrow> nat \<Rightarrow> agent_state \<Rightarrow>
     ('s, agent_state \<times> (run_outcome \<times> scored_candidate) option) step_of" where
  "validate_ai_heal env plan fc 0 st p = (Inr (st, None), p)"
| "validate_ai_heal env plan fc (Suc n) st p =
     (case pending_heal st of
        None \<Rightarrow> (Inr (st, None), p)
      | Some (r, c) \<Rightarrow>
          if healed_from r fc = [] then (Inr (st, None), p)
          else (case validate_candidate env plan fc st r c p of
                  (Inl e, p1) \<Rightarrow> (Inl e, p1)
                | (Inr (st', out), p1) \<Rightarrow>
                    if run_passed (ot_result out) then (Inr (st', Some (out, c)), p1)
                    else validate_ai_heal env plan fc n st' p1))"

section \<open>The first run and its retries\<close>

definition max_retry_runs :: nat where "max_retry_runs = 3"

definition retry_chosen :: "execution_result \<Rightarrow> agent_state \<Rightarrow> bool" where
  "retry_chosen x st \<longleftrightarrow>
     xr_status x \<noteq> XS_SUCCESS \<and> ag_current_step st = W_EXECUTION_PENDING \<and>
     map_option rd_decision (ag_recovery_decision st) = Some RV_RETRY"

text \<open>
  A run submitted to the workflow, and again while the policy asks for a retry; the plan is the
  one the run before left. The number is the budget of retries.
\<close>

fun run_and_retry ::
  "'s platform_env \<Rightarrow> string \<Rightarrow> string \<Rightarrow> nat \<Rightarrow> engine_plan \<Rightarrow> agent_state \<Rightarrow>
     ('s, run_outcome \<times> execution_result \<times> agent_state) step_of" where
  "run_and_retry env wid test_id n plan st p =
     (case browse env plan True p of
        (out, p1) \<Rightarrow>
          (case submit_run env (ot_result out) wid test_id (ot_plan out) st p1 of
             (Inl e, p2) \<Rightarrow> (Inl e, p2)
           | (Inr (x, st'), p2) \<Rightarrow>
               (case n of
                  0 \<Rightarrow> (Inr (out, x, st'), p2)
                | Suc k \<Rightarrow>
                    if retry_chosen x st' then run_and_retry env wid test_id k (ot_plan out) st' p2
                    else (Inr (out, x, st'), p2))))"

declare run_and_retry.simps [simp del]

section \<open>Learning from the run\<close>

datatype verdict = Passed_run | Failed_run | Healed_run

fun verdict_value :: "verdict \<Rightarrow> string" where
  "verdict_value Passed_run = ''PASSED''"
| "verdict_value Failed_run = ''FAILED''"
| "verdict_value Healed_run = ''HEALED''"

record run_report =
  rr_verdict :: verdict
  rr_error :: "string option"
  rr_duration_ms :: int
  rr_shown :: run_outcome
  rr_targets :: pyval

definition exec_name :: "int \<Rightarrow> string" where
  "exec_name i = ''exec-'' @ show_int i"

definition run_record ::
  "'s platform_env \<Rightarrow> int \<Rightarrow> test_case \<Rightarrow> run_result \<Rightarrow> verdict \<Rightarrow> string option \<Rightarrow> int \<Rightarrow> nat \<Rightarrow> execution_record" where
  "run_record env i tc shown v err ms drawn =
     \<lparr>er_execution_id = exec_name i, er_test_id = tc_test_id tc,
      er_test_name = or_default (tc_name tc) (tc_test_id tc), er_timestamp = pf_now env drawn,
      er_status = (if v = Failed_run then ES_FAILED else ES_PASSED), er_duration_ms = Some (fl (of_int ms)),
      er_failure_info = (if v \<noteq> Failed_run then None else Some
        \<lparr>fi_error_message = take 1000 (or_default (or_empty err) ''Test execution failed''),
         fi_failure_type = None, fi_failed_step = map_option (\<lambda>(k, _). int k + 1) (failed_at shown),
         fi_selector = None, fi_page_url = Option.bind (failed_at shown) (\<lambda>(_, s). sr_page_url s),
         fi_stack_trace = None\<rparr>),
      er_metadata = [(''execution_id'', PInt i), (''status'', PStr (verdict_value v))]\<rparr>"

definition same_element :: "element_record \<Rightarrow> element_record \<Rightarrow> bool" where
  "same_element a b \<longleftrightarrow>
     el_selector a = el_selector b \<and> el_text a = el_text b \<and> el_role a = el_role b \<and>
     el_page_url a = el_page_url b \<and> el_attributes a = el_attributes b"

definition remember_element :: "element_record \<Rightarrow> ('s, unit) step_of" where
  "remember_element e p =
     (case get_element_history (memory_of p) (el_element_id e) of
        x # _ \<Rightarrow>
          if same_element x e then (Inr (), p)
          else (case store_element e (memory_of p) of
                  Inl err \<Rightarrow> (Inl (Record_Rejected err), p) | Inr m \<Rightarrow> (Inr (), with_memory m p))
      | [] \<Rightarrow> (case store_element e (memory_of p) of
                  Inl err \<Rightarrow> (Inl (Record_Rejected err), p) | Inr m \<Rightarrow> (Inr (), with_memory m p)))"

text \<open>The element a passed step acted on, when the step kept the locator of the plan.\<close>

definition seen_element ::
  "'s platform_env \<Rightarrow> int \<Rightarrow> string \<Rightarrow> string option \<Rightarrow> engine_step \<Rightarrow> engine_step \<Rightarrow> step_result \<Rightarrow> nat \<Rightarrow>
     element_record option" where
  "seen_element env i test_id url original step res drawn =
     (case (es_target original, es_target step) of
        (Some o_t, Some t) \<Rightarrow>
          (case tg_fingerprint t of
             None \<Rightarrow> None
           | Some f \<Rightarrow>
               if sr_status res = SS_PASSED \<and> tg_primary_locator t = tg_primary_locator o_t
               then Some (element_record_from_fingerprint f (tg_primary_locator t)
                      (test_id @ '':'' @ tg_primary_locator t) url (Some (exec_name i)) (pf_now env drawn))
               else None)
      | _ \<Rightarrow> None)"

text \<open>A heal the engine made by itself, as feedback.\<close>

definition engine_feedback ::
  "'s platform_env \<Rightarrow> int \<Rightarrow> string \<Rightarrow> step_result \<Rightarrow> nat \<Rightarrow> healing_feedback option" where
  "engine_feedback env i test_id res drawn =
     (case (sr_status res, sr_healing res) of
        (SS_HEALED, Some h) \<Rightarrow>
          if truthy (hp_selected_locator h) then Some
            \<lparr>fb_healing_id = pf_id env drawn, fb_test_case_id = test_id, fb_failure_id = None,
             fb_execution_id = Some (exec_name i), fb_original_selector = hp_original_locator h,
             fb_attempted_selector = or_empty (hp_selected_locator h), fb_candidate_id = None,
             fb_healing_status = HS_VALIDATED_SUCCESS, fb_validation_status = VS_SUCCESS,
             fb_failure_category = None, fb_confidence = hp_report_confidence h, fb_execution_attempt = 1,
             fb_timestamp = pf_now env drawn, fb_error_reason = None,
             fb_metadata = [(''source'', PStr ''engine''), (''strategy'', PStr (hp_strategy_used h))]\<rparr>
          else None
      | _ \<Rightarrow> None)"

definition record_heal :: "healing_feedback option \<Rightarrow> ('s, unit) step_of" where
  "record_heal fb p =
     (case fb of
        None \<Rightarrow> (Inr (), p)
      | Some f \<Rightarrow>
          if \<not> valid_feedback f then (Inl Invalid_Record, p)
          else (case record_healing_feedback (pl_world p) f of
                  (w, Inl e) \<Rightarrow> (Inl (Workflow_Refused e), p\<lparr>pl_world := w\<rparr>)
                | (w, Inr _) \<Rightarrow> (Inr (), p\<lparr>pl_world := w\<rparr>)))"

fun learn_steps ::
  "'s platform_env \<Rightarrow> int \<Rightarrow> string \<Rightarrow> bool \<Rightarrow> string option \<Rightarrow>
     (engine_step \<times> engine_step \<times> step_result) list \<Rightarrow> ('s, unit) step_of" where
  "learn_steps env i test_id passed url [] p = (Inr (), p)"
| "learn_steps env i test_id passed url ((original, step, res) # xs) p =
     (case (case seen_element env i test_id url original step res (pl_drawn p) of
              None \<Rightarrow> (Inr (), p) | Some e \<Rightarrow> remember_element e (draw p)) of
        (Inl e, p1) \<Rightarrow> (Inl e, p1)
      | (Inr _, p1) \<Rightarrow>
          (case record_heal (if passed then engine_feedback env i test_id res (pl_drawn p1) else None) (draw p1) of
             (Inl e, p2) \<Rightarrow> (Inl e, p2)
           | (Inr _, p2) \<Rightarrow> learn_steps env i test_id passed (or_str (sr_page_url res) url) xs p2))"

text \<open>The learned targets to store on the test case.\<close>

definition learn_from_run ::
  "'s platform_env \<Rightarrow> int \<Rightarrow> test_case \<Rightarrow> engine_plan \<Rightarrow> run_outcome \<Rightarrow> verdict \<Rightarrow> string option \<Rightarrow> int \<Rightarrow>
     pyval \<Rightarrow> ('s, pyval) step_of" where
  "learn_from_run env i tc plan shown v err ms stored p =
     (let rec = run_record env i tc (ot_result shown) v err ms (pl_drawn p); p1 = draw p in
      if \<not> valid_execution_record rec then (Inl Invalid_Record, p1)
      else case store_execution rec (memory_of p1) of
        Inl e \<Rightarrow> (Inl (Record_Rejected e), p1)
      | Inr m \<Rightarrow>
          (case learn_steps env i (tc_test_id tc) (v \<noteq> Failed_run) (Some (ep_base_url (ot_plan shown)))
                  (zip (ep_steps plan) (zip (ep_steps (ot_plan shown)) (tr_steps (ot_result shown))))
                  (with_memory m p1) of
             (Inl e, p2) \<Rightarrow> (Inl e, p2)
           | (Inr _, p2) \<Rightarrow>
               (case collect_learned_targets plan (ot_plan shown) (ot_result shown) of
                  None \<Rightarrow> (Inl Plans_Differ, p2)
                | Some rows \<Rightarrow>
                    (Inr (if PList rows = pv_or stored (PList []) then stored else PList rows), p2))))"

section \<open>The outcome of an execution\<close>

definition heal_note :: "string \<Rightarrow> string \<Rightarrow> string \<Rightarrow> f64 \<Rightarrow> string" where
  "heal_note original selected by confidence =
     ''Self-healed '' @ original @ '' -> '' @ selected @ '' ('' @ by @ '', confidence '' @ fmt_fixed 2 confidence @ '')''"

definition engine_heal_notes :: "run_result \<Rightarrow> string" where
  "engine_heal_notes r = join ''; ''
     (concat (map (\<lambda>s. case (sr_status s, sr_healing s) of
          (SS_HEALED, Some h) \<Rightarrow>
            [heal_note (hp_original_locator h)
               (case hp_selected_locator h of None \<Rightarrow> ''None'' | Some l \<Rightarrow> l) (hp_strategy_used h) (hp_report_confidence h)]
        | _ \<Rightarrow> []) (tr_steps r)))"

text \<open>
  The verdict on the last run: passed, healed by the engine, or failed; a failure for which the
  agents proposed a heal is healed when a validation passes. An exception in the validation
  leaves the failure.
\<close>

definition failed_report :: "run_outcome \<Rightarrow> nat \<Rightarrow> verdict \<times> string option \<times> run_outcome" where
  "failed_report out tried =
     (Failed_run, Some (run_error (ot_result out) ''Test execution failed'' @
        (if tried = 0 then [] else '' (self-healing tried '' @ show_nat tried @ '' replacement selector(s); none passed)'')),
      out)"

definition judge_run ::
  "'s platform_env \<Rightarrow> run_outcome \<Rightarrow> execution_result \<Rightarrow> agent_state \<Rightarrow> 's platform \<Rightarrow>
     (verdict \<times> string option \<times> run_outcome) \<times> 's platform" where
  "judge_run env out x st p =
     (if xr_status x = XS_SUCCESS
      then (if tr_status (ot_result out) = RS_HEALED
            then (Healed_run, Some (engine_heal_notes (ot_result out)), out)
            else (Passed_run, None, out), p)
      else
        (case validate_ai_heal env (ot_plan out) (xr_failure_context x)
                (og_max_healing_attempts (oc_config (pf_orchestrator env))) st p of
           (Inr (_, Some (shown, c)), p1) \<Rightarrow>
             ((Healed_run, Some (heal_note
                 (case xr_failure_context x of None \<Rightarrow> [] | Some f \<Rightarrow> fx_target_selector f)
                 (sc_selector c) ''AI healer'' (sc_confidence c)), shown), p1)
         | (_, p1) \<Rightarrow> (failed_report out (length (pl_runs p1) - length (pl_runs p)), p1)))"

definition browser_missing :: "string option \<Rightarrow> bool" where
  "browser_missing err \<longleftrightarrow> contains ''Browser execution error'' (or_empty err)"

definition missing_note :: "string option \<Rightarrow> string" where
  "missing_note err =
     ''Not executed: the browser could not start on this server, so no test steps ran. Install it with `python -m playwright install --with-deps chromium`. Details: '' @
     or_empty err"

text \<open>The runs, the verdict, what was learned (best effort), and the report.\<close>

definition execute_plan ::
  "'s platform_env \<Rightarrow> int \<Rightarrow> string \<Rightarrow> test_case \<Rightarrow> engine_plan \<Rightarrow> pyval \<Rightarrow> agent_state \<Rightarrow> ('s, run_report) step_of" where
  "execute_plan env i wid tc plan stored st p =
     (case run_and_retry env wid (tc_test_id tc) max_retry_runs plan st p of
        (Inl e, p1) \<Rightarrow> (Inl e, p1)
      | (Inr (out, x, st1), p1) \<Rightarrow>
          let ms = sum_list (map tr_duration_ms (pl_runs p1)) in
          (case judge_run env out x st1 p1 of
             ((v, err, shown), p2) \<Rightarrow>
               (case learn_from_run env i tc (ot_plan out) shown v err ms stored p2 of
                  (learned, p3) \<Rightarrow>
                    (Inr \<lparr>rr_verdict = (if browser_missing err then Failed_run else v),
                          rr_error = (if browser_missing err then Some (missing_note err) else err),
                          rr_duration_ms = ms, rr_shown = shown,
                          rr_targets = (case learned of Inl _ \<Rightarrow> stored | Inr rows \<Rightarrow> rows)\<rparr>, p3))))"

section \<open>One execution\<close>

record application =
  ap_name :: string
  ap_base_url :: string

datatype execution_end =
    Crashed crash
  | Unreadable_steps
  | Ran run_report

fun execution_verdict :: "execution_end \<Rightarrow> verdict" where
  "execution_verdict (Crashed e) = Failed_run"
| "execution_verdict Unreadable_steps = Failed_run"
| "execution_verdict (Ran r) = rr_verdict r"

definition workflow_name :: "int \<Rightarrow> string" where
  "workflow_name i = ''wf-exec-'' @ show_int i"

text \<open>The workflow of the execution, opened unless the table already has it.\<close>

definition open_workflow ::
  "'s platform_env \<Rightarrow> int \<Rightarrow> application \<Rightarrow> test_case \<Rightarrow> engine_plan \<Rightarrow> 's platform \<Rightarrow> agent_state \<times> 's platform" where
  "open_workflow env i app tc plan p =
     (case get_state (pl_world p) (workflow_name i) of
        Some st \<Rightarrow> (st, p)
      | None \<Rightarrow>
          let st = platform_state (pf_orchestrator env) (pf_clock env) i (ap_name app) (ap_base_url app)
                (tc_test_id tc) (length (ep_steps plan))
          in (st, p\<lparr>pl_world := register st (pl_world p)\<rparr>))"

definition execute_test_run ::
  "'s platform_env \<Rightarrow> application \<Rightarrow> stored_test \<Rightarrow> int \<Rightarrow> 's platform \<Rightarrow> execution_end \<times> 's platform" where
  "execute_test_run env app t i p0 =
     (let p = p0\<lparr>pl_runs := []\<rparr> in
      case stored_test_case (pf_numbers env) (ap_base_url app) t of
        None \<Rightarrow> (Unreadable_steps, p)
      | Some tc \<Rightarrow>
          (case stored_plan (pf_numbers env) (ap_base_url app) t tc of
             None \<Rightarrow> (Crashed Bad_Learned_Rows, p)
           | Some plan \<Rightarrow>
               (case open_workflow env i app tc plan p of
                  (st, p1) \<Rightarrow>
                    (case execute_plan env i (workflow_name i) tc plan (st_healing_targets t) st p1 of
                       (Inl e, p2) \<Rightarrow> (Crashed e, p2)
                     | (Inr r, p2) \<Rightarrow> (Ran r, p2)))))"

text \<open>\<open>execution_events\<close>: the events of the execution's workflow, if it is held.\<close>

definition execution_events :: "world \<Rightarrow> int \<Rightarrow> workflow_event list" where
  "execution_events w i =
     (case get_state w (workflow_name i) of
        Some st \<Rightarrow> ag_events st
      | None \<Rightarrow> (case get_state w (show_int i) of Some st \<Rightarrow> ag_events st | None \<Rightarrow> []))"

text \<open>
  \<open>create_default_orchestrator\<close>: the analyzer asks the model only when it is a real one.
\<close>

definition default_orchestrator :: "planner \<Rightarrow> bool \<Rightarrow> llm_client \<Rightarrow> orchestrator" where
  "default_orchestrator planner mock client =
     make_orchestrator (Some planner) (if mock then None else Some client)
       (default_engine\<lparr>de_llm_client := Some client\<rparr>)
       \<lparr>og_max_healing_attempts = 2, og_minimum_confidence_for_healing = fl (1/2), og_max_retries = 1\<rparr>
       (Some (make_policy (default_policy_config
          \<lparr>pc_max_healing_attempts := 2, pc_max_retries := 1, pc_min_healing_confidence := fl (1/2)\<rparr>), False))"

section \<open>The engine as the platform's runner\<close>

text \<open>
  \<open>_run\<close>: the engine's \<open>run_test\<close> with the options, session and run name drawn for this run; only
  the first runs ask for the visual check.
\<close>

definition engine_runner ::
  "'w browser \<Rightarrow> fuzzy_ratio \<Rightarrow> ('w session \<Rightarrow> run_request) \<Rightarrow>
     engine_plan \<Rightarrow> bool \<Rightarrow> 'w session \<Rightarrow> run_outcome \<times> 'w session" where
  "engine_runner br fuzz req plan visual s =
     run_test br fuzz ((req s)\<lparr>rq_plan := plan, rq_visual := visual \<and> rq_visual (req s),
        rq_baseline := (if visual then rq_baseline (req s) else None)\<rparr>) s"

text \<open>What the platform relies on: results and plans line up, and a passed run is a whole one.\<close>

definition whole_run :: "engine_plan \<Rightarrow> run_result \<Rightarrow> bool" where
  "whole_run plan r \<longleftrightarrow>
     map sr_step_id (tr_steps r) = map es_step_id (ep_steps plan) \<and>
     list_all (\<lambda>s. sr_status s \<noteq> SS_FAILED) (tr_steps r)"

locale test_runner =
  fixes run :: "engine_plan \<Rightarrow> bool \<Rightarrow> 's \<Rightarrow> run_outcome \<times> 's"
  assumes keeps_steps: "run plan v b = (out, b') \<Longrightarrow>
      map es_step_id (ep_steps (ot_plan out)) = map es_step_id (ep_steps plan)"
    and passed_whole: "run plan v b = (out, b') \<Longrightarrow> run_passed (ot_result out) \<Longrightarrow> whole_run plan (ot_result out)"

section \<open>The engine keeps the runner's laws\<close>

lemma learned_ids: "list_all2 step_learned xs ys \<Longrightarrow> map es_step_id ys = map es_step_id xs"
proof (induction rule: list_all2_induct)
  case (Cons x xs y ys)
  then show ?case by (auto simp: step_learned_def)
qed simp

lemma engine_runner_end:
  assumes "engine_runner br fuzz req plan visual s = (out, s')"
  obtains env q fin where "browser_run env q s = (fin, s')" "rq_plan q = plan"
    "ot_plan out = plan\<lparr>ep_steps := se_steps fin\<rparr>"
    "tr_steps (ot_result out) = se_results fin @ (case se_error fin of None \<Rightarrow> [] | Some e \<Rightarrow> [session_failure plan e])"
    "tr_status (ot_result out) = aggregate_status (tr_steps (ot_result out))"
proof -
  define q where "q = (req s)\<lparr>rq_plan := plan, rq_visual := visual \<and> rq_visual (req s),
    rq_baseline := (if visual then rq_baseline (req s) else None)\<rparr>"
  have q: "rq_plan q = plan" by (simp add: q_def)
  obtain fin s1 where run: "browser_run (run_env br fuzz q) q s = (fin, s1)" by force
  have "run_test br fuzz q s = (out, s')" using assms by (simp add: engine_runner_def q_def)
  then show ?thesis using run q by (intro that[OF _ q, of "run_env br fuzz q" fin]) (auto simp: run_test_def Let_def)
qed

lemma engine_runner_steps:
  assumes "engine_runner br fuzz req plan visual s = (out, s')"
  shows "map es_step_id (ep_steps (ot_plan out)) = map es_step_id (ep_steps plan)"
proof (rule engine_runner_end[OF assms])
  fix env q fin
  assume run: "browser_run env q s = (fin, s')" "rq_plan q = plan" "ot_plan out = plan\<lparr>ep_steps := se_steps fin\<rparr>"
  show ?thesis using learned_ids[OF browser_run_learned[OF run(1)]] run(2,3) by simp
qed

lemma runs_along_whole:
  assumes "runs_along env steps False rs" "list_all (\<lambda>r. sr_status r \<noteq> SS_FAILED) rs"
  shows "map sr_step_id rs = map es_step_id steps"
proof -
  have len: "length rs = length steps"
    using assms by (auto simp: runs_along_def list_all_iff)
  have "list_all2 (step_report env) steps rs" using assms(1) len by (simp add: runs_along_def)
  then show ?thesis
    by (induction rule: list_all2_induct) (auto simp: step_report_def)
qed

lemma engine_runner_whole:
  assumes "engine_runner br fuzz req plan visual s = (out, s')" "run_passed (ot_result out)"
  shows "whole_run plan (ot_result out)"
proof (rule engine_runner_end[OF assms(1)])
  fix env q fin
  assume run: "browser_run env q s = (fin, s')" "rq_plan q = plan"
    and steps: "tr_steps (ot_result out) = se_results fin @ (case se_error fin of None \<Rightarrow> [] | Some e \<Rightarrow> [session_failure plan e])"
    and status: "tr_status (ot_result out) = aggregate_status (tr_steps (ot_result out))"
  have ok: "list_all (\<lambda>r. sr_status r \<noteq> SS_FAILED) (tr_steps (ot_result out))"
    using assms(2) status by (auto simp: run_passed_def aggregate_status_def list_all_iff image_iff split: if_splits)
  then have "se_error fin = None"
    using steps by (cases "se_error fin") (auto simp: session_failure_def)
  then show ?thesis
    using browser_run_along[OF run(1)] run(2) steps ok runs_along_whole by (auto simp: whole_run_def)
qed

interpretation engine_runs: test_runner "engine_runner br fuzz req" for br fuzz req
  by unfold_locales (rule engine_runner_steps engine_runner_whole; assumption)+

section \<open>The runs of an execution\<close>

lemma browse_runs:
  assumes "browse env plan v p = (out, p')"
  shows "pl_runs p' = pl_runs p @ [ot_result out]" "pl_world p' = pl_world p" "pl_drawn p' = pl_drawn p"
    "pf_run env plan v (pl_browser p) = (out, pl_browser p')"
  using assms by (auto simp: browse_def split: prod.splits)

lemma remember_target_runs [simp]: "pl_runs (snd (remember_target env plan i fc p)) = pl_runs p"
  by (simp add: remember_target_def draw_def with_memory_def split: option.splits sum.splits)

lemma submit_ready_result:
  assumes "submit_ready env r wid i plan p = (res, p')"
  shows "pl_runs p' = pl_runs p"
    "res = Inr x \<Longrightarrow> x = engine_result_to_execution_result (pf_reader env) r wid i (Some plan)"
  using assms remember_target_runs[of env plan i _ p]
  by (auto simp: submit_ready_def Let_def split: option.splits prod.splits sum.splits
      simp del: remember_target_runs) (metis snd_conv)+

lemma submit_run_result:
  assumes "submit_run env r wid i plan st p = (res, p')"
  shows "pl_runs p' = pl_runs p"
    "res = Inr (x, st') \<Longrightarrow> x = engine_result_to_execution_result (pf_reader env) r wid i (Some plan)"
proof -
  obtain y p1 where ready: "submit_ready env r wid i plan p = (y, p1)" by force
  show "pl_runs p' = pl_runs p"
    "res = Inr (x, st') \<Longrightarrow> x = engine_result_to_execution_result (pf_reader env) r wid i (Some plan)"
    using assms ready submit_ready_result[OF ready]
    by (auto simp: submit_run_def split: sum.splits prod.splits)
qed

lemma result_success: "xr_status (engine_result_to_execution_result rd r wid i p) = XS_SUCCESS \<longleftrightarrow> run_passed r"
  by (simp add: engine_result_to_execution_result_def run_passed_def)

lemma validate_candidate_runs:
  assumes "validate_candidate env plan fc st r c p = (res, p')"
  shows "\<exists>out k. pl_runs p' = pl_runs p @ [ot_result out] \<and>
    fst (pf_run env (apply_healed_selector plan (healed_from r fc) k (sc_selector c)) False (pl_browser p)) = out \<and>
    (\<forall>st' o'. res = Inr (st', o') \<longrightarrow> o' = out)"
proof -
  let ?plan = "apply_healed_selector plan (healed_from r fc)
    (case fc of None \<Rightarrow> 0 | Some f \<Rightarrow> fx_failed_step f) (sc_selector c)"
  obtain out p1 where b: "browse env ?plan False p = (out, p1)" by force
  have "pl_runs p' = pl_runs p1 \<and> (\<forall>st' o'. res = Inr (st', o') \<longrightarrow> o' = out)"
    using assms b by (auto simp: validate_candidate_def Let_def draw_def split: if_splits sum.splits prod.splits)
  then show ?thesis using browse_runs[OF b] by (metis fst_conv)
qed

lemma validate_ai_heal_runs:
  assumes "validate_ai_heal env plan fc n st p = (res, p')"
  shows "\<exists>new. pl_runs p' = pl_runs p @ new \<and> length new \<le> n \<and>
    (\<forall>st' out c. res = Inr (st', Some (out, c)) \<longrightarrow> new \<noteq> [] \<and> last new = ot_result out \<and> run_passed (ot_result out))"
  using assms
proof (induction n arbitrary: st p)
  case (Suc n)
  show ?case
  proof (cases "\<exists>r c. pending_heal st = Some (r, c) \<and> healed_from r fc \<noteq> []")
    case False
    then show ?thesis using Suc.prems by (auto split: option.splits if_splits)
  next
    case True
    then obtain r c where rc: "pending_heal st = Some (r, c)" "healed_from r fc \<noteq> []" by blast
    obtain v p1 where v: "validate_candidate env plan fc st r c p = (v, p1)" by force
    obtain out where out: "pl_runs p1 = pl_runs p @ [ot_result out]"
      "\<And>st' o'. v = Inr (st', o') \<Longrightarrow> o' = out"
      using validate_candidate_runs[OF v] by blast
    show ?thesis
    proof (cases v)
      case (Inl e)
      then have "res = Inl e" "p' = p1" using Suc.prems rc v by simp_all
      then show ?thesis using out(1) by (intro exI[of _ "[ot_result out]"]) simp
    next
      case (Inr x)
      obtain st1 o1 where x: "x = (st1, o1)" by force
      have o1: "o1 = out" using out(2) Inr x by blast
      show ?thesis
      proof (cases "run_passed (ot_result out)")
        case True
        then have "res = Inr (st1, Some (out, c))" "p' = p1" using Suc.prems rc v Inr x o1 by simp_all
        then show ?thesis using True out(1) by (intro exI[of _ "[ot_result out]"]) simp
      next
        case no: False
        then have "validate_ai_heal env plan fc n st1 p1 = (res, p')"
          using Suc.prems rc v Inr x o1 by simp
        from Suc.IH[OF this] obtain new where new: "pl_runs p' = pl_runs p1 @ new" "length new \<le> n"
          "\<And>st' out c. res = Inr (st', Some (out, c)) \<Longrightarrow> new \<noteq> [] \<and> last new = ot_result out \<and> run_passed (ot_result out)"
          by blast
        then show ?thesis using out(1) by (intro exI[of _ "ot_result out # new"]) auto
      qed
    qed
  qed
qed auto

lemma run_and_retry_runs:
  assumes "run_and_retry env wid i n plan st p = (res, p')"
  shows "\<exists>new. pl_runs p' = pl_runs p @ new \<and> length new \<le> Suc n \<and>
    (\<forall>out x st'. res = Inr (out, x, st') \<longrightarrow> new \<noteq> [] \<and> last new = ot_result out \<and>
       x = engine_result_to_execution_result (pf_reader env) (ot_result out) wid i (Some (ot_plan out)))"
  using assms
proof (induction n arbitrary: plan st p)
  case 0
  obtain out p1 where b: "browse env plan True p = (out, p1)" by force
  obtain v p2 where v: "submit_run env (ot_result out) wid i (ot_plan out) st p1 = (v, p2)" by force
  show ?case
    using "0.prems" b v browse_runs(1)[OF b] submit_run_result[OF v]
    by (intro exI[of _ "[ot_result out]"]) (auto simp: run_and_retry.simps split: sum.splits)
next
  case (Suc n)
  obtain out p1 where b: "browse env plan True p = (out, p1)" by force
  obtain v p2 where v: "submit_run env (ot_result out) wid i (ot_plan out) st p1 = (v, p2)" by force
  have runs: "pl_runs p2 = pl_runs p @ [ot_result out]"
    using browse_runs(1)[OF b] submit_run_result(1)[OF v] by simp
  show ?case
  proof (cases "\<exists>x st'. v = Inr (x, st') \<and> retry_chosen x st'")
    case True
    then obtain x st' where "v = Inr (x, st')" "retry_chosen x st'" by blast
    then have "run_and_retry env wid i n (ot_plan out) st' p2 = (res, p')"
      using Suc.prems b v by (simp add: run_and_retry.simps[of env wid i "Suc n"])
    from Suc.IH[OF this] runs show ?thesis
      by (elim exE) (rename_tac new, rule_tac x = "ot_result out # new" in exI, simp)
  next
    case False
    then show ?thesis
      using Suc.prems b v runs submit_run_result(2)[OF v]
      by (intro exI[of _ "[ot_result out]"])
        (auto simp: run_and_retry.simps[of env wid i "Suc n"] split: sum.splits if_splits)
  qed
qed

lemma remember_element_runs [simp]: "pl_runs (snd (remember_element e p)) = pl_runs p"
  by (simp add: remember_element_def with_memory_def split: list.splits sum.splits)

lemma record_heal_runs [simp]: "pl_runs (snd (record_heal fb p)) = pl_runs p"
  by (simp add: record_heal_def split: option.splits sum.splits prod.splits)

lemma draw_runs [simp]: "pl_runs (draw p) = pl_runs p"
  by (simp add: draw_def)

lemma with_memory_runs [simp]: "pl_runs (with_memory m p) = pl_runs p"
  by (simp add: with_memory_def)

lemma learn_steps_runs [simp]: "pl_runs (snd (learn_steps env i t b url xs p)) = pl_runs p"
proof (induction env i t b url xs p rule: learn_steps.induct)
  case (2 env i t b url original step res xs p)
  let ?first = "case seen_element env i t url original step res (pl_drawn p) of
      None \<Rightarrow> (Inr (), p) | Some e \<Rightarrow> remember_element e (draw p)"
  obtain x p1 where first: "?first = (x, p1)" by force
  have p1: "pl_runs p1 = pl_runs p"
  proof (cases "seen_element env i t url original step res (pl_drawn p)")
    case (Some e)
    then have "p1 = snd (remember_element e (draw p))" using first by simp
    then show ?thesis by simp
  qed (use first in simp)
  obtain y p2 where y: "record_heal (if b then engine_feedback env i t res (pl_drawn p1) else None) (draw p1) = (y, p2)"
    by force
  have p2: "pl_runs p2 = pl_runs p" using arg_cong[OF y, of snd] p1 by (metis draw_runs record_heal_runs snd_conv)
  show ?case
  proof (cases x)
    case (Inl e)
    then show ?thesis using first p1 by simp
  next
    case (Inr u)
    then show ?thesis using first y p2 2[OF first[symmetric] Inr y[symmetric]] by (cases y) simp_all
  qed
qed simp

lemma learn_from_run_runs [simp]: "pl_runs (snd (learn_from_run env i tc plan shown v err ms stored p)) = pl_runs p"
proof -
  have steps: "pl_runs p2 = pl_runs q" if "learn_steps env i t b url xs q = (y, p2)" for t b url xs q y p2
    using learn_steps_runs[of env i t b url xs q] that by simp
  show ?thesis
    by (auto simp: learn_from_run_def Let_def split: sum.splits prod.splits option.splits dest!: steps)
qed

lemma judge_run_runs:
  assumes "judge_run env out x st p = ((v, err, shown), p')"
  shows "\<exists>new. pl_runs p' = pl_runs p @ new \<and>
    length new \<le> og_max_healing_attempts (oc_config (pf_orchestrator env)) \<and>
    (v = Failed_run \<and> shown = out \<or>
     v \<noteq> Failed_run \<and> xr_status x = XS_SUCCESS \<and> shown = out \<and> new = [] \<or>
     v = Healed_run \<and> xr_status x \<noteq> XS_SUCCESS \<and> new \<noteq> [] \<and> last new = ot_result shown \<and> run_passed (ot_result shown))"
proof (cases "xr_status x = XS_SUCCESS")
  case True
  then show ?thesis using assms by (auto simp: judge_run_def split: if_splits)
next
  case False
  obtain res p1 where res: "validate_ai_heal env (ot_plan out) (xr_failure_context x)
      (og_max_healing_attempts (oc_config (pf_orchestrator env))) st p = (res, p1)" by force
  obtain new where new: "pl_runs p1 = pl_runs p @ new"
    "length new \<le> og_max_healing_attempts (oc_config (pf_orchestrator env))"
    "\<And>st' o' c. res = Inr (st', Some (o', c)) \<Longrightarrow> new \<noteq> [] \<and> last new = ot_result o' \<and> run_passed (ot_result o')"
    using validate_ai_heal_runs[OF res] by blast
  consider st' o' c where "res = Inr (st', Some (o', c))" | "\<forall>st' o' c. res \<noteq> Inr (st', Some (o', c))" by blast
  then show ?thesis
  proof cases
    case 1
    then show ?thesis using assms False res new(1,2) new(3)[OF 1] by (auto simp: judge_run_def)
  next
    case 2
    then have "judge_run env out x st p = (failed_report out (length (pl_runs p1) - length (pl_runs p)), p1)"
      using False res by (auto simp: judge_run_def split: sum.splits prod.splits option.splits)
    then show ?thesis using assms new(1,2) by (auto simp: failed_report_def)
  qed
qed

text \<open>An execution's runs, and the run its report shows.\<close>

lemma execute_plan_runs:
  assumes "execute_plan env i wid tc plan stored st p = (res, p')" "pl_runs p = []"
  shows "length (pl_runs p') \<le> Suc max_retry_runs + og_max_healing_attempts (oc_config (pf_orchestrator env)) \<and>
    (\<forall>r. res = Inr r \<longrightarrow> ot_result (rr_shown r) \<in> set (pl_runs p') \<and>
       (rr_verdict r \<noteq> Failed_run \<longrightarrow> run_passed (ot_result (rr_shown r)) \<and> last (pl_runs p') = ot_result (rr_shown r)))"
proof -
  obtain first p1 where first: "run_and_retry env wid (tc_test_id tc) max_retry_runs plan st p = (first, p1)" by force
  obtain new where new: "pl_runs p1 = new" "length new \<le> Suc max_retry_runs"
    "\<And>out x st'. first = Inr (out, x, st') \<Longrightarrow> new \<noteq> [] \<and> last new = ot_result out \<and>
       x = engine_result_to_execution_result (pf_reader env) (ot_result out) wid (tc_test_id tc) (Some (ot_plan out))"
    using run_and_retry_runs[OF first] assms(2) by auto
  show ?thesis
  proof (cases first)
    case (Inl e)
    then show ?thesis using assms(1) first new(1,2) by (auto simp: execute_plan_def)
  next
    case (Inr y)
    obtain out x st1 where y: "y = (out, x, st1)" by (cases y)
    have last: "new \<noteq> []" "last new = ot_result out"
      "x = engine_result_to_execution_result (pf_reader env) (ot_result out) wid (tc_test_id tc) (Some (ot_plan out))"
      using new(3) Inr y by blast+
    obtain v err shown p2 where judged: "judge_run env out x st1 p1 = ((v, err, shown), p2)" by (metis prod.collapse)
    obtain more where more: "pl_runs p2 = new @ more" "length more \<le> og_max_healing_attempts (oc_config (pf_orchestrator env))"
      "v = Failed_run \<and> shown = out \<or>
       v \<noteq> Failed_run \<and> xr_status x = XS_SUCCESS \<and> shown = out \<and> more = [] \<or>
       v = Healed_run \<and> xr_status x \<noteq> XS_SUCCESS \<and> more \<noteq> [] \<and> last more = ot_result shown \<and> run_passed (ot_result shown)"
      using judge_run_runs[OF judged] new(1) by blast
    let ?ms = "sum_list (map tr_duration_ms (pl_runs p1))"
    obtain learned p3 where learned: "learn_from_run env i tc (ot_plan out) shown v err ?ms stored p2 = (learned, p3)"
      by force
    have p3: "pl_runs p3 = pl_runs p2"
      using learn_from_run_runs[of env i tc "ot_plan out" shown v err ?ms stored p2] learned by simp
    have res: "res = Inr \<lparr>rr_verdict = (if browser_missing err then Failed_run else v),
        rr_error = (if browser_missing err then Some (missing_note err) else err), rr_duration_ms = ?ms,
        rr_shown = shown, rr_targets = (case learned of Inl _ \<Rightarrow> stored | Inr rows \<Rightarrow> rows)\<rparr>" "p' = p3"
      using assms(1) first Inr y judged learned by (simp_all add: execute_plan_def Let_def)
    have shown: "ot_result shown \<in> set (new @ more)" "v \<noteq> Failed_run \<Longrightarrow> run_passed (ot_result shown)"
      "v \<noteq> Failed_run \<Longrightarrow> last (new @ more) = ot_result shown"
    proof -
      have "last new \<in> set new" "more \<noteq> [] \<Longrightarrow> last more \<in> set more" using last(1) by simp_all
      then show "ot_result shown \<in> set (new @ more)" "v \<noteq> Failed_run \<Longrightarrow> run_passed (ot_result shown)"
        "v \<noteq> Failed_run \<Longrightarrow> last (new @ more) = ot_result shown"
        using more(3) last result_success by (elim disjE conjE; simp)+
    qed
    then show ?thesis using res p3 more(1,2) new(2) by auto
  qed
qed

lemma execute_plan_Inr:
  assumes "execute_plan env i wid tc plan stored st p = (Inr r, p')"
  obtains out x st1 p1 v err shown p2 where
    "run_and_retry env wid (tc_test_id tc) max_retry_runs plan st p = (Inr (out, x, st1), p1)"
    "judge_run env out x st1 p1 = ((v, err, shown), p2)" "pl_runs p' = pl_runs p2"
proof -
  obtain first p1 where first: "run_and_retry env wid (tc_test_id tc) max_retry_runs plan st p = (first, p1)" by force
  obtain out x st1 where y: "first = Inr (out, x, st1)"
    using assms first by (auto simp: execute_plan_def split: sum.splits)
  obtain v err shown p2 where judged: "judge_run env out x st1 p1 = ((v, err, shown), p2)" by (metis prod.collapse)
  obtain learned p3 where learned: "learn_from_run env i tc (ot_plan out) shown v err
      (sum_list (map tr_duration_ms (pl_runs p1))) stored p2 = (learned, p3)" by force
  have "p' = p3" using assms first y judged learned by (simp add: execute_plan_def Let_def)
  then have "pl_runs p' = pl_runs p2" using arg_cong[OF learned, of "pl_runs \<circ> snd"] by simp
  then show ?thesis using that first y judged by blast
qed

section \<open>Passed runs went through the whole plan\<close>

text \<open>Every passed run so far is a whole run of steps with these names.\<close>

definition whole_runs :: "string list \<Rightarrow> run_result list \<Rightarrow> bool" where
  "whole_runs names rs \<longleftrightarrow>
     list_all (\<lambda>r. run_passed r \<longrightarrow> map sr_step_id (tr_steps r) = names \<and>
       list_all (\<lambda>s. sr_status s \<noteq> SS_FAILED) (tr_steps r)) rs"

context test_runner
begin

lemma browse_whole:
  assumes "pf_run env = run" "browse env plan v p = (out, p')" "whole_runs (map es_step_id (ep_steps plan)) (pl_runs p)"
  shows "whole_runs (map es_step_id (ep_steps plan)) (pl_runs p') \<and>
    map es_step_id (ep_steps (ot_plan out)) = map es_step_id (ep_steps plan)"
proof -
  have run: "run plan v (pl_browser p) = (out, pl_browser p')" using browse_runs(4)[OF assms(2)] assms(1) by simp
  show ?thesis
    using browse_runs(1)[OF assms(2)] assms(3) keeps_steps[OF run] passed_whole[OF run]
    by (auto simp: whole_runs_def whole_run_def)
qed

lemma run_and_retry_whole:
  assumes "pf_run env = run" "run_and_retry env wid i n plan st p = (res, p')"
    "whole_runs (map es_step_id (ep_steps plan)) (pl_runs p)"
  shows "whole_runs (map es_step_id (ep_steps plan)) (pl_runs p') \<and>
    (\<forall>out x st'. res = Inr (out, x, st') \<longrightarrow> map es_step_id (ep_steps (ot_plan out)) = map es_step_id (ep_steps plan))"
  using assms(2,3)
proof (induction n arbitrary: plan st p)
  case 0
  obtain out p1 where b: "browse env plan True p = (out, p1)" by force
  obtain v p2 where v: "submit_run env (ot_result out) wid i (ot_plan out) st p1 = (v, p2)" by force
  show ?case
    using "0.prems" b v browse_whole[OF assms(1) b] submit_run_result(1)[OF v]
    by (auto simp: run_and_retry.simps split: sum.splits)
next
  case (Suc n)
  obtain out p1 where b: "browse env plan True p = (out, p1)" by force
  obtain v p2 where v: "submit_run env (ot_result out) wid i (ot_plan out) st p1 = (v, p2)" by force
  note whole = browse_whole[OF assms(1) b Suc.prems(2)]
  have p2: "pl_runs p2 = pl_runs p1" by (rule submit_run_result(1)[OF v])
  show ?case
  proof (cases "\<exists>x st'. v = Inr (x, st') \<and> retry_chosen x st'")
    case True
    then obtain x st' where x: "v = Inr (x, st')" "retry_chosen x st'" by blast
    then have "run_and_retry env wid i n (ot_plan out) st' p2 = (res, p')"
      using Suc.prems b v by (simp add: run_and_retry.simps[of env wid i "Suc n"])
    from Suc.IH[OF this] whole p2 show ?thesis by simp
  next
    case False
    then show ?thesis using Suc.prems b v whole p2
      by (auto simp: run_and_retry.simps[of env wid i "Suc n"] split: sum.splits if_splits)
  qed
qed

lemma validate_whole:
  assumes "pf_run env = run" "validate_ai_heal env plan fc n st p = (res, p')"
    "whole_runs (map es_step_id (ep_steps plan)) (pl_runs p)"
  shows "whole_runs (map es_step_id (ep_steps plan)) (pl_runs p')"
  using assms(2,3)
proof (induction n arbitrary: st p)
  case (Suc n)
  show ?case
  proof (cases "\<exists>r c. pending_heal st = Some (r, c) \<and> healed_from r fc \<noteq> []")
    case False
    then show ?thesis using Suc.prems by (auto split: option.splits if_splits)
  next
    case True
    then obtain r c where rc: "pending_heal st = Some (r, c)" "healed_from r fc \<noteq> []" by blast
    obtain v p1 where v: "validate_candidate env plan fc st r c p = (v, p1)" by force
    obtain out k where out: "pl_runs p1 = pl_runs p @ [ot_result out]"
      "fst (run (apply_healed_selector plan (healed_from r fc) k (sc_selector c)) False (pl_browser p)) = out"
      using validate_candidate_runs[OF v] assms(1) by metis
    have "whole_runs (map es_step_id (ep_steps plan)) (pl_runs p1)"
      using out Suc.prems(2) passed_whole[OF prod.collapse[symmetric],
          of "apply_healed_selector plan (healed_from r fc) k (sc_selector c)" False "pl_browser p"]
      by (auto simp: whole_runs_def whole_run_def)
    moreover have "p' = p1 \<or> (\<exists>st1. validate_ai_heal env plan fc n st1 p1 = (res, p'))"
      using Suc.prems(1) rc v by (cases v) (auto split: if_splits)
    ultimately show ?thesis using Suc.IH by blast
  qed
qed simp

lemma execute_plan_whole:
  assumes "pf_run env = run" "execute_plan env i wid tc plan stored st p = (Inr r, p')" "pl_runs p = []"
    "rr_verdict r \<noteq> Failed_run"
  shows "whole_run plan (ot_result (rr_shown r))"
proof -
  let ?names = "map es_step_id (ep_steps plan)"
  obtain out x st1 p1 v err shown p2 where
    first: "run_and_retry env wid (tc_test_id tc) max_retry_runs plan st p = (Inr (out, x, st1), p1)"
    and judged: "judge_run env out x st1 p1 = ((v, err, shown), p2)" and runs: "pl_runs p' = pl_runs p2"
    by (rule execute_plan_Inr[OF assms(2)])
  have w1: "whole_runs ?names (pl_runs p1)" "map es_step_id (ep_steps (ot_plan out)) = ?names"
    using run_and_retry_whole[OF assms(1) first] assms(3) by (simp_all add: whole_runs_def)
  have "whole_runs ?names (pl_runs p2)"
  proof (cases "xr_status x = XS_SUCCESS")
    case True
    then show ?thesis using judged w1 by (simp add: judge_run_def)
  next
    case False
    obtain res q where res: "validate_ai_heal env (ot_plan out) (xr_failure_context x)
        (og_max_healing_attempts (oc_config (pf_orchestrator env))) st1 p1 = (res, q)" by force
    have "p2 = q" using judged False res by (auto simp: judge_run_def split: sum.splits prod.splits option.splits)
    then show ?thesis using validate_whole[OF assms(1) res] w1 by simp
  qed
  then have "whole_runs ?names (pl_runs p')" using runs by simp
  then show ?thesis
    using execute_plan_runs[OF assms(2,3)] assms(4) by (auto simp: whole_runs_def whole_run_def list_all_iff)
qed

end

end
