(* ===== verification/Platform_Workflow.thy ===== *)
theory Platform_Workflow
  imports Platform_Run Workflow_Log
begin

text \<open>
  How an execution drives its workflow: the runs and validations leave it settled, and every
  validation run is recorded in the healing memory with its outcome.
\<close>

section \<open>Submitting keeps the workflow reachable\<close>

lemma submit_run_accepted:
  assumes "submit_run env r wid i plan st p = (Inr (x, st'), p')"
  shows "accepted (pf_orchestrator env) (pf_clock env) st st'"
    "\<exists>w w'. submit_execution_result (pf_orchestrator env) (pf_clock env) w st x = (w', Inr st')"
proof -
  obtain y p1 where ready: "submit_ready env r wid i plan p = (y, p1)" by force
  show "\<exists>w w'. submit_execution_result (pf_orchestrator env) (pf_clock env) w st x = (w', Inr st')"
    using assms ready by (auto simp: submit_run_def split: sum.splits prod.splits)
  then show "accepted (pf_orchestrator env) (pf_clock env) st st'"
    by (metis accepted.execution snd_conv)
qed

lemma success_completes:
  assumes "submit_execution_result oc clock w st x = (w', Inr st')" "xr_status x = XS_SUCCESS"
  shows "ag_current_step st' = W_COMPLETED"
proof -
  have pre: "ag_current_step st = W_EXECUTION_PENDING" "xr_workflow_id x = ag_workflow_id st"
    using assms(1) by (auto simp: submit_execution_result_def split: if_splits)
  obtain st1 where st1: "run_actions (execution_received clock x) st = Inr st1" "ag_current_step st1 = W_EXECUTION_PENDING"
    using received_run[of clock x st] pre(1) by auto
  obtain st2 where "run_actions (success_actions clock) st1 = Inr st2" "ag_current_step st2 = W_COMPLETED"
    using success_run[OF st1(2)] by blast
  then show ?thesis using assms pre st1(1) by (simp add: submit_execution_result_def commit_def and_then_def)
qed

text \<open>After the first run and its retries no run is awaited any more.\<close>

lemma retries_settle:
  assumes "reachable (pf_orchestrator env) (pf_clock env) st"
    "run_and_retry env wid i n plan st p = (Inr (out, x, st'), p')"
    "retry_limit (pf_orchestrator env) \<le> n + ag_retry_count st"
  shows "reachable (pf_orchestrator env) (pf_clock env) st' \<and> ag_current_step st' \<noteq> W_EXECUTION_PENDING"
  using assms
proof (induction n arbitrary: plan st p)
  case (0 plan st p)
  obtain o1 p1 where b: "browse env plan True p = (o1, p1)" by force
  have v: "submit_run env (ot_result out) wid i (ot_plan out) st p1 = (Inr (x, st'), p')"
    using 0(2) b by (auto simp: run_and_retry.simps split: sum.splits prod.splits)
  obtain w w' where w: "submit_execution_result (pf_orchestrator env) (pf_clock env) w st x = (w', Inr st')"
    using submit_run_accepted(2)[OF v] by blast
  have "\<not> retried (pf_orchestrator env) st st'" using 0(3) by (simp add: retried_def)
  then have "ag_current_step st' \<noteq> W_EXECUTION_PENDING"
    using execution_accepted(2)[of "pf_orchestrator env" "pf_clock env" w st x st'] w
    by (auto simp: stopped_def proposed_def proposes_with_def)
  then show ?case using 0(1) submit_run_accepted(1)[OF v] by (blast intro: reachable.submission)
next
  case (Suc n plan st p)
  obtain o1 p1 where b: "browse env plan True p = (o1, p1)" by force
  obtain v p2 where v: "submit_run env (ot_result o1) wid i (ot_plan o1) st p1 = (v, p2)" by force
  obtain x1 st1 where x1: "v = Inr (x1, st1)"
    using Suc.prems(2) b v by (auto simp: run_and_retry.simps[of env wid i "Suc n"] split: sum.splits)
  note sub = submit_run_accepted[OF v[unfolded x1]]
  have r1: "reachable (pf_orchestrator env) (pf_clock env) st1"
    using Suc.prems(1) sub(1) by (rule reachable.submission)
  obtain w w' where w: "submit_execution_result (pf_orchestrator env) (pf_clock env) w st x1 = (w', Inr st1)"
    using sub(2) by blast
  have eff: "stopped st st1 \<or> retried (pf_orchestrator env) st st1 \<or> proposed (pf_orchestrator env) st st1"
    using execution_accepted(2)[of "pf_orchestrator env" "pf_clock env" w st x1 st1] w by simp
  show ?case
  proof (cases "retry_chosen x1 st1")
    case True
    then have again: "run_and_retry env wid i n (ot_plan o1) st1 p2 = (Inr (out, x, st'), p')"
      using Suc.prems(2) b v x1 by (simp add: run_and_retry.simps[of env wid i "Suc n"])
    have "ag_retry_count st1 = Suc (ag_retry_count st)"
      using eff True by (auto simp: retried_def retry_chosen_def stopped_def proposed_def proposes_with_def)
    then show ?thesis using Suc.IH[OF r1 again] Suc.prems(3) by simp
  next
    case False
    then have st': "st' = st1" "x = x1"
      using Suc.prems(2) b v x1 by (simp_all add: run_and_retry.simps[of env wid i "Suc n"])
    have "xr_status x1 = XS_SUCCESS \<Longrightarrow> ag_current_step st1 = W_COMPLETED" by (rule success_completes[OF w])
    then have "ag_current_step st1 \<noteq> W_EXECUTION_PENDING"
      using eff False by (auto simp: retried_def retry_chosen_def)
        (auto simp: stopped_def proposed_def proposes_with_def)
    then show ?thesis using r1 st' by simp
  qed
qed

section \<open>Validations\<close>

lemma validate_candidate_Inr:
  assumes "validate_candidate env plan fc st r c p = (Inr (st', out), p')"
  obtains f w w' where
    "f = validation_feedback env st r c (healed_from r fc) (ot_result out) (pl_drawn p)" "valid_feedback f"
    "w = pl_world p" "submit_healing_result (pf_orchestrator env) (pf_clock env) w st f = (w', Inr st')"
    "pl_world p' = w'"
proof -
  let ?plan = "apply_healed_selector plan (healed_from r fc)
    (case fc of None \<Rightarrow> 0 | Some f \<Rightarrow> fx_failed_step f) (sc_selector c)"
  obtain o1 p1 where b: "browse env ?plan False p = (o1, p1)" by force
  define f where "f = validation_feedback env st r c (healed_from r fc) (ot_result o1) (pl_drawn p1)"
  obtain w' v where v: "submit_healing_result (pf_orchestrator env) (pf_clock env) (pl_world (draw p1)) st f = (w', v)"
    by force
  have "valid_feedback f" "v = Inr st'" "out = o1" "p' = (draw p1)\<lparr>pl_world := w'\<rparr>"
    using assms b v by (auto simp: validate_candidate_def Let_def f_def split: if_splits sum.splits)
  then show ?thesis using that[of f "pl_world p" w'] v browse_runs(2,3)[OF b] by (simp add: f_def draw_def)
qed

lemma passed_validation_completes:
  assumes "submit_healing_result oc clock w st f = (w', Inr st')" "fb_validation_status f = VS_SUCCESS"
  shows "ag_current_step st' = W_COMPLETED"
proof -
  have step: "ag_current_step st = W_HEALING_PENDING_VALIDATION"
    using assms(1) by (auto simp: submit_healing_result_def split: if_splits)
  let ?s = "history_updated clock (healing_received clock f st)"
  have "ag_current_step ?s = W_HEALING_PENDING_VALIDATION"
    using step by (simp add: history_updated_def healing_received_def)
  then obtain st2 where "run_actions (healed_actions clock f) ?s = Inr st2" "ag_current_step st2 = W_COMPLETED"
    using healed_run by blast
  then show ?thesis
    using assms step by (auto simp: submit_healing_result_def route_feedback_def commit_def split: sum.splits prod.splits)
qed

lemma pending_heal_always:
  assumes "workflow_ok oc st" "ag_current_step st = W_HEALING_PENDING_VALIDATION"
  shows "\<exists>r c. pending_heal st = Some (r, c)"
  using assms by (auto simp: workflow_ok_def pending_on_def pending_heal_def)

text \<open>The workflow's registered state.\<close>

definition registered :: "'s platform \<Rightarrow> agent_state \<Rightarrow> bool" where
  "registered p st \<longleftrightarrow> wo_workflows (pl_world p) (ag_workflow_id st) = Some st"

lemma submit_run_registers: "submit_run env r wid i plan st p = (Inr (x, st'), p') \<Longrightarrow> registered p' st'"
  by (auto simp: submit_run_def submit_execution_result_def commit_def registered_def register_def
      split: sum.splits prod.splits if_splits)

lemma run_and_retry_registers:
  "run_and_retry env wid i n plan st p = (Inr (out, x, st'), p') \<Longrightarrow> registered p' st'"
proof (induction n arbitrary: plan st p)
  case 0
  then show ?case
    by (auto simp: run_and_retry.simps[of env wid i 0] intro: submit_run_registers split: sum.splits prod.splits)
next
  case (Suc n)
  then show ?case
    by (auto simp: run_and_retry.simps[of env wid i "Suc n"] intro: submit_run_registers
        split: sum.splits prod.splits if_splits)
qed

lemma validate_candidate_registers:
  assumes "validate_candidate env plan fc st r c p = (Inr (st', out), p')"
  shows "registered p' st'"
  using assms
  by (auto simp: validate_candidate_def Let_def submit_healing_result_def commit_def registered_def register_def
      split: sum.splits prod.splits if_splits)

lemma healing_refused:
  assumes "reachable oc clock st" "ag_current_step st = W_HEALING_PENDING_VALIDATION"
    "submit_healing_result oc clock w st f = (w', Inl e)"
  shows "w' = w \<and> (\<exists>msg. e = Feedback_Rejected msg)"
proof (cases "process_feedback f (wo_memory w)")
  case (Inl msg)
  then show ?thesis using assms(2,3) by (auto simp: submit_healing_result_def)
next
  case (Inr x)
  obtain r where "ag_healing_recommendation st = Some r"
    using workflow_ok_reachable[OF assms(1)] assms(2) by (auto simp: workflow_ok_def pending_on_def)
  moreover obtain hr m where "process_feedback f (wo_memory w) = Inr (hr, m)" using Inr by (cases x) auto
  ultimately show ?thesis using healing_effect[OF assms(2), of r f w hr m oc clock] assms(3) by auto
qed

text \<open>A validation that raises leaves the workflow as it was registered.\<close>

lemma validate_candidate_Inl:
  assumes "validate_candidate env plan fc st r c p = (Inl e, p')" "reachable (pf_orchestrator env) (pf_clock env) st"
    "ag_current_step st = W_HEALING_PENDING_VALIDATION"
  shows "pl_world p' = pl_world p" "e = Invalid_Record \<or> (\<exists>msg. e = Workflow_Refused (Feedback_Rejected msg))"
proof -
  let ?plan = "apply_healed_selector plan (healed_from r fc)
    (case fc of None \<Rightarrow> 0 | Some f \<Rightarrow> fx_failed_step f) (sc_selector c)"
  obtain o1 p1 where b: "browse env ?plan False p = (o1, p1)" by force
  have world: "pl_world (draw p1) = pl_world p" using browse_runs(2,3)[OF b] by (simp add: draw_def)
  then show "pl_world p' = pl_world p" "e = Invalid_Record \<or> (\<exists>msg. e = Workflow_Refused (Feedback_Rejected msg))"
    using assms(1) b healing_refused[OF assms(2,3)]
    by (auto simp: validate_candidate_def Let_def split: if_splits sum.splits prod.splits)
qed

text \<open>
  How validations leave the workflow. When they come back it is over, unless there is no locator to
  replace; when one raises, the state before that validation is the one that stays registered.
\<close>

definition validations_end ::
  "'s platform_env \<Rightarrow> failure_context option \<Rightarrow> string \<Rightarrow> crash + agent_state \<times> (run_outcome \<times> scored_candidate) option \<Rightarrow>
     's platform \<Rightarrow> bool" where
  "validations_end env fc wid res p \<longleftrightarrow>
     (\<exists>st. ag_workflow_id st = wid \<and> registered p st \<and> reachable (pf_orchestrator env) (pf_clock env) st \<and>
       (case res of
          Inr (st', h) \<Rightarrow> st' = st \<and> (is_terminal (ag_current_step st) \<or>
            (\<exists>r c. pending_heal st = Some (r, c) \<and> healed_from r fc = []))
        | Inl e \<Rightarrow> ag_current_step st = W_HEALING_PENDING_VALIDATION \<and>
            (e = Invalid_Record \<or> (\<exists>msg. e = Workflow_Refused (Feedback_Rejected msg)))))"

text \<open>The loop has enough rounds for every attempt the policy allows.\<close>

lemma validations_settle:
  assumes "reachable (pf_orchestrator env) (pf_clock env) st" "ag_current_step st \<noteq> W_EXECUTION_PENDING"
    "remaining (pf_orchestrator env) st \<le> n" "registered p st"
    "validate_ai_heal env plan fc n st p = (res, p')"
  shows "validations_end env fc (ag_workflow_id st) res p'"
  using assms
proof (induction n arbitrary: st p)
  case (0 st p)
  have ok: "workflow_ok (pf_orchestrator env) st" using 0(1) by (rule workflow_ok_reachable)
  have "res = Inr (st, None)" "p' = p" "remaining (pf_orchestrator env) st = 0" using 0 by simp_all
  then show ?case
    using ok 0(1,2,4) by (auto simp: validations_end_def remaining_def workflow_ok_def terminal_steps split: if_splits)
next
  case (Suc n st p)
  have ok: "workflow_ok (pf_orchestrator env) st" using Suc.prems(1) by (rule workflow_ok_reachable)
  show ?case
  proof (cases "ag_current_step st = W_HEALING_PENDING_VALIDATION")
    case False
    then have "pending_heal st = None" by (auto simp: pending_heal_def split: option.splits)
    then have "res = Inr (st, None)" "p' = p" using Suc.prems(5) by simp_all
    then show ?thesis
      using ok False Suc.prems(1,2,4) by (auto simp: validations_end_def workflow_ok_def terminal_steps)
  next
    case True
    obtain r c where rc: "pending_heal st = Some (r, c)" using pending_heal_always[OF ok True] by blast
    show ?thesis
    proof (cases "healed_from r fc = []")
      case True
      then have "res = Inr (st, None)" "p' = p" using Suc.prems(5) rc by simp_all
      then show ?thesis using Suc.prems(1,4) rc True by (auto simp: validations_end_def)
    next
      case locator: False
      obtain v p1 where v: "validate_candidate env plan fc st r c p = (v, p1)" by force
      show ?thesis
      proof (cases v)
        case (Inl e)
        then have "res = Inl e" "p' = p1" using Suc.prems(5) rc v locator by simp_all
        then show ?thesis
          using validate_candidate_Inl[OF v[unfolded Inl] Suc.prems(1) True] Suc.prems(1,4) True
          by (auto simp: validations_end_def registered_def)
      next
        case (Inr y)
        obtain st1 out where v1: "v = Inr (st1, out)" using Inr by (cases y) auto
        obtain f w w' where f: "f = validation_feedback env st r c (healed_from r fc) (ot_result out) (pl_drawn p)"
          "submit_healing_result (pf_orchestrator env) (pf_clock env) w st f = (w', Inr st1)"
          by (rule validate_candidate_Inr[OF v[unfolded v1]])
        have acc: "accepted (pf_orchestrator env) (pf_clock env) st st1"
          using f(2) by (metis accepted.healing snd_conv)
        have r1: "reachable (pf_orchestrator env) (pf_clock env) st1"
          using Suc.prems(1) acc by (rule reachable.submission)
        have reg: "registered p1 st1" by (rule validate_candidate_registers[OF v[unfolded v1]])
        have wid: "ag_workflow_id st1 = ag_workflow_id st" using accepted_grows[OF acc] by (simp add: log_grows_def)
        show ?thesis
        proof (cases "run_passed (ot_result out)")
          case passed: True
          then have "res = Inr (st1, Some (out, c))" "p' = p1" using Suc.prems(5) rc v v1 locator by simp_all
          moreover have "ag_current_step st1 = W_COMPLETED"
            using passed by (intro passed_validation_completes[OF f(2)]) (simp add: f(1) validation_feedback_def)
          ultimately show ?thesis using r1 reg wid by (auto simp: validations_end_def terminal_steps)
        next
          case no: False
          have again: "validate_ai_heal env plan fc n st1 p1 = (res, p')"
            using Suc.prems(5) rc v v1 no locator by simp
          have "remaining (pf_orchestrator env) st1 \<le> n"
            using remaining_decreases[OF acc ok] Suc.prems(3) by simp
          moreover have "ag_current_step st1 \<noteq> W_EXECUTION_PENDING"
            using healing_accepted(2)[of "pf_orchestrator env" "pf_clock env" w st f st1] f(2) ok
            by (auto simp: stopped_def proposed_def proposes_with_def)
          ultimately show ?thesis using Suc.IH[OF r1 _ _ reg again] wid by simp
        qed
      qed
    qed
  qed
qed

lemma remaining_bound:
  assumes "workflow_ok oc st" "ag_current_step st \<noteq> W_EXECUTION_PENDING"
  shows "remaining oc st \<le> attempt_limit oc"
  using assms by (auto simp: remaining_def workflow_ok_def attempts_ok_def pending_on_def)

section \<open>What the memory learns\<close>

definition recorded :: "healing_feedback list \<Rightarrow> mem_store \<Rightarrow> mem_store" where
  "recorded fs m =
     fold (\<lambda>f m. m\<lparr>ms_healing := dict_append (fb_original_selector f) (feedback_record f) (ms_healing m)\<rparr>) fs m"

lemma recorded_simps [simp]:
  "recorded [] m = m"
  "recorded (f # fs) m = recorded fs (recorded [f] m)"
  "recorded (fs @ gs) m = recorded gs (recorded fs m)"
  by (simp_all add: recorded_def)

declare recorded_simps(2) [simp del]

lemma submission_recorded:
  assumes "submit_healing_result oc clock w st f = (w', Inr st')"
  shows "wo_memory w' = recorded [f] (wo_memory w)"
  using assms
  by (auto simp: submit_healing_result_def commit_def process_feedback_Inr store_healing_record_Inr recorded_def
      register_def feedback_record_def split: if_splits sum.splits prod.splits)

text \<open>The feedback of a validation run tells its outcome.\<close>

definition tells :: "healing_feedback \<Rightarrow> run_result \<Rightarrow> bool" where
  "tells f r \<longleftrightarrow> valid_feedback f \<and> (is_success (feedback_record f) \<longleftrightarrow> run_passed r) \<and>
     (is_failure (feedback_record f) \<longleftrightarrow> \<not> run_passed r)"

lemma validate_candidate_recorded:
  assumes "validate_candidate env plan fc st r c p = (Inr (st', out), p')"
  shows "\<exists>f. memory_of p' = recorded [f] (memory_of p) \<and> tells f (ot_result out) \<and>
    fb_attempted_selector f = sc_selector c \<and> fb_original_selector f = healed_from r fc \<and>
    pl_runs p' = pl_runs p @ [ot_result out]"
proof -
  obtain f w w' where f: "f = validation_feedback env st r c (healed_from r fc) (ot_result out) (pl_drawn p)"
    "valid_feedback f" "w = pl_world p"
    "submit_healing_result (pf_orchestrator env) (pf_clock env) w st f = (w', Inr st')" "pl_world p' = w'"
    by (rule validate_candidate_Inr[OF assms])
  have "pl_runs p' = pl_runs p @ [ot_result out]" using validate_candidate_runs[OF assms] by auto
  then show ?thesis
    using submission_recorded[OF f(4)] f
    by (intro exI[of _ f]) (auto simp: memory_of_def tells_def feedback_record_success feedback_record_failure
        validation_feedback_def)
qed

lemma validations_recorded:
  assumes "validate_ai_heal env plan fc n st p = (Inr (st', h), p')"
  shows "\<exists>fs new. pl_runs p' = pl_runs p @ new \<and> memory_of p' = recorded fs (memory_of p) \<and> list_all2 tells fs new \<and>
    (\<forall>out c. h = Some (out, c) \<longrightarrow> fs \<noteq> [] \<and> fb_attempted_selector (last fs) = sc_selector c \<and>
       last new = ot_result out \<and> run_passed (ot_result out)) \<and>
    list_all (\<lambda>r. \<not> run_passed r) (if h = None then new else butlast new)"
  using assms
proof (induction n arbitrary: st p)
  case (Suc n)
  show ?case
  proof (cases "\<exists>r c. pending_heal st = Some (r, c) \<and> healed_from r fc \<noteq> []")
    case False
    then have "h = None" "p' = p" using Suc.prems by (auto split: option.splits if_splits)
    then show ?thesis by (intro exI[of _ "[]"]) simp
  next
    case True
    then obtain r c where rc: "pending_heal st = Some (r, c)" "healed_from r fc \<noteq> []" by blast
    obtain v p1 where v: "validate_candidate env plan fc st r c p = (v, p1)" by force
    obtain st1 out where v1: "v = Inr (st1, out)" using Suc.prems rc v by (cases v) auto
    obtain f where f: "memory_of p1 = recorded [f] (memory_of p)" "tells f (ot_result out)"
      "fb_attempted_selector f = sc_selector c" "pl_runs p1 = pl_runs p @ [ot_result out]"
      using validate_candidate_recorded[OF v[unfolded v1]] by blast
    show ?thesis
    proof (cases "run_passed (ot_result out)")
      case passed: True
      then have "h = Some (out, c)" "p' = p1" using Suc.prems rc v v1 by simp_all
      then show ?thesis using f passed by (intro exI[of _ "[f]"] exI[of _ "[ot_result out]"]) simp
    next
      case no: False
      then have "validate_ai_heal env plan fc n st1 p1 = (Inr (st', h), p')" using Suc.prems rc v v1 by simp
      from Suc.IH[OF this] obtain fs new where new: "pl_runs p' = pl_runs p1 @ new"
        "memory_of p' = recorded fs (memory_of p1)" "list_all2 tells fs new"
        "\<And>out c. h = Some (out, c) \<Longrightarrow> fs \<noteq> [] \<and> fb_attempted_selector (last fs) = sc_selector c \<and>
           last new = ot_result out \<and> run_passed (ot_result out)"
        "list_all (\<lambda>r. \<not> run_passed r) (if h = None then new else butlast new)"
        by blast
      have "new \<noteq> []" if "h = Some (o', c')" for o' c' using new(3) new(4)[OF that] by auto
      then show ?thesis using f new no
        by (intro exI[of _ "f # fs"] exI[of _ "ot_result out # new"]) (auto simp: recorded_simps(2)[of f fs])
    qed
  qed
qed auto

section \<open>The end of an execution's workflow\<close>

lemma result_context:
  "xr_status (engine_result_to_execution_result rd r wid i p) \<noteq> XS_SUCCESS \<Longrightarrow>
     xr_failure_context (engine_result_to_execution_result rd r wid i p) \<noteq> None"
  by (simp add: engine_result_to_execution_result_def split: if_splits)

lemma run_and_retry_success:
  assumes "run_and_retry env wid i n plan st p = (Inr (out, x, st'), p')" "xr_status x = XS_SUCCESS"
  shows "ag_current_step st' = W_COMPLETED"
  using assms
proof (induction n arbitrary: plan st p)
  case (0 plan st p)
  obtain o1 p1 where b: "browse env plan True p = (o1, p1)" by force
  have v: "submit_run env (ot_result out) wid i (ot_plan out) st p1 = (Inr (x, st'), p')"
    using 0(1) b by (auto simp: run_and_retry.simps split: sum.splits prod.splits)
  then show ?case using submit_run_accepted(2)[OF v] success_completes 0(2) by blast
next
  case (Suc n plan st p)
  obtain o1 p1 where b: "browse env plan True p = (o1, p1)" by force
  obtain v p2 where v: "submit_run env (ot_result o1) wid i (ot_plan o1) st p1 = (v, p2)" by force
  obtain x1 st1 where x1: "v = Inr (x1, st1)"
    using Suc.prems(1) b v by (auto simp: run_and_retry.simps[of env wid i "Suc n"] split: sum.splits)
  show ?case
  proof (cases "retry_chosen x1 st1")
    case True
    then have "run_and_retry env wid i n (ot_plan o1) st1 p2 = (Inr (out, x, st'), p')"
      using Suc.prems(1) b v x1 by (simp add: run_and_retry.simps[of env wid i "Suc n"])
    then show ?thesis using Suc.IH Suc.prems(2) by blast
  next
    case False
    then have "st' = st1" "x = x1"
      using Suc.prems(1) b v x1 by (simp_all add: run_and_retry.simps[of env wid i "Suc n"])
    then show ?thesis using submit_run_accepted(2)[OF v[unfolded x1]] success_completes Suc.prems(2) by blast
  qed
qed

end
