(* ===== verification/Platform_Properties.thy ===== *)
theory Platform_Properties
  imports Platform_Workflow Engine_Properties
begin

text \<open>
  The properties of the platform's executions: what a stored test becomes, what a healed plan may
  change, when a run is reported as passed or healed, how often the browser runs, how the workflow
  ends and what the healing memory learns. The sample platform at the start is for the witnesses.
\<close>

section \<open>A sample platform\<close>

definition no_planner :: planner where
  "no_planner ctx n = Inl ''unavailable''"

definition silent_client :: llm_client where
  "silent_client request = None"

definition plain_clock :: clock where
  "plain_clock n = ''2025''"

definition sample_settings :: "unit session \<Rightarrow> run_request" where
  "sample_settings s = sample_request"

definition sample_snapshots :: snapshot_reader where
  "sample_snapshots = \<lparr>sp_parser = (\<lambda>s. []), sp_file = (\<lambda>s. None), sp_now = ''2025''\<rparr>"

definition sample_numbers :: number_reader where
  "sample_numbers = \<lparr>nr_int = (\<lambda>s. None), nr_float = (\<lambda>s. None)\<rparr>"

definition sample_platform_env :: "unit session platform_env" where
  "sample_platform_env =
     \<lparr>pf_orchestrator = default_orchestrator no_planner True silent_client, pf_clock = plain_clock,
      pf_run = engine_runner sample_browser exact_ratio sample_settings, pf_reader = sample_snapshots,
      pf_numbers = sample_numbers, pf_id = (\<lambda>n. ''heal''), pf_now = plain_clock\<rparr>"

definition sample_platform :: "unit session platform" where
  "sample_platform = \<lparr>pl_world = \<lparr>wo_memory = empty_store, wo_workflows = (\<lambda>k. None)\<rparr>,
     pl_browser = sample_session, pl_runs = [], pl_drawn = 0\<rparr>"

definition sample_app :: application where
  "sample_app = \<lparr>ap_name = ''shop'', ap_base_url = ''http://shop/''\<rparr>"

definition stored_with :: "pyval list \<Rightarrow> stored_test" where
  "stored_with vs = \<lparr>st_id = 1, st_external_id = None, st_name = ''open'',
     st_description = Some (PDict [(''steps'', PList vs)]), st_healing_targets = PNone\<rparr>"

definition click_entry :: pyval where
  "click_entry = PDict [(''action'', PStr ''click''), (''target'', PStr ''input.name'')]"

definition url_check :: pyval where
  "url_check = PDict [(''action'', PStr ''ASSERT_URL_CONTAINS''), (''expected'', PStr ''shop'')]"

section \<open>Stored tests\<close>

text \<open>
  C25: A stored test whose steps are a list with an entry that cannot be read (not an object, an
  unknown action, a field of the wrong type, a step number below 1) is never run: no browser run,
  no workflow and no memory record is made, and the execution is reported failed, never as a
  trivial run that passes.
\<close>

theorem unreadable_steps_never_run:
  assumes "st_description t = Some d" "stored_steps d = PList vs" "v \<in> set vs"
    "\<not> readable_entry (pf_numbers env) (ap_base_url app) v"
  shows "execute_test_run env app t i p = (Unreadable_steps, p\<lparr>pl_runs := []\<rparr>) \<and>
    execution_verdict (fst (execute_test_run env app t i p)) = Failed_run"
proof -
  have "\<not> list_all (readable_entry (pf_numbers env) (ap_base_url app)) vs"
    using assms(3,4) by (auto simp: list_all_iff)
  then have "read_steps (pf_numbers env) (ap_base_url app) 1 vs ([], []) = None"
    by (simp add: read_steps_None)
  moreover have "d \<noteq> PNone" using assms(2) by (auto simp: stored_steps_def)
  ultimately have "stored_test_case (pf_numbers env) (ap_base_url app) t = None"
    using assms(1,2) by (cases d) (simp_all add: stored_test_case_def read_description_def)
  then show ?thesis by (simp add: execute_test_run_def Let_def)
qed

theorem unreadable_steps_never_run_witness:
  "execute_test_run sample_platform_env sample_app (stored_with [click_entry, PDict [(''action'', PStr ''dance'')]])
     1 sample_platform = (Unreadable_steps, sample_platform)"
proof -
  let ?t = "stored_with [click_entry, PDict [(''action'', PStr ''dance'')]]"
  have "st_description ?t = Some (the (st_description ?t))"
    "stored_steps (the (st_description ?t)) = PList [click_entry, PDict [(''action'', PStr ''dance'')]]"
    "\<not> readable_entry (pf_numbers sample_platform_env) (ap_base_url sample_app) (PDict [(''action'', PStr ''dance'')])"
    by code_simp+
  from unreadable_steps_never_run[OF this(1,2) _ this(3)] show ?thesis
    by (simp add: sample_platform_def)
qed

text \<open>
  C27: What becomes of stored entries that can all be read. If the learned rows of the test can be indexed
  by their locators, the engine's plan is well-formed and runs every entry: each is one engine step with
  the action or check it names, and none is dropped. Entries keep the order written, except that the checks
  written before the first step run last (although the code's comment says a check runs where it was
  written); a test without any step opens the page first. If a learned row cannot be indexed (its locator
  is a list or a dictionary), no plan is made.
\<close>

theorem stored_entries_all_run:
  assumes "st_description t = Some d" "stored_steps d = PList vs" "list_all (readable_entry nr url) vs"
  shows "\<exists>tc. stored_test_case nr url t = Some tc \<and>
    (case learned_targets_by_locator (st_healing_targets t) of
       None \<Rightarrow> stored_plan nr url t tc = None
     | Some learned \<Rightarrow> \<exists>plan. stored_plan nr url t tc = Some plan \<and> valid_engine_plan plan \<and>
         map es_action (ep_steps plan) =
           (if list_all entry_is_check vs then [AC_GOTO] else map entry_action (dropWhile entry_is_check vs)) @
           map entry_action (takeWhile entry_is_check vs))"
proof -
  obtain sts as where read: "read_steps nr url 1 vs ([], []) = Some (sts, as)"
    using assms(3) read_steps_None[of nr url 1 vs "([], [])"]
    by (cases "read_steps nr url 1 vs ([], [])") auto
  note acts = read_steps_actions[OF read]
  have "d \<noteq> PNone" using assms(2) by (auto simp: stored_steps_def)
  then have "read_description nr url (st_description t) = Some (sts, as)"
    using assms(1,2) read by (cases d) (simp_all add: read_description_def)
  then obtain tc where tc: "stored_test_case nr url t = Some tc"
    "tc_steps tc = (if sts = [] then [open_page url] else sts)" "tc_assertions tc = as"
    by (simp add: stored_test_case_def)
  have valid: "valid_test_case tc"
    using acts tc(2) by (simp add: valid_test_case_def open_page_def valid_test_step_def)
  have plans: "\<exists>plan. test_case_to_engine_plan nr tc url learned = Some plan \<and> valid_engine_plan plan \<and>
    map es_action (ep_steps plan) =
      (let as = concat (map step_actions (tc_steps tc)) @ map (check_action \<circ> as_type) (tc_assertions tc)
       in if as = [] then [AC_GOTO] else as)" for learned
    using test_case_plan_total[of nr tc url learned] valid by (auto simp: Let_def)
  have none: "sts = [] \<longleftrightarrow> list_all entry_is_check vs"
  proof -
    have "sts = [] \<longleftrightarrow> concat (map step_actions sts) = []" by (cases sts) (simp_all add: step_actions_def)
    also have "\<dots> \<longleftrightarrow> list_all entry_is_check vs" using acts by (auto simp: dropWhile_eq_Nil_conv list_all_iff)
    finally show ?thesis .
  qed
  have opens: "step_actions (open_page url) = [AC_GOTO]" by (simp add: step_actions_def open_page_def)
  have steps: "concat (map step_actions (tc_steps tc)) =
      (if list_all entry_is_check vs then [AC_GOTO] else map entry_action (dropWhile entry_is_check vs))"
    using tc(2) acts none opens by simp
  have checks: "map (check_action \<circ> as_type) (tc_assertions tc) = map entry_action (takeWhile entry_is_check vs)"
    using tc(3) acts by (simp add: checks_of_def)
  have "concat (map step_actions (tc_steps tc)) \<noteq> []"
    unfolding steps by (auto simp: dropWhile_eq_Nil_conv list_all_iff)
  then have "\<exists>plan. test_case_to_engine_plan nr tc url learned = Some plan \<and> valid_engine_plan plan \<and>
    map es_action (ep_steps plan) =
      (if list_all entry_is_check vs then [AC_GOTO] else map entry_action (dropWhile entry_is_check vs)) @
      map entry_action (takeWhile entry_is_check vs)" for learned
    using plans[of learned] steps checks by (simp add: Let_def)
  note plan = this
  show ?thesis
  proof (intro exI[of _ tc] conjI tc(1))
    show "case learned_targets_by_locator (st_healing_targets t) of
       None \<Rightarrow> stored_plan nr url t tc = None
     | Some learned \<Rightarrow> \<exists>plan. stored_plan nr url t tc = Some plan \<and> valid_engine_plan plan \<and>
         map es_action (ep_steps plan) =
           (if list_all entry_is_check vs then [AC_GOTO] else map entry_action (dropWhile entry_is_check vs)) @
           map entry_action (takeWhile entry_is_check vs)"
    proof (cases "learned_targets_by_locator (st_healing_targets t)")
      case (Some learned)
      show ?thesis unfolding stored_plan_def Some option.case Option.bind.bind_lunit by (rule plan)
    qed (simp add: stored_plan_def)
  qed
qed

theorem stored_entries_all_run_witness:
  "\<exists>tc plan. stored_test_case sample_numbers ''http://shop/'' (stored_with [url_check, click_entry, url_check]) = Some tc \<and>
    stored_plan sample_numbers ''http://shop/'' (stored_with [url_check, click_entry, url_check]) tc = Some plan \<and>
    map es_action (ep_steps plan) = [AC_CLICK, AC_ASSERT_URL, AC_ASSERT_URL]"
proof -
  let ?vs = "[url_check, click_entry, url_check]"
  have "st_description (stored_with ?vs) = Some (the (st_description (stored_with ?vs)))"
    "stored_steps (the (st_description (stored_with ?vs))) = PList ?vs"
    "list_all (readable_entry sample_numbers ''http://shop/'') ?vs"
    "learned_targets_by_locator (st_healing_targets (stored_with ?vs)) = Some []"
    by code_simp+
  moreover have "(if list_all entry_is_check ?vs then [AC_GOTO] else map entry_action (dropWhile entry_is_check ?vs)) @
      map entry_action (takeWhile entry_is_check ?vs) = [AC_CLICK, AC_ASSERT_URL, AC_ASSERT_URL]"
    by code_simp
  ultimately show ?thesis using stored_entries_all_run[of "stored_with ?vs" _ ?vs sample_numbers "''http://shop/''"]
    by fastforce
qed

text \<open>
  C28: The plan a replacement selector is validated with tests the same thing: it has the same
  steps, in order, equal in everything but the locators of targets, and a step changes only to the
  replacement, only where it used the broken selector or, when no step uses it, in the failed step.
\<close>

theorem healed_plan_tests_the_same:
  assumes "i < length (ep_steps plan)" "st = ep_steps plan ! i"
    "st' = ep_steps (apply_healed_selector plan broken k healed) ! i"
  shows "length (ep_steps (apply_healed_selector plan broken k healed)) = length (ep_steps plan) \<and>
    with_locator l st' = with_locator l st \<and>
    (st' = st \<or>
     map_option tg_primary_locator (es_target st') = Some healed \<and>
     (broken \<noteq> [] \<and> map_option tg_primary_locator (es_target st) = Some broken \<or>
      int i = k - 1 \<and>
      (broken = [] \<or> (\<forall>x \<in> set (ep_steps plan). map_option tg_primary_locator (es_target x) \<noteq> Some broken))))"
proof -
  let ?hit = "broken_steps (ep_steps plan) broken k ! i"
  have new: "st' = (if ?hit then with_locator healed st else st)"
    using assms by (simp add: apply_healed_nth)
  have same: "with_locator l (with_locator healed st) = with_locator l st"
    by (simp add: with_locator_def option.map_comp comp_def)
  have loc: "map_option tg_primary_locator (es_target (with_locator healed st)) = Some healed" if "es_target st \<noteq> None"
    using that by (auto simp: with_locator_def)
  note hit = nth_broken_steps[OF assms(1), of broken k, folded assms(2)]
  show ?thesis
  proof (cases ?hit)
    case False
    then show ?thesis using new by simp
  next
    case hits: True
    show ?thesis
    proof (cases "broken \<noteq> [] \<and> (\<exists>x \<in> set (ep_steps plan). map_option tg_primary_locator (es_target x) = Some broken)")
      case True
      then have "map_option tg_primary_locator (es_target st) = Some broken" using hits hit by simp
      then show ?thesis using True hits new same loc by auto
    next
      case False
      then have "int i = k - 1 \<and> es_target st \<noteq> None" using hits hit by simp
      then show ?thesis using False hits new same loc by auto
    qed
  qed
qed

theorem healed_plan_tests_the_same_witness:
  "es_value (ep_steps (apply_healed_selector sample_plan ''#old'' 1 ''#new'') ! 0) = Some ''Ada'' \<and>
   length (ep_steps (apply_healed_selector sample_plan ''#old'' 1 ''#new'')) = 1"
proof -
  let ?st = "ep_steps (apply_healed_selector sample_plan ''#old'' 1 ''#new'') ! 0"
  have n: "0 < length (ep_steps sample_plan)" by (simp add: sample_plan_def)
  have same: "with_locator [] ?st = with_locator [] (ep_steps sample_plan ! 0)"
    and len: "length (ep_steps (apply_healed_selector sample_plan ''#old'' 1 ''#new'')) = 1"
    using healed_plan_tests_the_same[OF n refl refl, of "''#old''" 1 "''#new''" "[]"] by (simp_all add: sample_plan_def)
  have "es_value (with_locator [] x) = es_value x" for x by (simp add: with_locator_def)
  then have "es_value ?st = es_value (ep_steps sample_plan ! 0)" using arg_cong[OF same, of es_value] by simp
  then show ?thesis using len by (simp add: sample_plan_def sample_engine_step_def)
qed

section \<open>Runs and verdicts\<close>

text \<open>
  C6: With the engine as the runner, an execution is reported passed or healed only if a browser
  run went through: the stored steps were readable, the run shown is one the execution made, its
  results name every step of the stored plan in order, and none of them failed.
\<close>

theorem reported_success_is_whole_run:
  assumes "pf_run env = engine_runner br fuzz req" "execute_test_run env app t i p = (Ran r, p')"
    "rr_verdict r \<noteq> Failed_run"
  shows "\<exists>tc plan. stored_test_case (pf_numbers env) (ap_base_url app) t = Some tc \<and>
    stored_plan (pf_numbers env) (ap_base_url app) t tc = Some plan \<and>
    ot_result (rr_shown r) \<in> set (pl_runs p') \<and> whole_run plan (ot_result (rr_shown r))"
proof -
  obtain tc plan where tc: "stored_test_case (pf_numbers env) (ap_base_url app) t = Some tc"
    "stored_plan (pf_numbers env) (ap_base_url app) t tc = Some plan"
    using assms(2) by (auto simp: execute_test_run_def Let_def split: option.splits)
  obtain st q where q: "open_workflow env i app tc plan (p\<lparr>pl_runs := []\<rparr>) = (st, q)" by force
  have run: "execute_plan env i (workflow_name i) tc plan (st_healing_targets t) st q = (Inr r, p')"
    using assms(2) tc q by (auto simp: execute_test_run_def Let_def split: sum.splits prod.splits)
  have "pl_runs q = []" using q by (auto simp: open_workflow_def Let_def split: option.splits)
  then show ?thesis
    using tc execute_plan_runs[OF run] engine_runs.execute_plan_whole[OF assms(1) run _ assms(3)] by blast
qed

lemma sample_passes:
  "case fst (execute_test_run sample_platform_env sample_app (stored_with []) 1 sample_platform) of
     Ran r \<Rightarrow> rr_verdict r = Passed_run | _ \<Rightarrow> False"
  by code_simp

theorem reported_success_is_whole_run_witness:
  "\<exists>r p' tc plan. execute_test_run sample_platform_env sample_app (stored_with []) 1 sample_platform = (Ran r, p') \<and>
    stored_plan sample_numbers ''http://shop/'' (stored_with []) tc = Some plan \<and> whole_run plan (ot_result (rr_shown r))"
proof -
  obtain r p' where r: "execute_test_run sample_platform_env sample_app (stored_with []) 1 sample_platform = (Ran r, p')"
    "rr_verdict r = Passed_run"
    using sample_passes
    by (cases "execute_test_run sample_platform_env sample_app (stored_with []) 1 sample_platform")
      (auto split: execution_end.splits)
  have env: "pf_run sample_platform_env = engine_runner sample_browser exact_ratio sample_settings"
    "pf_numbers sample_platform_env = sample_numbers" "ap_base_url sample_app = ''http://shop/''"
    by (simp_all add: sample_platform_env_def sample_app_def)
  show ?thesis using reported_success_is_whole_run[OF env(1) r(1)] r env(2,3) by auto
qed

text \<open>
  One execution runs the browser a bounded number of times: once, at most three times more for
  retries, and once for each healing attempt the configuration allows.
\<close>

theorem execution_runs_bounded:
  "length (pl_runs (snd (execute_test_run env app t i p))) \<le>
     1 + max_retry_runs + og_max_healing_attempts (oc_config (pf_orchestrator env))"
proof -
  have runs: "length (pl_runs q') \<le> 1 + max_retry_runs + og_max_healing_attempts (oc_config (pf_orchestrator env))"
    if "execute_plan env i w tc plan s st q = (res, q')" "pl_runs q = []" for w tc plan s st q res q'
    using execute_plan_runs[OF that] by simp
  have "pl_runs q = []" if "open_workflow env i app tc plan (p\<lparr>pl_runs := []\<rparr>) = (st, q)" for tc plan st q
    using that by (auto simp: open_workflow_def Let_def split: option.splits)
  then show ?thesis
    using runs by (auto simp: execute_test_run_def Let_def split: option.splits prod.splits sum.splits)
qed

section \<open>The workflow and the memory\<close>

text \<open>
  C11: How the runs, retries and validations of an execution leave its workflow, when the policy's limits
  fit the platform's (at most three retries, no more healing attempts than validation rounds, as in the
  default configuration) and the first run and its retries come back without an exception. The validations
  come back or raise, and either way the state that stays registered under the workflow's id is a
  reachable one. When they come back it is the state they return, and it is terminal, unless a proposal is
  waiting for which neither the recommendation nor the failure names a locator to replace. When a
  validation raises (its feedback is no valid record, or the workflow refuses it), the workflow stays
  registered waiting for that validation, and the execution, which swallows the exception, never submits
  one.
\<close>

theorem execution_settles_workflow:
  assumes "reachable (pf_orchestrator env) (pf_clock env) st"
    "retry_limit (pf_orchestrator env) \<le> max_retry_runs"
    "attempt_limit (pf_orchestrator env) \<le> og_max_healing_attempts (oc_config (pf_orchestrator env))"
    "run_and_retry env wid i max_retry_runs plan st p = (Inr (out, x, st1), p1)"
    "validate_ai_heal env (ot_plan out) (xr_failure_context x)
       (og_max_healing_attempts (oc_config (pf_orchestrator env))) st1 p1 = (res, p2)"
  shows "\<exists>st2. wo_workflows (pl_world p2) (ag_workflow_id st1) = Some st2 \<and>
    reachable (pf_orchestrator env) (pf_clock env) st2 \<and>
    (case res of
       Inr (st', h) \<Rightarrow> st' = st2 \<and> (is_terminal (ag_current_step st2) \<or>
         (\<exists>r c. pending_heal st2 = Some (r, c) \<and> healed_from r (xr_failure_context x) = []))
     | Inl e \<Rightarrow> ag_current_step st2 = W_HEALING_PENDING_VALIDATION \<and>
         (e = Invalid_Record \<or> (\<exists>msg. e = Workflow_Refused (Feedback_Rejected msg))))"
proof -
  have st1: "reachable (pf_orchestrator env) (pf_clock env) st1" "ag_current_step st1 \<noteq> W_EXECUTION_PENDING"
    using retries_settle[OF assms(1,4)] assms(2) by simp_all
  have "remaining (pf_orchestrator env) st1 \<le> og_max_healing_attempts (oc_config (pf_orchestrator env))"
    using remaining_bound[OF workflow_ok_reachable[OF st1(1)] st1(2)] assms(3) by simp
  then have "validations_end env (xr_failure_context x) (ag_workflow_id st1) res p2"
    using run_and_retry_registers[OF assms(4)] assms(5) by (intro validations_settle[OF st1])
  then show ?thesis by (auto simp: validations_end_def registered_def)
qed

definition sample_workflow :: agent_state where
  "sample_workflow = platform_state (pf_orchestrator sample_platform_env) plain_clock 1 ''shop'' ''http://shop/'' ''tc-1'' 1"

definition goto_plan :: engine_plan where
  "goto_plan = \<lparr>ep_test_id = ''tc-1'', ep_name = ''open'', ep_base_url = ''http://shop/'',
     ep_steps = [(engine_step_of ''step-1'' AC_GOTO)\<lparr>es_value := Some ''http://shop/''\<rparr>]\<rparr>"

lemma sample_first_run:
  "case run_and_retry sample_platform_env (workflow_name 1) ''tc-1'' max_retry_runs goto_plan sample_workflow sample_platform of
     (Inr (out, x, st), p) \<Rightarrow> xr_failure_context x = None \<and> ag_current_step st = W_COMPLETED | _ \<Rightarrow> False"
  by code_simp

theorem execution_settles_workflow_witness:
  "\<exists>out x st1 p1. run_and_retry sample_platform_env (workflow_name 1) ''tc-1'' max_retry_runs goto_plan
      sample_workflow sample_platform = (Inr (out, x, st1), p1) \<and>
    wo_workflows (pl_world p1) (ag_workflow_id st1) = Some st1 \<and> is_terminal (ag_current_step st1)"
proof -
  let ?oc = "pf_orchestrator sample_platform_env"
  obtain out x st1 p1 where run: "run_and_retry sample_platform_env (workflow_name 1) ''tc-1'' max_retry_runs goto_plan
      sample_workflow sample_platform = (Inr (out, x, st1), p1)" "xr_failure_context x = None" "ag_current_step st1 = W_COMPLETED"
  proof -
    obtain res q where res: "run_and_retry sample_platform_env (workflow_name 1) ''tc-1'' max_retry_runs goto_plan
      sample_workflow sample_platform = (res, q)" by force
    show ?thesis using sample_first_run that res by (cases res) auto
  qed
  have none: "pending_heal st1 = None" using run(3) by (auto simp: pending_heal_def split: option.splits)
  have reach: "reachable ?oc (pf_clock sample_platform_env) sample_workflow"
    unfolding sample_workflow_def by (simp add: sample_platform_env_def reachable.opened)
  have limits: "retry_limit ?oc \<le> max_retry_runs" "attempt_limit ?oc \<le> og_max_healing_attempts (oc_config ?oc)"
    by (simp_all add: sample_platform_env_def default_orchestrator_def make_orchestrator_def retry_limit_def
        attempt_limit_def max_retry_runs_def make_policy_def default_policy_config_def)
  have "validate_ai_heal sample_platform_env (ot_plan out) (xr_failure_context x)
      (og_max_healing_attempts (oc_config ?oc)) st1 p1 = (Inr (st1, None), p1)"
    using none by (cases "og_max_healing_attempts (oc_config ?oc)") simp_all
  then show ?thesis
    using execution_settles_workflow[OF reach limits run(1)] run(1) none by auto
qed







end
