(* ===== verification/Document_Store.thy ===== *)
theory Document_Store
  imports Analyzer_Schemas Py_Text
begin

text \<open>
  The document store of \<^verbatim>\<open>backend/database/store.py\<close>: named collections of documents
  with integer ids, equality filters and ordering, as \<open>MemoryStore\<close> (and \<open>LocalStore\<close> on top
  of it) keeps them. A collection is an insertion-ordered dictionary from ids to documents; ids
  count up from 1 and are never reused until the store is cleared.

  \<open>find\<close> raises in Python when the values it sorts by cannot be compared; here that is None.
  Values compare as numbers or as text (a document ordered by a list is refused). Time stamps are
  an argument. Reading an unknown collection creates it empty in Python, which no operation can tell
  from reading nothing; the model leaves the store as it is.

  The locale \<open>document_log\<close> is what a client that only appends rows, reads the newest and deletes
  by kind relies on; the store interprets it at the end.
\<close>

type_synonym document = "(string \<times> pyval) list"
type_synonym doc_table = "(int \<times> document) list"

record doc_store =
  ds_data :: "(string \<times> doc_table) list"
  ds_next :: "(string \<times> int) list"

definition collections :: "string list" where
  "collections = [''projects'', ''applications'', ''test_cases'', ''test_executions'',
     ''security_findings'', ''audit_events'', ''codebase_blueprints'', ''agent_memory'',
     ''users'', ''pipeline_runs'']"

definition empty_docs :: doc_store where
  "empty_docs = \<lparr>ds_data = map (\<lambda>c. (c, [])) collections, ds_next = map (\<lambda>c. (c, 1)) collections\<rparr>"

definition doc_table :: "doc_store \<Rightarrow> string \<Rightarrow> doc_table" where
  "doc_table s c = (case map_of (ds_data s) c of None \<Rightarrow> [] | Some t \<Rightarrow> t)"

definition next_id :: "doc_store \<Rightarrow> string \<Rightarrow> int" where
  "next_id s c = (if map_of (ds_data s) c = None then 1
     else case map_of (ds_next s) c of None \<Rightarrow> 1 | Some n \<Rightarrow> n)"

definition set_table :: "string \<Rightarrow> doc_table \<Rightarrow> doc_store \<Rightarrow> doc_store" where
  "set_table c t s = s\<lparr>ds_data := AList.update c t (ds_data s)\<rparr>"

text \<open>\<open>d.update(changes)\<close> and \<open>{**d, **changes}\<close>\<close>

definition merge_fields :: "document \<Rightarrow> document \<Rightarrow> document" where
  "merge_fields d changes = fold (\<lambda>(k, v). AList.update k v) changes d"

section \<open>Comparing values\<close>

definition number_of :: "pyval \<Rightarrow> f64 option" where
  "number_of v =
     (case v of PBool b \<Rightarrow> Some (if b then 1 else 0) | PInt i \<Rightarrow> Some (of_int i) | PFloat x \<Rightarrow> Some x
      | _ \<Rightarrow> None)"

text \<open>Python's \<open>==\<close>: numbers by value, dictionaries whatever the order of their keys.\<close>

fun canonical :: "pyval \<Rightarrow> pyval" where
  "canonical (PBool b) = PFloat (if b then 1 else 0)"
| "canonical (PInt i) = PFloat (of_int i)"
| "canonical (PList vs) = PList (map canonical vs)"
| "canonical (PDict d) = PDict (sort_key fst (map (\<lambda>(k, v). (k, canonical v)) d))"
| "canonical v = v"

definition py_eq :: "pyval \<Rightarrow> pyval \<Rightarrow> bool" where
  "py_eq a b \<longleftrightarrow> canonical a = canonical b"

definition doc_matches :: "(string \<times> pyval) list \<Rightarrow> document \<Rightarrow> bool" where
  "doc_matches equals d \<longleftrightarrow> list_all (\<lambda>(k, v). py_eq (dict_get d k) v) equals"

definition text_of :: "pyval \<Rightarrow> string option" where
  "text_of v = (case v of PStr s \<Rightarrow> Some s | _ \<Rightarrow> None)"

text \<open>\<open>_sort_and_limit\<close>: documents without the field come last, first when descending.\<close>

definition sort_docs :: "string \<Rightarrow> bool \<Rightarrow> document list \<Rightarrow> document list option" where
  "sort_docs key descending rows =
     (let absent = filter (\<lambda>d. dict_get d key = PNone) rows;
          present = filter (\<lambda>d. dict_get d key \<noteq> PNone) rows;
          arrange = (\<lambda>up down. if descending then absent @ down else up @ absent)
      in if list_all (\<lambda>d. number_of (dict_get d key) \<noteq> None) present then
           let k = \<lambda>d. the (number_of (dict_get d key))
           in Some (arrange (sort_key k present) (sort_desc k present))
         else if list_all (\<lambda>d. text_of (dict_get d key) \<noteq> None) present then
           let k = \<lambda>d. the (text_of (dict_get d key))
           in Some (arrange (sort_key k present) (sort_desc k present))
         else if length present \<le> 1 then Some (arrange present present)
         else None)"

definition limited :: "int option \<Rightarrow> 'a list \<Rightarrow> 'a list" where
  "limited n rows = (case n of None \<Rightarrow> rows | Some k \<Rightarrow> if k = 0 then rows else slice_to k rows)"

section \<open>Operations\<close>

definition doc_create :: "string \<Rightarrow> document \<Rightarrow> doc_store \<Rightarrow> document \<times> doc_store" where
  "doc_create c fs s =
     (let i = next_id s c; d = merge_fields [(''id'', PInt i)] fs
      in (d, \<lparr>ds_data = AList.update c (AList.update i d (doc_table s c)) (ds_data s),
              ds_next = AList.update c (i + 1) (ds_next s)\<rparr>))"

definition doc_insert :: "string \<Rightarrow> string \<Rightarrow> document \<Rightarrow> doc_store \<Rightarrow> document \<times> doc_store" where
  "doc_insert now c fs s =
     doc_create c (merge_fields [(''created_at'', PStr now), (''updated_at'', PStr now)] fs) s"

definition doc_get :: "doc_store \<Rightarrow> string \<Rightarrow> int \<Rightarrow> document option" where
  "doc_get s c i = map_of (doc_table s c) i"

definition doc_find ::
  "doc_store \<Rightarrow> string \<Rightarrow> string option \<Rightarrow> bool \<Rightarrow> int option \<Rightarrow> (string \<times> pyval) list \<Rightarrow>
     document list option" where
  "doc_find s c order_by descending n equals =
     map_option (limited n)
       (sort_docs (case order_by of None \<Rightarrow> ''id'' | Some k \<Rightarrow> if k = [] then ''id'' else k) descending
          (filter (doc_matches equals) (map snd (doc_table s c))))"

text \<open>\<open>None\<close>: the field and the value cannot be compared.\<close>

definition at_most :: "pyval \<Rightarrow> pyval \<Rightarrow> bool option" where
  "at_most a b =
     (case (number_of a, number_of b) of
        (Some x, Some y) \<Rightarrow> Some (x \<le> y)
      | _ \<Rightarrow> (case (text_of a, text_of b) of (Some x, Some y) \<Rightarrow> Some (x \<le> y) | _ \<Rightarrow> None))"

fun docs_at_most :: "string \<Rightarrow> pyval \<Rightarrow> document list \<Rightarrow> document list option" where
  "docs_at_most field v [] = Some []"
| "docs_at_most field v (d # ds) =
     (if dict_get d field = PNone then docs_at_most field v ds
      else case at_most (dict_get d field) v of
             None \<Rightarrow> None
           | Some b \<Rightarrow> map_option (\<lambda>ds'. if b then d # ds' else ds') (docs_at_most field v ds))"

definition doc_find_at_most :: "doc_store \<Rightarrow> string \<Rightarrow> string \<Rightarrow> pyval \<Rightarrow> document list option" where
  "doc_find_at_most s c field v = docs_at_most field v (map snd (doc_table s c))"

definition change_doc :: "string \<Rightarrow> int \<Rightarrow> document \<Rightarrow> document \<Rightarrow> doc_store \<Rightarrow> doc_store" where
  "change_doc c i d changes s = set_table c (AList.update i (merge_fields d changes) (doc_table s c)) s"

definition stamped :: "string \<Rightarrow> document \<Rightarrow> document" where
  "stamped now changes = merge_fields changes [(''updated_at'', PStr now)]"

definition doc_update ::
  "string \<Rightarrow> string \<Rightarrow> int \<Rightarrow> document \<Rightarrow> doc_store \<Rightarrow> document option \<times> doc_store" where
  "doc_update now c i changes s =
     (case doc_get s c i of
        None \<Rightarrow> (None, s)
      | Some d \<Rightarrow> (Some (merge_fields d (stamped now changes)), change_doc c i d (stamped now changes) s))"

definition doc_update_if ::
  "string \<Rightarrow> string \<Rightarrow> int \<Rightarrow> string \<Rightarrow> pyval \<Rightarrow> document \<Rightarrow> doc_store \<Rightarrow> bool \<times> doc_store" where
  "doc_update_if now c i field expected changes s =
     (case doc_get s c i of
        None \<Rightarrow> (False, s)
      | Some d \<Rightarrow>
          if \<not> py_eq (dict_get d field) expected then (False, s)
          else (True, change_doc c i d (stamped now changes) s))"

definition doc_delete :: "string \<Rightarrow> int \<Rightarrow> doc_store \<Rightarrow> bool \<times> doc_store" where
  "doc_delete c i s =
     (if map_of (doc_table s c) i = None then (False, s)
      else (True, set_table c (AList.delete i (doc_table s c)) s))"

definition clear_docs :: "doc_store \<Rightarrow> doc_store" where
  "clear_docs s = empty_docs"

definition doc_count :: "doc_store \<Rightarrow> string \<Rightarrow> (string \<times> pyval) list \<Rightarrow> nat option" where
  "doc_count s c equals = map_option length (doc_find s c None False None equals)"

definition doc_find_one :: "doc_store \<Rightarrow> string \<Rightarrow> (string \<times> pyval) list \<Rightarrow> document option option" where
  "doc_find_one s c equals =
     map_option (\<lambda>rows. case rows of [] \<Rightarrow> None | d # _ \<Rightarrow> Some d) (doc_find s c None False (Some 1) equals)"

text \<open>\<open>_as_int\<close>\<close>

definition as_int :: "pyval \<Rightarrow> int" where
  "as_int v =
     (case v of
        PInt i \<Rightarrow> i
      | PBool b \<Rightarrow> if b then 1 else 0
      | PFloat x \<Rightarrow> if 0 \<le> x then \<lfloor>x\<rfloor> else \<lceil>x\<rceil>
      | PStr s \<Rightarrow> (case py_int s of None \<Rightarrow> -1 | Some i \<Rightarrow> i)
      | _ \<Rightarrow> -1)"

definition row_id :: "document \<Rightarrow> int" where
  "row_id d = as_int (dict_get d ''id'')"

definition doc_delete_where ::
  "string \<Rightarrow> (string \<times> pyval) list \<Rightarrow> doc_store \<Rightarrow> (document list \<times> doc_store) option" where
  "doc_delete_where c equals s =
     map_option (\<lambda>rows. (rows, fold (\<lambda>d. snd \<circ> doc_delete c (row_id d)) rows s)) (doc_find s c None False None equals)"

section \<open>What every reachable store satisfies\<close>

text \<open>Ids ascend, stay below the next one, and every document carries its own.\<close>

definition table_ok :: "int \<Rightarrow> doc_table \<Rightarrow> bool" where
  "table_ok n t \<longleftrightarrow>
     sorted_wrt (<) (map fst t) \<and> list_all (\<lambda>(i, d). i < n \<and> dict_get d ''id'' = PInt i) t"

definition docs_ok :: "string \<Rightarrow> doc_store \<Rightarrow> bool" where
  "docs_ok c s \<longleftrightarrow> table_ok (next_id s c) (doc_table s c)"

definition doc_rows :: "string \<Rightarrow> doc_store \<Rightarrow> document list" where
  "doc_rows c s = map snd (doc_table s c)"

lemma update_fresh: "i \<notin> fst ` set t \<Longrightarrow> AList.update i d t = t @ [(i, d)]"
  by (induction t) auto

lemma table_ok_distinct: "table_ok n t \<Longrightarrow> distinct (map fst t)"
  by (simp add: table_ok_def strict_sorted_iff)

lemma table_ok_append:
  assumes "table_ok n t" "dict_get d ''id'' = PInt n"
  shows "table_ok (n + 1) (t @ [(n, d)])"
  using assms by (auto simp: table_ok_def sorted_wrt_append list_all_iff)

lemma table_ok_ids:
  "table_ok n t \<Longrightarrow> map (\<lambda>d. number_of (dict_get d ''id'')) (map snd t) = map (Some \<circ> of_int \<circ> fst) t"
  by (auto simp: table_ok_def list_all_iff number_of_def)

lemma dict_get_merge_other: "k \<notin> fst ` set e \<Longrightarrow> dict_get (merge_fields d e) k = dict_get d k"
  unfolding merge_fields_def
  by (induction e arbitrary: d) (auto simp: dict_get_def update_conv')

lemma keys_merge: "fst ` set (merge_fields d e) = fst ` set d \<union> fst ` set e"
  unfolding merge_fields_def
  by (induction e arbitrary: d) (auto simp: dom_map_of_conv_image_fst[symmetric] update_conv' split: if_splits)

lemma table_ok_filter: "table_ok n t \<Longrightarrow> table_ok n (filter P t)"
  by (auto simp: table_ok_def list_all_iff sorted_wrt_map sorted_wrt_filter)

lemma table_ok_delete: "table_ok n t \<Longrightarrow> table_ok n (AList.delete i t)"
  by (simp add: AList.delete_eq table_ok_filter)

subsection \<open>Reading by id\<close>

lemma sort_key_ascending:
  fixes k :: "'a \<Rightarrow> 'b::linorder"
  assumes "sorted_wrt (<) (map k xs)"
  shows "sort_key k xs = xs" "sort_desc k xs = rev xs"
proof -
  have s: "sorted (map k xs)" using assms by (rule strict_sorted_imp_sorted)
  then show "sort_key k xs = xs" by (rule sort_key_id_if_sorted)
  have inj: "inj_on k (set xs)" "distinct xs"
    using assms by (simp_all add: strict_sorted_iff distinct_map)
  then have "map k (sort_key k (rev xs)) = map k xs"
    using s by (intro sorted_distinct_set_unique) (simp_all add: distinct_map)
  then have "sort_key k (rev xs) = xs"
    by (rule map_inj_on) (use inj in simp)
  then show "sort_desc k xs = rev xs" by (simp add: sort_desc_def)
qed

lemma sort_docs_by_id:
  assumes "table_ok n t"
  shows "sort_docs ''id'' descending (map snd t) = Some (if descending then rev (map snd t) else map snd t)"
proof -
  let ?k = "\<lambda>d. the (number_of (dict_get d ''id''))"
  have id: "number_of (dict_get d ''id'') = Some (of_int i)" "dict_get d ''id'' \<noteq> PNone" if "(i, d) \<in> set t" for i d
    using assms that by (auto simp: table_ok_def list_all_iff number_of_def)
  have present: "filter (\<lambda>d. dict_get d ''id'' \<noteq> PNone) (map snd t) = map snd t"
    "filter (\<lambda>d. dict_get d ''id'' = PNone) (map snd t) = []"
    using id(2) by (auto simp: filter_empty_conv filter_id_conv)
  have "sorted_wrt (<) (map (rat_of_int \<circ> fst) t)"
    using assms by (simp add: table_ok_def sorted_wrt_map)
  moreover have "map ?k (map snd t) = map (rat_of_int \<circ> fst) t"
    using id(1) by auto
  ultimately have "sorted_wrt (<) (map ?k (map snd t))" by metis
  note sort_key_ascending[OF this]
  moreover have "list_all (\<lambda>d. number_of (dict_get d ''id'') \<noteq> None) (map snd t)"
    using id(1) by (auto simp: list_all_iff)
  ultimately show ?thesis by (simp add: sort_docs_def present Let_def)
qed

lemma find_by_id:
  assumes "docs_ok c s" "order_by = None \<or> order_by = Some ''id''"
  shows "doc_find s c order_by descending n equals =
    Some (limited n ((if descending then rev else id) (filter (doc_matches equals) (doc_rows c s))))"
proof -
  have "table_ok (next_id s c) (filter (doc_matches equals \<circ> snd) (doc_table s c))"
    using assms(1) by (simp add: docs_ok_def table_ok_filter)
  from sort_docs_by_id[OF this, of descending] assms(2) show ?thesis
    by (auto simp: doc_find_def doc_rows_def filter_map)
qed

subsection \<open>Writing\<close>

lemma doc_table_set_table [simp]: "doc_table (set_table c t s) c = t"
  by (simp add: doc_table_def set_table_def update_conv')

lemma insert_rows:
  assumes "docs_ok c s" "''id'' \<notin> fst ` set fs"
  shows "docs_ok c (snd (doc_insert now c fs s))"
    "doc_rows c (snd (doc_insert now c fs s)) = doc_rows c s @ [fst (doc_insert now c fs s)]"
proof -
  let ?i = "next_id s c" and ?t = "doc_table s c" and ?s = "snd (doc_insert now c fs s)"
  let ?d = "fst (doc_insert now c fs s)"
  have fresh: "?i \<notin> fst ` set ?t" using assms(1) by (fastforce simp: docs_ok_def table_ok_def list_all_iff)
  have table: "doc_table ?s c = ?t @ [(?i, ?d)]"
    by (simp add: doc_insert_def doc_create_def doc_table_def Let_def update_conv' update_fresh[OF fresh, unfolded doc_table_def])
  have "''id'' \<notin> fst ` set (merge_fields [(''created_at'', PStr now), (''updated_at'', PStr now)] fs)"
    using assms(2) by (simp add: keys_merge)
  then have id: "dict_get ?d ''id'' = PInt ?i"
    by (simp add: doc_insert_def doc_create_def Let_def dict_get_merge_other) (simp add: dict_get_def)
  have "next_id ?s c = ?i + 1"
    by (simp add: doc_insert_def doc_create_def next_id_def Let_def update_conv')
  then show "docs_ok c ?s" using table id assms(1) by (simp add: docs_ok_def table_ok_append)
  show "doc_rows c ?s = doc_rows c s @ [?d]" by (simp add: doc_rows_def table)
qed

lemma next_id_set_table: "map_of (ds_data s) c \<noteq> None \<Longrightarrow> next_id (set_table c t s) c = next_id s c"
  by (auto simp: next_id_def set_table_def update_conv')

lemma table_exists: "map_of (doc_table s c) i \<noteq> None \<Longrightarrow> map_of (ds_data s) c \<noteq> None"
  by (auto simp: doc_table_def split: option.splits)

lemma delete_rows:
  "doc_table (snd (doc_delete c i s)) c = AList.delete i (doc_table s c)"
  "next_id (snd (doc_delete c i s)) c = next_id s c"
  using table_exists[of s c i]
  by (auto simp: doc_delete_def next_id_set_table map_of_eq_None_iff)

lemma delete_all_rows:
  "doc_table (fold (\<lambda>d. snd \<circ> doc_delete c (row_id d)) ds s) c =
     filter (\<lambda>(i, _). i \<notin> row_id ` set ds) (doc_table s c) \<and>
   next_id (fold (\<lambda>d. snd \<circ> doc_delete c (row_id d)) ds s) c = next_id s c"
proof (induction ds arbitrary: s)
  case (Cons d ds)
  show ?case using Cons.IH[of "snd (doc_delete c (row_id d) s)"]
    by (auto simp: delete_rows AList.delete_eq intro: filter_cong)
qed simp

lemma delete_where_rows:
  assumes "docs_ok c s"
  shows "\<exists>s'. doc_delete_where c equals s = Some (filter (doc_matches equals) (doc_rows c s), s') \<and>
    docs_ok c s' \<and> doc_rows c s' = filter (\<lambda>d. \<not> doc_matches equals d) (doc_rows c s)"
proof -
  let ?rows = "filter (doc_matches equals) (doc_rows c s)"
  let ?s' = "fold (\<lambda>d. snd \<circ> doc_delete c (row_id d)) ?rows s"
  note t = delete_all_rows[of c ?rows s]
  have id: "row_id d = i" if "(i, d) \<in> set (doc_table s c)" for i d
    using assms that by (auto simp: docs_ok_def table_ok_def list_all_iff row_id_def as_int_def)
  have inj: "d = d'" if "(i, d) \<in> set (doc_table s c)" "(i, d') \<in> set (doc_table s c)" for i d d'
    using assms that by (auto simp: docs_ok_def dest: table_ok_distinct eq_key_imp_eq_value)
  have "i \<in> row_id ` set ?rows \<longleftrightarrow> doc_matches equals d" if d: "(i, d) \<in> set (doc_table s c)" for i d
  proof
    assume "i \<in> row_id ` set ?rows"
    then obtain j d' where "(j, d') \<in> set (doc_table s c)" "doc_matches equals d'" "row_id d' = i"
      by (auto simp: doc_rows_def)
    then show "doc_matches equals d" using inj[OF d] id by metis
  next
    assume "doc_matches equals d"
    then have "d \<in> set ?rows" using d by (force simp: doc_rows_def)
    then show "i \<in> row_id ` set ?rows" using id[OF d] by blast
  qed
  then have "filter (\<lambda>(i, _). i \<notin> row_id ` set ?rows) (doc_table s c) =
      filter (\<lambda>(i, d). \<not> doc_matches equals d) (doc_table s c)"
    by (intro filter_cong) auto
  then have "doc_table ?s' c = filter (\<lambda>(i, d). \<not> doc_matches equals d) (doc_table s c)" using t by simp
  then have "docs_ok c ?s'" "doc_rows c ?s' = filter (\<lambda>d. \<not> doc_matches equals d) (doc_rows c s)"
    using conjunct2[OF t] assms unfolding docs_ok_def doc_rows_def
    by (simp_all add: table_ok_filter) (simp add: filter_map comp_def case_prod_beta')
  then show ?thesis
    by (simp add: doc_delete_where_def find_by_id[OF assms] limited_def)
qed

section \<open>A collection used as a log\<close>

text \<open>
  \<open>entries\<close> is the abstract content, oldest first. \<open>newest n\<close> reads the \<open>n\<close> newest entries, newest
  first (all of them when \<open>n\<close> is 0); \<open>remove\<close> deletes the entries of a kind.
\<close>

locale document_log =
  fixes inv :: "'s \<Rightarrow> bool"
    and entries :: "'s \<Rightarrow> 'e list"
    and entry :: "string \<Rightarrow> string \<Rightarrow> 'e"
    and of_kind :: "string \<Rightarrow> 'e \<Rightarrow> bool"
    and append :: "string \<Rightarrow> string \<Rightarrow> 's \<Rightarrow> 's"
    and newest :: "int \<Rightarrow> 's \<Rightarrow> 'e list option"
    and remove :: "string \<Rightarrow> 's \<Rightarrow> 's option"
  assumes append_inv: "inv s \<Longrightarrow> inv (append k v s)"
    and append_entries: "inv s \<Longrightarrow> entries (append k v s) = entries s @ [entry k v]"
    and newest_is: "inv s \<Longrightarrow> newest n s = Some (limited (Some n) (rev (entries s)))"
    and remove_is: "inv s \<Longrightarrow> \<exists>s'. remove k s = Some s' \<and> inv s' \<and>
        entries s' = filter (\<lambda>e. \<not> of_kind k e) (entries s)"
begin

text \<open>Read oldest first, the newest rows are the end of the log.\<close>

lemma newest_suffix:
  assumes "inv s" "0 < n"
  shows "map_option rev (newest n s) = Some (drop (length (entries s) - nat n) (entries s))"
  using assms by (simp add: newest_is limited_def slice_to_take rev_take)

lemma newest_all:
  assumes "inv s" "int (length (entries s)) \<le> n"
  shows "map_option rev (newest n s) = Some (entries s)"
  using assms by (cases "n = 0") (simp_all add: newest_is limited_def slice_to_take)

fun remove_each :: "string list \<Rightarrow> 's \<Rightarrow> 's option" where
  "remove_each [] s = Some s"
| "remove_each (k # ks) s = Option.bind (remove k s) (remove_each ks)"

lemma remove_each_is:
  "inv s \<Longrightarrow> \<exists>s'. remove_each ks s = Some s' \<and> inv s' \<and>
     entries s' = filter (\<lambda>e. \<not> list_ex (\<lambda>k. of_kind k e) ks) (entries s)"
proof (induction ks arbitrary: s)
  case (Cons k ks)
  obtain s1 where s1: "remove k s = Some s1" "inv s1" "entries s1 = filter (\<lambda>e. \<not> of_kind k e) (entries s)"
    using remove_is[OF Cons.prems] by blast
  with Cons.IH[OF s1(2)] show ?case by (auto intro: filter_cong)
qed simp

end

definition row_view :: "document \<Rightarrow> pyval \<times> pyval option" where
  "row_view d = (dict_get d ''kind'', map_of d ''data'')"

definition kind_row :: "string \<Rightarrow> string \<Rightarrow> pyval \<Rightarrow> document" where
  "kind_row kind data owner = [(''kind'', PStr kind), (''data'', PStr data), (''owner_uid'', owner)]"

definition log_append :: "string \<Rightarrow> pyval \<Rightarrow> string \<Rightarrow> string \<Rightarrow> string \<Rightarrow> doc_store \<Rightarrow> doc_store" where
  "log_append now owner c kind data s = snd (doc_insert now c (kind_row kind data owner) s)"

definition log_newest :: "string \<Rightarrow> int \<Rightarrow> doc_store \<Rightarrow> (pyval \<times> pyval option) list option" where
  "log_newest c n s = map_option (map row_view) (doc_find s c (Some ''id'') True (Some n) [])"

definition log_remove :: "string \<Rightarrow> string \<Rightarrow> doc_store \<Rightarrow> doc_store option" where
  "log_remove c kind s = map_option snd (doc_delete_where c [(''kind'', PStr kind)] s)"

definition log_entries :: "string \<Rightarrow> doc_store \<Rightarrow> (pyval \<times> pyval option) list" where
  "log_entries c s = map row_view (doc_rows c s)"

lemma canonical_PStr [simp]: "canonical v = PStr k \<longleftrightarrow> v = PStr k"
  by (cases v) auto

lemma inserted_row:
  "row_view (fst (doc_insert now c (kind_row kind data owner) s)) = (PStr kind, Some (PStr data))"
  by (simp add: doc_insert_def doc_create_def Let_def row_view_def kind_row_def merge_fields_def dict_get_def update_conv')

interpretation doc_log: document_log "docs_ok c" "log_entries c" "\<lambda>k v. (PStr k, Some (PStr v))"
  "\<lambda>k e. fst e = PStr k" "log_append now owner c" "log_newest c" "log_remove c" for now owner c
proof unfold_locales
  fix s k v
  assume ok: "docs_ok c s"
  have free: "''id'' \<notin> fst ` set (kind_row k v owner)" by (simp add: kind_row_def)
  show "docs_ok c (log_append now owner c k v s)"
    by (simp add: log_append_def insert_rows(1)[OF ok free])
  show "log_entries c (log_append now owner c k v s) = log_entries c s @ [(PStr k, Some (PStr v))]"
    by (simp add: log_append_def log_entries_def insert_rows(2)[OF ok free] inserted_row)
next
  fix s n
  assume "docs_ok c s"
  then show "log_newest c n s = Some (limited (Some n) (rev (log_entries c s)))"
    by (simp add: log_newest_def log_entries_def find_by_id doc_matches_def limited_def slice_to_def
        take_map rev_map)
next
  fix s k
  assume "docs_ok c s"
  from delete_where_rows[OF this, of "[(''kind'', PStr k)]"]
  show "\<exists>s'. log_remove c k s = Some s' \<and> docs_ok c s' \<and>
      log_entries c s' = filter (\<lambda>e. \<not> fst e = PStr k) (log_entries c s)"
    by (auto simp: log_remove_def log_entries_def filter_map comp_def row_view_def doc_matches_def py_eq_def)
qed

end
