(* ===== verification/Persistent_Store.thy ===== *)
theory Persistent_Store
  imports Document_Store Memory_Store Py_Json
begin

text \<open>
  The memory that survives restarts, \<^verbatim>\<open>agents/memory/persistent_store.py\<close>: the in-memory
  store with every accepted record also written, as JSON, to the \<open>agent_memory\<close> collection of the
  document store, and rebuilt from the newest rows on construction and on \<open>reload\<close>.

  JSON text is pydantic's: a \<open>json_text\<close> writes a value as text and reads text back. What the
  records look like as JSON values, and how they are validated when read, is modelled. Opening the
  store can crash in Python (a row without data, an unhashable kind); that is None.
\<close>

record json_text =
  jt_dumps :: "pyval \<Rightarrow> string"
  jt_loads :: "string \<Rightarrow> pyval option"

section \<open>Records as JSON values\<close>

datatype memory_item =
    Execution_Item execution_record
  | Element_Item element_record
  | Healing_Item healing_record

fun item_kind :: "memory_item \<Rightarrow> string" where
  "item_kind (Execution_Item _) = ''execution''"
| "item_kind (Element_Item _) = ''element''"
| "item_kind (Healing_Item _) = ''healing''"

definition memory_kinds :: "string list" where
  "memory_kinds = [''execution'', ''element'', ''healing'']"

definition opt_int :: "int option \<Rightarrow> pyval" where
  "opt_int x = (case x of None \<Rightarrow> PNone | Some i \<Rightarrow> PInt i)"

definition failure_info_dump :: "failure_info \<Rightarrow> pyval" where
  "failure_info_dump f = PDict
     [(''error_message'', PStr (fi_error_message f)),
      (''failure_type'', opt_str (map_option failure_type_value (fi_failure_type f))),
      (''failed_step'', opt_int (fi_failed_step f)), (''selector'', opt_str (fi_selector f)),
      (''page_url'', opt_str (fi_page_url f)), (''stack_trace'', opt_str (fi_stack_trace f))]"

definition execution_dump :: "execution_record \<Rightarrow> pyval" where
  "execution_dump r = PDict
     [(''execution_id'', PStr (er_execution_id r)), (''test_id'', PStr (er_test_id r)),
      (''test_name'', PStr (er_test_name r)), (''timestamp'', PStr (er_timestamp r)),
      (''status'', PStr (execution_status_value (er_status r))),
      (''duration_ms'', case er_duration_ms r of None \<Rightarrow> PNone | Some d \<Rightarrow> PFloat d),
      (''failure_info'', case er_failure_info r of None \<Rightarrow> PNone | Some f \<Rightarrow> failure_info_dump f),
      (''metadata'', PDict (er_metadata r))]"

definition healing_dump :: "healing_record \<Rightarrow> pyval" where
  "healing_dump r = PDict
     [(''healing_id'', PStr (hr_healing_id r)), (''test_id'', PStr (hr_test_id r)),
      (''old_selector'', PStr (hr_old_selector r)), (''new_selector'', PStr (hr_new_selector r)),
      (''healing_reason'', PStr (hr_healing_reason r)), (''confidence'', PFloat (hr_confidence r)),
      (''validation_result'', case hr_validation_result r of None \<Rightarrow> PNone | Some b \<Rightarrow> PBool b),
      (''timestamp'', PStr (hr_timestamp r))]"

fun item_dump :: "memory_item \<Rightarrow> pyval" where
  "item_dump (Execution_Item r) = execution_dump r"
| "item_dump (Element_Item r) = element_dump r"
| "item_dump (Healing_Item r) = healing_dump r"

section \<open>Reading them back\<close>

definition lax_bool :: "pyval \<Rightarrow> bool option" where
  "lax_bool v =
     (case v of
        PBool b \<Rightarrow> Some b
      | PInt i \<Rightarrow> if i = 1 then Some True else if i = 0 then Some False else None
      | PFloat x \<Rightarrow> if x = 1 then Some True else if x = 0 then Some False else None
      | PStr s \<Rightarrow>
          if lower s \<in> set [''1'', ''on'', ''t'', ''true'', ''y'', ''yes''] then Some True
          else if lower s \<in> set [''0'', ''off'', ''f'', ''false'', ''n'', ''no''] then Some False
          else None
      | _ \<Rightarrow> None)"

definition failure_info_load :: "number_reader \<Rightarrow> pyval \<Rightarrow> failure_info option" where
  "failure_info_load nr v =
     (case v of
        PDict d \<Rightarrow>
          (case (parse_text d ''error_message'',
                 parse_optional (parse_enum failure_type_members failure_type_value) (dict_get d ''failure_type''),
                 parse_opt_int nr d ''failed_step'', parse_opt_str d ''selector'',
                 parse_opt_str d ''page_url'', parse_opt_str d ''stack_trace'') of
             (Some m, Some ft, Some n, Some sel, Some url, Some trace) \<Rightarrow>
               let f = \<lparr>fi_error_message = m, fi_failure_type = ft, fi_failed_step = n, fi_selector = sel,
                        fi_page_url = url, fi_stack_trace = trace\<rparr>
               in if valid_failure_info f then Some f else None
           | _ \<Rightarrow> None)
      | _ \<Rightarrow> None)"

definition execution_load :: "number_reader \<Rightarrow> string \<Rightarrow> pyval \<Rightarrow> execution_record option" where
  "execution_load nr now v =
     (case v of
        PDict d \<Rightarrow>
          (case (parse_text d ''execution_id'', parse_text d ''test_id'', parse_text d ''test_name'',
                 parse_str_or d ''timestamp'' now,
                 parse_enum execution_status_members execution_status_value (dict_get d ''status''),
                 parse_optional (lax_float nr) (dict_get d ''duration_ms''),
                 parse_optional (failure_info_load nr) (dict_get d ''failure_info''),
                 dict_get_or d ''metadata'' (PDict [])) of
             (Some i, Some t, Some name, Some time, Some status, Some ms, Some info, PDict meta) \<Rightarrow>
               let r = \<lparr>er_execution_id = i, er_test_id = t, er_test_name = name, er_timestamp = time,
                        er_status = status, er_duration_ms = ms, er_failure_info = info, er_metadata = meta\<rparr>
               in if valid_execution_record r then Some r else None
           | _ \<Rightarrow> None)
      | _ \<Rightarrow> None)"

definition healing_load :: "number_reader \<Rightarrow> string \<Rightarrow> pyval \<Rightarrow> healing_record option" where
  "healing_load nr now v =
     (case v of
        PDict d \<Rightarrow>
          (case (parse_text d ''healing_id'', parse_text d ''test_id'', parse_text d ''old_selector'',
                 parse_text d ''new_selector'', parse_str_or d ''healing_reason'' [],
                 lax_float nr (dict_get d ''confidence''),
                 parse_optional lax_bool (dict_get d ''validation_result''), parse_str_or d ''timestamp'' now) of
             (Some i, Some t, Some old, Some new, Some reason, Some c, Some result, Some time) \<Rightarrow>
               let r = \<lparr>hr_healing_id = i, hr_test_id = t, hr_old_selector = old, hr_new_selector = new,
                        hr_healing_reason = reason, hr_confidence = c, hr_validation_result = result,
                        hr_timestamp = time\<rparr>
               in if valid_healing_record r then Some r else None
           | _ \<Rightarrow> None)
      | _ \<Rightarrow> None)"

definition item_load :: "number_reader \<Rightarrow> string \<Rightarrow> string \<Rightarrow> pyval \<Rightarrow> memory_item option" where
  "item_load nr now kind v =
     (if kind = ''execution'' then map_option Execution_Item (execution_load nr now v)
      else if kind = ''element'' then map_option Element_Item (parse_element now v)
      else if kind = ''healing'' then map_option Healing_Item (healing_load nr now v)
      else None)"

fun valid_item :: "memory_item \<Rightarrow> bool" where
  "valid_item (Execution_Item r) = valid_execution_record r"
| "valid_item (Element_Item r) = valid_element_record r"
| "valid_item (Healing_Item r) = valid_healing_record r"

lemma parse_failure_type [simp]:
  "parse_enum failure_type_members failure_type_value (PStr (failure_type_value t)) = Some t"
  by (cases t) (simp_all add: parse_enum_def enum_of_value_def failure_type_members_def)

lemma parse_execution_status [simp]:
  "parse_enum execution_status_members execution_status_value (PStr (execution_status_value t)) = Some t"
  by (cases t) (simp_all add: parse_enum_def enum_of_value_def execution_status_members_def)

lemma failure_info_load_dump:
  "valid_failure_info f \<Longrightarrow> failure_info_load nr (failure_info_dump f) = Some f"
  unfolding failure_info_load_def failure_info_dump_def pyval.case
  by (cases "fi_failure_type f"; cases "fi_failed_step f")
    (simp_all add: parse_opt_str_opt_str dict_get_def parse_text_def parse_optional_def parse_opt_int_def
      opt_int_def opt_str_def lax_int_def valid_failure_info_def parse_opt_str_def split: option.splits)

lemma execution_load_dump:
  assumes "valid_execution_record r" shows "execution_load nr now (execution_dump r) = Some r"
proof -
  have info: "parse_optional (failure_info_load nr)
      (case er_failure_info r of None \<Rightarrow> PNone | Some f \<Rightarrow> failure_info_dump f) = Some (er_failure_info r)"
    using assms failure_info_load_dump[of _ nr]
    by (cases "er_failure_info r")
      (simp_all add: parse_optional_def valid_execution_record_def failure_info_dump_def)
  have ms: "parse_optional (lax_float nr) (case er_duration_ms r of None \<Rightarrow> PNone | Some d \<Rightarrow> PFloat d) =
      Some (er_duration_ms r)"
    by (cases "er_duration_ms r") (simp_all add: parse_optional_def lax_float_def)
  show ?thesis
    using assms info ms unfolding execution_load_def execution_dump_def pyval.case
    by (simp add: dict_get_def dict_get_or_def parse_text_def parse_str_or_def valid_execution_record_def)
qed

lemma healing_load_dump:
  assumes "valid_healing_record r" shows "healing_load nr now (healing_dump r) = Some r"
proof -
  have "parse_optional lax_bool (case hr_validation_result r of None \<Rightarrow> PNone | Some b \<Rightarrow> PBool b) =
      Some (hr_validation_result r)"
    by (cases "hr_validation_result r") (simp_all add: parse_optional_def lax_bool_def)
  then show ?thesis
    using assms unfolding healing_load_def healing_dump_def pyval.case
    by (simp add: dict_get_def dict_get_or_def parse_text_def parse_str_or_def lax_float_def valid_healing_record_def)
qed

lemma item_load_dump: "valid_item x \<Longrightarrow> item_load nr now (item_kind x) (item_dump x) = Some x"
  by (cases x) (simp_all add: item_load_def execution_load_dump healing_load_dump parse_element_dump
      valid_element_record_def)

section \<open>The store\<close>

record persistent_memory =
  pm_memory :: mem_store
  pm_docs :: doc_store
  pm_max :: int

definition memory_collection :: string where
  "memory_collection = ''agent_memory''"

text \<open>\<open>super().store_execution\<close>, \<open>store_element\<close> and \<open>store_healing_record\<close>\<close>

fun remember :: "memory_item \<Rightarrow> mem_store \<Rightarrow> string + mem_store" where
  "remember (Execution_Item r) m = store_execution r m"
| "remember (Element_Item r) m = store_element r m"
| "remember (Healing_Item r) m = store_healing_record r m"

definition persist_item ::
  "json_text \<Rightarrow> string \<Rightarrow> pyval \<Rightarrow> memory_item \<Rightarrow> persistent_memory \<Rightarrow> string + persistent_memory" where
  "persist_item jt now owner x p =
     (case remember x (pm_memory p) of
        Inl e \<Rightarrow> Inl e
      | Inr m \<Rightarrow> Inr (p\<lparr>pm_memory := m,
          pm_docs := log_append now owner memory_collection (item_kind x) (jt_dumps jt (item_dump x)) (pm_docs p)\<rparr>))"

fun remove_kinds :: "string list \<Rightarrow> doc_store \<Rightarrow> doc_store option" where
  "remove_kinds [] s = Some s"
| "remove_kinds (k # ks) s = Option.bind (log_remove memory_collection k s) (remove_kinds ks)"

definition clear_persistent :: "persistent_memory \<Rightarrow> persistent_memory option" where
  "clear_persistent p =
     map_option (\<lambda>d. p\<lparr>pm_memory := clear_store (pm_memory p), pm_docs := d\<rparr>)
       (remove_kinds memory_kinds (pm_docs p))"

section \<open>Replaying the rows\<close>

text \<open>
  One row: skipped when its kind is unknown, its data is not JSON text of a record, or the record
  is refused. \<open>None\<close> is a crash: an unhashable kind, or no data at all.
\<close>

definition replay_row ::
  "json_text \<Rightarrow> number_reader \<Rightarrow> string \<Rightarrow> pyval \<times> pyval option \<Rightarrow> mem_store \<Rightarrow> mem_store option" where
  "replay_row jt nr now row m =
     (case row of
        (PStr k, data) \<Rightarrow>
          if k \<notin> set memory_kinds then Some m
          else (case data of
                  None \<Rightarrow> None
                | Some (PStr text) \<Rightarrow>
                    (case Option.bind (jt_loads jt text) (item_load nr now k) of
                       None \<Rightarrow> Some m
                     | Some x \<Rightarrow> (case remember x m of Inl _ \<Rightarrow> Some m | Inr m' \<Rightarrow> Some m'))
                | Some _ \<Rightarrow> Some m)
      | (PList _, _) \<Rightarrow> None
      | (PDict _, _) \<Rightarrow> None
      | _ \<Rightarrow> Some m)"

fun replay_rows ::
  "json_text \<Rightarrow> number_reader \<Rightarrow> (nat \<Rightarrow> string) \<Rightarrow> nat \<Rightarrow> (pyval \<times> pyval option) list \<Rightarrow>
     mem_store \<Rightarrow> mem_store option" where
  "replay_rows jt nr clock i [] m = Some m"
| "replay_rows jt nr clock i (row # rows) m =
     Option.bind (replay_row jt nr (clock i) row m) (replay_rows jt nr clock (Suc i) rows)"

definition load_memory ::
  "json_text \<Rightarrow> number_reader \<Rightarrow> (nat \<Rightarrow> string) \<Rightarrow> int \<Rightarrow> doc_store \<Rightarrow> mem_store \<Rightarrow> mem_store option" where
  "load_memory jt nr clock n d m =
     Option.bind (log_newest memory_collection n d) (\<lambda>rows. replay_rows jt nr clock 0 (rev rows) m)"

definition open_memory ::
  "json_text \<Rightarrow> number_reader \<Rightarrow> (nat \<Rightarrow> string) \<Rightarrow> int \<Rightarrow> doc_store \<Rightarrow> persistent_memory option" where
  "open_memory jt nr clock n d =
     map_option (\<lambda>m. \<lparr>pm_memory = m, pm_docs = d, pm_max = n\<rparr>) (load_memory jt nr clock n d empty_store)"

definition reload_memory ::
  "json_text \<Rightarrow> number_reader \<Rightarrow> (nat \<Rightarrow> string) \<Rightarrow> persistent_memory \<Rightarrow> persistent_memory option" where
  "reload_memory jt nr clock p =
     map_option (\<lambda>m. p\<lparr>pm_memory := m\<rparr>)
       (load_memory jt nr clock (pm_max p) (pm_docs p) (clear_store (pm_memory p)))"

section \<open>Sequences of operations\<close>

datatype memory_op = Remember string pyval memory_item | Forget

text \<open>A refused record raises and changes nothing; the caller goes on.\<close>

fun memory_step :: "json_text \<Rightarrow> memory_op \<Rightarrow> persistent_memory \<Rightarrow> persistent_memory option" where
  "memory_step jt (Remember now owner x) p =
     (case persist_item jt now owner x p of Inl _ \<Rightarrow> Some p | Inr p' \<Rightarrow> Some p')"
| "memory_step jt Forget p = clear_persistent p"

fun memory_steps :: "json_text \<Rightarrow> memory_op list \<Rightarrow> persistent_memory \<Rightarrow> persistent_memory option" where
  "memory_steps jt [] p = Some p"
| "memory_steps jt (x # xs) p = Option.bind (memory_step jt x p) (memory_steps jt xs)"

text \<open>The specification: the in-memory store alone, and the log of what it accepted.\<close>

definition accepted_item :: "memory_item \<Rightarrow> mem_store \<Rightarrow> mem_store" where
  "accepted_item x m = (case remember x m of Inl _ \<Rightarrow> m | Inr m' \<Rightarrow> m')"

fun memory_spec :: "memory_op \<Rightarrow> mem_store \<Rightarrow> mem_store" where
  "memory_spec (Remember now owner x) m = accepted_item x m"
| "memory_spec Forget m = clear_store m"

definition acceptable :: "memory_item \<Rightarrow> bool" where
  "acceptable x \<longleftrightarrow> (case remember x empty_store of Inl _ \<Rightarrow> False | Inr _ \<Rightarrow> True)"

fun log_spec :: "memory_op \<Rightarrow> memory_item list \<Rightarrow> memory_item list" where
  "log_spec (Remember now owner x) xs = (if acceptable x then xs @ [x] else xs)"
| "log_spec Forget xs = []"

definition replayed :: "memory_item list \<Rightarrow> mem_store" where
  "replayed xs = fold accepted_item xs empty_store"

end
