(* ===== verification/Store_Properties.thy ===== *)
theory Store_Properties
  imports Persistent_Store
begin

text \<open>
  Properties of the document store and of the memory kept in it: ids and rows of a collection,
  the persistent memory as a refinement of the in-memory one, and what a restart restores.
\<close>

section \<open>Accepting and replaying records\<close>

lemma remember_accepts: "(\<exists>m'. remember x m = Inr m') \<longleftrightarrow> acceptable x"
  by (cases x) (auto simp: acceptable_def store_execution_def store_element_def store_healing_record_def
      split: option.splits)

lemma accepted_Inr: "acceptable x \<Longrightarrow> remember x m = Inr (accepted_item x m)"
  using remember_accepts[of x m] by (auto simp: accepted_item_def)

lemma refused_Inl: "\<not> acceptable x \<Longrightarrow> (\<exists>e. remember x m = Inl e) \<and> accepted_item x m = m"
  using remember_accepts[of x m] by (cases "remember x m") (auto simp: accepted_item_def)

lemma item_kind_known [simp]: "item_kind x \<in> set memory_kinds"
  by (cases x) (simp_all add: memory_kinds_def)

definition item_row :: "json_text \<Rightarrow> memory_item \<Rightarrow> pyval \<times> pyval option" where
  "item_row jt x = (PStr (item_kind x), Some (PStr (jt_dumps jt (item_dump x))))"

definition faithful :: "json_text \<Rightarrow> memory_item \<Rightarrow> bool" where
  "faithful jt x \<longleftrightarrow> valid_item x \<and> jt_loads jt (jt_dumps jt (item_dump x)) = Some (item_dump x)"

lemma replay_item_row:
  "faithful jt x \<Longrightarrow> replay_row jt nr now (item_row jt x) m = Some (accepted_item x m)"
  by (auto simp: replay_row_def item_row_def faithful_def item_load_dump accepted_item_def split: sum.splits)

lemma replay_item_rows:
  "list_all (faithful jt) xs \<Longrightarrow>
     replay_rows jt nr clock i (map (item_row jt) xs) m = Some (fold accepted_item xs m)"
  by (induction xs arbitrary: i m) (simp_all add: replay_item_row)

section \<open>One operation\<close>

abbreviation memory_rows :: "persistent_memory \<Rightarrow> (pyval \<times> pyval option) list" where
  "memory_rows p \<equiv> log_entries memory_collection (pm_docs p)"

abbreviation memory_ok :: "persistent_memory \<Rightarrow> bool" where
  "memory_ok p \<equiv> docs_ok memory_collection (pm_docs p)"

lemma remove_kinds_is:
  "docs_ok memory_collection s \<Longrightarrow> \<exists>s'. remove_kinds ks s = Some s' \<and> docs_ok memory_collection s' \<and>
     log_entries memory_collection s' =
       filter (\<lambda>e. \<not> list_ex (\<lambda>k. fst e = PStr k) ks) (log_entries memory_collection s)"
proof -
  have same: "remove_kinds ks s = doc_log.remove_each memory_collection ks s" for s
    by (induction ks arbitrary: s) (simp_all cong: Option.bind_cong)
  show "docs_ok memory_collection s \<Longrightarrow> ?thesis" unfolding same by (rule doc_log.remove_each_is)
qed

text \<open>What an operation does to the rows: a known kind is gone after \<open>Forget\<close>.\<close>

definition known_row :: "pyval \<times> pyval option \<Rightarrow> bool" where
  "known_row e \<longleftrightarrow> list_ex (\<lambda>k. fst e = PStr k) memory_kinds"

fun rows_spec :: "json_text \<Rightarrow> memory_op \<Rightarrow> (pyval \<times> pyval option) list \<Rightarrow> (pyval \<times> pyval option) list" where
  "rows_spec jt (Remember now owner x) rows = (if acceptable x then rows @ [item_row jt x] else rows)"
| "rows_spec jt Forget rows = filter (Not \<circ> known_row) rows"

lemma memory_step_refines:
  assumes "memory_ok p"
  shows "\<exists>p'. memory_step jt x p = Some p' \<and> memory_ok p' \<and> pm_max p' = pm_max p \<and>
    pm_memory p' = memory_spec x (pm_memory p) \<and> memory_rows p' = rows_spec jt x (memory_rows p)"
proof (cases x)
  case (Remember now owner y)
  note append = doc_log.append_inv[OF assms] doc_log.append_entries[OF assms]
  show ?thesis
  proof (cases "acceptable y")
    case True
    then show ?thesis
      using append Remember by (simp add: persist_item_def accepted_Inr item_row_def)
  next
    case False
    then show ?thesis
      using assms refused_Inl[OF False, of "pm_memory p"] Remember by (auto simp: persist_item_def)
  qed
next
  case Forget
  then show ?thesis
    using remove_kinds_is[OF assms, of memory_kinds]
    by (auto simp: clear_persistent_def known_row_def comp_def)
qed

lemma memory_steps_refine:
  assumes "memory_ok p"
  shows "\<exists>p'. memory_steps jt ops p = Some p' \<and> memory_ok p' \<and> pm_max p' = pm_max p \<and>
    pm_memory p' = fold memory_spec ops (pm_memory p) \<and>
    memory_rows p' = fold (rows_spec jt) ops (memory_rows p)"
  using assms
proof (induction ops arbitrary: p)
  case (Cons x ops)
  obtain p1 where p1: "memory_step jt x p = Some p1" "memory_ok p1" "pm_max p1 = pm_max p"
    "pm_memory p1 = memory_spec x (pm_memory p)" "memory_rows p1 = rows_spec jt x (memory_rows p)"
    using memory_step_refines[OF Cons.prems] by blast
  from Cons.IH[OF p1(2)] p1 show ?case by simp
qed simp

section \<open>The persistent memory refines the in-memory one\<close>

definition sample_heal :: "string \<Rightarrow> healing_record" where
  "sample_heal new = \<lparr>hr_healing_id = ''h1'', hr_test_id = ''t1'', hr_old_selector = ''#old'', hr_new_selector = new,
     hr_healing_reason = [], hr_confidence = 1 / 2, hr_validation_result = Some True, hr_timestamp = ''2025''\<rparr>"

definition sample_json :: "memory_item list \<Rightarrow> json_text" where
  "sample_json xs = \<lparr>jt_dumps = pv_repr,
     jt_loads = (\<lambda>t. map_of (map (\<lambda>x. (pv_repr (item_dump x), item_dump x)) xs) t)\<rparr>"

definition sample_items :: "memory_item list" where
  "sample_items = [Healing_Item (sample_heal ''#new''), Healing_Item (sample_heal ''#newer''),
     Healing_Item (sample_heal '' '')]"

definition sample_ops :: "memory_op list" where
  "sample_ops = [Remember ''2025'' PNone (Healing_Item (sample_heal ''#new'')), Forget,
     Remember ''2025'' PNone (Healing_Item (sample_heal '' '')),
     Remember ''2026'' (PStr ''u1'') (Healing_Item (sample_heal ''#newer''))]"

definition opened_memory :: "int \<Rightarrow> persistent_memory" where
  "opened_memory n = \<lparr>pm_memory = empty_store, pm_docs = empty_docs, pm_max = n\<rparr>"

lemma opened_memory_ok: "docs_ok memory_collection (pm_docs (opened_memory n))"
  "log_entries memory_collection (pm_docs (opened_memory n)) = []"
  unfolding opened_memory_def persistent_memory.simps by code_simp+

text \<open>
  C23: Whatever rows the document store holds, the persistent memory answers every sequence of
  stores and clears as the in-memory store does: no operation crashes, each accepts and refuses
  the same records, the indexes are equal at the end, and the collection stays well-formed.
\<close>

theorem persistent_refines_memory:
  assumes "docs_ok memory_collection (pm_docs p)"
  shows "\<exists>p'. memory_steps jt ops p = Some p' \<and> pm_memory p' = fold memory_spec ops (pm_memory p) \<and>
    docs_ok memory_collection (pm_docs p')"
  using memory_steps_refine[OF assms] by blast

lemma persistent_refines_memory_witness:
  "\<exists>p'. memory_steps (sample_json sample_items) sample_ops (opened_memory 5) = Some p' \<and>
     pm_memory p' = empty_store\<lparr>ms_healing := [(''#old'', [sample_heal ''#newer''])]\<rparr>"
proof -
  have "fold memory_spec sample_ops (pm_memory (opened_memory 5)) =
      empty_store\<lparr>ms_healing := [(''#old'', [sample_heal ''#newer''])]\<rparr>"
    by code_simp
  then show ?thesis
    using persistent_refines_memory[OF opened_memory_ok(1), of "sample_json sample_items" sample_ops 5] by auto
qed

section \<open>Restarts\<close>

lemma clear_store_empty: "clear_store m = empty_store"
  by (cases m) (simp add: clear_store_def empty_store_def)

fun op_items :: "memory_op \<Rightarrow> memory_item list" where
  "op_items (Remember now owner x) = [x]"
| "op_items Forget = []"

lemma logged_memory:
  "fold memory_spec ops (replayed xs) = replayed (fold log_spec ops xs)"
proof (induction ops arbitrary: xs)
  case (Cons op ops)
  have "memory_spec op (replayed xs) = replayed (log_spec op xs)"
    using refused_Inl by (cases op) (auto simp: replayed_def clear_store_def empty_store_def)
  then show ?case using Cons.IH by simp
qed simp

lemma logged_rows:
  "fold (rows_spec jt) ops (map (item_row jt) xs) = map (item_row jt) (fold log_spec ops xs)"
proof (induction ops arbitrary: xs)
  case (Cons op ops)
  have "known_row (item_row jt x)" for x by (cases x) (simp_all add: known_row_def item_row_def memory_kinds_def)
  then have "rows_spec jt op (map (item_row jt) xs) = map (item_row jt) (log_spec op xs)"
    by (cases op) (simp_all add: filter_empty_conv)
  then show ?case using Cons.IH by simp
qed simp

lemma logged_faithful:
  "list_all (faithful jt) xs \<Longrightarrow> list_all (faithful jt) (concat (map op_items ops)) \<Longrightarrow>
     list_all (faithful jt) (fold log_spec ops xs)"
proof (induction ops arbitrary: xs)
  case (Cons op ops)
  have "list_all (faithful jt) (log_spec op xs)" using Cons.prems by (cases op) simp_all
  then show ?case using Cons.IH Cons.prems(2) by simp
qed simp

text \<open>
  C24: After any stores and clears on a store that held no memory, the memory is what the accepted
  records since the last clear give, stored in order; and a restart that may read that many rows
  restores it exactly, while one limited to \<open>k\<close> rows restores what the \<open>k\<close> newest records give.
  (Pydantic reads back the text it wrote for each record.)
\<close>

theorem restart_restores_memory:
  assumes "memory_steps jt ops p = Some p'" "pm_memory p = empty_store"
    "docs_ok memory_collection (pm_docs p)" "log_entries memory_collection (pm_docs p) = []"
    "list_all (faithful jt) (concat (map op_items ops))" "0 < k"
  shows "let xs = fold log_spec ops [] in
    pm_memory p' = replayed xs \<and>
    map_option pm_memory (open_memory jt nr clock k (pm_docs p')) = Some (replayed (drop (length xs - nat k) xs)) \<and>
    (int (length xs) \<le> k \<longrightarrow> reload_memory jt nr clock (p'\<lparr>pm_max := k\<rparr>) = Some (p'\<lparr>pm_max := k\<rparr>))"
proof -
  let ?xs = "fold log_spec ops []"
  obtain q where q: "memory_steps jt ops p = Some q" "memory_ok q"
    "pm_memory q = fold memory_spec ops (pm_memory p)" "memory_rows q = fold (rows_spec jt) ops (memory_rows p)"
    using memory_steps_refine[OF assms(3)] by blast
  have mem: "pm_memory p' = replayed ?xs"
    using q assms(1,2) logged_memory[of ops "[]"] by (simp add: replayed_def)
  have rows: "memory_rows p' = map (item_row jt) ?xs"
    using q assms(1,4) logged_rows[of jt ops "[]"] by simp
  have faith: "list_all (faithful jt) ?xs" using logged_faithful[of jt "[]"] assms(5) by simp
  have load: "load_memory jt nr clock k (pm_docs p') empty_store = Some (replayed (drop (length ?xs - nat k) ?xs))"
  proof -
    have "map_option rev (log_newest memory_collection k (pm_docs p')) =
        Some (map (item_row jt) (drop (length ?xs - nat k) ?xs))"
      using doc_log.newest_suffix[of memory_collection "pm_docs p'" k] q(1,2) assms(1,6) rows by (simp add: drop_map)
    moreover have "list_all (faithful jt) (drop (length ?xs - nat k) ?xs)"
      using faith by (auto simp: list_all_iff dest: in_set_dropD)
    ultimately show ?thesis by (auto simp: load_memory_def replay_item_rows replayed_def)
  qed
  then have "reload_memory jt nr clock (p'\<lparr>pm_max := k\<rparr>) = Some (p'\<lparr>pm_max := k\<rparr>)" if "int (length ?xs) \<le> k"
    using that mem by (cases p') (simp add: reload_memory_def clear_store_empty)
  then show ?thesis using mem load by (simp add: open_memory_def option.map_comp comp_def)
qed

lemma restart_restores_memory_witness:
  "\<exists>p'. memory_steps (sample_json sample_items) sample_ops (opened_memory 5) = Some p' \<and>
     map_option pm_memory (open_memory (sample_json sample_items) \<lparr>nr_int = py_int, nr_float = (\<lambda>_. None)\<rparr> (\<lambda>_. ''now'') 1
       (pm_docs p')) = Some (empty_store\<lparr>ms_healing := [(''#old'', [sample_heal ''#newer''])]\<rparr>)"
proof -
  let ?jt = "sample_json sample_items"
  obtain p' where p': "memory_steps ?jt sample_ops (opened_memory 5) = Some p'"
    using memory_steps_refine[OF opened_memory_ok(1)] by blast
  have xs: "fold log_spec sample_ops [] = [Healing_Item (sample_heal ''#newer'')]"
    "replayed [Healing_Item (sample_heal ''#newer'')] = empty_store\<lparr>ms_healing := [(''#old'', [sample_heal ''#newer''])]\<rparr>"
    by code_simp+
  have "list_all (faithful ?jt) (concat (map op_items sample_ops))"
    by code_simp
  from restart_restores_memory[OF p' _ opened_memory_ok this] xs p' show ?thesis
    by (auto simp: Let_def opened_memory_def)
qed

end
