(* ===== verification/Planner_Validation.thy ===== *)
theory Planner_Validation
  imports Planner_Schemas
begin

text \<open>
  The business rules of \<^verbatim>\<open>agents/planner/validation.py\<close>: what an action or a check needs, the
  error lists of steps, test cases, plans and application contexts, references to elements the
  context knows, and duplicate test cases. An error list is empty exactly for what may be run.
\<close>

section \<open>Requirements\<close>

text \<open>Whether an action needs a target and a value.\<close>

fun action_requirements :: "test_action \<Rightarrow> bool \<times> bool" where
  "action_requirements TA_NAVIGATE = (False, True)"
| "action_requirements TA_CLICK = (True, False)"
| "action_requirements TA_FILL = (True, True)"
| "action_requirements TA_SELECT = (True, True)"
| "action_requirements TA_CHECK = (True, False)"
| "action_requirements TA_UNCHECK = (True, False)"
| "action_requirements TA_HOVER = (True, False)"
| "action_requirements TA_UPLOAD = (True, True)"
| "action_requirements TA_DRAG = (True, True)"
| "action_requirements TA_PRESS = (False, True)"
| "action_requirements TA_WAIT = (False, False)"

definition assertions_requiring_target :: "assertion_type list" where
  "assertions_requiring_target =
     [AT_ELEMENT_VISIBLE, AT_ELEMENT_NOT_VISIBLE, AT_ELEMENT_CONTAINS_TEXT, AT_ELEMENT_HAS_TEXT,
      AT_VALUE_EQUALS]"

definition assertions_requiring_expected :: "assertion_type list" where
  "assertions_requiring_expected =
     [AT_ELEMENT_CONTAINS_TEXT, AT_ELEMENT_HAS_TEXT, AT_URL_CONTAINS, AT_URL_EQUALS, AT_VALUE_EQUALS]"

definition error_if :: "bool \<Rightarrow> string \<Rightarrow> string list" where
  "error_if b e = (if b then [e] else [])"

lemma error_if_Nil [simp]: "error_if b e = [] \<longleftrightarrow> \<not> b"
  by (simp add: error_if_def)

section \<open>Steps and test cases\<close>

definition validate_assertion :: "test_assertion \<Rightarrow> string list" where
  "validate_assertion a =
     error_if (as_type a \<in> set assertions_requiring_target \<and> as_target a = [])
       (''Assertion type '' @ quoted (assertion_type_value (as_type a)) @ '' requires a non-empty '' @ quoted ''target'' @ ''.'') @
     error_if (as_type a \<in> set assertions_requiring_expected \<and> as_expected a = [])
       (''Assertion type '' @ quoted (assertion_type_value (as_type a)) @ '' requires a non-empty '' @ quoted ''expected'' @ ''.'')"

definition validate_test_step :: "test_step \<Rightarrow> string list" where
  "validate_test_step st =
     (let act = quoted (test_action_value (ts_action st));
          (target_required, value_required) = action_requirements (ts_action st)
      in error_if (ts_step_number st < 1)
           (''Step number must be >= 1, got '' @ show_int (ts_step_number st) @ ''.'') @
         error_if (target_required \<and> or_empty (ts_target st) = [])
           (''Action '' @ act @ '' requires a non-empty '' @ quoted ''target'' @ ''.'') @
         error_if (value_required \<and> or_empty (ts_value st) = [])
           (''Action '' @ act @ '' requires a non-empty '' @ quoted ''value'' @ ''.'') @
         concat (map validate_assertion (ts_assertions st)))"

fun step_list_errors :: "int list \<Rightarrow> test_step list \<Rightarrow> string list" where
  "step_list_errors seen [] = []"
| "step_list_errors seen (st # sts) =
     error_if (ts_step_number st \<in> set seen)
       (''Duplicate step_number: '' @ show_int (ts_step_number st) @ ''.'') @
     map (\<lambda>e. ''Step '' @ show_int (ts_step_number st) @ '': '' @ e) (validate_test_step st) @
     step_list_errors (ts_step_number st # seen) sts"

definition check_list_errors :: "test_assertion list \<Rightarrow> string list" where
  "check_list_errors as = concat (map (\<lambda>(i, a). map (\<lambda>e. ''Assertion '' @ show_nat (i + 1) @ '': '' @ e)
     (validate_assertion a)) (enumerate 0 as))"

definition validate_test_case :: "test_case \<Rightarrow> string list" where
  "validate_test_case tc =
     error_if (blank (tc_test_id tc)) (''TestCase '' @ quoted ''test_id'' @ '' must not be empty.'') @
     error_if (blank (tc_name tc)) (''TestCase '' @ quoted ''name'' @ '' must not be empty.'') @
     error_if (tc_steps tc = []) ''TestCase must contain at least one step.'' @
     step_list_errors [] (tc_steps tc) @ check_list_errors (tc_assertions tc)"

fun case_list_errors :: "string list \<Rightarrow> test_case list \<Rightarrow> string list" where
  "case_list_errors seen [] = []"
| "case_list_errors seen (tc # tcs) =
     error_if (tc_test_id tc \<in> set seen) (''Duplicate test_id: '' @ quoted (tc_test_id tc) @ ''.'') @
     map (\<lambda>e. ''TestCase '' @ quoted (tc_test_id tc) @ '': '' @ e) (validate_test_case tc) @
     case_list_errors (tc_test_id tc # seen) tcs"

definition validate_test_plan :: "test_plan \<Rightarrow> string list" where
  "validate_test_plan p =
     error_if (blank (tp_application_name p)) (''TestPlan '' @ quoted ''application_name'' @ '' must not be empty.'') @
     case_list_errors [] (tp_test_cases p)"

section \<open>The application\<close>

definition page_errors :: "page_context \<Rightarrow> string list" where
  "page_errors pg =
     error_if (blank (pg_url pg))
       (''Page '' @ quoted (if pg_name pg = [] then ''(unnamed)'' else pg_name pg) @ '' has an empty URL.'') @
     concat (map (\<lambda>e. error_if (blank (ec_tag e))
       (''Page '' @ quoted (pg_name pg) @ '': element has an empty '' @ quoted ''tag'' @ ''.'')) (pg_elements pg))"

definition validate_application_context :: "application_context \<Rightarrow> string list" where
  "validate_application_context ctx =
     error_if (blank (ac_app_name ctx)) (''ApplicationContext '' @ quoted ''app_name'' @ '' must not be empty.'') @
     error_if (blank (ac_app_url ctx)) (''ApplicationContext '' @ quoted ''app_url'' @ '' must not be empty.'') @
     concat (map page_errors (ac_pages ctx))"

section \<open>References to known elements\<close>

definition some_text :: "(string \<Rightarrow> string) \<Rightarrow> string option \<Rightarrow> string list" where
  "some_text f v = (case v of None \<Rightarrow> [] | Some s \<Rightarrow> if s = [] then [] else [f s])"

definition bracketed :: "string \<Rightarrow> string \<Rightarrow> string" where
  "bracketed name v = ''['' @ name @ ''='' @ [CHR 0x22] @ v @ [CHR 0x22] @ '']''"

definition element_selectors :: "element_context \<Rightarrow> string list" where
  "element_selectors e =
     some_text (\<lambda>i. CHR 0x23 # i) (ec_id e) @ some_text (bracketed ''name'') (ec_name e) @
     some_text id (Some (ec_tag e)) @ some_text id (ec_selector e) @
     (case map_of (ec_attributes e) ''data-testid'' of None \<Rightarrow> [] | Some v \<Rightarrow> [bracketed ''data-testid'' v]) @
     some_text id (ec_text e) @ some_text id (ec_placeholder e)"

definition extract_known_selectors :: "application_context \<Rightarrow> string list" where
  "extract_known_selectors ctx =
     concat (map (\<lambda>pg. concat (map element_selectors (pg_elements pg))) (ac_pages ctx))"

definition no_target_actions :: "test_action list" where
  "no_target_actions = [TA_NAVIGATE, TA_PRESS, TA_WAIT]"

definition known_target :: "string list \<Rightarrow> string \<Rightarrow> bool" where
  "known_target known target \<longleftrightarrow> list_ex (\<lambda>s. contains s target \<or> contains target s) known"

definition reference_errors :: "string list \<Rightarrow> test_step \<Rightarrow> string list" where
  "reference_errors known st =
     (case ts_target st of
        None \<Rightarrow> []
      | Some target \<Rightarrow>
          error_if (ts_action st \<notin> set no_target_actions \<and> target \<noteq> [] \<and> \<not> known_target known target)
            (''Step '' @ show_int (ts_step_number st) @ '': target '' @ quoted target @ '' does not '' @
             ''match any known element in the ApplicationContext.''))"

definition validate_element_references :: "test_case \<Rightarrow> application_context \<Rightarrow> string list" where
  "validate_element_references tc ctx =
     (let known = extract_known_selectors ctx
      in if known = [] then [] else concat (map (reference_errors known) (tc_steps tc)))"

section \<open>Duplicates\<close>

definition test_case_signature :: "test_case \<Rightarrow> string" where
  "test_case_signature tc =
     (let actions = join ''|'' (map (\<lambda>s. test_action_value (ts_action s) @ '':'' @ or_empty (ts_target s)) (tc_steps tc))
      in lower (strip (tc_name tc)) @ ''::'' @ lower (test_category_value (tc_category tc)) @ ''::'' @ lower actions)"

fun duplicates_from :: "string list \<Rightarrow> nat \<Rightarrow> test_case list \<Rightarrow> nat list" where
  "duplicates_from seen i [] = []"
| "duplicates_from seen i (tc # tcs) =
     (let sig = test_case_signature tc
      in if sig \<in> set seen then i # duplicates_from seen (Suc i) tcs
         else duplicates_from (seen @ [sig]) (Suc i) tcs)"

definition detect_duplicate_test_cases :: "test_case list \<Rightarrow> nat list" where
  "detect_duplicate_test_cases tcs = duplicates_from [] 0 tcs"

end
