(* ===== verification/Structured_Output.thy ===== *)
theory Structured_Output
  imports Py_Json Planner_Validation
begin

text \<open>
  From the model's JSON to a test plan: \<^verbatim>\<open>agents/planner/structured_output.py\<close>, with the
  pydantic validation of the classes in \<^verbatim>\<open>agents/planner/schemas.py\<close>. Coercion repairs the
  case of the vocabulary words; iterating over a value that is no list, text or object raises in
  Python, and that is None here.
\<close>

section \<open>Cleaning text\<close>

definition code_fence :: string where
  "code_fence = ''```''"

text \<open>The pattern \<open>^```(?:json)?\s*\n?(.*?)\n?\s*```$\<close> on stripped text; its group is stripped afterwards.\<close>

definition unfence :: "string \<Rightarrow> string" where
  "unfence s =
     (if prefix code_fence s \<and> 6 \<le> length s \<and> suffix code_fence s then
        let body = take (length s - 6) (drop 3 s)
        in strip (if prefix ''json'' body then drop 4 body else body)
      else s)"

text \<open>\<open>re.sub(r",\s*([}\]])", r"\1", text)\<close>\<close>

function drop_commas :: "string \<Rightarrow> string" where
  "drop_commas [] = []"
| "drop_commas (c # s) =
     (if c = CHR '','' \<and> lstrip s \<noteq> [] \<and> hd (lstrip s) \<in> set ''}]''
      then hd (lstrip s) # drop_commas (tl (lstrip s))
      else c # drop_commas s)"
  by pat_completeness auto
termination
proof (relation "measure length", simp, goal_cases)
  case (1 c s)
  have "length (tl (lstrip s)) \<le> length s"
    using length_dropWhile_le[of is_space s] by (simp add: lstrip_def)
  then show ?case by simp
qed simp

text \<open>\<open>None\<close>: nothing is left to parse.\<close>

definition clean_json_string :: "string \<Rightarrow> string option" where
  "clean_json_string text =
     (if blank text then None
      else let cleaned = drop_commas (unfence (strip text)) in if cleaned = [] then None else Some cleaned)"

section \<open>Coercion\<close>

definition coerce_word :: "(string \<Rightarrow> string) \<Rightarrow> string list \<Rightarrow> string \<Rightarrow> (string \<times> pyval) list \<Rightarrow> (string \<times> pyval) list" where
  "coerce_word fold_case valid key d =
     (case map_of d key of
        Some (PStr s) \<Rightarrow> if fold_case s \<in> set valid then AList.update key (PStr (fold_case s)) d else d
      | _ \<Rightarrow> d)"

fun all_or_none :: "('a \<Rightarrow> 'b option) \<Rightarrow> 'a list \<Rightarrow> 'b list option" where
  "all_or_none f [] = Some []"
| "all_or_none f (x # xs) = Option.bind (f x) (\<lambda>y. map_option (Cons y) (all_or_none f xs))"

text \<open>\<open>for x in v\<close>, changing the objects of a list in place.\<close>

definition coerce_each :: "(pyval \<Rightarrow> pyval option) \<Rightarrow> pyval \<Rightarrow> pyval option" where
  "coerce_each f v =
     (case v of
        PList vs \<Rightarrow> map_option PList (all_or_none f vs)
      | PStr _ \<Rightarrow> Some v
      | PDict _ \<Rightarrow> Some v
      | _ \<Rightarrow> None)"

definition coerce_field :: "(pyval \<Rightarrow> pyval option) \<Rightarrow> string \<Rightarrow> (string \<times> pyval) list \<Rightarrow> (string \<times> pyval) list option" where
  "coerce_field f key d =
     (case map_of d key of None \<Rightarrow> Some d | Some v \<Rightarrow> map_option (\<lambda>v'. AList.update key v' d) (coerce_each f v))"

definition valid_priorities :: "string list" where
  "valid_priorities = [''CRITICAL'', ''HIGH'', ''MEDIUM'', ''LOW'']"

definition valid_categories :: "string list" where
  "valid_categories = [''functional'', ''negative'', ''boundary'', ''smoke'', ''regression'', ''edge_case'', ''accessibility'']"

definition valid_actions :: "string list" where
  "valid_actions = [''navigate'', ''click'', ''fill'', ''select'', ''check'', ''uncheck'', ''hover'', ''upload'', ''drag'',
     ''press'', ''wait'']"

definition valid_assertion_types :: "string list" where
  "valid_assertion_types = [''element_visible'', ''element_not_visible'', ''element_contains_text'', ''element_has_text'',
     ''url_contains'', ''url_equals'', ''value_equals'']"

definition coerce_assertion :: "pyval \<Rightarrow> pyval option" where
  "coerce_assertion v =
     (case v of PDict d \<Rightarrow> Some (PDict (coerce_word lower valid_assertion_types ''type'' d)) | _ \<Rightarrow> Some v)"

definition coerce_step :: "pyval \<Rightarrow> pyval option" where
  "coerce_step v =
     (case v of
        PDict d \<Rightarrow> map_option PDict (coerce_field coerce_assertion ''assertions'' (coerce_word lower valid_actions ''action'' d))
      | _ \<Rightarrow> Some v)"

definition coerce_case :: "pyval \<Rightarrow> pyval option" where
  "coerce_case v =
     (case v of
        PDict d \<Rightarrow>
          map_option PDict (Option.bind
            (coerce_field coerce_step ''steps''
              (coerce_word lower valid_categories ''category'' (coerce_word upper valid_priorities ''priority'' d)))
            (coerce_field coerce_assertion ''assertions''))
      | _ \<Rightarrow> Some v)"

definition coerce_fields :: "(string \<times> pyval) list \<Rightarrow> (string \<times> pyval) list option" where
  "coerce_fields data = coerce_field coerce_case ''test_cases'' data"

section \<open>Validation of the classes\<close>

definition parse_dict :: "(string \<times> pyval) list \<Rightarrow> string \<Rightarrow> (string \<times> pyval) list option" where
  "parse_dict d key = (case dict_get_or d key (PDict []) of PDict m \<Rightarrow> Some m | _ \<Rightarrow> None)"

definition assertion_load :: "pyval \<Rightarrow> test_assertion option" where
  "assertion_load v =
     (case v of
        PDict d \<Rightarrow>
          (case (parse_enum assertion_type_members assertion_type_value (dict_get d ''type''), parse_str_or d ''target'' [],
                 parse_str_or d ''expected'' [], parse_str_or d ''description'' []) of
             (Some t, Some target, Some expected, Some descr) \<Rightarrow>
               Some \<lparr>as_type = t, as_target = target, as_expected = expected, as_description = descr\<rparr>
           | _ \<Rightarrow> None)
      | _ \<Rightarrow> None)"

definition step_load :: "number_reader \<Rightarrow> pyval \<Rightarrow> test_step option" where
  "step_load nr v =
     (case v of
        PDict d \<Rightarrow>
          (case (lax_int nr (dict_get d ''step_number''),
                 parse_enum test_action_members test_action_value (dict_get d ''action''),
                 parse_opt_str d ''target'', parse_opt_str d ''value'', parse_str_or d ''description'' [],
                 parse_list assertion_load (dict_get_or d ''assertions'' (PList [])),
                 parse_opt_int nr d ''timeout'', parse_dict d ''metadata'') of
             (Some n, Some act, Some target, Some val, Some descr, Some as, Some ms, Some meta) \<Rightarrow>
               let st = \<lparr>ts_step_number = n, ts_action = act, ts_target = target, ts_value = val,
                         ts_description = descr, ts_assertions = as, ts_timeout = ms, ts_metadata = meta\<rparr>
               in if valid_test_step st then Some st else None
           | _ \<Rightarrow> None)
      | _ \<Rightarrow> None)"

definition case_load :: "number_reader \<Rightarrow> pyval \<Rightarrow> test_case option" where
  "case_load nr v =
     (case v of
        PDict d \<Rightarrow>
          (case (dict_get d ''test_id'', dict_get d ''name'', parse_str_or d ''description'' [],
                 parse_enum test_category_members test_category_value (dict_get_or d ''category'' (PStr ''functional'')),
                 parse_enum test_priority_members test_priority_value (dict_get_or d ''priority'' (PStr ''MEDIUM'')),
                 parse_list (step_load nr) (dict_get_or d ''steps'' (PList [])),
                 parse_list assertion_load (dict_get_or d ''assertions'' (PList [])),
                 parse_opt_str d ''page_url'', parse_string_list d ''preconditions'', parse_string_list d ''tags'',
                 parse_opt_str d ''generated_reasoning'') of
             (PStr i, PStr name, Some descr, Some cat, Some pri, Some sts, Some as, Some url, Some pre, Some tags, Some reason) \<Rightarrow>
               Some \<lparr>tc_test_id = i, tc_name = name, tc_description = descr, tc_category = cat, tc_priority = pri,
                     tc_steps = sts, tc_assertions = as, tc_page_url = url, tc_preconditions = pre, tc_tags = tags,
                     tc_generated_reasoning = reason\<rparr>
           | _ \<Rightarrow> None)
      | _ \<Rightarrow> None)"

definition plan_load :: "number_reader \<Rightarrow> string \<Rightarrow> (string \<times> pyval) list \<Rightarrow> test_plan option" where
  "plan_load nr now d =
     (case (dict_get d ''application_name'', parse_str_or d ''base_url'' [], parse_str_or d ''generated_at'' now,
            parse_list (case_load nr) (dict_get_or d ''test_cases'' (PList [])), parse_dict d ''metadata'') of
        (PStr name, Some url, Some time, Some tcs, Some meta) \<Rightarrow>
          Some \<lparr>tp_application_name = name, tp_base_url = url, tp_generated_at = time, tp_test_cases = tcs,
                tp_metadata = meta\<rparr>
      | _ \<Rightarrow> None)"

section \<open>Processing\<close>

datatype output_stage = Cleanup_Stage | Coercion_Stage | Validation_Stage

definition process_output :: "number_reader \<Rightarrow> string \<Rightarrow> pyval \<Rightarrow> output_stage + test_plan" where
  "process_output nr now v =
     (case v of
        PDict d \<Rightarrow>
          (case coerce_fields d of
             None \<Rightarrow> Inl Coercion_Stage
           | Some d' \<Rightarrow> (case plan_load nr now d' of None \<Rightarrow> Inl Validation_Stage | Some p \<Rightarrow> Inr p))
      | _ \<Rightarrow> Inl Validation_Stage)"

definition process_text :: "(string \<Rightarrow> pyval option) \<Rightarrow> number_reader \<Rightarrow> string \<Rightarrow> string \<Rightarrow> output_stage + test_plan" where
  "process_text loads nr now text =
     (case Option.bind (clean_json_string text) loads of
        Some (PDict d) \<Rightarrow> process_output nr now (PDict d)
      | _ \<Rightarrow> Inl Cleanup_Stage)"

end
