(* ===== verification/Test_Priority.thy ===== *)
theory Test_Priority
  imports Planner_Schemas
begin

text \<open>
  \<^verbatim>\<open>agents/planner/prioritization.py\<close>: the score of a test case with its explanation, the stable
  sort by score, and the reasoning added to test cases that have none.
\<close>

section \<open>Weights\<close>

fun priority_weight :: "test_priority \<Rightarrow> nat" where
  "priority_weight TP_CRITICAL = 1000"
| "priority_weight TP_HIGH = 750"
| "priority_weight TP_MEDIUM = 500"
| "priority_weight TP_LOW = 250"

fun category_weight :: "test_category \<Rightarrow> nat" where
  "category_weight TC_FUNCTIONAL = 100"
| "category_weight TC_NEGATIVE = 120"
| "category_weight TC_BOUNDARY = 110"
| "category_weight TC_SMOKE = 80"
| "category_weight TC_REGRESSION = 90"
| "category_weight TC_EDGE_CASE = 95"
| "category_weight TC_ACCESSIBILITY = 70"

definition high_importance_patterns :: "string list" where
  "high_importance_patterns = [''login'', ''signin'', ''sign-in'', ''auth'', ''checkout'', ''payment'', ''purchase'',
     ''register'', ''signup'', ''sign-up'', ''dashboard'', ''admin'']"

definition medium_importance_patterns :: "string list" where
  "medium_importance_patterns = [''profile'', ''account'', ''settings'', ''search'', ''cart'', ''order'']"

definition page_importance :: "string option \<Rightarrow> nat" where
  "page_importance url =
     (if or_empty url = [] then 0
      else let u = lower (or_empty url)
           in if list_ex (\<lambda>p. contains p u) high_importance_patterns then 80
              else if list_ex (\<lambda>p. contains p u) medium_importance_patterns then 40 else 0)"

section \<open>Scores and explanations\<close>

text \<open>\<open>s.split(sep)\<close> for a non-empty separator.\<close>

function split_from :: "string \<Rightarrow> string \<Rightarrow> string \<Rightarrow> string list" where
  "split_from sep cur [] = [cur]"
| "split_from sep cur (c # s) =
     (if prefix sep (c # s) then cur # split_from sep [] (drop (length sep - 1) s)
      else split_from sep (cur @ [c]) s)"
  by pat_completeness auto
termination
  by (relation "measure (\<lambda>(_, _, s). length s)") auto

definition split_on :: "string \<Rightarrow> string \<Rightarrow> string list" where
  "split_on sep s = split_from sep [] s"

record prioritization =
  pz_test_case :: test_case
  pz_score :: nat
  pz_explanation :: string

definition step_bonus :: "test_case \<Rightarrow> nat" where
  "step_bonus tc = min (length (tc_steps tc) * 10) 100"

definition total_assertions :: "test_case \<Rightarrow> nat" where
  "total_assertions tc = length (tc_assertions tc) + sum_list (map (length \<circ> ts_assertions) (tc_steps tc))"

definition assertion_bonus :: "test_case \<Rightarrow> nat" where
  "assertion_bonus tc = min (total_assertions tc * 5) 50"

definition explanation_parts :: "test_case \<Rightarrow> string list" where
  "explanation_parts tc =
     [''Priority '' @ test_priority_value (tc_priority tc) @ '': +'' @ show_nat (priority_weight (tc_priority tc)),
      ''Category '' @ test_category_value (tc_category tc) @ '': +'' @ show_nat (category_weight (tc_category tc))] @
     (if 0 < step_bonus tc
      then [''Step complexity ('' @ show_nat (length (tc_steps tc)) @ '' steps): +'' @ show_nat (step_bonus tc)] else []) @
     (if 0 < page_importance (tc_page_url tc)
      then [''Page importance ('' @ or_empty (tc_page_url tc) @ ''): +'' @ show_nat (page_importance (tc_page_url tc))]
      else []) @
     (if 0 < assertion_bonus tc
      then [''Assertions ('' @ show_nat (total_assertions tc) @ ''): +'' @ show_nat (assertion_bonus tc)] else [])"

definition score_test_case :: "test_case \<Rightarrow> prioritization" where
  "score_test_case tc =
     (let total = priority_weight (tc_priority tc) + category_weight (tc_category tc) + step_bonus tc +
            page_importance (tc_page_url tc) + assertion_bonus tc;
          parts = explanation_parts tc
      in \<lparr>pz_test_case = tc, pz_score = total,
          pz_explanation = ''Score: '' @ show_nat total @ '' = '' @
            join '' + '' (map (\<lambda>e. split_on '': +'' e ! 1) (filter (contains '': +'') parts)) @
            ''. Components: '' @ join ''; '' parts\<rparr>)"

definition prioritize_with_explanations :: "test_case list \<Rightarrow> prioritization list" where
  "prioritize_with_explanations tcs = sort_desc pz_score (map score_test_case tcs)"

definition prioritize :: "test_case list \<Rightarrow> test_case list" where
  "prioritize tcs = map pz_test_case (sort_desc pz_score (map score_test_case tcs))"

section \<open>Reasoning\<close>

fun category_reason :: "test_category \<Rightarrow> string" where
  "category_reason TC_FUNCTIONAL = ''Tests normal expected user workflow.''"
| "category_reason TC_NEGATIVE = ''Tests invalid or incorrect input handling.''"
| "category_reason TC_BOUNDARY = ''Tests edge-case or boundary values.''"
| "category_reason TC_SMOKE = ''Quick sanity check that core feature works.''"
| "category_reason TC_REGRESSION = ''Verifies previously working functionality.''"
| "category_reason TC_EDGE_CASE = ''Tests unusual or extreme conditions.''"
| "category_reason TC_ACCESSIBILITY = ''Verifies accessibility compliance.''"

definition test_reasoning :: "test_case \<Rightarrow> string" where
  "test_reasoning tc =
     (let n = length (tc_steps tc) in join '' ''
       ([category_reason (tc_category tc)] @
        (if tc_priority tc \<in> set [TP_CRITICAL, TP_HIGH]
         then [''Prioritized as '' @ test_priority_value (tc_priority tc) @ '' due to business impact.''] else []) @
        (if or_empty (tc_page_url tc) \<noteq> [] then [''Targets page: '' @ or_empty (tc_page_url tc) @ ''.''] else []) @
        (if 0 < n
         then [''Performs '' @ show_nat n @ '' steps: '' @
               join '', '' (map (test_action_value \<circ> ts_action) (take 3 (tc_steps tc))) @
               (if 3 < n then ''...'' else []) @ ''.''] else [])))"

definition add_test_reasoning :: "test_case list \<Rightarrow> test_case list" where
  "add_test_reasoning tcs =
     map (\<lambda>tc. if or_empty (tc_generated_reasoning tc) \<noteq> [] then tc
               else tc\<lparr>tc_generated_reasoning := Some (test_reasoning tc)\<rparr>) tcs"

section \<open>The order\<close>

lemma score_fields [simp]:
  "pz_test_case (score_test_case tc) = tc"
  "pz_score (score_test_case tc) = priority_weight (tc_priority tc) + category_weight (tc_category tc) + step_bonus tc +
     page_importance (tc_page_url tc) + assertion_bonus tc"
  by (simp_all add: score_test_case_def Let_def)

lemma sort_desc_map: "sort_desc f (map g xs) = map g (sort_desc (f \<circ> g) xs)"
proof -
  have insort: "insort_key f (g x) (map g ys) = map g (insort_key (f \<circ> g) x ys)" for x ys
    by (induction ys) simp_all
  have "sort_key f (map g ys) = map g (sort_key (f \<circ> g) ys)" for ys
    by (induction ys) (simp_all add: insort[unfolded comp_def] comp_def)
  then show ?thesis by (simp add: sort_desc_def rev_map)
qed

lemma prioritize_sorts: "prioritize tcs = sort_desc (pz_score \<circ> score_test_case) tcs"
  by (simp add: prioritize_def sort_desc_map comp_def)

text \<open>The bonuses never lift a test case over one whose priority is two levels higher.\<close>

lemma category_weight_bounds: "70 \<le> category_weight c" "category_weight c \<le> 120"
  by (cases c; simp)+

lemma bonus_bounds: "step_bonus tc \<le> 100" "page_importance u \<le> 80" "assertion_bonus tc \<le> 50"
  by (simp_all add: step_bonus_def page_importance_def assertion_bonus_def Let_def)

lemma score_bounds:
  "priority_weight (tc_priority tc) + 70 \<le> pz_score (score_test_case tc)"
  "pz_score (score_test_case tc) \<le> priority_weight (tc_priority tc) + 350"
  using category_weight_bounds[of "tc_category tc"] bonus_bounds(1,3)[of tc] bonus_bounds(2)[of "tc_page_url tc"]
  by simp_all

end
