(* ===== verification/Test_Planner.thy ===== *)
theory Test_Planner
  imports Structured_Output Test_Priority
begin

text \<open>
  The planner agents of \<^verbatim>\<open>agents/planner/planner.py\<close>: from an application context and the
  model's answer to the test cases that may be run. Both planners share the checks; they differ in
  how they read the answer. The model with its prompt is a parameter: the context and the number of
  tests asked for give a JSON value or fail.
\<close>

datatype planner_error =
    Context_Invalid "string list"
  | LLM_Failed string
  | Response_Invalid string
  | Response_Crash
  | Output_Error output_stage

type_synonym planner_llm = "application_context \<Rightarrow> int \<Rightarrow> string + pyval"

section \<open>Reading the answer\<close>

definition parse_response :: "number_reader \<Rightarrow> string \<Rightarrow> pyval \<Rightarrow> planner_error + test_plan" where
  "parse_response nr now v =
     (case v of
        PDict d0 \<Rightarrow>
          (case coerce_fields d0 of
             None \<Rightarrow> Inl Response_Crash
           | Some d \<Rightarrow>
               (case pv_or (dict_get d ''test_cases'') (PList []) of
                  PList raws \<Rightarrow>
                    let cases = somes (map (case_load nr) raws)
                    in if raws \<noteq> [] \<and> cases = [] then Inl (Response_Invalid ''test_cases'')
                       else (case plan_load nr now (AList.update ''test_cases'' (PList []) d) of
                               None \<Rightarrow> Inl (Response_Invalid ''response'')
                             | Some p \<Rightarrow> Inr (p\<lparr>tp_test_cases := cases\<rparr>))
                | _ \<Rightarrow> Inl (Response_Invalid ''test_cases'')))
      | _ \<Rightarrow> Inl (Response_Invalid ''response''))"

section \<open>Checks\<close>

definition validate_output :: "test_case list \<Rightarrow> test_case list" where
  "validate_output tcs = filter (\<lambda>tc. validate_test_case tc = []) tcs"

definition remove_duplicates :: "test_case list \<Rightarrow> test_case list" where
  "remove_duplicates tcs =
     (let dups = detect_duplicate_test_cases tcs
      in if dups = [] then tcs else map snd (filter (\<lambda>(i, _). i \<notin> set dups) (enumerate 0 tcs)))"

definition validate_element_refs :: "application_context \<Rightarrow> test_case list \<Rightarrow> test_case list" where
  "validate_element_refs ctx tcs = filter (\<lambda>tc. validate_element_references tc ctx = []) tcs"

definition runnable_cases :: "application_context \<Rightarrow> bool \<Rightarrow> test_case list \<Rightarrow> test_case list" where
  "runnable_cases ctx prioritized tcs =
     (let valid = validate_element_refs ctx (remove_duplicates (validate_output tcs))
      in if prioritized then prioritize (add_test_reasoning valid) else valid)"

section \<open>Generating\<close>

definition ask_llm :: "planner_llm \<Rightarrow> application_context \<Rightarrow> int \<Rightarrow> planner_error + pyval" where
  "ask_llm llm ctx max_tests =
     (case validate_application_context ctx of
        [] \<Rightarrow> (case llm ctx max_tests of Inl e \<Rightarrow> Inl (LLM_Failed e) | Inr v \<Rightarrow> Inr v)
      | es \<Rightarrow> Inl (Context_Invalid es))"

definition generate_tests ::
  "planner_llm \<Rightarrow> number_reader \<Rightarrow> string \<Rightarrow> application_context \<Rightarrow> int \<Rightarrow> bool \<Rightarrow> planner_error + test_case list" where
  "generate_tests llm nr now ctx max_tests prioritized =
     (case ask_llm llm ctx max_tests of
        Inl e \<Rightarrow> Inl e
      | Inr v \<Rightarrow>
          (case parse_response nr now v of
             Inl e \<Rightarrow> Inl e
           | Inr p \<Rightarrow> Inr (runnable_cases ctx prioritized (tp_test_cases p))))"

definition langchain_generate_tests ::
  "planner_llm \<Rightarrow> number_reader \<Rightarrow> string \<Rightarrow> application_context \<Rightarrow> int \<Rightarrow> bool \<Rightarrow> planner_error + test_case list" where
  "langchain_generate_tests llm nr now ctx max_tests prioritized =
     (case ask_llm llm ctx max_tests of
        Inl e \<Rightarrow> Inl e
      | Inr v \<Rightarrow>
          (case process_output nr now v of
             Inl e \<Rightarrow> Inl (Output_Error e)
           | Inr p \<Rightarrow> Inr (runnable_cases ctx prioritized (tp_test_cases p))))"

section \<open>The plan\<close>

definition prioritization_notes :: "test_case list \<Rightarrow> pyval" where
  "prioritization_notes tcs =
     str_list (map (\<lambda>r. tc_test_id (pz_test_case r) @ '': '' @ pz_explanation r) (prioritize_with_explanations tcs))"

definition generated_plan ::
  "string \<Rightarrow> string \<Rightarrow> (string \<times> pyval) list \<Rightarrow> application_context \<Rightarrow> int \<Rightarrow> bool \<Rightarrow> test_case list \<Rightarrow> test_plan" where
  "generated_plan provider now extra ctx max_tests prioritized tcs =
     \<lparr>tp_application_name = ac_app_name ctx, tp_base_url = ac_app_url ctx, tp_generated_at = now,
      tp_test_cases = tcs,
      tp_metadata = [(''max_tests_requested'', PInt max_tests), (''provider'', PStr provider)] @ extra @
        [(''prioritized'', PBool prioritized)] @
        (if prioritized then [(''prioritization_explanations'', prioritization_notes tcs)] else [])\<rparr>"

definition generate_test_plan ::
  "planner_llm \<Rightarrow> string \<Rightarrow> number_reader \<Rightarrow> string \<Rightarrow> application_context \<Rightarrow> int \<Rightarrow> bool \<Rightarrow> planner_error + test_plan" where
  "generate_test_plan llm provider nr now ctx max_tests prioritized =
     (case generate_tests llm nr now ctx max_tests prioritized of
        Inl e \<Rightarrow> Inl e
      | Inr tcs \<Rightarrow> Inr (generated_plan provider now [] ctx max_tests prioritized tcs))"

definition langchain_generate_test_plan ::
  "planner_llm \<Rightarrow> string \<Rightarrow> number_reader \<Rightarrow> string \<Rightarrow> application_context \<Rightarrow> int \<Rightarrow> bool \<Rightarrow> planner_error + test_plan" where
  "langchain_generate_test_plan llm provider nr now ctx max_tests prioritized =
     (case langchain_generate_tests llm nr now ctx max_tests prioritized of
        Inl e \<Rightarrow> Inl e
      | Inr tcs \<Rightarrow>
          Inr (generated_plan provider now [(''pipeline'', PStr ''langchain'')] ctx max_tests prioritized tcs))"

end
