(* ===== verification/Planner_Properties.thy ===== *)
theory Planner_Properties
  imports Test_Planner
begin

text \<open>
  Properties of the test planner: which test cases it lets through, where they come from, how they
  are ordered, which answers of the model it survives, and how the two planners compare.
\<close>

section \<open>What the error lists mean\<close>

text \<open>The rules, stated without messages.\<close>

definition runnable_check :: "test_assertion \<Rightarrow> bool" where
  "runnable_check a \<longleftrightarrow>
     (as_type a \<notin> set [AT_URL_CONTAINS, AT_URL_EQUALS] \<longrightarrow> as_target a \<noteq> []) \<and>
     (as_type a \<notin> set [AT_ELEMENT_VISIBLE, AT_ELEMENT_NOT_VISIBLE] \<longrightarrow> as_expected a \<noteq> [])"

definition runnable_step :: "test_step \<Rightarrow> bool" where
  "runnable_step st \<longleftrightarrow>
     1 \<le> ts_step_number st \<and>
     (ts_action st \<notin> set [TA_NAVIGATE, TA_PRESS, TA_WAIT] \<longrightarrow> or_empty (ts_target st) \<noteq> []) \<and>
     (ts_action st \<in> set [TA_NAVIGATE, TA_FILL, TA_SELECT, TA_UPLOAD, TA_DRAG, TA_PRESS] \<longrightarrow> or_empty (ts_value st) \<noteq> []) \<and>
     list_all runnable_check (ts_assertions st)"

definition runnable_case :: "test_case \<Rightarrow> bool" where
  "runnable_case tc \<longleftrightarrow>
     \<not> blank (tc_test_id tc) \<and> \<not> blank (tc_name tc) \<and> tc_steps tc \<noteq> [] \<and>
     distinct (map ts_step_number (tc_steps tc)) \<and> list_all runnable_step (tc_steps tc) \<and>
     list_all runnable_check (tc_assertions tc)"

lemma validate_assertion_Nil: "validate_assertion a = [] \<longleftrightarrow> runnable_check a"
  by (cases "as_type a") (auto simp: validate_assertion_def runnable_check_def assertions_requiring_target_def
      assertions_requiring_expected_def)

lemma validate_step_Nil: "validate_test_step st = [] \<longleftrightarrow> runnable_step st"
proof -
  have "concat (map validate_assertion xs) = [] \<longleftrightarrow> list_all runnable_check xs" for xs
    by (induction xs) (simp_all add: validate_assertion_Nil)
  then show ?thesis
    by (cases "ts_action st") (auto simp: validate_test_step_def runnable_step_def Let_def)
qed

lemma step_list_Nil:
  "step_list_errors seen sts = [] \<longleftrightarrow>
     distinct (map ts_step_number sts) \<and> set (map ts_step_number sts) \<inter> set seen = {} \<and> list_all runnable_step sts"
  by (induction sts arbitrary: seen) (auto simp: validate_step_Nil)

lemma check_list_Nil: "check_list_errors as = [] \<longleftrightarrow> list_all runnable_check as"
proof -
  have "concat (map (\<lambda>(i, a). map (f i) (validate_assertion a)) (enumerate n as)) = [] \<longleftrightarrow> list_all runnable_check as"
    for f :: "nat \<Rightarrow> string \<Rightarrow> string" and n
    by (induction as arbitrary: n) (simp_all add: validate_assertion_Nil)
  then show ?thesis by (simp add: check_list_errors_def)
qed

lemma validate_case_Nil: "validate_test_case tc = [] \<longleftrightarrow> runnable_case tc"
  by (auto simp: validate_test_case_def runnable_case_def step_list_Nil check_list_Nil)

text \<open>What the reference check of targets lets pass.\<close>

definition grounded_step :: "application_context \<Rightarrow> test_step \<Rightarrow> bool" where
  "grounded_step ctx st \<longleftrightarrow>
     ts_action st \<in> set [TA_NAVIGATE, TA_PRESS, TA_WAIT] \<or> or_empty (ts_target st) = [] \<or>
     extract_known_selectors ctx = [] \<or>
     (\<exists>s \<in> set (extract_known_selectors ctx). sublist s (or_empty (ts_target st)) \<or> sublist (or_empty (ts_target st)) s)"

lemma references_Nil: "validate_element_references tc ctx = [] \<longleftrightarrow> list_all (grounded_step ctx) (tc_steps tc)"
proof -
  have "reference_errors (extract_known_selectors ctx) st = [] \<longleftrightarrow> grounded_step ctx st"
    if "extract_known_selectors ctx \<noteq> []" for st
    using that by (auto simp: reference_errors_def grounded_step_def known_target_def list_ex_iff contains_iff_sublist
        no_target_actions_def or_empty_def split: option.splits)
  then show ?thesis
    by (auto simp: validate_element_references_def Let_def grounded_step_def list_all_iff)
qed

section \<open>Duplicates\<close>

lemma duplicates_bound: "j \<in> set (duplicates_from seen i tcs) \<Longrightarrow> i \<le> j"
  by (induction tcs arbitrary: seen i) (fastforce simp: Let_def split: if_splits)+

text \<open>What is left when the cases at the reported positions go.\<close>

definition kept_from :: "nat list \<Rightarrow> nat \<Rightarrow> test_case list \<Rightarrow> test_case list" where
  "kept_from dups i tcs = map snd (filter (\<lambda>(j, _). j \<notin> set dups) (enumerate i tcs))"

lemma kept_later: "i < j \<Longrightarrow> kept_from (i # dups) j tcs = kept_from dups j tcs"
  unfolding kept_from_def by (intro arg_cong[where f = "map snd"] filter_cong) (auto simp: in_set_enumerate_eq)

fun first_of_signature :: "string set \<Rightarrow> test_case list \<Rightarrow> test_case list" where
  "first_of_signature seen [] = []"
| "first_of_signature seen (tc # tcs) =
     (if test_case_signature tc \<in> seen then first_of_signature seen tcs
      else tc # first_of_signature (insert (test_case_signature tc) seen) tcs)"

lemma kept_first: "kept_from (duplicates_from seen i tcs) i tcs = first_of_signature (set seen) tcs"
proof (induction tcs arbitrary: seen i)
  case (Cons tc tcs)
  show ?case
  proof (cases "test_case_signature tc \<in> set seen")
    case True
    then have "kept_from (duplicates_from seen i (tc # tcs)) i (tc # tcs) =
        kept_from (i # duplicates_from seen (Suc i) tcs) (Suc i) tcs"
      by (simp add: kept_from_def Let_def)
    then show ?thesis using True Cons.IH by (simp add: kept_later)
  next
    case False
    then have "i \<notin> set (duplicates_from (seen @ [test_case_signature tc]) (Suc i) tcs)"
      using duplicates_bound by fastforce
    then show ?thesis using False Cons.IH[of "seen @ [test_case_signature tc]" "Suc i"]
      by (simp add: kept_from_def Let_def)
  qed
qed (simp add: kept_from_def)

lemma remove_duplicates_first: "remove_duplicates tcs = first_of_signature {} tcs"
proof -
  have "kept_from [] 0 tcs = tcs" by (simp add: kept_from_def)
  then show ?thesis
    using kept_first[of "[]" 0 tcs]
    by (auto simp: remove_duplicates_def detect_duplicate_test_cases_def Let_def kept_from_def[symmetric])
qed

lemma first_of_signature_props:
  "set (first_of_signature seen tcs) \<subseteq> set tcs"
  "distinct (map test_case_signature (first_of_signature seen tcs))"
  "test_case_signature ` set (first_of_signature seen tcs) = test_case_signature ` set tcs - seen"
  by (induction tcs arbitrary: seen) auto

section \<open>What the planner returns\<close>

definition answered_cases :: "pyval \<Rightarrow> pyval list" where
  "answered_cases v =
     (case v of
        PDict d \<Rightarrow> (case coerce_fields d of
                      None \<Rightarrow> []
                    | Some d' \<Rightarrow> (case dict_get d' ''test_cases'' of PList raws \<Rightarrow> raws | _ \<Rightarrow> []))
      | _ \<Rightarrow> [])"

definition written_in :: "number_reader \<Rightarrow> pyval \<Rightarrow> test_case \<Rightarrow> bool" where
  "written_in nr v tc \<longleftrightarrow>
     (\<exists>raw \<in> set (answered_cases v). \<exists>tc0. case_load nr raw = Some tc0 \<and>
        tc = tc0\<lparr>tc_generated_reasoning := tc_generated_reasoning tc\<rparr>)"

lemma parse_list_Some: "parse_list f v = Some xs \<Longrightarrow> \<exists>vs. v = PList vs \<and> map f vs = map Some xs"
  by (auto simp: parse_list_def list_all_iff split: pyval.splits if_splits)

lemma parsed_written:
  assumes "parse_response nr now v = Inr p" "tc \<in> set (tp_test_cases p)" shows "written_in nr v tc"
proof -
  obtain d d' raws where d: "v = PDict d" "coerce_fields d = Some d'" "pv_or (dict_get d' ''test_cases'') (PList []) = PList raws"
    "tp_test_cases p = somes (map (case_load nr) raws)"
    using assms(1) by (auto simp: parse_response_def Let_def split: pyval.splits option.splits if_splits)
  then obtain raw where raw: "raw \<in> set raws" "case_load nr raw = Some tc"
    using assms(2) by (auto simp: set_somes)
  have "answered_cases v = raws"
    using d(1-3) raw(1) by (auto simp: answered_cases_def pv_or_def split: if_splits)
  moreover have "tc = tc\<lparr>tc_generated_reasoning := tc_generated_reasoning tc\<rparr>" by simp
  ultimately show ?thesis using raw unfolding written_in_def by blast
qed

lemma plan_load_update:
  assumes "plan_load nr now d = Some p"
  shows "\<exists>p'. plan_load nr now (AList.update ''test_cases'' (PList []) d) = Some p'"
proof -
  let ?d = "AList.update ''test_cases'' (PList []) d"
  have "map_of ?d k = map_of d k" if "k \<noteq> ''test_cases''" for k
    using that by (simp add: update_conv')
  then have same: "dict_get ?d k = dict_get d k" "dict_get_or ?d k x = dict_get_or d k x" if "k \<noteq> ''test_cases''" for k x
    using that by (simp_all add: dict_get_def dict_get_or_def)
  have "parse_list (case_load nr) (dict_get_or ?d ''test_cases'' (PList [])) = Some []"
    by (simp add: dict_get_or_def update_conv' parse_list_def)
  moreover obtain name where "dict_get d ''application_name'' = PStr name"
    "parse_str_or d ''base_url'' [] \<noteq> None" "parse_str_or d ''generated_at'' now \<noteq> None" "parse_dict d ''metadata'' \<noteq> None"
    using assms unfolding plan_load_def by (cases "dict_get d ''application_name''") (auto split: option.splits)
  ultimately show ?thesis
    by (auto simp: plan_load_def parse_str_or_def parse_dict_def same)
qed

lemma processed_parsed:
  assumes "process_output nr now v = Inr p"
  shows "\<exists>p'. parse_response nr now v = Inr p' \<and> tp_test_cases p' = tp_test_cases p"
proof -
  obtain d d' where d: "v = PDict d" "coerce_fields d = Some d'" "plan_load nr now d' = Some p"
    using assms by (auto simp: process_output_def split: pyval.splits option.splits)
  define cases where "cases = dict_get_or d' ''test_cases'' (PList [])"
  have "parse_list (case_load nr) cases = Some (tp_test_cases p)"
    using d(3) by (auto simp: plan_load_def cases_def split: pyval.splits option.splits)
  then obtain raws where raws: "cases = PList raws" "map (case_load nr) raws = map Some (tp_test_cases p)"
    using parse_list_Some by blast
  have plan: "\<exists>p'. plan_load nr now (AList.update ''test_cases'' (PList []) d') = Some p'"
    by (rule plan_load_update[OF d(3)])
  have "pv_or (dict_get d' ''test_cases'') (PList []) = PList raws"
    using raws(1) by (auto simp: cases_def pv_or_def dict_get_def dict_get_or_def split: option.splits)
  moreover have "somes (map Some xs) = xs" for xs :: "test_case list" by (induction xs) simp_all
  moreover have "raws = [] \<or> tp_test_cases p \<noteq> []" using raws(2) by auto
  ultimately show ?thesis
    using d(1,2) raws(2) plan by (auto simp: parse_response_def Let_def)
qed

lemma runnable_cases_from:
  assumes "tc \<in> set (runnable_cases ctx prioritized tcs)"
  shows "runnable_case tc" "list_all (grounded_step ctx) (tc_steps tc)"
    "\<exists>tc0 \<in> set tcs. tc = tc0\<lparr>tc_generated_reasoning := tc_generated_reasoning tc\<rparr>"
proof -
  obtain tc0 where tc0: "tc0 \<in> set tcs" "runnable_case tc0" "list_all (grounded_step ctx) (tc_steps tc0)"
    "tc = tc0\<lparr>tc_generated_reasoning := tc_generated_reasoning tc\<rparr>"
  proof -
    have kept: "x \<in> set tcs \<and> runnable_case x \<and> list_all (grounded_step ctx) (tc_steps x)"
      if "x \<in> set (validate_element_refs ctx (remove_duplicates (validate_output tcs)))" for x
      using that subsetD[OF first_of_signature_props(1), of x "{}" "filter runnable_case tcs"]
      by (auto simp: validate_element_refs_def remove_duplicates_first validate_output_def references_Nil validate_case_Nil)
    have "\<exists>x r. x \<in> set (validate_element_refs ctx (remove_duplicates (validate_output tcs))) \<and>
        (tc = x \<or> tc = x\<lparr>tc_generated_reasoning := r\<rparr>)"
      using assms by (auto simp: runnable_cases_def Let_def prioritize_sorts add_test_reasoning_def split: if_splits)
    then obtain x r where x: "x \<in> set (validate_element_refs ctx (remove_duplicates (validate_output tcs)))"
      "tc = x \<or> tc = x\<lparr>tc_generated_reasoning := r\<rparr>" by blast
    have "tc = x\<lparr>tc_generated_reasoning := tc_generated_reasoning tc\<rparr>" using x(2) by auto
    then show thesis using that kept[OF x(1)] by blast
  qed
  then show "\<exists>tc0 \<in> set tcs. tc = tc0\<lparr>tc_generated_reasoning := tc_generated_reasoning tc\<rparr>" by blast
  have "tc_test_id tc = tc_test_id tc0" "tc_name tc = tc_name tc0" "tc_steps tc = tc_steps tc0"
    "tc_assertions tc = tc_assertions tc0"
    using arg_cong[OF tc0(4), of tc_test_id] arg_cong[OF tc0(4), of tc_name] arg_cong[OF tc0(4), of tc_steps]
      arg_cong[OF tc0(4), of tc_assertions] by simp_all
  then show "runnable_case tc" "list_all (grounded_step ctx) (tc_steps tc)"
    using tc0(2,3) by (simp_all add: runnable_case_def)
qed

lemma runnable_cases_distinct: "distinct (map test_case_signature (runnable_cases ctx prioritized tcs))"
proof -
  have sig: "test_case_signature (tc\<lparr>tc_generated_reasoning := r\<rparr>) = test_case_signature tc" for tc r
    by (simp add: test_case_signature_def)
  have "distinct (map test_case_signature (validate_element_refs ctx (remove_duplicates (validate_output tcs))))"
    using first_of_signature_props(2)[of "{}" "validate_output tcs"]
    by (simp add: validate_element_refs_def remove_duplicates_first distinct_map_filter)
  moreover have "map test_case_signature (add_test_reasoning xs) = map test_case_signature xs" for xs
    by (simp add: add_test_reasoning_def sig)
  moreover have "distinct (map f (sort_desc k xs)) \<longleftrightarrow> distinct (map f xs)" for f :: "test_case \<Rightarrow> string" and k :: "test_case \<Rightarrow> nat" and xs
    by (metis mset_eq_imp_distinct_iff mset_map mset_sort_desc)
  ultimately show ?thesis by (simp add: runnable_cases_def Let_def prioritize_sorts)
qed

text \<open>
  C29: Every test case either planner returns may be run: it has an id, a name and steps with
  pairwise different numbers, every step and check has the target and value its kind needs, no two cases
  have the same signature (name, category, and actions with their targets, in lower case), and each case was written in the model's answer. The target of a step passes
  the reference check of the context, which is weaker than naming a known element: navigation, key presses
  and waits are not checked, nothing is when the context has no selectors, and a target passes when it
  contains a known selector or is contained in one (so a tag name such as a lets every target with that
  letter pass).
\<close>

theorem planned_tests_runnable:
  assumes "generate_tests llm nr now ctx n prioritized = Inr tcs \<or>
    langchain_generate_tests llm nr now ctx n prioritized = Inr tcs"
  shows "list_all (\<lambda>tc. runnable_case tc \<and> list_all (grounded_step ctx) (tc_steps tc)) tcs \<and>
    distinct (map test_case_signature tcs) \<and>
    (\<exists>v. llm ctx n = Inr v \<and> list_all (written_in nr v) tcs)"
proof -
  obtain v p where v: "llm ctx n = Inr v" "parse_response nr now v = Inr p"
    "tcs = runnable_cases ctx prioritized (tp_test_cases p)"
    using assms processed_parsed[of nr now]
    by (fastforce simp: generate_tests_def langchain_generate_tests_def ask_llm_def split: sum.splits list.splits)
  have "written_in nr v tc" if tc: "tc \<in> set tcs" for tc
  proof -
    obtain tc0 where tc0: "tc0 \<in> set (tp_test_cases p)" "tc = tc0\<lparr>tc_generated_reasoning := tc_generated_reasoning tc\<rparr>"
      using tc runnable_cases_from(3) unfolding v(3) by metis
    obtain raw tc1 where raw: "raw \<in> set (answered_cases v)" "case_load nr raw = Some tc1"
      "tc0 = tc1\<lparr>tc_generated_reasoning := tc_generated_reasoning tc0\<rparr>"
      using parsed_written[OF v(2) tc0(1)] by (auto simp: written_in_def)
    have "tc = tc1\<lparr>tc_generated_reasoning := tc_generated_reasoning tc\<rparr>"
      by (subst tc0(2), subst raw(3)) simp
    then show ?thesis using raw(1,2) unfolding written_in_def by blast
  qed
  then show ?thesis
    using v(1,3) runnable_cases_from(1,2) runnable_cases_distinct by (auto simp: list_all_iff)
qed

definition sample_context :: application_context where
  "sample_context = \<lparr>ac_app_name = ''Shop'', ac_app_url = ''http://shop/'', ac_description = [],
     ac_pages = [\<lparr>pg_url = ''/login'', pg_name = ''Login'', pg_title = [], pg_description = [],
        pg_elements = [\<lparr>ec_tag = ''input'', ec_id = Some ''email'', ec_name = None, ec_type = None, ec_role = None,
          ec_text = None, ec_placeholder = None, ec_classes = [], ec_attributes = [], ec_selector = None,
          ec_visible = None, ec_interactable = None\<rparr>], pg_forms = [], pg_navigation_elements = []\<rparr>],
     ac_technology_stack = [], ac_metadata = []\<rparr>"

definition case_value :: "string \<Rightarrow> string \<Rightarrow> string \<Rightarrow> pyval" where
  "case_value i name target = PDict
     [(''test_id'', PStr i), (''name'', PStr name), (''priority'', PStr ''high''),
      (''steps'', PList [PDict [(''step_number'', PInt 1), (''action'', PStr ''Fill''), (''target'', PStr target),
         (''value'', PStr ''a@b.c'')]])]"

definition answer_of :: "pyval list \<Rightarrow> (string \<times> pyval) list" where
  "answer_of cases = [(''application_name'', PStr ''Shop''), (''test_cases'', PList cases)]"

definition plain_numbers :: number_reader where
  "plain_numbers = \<lparr>nr_int = py_int, nr_float = (\<lambda>_. None)\<rparr>"

definition sample_llm :: planner_llm where
  "sample_llm ctx n = Inr (PDict (answer_of [case_value ''T1'' ''Fill in'' ''#email'', case_value ''T2'' '' fill IN'' ''#email'']))"

lemma planned_tests_runnable_witness:
  "\<exists>tc. generate_tests sample_llm plain_numbers ''now'' sample_context 10 True = Inr [tc] \<and> tc_test_id tc = ''T1'' \<and>
     tc_priority tc = TP_HIGH \<and> runnable_case tc"
proof -
  have "case generate_tests sample_llm plain_numbers ''now'' sample_context 10 True of
      Inr [tc] \<Rightarrow> tc_test_id tc = ''T1'' \<and> tc_priority tc = TP_HIGH | _ \<Rightarrow> False"
    by code_simp
  then obtain tc where tc: "generate_tests sample_llm plain_numbers ''now'' sample_context 10 True = Inr [tc]"
    "tc_test_id tc = ''T1''" "tc_priority tc = TP_HIGH"
    by (auto split: sum.splits list.splits)
  show ?thesis
    using tc planned_tests_runnable[of sample_llm plain_numbers "''now''" sample_context 10 True "[tc]"] by simp
qed

text \<open>
  The two planners agree: whatever the strict one returns for an answer, the lenient one
  returns as well (it only goes on where the other gives up).
\<close>

theorem planners_agree:
  assumes "langchain_generate_tests llm nr now ctx n prioritized = Inr tcs"
  shows "generate_tests llm nr now ctx n prioritized = Inr tcs"
proof -
  obtain v p where v: "ask_llm llm ctx n = Inr v" "process_output nr now v = Inr p"
    "tcs = runnable_cases ctx prioritized (tp_test_cases p)"
    using assms by (auto simp: langchain_generate_tests_def split: sum.splits)
  with processed_parsed[OF v(2)] show ?thesis by (auto simp: generate_tests_def)
qed

definition single_llm :: planner_llm where
  "single_llm ctx n = Inr (PDict (answer_of [case_value ''T1'' ''Fill in'' ''#email'']))"

lemma single_answer:
  "case langchain_generate_tests single_llm plain_numbers ''now'' sample_context 1 False of
     Inr tcs \<Rightarrow> length tcs = 1 | Inl _ \<Rightarrow> False"
  by code_simp

lemma planners_agree_witness:
  "\<exists>tcs. langchain_generate_tests single_llm plain_numbers ''now'' sample_context 1 False = Inr tcs \<and>
     generate_tests single_llm plain_numbers ''now'' sample_context 1 False = Inr tcs \<and> length tcs = 1"
proof -
  obtain tcs where tcs: "langchain_generate_tests single_llm plain_numbers ''now'' sample_context 1 False = Inr tcs"
    "length tcs = 1"
    using single_answer by (auto split: sum.splits)
  with planners_agree[OF tcs(1)] show ?thesis by blast
qed

section \<open>Answers that cannot be read\<close>

definition walkable :: "pyval \<Rightarrow> bool" where
  "walkable v \<longleftrightarrow> (case v of PList _ \<Rightarrow> True | PStr _ \<Rightarrow> True | PDict _ \<Rightarrow> True | _ \<Rightarrow> False)"

definition items_of :: "pyval \<Rightarrow> pyval list" where
  "items_of v = (case v of PList vs \<Rightarrow> vs | _ \<Rightarrow> [])"

definition field_walkable :: "(pyval \<Rightarrow> bool) \<Rightarrow> string \<Rightarrow> (string \<times> pyval) list \<Rightarrow> bool" where
  "field_walkable P key d \<longleftrightarrow>
     (case map_of d key of None \<Rightarrow> True | Some v \<Rightarrow> walkable v \<and> list_all P (items_of v))"

definition walkable_step :: "pyval \<Rightarrow> bool" where
  "walkable_step v \<longleftrightarrow> (case v of PDict d \<Rightarrow> field_walkable (\<lambda>_. True) ''assertions'' d | _ \<Rightarrow> True)"

definition walkable_case :: "pyval \<Rightarrow> bool" where
  "walkable_case v \<longleftrightarrow>
     (case v of
        PDict d \<Rightarrow> field_walkable walkable_step ''steps'' d \<and> field_walkable (\<lambda>_. True) ''assertions'' d
      | _ \<Rightarrow> True)"

lemma all_or_none_ne: "all_or_none f xs \<noteq> None \<longleftrightarrow> list_all (\<lambda>x. f x \<noteq> None) xs"
  by (induction xs) (auto split: Option.bind_splits)

lemma coerce_field_ne:
  "coerce_field f key d \<noteq> None \<longleftrightarrow> field_walkable (\<lambda>x. f x \<noteq> None) key d"
proof -
  have "coerce_each f v \<noteq> None \<longleftrightarrow> walkable v \<and> list_all (\<lambda>x. f x \<noteq> None) (items_of v)" for v
    using all_or_none_ne[of f] by (cases v) (simp_all add: coerce_each_def walkable_def items_of_def)
  then show ?thesis by (auto simp: coerce_field_def field_walkable_def split: option.splits)
qed

lemma map_of_coerce_word: "k \<noteq> key \<Longrightarrow> map_of (coerce_word f valid key d) k = map_of d k"
  by (auto simp: coerce_word_def update_conv' split: option.splits pyval.splits)

lemma map_of_coerce_field: "coerce_field f key d = Some d' \<Longrightarrow> k \<noteq> key \<Longrightarrow> map_of d' k = map_of d k"
  by (auto simp: coerce_field_def update_conv' split: option.splits)

lemma coerce_assertion_total [simp]: "coerce_assertion v \<noteq> None"
  by (cases v) (simp_all add: coerce_assertion_def)

lemma coerce_step_ne: "coerce_step v \<noteq> None \<longleftrightarrow> walkable_step v"
  using coerce_field_ne[of coerce_assertion "''assertions''"]
  by (cases v) (simp_all add: coerce_step_def walkable_step_def field_walkable_def map_of_coerce_word)

lemma coerce_steps_ne: "coerce_field coerce_step key d = None \<longleftrightarrow> \<not> field_walkable walkable_step key d"
  using coerce_field_ne[of coerce_step key d] unfolding coerce_step_ne by blast

lemma coerce_assertions_ne:
  "coerce_field coerce_assertion key d = None \<longleftrightarrow> \<not> field_walkable (\<lambda>_. True) key d"
  using coerce_field_ne[of coerce_assertion key d] unfolding eqTrueI[OF coerce_assertion_total] by blast

lemma field_walkable_cong: "map_of d key = map_of d' key \<Longrightarrow> field_walkable P key d = field_walkable P key d'"
  by (simp add: field_walkable_def)

lemma coerce_case_ne: "coerce_case v \<noteq> None \<longleftrightarrow> walkable_case v"
proof (cases v)
  case (PDict d)
  let ?d = "coerce_word lower valid_categories ''category'' (coerce_word upper valid_priorities ''priority'' d)"
  have steps: "coerce_field coerce_step ''steps'' ?d = None \<longleftrightarrow> \<not> field_walkable walkable_step ''steps'' d"
    unfolding coerce_steps_ne by (simp add: field_walkable_cong[of ?d _ d] map_of_coerce_word)
  have checks: "coerce_field coerce_assertion ''assertions'' d' = None \<longleftrightarrow> \<not> field_walkable (\<lambda>_. True) ''assertions'' d"
    if "coerce_field coerce_step ''steps'' ?d = Some d'" for d'
    unfolding coerce_assertions_ne
    by (simp add: field_walkable_cong[of d' _ d] map_of_coerce_field[OF that] map_of_coerce_word)
  show ?thesis
    using PDict steps checks by (cases "coerce_field coerce_step ''steps'' ?d")
      (simp_all add: coerce_case_def walkable_case_def)
qed (simp_all add: coerce_case_def walkable_case_def)

text \<open>
  C30: Reading an answer crashes exactly when \<open>test_cases\<close>, the \<open>steps\<close> or \<open>assertions\<close> of a case, or
  the \<open>assertions\<close> of a step is a value Python cannot iterate over (null, a number, a truth value),
  so one such case loses all others; and when reading succeeds, the cases kept are those that are
  valid on their own, in the order written.
\<close>

theorem answer_crash_exact:
  "(parse_response nr now (PDict d) = Inl Response_Crash \<longleftrightarrow> \<not> field_walkable walkable_case ''test_cases'' d) \<and>
   (\<forall>p. parse_response nr now (PDict d) = Inr p \<longrightarrow>
     tp_test_cases p = map the (filter (\<lambda>x. x \<noteq> None) (map (case_load nr) (answered_cases (PDict d)))))"
proof (intro conjI allI impI)
  have "coerce_fields d = None \<longleftrightarrow> \<not> field_walkable walkable_case ''test_cases'' d"
    using coerce_field_ne[of coerce_case "''test_cases''" d] unfolding coerce_case_ne coerce_fields_def by blast
  then show "parse_response nr now (PDict d) = Inl Response_Crash \<longleftrightarrow> \<not> field_walkable walkable_case ''test_cases'' d"
    by (auto simp: parse_response_def Let_def split: option.splits pyval.splits)
next
  fix p assume "parse_response nr now (PDict d) = Inr p"
  then obtain d' raws where d: "coerce_fields d = Some d'" "pv_or (dict_get d' ''test_cases'') (PList []) = PList raws"
    "tp_test_cases p = somes (map (case_load nr) raws)"
    by (auto simp: parse_response_def Let_def split: pyval.splits option.splits if_splits)
  have "answered_cases (PDict d) = raws"
    using d(1,2) by (cases "dict_get d' ''test_cases''") (auto simp: answered_cases_def pv_or_def split: if_splits)
  moreover have "somes xs = map the (filter (\<lambda>x. x \<noteq> None) xs)" for xs :: "test_case option list"
    by (induction xs rule: somes.induct) simp_all
  ultimately show "tp_test_cases p = map the (filter (\<lambda>x. x \<noteq> None) (map (case_load nr) (answered_cases (PDict d))))"
    using d(3) by simp
qed

lemma answer_crash_exact_witness:
  "parse_response plain_numbers ''now'' (PDict (answer_of [case_value ''T1'' ''Fill in'' ''#email'',
       PDict [(''test_id'', PStr ''T2''), (''steps'', PNone)]])) = Inl Response_Crash \<and>
   (\<exists>p. parse_response plain_numbers ''now'' (PDict (answer_of [PStr ''T0'', case_value ''T1'' ''Fill in'' ''#email''])) = Inr p \<and>
      length (tp_test_cases p) = 1)"
proof -
  let ?bad = "answer_of [case_value ''T1'' ''Fill in'' ''#email'', PDict [(''test_id'', PStr ''T2''), (''steps'', PNone)]]"
  let ?good = "answer_of [PStr ''T0'', case_value ''T1'' ''Fill in'' ''#email'']"
  have bad: "\<not> field_walkable walkable_case ''test_cases'' ?bad" by code_simp
  have "case parse_response plain_numbers ''now'' (PDict ?good) of Inr p \<Rightarrow> True | _ \<Rightarrow> False"
    by code_simp
  then obtain p where p: "parse_response plain_numbers ''now'' (PDict ?good) = Inr p"
    by (auto split: sum.splits)
  have "length (map the (filter (\<lambda>x. x \<noteq> None) (map (case_load plain_numbers) (answered_cases (PDict ?good))))) = 1"
    by code_simp
  then have "length (tp_test_cases p) = 1" using answer_crash_exact[of plain_numbers "''now''" ?good] p by simp
  then show ?thesis using p answer_crash_exact[of plain_numbers "''now''" ?bad] bad by blast
qed

section \<open>Priorities\<close>

fun priority_level :: "test_priority \<Rightarrow> nat" where
  "priority_level TP_LOW = 0"
| "priority_level TP_MEDIUM = 1"
| "priority_level TP_HIGH = 2"
| "priority_level TP_CRITICAL = 3"

lemma level_gap:
  fixes la lb sa sb :: nat
  assumes "250 * (lb + 1) + 70 \<le> sb" "sb \<le> sa" "sa \<le> 250 * (la + 1) + 350"
  shows "lb \<le> la + 1"
proof (rule ccontr)
  assume "\<not> ?thesis"
  then have "la + 2 \<le> lb" by simp
  then have "250 * (la + 2) \<le> 250 * lb" by (rule mult_le_mono2)
  then show False using assms by simp
qed

text \<open>
  Prioritizing reorders the test cases and nothing else: none is lost or invented, they come by
  descending score, equal scores keep their order, and no test case comes after one whose priority
  is two levels lower (a test one level lower can come first).
\<close>

theorem prioritized_by_risk:
  "mset (prioritize tcs) = mset tcs \<and>
   sorted_wrt (\<lambda>a b. pz_score (score_test_case b) \<le> pz_score (score_test_case a) \<and>
     priority_level (tc_priority b) \<le> priority_level (tc_priority a) + 1) (prioritize tcs) \<and>
   filter (\<lambda>tc. pz_score (score_test_case tc) = s) (prioritize tcs) =
     filter (\<lambda>tc. pz_score (score_test_case tc) = s) tcs"
proof -
  have level: "priority_weight p = 250 * (priority_level p + 1)" for p by (cases p) simp_all
  have "priority_level (tc_priority b) \<le> priority_level (tc_priority a) + 1"
    if "pz_score (score_test_case b) \<le> pz_score (score_test_case a)" for a b
    using level_gap[OF score_bounds(1)[of b, unfolded level] that score_bounds(2)[of a, unfolded level]] .
  then have "sorted_wrt (\<lambda>a b. pz_score (score_test_case b) \<le> pz_score (score_test_case a) \<and>
     priority_level (tc_priority b) \<le> priority_level (tc_priority a) + 1) (prioritize tcs)"
    unfolding prioritize_sorts
    by (intro sorted_wrt_mono_rel[OF _ sorted_wrt_sort_desc]) simp
  then show ?thesis
    using sort_desc_stable[of "pz_score \<circ> score_test_case" s tcs] by (simp add: prioritize_sorts)
qed

end
