(* ===== verification/Failure_Classifier.thy ===== *)
theory Failure_Classifier
  imports Analyzer_Schemas Py_Json
begin

text \<open>
  The rule-based classifier of \<^verbatim>\<open>agents/analyzer/failure_classifier.py\<close>: an expected/actual
  mismatch first, then seven ordered pattern rules over the lower-cased message, with a confidence
  in float arithmetic, then UNKNOWN.
\<close>

section \<open>Rules\<close>

record classification =
  cl_failure_type :: failure_type
  cl_confidence :: f64
  cl_explanation :: string
  cl_matched_patterns :: "string list"

definition valid_classification :: "classification \<Rightarrow> bool" where
  "valid_classification c \<longleftrightarrow> unit_interval (cl_confidence c)"

definition not_interactable_patterns :: "string list" where
  "not_interactable_patterns =
     [''not interactable'', ''not clickable'', ''element is disabled'', ''element is hidden'', ''element is obscured'',
      ''intercepted'', ''another element would receive'', ''pointer-events: none'', ''element is not visible'',
      ''cannot interact'']"

definition assertion_patterns :: "string list" where
  "assertion_patterns =
     [''assertion'', ''assert failed'', ''assert error'', ''assertionerror'', ''expected value'', ''mismatch'',
      ''does not match expected'', ''text content mismatch'', ''value mismatch'']"

definition timeout_patterns :: "string list" where
  "timeout_patterns =
     [''timeout'', ''timed out'', ''time out'', ''exceeded timeout'', ''deadline exceeded'', ''waiting for selector'',
      ''waiting for navigation'', ''wait timeout'']"

definition navigation_patterns :: "string list" where
  "navigation_patterns =
     [''navigation failed'', ''page load failed'', ''404'', ''page not found'', ''net::err_'',
      ''net::err_name_not_resolved'', ''net::err_connection_refused'', ''err_connection_reset'', ''cannot navigate'',
      ''invalid url'', ''failed to navigate'']"

definition network_patterns :: "string list" where
  "network_patterns =
     [''network error'', ''network failure'', ''fetch failed'', ''xhr failed'', ''connection refused'',
      ''connection reset'', ''dns resolution failed'', ''econnrefused'', ''econnreset'', ''enotfound'',
      ''socket hang up'', ''cors error'', ''ssl error'', ''certificate error'']"

definition application_patterns :: "string list" where
  "application_patterns =
     [''500 internal server error'', ''503 service unavailable'', ''502 bad gateway'', ''application error'',
      ''server error'', ''unhandled exception'', ''runtime error'', ''uncaught exception'', ''javascript error'',
      ''react error boundary'', ''chunk load error'', ''script error'']"

definition not_found_patterns :: "string list" where
  "not_found_patterns =
     [''element not found'', ''element_not_found'', ''no element'', ''no such element'', ''could not find element'',
      ''unable to locate element'', ''selector not found'', ''no matching element'', ''target element not found'',
      ''locator resolved to no elements'']"

type_synonym rule = "string list \<times> failure_type \<times> f64 \<times> string"

definition classification_rules :: "rule list" where
  "classification_rules =
     [(not_interactable_patterns, FT_ELEMENT_NOT_INTERACTABLE, fl 0.9,
       ''The element exists but cannot currently be interacted with''),
      (assertion_patterns, FT_ASSERTION_FAILURE, fl 0.9,
       ''An assertion check failed '' @ em_dash @ '' expected state does not match actual state''),
      (timeout_patterns, FT_TIMEOUT, fl 0.9, ''An operation did not complete within the allowed time limit''),
      (navigation_patterns, FT_NAVIGATION_FAILURE, fl 0.9, ''Page navigation did not complete successfully''),
      (network_patterns, FT_NETWORK_ERROR, fl 0.85, ''A network-level error occurred during the test''),
      (application_patterns, FT_APPLICATION_ERROR, fl 0.85, ''The application under test threw an error or crashed''),
      (not_found_patterns, FT_ELEMENT_NOT_FOUND, fl 0.85,
       ''The target element could not be located in the current page'')]"

section \<open>Confidence\<close>

definition boosted :: "f64 \<Rightarrow> f64 \<Rightarrow> f64" where
  "boosted c x = min (fl (c + x)) 1"

definition lowered :: "f64 \<Rightarrow> f64 \<Rightarrow> f64" where
  "lowered c x = max (fl (c - x)) (fl 0.1)"

definition evid_is :: "(string \<times> pyval) list option \<Rightarrow> string \<Rightarrow> bool \<Rightarrow> bool" where
  "evid_is evid key b \<longleftrightarrow> (case evid of None \<Rightarrow> False | Some d \<Rightarrow> dict_get d key = PBool b)"

definition adjust_rule_confidence ::
  "f64 \<Rightarrow> failure_type \<Rightarrow> string \<Rightarrow> string \<Rightarrow> (string \<times> pyval) list option \<Rightarrow> f64" where
  "adjust_rule_confidence base ft error_message act evid =
     (let c1 = (if ft = FT_ELEMENT_NOT_FOUND \<and> evid_is evid ''element_exists'' False then boosted base (fl 0.05) else base);
          c2 = (if ft = FT_ELEMENT_NOT_INTERACTABLE \<and> evid_is evid ''element_visible'' False then boosted c1 (fl 0.05) else c1);
          c3 = (if ft = FT_ELEMENT_NOT_INTERACTABLE \<and> evid_is evid ''element_disabled'' True then boosted c2 (fl 0.05) else c2);
          c4 = (if error_message \<noteq> [] \<and> py_len (strip error_message) < 10 then lowered c3 (fl 0.1) else c3);
          c5 = (if ft = FT_ELEMENT_NOT_FOUND \<and> act = ''navigate'' then lowered c4 (fl 0.15) else c4)
      in py_round 2 c5)"

section \<open>Classification\<close>

record failure_input =
  in_error_message :: string
  in_action :: string
  in_target_selector :: string
  in_expected_result :: "string option"
  in_actual_result :: "string option"
  in_current_url :: "string option"
  in_dom_evidence :: "(string \<times> pyval) list option"

definition result_mismatch :: "string option \<Rightarrow> string option \<Rightarrow> bool" where
  "result_mismatch expected actual \<longleftrightarrow> expected \<noteq> None \<and> actual \<noteq> None \<and> expected \<noteq> actual"

definition classify_state_mismatch :: "string option \<Rightarrow> string option \<Rightarrow> string \<Rightarrow> classification option" where
  "classify_state_mismatch expected actual error_lower =
     (case (expected, actual) of
        (Some e, Some a) \<Rightarrow>
          Some \<lparr>cl_failure_type = FT_ASSERTION_FAILURE,
                cl_confidence = (if list_ex (\<lambda>w. contains w error_lower) [''assert'', ''mismatch'', ''expected'']
                  then fl 0.95 else fl 0.85),
                cl_explanation = ''Expected state does not match actual state. '' @
                  ''Expected: '' @ quoted e @ '', Actual: '' @ quoted a,
                cl_matched_patterns = [''state_mismatch'']\<rparr>
      | _ \<Rightarrow> None)"

definition matched_patterns :: "string \<Rightarrow> string list \<Rightarrow> string list" where
  "matched_patterns error_lower patterns = filter (\<lambda>p. contains p error_lower) patterns"

fun apply_rules :: "failure_input \<Rightarrow> string \<Rightarrow> rule list \<Rightarrow> classification option" where
  "apply_rules x error_lower [] = None"
| "apply_rules x error_lower ((patterns, ft, base, why) # rules) =
     (case matched_patterns error_lower patterns of
        [] \<Rightarrow> apply_rules x error_lower rules
      | ms \<Rightarrow>
          Some \<lparr>cl_failure_type = ft,
                cl_confidence = adjust_rule_confidence (boosted base (fl (fl 0.02 * of_nat (length ms - 1)))) ft
                  (in_error_message x) (in_action x) (in_dom_evidence x),
                cl_explanation = why, cl_matched_patterns = ms\<rparr>)"

definition unknown_failure :: "f64 \<Rightarrow> string \<Rightarrow> classification" where
  "unknown_failure c why =
     \<lparr>cl_failure_type = FT_UNKNOWN, cl_confidence = c, cl_explanation = why, cl_matched_patterns = []\<rparr>"

definition classify_unknown :: "string \<Rightarrow> classification" where
  "classify_unknown error_message =
     (if error_message \<noteq> [] \<and> 10 < py_len (strip error_message)
      then unknown_failure (fl 0.2) (''Error message does not match any known failure pattern: '' @
             quoted (py_take 100 error_message))
      else if error_message = [] then unknown_failure (fl 0.1) ''No error message provided''
      else unknown_failure (fl 0.3) ''Available evidence is insufficient to determine the failure cause'')"

definition classify :: "failure_input \<Rightarrow> classification" where
  "classify x =
     (if in_error_message x = [] \<and> in_action x = [] then
        unknown_failure (fl 0.1) (''No error message or action provided '' @ em_dash @ '' insufficient evidence'')
      else
        let error_lower = lower (in_error_message x);
            mismatch = (if result_mismatch (in_expected_result x) (in_actual_result x)
              then classify_state_mismatch (in_expected_result x) (in_actual_result x) error_lower else None)
        in case mismatch of
             Some c \<Rightarrow> c
           | None \<Rightarrow> (case apply_rules x error_lower classification_rules of
                       Some c \<Rightarrow> c
                     | None \<Rightarrow> classify_unknown (in_error_message x)))"

definition classify_batch :: "failure_input list \<Rightarrow> classification list" where
  "classify_batch xs = map classify xs"

section \<open>Lemmas\<close>

lemma boosted_unit: "0 \<le> c \<Longrightarrow> 0 \<le> x \<Longrightarrow> unit_interval (boosted c x)"
  unfolding boosted_def by (intro unit_min_1) (simp add: fl_nonneg)

lemma lowered_unit: "unit_interval c \<Longrightarrow> 0 \<le> x \<Longrightarrow> unit_interval (lowered c x)"
proof -
  assume c: "unit_interval c" "0 \<le> x"
  have "fl 0.1 \<le> 1" "0 \<le> fl 0.1" using fl_unit[of "0.1"] by (simp_all add: unit_interval_def)
  moreover have "fl (c - x) \<le> 1" using fl_mono[of "c - x" 1] c by (simp add: unit_interval_def)
  ultimately show ?thesis by (simp add: lowered_def unit_interval_def)
qed

lemma state_mismatch_verdict:
  "classify_state_mismatch e a m = Some c \<Longrightarrow>
     cl_failure_type c = FT_ASSERTION_FAILURE \<and> (cl_confidence c = fl 0.95 \<or> cl_confidence c = fl 0.85) \<and>
     cl_explanation c \<noteq> []"
  by (cases e; cases a) (auto simp: classify_state_mismatch_def)

lemma unit_if: "unit_interval x \<Longrightarrow> unit_interval y \<Longrightarrow> unit_interval (if b then x else y)"
  by simp

lemma adjusted_rule_unit:
  assumes "unit_interval c" shows "unit_interval (adjust_rule_confidence c ft m act evid)"
proof -
  have pos: "0 \<le> fl 0.05" "0 \<le> fl 0.1" "0 \<le> fl 0.15" by (simp_all add: fl_nonneg)
  have up: "unit_interval x \<Longrightarrow> unit_interval (boosted x (fl 0.05))" for x
    using pos by (intro boosted_unit) (simp_all add: unit_interval_def)
  show ?thesis
    unfolding adjust_rule_confidence_def Let_def
    by (intro py_round_unit unit_if lowered_unit up assms pos)
qed

lemma rule_confidences: "(ps, ft, base, why) \<in> set classification_rules \<Longrightarrow> 0 \<le> base"
  by (auto simp: classification_rules_def fl_nonneg)

lemma apply_rules_Some:
  "apply_rules x m rules = Some c \<Longrightarrow> \<exists>before ps ft base why after.
     rules = before @ (ps, ft, base, why) # after \<and> cl_failure_type c = ft \<and>
     list_all (\<lambda>(qs, _). matched_patterns m qs = []) before \<and> matched_patterns m ps \<noteq> [] \<and>
     cl_matched_patterns c = matched_patterns m ps \<and> cl_explanation c = why \<and>
     (0 \<le> base \<longrightarrow> unit_interval (cl_confidence c))"
proof (induction x m rules rule: apply_rules.induct)
  case (2 x m ps ft base why rules)
  show ?case
  proof (cases "matched_patterns m ps")
    case Nil
    then obtain before qs ft' base' why' after where "rules = before @ (qs, ft', base', why') # after"
      "cl_failure_type c = ft'" "list_all (\<lambda>(qs, _). matched_patterns m qs = []) before" "matched_patterns m qs \<noteq> []"
      "cl_matched_patterns c = matched_patterns m qs" "cl_explanation c = why'"
      "0 \<le> base' \<longrightarrow> unit_interval (cl_confidence c)"
      using 2 by auto
    then show ?thesis
      using Nil by (intro exI[of _ "(ps, ft, base, why) # before"]) auto
  next
    case (Cons p qs)
    have "unit_interval (adjust_rule_confidence (boosted base (fl (fl 0.02 * of_nat k))) t e a d)" if "0 \<le> base" for k t e a d
      by (intro adjusted_rule_unit boosted_unit that) (simp add: fl_nonneg)
    then show ?thesis
      using 2(2) Cons
      by (intro exI[of _ "[]"] exI[of _ ps] exI[of _ ft] exI[of _ base] exI[of _ why] exI[of _ rules]) auto
  qed
qed simp

lemma apply_rules_None: "apply_rules x m rules = None \<longleftrightarrow> list_all (\<lambda>(ps, _). matched_patterns m ps = []) rules"
  by (induction x m rules rule: apply_rules.induct) (auto split: list.splits)

end
