(* ===== verification/Failure_Analysis.thy ===== *)
theory Failure_Analysis
  imports Failure_Classifier Failure_Analyzer
begin

text \<open>
  The agent of \<^verbatim>\<open>agents/analyzer/failure_analysis_agent.py\<close>: the classifier's verdict with
  healability, severity, evidence, recommended action and root cause. DOM evidence is the argument
  of the call; the failure's own is not read.
\<close>

record failure_analysis_result =
  ar_test_id :: string
  ar_failed_step_id :: "int option"
  ar_failure_classification :: failure_type
  ar_root_cause :: string
  ar_severity :: string
  ar_is_healable :: bool
  ar_confidence_score :: f64
  ar_confidence_level :: confidence_level
  ar_supporting_evidence :: "failure_evidence list"
  ar_recommended_action :: recommended_action
  ar_action_explanation :: string
  ar_timestamp :: string
  ar_metadata :: "(string \<times> pyval) list"

definition valid_analysis_result :: "failure_analysis_result \<Rightarrow> bool" where
  "valid_analysis_result r \<longleftrightarrow>
     unit_interval (ar_confidence_score r) \<and> list_all valid_failure_evidence (ar_supporting_evidence r)"

section \<open>Tables\<close>

definition always_healable :: "failure_type list" where
  "always_healable = [FT_SELECTOR_CHANGED, FT_ELEMENT_NOT_FOUND]"

definition conditionally_healable :: "failure_type list" where
  "conditionally_healable = [FT_ELEMENT_NOT_INTERACTABLE]"

definition never_healable :: "failure_type list" where
  "never_healable =
     [FT_ASSERTION_FAILURE, FT_NAVIGATION_FAILURE, FT_NETWORK_ERROR, FT_APPLICATION_ERROR, FT_TIMEOUT, FT_UNKNOWN]"

fun severity_of :: "failure_type \<Rightarrow> string" where
  "severity_of FT_SELECTOR_CHANGED = ''MEDIUM''"
| "severity_of FT_ELEMENT_NOT_FOUND = ''MEDIUM''"
| "severity_of FT_ELEMENT_NOT_INTERACTABLE = ''MEDIUM''"
| "severity_of FT_ASSERTION_FAILURE = ''HIGH''"
| "severity_of FT_TIMEOUT = ''MEDIUM''"
| "severity_of FT_NAVIGATION_FAILURE = ''HIGH''"
| "severity_of FT_NETWORK_ERROR = ''HIGH''"
| "severity_of FT_APPLICATION_ERROR = ''CRITICAL''"
| "severity_of FT_UNKNOWN = ''MEDIUM''"

fun recommended_for :: "failure_type \<Rightarrow> recommended_action" where
  "recommended_for FT_SELECTOR_CHANGED = RA_SEARCH_FOR_REPLACEMENT_SELECTOR"
| "recommended_for FT_ELEMENT_NOT_FOUND = RA_INSPECT_CURRENT_UI"
| "recommended_for FT_ELEMENT_NOT_INTERACTABLE = RA_CHECK_ELEMENT_STATE"
| "recommended_for FT_ASSERTION_FAILURE = RA_ANALYZE_APPLICATION_STATE"
| "recommended_for FT_TIMEOUT = RA_INVESTIGATE_TIMEOUT"
| "recommended_for FT_NAVIGATION_FAILURE = RA_INVESTIGATE_NAVIGATION"
| "recommended_for FT_NETWORK_ERROR = RA_REQUIRE_FURTHER_ANALYSIS"
| "recommended_for FT_APPLICATION_ERROR = RA_REQUIRE_FURTHER_ANALYSIS"
| "recommended_for FT_UNKNOWN = RA_REQUIRE_FURTHER_ANALYSIS"

fun explanation_for :: "failure_type \<Rightarrow> string" where
  "explanation_for FT_SELECTOR_CHANGED = ''The original selector no longer identifies the target element. '' @
     ''Search for a replacement selector using current DOM evidence.''"
| "explanation_for FT_ELEMENT_NOT_FOUND = ''The target element cannot be located. Inspect the current UI '' @
     ''to determine if the element was removed, relocated, or renamed.''"
| "explanation_for FT_ELEMENT_NOT_INTERACTABLE = ''The element exists but is not interactable. Check if it is '' @
     ''hidden, disabled, or obscured by another element.''"
| "explanation_for FT_ASSERTION_FAILURE = ''The expected application state does not match the observed state. '' @
     ''This indicates a potential application defect '' @ em_dash @ '' do NOT attempt healing.''"
| "explanation_for FT_TIMEOUT = ''An operation timed out. Investigate whether the application '' @
     ''is slow, the element takes longer to appear, or there is a deadlock.''"
| "explanation_for FT_NAVIGATION_FAILURE = ''Navigation did not succeed. Verify the URL is correct and '' @
     ''the application is accessible.''"
| "explanation_for FT_NETWORK_ERROR = ''A network error occurred. This is likely an infrastructure issue '' @
     ''unrelated to the test logic '' @ em_dash @ '' do NOT attempt selector healing.''"
| "explanation_for FT_APPLICATION_ERROR = ''The application threw an error. This is a genuine bug '' @ em_dash @ '' '' @
     ''do NOT attempt selector healing. Report the error to developers.''"
| "explanation_for FT_UNKNOWN = ''The failure cause could not be determined from available evidence. '' @
     ''Further analysis is needed.''"

section \<open>Assessment\<close>

definition assess_healability :: "classification \<Rightarrow> (string \<times> pyval) list option \<Rightarrow> bool" where
  "assess_healability c evid =
     (if cl_failure_type c \<in> set always_healable then True
      else if cl_failure_type c \<in> set never_healable then False
      else if cl_failure_type c \<in> set conditionally_healable then
        (if pred_option (\<lambda>d. pv_true (dict_get d ''element_disabled'')) evid then False
         else if pred_option (\<lambda>d. pv_true (dict_get d ''element_obscured'')) evid then False
         else False)
      else False)"

definition assess_severity :: "classification \<Rightarrow> failure_context \<Rightarrow> string" where
  "assess_severity c f =
     (let base = severity_of (cl_failure_type c)
      in if lower (fx_action f) \<in> set [''navigate'', ''fill'', ''click''] \<and> base = ''LOW'' then ''MEDIUM'' else base)"

definition to_confidence_level :: "f64 \<Rightarrow> confidence_level" where
  "to_confidence_level c = (if fl 0.75 \<le> c then CL_HIGH else if fl 0.45 \<le> c then CL_MEDIUM else CL_LOW)"

definition evidence_when :: "bool \<Rightarrow> failure_evidence \<Rightarrow> failure_evidence list" where
  "evidence_when b e = (if b then [e] else [])"

definition state_differs :: "failure_context \<Rightarrow> bool" where
  "state_differs f \<longleftrightarrow>
     or_empty (fx_expected_result f) \<noteq> [] \<and> or_empty (fx_actual_result f) \<noteq> [] \<and>
     fx_expected_result f \<noteq> fx_actual_result f"

definition build_analysis_evidence ::
  "classification \<Rightarrow> failure_context \<Rightarrow> (string \<times> pyval) list option \<Rightarrow> failure_evidence list" where
  "build_analysis_evidence c f evid =
     (let e = or_empty (fx_expected_result f); a = or_empty (fx_actual_result f);
          url = or_empty (fx_current_page_url f); d = (case evid of None \<Rightarrow> [] | Some d \<Rightarrow> d) in
     [evidence_item ''classification'' (cl_explanation c)
        [(''failure_type'', PStr (failure_type_value (cl_failure_type c))),
         (''confidence'', PFloat (cl_confidence c)), (''matched_patterns'', str_list (cl_matched_patterns c))]] @
     evidence_when (fx_error_message f \<noteq> [])
       (evidence_item ''error_message'' (''Error: '' @ py_take 200 (fx_error_message f))
          [(''full_error'', PStr (fx_error_message f))]) @
     evidence_when (fx_action f \<noteq> [])
       (evidence_item ''action_context''
          (''Action '' @ quoted (fx_action f) @ '' was being performed on target '' @ quoted (fx_target_selector f))
          [(''action'', PStr (fx_action f)), (''target'', PStr (fx_target_selector f))]) @
     evidence_when (state_differs f)
       (evidence_item ''state_mismatch'' (''Expected: '' @ quoted e @ '', Actual: '' @ quoted a)
          [(''expected'', PStr e), (''actual'', PStr a)]) @
     evidence_when (url \<noteq> [])
       (evidence_item ''page_context'' (''Failure occurred on page: '' @ url)
          [(''url'', PStr url), (''title'', PStr (or_empty (fx_current_page_title f)))]) @
     evidence_when (d \<noteq> [])
       (evidence_item ''dom_evidence'' ''DOM evidence available from current page'' d))"

definition build_root_cause :: "classification \<Rightarrow> failure_context \<Rightarrow> string" where
  "build_root_cause c f =
     (let t = cl_failure_type c; target = fx_target_selector f; base = cl_explanation c;
          located = (if target = [] then base
            else if t \<in> set [FT_ELEMENT_NOT_FOUND, FT_SELECTOR_CHANGED]
            then base @ ''. Target selector: '' @ quoted target
            else if t = FT_ELEMENT_NOT_INTERACTABLE
            then base @ ''. Element '' @ quoted target @ '' is present but not interactable''
            else base)
      in if or_empty (fx_expected_result f) \<noteq> [] \<and> or_empty (fx_actual_result f) \<noteq> [] \<and> t = FT_ASSERTION_FAILURE
         then ''Expected: '' @ quoted (or_empty (fx_expected_result f)) @ '', Actual: '' @
           quoted (or_empty (fx_actual_result f))
         else located)"

section \<open>Analysis\<close>

definition input_of_failure :: "failure_context \<Rightarrow> (string \<times> pyval) list option \<Rightarrow> failure_input" where
  "input_of_failure f evid =
     \<lparr>in_error_message = fx_error_message f, in_action = fx_action f, in_target_selector = fx_target_selector f,
      in_expected_result = fx_expected_result f, in_actual_result = fx_actual_result f,
      in_current_url = fx_current_page_url f, in_dom_evidence = evid\<rparr>"

definition agent_analyze ::
  "string \<Rightarrow> failure_context \<Rightarrow> (string \<times> pyval) list option \<Rightarrow> failure_analysis_result" where
  "agent_analyze now f evid =
     (let c = classify (input_of_failure f evid)
      in \<lparr>ar_test_id = fx_test_id f, ar_failed_step_id = Some (fx_failed_step f),
          ar_failure_classification = cl_failure_type c, ar_root_cause = build_root_cause c f,
          ar_severity = assess_severity c f, ar_is_healable = assess_healability c evid,
          ar_confidence_score = cl_confidence c, ar_confidence_level = to_confidence_level (cl_confidence c),
          ar_supporting_evidence = build_analysis_evidence c f evid,
          ar_recommended_action = recommended_for (cl_failure_type c),
          ar_action_explanation = explanation_for (cl_failure_type c), ar_timestamp = now,
          ar_metadata = [(''action'', PStr (fx_action f)), (''target_selector'', PStr (fx_target_selector f)),
            (''matched_patterns'', str_list (cl_matched_patterns c)), (''execution_id'', PStr (fx_execution_id f))]\<rparr>)"

section \<open>Properties\<close>

lemma healable_iff: "assess_healability c evid \<longleftrightarrow> cl_failure_type c \<in> set always_healable"
  by (simp add: assess_healability_def)

lemma classify_cases:
  obtains "classify x = unknown_failure (fl 0.1) (''No error message or action provided '' @ em_dash @ '' insufficient evidence'')"
      "in_error_message x = []" "in_action x = []"
    | c where "classify_state_mismatch (in_expected_result x) (in_actual_result x) (lower (in_error_message x)) = Some c"
      "result_mismatch (in_expected_result x) (in_actual_result x)" "classify x = c"
    | c where "apply_rules x (lower (in_error_message x)) classification_rules = Some c" "classify x = c"
      "\<not> result_mismatch (in_expected_result x) (in_actual_result x)"
    | "classify x = classify_unknown (in_error_message x)"
      "list_all (\<lambda>(ps, _). matched_patterns (lower (in_error_message x)) ps = []) classification_rules"
proof (cases "in_error_message x = [] \<and> in_action x = []")
  case True
  then show ?thesis using that(1) by (simp add: classify_def)
next
  case False
  show ?thesis
  proof (cases "result_mismatch (in_expected_result x) (in_actual_result x)")
    case mismatch: True
    then obtain c where c: "classify_state_mismatch (in_expected_result x) (in_actual_result x)
        (lower (in_error_message x)) = Some c"
      by (auto simp: result_mismatch_def classify_state_mismatch_def)
    then show ?thesis using that(2)[OF c mismatch] False mismatch by (auto simp: classify_def)
  next
    case mismatch: False
    show ?thesis
    proof (cases "apply_rules x (lower (in_error_message x)) classification_rules")
      case None
      then have "classify x = classify_unknown (in_error_message x)"
        using False mismatch by (auto simp: classify_def Let_def)
      then show ?thesis using that(4) None[unfolded apply_rules_None] by blast
    next
      case (Some c)
      then show ?thesis using that(3)[OF Some _ mismatch] False mismatch by (auto simp: classify_def Let_def)
    qed
  qed
qed

lemma classify_unit: "unit_interval (cl_confidence (classify x))"
proof -
  have u: "unit_interval (fl 0.1)" "unit_interval (fl 0.2)" "unit_interval (fl 0.3)" "unit_interval (fl 0.85)"
    "unit_interval (fl 0.95)"
    by (intro fl_unit; simp add: unit_interval_def)+
  show ?thesis
  proof (cases x rule: classify_cases)
    case (2 c)
    then show ?thesis using u state_mismatch_verdict by metis
  next
    case (3 c)
    then obtain ps ft base why where "(ps, ft, base, why) \<in> set classification_rules"
      "0 \<le> base \<longrightarrow> unit_interval (cl_confidence c)"
      using apply_rules_Some[OF 3(1)] by (metis in_set_conv_decomp)
    then show ?thesis using 3(2) rule_confidences by blast
  qed (use u in \<open>simp_all add: unknown_failure_def classify_unknown_def\<close>)
qed

end
