(* ===== verification/Classifier_Properties.thy ===== *)
theory Classifier_Properties
  imports Failure_Analysis
begin

text \<open>
  Properties of the failure classifier and the agent built on it: its results satisfy their
  declared constraints, and it calls a failure healable exactly for a missing element.
\<close>

definition mentions :: "string \<Rightarrow> string list \<Rightarrow> bool" where
  "mentions m ps \<longleftrightarrow> (\<exists>p \<in> set ps. sublist p m)"

lemma matched_Nil: "matched_patterns m ps = [] \<longleftrightarrow> \<not> mentions m ps"
  by (auto simp: matched_patterns_def mentions_def filter_empty_conv contains_iff_sublist)

lemma mentions_empty: "[] \<notin> set ps \<Longrightarrow> \<not> mentions [] ps"
  by (auto simp: mentions_def)

text \<open>The rules before the one for missing elements.\<close>

definition other_patterns :: "string list" where
  "other_patterns = not_interactable_patterns @ assertion_patterns @ timeout_patterns @ navigation_patterns @
     network_patterns @ application_patterns"

lemma mentions_append [simp]: "mentions m (ps @ qs) \<longleftrightarrow> mentions m ps \<or> mentions m qs"
  by (auto simp: mentions_def)

lemma apply_rules_type:
  "map_option cl_failure_type (apply_rules x m ((ps, ft, base, why) # rules)) =
     (if mentions m ps then Some ft else map_option cl_failure_type (apply_rules x m rules))"
  using matched_Nil[of m ps] by (auto split: list.splits)

text \<open>No other rule gives the type of a missing element.\<close>

lemma missing_rule:
  "map_option cl_failure_type (apply_rules x m classification_rules) = Some FT_ELEMENT_NOT_FOUND \<longleftrightarrow>
     mentions m not_found_patterns \<and> \<not> mentions m other_patterns"
  unfolding classification_rules_def apply_rules_type other_patterns_def mentions_append apply_rules.simps(1)
  by simp

lemma never_selector_changed:
  "map_option cl_failure_type (apply_rules x m classification_rules) \<noteq> Some FT_SELECTOR_CHANGED"
  unfolding classification_rules_def apply_rules_type apply_rules.simps(1) by simp

lemma explained: "cl_explanation (classify x) \<noteq> []"
proof (cases x rule: classify_cases)
  case (2 c)
  then show ?thesis using state_mismatch_verdict by metis
next
  case (3 c)
  then obtain ps ft base why where "(ps, ft, base, why) \<in> set classification_rules" "cl_explanation c = why"
    using apply_rules_Some[OF 3(1)] by (metis in_set_conv_decomp)
  moreover have "list_all (\<lambda>(ps, ft, base, why). why \<noteq> []) classification_rules"
    by (simp add: classification_rules_def)
  ultimately show ?thesis using 3(2) by (auto simp: list_all_iff)
qed (simp_all add: unknown_failure_def classify_unknown_def)

text \<open>
  Every analysis satisfies the constraints its class declares: the confidence lies between 0
  and 1 whatever bonuses and deductions apply, and every piece of evidence has a type and a text.
\<close>

theorem agent_analysis_valid: "valid_analysis_result (agent_analyze now f evid)"
  using classify_unit[of "input_of_failure f evid"] explained[of "input_of_failure f evid"]
  by (simp add: valid_analysis_result_def agent_analyze_def Let_def build_analysis_evidence_def evidence_when_def
      evidence_item_def valid_failure_evidence_def)

text \<open>
  C31: The agent calls a failure healable exactly when the message speaks of a missing element, of
  nothing an earlier rule stands for (no check, timeout, navigation, network or application error,
  no element that is there but cannot be used), and the results given do not differ. The type
  SELECTOR_CHANGED, which it also lists as healable, is never found.
\<close>

theorem agent_heals_missing_elements:
  "(ar_is_healable (agent_analyze now f evid) \<longleftrightarrow>
      mentions (lower (fx_error_message f)) not_found_patterns \<and>
      \<not> mentions (lower (fx_error_message f)) other_patterns \<and>
      (fx_expected_result f = None \<or> fx_actual_result f = None \<or> fx_expected_result f = fx_actual_result f)) \<and>
   ar_failure_classification (agent_analyze now f evid) \<noteq> FT_SELECTOR_CHANGED"
proof -
  let ?x = "input_of_failure f evid" and ?m = "lower (fx_error_message f)"
  have fields: "in_error_message ?x = fx_error_message f" "in_expected_result ?x = fx_expected_result f"
    "in_actual_result ?x = fx_actual_result f"
    by (simp_all add: input_of_failure_def)
  have quiet: "\<not> mentions ?m not_found_patterns" if "fx_error_message f = []"
    using that mentions_empty[of not_found_patterns] by (simp add: lower_def not_found_patterns_def)
  have "(cl_failure_type (classify ?x) = FT_ELEMENT_NOT_FOUND \<longleftrightarrow>
      mentions ?m not_found_patterns \<and> \<not> mentions ?m other_patterns \<and>
      \<not> result_mismatch (fx_expected_result f) (fx_actual_result f)) \<and>
    cl_failure_type (classify ?x) \<noteq> FT_SELECTOR_CHANGED"
  proof (cases ?x rule: classify_cases)
    case 1
    then show ?thesis using quiet fields by (simp add: unknown_failure_def)
  next
    case (2 c)
    then show ?thesis using state_mismatch_verdict[OF 2(1)] fields by simp
  next
    case (3 c)
    then show ?thesis using missing_rule[of ?x ?m] never_selector_changed[of ?x ?m] fields by simp
  next
    case 4
    have "\<not> mentions ?m not_found_patterns"
      using 4(2) by (simp add: classification_rules_def matched_Nil fields)
    then show ?thesis using 4(1) by (simp add: classify_unknown_def unknown_failure_def)
  qed
  then show ?thesis
    by (auto simp: agent_analyze_def Let_def healable_iff always_healable_def result_mismatch_def)
qed

end
