(* ===== verification/LLM_Session.thy ===== *)
theory LLM_Session
  imports Persistent_Store
begin

text \<open>
  The language-model layer every agent calls: \<^verbatim>\<open>agents/llm/exceptions.py\<close>, \<^verbatim>\<open>config.py\<close>,
  \<^verbatim>\<open>schemas.py\<close>, \<^verbatim>\<open>parser.py\<close> and the session of \<^verbatim>\<open>client.py\<close>.

  A provider is a function of the request and of its own state \<open>'s\<close>: it answers, fails with one of
  the layer's errors, or raises something else. The session returns its result, the provider's
  state (one step of it per call) and the seconds it slept between the calls. \<open>json.loads\<close> is a
  \<open>json_text\<close>; the text of its error is the argument \<open>why\<close>.
\<close>

section \<open>Errors\<close>

datatype llm_error_class =
    LLM_Error | Configuration_Error | Authentication_Error | Request_Validation_Error
  | Timeout_Error | Rate_Limit_Error | Connection_Error | Provider_Error
  | Response_Error | Parsing_Error | Schema_Validation_Error

record llm_error =
  le_class :: llm_error_class
  le_message :: string
  le_provider :: string
  le_retry_after :: "f64 option"
  le_quota_exhausted :: bool

definition max_retry_after :: f64 where
  "max_retry_after = 30"

definition llm_error :: "llm_error_class \<Rightarrow> string \<Rightarrow> string \<Rightarrow> llm_error" where
  "llm_error c message provider =
     \<lparr>le_class = c, le_message = message, le_provider = provider, le_retry_after = None,
      le_quota_exhausted = False\<rparr>"

definition rate_limit_error :: "string \<Rightarrow> string \<Rightarrow> f64 option \<Rightarrow> bool \<Rightarrow> llm_error" where
  "rate_limit_error message provider retry_after exhausted =
     (llm_error Rate_Limit_Error message provider)
       \<lparr>le_retry_after := retry_after, le_quota_exhausted := exhausted\<rparr>"

definition is_retryable :: "llm_error \<Rightarrow> bool" where
  "is_retryable e =
     (case le_class e of
        Timeout_Error \<Rightarrow> True
      | Connection_Error \<Rightarrow> True
      | Provider_Error \<Rightarrow> True
      | Rate_Limit_Error \<Rightarrow>
          \<not> le_quota_exhausted e \<and>
          (case le_retry_after e of None \<Rightarrow> True | Some t \<Rightarrow> t \<le> max_retry_after)
      | _ \<Rightarrow> False)"

section \<open>Configuration\<close>

record llm_config =
  lc_provider :: string
  lc_api_key :: string
  lc_model :: string
  lc_temperature :: f64
  lc_max_tokens :: int
  lc_base_url :: "string option"
  lc_timeout :: int
  lc_max_retries :: int

definition valid_providers :: "string list" where
  "valid_providers = [''mock'', ''local'', ''api'']"

definition is_configured :: "llm_config \<Rightarrow> bool" where
  "is_configured c = (if lc_provider c \<in> {''mock'', ''local''} then True else lc_api_key c \<noteq> [])"

text \<open>\<open>validate\<close>: None, or the error it raises.\<close>

definition validate_config :: "llm_config \<Rightarrow> llm_error option" where
  "validate_config c =
     (if lc_provider c \<notin> set valid_providers then
        Some (llm_error Configuration_Error
          (''Unknown LLM_PROVIDER '' @ quoted (lc_provider c) @ ''. Valid providers: api, local, mock.'') ''config'')
      else if lc_model c = [] then
        Some (llm_error Configuration_Error ''LLM_MODEL is not set. Please set it in your .env file.'' ''config'')
      else if lc_provider c = ''api'' \<and> lc_api_key c = [] then
        Some (llm_error Configuration_Error ''LLM_API_KEY is required when LLM_PROVIDER=api.'' ''config'')
      else if lc_timeout c \<le> 0 then
        Some (llm_error Configuration_Error
          (''LLM_TIMEOUT must be positive, got '' @ show_int (lc_timeout c) @ ''.'') ''config'')
      else if lc_max_retries c < 0 then
        Some (llm_error Configuration_Error
          (''LLM_MAX_RETRIES must be non-negative, got '' @ show_int (lc_max_retries c) @ ''.'') ''config'')
      else None)"

section \<open>Requests and responses\<close>

record completion_request =
  cr_prompt :: string
  cr_system_instruction :: string
  cr_temperature :: "f64 option"
  cr_max_tokens :: "int option"
  cr_response_format :: string

definition valid_completion_request :: "completion_request \<Rightarrow> bool" where
  "valid_completion_request q \<longleftrightarrow>
     \<not> blank (cr_prompt q) \<and>
     (case cr_temperature q of None \<Rightarrow> True | Some t \<Rightarrow> 0 \<le> t \<and> t \<le> 2) \<and>
     (case cr_max_tokens q of None \<Rightarrow> True | Some n \<Rightarrow> 0 < n) \<and>
     cr_response_format q \<in> {''text'', ''json''}"

record token_usage =
  tu_prompt_tokens :: int
  tu_completion_tokens :: int

definition total_tokens :: "token_usage \<Rightarrow> int" where
  "total_tokens u = tu_prompt_tokens u + tu_completion_tokens u"

text \<open>The session checks the type of the content itself, so it may be any value here.\<close>

record completion =
  co_content :: pyval
  co_model :: string
  co_provider :: string
  co_usage :: token_usage
  co_finish_reason :: string

definition completion_text :: "completion \<Rightarrow> string" where
  "completion_text r = (case co_content r of PStr s \<Rightarrow> s | _ \<Rightarrow> [])"

datatype provider_reply =
    Answered completion
  | Failed llm_error
  | Crashed string

type_synonym 's provider = "completion_request \<Rightarrow> 's \<Rightarrow> provider_reply \<times> 's"

section \<open>One attempt\<close>

definition pv_type_name :: "pyval \<Rightarrow> string" where
  "pv_type_name v =
     (case v of PNone \<Rightarrow> ''NoneType'' | PBool _ \<Rightarrow> ''bool'' | PInt _ \<Rightarrow> ''int'' | PFloat _ \<Rightarrow> ''float''
      | PStr _ \<Rightarrow> ''str'' | PList _ \<Rightarrow> ''list'' | PDict _ \<Rightarrow> ''dict'')"

definition validate_request :: "llm_config \<Rightarrow> completion_request \<Rightarrow> llm_error option" where
  "validate_request c q =
     (if strip (cr_prompt q) = [] then
        Some (llm_error Request_Validation_Error ''Request prompt must not be empty or whitespace-only.'' ''client'')
      else None)"

definition or_text :: "string \<Rightarrow> string \<Rightarrow> string" where
  "or_text a b = (if a = [] then b else a)"

definition normalize_response :: "llm_config \<Rightarrow> completion \<Rightarrow> llm_error + completion" where
  "normalize_response c r =
     (let provider = or_text (co_provider r) (lc_provider c); model = or_text (co_model r) (lc_model c);
          bad = (\<lambda>message. Inl (llm_error Response_Error message provider))
      in case co_content r of
           PNone \<Rightarrow> bad ''Provider returned None content.''
         | PStr s \<Rightarrow>
             if blank s then bad ''Provider returned an empty response.''
             else if co_finish_reason r = ''error'' then bad ''Provider indicated an error finish reason.''
             else Inr (r\<lparr>co_model := model, co_provider := provider\<rparr>)
         | v \<Rightarrow> bad (''Provider returned non-string content: '' @ pv_type_name v @ ''.''))"

text \<open>
  What one attempt leads to: a response, an error raised at once, or an error that may be
  retried. Anything but an \<open>LLMError\<close> is wrapped and raised at once.
\<close>

datatype attempt = Done completion | Fatal llm_error | Transient llm_error

definition judge_error :: "llm_error \<Rightarrow> attempt" where
  "judge_error e = (if is_retryable e then Transient e else Fatal e)"

definition attempt_of :: "llm_config \<Rightarrow> provider_reply \<Rightarrow> attempt" where
  "attempt_of c reply =
     (case reply of
        Answered r \<Rightarrow> (case normalize_response c r of Inr r' \<Rightarrow> Done r' | Inl e \<Rightarrow> judge_error e)
      | Failed e \<Rightarrow> judge_error e
      | Crashed message \<Rightarrow>
          Fatal (llm_error Provider_Error (''Unexpected provider error: '' @ message) (lc_provider c)))"

section \<open>The session\<close>

text \<open>\<open>assert last_error is not None\<close> fails when no attempt was allowed.\<close>

datatype session_failure = Session_Error llm_error | Assertion_Failure

definition wait_before_retry :: "llm_error \<Rightarrow> f64 list" where
  "wait_before_retry e =
     (case le_retry_after e of
        None \<Rightarrow> []
      | Some t \<Rightarrow> if le_class e = Rate_Limit_Error \<and> t \<noteq> 0 then [t] else [])"

fun attempts ::
  "llm_config \<Rightarrow> 's provider \<Rightarrow> completion_request \<Rightarrow> nat \<Rightarrow> llm_error option \<Rightarrow> 's \<Rightarrow>
     (session_failure + completion) \<times> 's \<times> f64 list" where
  "attempts c p q 0 last_error w =
     (Inl (case last_error of None \<Rightarrow> Assertion_Failure | Some e \<Rightarrow> Session_Error e), w, [])"
| "attempts c p q (Suc n) last_error w =
     (let (reply, w') = p q w
      in case attempt_of c reply of
           Done r \<Rightarrow> (Inr r, w', [])
         | Fatal e \<Rightarrow> (Inl (Session_Error e), w', [])
         | Transient e \<Rightarrow>
             let (result, w'', waits) = attempts c p q n (Some e) w'
             in (result, w'', (if n = 0 then [] else wait_before_retry e) @ waits))"

definition max_attempts :: "llm_config \<Rightarrow> nat" where
  "max_attempts c = nat (1 + lc_max_retries c)"

definition session_generate ::
  "llm_config \<Rightarrow> 's provider \<Rightarrow> completion_request \<Rightarrow> 's \<Rightarrow>
     (session_failure + completion) \<times> 's \<times> f64 list" where
  "session_generate c p q w =
     (case validate_request c q of
        Some e \<Rightarrow> (Inl (Session_Error e), w, [])
      | None \<Rightarrow> attempts c p q (max_attempts c) None w)"

section \<open>JSON in an answer\<close>

definition fence :: string where
  "fence = ''```''"

definition blank_or_tab :: "char \<Rightarrow> bool" where
  "blank_or_tab c \<longleftrightarrow> c = CHR '' '' \<or> c = CHR 0x09"

text \<open>
  The group of \<open>_FENCED\<close>, stripped: after the opening fence an optional language tag, then the
  text up to the closing fence. (The white space the expression leaves out of the group at either
  end is stripped anyway.)
\<close>

definition fence_body :: "string \<Rightarrow> string" where
  "fence_body s =
     (let t = dropWhile blank_or_tab s
      in if prefix ''json'' t \<or> prefix ''JSON'' t then drop 4 t else s)"

function fenced :: "string \<Rightarrow> string list" where
  "fenced s =
     (case split_at_first fence s of
        None \<Rightarrow> []
      | Some (_, rest) \<Rightarrow>
          (case split_at_first fence (fence_body rest) of
             None \<Rightarrow> []
           | Some (inner, rest') \<Rightarrow> strip inner # fenced rest'))"
  by pat_completeness auto

lemma fence_body_length: "length (fence_body s) \<le> length s"
  using length_dropWhile_le[of blank_or_tab s] by (simp add: fence_body_def Let_def) linarith

termination fenced
proof (relation "measure length")
  fix s p rest q inner rest'
  assume "split_at_first fence s = Some p" "(q, rest) = p"
  then have "length rest < length s" using split_at_first_length[of fence s q rest] by (simp add: fence_def)
  moreover fix r
  assume "split_at_first fence (fence_body rest) = Some r" "(inner, rest') = r"
  then have "length rest' \<le> length (fence_body rest)"
    using split_at_first_length[of fence "fence_body rest" inner rest'] by simp
  ultimately show "(rest', s) \<in> measure length" using fence_body_length[of rest] by simp
qed simp

declare fenced.simps [simp del]

text \<open>\<open>text[text.find("{"):text.rfind("}") + 1]\<close>, when both are there in this order.\<close>

definition braced :: "string \<Rightarrow> string list" where
  "braced s =
     (let start = length (takeWhile (\<lambda>c. c \<noteq> CHR ''{'') s);
          after = length (takeWhile (\<lambda>c. c \<noteq> CHR ''}'') (rev s));
          stop = length s - after
      in if CHR ''{'' \<in> set s \<and> CHR ''}'' \<in> set s \<and> start + 1 < stop then [drop start (take stop s)] else [])"

fun first_parsed :: "json_text \<Rightarrow> string list \<Rightarrow> pyval option" where
  "first_parsed jt [] = None"
| "first_parsed jt (t # ts) = (case jt_loads jt t of Some v \<Rightarrow> Some v | None \<Rightarrow> first_parsed jt ts)"

definition loads_json_object :: "json_text \<Rightarrow> string \<Rightarrow> pyval option" where
  "loads_json_object jt s =
     (let text = strip s
      in case jt_loads jt text of
           Some v \<Rightarrow> Some v
         | None \<Rightarrow> first_parsed jt (fenced text @ braced text))"

text \<open>The object in a response: \<open>parse_json\<close> and the end of \<open>generate_json\<close> differ in the errors' class.\<close>

definition response_object ::
  "json_text \<Rightarrow> (string \<Rightarrow> string) \<Rightarrow> llm_error_class \<Rightarrow> string \<Rightarrow> completion \<Rightarrow>
     llm_error + (string \<times> pyval) list" where
  "response_object jt why cls kind r =
     (let text = strip (completion_text r); bad = (\<lambda>message. Inl (llm_error cls message (co_provider r)))
      in if text = [] then bad ''Cannot parse JSON from empty response.''
         else case loads_json_object jt text of
                None \<Rightarrow> bad (kind @ '' is not valid JSON: '' @ why text)
              | Some (PDict d) \<Rightarrow> Inr d
              | Some v \<Rightarrow> bad (''Expected a JSON object, got '' @ pv_type_name v @ ''.''))"

definition json_request :: "completion_request \<Rightarrow> completion_request" where
  "json_request q = (if cr_response_format q \<noteq> ''json'' then q\<lparr>cr_response_format := ''json''\<rparr> else q)"

definition generate_json ::
  "json_text \<Rightarrow> (string \<Rightarrow> string) \<Rightarrow> llm_config \<Rightarrow> 's provider \<Rightarrow> completion_request \<Rightarrow> 's \<Rightarrow>
     (session_failure + (string \<times> pyval) list) \<times> 's \<times> f64 list" where
  "generate_json jt why c p q w =
     (case session_generate c p (json_request q) w of
        (Inl e, s) \<Rightarrow> (Inl e, s)
      | (Inr r, s) \<Rightarrow>
          ((case response_object jt why Response_Error ''Response'' r of
              Inl e \<Rightarrow> Inl (Session_Error e)
            | Inr d \<Rightarrow> Inr d), s))"

text \<open>\<open>complete\<close>: the request is validated by its schema when it is built (None: that raised).\<close>

definition complete ::
  "llm_config \<Rightarrow> 's provider \<Rightarrow> string \<Rightarrow> string \<Rightarrow> f64 option \<Rightarrow> int option \<Rightarrow> 's \<Rightarrow>
     ((session_failure + string) \<times> 's \<times> f64 list) option" where
  "complete c p prompt system_prompt temperature max_tokens w =
     (let q = \<lparr>cr_prompt = prompt, cr_system_instruction = system_prompt, cr_temperature = temperature,
               cr_max_tokens = max_tokens, cr_response_format = ''text''\<rparr>
      in if \<not> valid_completion_request q then None
         else Some (apfst (map_sum id completion_text) (session_generate c p q w)))"

section \<open>The response parser\<close>

definition extract_text :: "completion \<Rightarrow> llm_error + string" where
  "extract_text r =
     (if blank (completion_text r)
      then Inl (llm_error Response_Error ''LLM response contains no text content.'' (co_provider r))
      else Inr (strip (completion_text r)))"

definition parse_json :: "json_text \<Rightarrow> (string \<Rightarrow> string) \<Rightarrow> completion \<Rightarrow> llm_error + (string \<times> pyval) list" where
  "parse_json jt why r = response_object jt why Parsing_Error ''LLM response'' r"

text \<open>A schema's \<open>model_validate\<close>: an instance, or the text of the exception.\<close>

definition parse_model ::
  "json_text \<Rightarrow> (string \<Rightarrow> string) \<Rightarrow> string \<Rightarrow> ((string \<times> pyval) list \<Rightarrow> string + 'a) \<Rightarrow> completion \<Rightarrow> llm_error + 'a" where
  "parse_model jt why schema validate r =
     (case parse_json jt why r of
        Inl e \<Rightarrow> Inl e
      | Inr d \<Rightarrow>
          (case validate d of
             Inr m \<Rightarrow> Inr m
           | Inl message \<Rightarrow>
               Inl (llm_error Schema_Validation_Error
                 (''LLM response does not match schema '' @ schema @ '': '' @ message) (co_provider r))))"

end
