(* ===== verification/LLM_Providers.thy ===== *)
theory LLM_Providers
  imports LLM_Session
begin

text \<open>
  The two providers behind the session, \<^verbatim>\<open>agents/llm/providers/mock.py\<close> and \<^verbatim>\<open>api.py\<close>, and the
  factory of \<^verbatim>\<open>agents/llm/factory.py\<close>. The API provider is a function of what the HTTP client does
  with a payload; numbers in texts are read by a \<open>number_reader\<close>. An exception that is not one of
  the layer's errors (a body of an unexpected shape) is \<open>Crashed\<close>, with its text left to the
  argument \<open>crash\<close>.
\<close>

section \<open>Mock provider\<close>

record mock_provider =
  mp_simulate :: "string option"
  mp_responses :: "string list"
  mp_call_count :: nat
  mp_response_registry :: "(string \<times> string) list"
  mp_error_registry :: "(string \<times> llm_error) list"
  mp_failure_sequence :: "llm_error list"
  mp_failure_index :: nat

definition new_mock :: "string option \<Rightarrow> string list \<Rightarrow> mock_provider" where
  "new_mock simulate responses =
     \<lparr>mp_simulate = simulate, mp_responses = responses, mp_call_count = 0, mp_response_registry = [],
      mp_error_registry = [], mp_failure_sequence = [], mp_failure_index = 0\<rparr>"

definition register_response :: "string \<Rightarrow> string \<Rightarrow> mock_provider \<Rightarrow> mock_provider" where
  "register_response prompt_contains response m =
     m\<lparr>mp_response_registry := mp_response_registry m @ [(prompt_contains, response)]\<rparr>"

definition register_error :: "string \<Rightarrow> llm_error \<Rightarrow> mock_provider \<Rightarrow> mock_provider" where
  "register_error prompt_contains e m =
     m\<lparr>mp_error_registry := mp_error_registry m @ [(prompt_contains, e)]\<rparr>"

definition set_failure_sequence :: "llm_error list \<Rightarrow> mock_provider \<Rightarrow> mock_provider" where
  "set_failure_sequence errors m = m\<lparr>mp_failure_sequence := errors, mp_failure_index := 0\<rparr>"

definition reset_mock :: "mock_provider \<Rightarrow> mock_provider" where
  "reset_mock m =
     m\<lparr>mp_response_registry := [], mp_error_registry := [], mp_failure_sequence := [],
       mp_failure_index := 0, mp_call_count := 0\<rparr>"

definition default_response :: "completion_request \<Rightarrow> string" where
  "default_response q =
     (if cr_prompt q \<noteq> [] then ''Mock response to: '' @ py_take 80 (cr_prompt q)
      else ''Mock response (empty prompt)'')"

definition in_prompt :: "string \<Rightarrow> completion_request \<Rightarrow> bool" where
  "in_prompt sub q = contains (lower sub) (lower (cr_prompt q))"

definition simulated_failure :: "llm_config \<Rightarrow> string \<Rightarrow> llm_error option" where
  "simulated_failure c s =
     (if s = ''error'' then Some (llm_error Provider_Error ''Simulated provider error.'' ''mock'')
      else if s = ''timeout'' then
        Some (llm_error Timeout_Error (''Simulated timeout after '' @ show_int (lc_timeout c) @ ''s.'') ''mock'')
      else if s = ''empty'' then
        Some (llm_error Response_Error ''Simulated empty response from provider.'' ''mock'')
      else if s = ''invalid'' then
        Some (llm_error Response_Error ''Simulated invalid/malformed response from provider.'' ''mock'')
      else None)"

definition mock_content :: "completion_request \<Rightarrow> mock_provider \<Rightarrow> string" where
  "mock_content q m =
     (case find (\<lambda>(sub, _). in_prompt sub q) (mp_response_registry m) of
        Some (_, content) \<Rightarrow> content
      | None \<Rightarrow>
          if mp_responses m \<noteq> [] then mp_responses m ! ((mp_call_count m - 1) mod length (mp_responses m))
          else default_response q)"

definition mock_generate :: "llm_config \<Rightarrow> mock_provider provider" where
  "mock_generate c q m0 =
     (let m = m0\<lparr>mp_call_count := mp_call_count m0 + 1\<rparr>
      in case Option.bind (mp_simulate m) (simulated_failure c) of
           Some e \<Rightarrow> (Failed e, m)
         | None \<Rightarrow>
             if mp_failure_index m < length (mp_failure_sequence m) then
               (Failed (mp_failure_sequence m ! mp_failure_index m),
                m\<lparr>mp_failure_index := mp_failure_index m + 1\<rparr>)
             else case find (\<lambda>(sub, _). in_prompt sub q) (mp_error_registry m) of
               Some (_, e) \<Rightarrow> (Failed e, m)
             | None \<Rightarrow>
                 let content = mock_content q m
                 in (Answered
                      \<lparr>co_content = PStr content, co_model = lc_model c, co_provider = ''mock'',
                       co_usage = \<lparr>tu_prompt_tokens = int (length (py_split (cr_prompt q))),
                                   tu_completion_tokens = int (length (py_split content))\<rparr>,
                       co_finish_reason = ''stop''\<rparr>, m))"

section \<open>API provider: the request\<close>

definition base_url :: "llm_config \<Rightarrow> string" where
  "base_url c =
     (let dflt = if lc_provider c = ''local'' then ''http://localhost:11434/v1'' else ''https://api.openai.com/v1'';
          url = (case lc_base_url c of None \<Rightarrow> dflt | Some u \<Rightarrow> or_text u dflt)
      in rev (dropWhile (\<lambda>x. x = CHR ''/'') (rev url)))"

definition build_payload :: "llm_config \<Rightarrow> completion_request \<Rightarrow> (string \<times> pyval) list" where
  "build_payload c q =
     (let message = (\<lambda>role content. PDict [(''role'', PStr role), (''content'', PStr content)]);
          messages = (if cr_system_instruction q \<noteq> [] then [message ''system'' (cr_system_instruction q)] else []) @
                     [message ''user'' (cr_prompt q)]
      in [(''model'', PStr (lc_model c)), (''messages'', PList messages),
          (''temperature'', PFloat (case cr_temperature q of Some t \<Rightarrow> t | None \<Rightarrow> lc_temperature c)),
          (''max_tokens'', PInt (case cr_max_tokens q of
                                   Some n \<Rightarrow> if n = 0 then lc_max_tokens c else n
                                 | None \<Rightarrow> lc_max_tokens c))] @
         (if cr_response_format q = ''json'' then [(''response_format'', PDict [(''type'', PStr ''json_object'')])]
          else []))"

section \<open>API provider: a failed reply\<close>

text \<open>
  A reply: the status, the body as JSON (None when it is not), its text, and the \<open>retry-after\<close>
  header read as a number.
\<close>

record http_reply =
  hp_status :: int
  hp_json :: "pyval option"
  hp_text :: string
  hp_retry_after :: "f64 option"

definition unlist :: "pyval \<Rightarrow> pyval" where
  "unlist v = (case v of PList (x # _) \<Rightarrow> x | _ \<Rightarrow> v)"

definition error_detail :: "http_reply \<Rightarrow> string" where
  "error_detail r = py_take 300
     (case hp_json r of
        None \<Rightarrow> hp_text r
      | Some v \<Rightarrow>
          let body = unlist v;
              e = (case body of PDict d \<Rightarrow> dict_get_or d ''error'' body | _ \<Rightarrow> body)
          in case e of PDict d \<Rightarrow> pv_str (dict_get_or d ''message'' e) | _ \<Rightarrow> pv_str e)"

text \<open>\<open>\blimit: 0\b\<close>\<close>

definition zero_limit :: string where
  "zero_limit = ''limit: 0''"

fun has_zero_limit :: "bool \<Rightarrow> string \<Rightarrow> bool" where
  "has_zero_limit after_word [] = False"
| "has_zero_limit after_word (x # s) =
     ((\<not> after_word \<and> prefix zero_limit (x # s) \<and>
       (case drop (length zero_limit) (x # s) of [] \<Rightarrow> True | y # _ \<Rightarrow> \<not> word_char y)) \<or>
      has_zero_limit (word_char x) s)"

text \<open>\<open>re.fullmatch(r"([\d.]+)s", t)\<close>\<close>

definition delay_digits :: "string \<Rightarrow> string option" where
  "delay_digits t =
     (if t \<noteq> [] \<and> last t = CHR ''s'' \<and> butlast t \<noteq> [] \<and> list_all (\<lambda>x. digit x \<or> x = CHR ''.'') (butlast t)
      then Some (butlast t) else None)"

text \<open>What is iterated over in \<open>x or []\<close>; None: it cannot be iterated.\<close>

definition iter_or_empty :: "pyval \<Rightarrow> pyval list option" where
  "iter_or_empty v =
     (if \<not> pv_true v then Some []
      else case v of
             PList vs \<Rightarrow> Some vs
           | PDict d \<Rightarrow> Some (map (PStr \<circ> fst) d)
           | PStr s \<Rightarrow> Some (map (\<lambda>x. PStr [x]) s)
           | _ \<Rightarrow> None)"

definition per_day :: "pyval \<Rightarrow> bool" where
  "per_day v = (case v of PDict d \<Rightarrow> contains ''PerDay'' (pv_str (dict_get_or d ''quotaId'' (PStr []))) | _ \<Rightarrow> False)"

text \<open>The details in order; None: a delay such as \<open>1.2.3s\<close>, or violations that cannot be iterated.\<close>

fun read_details :: "number_reader \<Rightarrow> f64 option \<Rightarrow> bool \<Rightarrow> pyval list \<Rightarrow> (f64 option \<times> bool) option" where
  "read_details nr wait exhausted [] = Some (wait, exhausted)"
| "read_details nr wait exhausted (PDict d # ds) =
     (let delay = delay_digits (pv_str (dict_get_or d ''retryDelay'' (PStr [])));
          wait' = (case delay of
                     None \<Rightarrow> Some wait
                   | Some t \<Rightarrow> if wait = None then map_option Some (nr_float nr t) else Some wait)
      in case (wait', iter_or_empty (dict_get d ''violations'')) of
           (Some w, Some vs) \<Rightarrow> read_details nr w (exhausted \<or> list_ex per_day vs) ds
         | _ \<Rightarrow> None)"
| "read_details nr wait exhausted (_ # ds) = read_details nr wait exhausted ds"

definition rate_limit_hints :: "number_reader \<Rightarrow> http_reply \<Rightarrow> (f64 option \<times> bool) option" where
  "rate_limit_hints nr r =
     (case hp_json r of
        None \<Rightarrow> Some (hp_retry_after r, False)
      | Some v \<Rightarrow>
          (case unlist v of
             PDict body \<Rightarrow>
               (case dict_get body ''error'' of
                  PDict e \<Rightarrow>
                    (case iter_or_empty (dict_get e ''details'') of
                       None \<Rightarrow> None
                     | Some ds \<Rightarrow>
                         read_details nr (hp_retry_after r)
                           (has_zero_limit False (pv_str (dict_get_or e ''message'' (PStr [])))) ds)
                | _ \<Rightarrow> Some (hp_retry_after r, False))
           | _ \<Rightarrow> Some (hp_retry_after r, False)))"

text \<open>\<open>_raise_for_status\<close>: None when nothing is raised.\<close>

definition raise_for_status ::
  "number_reader \<Rightarrow> (http_reply \<Rightarrow> string) \<Rightarrow> llm_config \<Rightarrow> http_reply \<Rightarrow> provider_reply option" where
  "raise_for_status nr crash c r =
     (let status = hp_status r; provider = lc_provider c;
          message = ''API returned HTTP '' @ show_int status @ '': '' @ error_detail r
      in if status < 400 then None
         else if status = 401 \<or> status = 403 then Some (Failed (llm_error Authentication_Error message provider))
         else if status = 429 then
           Some (case rate_limit_hints nr r of
                   None \<Rightarrow> Crashed (crash r)
                 | Some (wait, exhausted) \<Rightarrow> Failed (rate_limit_error message provider wait exhausted))
         else if 500 \<le> status then Some (Failed (llm_error Provider_Error message provider))
         else Some (Failed (llm_error Request_Validation_Error message provider)))"

section \<open>API provider: an answer\<close>

definition finish_reasons :: "(string \<times> string) list" where
  "finish_reasons =
     [(''stop'', ''stop''), (''length'', ''length''), (''content_filter'', ''error''), (''tool_calls'', ''stop''),
      (''function_call'', ''stop'')]"

definition py_hashable :: "pyval \<Rightarrow> bool" where
  "py_hashable v = (case v of PList _ \<Rightarrow> False | PDict _ \<Rightarrow> False | _ \<Rightarrow> True)"

text \<open>\<open>body["choices"][0]\<close> and its \<open>["message"]["content"]\<close>; None: one of them is missing.\<close>

definition first_choice :: "pyval \<Rightarrow> ((string \<times> pyval) list \<times> pyval) option" where
  "first_choice body =
     (case body of
        PDict b \<Rightarrow>
          (case map_of b ''choices'' of
             Some (PList (PDict choice # _)) \<Rightarrow>
               (case map_of choice ''message'' of
                  Some (PDict m) \<Rightarrow> map_option (Pair choice) (map_of m ''content'')
                | _ \<Rightarrow> None)
           | _ \<Rightarrow> None)
      | _ \<Rightarrow> None)"

definition token_count :: "number_reader \<Rightarrow> (string \<times> pyval) list \<Rightarrow> string \<Rightarrow> int option" where
  "token_count nr usage key = lax_int nr (pv_or (dict_get_or usage key (PInt 0)) (PInt 0))"

text \<open>None: the body crashes the reading, or the response does not fit its schema.\<close>

definition read_completion ::
  "number_reader \<Rightarrow> llm_config \<Rightarrow> (string \<times> pyval) list \<Rightarrow> (string \<times> pyval) list \<Rightarrow> pyval \<Rightarrow> completion option" where
  "read_completion nr c body choice content =
     (let usage = pv_or (dict_get body ''usage'') (PDict []);
          reason = pv_or (dict_get choice ''finish_reason'') (PStr ''stop'');
          model = pv_or (dict_get body ''model'') (PStr (lc_model c))
      in case (usage, if content = PNone then PStr [] else content, model) of
           (PDict u, PStr text, PStr m) \<Rightarrow>
             (case (token_count nr u ''prompt_tokens'', token_count nr u ''completion_tokens'') of
                (Some prompt_tokens, Some completion_tokens) \<Rightarrow>
                  if py_hashable reason then Some
                    \<lparr>co_content = PStr text, co_model = m, co_provider = lc_provider c,
                     co_usage = \<lparr>tu_prompt_tokens = prompt_tokens, tu_completion_tokens = completion_tokens\<rparr>,
                     co_finish_reason =
                       (case reason of
                          PStr s \<Rightarrow> (case map_of finish_reasons s of Some t \<Rightarrow> t | None \<Rightarrow> ''stop'')
                        | _ \<Rightarrow> ''stop'')\<rparr>
                  else None
              | _ \<Rightarrow> None)
         | _ \<Rightarrow> None)"

definition parse_response_body ::
  "number_reader \<Rightarrow> (http_reply \<Rightarrow> string) \<Rightarrow> llm_config \<Rightarrow> http_reply \<Rightarrow> pyval \<Rightarrow> provider_reply" where
  "parse_response_body nr crash c r body =
     (case first_choice body of
        None \<Rightarrow>
          Failed (llm_error Response_Error ''API response is missing choices[0].message.content.'' (lc_provider c))
      | Some (choice, content) \<Rightarrow>
          (case body of
             PDict b \<Rightarrow>
               (case read_completion nr c b choice content of
                  Some answer \<Rightarrow> Answered answer
                | None \<Rightarrow> Crashed (crash r))
           | _ \<Rightarrow> Crashed (crash r)))"

text \<open>What the HTTP client does with a payload.\<close>

datatype http_outcome = Timed_Out | Unreachable string | Replied http_reply

definition api_generate ::
  "number_reader \<Rightarrow> (http_reply \<Rightarrow> string) \<Rightarrow> llm_config \<Rightarrow>
     ((string \<times> pyval) list \<Rightarrow> 's \<Rightarrow> http_outcome \<times> 's) \<Rightarrow> 's provider" where
  "api_generate nr crash c post q w =
     (let (outcome, w') = post (build_payload c q) w
      in (case outcome of
            Timed_Out \<Rightarrow>
              Failed (llm_error Timeout_Error
                (''API request timed out after '' @ show_int (lc_timeout c) @ ''s.'') (lc_provider c))
          | Unreachable kind \<Rightarrow>
              Failed (llm_error Connection_Error
                (''Could not reach LLM API at '' @ base_url c @ '': '' @ kind) (lc_provider c))
          | Replied r \<Rightarrow>
              (case raise_for_status nr crash c r of
                 Some failure \<Rightarrow> failure
               | None \<Rightarrow>
                   (case hp_json r of
                      None \<Rightarrow>
                        Failed (llm_error Response_Error ''API returned a non-JSON response body.'' (lc_provider c))
                    | Some body \<Rightarrow> parse_response_body nr crash c r body)), w'))"

section \<open>Factory\<close>

datatype provider_choice = Mock_Provider | Api_Provider

definition get_llm_provider :: "llm_config \<Rightarrow> llm_error + provider_choice" where
  "get_llm_provider c =
     (case validate_config c of
        Some e \<Rightarrow> Inl e
      | None \<Rightarrow>
          if lc_provider c = ''mock'' then Inr Mock_Provider
          else if lc_provider c \<in> {''api'', ''local''} then Inr Api_Provider
          else Inl (llm_error Configuration_Error
                 (''Unknown LLM_PROVIDER '' @ quoted (lc_provider c) @ ''. Valid providers: mock, local, api.'')
                 ''config''))"

end
