(* ===== verification/LLM_Properties.thy ===== *)
theory LLM_Properties
  imports LLM_Providers
begin

text \<open>
  What the language-model layer guarantees its callers: how often a provider is called and which
  outcome counts, what a returned answer looks like, when a failed HTTP call is repeated, and that a
  JSON object wrapped in prose or in a code fence is read as that object.
\<close>

section \<open>The session against a reference\<close>

text \<open>The first \<open>n\<close> replies of the provider, and its state after them.\<close>

fun replies :: "'s provider \<Rightarrow> completion_request \<Rightarrow> nat \<Rightarrow> 's \<Rightarrow> provider_reply list" where
  "replies p q 0 w = []"
| "replies p q (Suc n) w = fst (p q w) # replies p q n (snd (p q w))"

fun after_calls :: "'s provider \<Rightarrow> completion_request \<Rightarrow> nat \<Rightarrow> 's \<Rightarrow> 's" where
  "after_calls p q 0 w = w"
| "after_calls p q (Suc n) w = after_calls p q n (snd (p q w))"

definition transient :: "attempt \<Rightarrow> bool" where
  "transient a = (case a of Transient _ \<Rightarrow> True | _ \<Rightarrow> False)"

definition transient_error :: "attempt \<Rightarrow> llm_error option" where
  "transient_error a = (case a of Transient e \<Rightarrow> Some e | _ \<Rightarrow> None)"

text \<open>
  The outcome of a list of attempts: the first that is not transient decides; without one, the last
  error is raised.
\<close>

definition first_settled :: "llm_error option \<Rightarrow> attempt list \<Rightarrow> session_failure + completion" where
  "first_settled last_error as =
     (case dropWhile transient as of
        Done r # _ \<Rightarrow> Inr r
      | Fatal e # _ \<Rightarrow> Inl (Session_Error e)
      | _ \<Rightarrow> (case (if as = [] then last_error else transient_error (last as)) of
               Some e \<Rightarrow> Inl (Session_Error e)
             | None \<Rightarrow> Inl Assertion_Failure))"

definition calls_made :: "attempt list \<Rightarrow> nat" where
  "calls_made as = min (length as) (length (takeWhile transient as) + 1)"

definition pauses :: "attempt list \<Rightarrow> f64 list" where
  "pauses as = concat (map wait_before_retry
     (somes (map transient_error (takeWhile transient (butlast as)))))"

lemma first_settled_simps [simp]:
  "first_settled l (Done r # as) = Inr r"
  "first_settled l (Fatal e # as) = Inl (Session_Error e)"
  "first_settled l [] = (case l of None \<Rightarrow> Inl Assertion_Failure | Some e \<Rightarrow> Inl (Session_Error e))"
  by (simp_all add: first_settled_def transient_def split: option.split)

lemma first_settled_Transient [simp]:
  "first_settled l (Transient e # as) = first_settled (Some e) as"
proof (cases "as = []")
  case False
  have drop: "dropWhile transient (Transient e # as) = dropWhile transient as" by (simp add: transient_def)
  from False show ?thesis unfolding first_settled_def drop last_ConsR[OF False] by simp
qed (simp add: first_settled_def transient_def transient_error_def)

lemma calls_made_simps [simp]:
  "calls_made (Done r # as) = 1" "calls_made (Fatal e # as) = 1"
  "calls_made (Transient e # as) = Suc (calls_made as)" "calls_made [] = 0"
  by (simp_all add: calls_made_def transient_def)

lemma pauses_simps [simp]:
  "pauses (Done r # as) = []" "pauses (Fatal e # as) = []" "pauses [] = []"
  "pauses (Transient e # as) = (if as = [] then [] else wait_before_retry e) @ pauses as"
  by (simp_all add: pauses_def transient_def transient_error_def)

lemma replies_eq_Nil [simp]: "replies p q n w = [] \<longleftrightarrow> n = 0"
  by (cases n) simp_all

lemma length_replies [simp]: "length (replies p q n w) = n"
  by (induction n arbitrary: w) simp_all

lemma attempts_reference:
  "attempts c p q n l w =
     (let as = map (attempt_of c) (replies p q n w)
      in (first_settled l as, after_calls p q (calls_made as) w, pauses as))"
proof (induction n arbitrary: l w)
  case 0
  then show ?case by (simp split: option.splits)
next
  case (Suc n)
  obtain reply w' where p: "p q w = (reply, w')" by fastforce
  show ?case by (simp add: p Suc.IH Let_def split: attempt.split)
qed

lemma pauses_bounded:
  "t \<in> set (pauses (map (attempt_of c) rs)) \<Longrightarrow> t \<le> max_retry_after"
  by (induction rs)
     (auto simp: attempt_of_def judge_error_def wait_before_retry_def is_retryable_def
       split: provider_reply.splits sum.splits if_splits option.splits llm_error_class.splits)

lemma length_pauses: "length (pauses as) \<le> length as - 1"
proof (induction as)
  case (Cons a as)
  have "length (wait_before_retry e) \<le> 1" for e by (simp add: wait_before_retry_def split: option.splits)
  then show ?case using Cons by (cases a) (auto, metis One_nat_def Suc_leD Suc_pred add.commute add_mono length_greater_0_conv plus_1_eq_Suc)
qed simp

lemma calls_made_le: "calls_made as \<le> length as"
  by (simp add: calls_made_def)

lemma attempt_done_usable:
  assumes "attempt_of c reply = Done r"
  shows "\<not> blank (completion_text r)" "co_content r = PStr (completion_text r)"
    "co_finish_reason r \<noteq> ''error''"
    "\<exists>r0. reply = Answered r0 \<and> co_content r0 = co_content r"
    "lc_provider c \<noteq> [] \<Longrightarrow> co_provider r \<noteq> []" "lc_model c \<noteq> [] \<Longrightarrow> co_model r \<noteq> []"
  using assms
  by (auto simp: attempt_of_def judge_error_def normalize_response_def completion_text_def Let_def or_text_def
      split: provider_reply.splits sum.splits pyval.splits if_splits)

lemma first_settled_Inr:
  "first_settled l as = Inr r \<Longrightarrow> Done r \<in> set as"
proof (induction as arbitrary: l)
  case (Cons a as)
  then show ?case by (cases a) auto
qed (simp split: option.splits)

lemma first_settled_not_assertion:
  "as \<noteq> [] \<or> l \<noteq> None \<Longrightarrow> first_settled l as \<noteq> Inl Assertion_Failure"
proof (induction as arbitrary: l)
  case (Cons a as)
  then show ?case by (cases a) auto
qed (simp split: option.splits)

section \<open>Reading an object out of an answer\<close>

lemma split_at_first_none: "sub \<noteq> [] \<Longrightarrow> hd sub \<notin> set s \<Longrightarrow> split_at_first sub s = None"
  by (induction s) (auto simp: prefix_def neq_Nil_conv)

lemma split_at_first_found:
  "sub \<noteq> [] \<Longrightarrow> hd sub \<notin> set a \<Longrightarrow> split_at_first sub (a @ sub @ b) = Some (a, b)"
proof (induction a)
  case Nil
  then show ?case by (cases sub) simp_all
next
  case (Cons x a)
  then show ?case by (auto simp: prefix_def neq_Nil_conv)
qed

lemma fenced_none: "CHR ''`'' \<notin> set s \<Longrightarrow> fenced s = []"
  by (subst fenced.simps) (simp add: split_at_first_none fence_def)

lemma fenced_found:
  assumes "CHR ''`'' \<notin> set pre" "CHR ''`'' \<notin> set inner" "fence_body (inner @ fence @ rest) = body @ fence @ rest"
    "CHR ''`'' \<notin> set body"
  shows "\<exists>more. fenced (pre @ fence @ inner @ fence @ rest) = strip body # more"
proof -
  have "split_at_first fence (pre @ fence @ inner @ fence @ rest) = Some (pre, inner @ fence @ rest)"
    using assms(1) by (intro split_at_first_found) (simp_all add: fence_def)
  moreover have "split_at_first fence (body @ fence @ rest) = Some (body, rest)"
    using assms(4) by (intro split_at_first_found) (simp_all add: fence_def)
  ultimately show ?thesis by (subst fenced.simps) (simp add: assms(3))
qed

lemma takeWhile_to: "x \<notin> set a \<Longrightarrow> takeWhile (\<lambda>c. c \<noteq> x) (a @ x # b) = a"
  by (induction a) auto

lemma braced_found:
  assumes "CHR ''{'' \<notin> set pre" "CHR ''}'' \<notin> set post"
  shows "braced (pre @ CHR ''{'' # m @ CHR ''}'' # post) = [CHR ''{'' # m @ [CHR ''}'']]"
proof -
  let ?s = "pre @ CHR ''{'' # m @ CHR ''}'' # post"
  have r: "rev ?s = rev post @ CHR ''}'' # (rev (pre @ CHR ''{'' # m))" by simp
  have "takeWhile (\<lambda>c. c \<noteq> CHR ''}'') (rev ?s) = rev post"
    unfolding r by (rule takeWhile_to) (simp add: assms(2))
  moreover have "takeWhile (\<lambda>c. c \<noteq> CHR ''{'') ?s = pre" by (rule takeWhile_to) (rule assms(1))
  ultimately show ?thesis by (simp add: braced_def Let_def)
qed

lemma strip_strip: "strip (strip s) = strip s"
proof -
  let ?l = "dropWhile is_space s" and ?r = "strip s"
  have r: "?r = rev (dropWhile is_space (rev ?l))" by (simp add: strip_def lstrip_def rstrip_def)
  have l: "?l = ?r @ rev (takeWhile is_space (rev ?l))"
    unfolding r by (metis rev_append rev_rev_ident takeWhile_dropWhile_id)
  have "?r = [] \<or> \<not> is_space (hd ?r)"
    using hd_dropWhile[of is_space s] l by (metis append_is_Nil_conv hd_append2)
  then have "dropWhile is_space ?r = ?r" by (simp add: dropWhile_eq_self_iff)
  moreover have "dropWhile is_space (rev ?r) = rev ?r" unfolding r by simp
  ultimately show ?thesis by (simp add: strip_def[of "strip s"] lstrip_def rstrip_def)
qed

lemma strip_solid:
  assumes "list_all is_space a" "list_all is_space b" "\<not> is_space x" "\<not> is_space y"
  shows "strip (a @ (x # m @ [y]) @ b) = x # m @ [y]"
proof -
  have "dropWhile is_space (a @ (x # m @ [y]) @ b) = (x # m @ [y]) @ b"
    using assms by (simp add: list_all_iff dropWhile_append2)
  moreover have "dropWhile is_space (rev ((x # m @ [y]) @ b)) = rev (x # m @ [y])"
    using assms by (simp add: list_all_iff dropWhile_append)
  ultimately show ?thesis by (simp add: strip_def lstrip_def rstrip_def del: append.simps rev.simps)
qed

section \<open>Properties\<close>

text \<open>
  C26: What a session's \<open>generate\<close> does, against a reference on the list of what every allowed
  attempt would lead to: the first attempt that is not a retryable failure decides the result, and
  without one the last failure is raised; the provider is called exactly up to that attempt and never
  more than \<open>1 + max_retries\<close> times; the session sleeps at most \<open>max_retries\<close> times, at most 30
  seconds each; the assertion at the end cannot fail; and an answer that is returned has text that is
  not blank, was given by the provider in one of these calls, and has no error finish reason.
\<close>

theorem llm_session_outcome:
  assumes "strip (cr_prompt q) \<noteq> []" "0 \<le> lc_max_retries c"
    "as = map (attempt_of c) (replies p q (nat (1 + lc_max_retries c)) w)"
  shows "session_generate c p q w = (first_settled None as, after_calls p q (calls_made as) w, pauses as) \<and>
    int (calls_made as) \<le> 1 + lc_max_retries c \<and>
    int (length (pauses as)) \<le> lc_max_retries c \<and> list_all (\<lambda>t. t \<le> 30) (pauses as) \<and>
    (case first_settled None as of
       Inl failure \<Rightarrow> failure \<noteq> Assertion_Failure
     | Inr r \<Rightarrow>
         (\<exists>r0. Answered r0 \<in> set (replies p q (nat (1 + lc_max_retries c)) w) \<and> co_content r = co_content r0) \<and>
         co_content r = PStr (completion_text r) \<and> \<not> blank (completion_text r) \<and>
         co_finish_reason r \<noteq> ''error'')"
proof -
  have len: "length as = nat (1 + lc_max_retries c)" by (simp add: assms(3))
  have "session_generate c p q w = (first_settled None as, after_calls p q (calls_made as) w, pauses as)"
    using assms(1) by (simp add: session_generate_def validate_request_def max_attempts_def attempts_reference assms(3) Let_def)
  moreover have "int (calls_made as) \<le> 1 + lc_max_retries c" "int (length (pauses as)) \<le> lc_max_retries c"
    using calls_made_le[of as] length_pauses[of as] len assms(2) by linarith+
  moreover have "list_all (\<lambda>t. t \<le> 30) (pauses as)"
    using pauses_bounded unfolding assms(3) by (auto simp: list_all_iff max_retry_after_def)
  moreover have "case first_settled None as of
       Inl failure \<Rightarrow> failure \<noteq> Assertion_Failure
     | Inr r \<Rightarrow>
         (\<exists>r0. Answered r0 \<in> set (replies p q (nat (1 + lc_max_retries c)) w) \<and> co_content r = co_content r0) \<and>
         co_content r = PStr (completion_text r) \<and> \<not> blank (completion_text r) \<and> co_finish_reason r \<noteq> ''error''"
  proof (cases "first_settled None as")
    case (Inl failure)
    have "as \<noteq> []" using len assms(2) by auto
    with Inl show ?thesis using first_settled_not_assertion[of as None] by auto
  next
    case (Inr r)
    then obtain reply where "reply \<in> set (replies p q (nat (1 + lc_max_retries c)) w)" "attempt_of c reply = Done r"
      using first_settled_Inr by (fastforce simp: assms(3))
    with attempt_done_usable[of c reply r] show ?thesis unfolding Inr sum.case by metis
  qed
  ultimately show ?thesis by blast
qed

text \<open>
  A failed HTTP call is repeated exactly when a repetition can help: a server error, or a rate
  limit whose body could be read, whose quota is not used up and whose wait is unknown or at most 30
  seconds. Rejected credentials and every other client error end the call at once.
\<close>

theorem failed_call_retried_exactly:
  assumes "post (build_payload c q) w = (Replied r, w')" "400 \<le> hp_status r"
  shows "(\<exists>e. attempt_of c (fst (api_generate nr crash c post q w)) = Transient e) \<longleftrightarrow>
    500 \<le> hp_status r \<or>
    hp_status r = 429 \<and>
    (\<exists>wait. rate_limit_hints nr r = Some (wait, False) \<and> (case wait of None \<Rightarrow> True | Some t \<Rightarrow> t \<le> 30))"
  using assms
  by (auto simp: api_generate_def raise_for_status_def attempt_of_def judge_error_def is_retryable_def
      rate_limit_error_def llm_error_def max_retry_after_def Let_def split: option.splits prod.splits)

text \<open>
  A JSON object in an answer is read as that object although the answer as a whole is not JSON:
  inside a code fence marked as JSON, whatever follows the fence, or inside prose without braces and
  back quotes around it.
\<close>

theorem wrapped_object_read:
  assumes "jt_loads jt t = Some (PDict d)" "t = CHR ''{'' # m @ [CHR ''}'']"
    "CHR ''`'' \<notin> set (pre @ t)" "jt_loads jt (strip s) = None" "co_content r = PStr s"
    "(list_all is_space (a @ b) \<and> strip s = pre @ fence @ ''json'' @ a @ t @ b @ fence @ rest) \<or>
     (strip s = pre @ t @ post \<and> CHR ''{'' \<notin> set pre \<and> CHR ''}'' \<notin> set post \<and> CHR ''`'' \<notin> set post)"
  shows "response_object jt why cls kind r = Inr d"
proof -
  have "first_parsed jt (fenced (strip s) @ braced (strip s)) = Some (PDict d)"
    using assms(6)
  proof (elim disjE conjE)
    assume sp: "list_all is_space (a @ b)" and s: "strip s = pre @ fence @ ''json'' @ a @ t @ b @ fence @ rest"
    have no: "CHR ''`'' \<notin> set (a @ b)" using sp by (auto simp: list_all_iff is_space_def dest: bspec[of _ _ "CHR ''`''"])
    have body: "fence_body ((''json'' @ a @ t @ b) @ fence @ rest) = (a @ t @ b) @ fence @ rest"
      by (simp add: fence_body_def blank_or_tab_def)
    have "\<exists>more. fenced (pre @ fence @ (''json'' @ a @ t @ b) @ fence @ rest) = strip (a @ t @ b) # more"
      using assms(3) no by (intro fenced_found[OF _ _ body]) auto
    moreover have "strip (a @ t @ b) = t"
      using sp unfolding assms(2) by (intro strip_solid) (auto simp: is_space_def)
    ultimately show ?thesis using assms(1) s by auto
  next
    assume s: "strip s = pre @ t @ post"
      and none: "CHR ''{'' \<notin> set pre" "CHR ''}'' \<notin> set post" "CHR ''`'' \<notin> set post"
    have "fenced (strip s) = []" using assms(3) none by (intro fenced_none) (simp add: s)
    moreover have "braced (strip s) = [t]" using braced_found[OF none(1,2)] by (simp add: s assms(2))
    ultimately show ?thesis using assms(1) by simp
  qed
  moreover have "strip s \<noteq> []" using assms(6) by (auto simp: assms(2) fence_def)
  ultimately show ?thesis
    by (simp add: response_object_def completion_text_def assms(4,5) loads_json_object_def strip_strip Let_def)
qed

section \<open>Witnesses\<close>

definition sample_config :: llm_config where
  "sample_config = \<lparr>lc_provider = ''mock'', lc_api_key = [], lc_model = ''m'', lc_temperature = 1 / 5,
     lc_max_tokens = 4096, lc_base_url = None, lc_timeout = 60, lc_max_retries = 2\<rparr>"

definition sample_request :: completion_request where
  "sample_request = \<lparr>cr_prompt = ''plan'', cr_system_instruction = [], cr_temperature = None,
     cr_max_tokens = None, cr_response_format = ''text''\<rparr>"

definition flaky_mock :: mock_provider where
  "flaky_mock = set_failure_sequence [rate_limit_error ''slow'' ''mock'' (Some 5) False,
     llm_error Timeout_Error ''late'' ''mock''] (new_mock None [''yes''])"

lemma flaky_mock_replies:
  "map (attempt_of sample_config) (replies (mock_generate sample_config) sample_request 3 flaky_mock) =
     [Transient (rate_limit_error ''slow'' ''mock'' (Some 5) False), Transient (llm_error Timeout_Error ''late'' ''mock''),
      Done \<lparr>co_content = PStr ''yes'', co_model = ''m'', co_provider = ''mock'',
            co_usage = \<lparr>tu_prompt_tokens = 1, tu_completion_tokens = 1\<rparr>, co_finish_reason = ''stop''\<rparr>]"
  by code_simp

text \<open>The mock fails twice and answers the third time: three calls, one pause of five seconds.\<close>

lemma llm_session_outcome_witness:
  "fst (session_generate sample_config (mock_generate sample_config) sample_request flaky_mock) =
     Inr \<lparr>co_content = PStr ''yes'', co_model = ''m'', co_provider = ''mock'',
          co_usage = \<lparr>tu_prompt_tokens = 1, tu_completion_tokens = 1\<rparr>, co_finish_reason = ''stop''\<rparr> \<and>
   snd (snd (session_generate sample_config (mock_generate sample_config) sample_request flaky_mock)) = [5]"
proof -
  have prompt: "strip (cr_prompt sample_request) \<noteq> []" by code_simp
  have retries: "0 \<le> lc_max_retries sample_config" "nat (1 + lc_max_retries sample_config) = 3"
    by (simp_all add: sample_config_def)
  note outcome = llm_session_outcome[OF prompt retries(1) refl, of "mock_generate sample_config" flaky_mock,
      unfolded retries(2) flaky_mock_replies]
  have "wait_before_retry (rate_limit_error ''slow'' ''mock'' (Some 5) False) = [5]"
    "wait_before_retry (llm_error Timeout_Error ''late'' ''mock'') = []"
    by (simp_all add: wait_before_retry_def rate_limit_error_def llm_error_def)
  with outcome show ?thesis by simp
qed

definition busy_reply :: http_reply where
  "busy_reply = \<lparr>hp_status = 429, hp_json = None, hp_text = ''busy'', hp_retry_after = Some 10\<rparr>"

lemma failed_call_retried_exactly_witness:
  "\<exists>e. attempt_of sample_config (fst (api_generate \<lparr>nr_int = \<lambda>_. None, nr_float = \<lambda>_. None\<rparr> (\<lambda>_. [])
     sample_config (\<lambda>_ n. (Replied busy_reply, n + 1)) sample_request (0 :: nat))) = Transient e"
  using failed_call_retried_exactly[of "\<lambda>_ n. (Replied busy_reply, n + 1)" sample_config sample_request
      "0 :: nat" busy_reply "0 + 1" "\<lparr>nr_int = \<lambda>_. None, nr_float = \<lambda>_. None\<rparr>" "\<lambda>_. []"]
  by (simp add: busy_reply_def rate_limit_hints_def)

definition toy_json :: json_text where
  "toy_json = \<lparr>jt_dumps = \<lambda>_. [], jt_loads = \<lambda>t. if t = ''{}'' then Some (PDict []) else None\<rparr>"

lemma wrapped_object_read_witness:
  "response_object toy_json (\<lambda>_. []) Response_Error ''Response''
     \<lparr>co_content = PStr (''Sure: '' @ fence @ ''json {} '' @ fence @ ''. {'' ), co_model = [], co_provider = [],
      co_usage = \<lparr>tu_prompt_tokens = 0, tu_completion_tokens = 0\<rparr>, co_finish_reason = ''stop''\<rparr> = Inr []"
proof -
  let ?s = "''Sure: '' @ fence @ ''json {} '' @ fence @ ''. {''"
  have "strip ?s = ?s" by code_simp
  then have parts: "list_all is_space ('' '' @ '' '') \<and>
      strip ?s = ''Sure: '' @ fence @ ''json'' @ '' '' @ ''{}'' @ '' '' @ fence @ ''. {''"
    by (simp add: is_space_def)
  show ?thesis
    by (rule wrapped_object_read[of _ "''{}''" _ "[]" "''Sure: ''" ?s _ "'' ''" "'' ''" "''. {''" "[]"])
      (use parts \<open>strip ?s = ?s\<close> in \<open>simp_all add: toy_json_def\<close>)
qed

end
