(* ===== verification/Pipeline_State.thy ===== *)
theory Pipeline_State
  imports Document_Store Py_Json
begin

text \<open>
  The records of the automated pipeline, first half of \<^verbatim>\<open>backend/pipeline/runner.py\<close>: a run is a
  document of the collection \<open>pipeline_runs\<close> with one entry per stage; \<open>_RunState\<close> keeps a copy of
  it and writes every change back. Creating, starting, cancelling and closing runs is here; the stages
  are in later theories.

  A \<open>world\<close> is what every step reads and writes: the document store, the clock as the stream of its
  coming readings, and the runs whose task is alive in this process (\<open>_run_tasks\<close>; a cancelled task
  leaves it). Documents are Python dictionaries as the store keeps them.
\<close>

section \<open>The world\<close>

record world =
  w_db :: doc_store
  w_clock :: "nat \<Rightarrow> string"
  w_tasks :: "int list"

definition now_iso :: "'a world_scheme \<Rightarrow> string \<times> 'a world_scheme" where
  "now_iso w = (w_clock w 0, w\<lparr>w_clock := \<lambda>n. w_clock w (Suc n)\<rparr>)"

text \<open>\<open>db.insert\<close> and \<open>db.update\<close> stamp the document with the time.\<close>

definition put_new :: "string \<Rightarrow> document \<Rightarrow> 'a world_scheme \<Rightarrow> document \<times> 'a world_scheme" where
  "put_new c fs w =
     (let (t, w') = now_iso w; (d, db) = doc_insert t c fs (w_db w') in (d, w'\<lparr>w_db := db\<rparr>))"

definition put_row :: "string \<Rightarrow> int \<Rightarrow> document \<Rightarrow> 'a world_scheme \<Rightarrow> document option \<times> 'a world_scheme" where
  "put_row c i changes w =
     (let (t, w') = now_iso w; (d, db) = doc_update t c i changes (w_db w') in (d, w'\<lparr>w_db := db\<rparr>))"

definition put :: "string \<Rightarrow> int \<Rightarrow> document \<Rightarrow> 'a world_scheme \<Rightarrow> 'a world_scheme" where
  "put c i changes w = snd (put_row c i changes w)"

definition put_if ::
  "string \<Rightarrow> int \<Rightarrow> string \<Rightarrow> pyval \<Rightarrow> document \<Rightarrow> 'a world_scheme \<Rightarrow> bool \<times> 'a world_scheme" where
  "put_if c i field expected changes w =
     (let (t, w') = now_iso w; (ok, db) = doc_update_if t c i field expected changes (w_db w')
      in (ok, w'\<lparr>w_db := db\<rparr>))"

definition fetch :: "'a world_scheme \<Rightarrow> string \<Rightarrow> int \<Rightarrow> document option" where
  "fetch w c i = doc_get (w_db w) c i"

definition pipeline_runs :: string where "pipeline_runs = ''pipeline_runs''"
definition projects :: string where "projects = ''projects''"
definition audit_events :: string where "audit_events = ''audit_events''"

text \<open>\<open>record_audit\<close>\<close>

definition record_audit ::
  "pyval \<Rightarrow> string \<Rightarrow> string \<Rightarrow> string \<Rightarrow> string \<Rightarrow> pyval \<Rightarrow> 'a world_scheme \<Rightarrow> 'a world_scheme" where
  "record_audit actor kind message level ref owner w =
     (let (t, w') = now_iso w
      in snd (put_new audit_events
           [(''at'', PStr t), (''actor'', actor), (''kind'', PStr kind), (''message'', PStr message),
            (''level'', PStr level), (''ref'', PStr ref), (''owner_uid'', owner)] w'))"

section \<open>Entries with a status\<close>

definition dict_of :: "pyval \<Rightarrow> document" where
  "dict_of v = (case v of PDict d \<Rightarrow> d | _ \<Rightarrow> [])"

definition entries_of :: "string \<Rightarrow> document \<Rightarrow> document list" where
  "entries_of field d = (case dict_get d field of PList vs \<Rightarrow> map dict_of vs | _ \<Rightarrow> [])"

definition entries_value :: "document list \<Rightarrow> pyval" where
  "entries_value es = PList (map PDict es)"

definition status_of :: "document \<Rightarrow> pyval" where
  "status_of d = dict_get d ''status''"

definition set_field :: "string \<Rightarrow> pyval \<Rightarrow> document \<Rightarrow> document" where
  "set_field k v d = AList.update k v d"

definition finished_now :: "string \<Rightarrow> document \<Rightarrow> document" where
  "finished_now t e =
     (let e1 = set_field ''finished_at'' (PStr t) e
      in set_field ''started_at'' (pv_or (dict_get e1 ''started_at'') (PStr t)) e1)"

text \<open>One entry gets a status: \<open>starts\<close> and \<open>ends\<close> say which stamps that status sets.\<close>

definition mark_entry ::
  "bool \<Rightarrow> bool \<Rightarrow> string \<Rightarrow> string option \<Rightarrow> document \<Rightarrow> 'a world_scheme \<Rightarrow> document \<times> 'a world_scheme" where
  "mark_entry starts ends status detail e w =
     (let (e', w') = (if starts then let (t, w') = now_iso w in (set_field ''started_at'' (PStr t) e, w')
                      else if ends then let (t, w') = now_iso w in (finished_now t e, w')
                      else (e, w));
          e'' = set_field ''status'' (PStr status) e'
      in (case detail of None \<Rightarrow> e'' | Some text \<Rightarrow> set_field ''detail'' (PStr text) e'', w'))"

fun mark_entries ::
  "string \<Rightarrow> bool \<Rightarrow> bool \<Rightarrow> string \<Rightarrow> string option \<Rightarrow> document list \<Rightarrow> 'a world_scheme \<Rightarrow>
     document list \<times> 'a world_scheme" where
  "mark_entries key starts ends status detail [] w = ([], w)"
| "mark_entries key starts ends status detail (e # es) w =
     (let (e', w') = (if dict_get e ''key'' = PStr key then mark_entry starts ends status detail e w else (e, w));
          (es', w'') = mark_entries key starts ends status detail es w'
      in (e' # es', w''))"

section \<open>Run documents\<close>

definition pipeline_stages :: "(string \<times> string) list" where
  "pipeline_stages =
     [(''codebase'', ''Codebase ingestion''), (''analyze'', ''Page analysis''), (''plan'', ''Test planning''),
      (''execute'', ''Test execution''), (''heal'', ''Self-healing''), (''security'', ''Security scan''),
      (''report'', ''Report'')]"

definition active_statuses :: "string list" where
  "active_statuses = [''queued'', ''running'']"

definition run_triggers :: "string list" where
  "run_triggers = [''manual'', ''schedule'', ''webhook'']"

definition pending_entry :: "string \<times> string \<Rightarrow> document" where
  "pending_entry kl =
     [(''key'', PStr (fst kl)), (''label'', PStr (snd kl)), (''status'', PStr ''pending''), (''detail'', PNone),
      (''started_at'', PNone), (''finished_at'', PNone)]"

definition active_run :: "'a world_scheme \<Rightarrow> int \<Rightarrow> document option" where
  "active_run w project_id =
     (let find = (\<lambda>status. Option.bind
            (doc_find_one (w_db w) pipeline_runs [(''project_id'', PInt project_id), (''status'', PStr status)]) id)
      in case somes (map find active_statuses) of [] \<Rightarrow> None | row # _ \<Rightarrow> Some row)"

text \<open>\<open>create_run\<close>: an unknown trigger raises.\<close>

definition create_run ::
  "document \<Rightarrow> string \<Rightarrow> string \<Rightarrow> pyval \<Rightarrow> bool \<Rightarrow> pyval \<Rightarrow> 'a world_scheme \<Rightarrow>
     string + (document \<times> 'a world_scheme)" where
  "create_run project trigger actor detail ingest commit_sha w =
     (if trigger \<notin> set run_triggers then Inl (''Unknown trigger '' @ py_repr trigger)
      else Inr (put_new pipeline_runs
        [(''project_id'', dict_get project ''id''), (''project_name'', dict_get project ''name''),
         (''app_url'', dict_get project ''app_url''), (''owner_uid'', dict_get project ''owner_uid''),
         (''trigger'', PStr trigger), (''trigger_detail'', detail), (''actor'', PStr actor),
         (''ingest'', PBool ingest), (''status'', PStr ''queued''), (''error'', PNone),
         (''stages'', entries_value (map pending_entry pipeline_stages)), (''tests'', PList []),
         (''summary'', PNone), (''regressions'', PList []), (''started_at'', PNone), (''finished_at'', PNone),
         (''commit_sha'', commit_sha)] w))"

text \<open>
  \<open>start_run\<close>: \<open>here\<close> says whether the run is executed in this process (it is not when the pipeline
  is left to a worker and no executor is given). The task itself runs later.
\<close>

definition start_run ::
  "bool \<Rightarrow> document \<Rightarrow> string \<Rightarrow> string \<Rightarrow> pyval \<Rightarrow> bool \<Rightarrow> pyval \<Rightarrow> 'a world_scheme \<Rightarrow>
     string + (document \<times> 'a world_scheme)" where
  "start_run here project trigger actor detail ingest commit_sha w =
     (case create_run project trigger actor detail ingest commit_sha w of
        Inl e \<Rightarrow> Inl e
      | Inr (run, w') \<Rightarrow>
          let i = row_id run; w'' = (if here then w'\<lparr>w_tasks := w_tasks w' @ [i]\<rparr> else w')
          in Inr (run, record_audit (PStr actor) ''pipeline''
               (''Pipeline #'' @ show_int i @ '' queued for '' @ pv_str (dict_get project ''name'') @ '' ('' @ trigger @
                (if pv_true detail then '': '' @ pv_str detail else []) @ '')'')
               ''info'' (show_int i) (dict_get project ''owner_uid'') w''))"

section \<open>The state of an executing run\<close>

record run_state = world +
  rs_doc :: document

definition run_state_of :: "world \<Rightarrow> document \<Rightarrow> run_state" where
  "run_state_of w run = \<lparr>w_db = w_db w, w_clock = w_clock w, w_tasks = w_tasks w, rs_doc = run\<rparr>"

definition world_of :: "run_state \<Rightarrow> world" where
  "world_of s = \<lparr>w_db = w_db s, w_clock = w_clock s, w_tasks = w_tasks s\<rparr>"

definition rs_id :: "run_state \<Rightarrow> int" where
  "rs_id s = row_id (rs_doc s)"

definition save :: "document \<Rightarrow> run_state \<Rightarrow> run_state" where
  "save changes s = put pipeline_runs (rs_id s) changes (s\<lparr>rs_doc := merge_fields (rs_doc s) changes\<rparr>)"

definition stage_entries :: "run_state \<Rightarrow> document list" where
  "stage_entries s = entries_of ''stages'' (rs_doc s)"

definition stage :: "string \<Rightarrow> string \<Rightarrow> string option \<Rightarrow> run_state \<Rightarrow> run_state" where
  "stage key status detail s =
     (let (es, s') = mark_entries key (status = ''running'') (status \<in> {''done'', ''failed'', ''skipped''}) status
            detail (stage_entries s) s
      in save [(''stages'', entries_value es)] s')"

definition entry_key :: "document \<Rightarrow> string" where
  "entry_key e = (case dict_get e ''key'' of PStr k \<Rightarrow> k | _ \<Rightarrow> [])"

definition skip_rest :: "string \<Rightarrow> run_state \<Rightarrow> run_state" where
  "skip_rest reason s =
     fold (\<lambda>e. stage (entry_key e) ''skipped'' (Some reason))
       (filter (\<lambda>e. status_of e = PStr ''pending'') (stage_entries s)) s"

text \<open>\<open>_finish_project\<close>: the project shows this run as its last.\<close>

definition finish_project :: "document \<Rightarrow> run_state \<Rightarrow> run_state" where
  "finish_project project s =
     (let (stamp, s') = (if pv_true (dict_get (rs_doc s) ''finished_at'') then (dict_get (rs_doc s) ''finished_at'', s)
                      else let (t, s') = now_iso s in (PStr t, s'))
      in put projects (row_id project)
           [(''last_run_id'', PInt (rs_id s)), (''last_run_status'', status_of (rs_doc s)), (''last_run_at'', stamp)] s')"

fun end_entries :: "string \<Rightarrow> document list \<Rightarrow> 'a world_scheme \<Rightarrow> document list \<times> 'a world_scheme" where
  "end_entries error [] w = ([], w)"
| "end_entries error (e # es) w =
     (let (e', w') =
            (if status_of e = PStr ''running'' then
               let (t, w') = now_iso w
               in (finished_now t (set_field ''detail'' (PStr error) (set_field ''status'' (PStr ''failed'') e)), w')
             else if status_of e = PStr ''pending'' then
               let (t, w') = now_iso w
               in (finished_now t (set_field ''detail'' (PStr ''Not run: the pipeline stopped early'')
                     (set_field ''status'' (PStr ''skipped'') e)), w')
             else (e, w));
          (es', w'') = end_entries error es w'
      in (e' # es', w''))"

definition end_run :: "string \<Rightarrow> run_state \<Rightarrow> run_state" where
  "end_run error s =
     (let (es, s1) = end_entries error (stage_entries s) s; (t, s2) = now_iso s1;
          s3 = save [(''stages'', entries_value es), (''status'', PStr ''error''), (''error'', PStr error),
                     (''finished_at'', PStr t)] s2
      in case fetch s3 projects (as_int (dict_get (rs_doc s3) ''project_id'')) of
           None \<Rightarrow> s3
         | Some project \<Rightarrow> finish_project project s3)"

text \<open>\<open>cancel_run\<close>: the run is ended, marked cancelled, and its task, if it has one, stops.\<close>

definition cancel_run :: "document \<Rightarrow> world \<Rightarrow> document \<times> world" where
  "cancel_run run w =
     (let s = end_run ''Cancelled by user.'' (run_state_of w run);
          s' = put pipeline_runs (row_id run) [(''status'', PStr ''cancelled'')] s;
          doc = set_field ''status'' (PStr ''cancelled'') (rs_doc s');
          w' = (world_of s')\<lparr>w_tasks := filter (\<lambda>i. i \<noteq> row_id run) (w_tasks s')\<rparr>
      in (case fetch w' pipeline_runs (row_id run) of None \<Rightarrow> doc | Some d \<Rightarrow> d, w'))"

definition end_interrupted :: "document \<Rightarrow> string \<Rightarrow> world \<Rightarrow> world" where
  "end_interrupted run error w = world_of (end_run error (run_state_of w run))"

text \<open>\<open>recover_interrupted\<close>: None when the query raises.\<close>

fun recover_statuses :: "string list \<Rightarrow> nat \<times> world \<Rightarrow> (nat \<times> world) option" where
  "recover_statuses [] nw = Some nw"
| "recover_statuses (status # ss) (n, w) =
     (case doc_find (w_db w) pipeline_runs None False None [(''status'', PStr status)] of
        None \<Rightarrow> None
      | Some rows \<Rightarrow>
          recover_statuses ss
            (n + length rows,
             fold (\<lambda>row. end_interrupted row ''Interrupted: the server restarted before this run finished.'') rows w))"

definition recover_interrupted :: "bool \<Rightarrow> world \<Rightarrow> (nat \<times> world) option" where
  "recover_interrupted worker w = (if worker then Some (0, w) else recover_statuses active_statuses (0, w))"

end
