(* ===== verification/Net_Address.thy ===== *)
theory Net_Address
  imports Py_Text "HOL-Library.Word"
begin

text \<open>
  Internet addresses as Python's \<open>ipaddress\<close> module reads and classifies them (version 3.11, which the
  program is deployed on): the 32 bits of an IPv4 address, the 128 bits of an IPv6 address, and the
  networks they are tested against.
\<close>

datatype ip_address = V4 "32 word" | V6 "128 word"

section \<open>Text of an address\<close>

text \<open>\<open>s.split(c)\<close>\<close>

fun split_at_char :: "char \<Rightarrow> string \<Rightarrow> string list" where
  "split_at_char c [] = [[]]"
| "split_at_char c (x # s) =
     (if x = c then [] # split_at_char c s
      else (case split_at_char c s of [] \<Rightarrow> [[x]] | w # ws \<Rightarrow> (x # w) # ws))"

definition decimal_value :: "string \<Rightarrow> int" where
  "decimal_value s = foldl (\<lambda>n c. 10 * n + (of_char c - 48)) 0 s"

definition octet_of :: "string \<Rightarrow> int option" where
  "octet_of s =
     (if s \<noteq> [] \<and> list_all digit s \<and> length s \<le> 3 \<and> (s = ''0'' \<or> hd s \<noteq> CHR ''0'') \<and> decimal_value s \<le> 255
      then Some (decimal_value s) else None)"

definition big_endian :: "int \<Rightarrow> int list \<Rightarrow> int" where
  "big_endian base ds = foldl (\<lambda>n d. base * n + d) 0 ds"

text \<open>\<open>[f(x) for x in xs]\<close>, where \<open>f\<close> may raise.\<close>

fun each :: "('a \<Rightarrow> 'b option) \<Rightarrow> 'a list \<Rightarrow> 'b list option" where
  "each f [] = Some []"
| "each f (x # xs) =
     (case f x of None \<Rightarrow> None | Some y \<Rightarrow> map_option (Cons y) (each f xs))"

definition ipv4_value :: "string \<Rightarrow> int option" where
  "ipv4_value s =
     (case each octet_of (split_at_char CHR ''.'' s) of
        None \<Rightarrow> None
      | Some ds \<Rightarrow> if length ds = 4 then Some (big_endian 256 ds) else None)"

definition hex_value :: "char \<Rightarrow> int option" where
  "hex_value c =
     (let n = of_char c :: nat in
      if 48 \<le> n \<and> n \<le> 57 then Some (int n - 48)
      else if 65 \<le> n \<and> n \<le> 70 then Some (int n - 55)
      else if 97 \<le> n \<and> n \<le> 102 then Some (int n - 87)
      else None)"

definition hextet_of :: "string \<Rightarrow> int option" where
  "hextet_of s =
     (if s \<noteq> [] \<and> length s \<le> 4 then map_option (big_endian 16) (each hex_value s) else None)"

text \<open>The parts of an IPv6 text; an IPv4 suffix counts as two of them.\<close>

definition hextets_of :: "string list \<Rightarrow> int list option" where
  "hextets_of parts = each hextet_of parts"

definition ipv6_parts :: "string \<Rightarrow> (string list \<times> int list) option" where
  "ipv6_parts s =
     (let parts = split_at_char CHR '':'' s in
      if length parts < 3 then None
      else if CHR ''.'' \<in> set (last parts) then
        map_option (\<lambda>v. (butlast parts, [v div 65536, v mod 65536])) (ipv4_value (last parts))
      else Some (parts, []))"

text \<open>
  The value of the parts: without an empty inner part all eight are given; with one it stands for the
  missing zeros, and only next to it may an outer part be empty too.
\<close>

definition ipv6_join :: "string list \<Rightarrow> int list \<Rightarrow> int option" where
  "ipv6_join parts low =
     (let n = length parts + length low;
          last_inner = (if low = [] then length parts - 1 else length parts);
          gaps = filter (\<lambda>i. parts ! i = []) [1..<last_inner]
      in if 9 < n then None
         else case gaps of
           [] \<Rightarrow>
             if n \<noteq> 8 then None else map_option (\<lambda>hs. big_endian 65536 (hs @ low)) (hextets_of parts)
         | [g] \<Rightarrow>
             let before_gap = (if hd parts = [] then tl (take g parts) else take g parts);
                 after_gap = (if low = [] \<and> last parts = [] then butlast (drop (g + 1) parts) else drop (g + 1) parts);
                 given = length before_gap + length after_gap + length low
             in if hd parts = [] \<and> before_gap \<noteq> [] \<or> low = [] \<and> last parts = [] \<and> after_gap \<noteq> [] \<or> 8 \<le> given
                then None
                else (case (hextets_of before_gap, hextets_of after_gap) of
                        (Some hi, Some lo) \<Rightarrow> Some (big_endian 65536 (hi @ replicate (8 - given) 0 @ lo @ low))
                      | _ \<Rightarrow> None)
         | _ \<Rightarrow> None)"

definition ipv6_value :: "string \<Rightarrow> int option" where
  "ipv6_value s = (case ipv6_parts s of None \<Rightarrow> None | Some (parts, low) \<Rightarrow> ipv6_join parts low)"

text \<open>\<open>ip_address(s)\<close>; an IPv6 address may carry a scope after a percent sign.\<close>

definition ip_of_text :: "string \<Rightarrow> ip_address option" where
  "ip_of_text s =
     (case ipv4_value s of
        Some v \<Rightarrow> Some (V4 (of_int v))
      | None \<Rightarrow>
          let address = takeWhile (\<lambda>c. c \<noteq> CHR ''%'') s; scope = drop (length address + 1) s in
          if CHR ''/'' \<in> set s \<or> CHR ''%'' \<in> set s \<and> (scope = [] \<or> CHR ''%'' \<in> set scope) then None
          else map_option (\<lambda>v. V6 (of_int v)) (ipv6_value address))"

section \<open>Networks\<close>

definition in_net :: "'a::len word \<Rightarrow> 'a word \<times> nat \<Rightarrow> bool" where
  "in_net a net = (drop_bit (LENGTH('a) - snd net) a = drop_bit (LENGTH('a) - snd net) (fst net))"

definition private_nets4 :: "(32 word \<times> nat) list" where
  "private_nets4 =
     [(0x00000000, 8), (0x0A000000, 8), (0x7F000000, 8), (0xA9FE0000, 16), (0xAC100000, 12), (0xC0000000, 24),
      (0xC00000AA, 31), (0xC0000200, 24), (0xC0A80000, 16), (0xC6120000, 15), (0xC6336400, 24), (0xCB007100, 24),
      (0xF0000000, 4), (0xFFFFFFFF, 32)]"

definition private_exceptions4 :: "(32 word \<times> nat) list" where
  "private_exceptions4 = [(0xC0000009, 32), (0xC000000A, 32)]"

definition private4 :: "32 word \<Rightarrow> bool" where
  "private4 a \<longleftrightarrow> list_ex (in_net a) private_nets4 \<and> \<not> list_ex (in_net a) private_exceptions4"

text \<open>private, loopback, link-local, reserved, multicast or unspecified\<close>

definition blocked4 :: "32 word \<Rightarrow> bool" where
  "blocked4 a \<longleftrightarrow>
     private4 a \<or> in_net a (0x7F000000, 8) \<or> in_net a (0xA9FE0000, 16) \<or> in_net a (0xF0000000, 4) \<or>
     in_net a (0xE0000000, 4) \<or> a = 0"

text \<open>An IPv6 network: its first 32 bits, its last 96 bits, its length.\<close>

definition net6 :: "int \<Rightarrow> int \<Rightarrow> 128 word" where
  "net6 first rest = of_int (first * 2 ^ 96 + rest)"

definition private_nets6 :: "(128 word \<times> nat) list" where
  "private_nets6 =
     [(1, 128), (0, 128), (0xFFFF00000000, 96), (net6 0x0064FF9B (0x0001 * 2 ^ 80), 48), (net6 0x01000000 0, 64),
      (net6 0x20010000 0, 23), (net6 0x20010DB8 0, 32), (net6 0x20020000 0, 16), (net6 0xFC000000 0, 7),
      (net6 0xFE800000 0, 10)]"

definition private_exceptions6 :: "(128 word \<times> nat) list" where
  "private_exceptions6 =
     [(net6 0x20010001 1, 128), (net6 0x20010001 2, 128), (net6 0x20010003 0, 32),
      (net6 0x20010004 (0x0112 * 2 ^ 80), 48), (net6 0x20010020 0, 28), (net6 0x20010030 0, 28)]"

definition reserved_nets6 :: "(128 word \<times> nat) list" where
  "reserved_nets6 =
     [(0, 8), (net6 0x01000000 0, 8), (net6 0x02000000 0, 7), (net6 0x04000000 0, 6), (net6 0x08000000 0, 5),
      (net6 0x10000000 0, 4), (net6 0x40000000 0, 3), (net6 0x60000000 0, 3), (net6 0x80000000 0, 3),
      (net6 0xA0000000 0, 3), (net6 0xC0000000 0, 3), (net6 0xE0000000 0, 4), (net6 0xF0000000 0, 5),
      (net6 0xF8000000 0, 6), (net6 0xFE000000 0, 9)]"

definition private6 :: "128 word \<Rightarrow> bool" where
  "private6 a \<longleftrightarrow> list_ex (in_net a) private_nets6 \<and> \<not> list_ex (in_net a) private_exceptions6"

definition blocked6 :: "128 word \<Rightarrow> bool" where
  "blocked6 a \<longleftrightarrow>
     private6 a \<or> a = 1 \<or> in_net a (net6 0xFE800000 0, 10) \<or> list_ex (in_net a) reserved_nets6 \<or>
     in_net a (net6 0xFF000000 0, 8) \<or> a = 0"

end
