(* ===== verification/Url_Parts.thy ===== *)
theory Url_Parts
  imports Net_Address
begin

text \<open>
  What the pipeline uses of Python's \<open>urllib.parse\<close>: splitting a URL into its parts, putting it
  together, its host and port, and resolving a reference against a base. None is the \<open>ValueError\<close> of
  a malformed host.
\<close>

record url_parts =
  up_scheme :: string
  up_netloc :: string
  up_path :: string
  up_params :: string
  up_query :: string
  up_fragment :: string

definition letter :: "char \<Rightarrow> bool" where
  "letter c = (let n = of_char c :: nat in (65 \<le> n \<and> n \<le> 90) \<or> (97 \<le> n \<and> n \<le> 122))"

definition scheme_char :: "char \<Rightarrow> bool" where
  "scheme_char c \<longleftrightarrow> letter c \<or> digit c \<or> c \<in> set ''+-.''"

definition control_or_space :: "char \<Rightarrow> bool" where
  "control_or_space c \<longleftrightarrow> (of_char c :: nat) \<le> 32"

definition line_char :: "char \<Rightarrow> bool" where
  "line_char c \<longleftrightarrow> c = CHR 0x09 \<or> c = CHR 0x0A \<or> c = CHR 0x0D"

text \<open>\<open>s.split(c, 1)\<close>: the text before and after the first \<open>c\<close>; all of it and nothing when there is none.\<close>

definition cut :: "char \<Rightarrow> string \<Rightarrow> string \<times> string" where
  "cut c s = (let a = takeWhile (\<lambda>x. x \<noteq> c) s in (a, drop (length a + 1) s))"

text \<open>The scheme, when a colon ends a scheme name.\<close>

definition split_scheme :: "string \<Rightarrow> string \<Rightarrow> string \<times> string" where
  "split_scheme dflt url =
     (let (a, rest) = cut CHR '':'' url
      in if CHR '':'' \<in> set url \<and> a \<noteq> [] \<and> letter (hd a) \<and> list_all scheme_char a then (lower a, rest) else (dflt, url))"

definition split_netloc :: "string \<Rightarrow> string \<times> string" where
  "split_netloc url =
     (if prefix ''//'' url then
        let a = takeWhile (\<lambda>x. x \<notin> set ''/?#'') (drop 2 url) in (a, drop (2 + length a) url)
      else ([], url))"

text \<open>\<open>_splitparams\<close>: the parameters of the last segment of the path.\<close>

definition split_params :: "string \<Rightarrow> string \<times> string" where
  "split_params path =
     (let tail = rev (takeWhile (\<lambda>x. x \<noteq> CHR ''/'') (rev path)); dirs = take (length path - length tail) path;
          (a, b) = cut CHR '';'' tail
      in if CHR '';'' \<in> set tail then (dirs @ a, b) else (path, []))"

definition uses_params :: "string list" where
  "uses_params = ['''', ''ftp'', ''hdl'', ''prospero'', ''http'', ''https'', ''shttp'', ''rtsp'', ''rtsps'', ''rtspu'',
     ''sip'', ''sips'', ''mms'', ''sftp'', ''tel'']"

text \<open>Only an IPv6 address (or a future form of address) may stand in brackets.\<close>

definition after_first :: "char \<Rightarrow> string \<Rightarrow> string" where
  "after_first c s = snd (cut c s)"

definition future_address :: "string \<Rightarrow> bool" where
  "future_address s \<longleftrightarrow>
     (let (digits, rest) = cut CHR ''.'' (tl s)
      in digits \<noteq> [] \<and> list_all (\<lambda>c. hex_value c \<noteq> None) digits \<and> rest \<noteq> [] \<and> CHR 0x0A \<notin> set rest)"

definition bracketed_ok :: "string \<Rightarrow> bool" where
  "bracketed_ok host \<longleftrightarrow>
     (if prefix ''v'' host then future_address host
      else (case ip_of_text host of Some (V6 a) \<Rightarrow> True | _ \<Rightarrow> False))"

definition brackets_ok :: "string \<Rightarrow> bool" where
  "brackets_ok netloc \<longleftrightarrow>
     (CHR ''['' \<in> set netloc \<longleftrightarrow> CHR '']'' \<in> set netloc) \<and>
     (CHR ''['' \<in> set netloc \<longrightarrow> bracketed_ok (fst (cut CHR '']'' (after_first CHR ''['' netloc))))"

definition split_url :: "string \<Rightarrow> string \<Rightarrow> url_parts option" where
  "split_url scheme0 url0 =
     (let url = filter (\<lambda>c. \<not> line_char c) (dropWhile control_or_space url0);
          (scheme, u1) = split_scheme scheme0 url;
          (netloc, u2) = split_netloc u1;
          (u3, fragment) = cut CHR ''#'' u2;
          (path, query) = cut CHR ''?'' u3
      in if \<not> brackets_ok netloc then None
         else Some \<lparr>up_scheme = scheme, up_netloc = netloc, up_path = path, up_params = [], up_query = query,
                    up_fragment = fragment\<rparr>)"

definition urlsplit :: "string \<Rightarrow> url_parts option" where
  "urlsplit url = split_url [] url"

definition with_params :: "url_parts \<Rightarrow> url_parts" where
  "with_params p =
     (if up_scheme p \<in> set uses_params \<and> CHR '';'' \<in> set (up_path p) then
        let (path, params) = split_params (up_path p) in p\<lparr>up_path := path, up_params := params\<rparr>
      else p)"

definition urlparse_in :: "string \<Rightarrow> string \<Rightarrow> url_parts option" where
  "urlparse_in scheme0 url = map_option with_params (split_url scheme0 url)"

definition urlparse :: "string \<Rightarrow> url_parts option" where
  "urlparse url = urlparse_in [] url"

definition uses_netloc :: "string list" where
  "uses_netloc = ['''', ''ftp'', ''http'', ''gopher'', ''nntp'', ''telnet'', ''imap'', ''wais'', ''file'', ''mms'',
     ''https'', ''shttp'', ''snews'', ''prospero'', ''rtsp'', ''rtsps'', ''rtspu'', ''rsync'', ''svn'', ''svn+ssh'',
     ''sftp'', ''nfs'', ''git'', ''git+ssh'', ''ws'', ''wss'', ''itms-services'']"

definition urlunparse :: "url_parts \<Rightarrow> string" where
  "urlunparse p =
     (let path = up_path p @ (if up_params p \<noteq> [] then '';'' @ up_params p else []);
          u1 = (if up_netloc p \<noteq> [] \<or> up_scheme p \<noteq> [] \<and> up_scheme p \<in> set uses_netloc \<or> prefix ''//'' path then
                  ''//'' @ up_netloc p @ (if path \<noteq> [] \<and> hd path \<noteq> CHR ''/'' then ''/'' else []) @ path
                else path)
      in (if up_scheme p \<noteq> [] then up_scheme p @ '':'' else []) @ u1 @
         (if up_query p \<noteq> [] then ''?'' @ up_query p else []) @
         (if up_fragment p \<noteq> [] then ''#'' @ up_fragment p else []))"

section \<open>Host and port\<close>

definition after_last_at :: "string \<Rightarrow> string" where
  "after_last_at netloc = rev (takeWhile (\<lambda>c. c \<noteq> CHR ''@'') (rev netloc))"

text \<open>\<open>_hostinfo\<close>: the host and the text of the port\<close>

definition host_and_port :: "string \<Rightarrow> string \<times> string" where
  "host_and_port netloc =
     (let info = after_last_at netloc in
      if CHR ''['' \<in> set info then
        let (host, rest) = cut CHR '']'' (after_first CHR ''['' info) in (host, after_first CHR '':'' rest)
      else cut CHR '':'' info)"

text \<open>\<open>parts.hostname or ""\<close>: in lower case up to the scope of an IPv6 address\<close>

definition host_of :: "string \<Rightarrow> string" where
  "host_of netloc =
     (let host = fst (host_and_port netloc); name = takeWhile (\<lambda>c. c \<noteq> CHR ''%'') host
      in lower name @ drop (length name) host)"

text \<open>\<open>parts.port\<close>; the outer None is the \<open>ValueError\<close> of a port that is no number in range.\<close>

definition port_of :: "string \<Rightarrow> int option option" where
  "port_of netloc =
     (let port = snd (host_and_port netloc)
      in if port = [] then Some None
         else if py_isdigit port then
           (case py_int port of
              Some n \<Rightarrow> if n \<le> 65535 then Some (Some n) else None
            | None \<Rightarrow> None)
         else None)"

section \<open>Resolving a reference\<close>

fun segments_from :: "string \<Rightarrow> string \<Rightarrow> string list" where
  "segments_from w [] = [w]"
| "segments_from w (c # s) = (if c = CHR ''/'' then w # segments_from [] s else segments_from (w @ [c]) s)"

text \<open>\<open>path.split("/")\<close>\<close>

definition segments :: "string \<Rightarrow> string list" where
  "segments path = segments_from [] path"

text \<open>\<open>segments[1:-1] = filter(None, segments[1:-1])\<close>\<close>

definition drop_empty_inner :: "string list \<Rightarrow> string list" where
  "drop_empty_inner xs =
     (case xs of
        [] \<Rightarrow> []
      | [x] \<Rightarrow> [x]
      | x # ys \<Rightarrow> x # filter (\<lambda>s. s \<noteq> []) (butlast ys) @ [last ys])"

fun resolve_dots :: "string list \<Rightarrow> string list \<Rightarrow> string list" where
  "resolve_dots out [] = out"
| "resolve_dots out (seg # segs) =
     resolve_dots (if seg = ''..'' then butlast out else if seg = ''.'' then out else out @ [seg]) segs"

definition joined_path :: "string \<Rightarrow> string \<Rightarrow> string" where
  "joined_path base_path path =
     (let base_parts = (let parts = segments base_path in if last parts \<noteq> [] then butlast parts else parts);
          segs = (if prefix ''/'' path then segments path else drop_empty_inner (base_parts @ segments path));
          resolved = resolve_dots [] segs @ (if last segs \<in> {''.'', ''..''} then [[]] else []);
          joined = join ''/'' resolved
      in if joined = [] then ''/'' else joined)"

definition uses_relative :: "string list" where
  "uses_relative = ['''', ''ftp'', ''http'', ''gopher'', ''nntp'', ''imap'', ''wais'', ''file'', ''https'', ''shttp'',
     ''mms'', ''prospero'', ''rtsp'', ''rtsps'', ''rtspu'', ''sftp'', ''svn'', ''svn+ssh'', ''ws'', ''wss'']"

definition urljoin :: "string \<Rightarrow> string \<Rightarrow> string option" where
  "urljoin base url =
     (if base = [] then Some url else if url = [] then Some base
      else case urlparse base of
        None \<Rightarrow> None
      | Some b \<Rightarrow>
          (case urlparse_in (up_scheme b) url of
             None \<Rightarrow> None
           | Some u \<Rightarrow>
               if up_scheme u \<noteq> up_scheme b \<or> up_scheme u \<notin> set uses_relative then Some url
               else if up_scheme u \<in> set uses_netloc \<and> up_netloc u \<noteq> [] then Some (urlunparse u)
               else let u1 = (if up_scheme u \<in> set uses_netloc then u\<lparr>up_netloc := up_netloc b\<rparr> else u)
                    in if up_path u1 = [] \<and> up_params u1 = [] then
                         Some (urlunparse (u1\<lparr>up_path := up_path b, up_params := up_params b,
                                              up_query := (if up_query u1 = [] then up_query b else up_query u1)\<rparr>))
                       else Some (urlunparse (u1\<lparr>up_path := joined_path (up_path b) (up_path u1)\<rparr>))))"

end
