(* ===== verification/Suite.thy ===== *)
theory Suite
  imports Url_Parts Py_Json Document_Store
begin

text \<open>
  The rule-based test suite of the pipeline, \<^verbatim>\<open>backend/pipeline/suite.py\<close>: tests for the analyzed
  page, the other pages of the site worth a check, and the checks of those pages. An analysis is what
  \<open>URLAnalyzerService\<close> reports about a live page; a test's steps are the dictionaries that the platform
  later reads back from the stored test case.
\<close>

section \<open>Analyses and tests\<close>

record control =
  ct_selector :: "string option"
  ct_id :: "string option"
  ct_name :: "string option"
  ct_type :: "string option"
  ct_placeholder :: "string option"
  ct_text :: "string option"

record page_analysis =
  pa_success :: bool
  pa_url :: string
  pa_final_url :: string
  pa_status_code :: int
  pa_latency_ms :: int
  pa_error :: "string option"
  pa_page_title :: string
  pa_meta_description :: string
  pa_rendered_in_browser :: bool
  pa_inputs_count :: int
  pa_buttons_count :: int
  pa_links_count :: int
  pa_inputs :: "control list"
  pa_buttons :: "control list"
  pa_headings :: "string list"
  pa_links :: "string list"
  pa_steps :: "document list"
  pa_untested :: "string list"

record suite_test =
  su_slug :: string
  su_name :: string
  su_category :: string
  su_steps :: "document list"

definition suite_step :: "nat \<Rightarrow> string \<Rightarrow> string option \<Rightarrow> string option \<Rightarrow> string \<Rightarrow> document" where
  "suite_step n action target value description =
     [(''step_number'', PInt (int n)), (''action'', PStr action), (''target'', opt_str target),
      (''value'', opt_str value), (''description'', PStr description)]"

section \<open>Texts\<close>

definition slug_char :: "char \<Rightarrow> bool" where
  "slug_char c = (let n = of_char c :: nat in (97 \<le> n \<and> n \<le> 122) \<or> digit c)"

text \<open>\<open>re.sub(r"[^a-z0-9]+", "-", s)\<close>\<close>

fun dashes :: "bool \<Rightarrow> string \<Rightarrow> string" where
  "dashes in_run [] = []"
| "dashes in_run (c # s) =
     (if slug_char c then c # dashes False s
      else if in_run then dashes True s else CHR ''-'' # dashes True s)"

definition strip_dashes :: "string \<Rightarrow> string" where
  "strip_dashes s = (let d = dropWhile (\<lambda>c. c = CHR ''-'') in rev (d (rev (d s))))"

definition slug_of :: "nat \<Rightarrow> string \<Rightarrow> string \<Rightarrow> string" where
  "slug_of n dflt s =
     (let t = take n (strip_dashes (dashes False (lower s))) in if t = [] then dflt else t)"

definition suite_slug :: "string \<Rightarrow> string" where
  "suite_slug s = slug_of 48 ''root'' s"

text \<open>\<open>title.split(" - ")[0].split("|")[0].strip() or title\<close>, shortened\<close>

definition clean_title :: "string \<Rightarrow> string" where
  "clean_title title =
     (let a = (case split_at_first '' - '' title of None \<Rightarrow> title | Some (first, _) \<Rightarrow> first);
          b = strip (takeWhile (\<lambda>c. c \<noteq> CHR ''|'') a)
      in py_take 30 (if b = [] then title else b))"

definition real_title :: "string \<Rightarrow> bool" where
  "real_title title \<longleftrightarrow> title \<noteq> [] \<and> \<not> suffix '' Webpage'' title"

definition open_step :: "string \<Rightarrow> document" where
  "open_step url = suite_step 1 ''NAVIGATE'' None (Some url) (''Open '' @ url)"

definition title_check :: "nat \<Rightarrow> string \<Rightarrow> document list" where
  "title_check n title =
     (if real_title title then
        [suite_step n ''ASSERT_CONTAINS_TEXT'' (Some ''head > title'') (Some (clean_title title))
           (''Page title contains '' @ quoted (clean_title title))]
      else [])"

definition heading_check :: "nat \<Rightarrow> string list \<Rightarrow> document list" where
  "heading_check n headings =
     (case headings of
        [] \<Rightarrow> []
      | h # _ \<Rightarrow> [suite_step n ''ASSERT_CONTAINS_TEXT'' (Some ''body'') (Some (py_take 40 h))
                    (''Page shows '' @ quoted (py_take 40 h))])"

definition body_check :: "nat \<Rightarrow> document" where
  "body_check n = suite_step n ''ASSERT_VISIBLE'' (Some ''body'') None ''Page body renders''"

section \<open>Tests of the page itself\<close>

definition short_name :: "page_analysis \<Rightarrow> string" where
  "short_name a = (let t = py_take 50 (pa_page_title a) in if t = [] then pa_url a else t)"

definition smoke_test :: "page_analysis \<Rightarrow> suite_test" where
  "smoke_test a =
     (let start = open_step (pa_url a) # title_check 2 (pa_page_title a)
      in \<lparr>su_slug = ''smoke'', su_name = ''Smoke: '' @ short_name a, su_category = ''smoke'',
          su_steps = start @ [body_check (length start + 1)]\<rparr>)"

definition acts_on_page :: "document \<Rightarrow> bool" where
  "acts_on_page s \<longleftrightarrow>
     upper (pv_str (dict_get_or s ''action'' (PStr []))) \<in> {''FILL'', ''CLICK'', ''PRESS''}"

definition interaction_tests :: "page_analysis \<Rightarrow> string option \<Rightarrow> suite_test list" where
  "interaction_tests a prompt =
     (if list_ex acts_on_page (pa_steps a) then
        [\<lparr>su_slug = ''interaction'',
          su_name = (case prompt of
             Some p \<Rightarrow> if strip p \<noteq> [] then ''Scenario: '' @ py_take 60 (strip p) else ''Interaction: '' @ short_name a
           | None \<Rightarrow> ''Interaction: '' @ short_name a),
          su_category = ''functional'', su_steps = pa_steps a\<rparr>]
      else [])"

definition content_tests :: "page_analysis \<Rightarrow> suite_test list" where
  "content_tests a =
     (case pa_headings a of
        [] \<Rightarrow> []
      | h # _ \<Rightarrow> [\<lparr>su_slug = ''content'', su_name = ''Content: heading '' @ quoted (py_take 40 h),
                   su_category = ''content'', su_steps = [open_step (pa_url a)] @ heading_check 2 (pa_headings a)\<rparr>])"

definition page_tests :: "page_analysis \<Rightarrow> string option \<Rightarrow> suite_test list" where
  "page_tests a prompt = smoke_test a # interaction_tests a prompt @ content_tests a"

section \<open>Other pages of the site\<close>

record candidate =
  cd_kind :: string
  cd_url :: string
  cd_label :: string

definition unsafe_words :: "string list" where
  "unsafe_words =
     [''logout'', ''log-out'', ''signout'', ''sign-out'', ''delete'', ''remove'', ''unsubscribe'', ''destroy'']"

text \<open>\<open>_UNSAFE_LINK.search(path)\<close>\<close>

definition unsafe_path :: "string \<Rightarrow> bool" where
  "unsafe_path path \<longleftrightarrow> list_ex (\<lambda>w. contains w (lower path)) unsafe_words"

text \<open>\<open>_PARAM_PATH.search(path)\<close>\<close>

definition param_path :: "string \<Rightarrow> bool" where
  "param_path path \<longleftrightarrow> list_ex (\<lambda>c. c \<in> set ''{}<>:*()[]$^|?'' \<or> c = CHR 0x5C) path"

definition rstrip_slashes :: "string \<Rightarrow> string" where
  "rstrip_slashes s = rev (dropWhile (\<lambda>c. c = CHR ''/'') (rev s))"

definition or_root :: "string \<Rightarrow> string" where
  "or_root s = (if s = [] then ''/'' else s)"

definition normalize_parts :: "url_parts \<Rightarrow> string" where
  "normalize_parts p =
     urlunparse (p\<lparr>up_scheme := lower (up_scheme p), up_netloc := lower (up_netloc p),
                   up_path := or_root (rstrip_slashes (up_path p)), up_params := [], up_fragment := []\<rparr>)"

text \<open>The pages collected so far with the keys of the pages seen.\<close>

type_synonym page_set = "string list \<times> candidate list"

definition add_candidate ::
  "url_parts \<Rightarrow> string \<Rightarrow> string \<Rightarrow> string \<Rightarrow> int \<Rightarrow> page_set \<Rightarrow> page_set option" where
  "add_candidate origin kind url label limit so =
     (let (seen, out) = so
      in if limit \<le> int (count_if (\<lambda>c. cd_kind c = kind) out) then Some so
         else case urlparse url of
           None \<Rightarrow> None
         | Some p \<Rightarrow>
             if up_scheme p \<notin> {''http'', ''https''} \<or> lower (up_netloc p) \<noteq> lower (up_netloc origin) then Some so
             else if normalize_parts p \<in> set seen \<or> unsafe_path (up_path p) then Some so
             else Some (seen @ [normalize_parts p], out @ [\<lparr>cd_kind = kind, cd_url = url, cd_label = label\<rparr>]))"

definition ignored_link :: "string \<Rightarrow> bool" where
  "ignored_link href \<longleftrightarrow>
     href = [] \<or> list_ex (\<lambda>p. prefix p (lower href)) [''mailto:'', ''tel:'', ''javascript:'', ''data:'']"

fun add_links :: "string \<Rightarrow> url_parts \<Rightarrow> int \<Rightarrow> string list \<Rightarrow> page_set \<Rightarrow> page_set option" where
  "add_links base origin limit [] so = Some so"
| "add_links base origin limit (href0 # links) so =
     (let href = strip href0
      in if ignored_link href then add_links base origin limit links so
         else case urljoin base href of
           None \<Rightarrow> None
         | Some absolute \<Rightarrow>
             (case urlparse absolute of
                None \<Rightarrow> None
              | Some p \<Rightarrow>
                  Option.bind (add_candidate origin ''link'' absolute (or_root (up_path p)) limit so)
                    (add_links base origin limit links)))"

text \<open>A route of the codebase: its method and path.\<close>

definition visitable_route :: "document \<Rightarrow> bool" where
  "visitable_route r \<longleftrightarrow>
     (let method = upper (pv_str (dict_get_or r ''method'' (PStr []))); path = pv_str (dict_get_or r ''path'' (PStr []))
      in method \<in> {''GET'', ''ANY'', ''*'', ''ALL''} \<and> prefix ''/'' path \<and> \<not> param_path path \<and>
         path \<noteq> ''/api'' \<and> \<not> prefix ''/api/'' path)"

definition get_routes :: "document list \<Rightarrow> string list" where
  "get_routes routes = map (\<lambda>r. pv_str (dict_get_or r ''path'' (PStr []))) (filter visitable_route routes)"

fun add_routes :: "string \<Rightarrow> url_parts \<Rightarrow> int \<Rightarrow> string list \<Rightarrow> page_set \<Rightarrow> page_set option" where
  "add_routes site origin limit [] so = Some so"
| "add_routes site origin limit (path # paths) so =
     Option.bind (add_candidate origin ''route'' (site @ path) (''GET '' @ path) limit so)
       (add_routes site origin limit paths)"

text \<open>\<open>candidate_pages\<close>; None: a malformed URL raises.\<close>

definition candidate_pages :: "page_analysis \<Rightarrow> document list \<Rightarrow> int \<Rightarrow> int \<Rightarrow> candidate list option" where
  "candidate_pages a routes link_limit route_limit =
     (case urlparse (pa_url a) of
        None \<Rightarrow> None
      | Some origin \<Rightarrow>
          map_option snd
            (Option.bind (add_links (pa_url a) origin link_limit (pa_links a) ([normalize_parts origin], []))
               (add_routes (up_scheme origin @ ''://'' @ up_netloc origin) origin route_limit (get_routes routes))))"

section \<open>Checks of another page\<close>

definition url_path :: "string \<Rightarrow> string" where
  "url_path url = (case urlparse url of None \<Rightarrow> [] | Some p \<Rightarrow> up_path p)"

definition render_test :: "candidate \<Rightarrow> suite_test" where
  "render_test c =
     \<lparr>su_slug = cd_kind c @ ''-'' @ suite_slug (url_path (cd_url c)),
      su_name = (if cd_kind c = ''link'' then ''Linked page'' else ''Code route'') @ '': '' @ cd_label c,
      su_category = cd_kind c, su_steps = [open_step (cd_url c), body_check 2]\<rparr>"

definition stays_on_page_test :: "candidate \<Rightarrow> suite_test" where
  "stays_on_page_test c =
     (let test = render_test c; path = or_root (url_path (cd_url c))
      in if path \<noteq> ''/'' then
           test\<lparr>su_steps := su_steps test @
             [suite_step 3 ''ASSERT_URL'' None (Some path) (''Still on '' @ path @ '' (not sent to sign in)'')]\<rparr>
         else test)"

definition redirected :: "candidate \<Rightarrow> page_analysis \<Rightarrow> bool" where
  "redirected c page \<longleftrightarrow>
     (let final = (if pa_final_url page = [] then cd_url c else pa_final_url page)
      in rstrip_slashes (or_root (url_path final)) \<noteq> rstrip_slashes (or_root (url_path (cd_url c))))"

definition no_field_types :: "string list" where
  "no_field_types = [''hidden'', ''submit'', ''button'', ''image'', ''reset'']"

definition fillable :: "control \<Rightarrow> bool" where
  "fillable i \<longleftrightarrow> (case ct_type i of None \<Rightarrow> True | Some t \<Rightarrow> t \<notin> set no_field_types)"

definition or_name :: "string option \<Rightarrow> string \<Rightarrow> string" where
  "or_name a b = (case a of None \<Rightarrow> b | Some s \<Rightarrow> if s = [] then b else s)"

definition field_check :: "nat \<Rightarrow> control list \<Rightarrow> document list" where
  "field_check n inputs =
     (case find fillable inputs of
        None \<Rightarrow> []
      | Some i \<Rightarrow> [suite_step n ''ASSERT_VISIBLE'' (ct_selector i) None
          (''The '' @ py_take 40 (or_name (ct_placeholder i) (or_name (ct_name i) ''input'')) @ '' field is there'')])"

definition button_check :: "nat \<Rightarrow> control list \<Rightarrow> document list" where
  "button_check n buttons =
     (case find (\<lambda>b. ct_selector b \<notin> {None, Some ''button''}) buttons of
        None \<Rightarrow> []
      | Some b \<Rightarrow> [suite_step n ''ASSERT_VISIBLE'' (ct_selector b) None
          (''The '' @ quoted (py_take 40 (or_name (ct_text b) ''button'')) @ '' button is there'')])"

definition append_check :: "(nat \<Rightarrow> document list) \<Rightarrow> document list \<Rightarrow> document list" where
  "append_check check steps = steps @ check (length steps + 1)"

definition page_check_test :: "candidate \<Rightarrow> page_analysis \<Rightarrow> suite_test" where
  "page_check_test c page =
     (let steps = append_check (\<lambda>n. button_check n (pa_buttons page))
            (append_check (\<lambda>n. field_check n (pa_inputs page))
              (append_check (\<lambda>n. heading_check n (pa_headings page))
                (append_check (\<lambda>n. title_check n (pa_page_title page)) [open_step (cd_url c)])))
      in (render_test c)\<lparr>su_steps := if length steps = 1 then steps @ [body_check 2] else steps\<rparr>)"

end
