(* ===== verification/Ai_Plan.thy ===== *)
theory Ai_Plan
  imports Suite Test_Planner
begin

text \<open>
  The planner agent in the pipeline, \<^verbatim>\<open>backend/pipeline/ai_plan.py\<close>: what it is told about the
  analyzed page, and which of its test cases become tests of the run. The planner itself is an
  argument: the plan it returns, or the exception's type and text.
\<close>

section \<open>The planner's view of the page\<close>

definition some_if :: "string option \<Rightarrow> string option" where
  "some_if s = (case s of Some [] \<Rightarrow> None | _ \<Rightarrow> s)"

definition context_element :: "string \<Rightarrow> string option \<Rightarrow> string option \<Rightarrow> string option \<Rightarrow> control \<Rightarrow> element_context" where
  "context_element tag name text placeholder i =
     \<lparr>ec_tag = tag, ec_id = some_if (ct_id i), ec_name = name, ec_type = ct_type i, ec_role = None, ec_text = text,
      ec_placeholder = placeholder, ec_classes = [], ec_attributes = [], ec_selector = ct_selector i,
      ec_visible = None, ec_interactable = None\<rparr>"

definition has_selector :: "control \<Rightarrow> bool" where
  "has_selector i \<longleftrightarrow> some_if (ct_selector i) \<noteq> None"

definition page_elements :: "page_analysis \<Rightarrow> element_context list" where
  "page_elements a =
     map (\<lambda>i. context_element ''input'' (some_if (ct_name i)) None (some_if (ct_placeholder i)) i)
       (filter has_selector (pa_inputs a)) @
     map (\<lambda>b. context_element ''button'' None (some_if (ct_text b)) None b)
       (filter (\<lambda>b. has_selector b \<and> ct_selector b \<noteq> Some ''button'') (pa_buttons a))"

definition page_context_of :: "page_analysis \<Rightarrow> string option \<Rightarrow> string list \<Rightarrow> application_context" where
  "page_context_of a prompt frameworks =
     (let parts = urlparse (pa_url a); netloc = (case parts of None \<Rightarrow> [] | Some p \<Rightarrow> up_netloc p) in
      \<lparr>ac_app_name = (if pa_page_title a = [] then netloc else pa_page_title a), ac_app_url = pa_url a,
       ac_description = (case some_if prompt of None \<Rightarrow> [] | Some p \<Rightarrow> ''Goal: '' @ p @ ''. '') @ pa_meta_description a,
       ac_pages = [\<lparr>pg_url = or_root (url_path (pa_url a)), pg_name = [], pg_title = pa_page_title a,
                    pg_description = [], pg_elements = page_elements a, pg_forms = [],
                    pg_navigation_elements = take 15 (pa_links a)\<rparr>],
       ac_technology_stack = frameworks, ac_metadata = []\<rparr>)"

section \<open>Planner cases as tests of the run\<close>

definition max_ai_tests :: nat where "max_ai_tests = 5"

definition engine_actions :: "(string \<times> string) list" where
  "engine_actions =
     [(''navigate'', ''NAVIGATE''), (''click'', ''CLICK''), (''fill'', ''FILL''), (''press'', ''PRESS''),
      (''select'', ''SELECT''), (''check'', ''CHECK''), (''uncheck'', ''UNCHECK''), (''hover'', ''HOVER''),
      (''upload'', ''UPLOAD''), (''drag'', ''DRAG''), (''wait'', ''WAIT'')]"

definition engine_checks :: "(string \<times> string) list" where
  "engine_checks =
     [(''element_visible'', ''ASSERT_VISIBLE''), (''element_not_visible'', ''ASSERT_HIDDEN''),
      (''element_contains_text'', ''ASSERT_CONTAINS_TEXT''), (''element_has_text'', ''ASSERT_HAS_TEXT''),
      (''url_contains'', ''ASSERT_URL''), (''url_equals'', ''ASSERT_URL_EQUALS''), (''value_equals'', ''ASSERT_VALUE'')]"

definition page_checks :: "string list" where
  "page_checks = [''ASSERT_URL'', ''ASSERT_URL_EQUALS'']"

definition any_page :: "string list" where
  "any_page = [''body'', ''head > title'', ''title'', ''h1'', ''main'']"

definition known_selectors :: "page_analysis \<Rightarrow> string list" where
  "known_selectors a = somes (map (some_if \<circ> ct_selector) (pa_inputs a @ pa_buttons a)) @ any_page"

definition or_text_value :: "string \<Rightarrow> string option" where
  "or_text_value s = (if s = [] then None else Some s)"

text \<open>\<open>_add_check\<close>: None when the check is refused.\<close>

definition add_check :: "string list \<Rightarrow> document list \<Rightarrow> test_assertion \<Rightarrow> document list option" where
  "add_check known steps a =
     (case map_of engine_checks (assertion_type_value (as_type a)) of
        None \<Rightarrow> None
      | Some action \<Rightarrow>
          if action \<notin> set page_checks \<and> as_target a \<notin> set known then None
          else Some (steps @ [suite_step (length steps + 1) action (or_text_value (as_target a))
                 (or_text_value (as_expected a))
                 (if as_description a = [] then lower action else as_description a)]))"

text \<open>\<open>ok = ok and _add_check(...)\<close> over a list: after a refusal nothing more is added.\<close>

fun add_checks :: "string list \<Rightarrow> test_assertion list \<Rightarrow> bool \<times> document list \<Rightarrow> bool \<times> document list" where
  "add_checks known [] state = state"
| "add_checks known (a # as) (ok, steps) =
     add_checks known as
       (if ok then (case add_check known steps a of None \<Rightarrow> (False, steps) | Some steps' \<Rightarrow> (True, steps'))
        else (ok, steps))"

definition step_description :: "string \<Rightarrow> test_step \<Rightarrow> string" where
  "step_description action s =
     (if ts_description s = [] then strip (lower action @ '' '' @ or_empty (ts_target s)) else ts_description s)"

text \<open>The steps of a case; a step that cannot be taken over ends the loop.\<close>

fun add_steps :: "string list \<Rightarrow> test_step list \<Rightarrow> bool \<times> document list \<Rightarrow> bool \<times> document list" where
  "add_steps known [] state = state"
| "add_steps known (s # ss) (ok, steps) =
     (case map_of engine_actions (test_action_value (ts_action s)) of
        None \<Rightarrow> (False, steps)
      | Some action \<Rightarrow>
          if action = ''NAVIGATE'' then add_steps known ss (ok, steps)
          else if or_empty (ts_target s) \<noteq> [] \<and> or_empty (ts_target s) \<notin> set known then (False, steps)
          else add_steps known ss (add_checks known (ts_assertions s)
                 (ok, steps @ [suite_step (length steps + 1) action (ts_target s) (ts_value s)
                        (step_description action s)])))"

definition ai_steps :: "string list \<Rightarrow> string \<Rightarrow> test_case \<Rightarrow> document list option" where
  "ai_steps known url tc =
     (let (ok, steps) = add_checks known (tc_assertions tc) (add_steps known (tc_steps tc) (True, [open_step url]))
      in if \<not> ok \<or> length steps < 2 then None else Some steps)"

definition ai_test :: "nat \<Rightarrow> test_case \<Rightarrow> document list \<Rightarrow> suite_test" where
  "ai_test kept tc steps =
     \<lparr>su_slug = ''ai-'' @ slug_of 40 (show_nat (kept + 1)) (tc_test_id tc),
      su_name = py_take 120 (''AI: '' @ tc_name tc), su_category = ''ai'', su_steps = steps\<rparr>"

fun take_over :: "string list \<Rightarrow> string \<Rightarrow> test_case list \<Rightarrow> suite_test list \<times> nat \<Rightarrow> suite_test list \<times> nat" where
  "take_over known url [] state = state"
| "take_over known url (tc # tcs) (kept, dropped) =
     take_over known url tcs
       (case ai_steps known url tc of
          None \<Rightarrow> (kept, dropped + 1)
        | Some steps \<Rightarrow> (kept @ [ai_test (length kept) tc steps], dropped))"

definition to_suite_tests :: "test_case list \<Rightarrow> page_analysis \<Rightarrow> suite_test list \<times> nat" where
  "to_suite_tests cases a = take_over (known_selectors a) (pa_url a) (take max_ai_tests cases) ([], 0)"

text \<open>
  \<open>ai_tests\<close>: \<open>reply\<close> is None when no planner is configured, else what the planner returned or the
  type and text of its exception. Any failure leaves the rule-based suite alone.
\<close>

definition ai_tests ::
  "((string \<times> string) + test_plan) option \<Rightarrow> page_analysis \<Rightarrow> suite_test list \<times> string option" where
  "ai_tests reply a =
     (case reply of
        None \<Rightarrow> ([], None)
      | Some (Inl (kind, message)) \<Rightarrow>
          ([], Some (''AI planner skipped ('' @ kind @ '': '' @
             (let m = py_take 120 message in if m = [] then ''no answer'' else m) @ '')''))
      | Some (Inr plan) \<Rightarrow>
          let (tests, dropped) = to_suite_tests (tp_test_cases plan) a
          in (tests, Some
               ((if tests \<noteq> [] then
                   ''AI planner added '' @ show_nat (length tests) @ '' test(s), quarantined until you trust them''
                 else ''AI planner added no tests'') @
                (if dropped \<noteq> 0 then
                   '', dropped '' @ show_nat dropped @ '' that used elements not on the page'' else []))))"

end
