(* ===== verification/Pipeline_Stages.thy ===== *)
theory Pipeline_Stages
  imports Pipeline_State Persistent_Store Ai_Plan
begin

text \<open>
  The stages of a pipeline run other than planning, \<^verbatim>\<open>backend/pipeline/runner.py\<close>: ingestion of the
  codebase, execution of the tests, the security scan. Steps pass the state of the run along and end
  with a value or an exception.

  What the stages call outside this file is a \<open>pipeline_env\<close>: the ingestion of a repository, the
  analysis of live pages, the planner and explorer agents, the execution of one test by the platform's
  orchestrator, the security scanner, the reading of JSON; and the settings.
  Such a call may change the world (the orchestrator writes executions, other requests are served
  meanwhile), return, raise, find the database unavailable, or be where the run's task is cancelled.
  \<open>pe_crash\<close> is the text of the errors Python itself raises on data of an unexpected type.
\<close>

section \<open>Steps\<close>

text \<open>
  How a step ends: a value, an exception, an unavailable database, a cancelled task; \<open>Unfinished\<close> is a
  step that has not ended, such as a wait whose fuel is used up.
\<close>

datatype 'a outcome = Value 'a | Raised string | Store_Down string | Stopped | Unfinished

type_synonym 'a call = "world \<Rightarrow> 'a outcome \<times> world"
type_synonym 'a step = "run_state \<Rightarrow> 'a outcome \<times> run_state"

definition ret :: "'a \<Rightarrow> 'a step" where
  "ret a s = (Value a, s)"

definition raise_step :: "string \<Rightarrow> 'a step" where
  "raise_step message s = (Raised message, s)"

definition act :: "(run_state \<Rightarrow> run_state) \<Rightarrow> unit step" where
  "act f s = (Value (), f s)"

definition and_next :: "'a step \<Rightarrow> ('a \<Rightarrow> 'b step) \<Rightarrow> 'b step" where
  "and_next f g s =
     (case f s of
        (Value a, s') \<Rightarrow> g a s'
      | (Raised m, s') \<Rightarrow> (Raised m, s')
      | (Store_Down m, s') \<Rightarrow> (Store_Down m, s')
      | (Stopped, s') \<Rightarrow> (Stopped, s')
      | (Unfinished, s') \<Rightarrow> (Unfinished, s'))"

definition in_world :: "world \<Rightarrow> run_state \<Rightarrow> run_state" where
  "in_world w s = s\<lparr>w_db := w_db w, w_clock := w_clock w, w_tasks := w_tasks w\<rparr>"

definition ask :: "'a call \<Rightarrow> 'a step" where
  "ask f s = (let (r, w) = f (world_of s) in (r, in_world w s))"

text \<open>A value that Python would fail to compute (None) raises.\<close>

definition need :: "string \<Rightarrow> 'a option \<Rightarrow> 'a step" where
  "need crash v = (case v of None \<Rightarrow> raise_step crash | Some a \<Rightarrow> ret a)"

definition look :: "(run_state \<Rightarrow> 'a) \<Rightarrow> 'a step" where
  "look f s = (Value (f s), s)"

section \<open>The environment\<close>

datatype ingest_reply = Ingested document | Source_Failure string

datatype scan_reply =
    Out_Of_Scope string
  | Scan_Failed string
  | Scanned "document list" "document list"

record exploration =
  xp_reached :: bool
  xp_steps :: "document list"
  xp_healing_targets :: pyval
  xp_outcome :: pyval
  xp_notes :: pyval
  xp_reason :: string
  xp_model_calls :: int

record pipeline_env =
  pe_json :: json_text
  pe_crash :: string
  pe_ingest :: "pyval \<Rightarrow> pyval \<Rightarrow> ingest_reply call"
  pe_save_blueprint :: "pyval \<Rightarrow> document \<Rightarrow> unit call"
  pe_analyze :: "string \<Rightarrow> string option \<Rightarrow> page_analysis call"
  pe_ai_plan :: "application_context \<Rightarrow> ((string \<times> string) + test_plan) option call"
  pe_reachable :: "string list \<Rightarrow> (string \<Rightarrow> int option) call"
  pe_pages :: "string list \<Rightarrow> (string \<Rightarrow> page_analysis option) call"
  pe_explore :: "string \<Rightarrow> string \<Rightarrow> ((string \<times> string) + exploration) call"
  pe_explorer_on :: bool
  pe_link_pages :: int
  pe_route_pages :: int
  pe_deep_pages :: int
  pe_run_test :: "int \<Rightarrow> bool \<Rightarrow> pyval option \<Rightarrow> world \<Rightarrow> (document outcome \<times> pyval list) \<times> world"
  pe_refusal :: "pyval \<Rightarrow> string option"
  pe_scan :: "pyval \<Rightarrow> bool \<Rightarrow> pyval \<Rightarrow> scan_reply call"
  pe_start_check :: "document \<Rightarrow> pyval call"
  pe_finish_check :: "pyval \<Rightarrow> string list \<Rightarrow> pyval call"
  pe_database_line :: "pyval \<Rightarrow> string option"
  pe_goal_text :: "pyval \<Rightarrow> string option"

definition middle_dot :: string where
  "middle_dot = [CHR '' '', CHR 0xC2, CHR 0xB7, CHR '' '']"

definition test_cases :: string where "test_cases = ''test_cases''"
definition test_executions :: string where "test_executions = ''test_executions''"
definition codebase_blueprints :: string where "codebase_blueprints = ''codebase_blueprints''"

text \<open>\<open>len(v)\<close>\<close>

definition pv_length :: "pyval \<Rightarrow> nat option" where
  "pv_length v =
     (case v of PList vs \<Rightarrow> Some (length vs) | PDict d \<Rightarrow> Some (length d) | PStr s \<Rightarrow> Some (py_len s) | _ \<Rightarrow> None)"

section \<open>Codebase\<close>

definition reuse_note :: "pyval \<Rightarrow> string option" where
  "reuse_note latest =
     (case latest of
        PDict d \<Rightarrow>
          (case (dict_get_or d ''analyzed_at'' (PStr []), pv_length (dict_get_or d ''routes'' (PList []))) of
             (PStr t, Some n) \<Rightarrow>
               Some (''Using the blueprint from '' @
                     map (\<lambda>x. if x = CHR ''T'' then CHR '' '' else x) (py_take 16 t) @
                     '' ('' @ show_nat n @ '' routes); re-ingested on every push'')
           | _ \<Rightarrow> None)
      | _ \<Rightarrow> None)"

definition lines_of :: "pyval \<Rightarrow> f64 option" where
  "lines_of v = (case v of PDict d \<Rightarrow> number_of (dict_get d ''lines'') | _ \<Rightarrow> None)"

definition primary_language :: "document \<Rightarrow> string option" where
  "primary_language blueprint =
     (case dict_get_or blueprint ''languages'' (PDict []) of
        PDict langs \<Rightarrow>
          if list_all (\<lambda>(k, v). lines_of v \<noteq> None) langs then
            Some (case max_by (\<lambda>(k, v). the (lines_of v)) langs of None \<Rightarrow> ''no code'' | Some (k, _) \<Rightarrow> k)
          else None
      | v \<Rightarrow> if pv_true v then None else Some ''no code'')"

definition dependency_note :: "document \<Rightarrow> string option" where
  "dependency_note blueprint =
     (case pv_or (dict_get blueprint ''dependency_scan'') (PDict []) of
        PDict deps \<Rightarrow>
          if pv_true (dict_get deps ''error'') then
            Some (middle_dot @ ''dependencies not checked: '' @ pv_str (dict_get deps ''error''))
          else if deps = [] then Some []
          else (case map_of deps ''checked'' of
                  None \<Rightarrow> None
                | Some checked \<Rightarrow>
                    Some (if pv_true (dict_get deps ''vulnerable'') then
                            middle_dot @ pv_str (dict_get deps ''vulnerable'') @ '' of '' @ pv_str checked @
                            '' pinned packages have known vulnerabilities''
                          else middle_dot @ pv_str checked @ '' pinned packages, none known vulnerable''))
      | _ \<Rightarrow> None)"

definition ingest_note :: "document \<Rightarrow> string option" where
  "ingest_note blueprint =
     (case (primary_language blueprint, dependency_note blueprint,
            pv_length (dict_get_or blueprint ''routes'' (PList [])), pv_length (dict_get_or blueprint ''risks'' (PList []))) of
        (Some primary, Some deps, Some routes, Some risks) \<Rightarrow>
          Some (pv_str (dict_get_or blueprint ''files_total'' (PInt 0)) @ '' files, '' @ primary @ '', '' @
                show_nat routes @ '' routes, '' @ show_nat risks @ '' risks'' @ deps)
      | _ \<Rightarrow> None)"

text \<open>\<open>json.loads(previous[0]["data"]) if previous else None\<close>\<close>

definition latest_blueprint :: "pipeline_env \<Rightarrow> document list \<Rightarrow> pyval option" where
  "latest_blueprint env previous =
     (case previous of
        [] \<Rightarrow> Some PNone
      | row # _ \<Rightarrow> (case dict_get row ''data'' of PStr t \<Rightarrow> jt_loads (pe_json env) t | _ \<Rightarrow> None))"

definition ingest_repository :: "pipeline_env \<Rightarrow> document \<Rightarrow> pyval \<Rightarrow> pyval step" where
  "ingest_repository env project latest =
     (let repo = dict_get project ''repo_url'' in
      and_next (act (stage ''codebase'' ''running'' None)) (\<lambda>_.
      and_next (ask (pe_ingest env repo (dict_get project ''owner_uid''))) (\<lambda>reply.
        case reply of
          Source_Failure message \<Rightarrow>
            and_next (act (stage ''codebase'' ''failed''
              (Some (message @ (if pv_true latest then '' '' @ em_dash @ '' using the previous blueprint'' else []))))) (\<lambda>_.
            ret latest)
        | Ingested blueprint \<Rightarrow>
            and_next (ask (pe_save_blueprint env repo blueprint)) (\<lambda>_.
            and_next (need (pe_crash env) (ingest_note blueprint)) (\<lambda>note.
            and_next (act (stage ''codebase'' ''done'' (Some note))) (\<lambda>_.
            ret (PDict blueprint)))))))"

definition stage_codebase :: "pipeline_env \<Rightarrow> document \<Rightarrow> pyval step" where
  "stage_codebase env project =
     and_next (look (\<lambda>s. doc_find (w_db s) codebase_blueprints (Some ''id'') True (Some 1)
                  [(''project_id'', dict_get project ''id'')])) (\<lambda>found.
     and_next (need (pe_crash env) found) (\<lambda>previous.
     and_next (need (pe_crash env) (latest_blueprint env previous)) (\<lambda>latest.
     and_next (look rs_doc) (\<lambda>doc.
       if \<not> pv_true (dict_get project ''repo_url'') then
         and_next (act (stage ''codebase'' ''skipped'' (Some ''No repository linked to this project''))) (\<lambda>_.
         ret PNone)
       else if pv_true latest \<and> \<not> pv_true (dict_get doc ''ingest'') \<and> dict_get doc ''trigger'' \<noteq> PStr ''webhook'' then
         and_next (need (pe_crash env) (reuse_note latest)) (\<lambda>note.
         and_next (act (stage ''codebase'' ''done'' (Some note))) (\<lambda>_.
         ret latest))
       else ingest_repository env project latest))))"

section \<open>Executing the tests\<close>

definition generated_prefix :: string where
  "generated_prefix = ''pipe-''"

definition is_sign_in :: "document \<Rightarrow> bool" where
  "is_sign_in tc \<longleftrightarrow>
     prefix generated_prefix (pv_str (pv_or (dict_get tc ''external_id'') (PStr []))) \<and>
     suffix ''-interaction'' (pv_str (dict_get tc ''external_id''))"

text \<open>\<open>_signed_in_kwargs\<close>: whether the test's session is kept, and the session it starts from.\<close>

definition signed_in_kwargs :: "document \<Rightarrow> bool \<Rightarrow> pyval list \<Rightarrow> bool \<times> pyval option" where
  "signed_in_kwargs tc sign_in_first session =
     (if \<not> sign_in_first then (False, None)
      else if is_sign_in tc then (True, None)
      else if session \<noteq> [] \<and> dict_get tc ''category'' \<in> {PStr ''link'', PStr ''route''} then (False, Some (last session))
      else (False, None))"

definition max_listed_checks :: nat where
  "max_listed_checks = 4"

definition check_texts :: "pyval list \<Rightarrow> string list" where
  "check_texts steps =
     concat (map (\<lambda>v. case v of
        PDict s \<Rightarrow>
          if contains ''assert'' (lower (pv_str (pv_or (dict_get s ''action'') (PStr []))))
          then [strip (pv_str (pv_or (dict_get s ''description'') (PStr [])))] else []
      | _ \<Rightarrow> []) steps)"

text \<open>\<open>_what_it_checks\<close>: None when the description is not text (that raises).\<close>

definition what_it_checks :: "json_text \<Rightarrow> document \<Rightarrow> document option" where
  "what_it_checks jt tc =
     (case pv_or (dict_get tc ''description'') (PStr ''{}'') of
        PStr t \<Rightarrow>
          (case jt_loads jt t of
             None \<Rightarrow> Some []
           | Some stored \<Rightarrow>
               (case (case stored of PDict d \<Rightarrow> dict_get d ''steps'' | v \<Rightarrow> v) of
                  PList steps \<Rightarrow>
                    Some [(''step_count'', PInt (int (length steps))),
                          (''checks'', PList (map PStr (take max_listed_checks
                             (filter (\<lambda>x. x \<noteq> []) (check_texts steps)))))]
                | _ \<Rightarrow> Some []))
      | _ \<Rightarrow> None)"

text \<open>\<open>TestExecutionService.create_execution\<close> with its default status\<close>

definition create_execution :: "pyval \<Rightarrow> pyval \<Rightarrow> document step" where
  "create_execution test_case_id owner s =
     (case fetch s test_cases (as_int test_case_id) of
        None \<Rightarrow> (Raised (''Test case with ID '' @ pv_str test_case_id @ '' not found''), s)
      | Some tc \<Rightarrow>
          let (row, s') = put_new test_executions
            [(''test_case_id'', test_case_id), (''status'', PStr ''PENDING''), (''started_at'', PNone),
             (''completed_at'', PNone), (''duration_ms'', PNone), (''error_message'', PNone),
             (''owner_uid'', pv_or owner (dict_get tc ''owner_uid''))] s
          in (Value row, s'))"

record test_report =
  tr_status :: pyval
  tr_error :: pyval
  tr_visual :: pyval
  tr_duration :: pyval
  tr_diagnosis :: pyval

definition report_of :: "document \<Rightarrow> test_report" where
  "report_of res =
     \<lparr>tr_status = dict_get_or res ''status'' (PStr ''FAILED''), tr_error = dict_get res ''error_message'',
      tr_visual = dict_get res ''visual'', tr_duration = dict_get res ''duration_ms'',
      tr_diagnosis = dict_get res ''diagnosis''\<rparr>"

definition crash_report :: "string \<Rightarrow> test_report" where
  "crash_report message =
     \<lparr>tr_status = PStr ''FAILED'', tr_error = PStr (''Execution error: '' @ message), tr_visual = PNone,
      tr_duration = PNone, tr_diagnosis = PNone\<rparr>"

text \<open>
  One test: what the orchestrator reports, and the sessions it kept. An exception is a failed test;
  only an unavailable database stops the run.
\<close>

definition run_one :: "pipeline_env \<Rightarrow> document \<Rightarrow> bool \<Rightarrow> pyval option \<Rightarrow> (test_report \<times> pyval list) step" where
  "run_one env execution keep storage s =
     (let i = row_id execution; ((r, kept), w) = pe_run_test env i keep storage (world_of s); s' = in_world w s
      in case r of
           Value res \<Rightarrow> (Value (report_of res, kept), s')
         | Store_Down m \<Rightarrow> (Store_Down m, s')
         | Stopped \<Rightarrow> (Stopped, s')
         | Unfinished \<Rightarrow> (Unfinished, s')
         | Raised message \<Rightarrow>
             let report = crash_report message; (t, s2) = now_iso s'
             in (Value (report, kept),
                 put test_executions i [(''status'', tr_status report), (''error_message'', tr_error report),
                                        (''completed_at'', PStr t)] s2))"

definition self_healed :: "test_report \<Rightarrow> bool" where
  "self_healed r \<longleftrightarrow>
     tr_status r = PStr ''HEALED'' \<or>
     tr_status r = PStr ''PASSED'' \<and> prefix ''Self-healed'' (pv_str (pv_or (tr_error r) (PStr [])))"

text \<open>None: the orchestrator's \<open>visual\<close> is not a dictionary.\<close>

definition visual_changed :: "test_report \<Rightarrow> bool option" where
  "visual_changed r =
     (case pv_or (tr_visual r) (PDict []) of PDict v \<Rightarrow> Some (pv_true (dict_get v ''changed'')) | _ \<Rightarrow> None)"

definition test_result :: "document \<Rightarrow> document \<Rightarrow> test_report \<Rightarrow> bool \<Rightarrow> document \<Rightarrow> document" where
  "test_result tc execution r changed checks =
     [(''test_case_id'', dict_get tc ''id''), (''name'', dict_get tc ''name''), (''category'', dict_get tc ''category''),
      (''execution_id'', dict_get execution ''id''), (''status'', tr_status r), (''error'', tr_error r),
      (''healed'', PBool (self_healed r)), (''quarantined'', PBool (pv_true (dict_get tc ''quarantined''))),
      (''visual_changed'', PBool changed), (''duration_ms'', tr_duration r), (''diagnosis'', tr_diagnosis r)] @ checks"

definition test_name :: "document \<Rightarrow> string" where
  "test_name tc = pv_str (dict_get tc ''name'')"

fun run_tests ::
  "pipeline_env \<Rightarrow> pyval \<Rightarrow> bool \<Rightarrow> nat \<Rightarrow> nat \<Rightarrow> document list \<Rightarrow> document list \<Rightarrow> pyval list \<Rightarrow>
     document list step" where
  "run_tests env owner sign_in n idx [] results session = ret results"
| "run_tests env owner sign_in n idx (tc # tcs) results session =
     and_next (act (stage ''execute'' ''running''
       (Some (''Running '' @ show_nat idx @ '' of '' @ show_nat n @ '': '' @ test_name tc)))) (\<lambda>_.
     and_next (create_execution (dict_get tc ''id'') owner) (\<lambda>execution.
       case signed_in_kwargs tc sign_in session of
         (keep, storage) \<Rightarrow>
     and_next (run_one env execution keep storage) (\<lambda>(report, kept).
     and_next (need (pe_crash env) (visual_changed report)) (\<lambda>changed.
     and_next (need (pe_crash env) (what_it_checks (pe_json env) tc)) (\<lambda>checks.
       let results' = results @ [test_result tc execution report changed checks] in
     and_next (act (save [(''tests'', entries_value results')])) (\<lambda>_.
     run_tests env owner sign_in n (idx + 1) tcs results' (session @ kept)))))))"

definition test_failed :: "document \<Rightarrow> bool" where
  "test_failed r \<longleftrightarrow> status_of r = PStr ''FAILED''"

definition is_quarantined :: "document \<Rightarrow> bool" where
  "is_quarantined r \<longleftrightarrow> pv_true (dict_get r ''quarantined'')"

definition counted_failures :: "document list \<Rightarrow> nat" where
  "counted_failures results = count_if (\<lambda>r. test_failed r \<and> \<not> is_quarantined r) results"

definition execute_note :: "document list \<Rightarrow> string" where
  "execute_note results =
     (let all_failed = count_if test_failed results; failed = counted_failures results;
          quarantined = all_failed - failed
      in show_nat (length results - all_failed) @ '' of '' @ show_nat (length results) @ '' passed'' @
         (if failed \<noteq> 0 then '', '' @ show_nat failed @ '' failed'' else []) @
         (if quarantined \<noteq> 0 then '', '' @ show_nat quarantined @ '' quarantined failed (does not fail the run)'' else []))"

definition sign_in_order :: "bool \<Rightarrow> document list \<Rightarrow> document list" where
  "sign_in_order sign_in tcs = (if sign_in then filter is_sign_in tcs @ filter (\<lambda>tc. \<not> is_sign_in tc) tcs else tcs)"

definition stage_execute :: "pipeline_env \<Rightarrow> document list \<Rightarrow> pyval \<Rightarrow> bool \<Rightarrow> document list step" where
  "stage_execute env tcs owner sign_in =
     (let tcs' = sign_in_order sign_in tcs; n = length tcs' in
      and_next (act (stage ''execute'' ''running'' (Some (''0 of '' @ show_nat n @ '' run'')))) (\<lambda>_.
      and_next (run_tests env owner sign_in n 1 tcs' [] []) (\<lambda>results.
      and_next (act (stage ''execute'' (if counted_failures results \<noteq> 0 then ''failed'' else ''done'')
        (Some (execute_note results)))) (\<lambda>_.
      ret results))))"

section \<open>Healing summary\<close>

definition was_healed :: "document \<Rightarrow> bool" where
  "was_healed r \<longleftrightarrow> pv_true (dict_get r ''healed'')"

definition heal_note :: "document list \<Rightarrow> string" where
  "heal_note results =
     (let healed = filter was_healed results; unhealed = filter test_failed results
      in if healed = [] \<and> unhealed = [] then ''Nothing needed healing''
         else join middle_dot
           ((if healed \<noteq> [] then [show_nat (length healed) @ '' test(s) self-healed: '' @ join ''; '' (map test_name healed)]
             else []) @
            (if unhealed \<noteq> [] then [show_nat (length unhealed) @ '' failure(s) could not be healed''] else [])))"

definition stage_heal :: "document list \<Rightarrow> unit step" where
  "stage_heal results = act (stage ''heal'' ''done'' (Some (heal_note results)))"

section \<open>Security scan\<close>

definition severities :: "string list" where
  "severities = [''critical'', ''high'', ''medium'', ''low'', ''info'']"

definition severity_note :: "document list \<Rightarrow> string" where
  "severity_note findings =
     (let number = (\<lambda>s. count_if (\<lambda>f. dict_get f ''severity'' = PStr s) findings);
          parts = map (\<lambda>s. show_nat (number s) @ '' '' @ s) (filter (\<lambda>s. number s \<noteq> 0) severities)
      in if parts = [] then ''no findings'' else join '', '' parts)"

text \<open>The result of a scan: its findings, and those that had been resolved before.\<close>

type_synonym scan_summary = "document list \<times> document list"

definition stage_security :: "pipeline_env \<Rightarrow> pyval \<Rightarrow> pyval \<Rightarrow> bool \<Rightarrow> scan_summary option step" where
  "stage_security env app_url owner active =
     (let refusal = (if active then pe_refusal env owner else None) in
      and_next (act (stage ''security'' ''running'' None)) (\<lambda>_.
      and_next (ask (pe_scan env app_url (active \<and> refusal = None) owner)) (\<lambda>reply.
        case reply of
          Out_Of_Scope message \<Rightarrow>
            and_next (act (stage ''security'' ''skipped'' (Some (message @
              ''. Add the host to SECURITY_SCAN_ALLOWED_HOSTS (only hosts you own) to scan it.'')))) (\<lambda>_. ret None)
        | Scan_Failed message \<Rightarrow>
            and_next (act (stage ''security'' ''failed'' (Some message))) (\<lambda>_. ret None)
        | Scanned findings reopened \<Rightarrow>
            and_next (act (stage ''security'' ''done'' (Some
              (severity_note findings @
               (if reopened \<noteq> [] then middle_dot @ show_nat (length reopened) @ '' reappeared'' else []) @
               (case refusal of None \<Rightarrow> [] | Some r \<Rightarrow> middle_dot @ ''active scan skipped: '' @ r))))) (\<lambda>_.
            ret (Some (findings, reopened))))))"

end
