(* ===== verification/Pipeline_Plan.thy ===== *)
theory Pipeline_Plan
  imports Pipeline_Stages
begin

text \<open>
  The planning stage: \<open>_plan\<close> of \<^verbatim>\<open>backend/pipeline/runner.py\<close> and \<open>explored_test\<close> of
  \<^verbatim>\<open>backend/pipeline/explore.py\<close>. The planned tests are written to the application's test cases,
  one row per external id: a new row, or an updated one when its name or steps changed. Tests a model
  wrote start quarantined, and are quarantined again when their steps change.
\<close>

definition applications :: string where "applications = ''applications''"

definition opt_of :: "pyval \<Rightarrow> string option" where
  "opt_of v = (case v of PStr s \<Rightarrow> Some s | _ \<Rightarrow> None)"

section \<open>Rows\<close>

definition external_id :: "document \<Rightarrow> string \<Rightarrow> string" where
  "external_id project slug = generated_prefix @ pv_str (dict_get project ''id'') @ ''-'' @ slug"

definition find_case :: "pipeline_env \<Rightarrow> document \<Rightarrow> string \<Rightarrow> document option step" where
  "find_case env app ext =
     and_next (look (\<lambda>s. doc_find_one (w_db s) test_cases
        [(''application_id'', dict_get app ''id''), (''external_id'', PStr ext)])) (\<lambda>found.
     need (pe_crash env) found)"

text \<open>\<open>TestCaseService.create_test_case\<close>, version 1\<close>

definition create_test_case ::
  "pyval \<Rightarrow> string \<Rightarrow> string \<Rightarrow> string \<Rightarrow> string \<Rightarrow> pyval \<Rightarrow> document step" where
  "create_test_case app_id ext name description category owner s =
     (case fetch s applications (as_int app_id) of
        None \<Rightarrow> (Raised (''Application with ID '' @ pv_str app_id @ '' not found''), s)
      | Some app \<Rightarrow>
          let (row, s') = put_new test_cases
            [(''application_id'', app_id), (''external_id'', PStr ext), (''name'', PStr name),
             (''description'', PStr description), (''category'', PStr category), (''priority'', PStr ''normal''),
             (''version'', PInt 1), (''owner_uid'', pv_or owner (dict_get app ''owner_uid''))] s
          in (Value row, s'))"

text \<open>\<open>db.update\<close> of a row that was just read\<close>

definition update_case :: "pipeline_env \<Rightarrow> document \<Rightarrow> document \<Rightarrow> document step" where
  "update_case env row changes =
     (\<lambda>s. let (d, s') = put_row test_cases (row_id row) changes s in need (pe_crash env) d s')"

text \<open>\<open>int(row.get("version") or 1) + 1\<close>; None when the version is no number.\<close>

definition next_version :: "document \<Rightarrow> pyval option" where
  "next_version row =
     (case pv_or (dict_get row ''version'') (PInt 1) of
        PInt i \<Rightarrow> Some (PInt (i + 1))
      | PBool b \<Rightarrow> Some (PInt 2)
      | PFloat x \<Rightarrow> Some (PInt (as_int (PFloat x) + 1))
      | PStr t \<Rightarrow> map_option (\<lambda>i. PInt (i + 1)) (py_int t)
      | _ \<Rightarrow> None)"

definition suite_description :: "pipeline_env \<Rightarrow> document \<Rightarrow> suite_test \<Rightarrow> string" where
  "suite_description env project t =
     jt_dumps (pe_json env)
       (PDict [(''steps'', entries_value (su_steps t)), (''generated_by'', PStr ''pipeline''),
               (''prompt'', dict_get project ''prompt'')])"

definition row_name :: "suite_test \<Rightarrow> string" where
  "row_name t = py_take 255 (su_name t)"

definition is_ai :: "suite_test \<Rightarrow> bool" where
  "is_ai t \<longleftrightarrow> su_category t = ''ai''"

text \<open>One planned test: its row, and whether it is new.\<close>

definition store_test :: "pipeline_env \<Rightarrow> document \<Rightarrow> document \<Rightarrow> suite_test \<Rightarrow> (document \<times> bool) step" where
  "store_test env project app t =
     (let ext = external_id project (su_slug t); description = suite_description env project t; name = row_name t in
      and_next (find_case env app ext) (\<lambda>found.
        case found of
          None \<Rightarrow>
            and_next (create_test_case (dict_get app ''id'') ext name description (su_category t)
                        (dict_get project ''owner_uid'')) (\<lambda>row.
              if is_ai t then
                and_next (update_case env row [(''quarantined'', PBool True)]) (\<lambda>row'. ret (row', True))
              else ret (row, True))
        | Some row \<Rightarrow>
            if dict_get row ''description'' \<noteq> PStr description \<or> dict_get row ''name'' \<noteq> PStr name then
              and_next (need (pe_crash env) (next_version row)) (\<lambda>version.
              and_next (update_case env row
                 ([(''name'', PStr name), (''description'', PStr description), (''version'', version)] @
                  (if is_ai t \<and> dict_get row ''description'' \<noteq> PStr description
                   then [(''quarantined'', PBool True)] else []))) (\<lambda>row'. ret (row', False)))
            else ret (row, False)))"

fun store_tests ::
  "pipeline_env \<Rightarrow> document \<Rightarrow> document \<Rightarrow> suite_test list \<Rightarrow> document list \<times> nat \<Rightarrow>
     (document list \<times> nat) step" where
  "store_tests env project app [] acc = ret acc"
| "store_tests env project app (t # ts) acc =
     and_next (store_test env project app t) (\<lambda>(row, new).
     store_tests env project app ts (fst acc @ [row], snd acc + (if new then 1 else 0)))"

section \<open>The explored goal\<close>

definition recorded_goal :: "json_text \<Rightarrow> document \<Rightarrow> pyval option" where
  "recorded_goal jt row =
     (case pv_or (dict_get row ''description'') (PStr ''{}'') of
        PStr t \<Rightarrow>
          (case jt_loads jt t of
             Some (PDict d) \<Rightarrow> Some (dict_get d ''prompt'')
           | _ \<Rightarrow> Some PNone)
      | _ \<Rightarrow> None)"

text \<open>\<open>needs_exploring\<close>: the reason, or None to replay; the outer None is a query that raises.\<close>

definition needs_exploring ::
  "pipeline_env \<Rightarrow> doc_store \<Rightarrow> document option \<Rightarrow> string \<Rightarrow> string option option" where
  "needs_exploring env db row goal =
     (case row of
        None \<Rightarrow> Some (Some ''no recording yet'')
      | Some r \<Rightarrow>
          (case recorded_goal (pe_json env) r of
             None \<Rightarrow> None
           | Some g \<Rightarrow>
               if g \<noteq> PStr goal then Some (Some ''the goal changed'')
               else map_option (\<lambda>runs. case runs of
                      run # _ \<Rightarrow> if test_failed run then Some ''the last replay failed'' else None
                    | [] \<Rightarrow> None)
                  (doc_find db test_executions (Some ''id'') True (Some 1) [(''test_case_id'', dict_get r ''id'')])))"

definition recording_description :: "pipeline_env \<Rightarrow> string \<Rightarrow> exploration \<Rightarrow> string" where
  "recording_description env goal x =
     jt_dumps (pe_json env)
       (PDict [(''steps'', entries_value (xp_steps x)), (''generated_by'', PStr ''explorer''), (''prompt'', PStr goal),
               (''outcome'', xp_outcome x), (''notes'', xp_notes x)])"

definition save_recording ::
  "pipeline_env \<Rightarrow> document \<Rightarrow> document \<Rightarrow> string \<Rightarrow> document option \<Rightarrow> string \<Rightarrow> exploration \<Rightarrow> document step" where
  "save_recording env project app ext row goal x =
     (let description = recording_description env goal x; name = py_take 255 (''AI explored: '' @ goal) in
      case row of
        None \<Rightarrow>
          and_next (create_test_case (dict_get app ''id'') ext name description ''explored''
                      (dict_get project ''owner_uid'')) (\<lambda>new.
          update_case env new [(''quarantined'', PBool True), (''healing_targets'', xp_healing_targets x)])
      | Some r \<Rightarrow>
          and_next (need (pe_crash env) (next_version r)) (\<lambda>version.
          update_case env r
            [(''name'', PStr name), (''description'', PStr description), (''quarantined'', PBool True),
             (''healing_targets'', xp_healing_targets x), (''version'', version)]))"

definition explored_test ::
  "pipeline_env \<Rightarrow> document \<Rightarrow> document \<Rightarrow> (document option \<times> string option) step" where
  "explored_test env project app =
     (let goal = strip (or_empty (opt_of (dict_get project ''prompt''))); ext = external_id project ''explored'' in
      if goal = [] \<or> \<not> pe_explorer_on env then ret (None, None)
      else
        and_next (find_case env app ext) (\<lambda>row.
        and_next (look w_db) (\<lambda>db.
        and_next (need (pe_crash env) (needs_exploring env db row goal)) (\<lambda>why.
          case why of
            None \<Rightarrow> ret (row, Some ''replaying the AI-explored recording'')
          | Some reason \<Rightarrow>
              and_next (ask (pe_explore env (pv_str (dict_get project ''app_url'')) goal)) (\<lambda>reply.
                case reply of
                  Inl (kind, message) \<Rightarrow>
                    ret (row, Some (''AI explorer skipped ('' @ kind @ '': '' @
                      (let m = py_take 120 message in if m = [] then ''no answer'' else m) @ '')''))
                | Inr x \<Rightarrow>
                    if \<not> xp_reached x then
                      ret (row, Some (''AI explorer could not reach the goal ('' @ reason @ ''): '' @ xp_reason x @
                        (if row \<noteq> None then middle_dot @ ''kept the previous recording'' else [])))
                    else
                      and_next (save_recording env project app ext row goal x) (\<lambda>new.
                      ret (Some new,
                        Some (''AI explorer recorded the goal in '' @ show_int (int (length (xp_steps x)) - 2) @
                              '' action(s) with '' @ show_int (xp_model_calls x) @ '' model call(s) ('' @ reason @
                              ''), quarantined until you trust it''))))))))"

section \<open>The stage\<close>

definition find_application :: "pipeline_env \<Rightarrow> document \<Rightarrow> page_analysis \<Rightarrow> document step" where
  "find_application env project a =
     and_next (look (\<lambda>s. doc_find_one (w_db s) applications
        [(''project_id'', dict_get project ''id''), (''base_url'', dict_get project ''app_url'')])) (\<lambda>found.
     and_next (need (pe_crash env) found) (\<lambda>app.
       case app of
         Some d \<Rightarrow> ret d
       | None \<Rightarrow>
           (\<lambda>s. let (d, s') = put_new applications
              [(''project_id'', dict_get project ''id''),
               (''name'', PStr (py_take 60 (if pa_page_title a = [] then test_name project else pa_page_title a))),
               (''base_url'', dict_get project ''app_url''),
               (''description'', PStr ''Created by the automated pipeline''),
               (''owner_uid'', dict_get project ''owner_uid'')] s
            in (Value d, s'))))"

definition blueprint_list :: "string \<Rightarrow> pyval \<Rightarrow> pyval list" where
  "blueprint_list field blueprint =
     (case dict_get (dict_of blueprint) field of PList vs \<Rightarrow> vs | _ \<Rightarrow> [])"

definition loads_fine :: "(string \<Rightarrow> int option) \<Rightarrow> candidate \<Rightarrow> bool" where
  "loads_fine codes c = (case codes (cd_url c) of None \<Rightarrow> False | Some n \<Rightarrow> n \<noteq> 0 \<and> n < 400)"

definition left_out_label :: "(string \<Rightarrow> int option) \<Rightarrow> candidate \<Rightarrow> string" where
  "left_out_label codes c =
     cd_label c @ '' ('' @
     (case codes (cd_url c) of None \<Rightarrow> ''unreachable'' | Some n \<Rightarrow> if n = 0 then ''unreachable'' else show_int n) @ '')''"

text \<open>The checks of the other pages; signed in, only that they stay put.\<close>

definition other_page_test :: "(string \<Rightarrow> page_analysis option) \<Rightarrow> candidate \<Rightarrow> suite_test" where
  "other_page_test pages c =
     (case pages (cd_url c) of
        Some page \<Rightarrow> if \<not> redirected c page then page_check_test c page else render_test c
      | None \<Rightarrow> render_test c)"

definition other_pages :: "pipeline_env \<Rightarrow> document \<Rightarrow> candidate list \<Rightarrow> suite_test list step" where
  "other_pages env project reachable =
     (if pv_true (dict_get project ''sign_in_first'') then ret (map stays_on_page_test reachable)
      else and_next (ask (pe_pages env (map cd_url (slice_to (pe_deep_pages env) reachable)))) (\<lambda>pages.
           ret (map (other_page_test pages) reachable)))"

definition saved_cases :: "document list \<Rightarrow> document list" where
  "saved_cases rows =
     filter (\<lambda>tc. \<not> prefix generated_prefix (pv_str (pv_or (dict_get tc ''external_id'') (PStr [])))) rows"

definition noted :: "string option \<Rightarrow> string" where
  "noted n = (case n of None \<Rightarrow> [] | Some t \<Rightarrow> if t = [] then [] else middle_dot @ t)"

definition plan_note :: "nat \<Rightarrow> nat \<Rightarrow> nat \<Rightarrow> string list \<Rightarrow> string option \<Rightarrow> string option \<Rightarrow> string" where
  "plan_note generated created saved left_out ai_note explore_note =
     show_nat (generated + saved) @ '' tests: '' @ show_nat generated @ '' generated ('' @ show_nat created @ '' new)'' @
     (if saved \<noteq> 0 then '', '' @ show_nat saved @ '' saved'' else []) @
     (if left_out \<noteq> [] then
        middle_dot @ ''left out '' @ show_nat (length left_out) @ '' page(s) that did not load: '' @
        join '', '' (take 4 left_out) else []) @
     noted ai_note @ noted explore_note"

text \<open>The tests planned for this run, with the note of the planner and the pages left out.\<close>

definition planned_tests ::
  "pipeline_env \<Rightarrow> document \<Rightarrow> page_analysis \<Rightarrow> pyval \<Rightarrow> (suite_test list \<times> string option \<times> string list) step" where
  "planned_tests env project a blueprint =
     (let prompt = opt_of (dict_get project ''prompt'');
          frameworks = map pv_str (blueprint_list ''frameworks'' blueprint);
          routes = map dict_of (blueprint_list ''routes'' blueprint) in
      and_next (ask (pe_ai_plan env (page_context_of a prompt frameworks))) (\<lambda>reply.
        case ai_tests reply a of
          (extra, ai_note) \<Rightarrow>
      and_next (need (pe_crash env) (candidate_pages a routes (pe_link_pages env) (pe_route_pages env))) (\<lambda>candidates.
      and_next (if candidates = [] then ret (\<lambda>_. None) else ask (pe_reachable env (map cd_url candidates))) (\<lambda>codes.
        let reachable = filter (loads_fine codes) candidates;
            left_out = map (left_out_label codes) (filter (\<lambda>c. \<not> loads_fine codes c) candidates) in
      and_next (other_pages env project reachable) (\<lambda>others.
      ret (page_tests a prompt @ extra @ others, ai_note, left_out))))))"

definition plan_run ::
  "pipeline_env \<Rightarrow> document \<Rightarrow> page_analysis \<Rightarrow> pyval \<Rightarrow> (document list \<times> string) step" where
  "plan_run env project a blueprint =
     and_next (find_application env project a) (\<lambda>app.
     and_next (planned_tests env project a blueprint) (\<lambda>(planned, ai_note, left_out).
     and_next (store_tests env project app planned ([], 0)) (\<lambda>(generated0, created).
     and_next (explored_test env project app) (\<lambda>(explored, explore_note).
     and_next (look (\<lambda>s. doc_find (w_db s) test_cases (Some ''id'') False None
                  [(''application_id'', dict_get app ''id'')])) (\<lambda>found.
     and_next (need (pe_crash env) found) (\<lambda>rows.
       let generated = generated0 @ (case explored of None \<Rightarrow> [] | Some r \<Rightarrow> [r]); saved = saved_cases rows in
     ret (generated @ saved,
          plan_note (length generated) created (length saved) left_out ai_note explore_note)))))))"

end
