(* ===== verification/Pipeline_Report.thy ===== *)
theory Pipeline_Report
  imports Pipeline_Stages
begin

text \<open>
  The last stage of a pipeline run (\<open>_report\<close> and \<open>flaky_tests\<close> of \<^verbatim>\<open>backend/pipeline/runner.py\<close>)
  and the sentences it writes about the run (\<^verbatim>\<open>backend/reporting/summary.py\<close>): which tests keep
  changing, what passed before and fails now, the totals, and the run's status.

  The tests of earlier runs are read back as this code wrote them, so every entry has its test case
  and its status. What raises in Python on other data is None.
\<close>

section \<open>Flaky tests\<close>

definition flaky_window :: nat where "flaky_window = 10"
definition flaky_flips :: nat where "flaky_flips = 2"

definition case_id :: "document \<Rightarrow> pyval" where
  "case_id r = dict_get r ''test_case_id''"

fun flips :: "bool list \<Rightarrow> nat" where
  "flips (a # b # bs) = (if a \<noteq> b then 1 else 0) + flips (b # bs)"
| "flips _ = 0"

definition outcomes_by_test :: "document list list \<Rightarrow> (pyval \<times> bool list) list" where
  "outcomes_by_test runs = fold (\<lambda>t. dict_append (case_id t) (\<not> test_failed t)) (concat runs) []"

definition flaky_tests :: "document list list \<Rightarrow> document list \<Rightarrow> pyval list" where
  "flaky_tests history current =
     map fst (filter (\<lambda>(tc, seq). flaky_flips \<le> flips seq) (outcomes_by_test (history @ [current])))"

section \<open>Regressions\<close>

text \<open>The status of every test in a run's list; a later entry of the same test wins.\<close>

definition statuses_before :: "document list \<Rightarrow> (pyval \<times> pyval) list" where
  "statuses_before tests = fold (\<lambda>t. AList.update (case_id t) (status_of t)) tests []"

definition test_regression :: "(pyval \<times> pyval) list \<Rightarrow> document \<Rightarrow> document option" where
  "test_regression earlier r =
     (case map_of earlier (case_id r) of
        Some was \<Rightarrow>
          if test_failed r \<and> was \<in> {PStr ''PASSED'', PStr ''HEALED''} then
            Some [(''kind'', PStr ''test''), (''name'', dict_get r ''name''), (''test_case_id'', case_id r),
                  (''was'', was), (''now'', status_of r), (''error'', dict_get r ''error'')]
          else None
      | None \<Rightarrow> None)"

definition security_regression :: "document \<Rightarrow> document" where
  "security_regression f =
     [(''kind'', PStr ''security''),
      (''name'', PStr (pv_str (dict_get f ''check_id'') @ '': '' @ pv_str (dict_get f ''title''))),
      (''was'', PStr ''resolved''), (''now'', PStr ''open'')]"

definition regressions_of :: "document list \<Rightarrow> document list \<Rightarrow> document list \<Rightarrow> document list" where
  "regressions_of previous results reopened =
     somes (map (test_regression (statuses_before previous)) results) @ map security_regression reopened"

section \<open>Totals\<close>

record run_totals =
  rt_goal_untested :: bool
  rt_untested_parts :: pyval
  rt_total :: nat
  rt_passed :: nat
  rt_failed :: nat
  rt_healed :: nat
  rt_flaky :: nat
  rt_quarantined_failed :: nat
  rt_findings :: "(pyval \<times> nat) list option"
  rt_previous :: "int option"
  rt_visual_changes :: nat
  rt_database :: pyval

text \<open>\<open>Counter(xs)\<close>, in the order of first occurrences.\<close>

definition counter :: "'a list \<Rightarrow> ('a \<times> nat) list" where
  "counter xs = map (\<lambda>x. (x, count_if (\<lambda>y. y = x) xs)) (dedup xs)"

definition has_status :: "string \<Rightarrow> document \<Rightarrow> bool" where
  "has_status st r \<longleftrightarrow> status_of r = PStr st"

definition totals_of ::
  "document \<Rightarrow> document list \<Rightarrow> pyval list \<Rightarrow> scan_summary option \<Rightarrow> document option \<Rightarrow> run_totals" where
  "totals_of doc results flaky security previous =
     (let failed = counted_failures results in
      \<lparr>rt_goal_untested = pv_true (dict_get doc ''goal_untested''),
       rt_untested_parts = pv_or (dict_get doc ''goal_untested_parts'') (PList []),
       rt_total = length results,
       rt_passed = count_if (has_status ''PASSED'') results + count_if (has_status ''HEALED'') results,
       rt_failed = failed,
       rt_healed = count_if was_healed results,
       rt_flaky = length (filter (\<lambda>tc. tc \<in> set (map case_id results)) flaky),
       rt_quarantined_failed = count_if test_failed results - failed,
       rt_findings = map_option (\<lambda>(findings, _). counter (map (\<lambda>f. dict_get f ''severity'') findings)) security,
       rt_previous = map_option row_id previous,
       rt_visual_changes = count_if (\<lambda>r. pv_true (dict_get r ''visual_changed'')) results,
       rt_database = dict_get doc ''database''\<rparr>)"

section \<open>The run in sentences\<close>

definition nat_value :: "nat \<Rightarrow> pyval" where
  "nat_value n = PInt (int n)"

definition max_named :: nat where "max_named = 3"

definition plural :: "nat \<Rightarrow> string \<Rightarrow> string" where
  "plural n w = show_nat n @ '' '' @ w @ (if n = 1 then [] else ''s'')"

definition verb :: "nat \<Rightarrow> string \<Rightarrow> string \<Rightarrow> string" where
  "verb n one many = (if n = 1 then one else many)"

definition curly :: "string \<Rightarrow> string" where
  "curly s = [CHR 0xE2, CHR 0x80, CHR 0x9C] @ s @ [CHR 0xE2, CHR 0x80, CHR 0x9D]"

definition names_of :: "document list \<Rightarrow> string" where
  "names_of rows =
     join '', '' (map (\<lambda>r. curly (test_name r)) (take max_named rows)) @
     (if max_named < length rows then '' and '' @ show_nat (length rows - max_named) @ '' more'' else [])"

definition group_labels :: "(string \<times> string) list" where
  "group_labels =
     [(''smoke'', ''smoke''), (''functional'', ''goal scenario''), (''explored'', ''AI-explored goal''),
      (''content'', ''content''), (''link'', ''linked-page''), (''route'', ''code-route''), (''ai'', ''AI-written'')]"

definition group_label :: "document \<Rightarrow> string" where
  "group_label r =
     (case dict_get r ''category'' of
        PStr c \<Rightarrow> (case map_of group_labels c of Some l \<Rightarrow> l | None \<Rightarrow> ''saved'')
      | _ \<Rightarrow> ''saved'')"

definition head_line :: "run_totals \<Rightarrow> string" where
  "head_line t =
     (if rt_passed t = rt_total t then ''All '' @ show_nat (rt_total t) @ '' tests passed.''
      else show_nat (rt_passed t) @ '' of '' @ show_nat (rt_total t) @ '' tests passed ('' @
           show_int (round_even (fl (of_nat (100 * rt_passed t) / of_nat (rt_total t)))) @ ''%).'') @
     (if rt_healed t \<noteq> 0 then
        '' '' @ plural (rt_healed t) ''test'' @ '' passed only after self-healing repaired a broken locator.'' else [])"

definition of_regression_kind :: "string \<Rightarrow> document list \<Rightarrow> document list" where
  "of_regression_kind k regressions = filter (\<lambda>g. dict_get g ''kind'' = PStr k) regressions"

definition change_line :: "run_totals \<Rightarrow> document list \<Rightarrow> string" where
  "change_line t regressed =
     (case rt_previous t of
        None \<Rightarrow> ''This is the project'' @ [CHR 0x27] @ ''s first run, so there is nothing to compare with yet.''
      | Some p \<Rightarrow>
          if regressed \<noteq> [] then
            plural (length regressed) ''test'' @ '' passed in run #'' @ show_int p @ '' and '' @
            verb (length regressed) ''fails'' ''fail'' @ '' now: '' @ names_of regressed @ ''.''
          else ''Nothing that passed in run #'' @ show_int p @ '' fails now.'')"

text \<open>The most common diagnosis; None when it has no text.\<close>

definition cause_text :: "document list \<Rightarrow> string option" where
  "cause_text failed =
     (let diagnosed = filter (\<lambda>r. pv_true (dict_get r ''diagnosis'')) failed
      in if \<not> list_all (\<lambda>r. case dict_get r ''diagnosis'' of PDict _ \<Rightarrow> True | _ \<Rightarrow> False) diagnosed then None
         else case max_by snd (counter (map (\<lambda>r. dict_get (dict_of (dict_get r ''diagnosis'')) ''label'') diagnosed)) of
                None \<Rightarrow> Some []
              | Some (PStr label, n) \<Rightarrow> Some ('' Most common cause: '' @ lower label @ '' ('' @ show_nat n @ '').'')
              | _ \<Rightarrow> None)"

definition failure_lines :: "document list \<Rightarrow> document list \<Rightarrow> string list option" where
  "failure_lines failed counting =
     (if failed = [] then Some []
      else map_option (\<lambda>cause.
        if counting = [] then
          [plural (length failed) ''test'' @ '' failed, all quarantined ('' @
           join '' and '' (map (\<lambda>(g, n). show_nat n @ '' '' @ g) (sort_desc snd (counter (map group_label failed)))) @
           ''), so they do not fail the run.'' @ cause]
        else
          (plural (length counting) ''test'' @ '' failed and '' @ verb (length counting) ''fails'' ''fail'' @
           '' the run: '' @ names_of counting @ ''.'' @ cause) #
          (if length counting < length failed then
             [plural (length failed - length counting) ''more quarantined test'' @ '' failed without counting.''] else []))
        (cause_text failed))"

definition serious_findings :: "run_totals \<Rightarrow> nat" where
  "serious_findings t =
     (let found = (\<lambda>s. case Option.bind (rt_findings t) (\<lambda>f. map_of f (PStr s)) of None \<Rightarrow> 0 | Some n \<Rightarrow> n)
      in found ''critical'' + found ''high'')"

definition extra_line :: "run_totals \<Rightarrow> string list" where
  "extra_line t =
     (let extras =
            (if rt_flaky t \<noteq> 0 then [plural (rt_flaky t) ''test'' @ '' '' @ verb (rt_flaky t) ''is'' ''are'' @
               '' flaky (results keep changing between runs)''] else []) @
            (if rt_visual_changes t \<noteq> 0 then [plural (rt_visual_changes t) ''visual change'' @ '' to review''] else []) @
            (if serious_findings t \<noteq> 0 then [plural (serious_findings t) ''critical or high security finding''] else []) @
            (if rt_goal_untested t then [''parts of the written goal could not be turned into steps''] else [])
      in if extras = [] then [] else [''Also: '' @ join ''; '' extras @ ''.''])"

definition verdict_line :: "bool \<Rightarrow> bool \<Rightarrow> string" where
  "verdict_line attention any_failed =
     (if attention then ''Verdict: needs attention.''
      else ''Verdict: the app looks healthy'' @
           (if any_failed then '', but review the quarantined failures.'' else ''.''))"

definition run_summary :: "run_totals \<Rightarrow> document list \<Rightarrow> document list \<Rightarrow> string list option" where
  "run_summary t results regressions =
     (if rt_total t = 0 then Some [''No tests ran.'']
      else let failed = filter test_failed results; counting = filter (\<lambda>r. \<not> is_quarantined r) failed;
               regressed = of_regression_kind ''test'' regressions; reopened = of_regression_kind ''security'' regressions
           in map_option (\<lambda>failures.
                [head_line t, change_line t regressed] @
                (if reopened \<noteq> [] then
                   [plural (length reopened) ''resolved security finding'' @ '' reopened: '' @ names_of reopened @ ''.'']
                 else []) @
                failures @ extra_line t @
                [verdict_line (counting \<noteq> [] \<or> regressed \<noteq> [] \<or> reopened \<noteq> [] \<or> serious_findings t \<noteq> 0) (failed \<noteq> [])])
              (failure_lines failed counting))"

definition totals_value :: "run_totals \<Rightarrow> string list \<Rightarrow> pyval" where
  "totals_value t narrative = PDict
     [(''goal_untested'', PBool (rt_goal_untested t)), (''goal_untested_parts'', rt_untested_parts t),
      (''total'', nat_value (rt_total t)), (''passed'', nat_value (rt_passed t)), (''failed'', nat_value (rt_failed t)),
      (''healed'', nat_value (rt_healed t)), (''flaky'', nat_value (rt_flaky t)),
      (''quarantined_failed'', nat_value (rt_quarantined_failed t)),
      (''findings'', case rt_findings t of
         None \<Rightarrow> PNone | Some f \<Rightarrow> PDict (map (\<lambda>(s, n). (pv_str s, nat_value n)) f)),
      (''previous_run_id'', case rt_previous t of None \<Rightarrow> PNone | Some p \<Rightarrow> PInt p),
      (''visual_changes'', nat_value (rt_visual_changes t)), (''database'', rt_database t),
      (''narrative'', str_list narrative)]"

section \<open>The report stage\<close>

definition rows_of :: "string \<Rightarrow> document \<Rightarrow> document list" where
  "rows_of field d = entries_of field d"

text \<open>The finished runs before this one, newest first.\<close>

definition finished_before :: "int \<Rightarrow> document list \<Rightarrow> document list" where
  "finished_before i rows =
     filter (\<lambda>r. row_id r < i \<and> status_of r \<in> {PStr ''passed'', PStr ''failed''}) rows"

definition flaky_marked :: "pyval list \<Rightarrow> document list \<Rightarrow> document list" where
  "flaky_marked flaky results = map (\<lambda>r. set_field ''flaky'' (PBool (case_id r \<in> set flaky)) r) results"

definition report_note :: "run_totals \<Rightarrow> document list \<Rightarrow> string option \<Rightarrow> string" where
  "report_note t regressions line =
     show_nat (rt_passed t) @ ''/'' @ show_nat (rt_total t) @ '' passed'' @
     (if regressions \<noteq> [] then middle_dot @ show_nat (length regressions) @ '' regression(s)'' else []) @
     (if rt_visual_changes t \<noteq> 0 then middle_dot @ show_nat (rt_visual_changes t) @ '' visual change(s) to review'' else []) @
     (case rt_previous t of
        None \<Rightarrow> middle_dot @ ''first run''
      | Some p \<Rightarrow> middle_dot @ ''compared with run #'' @ show_int p) @
     (case line of None \<Rightarrow> [] | Some l \<Rightarrow> if l = [] then [] else middle_dot @ l)"

definition run_status :: "document list \<Rightarrow> string" where
  "run_status results = (if counted_failures results \<noteq> 0 then ''failed'' else ''passed'')"

text \<open>What the report writes once it knows the totals and the sentences.\<close>

definition write_report ::
  "pipeline_env \<Rightarrow> document \<Rightarrow> document list \<Rightarrow> document list \<Rightarrow> run_totals \<Rightarrow> string list \<Rightarrow> run_state \<Rightarrow> run_state" where
  "write_report env project results regressions t narrative s0 =
     (let s1 = stage ''report'' ''done'' (Some (report_note t regressions (pe_database_line env (rt_database t)))) s0;
          (at', s2) = now_iso s1;
          s3 = save [(''status'', PStr (run_status results)), (''summary'', totals_value t narrative),
                     (''regressions'', entries_value regressions), (''tests'', entries_value results),
                     (''finished_at'', PStr at')] s2
      in record_audit (dict_get (rs_doc s3) ''actor'') ''pipeline''
           (''Pipeline #'' @ show_int (rs_id s3) @ '' for '' @ pv_str (dict_get project ''name'') @ '': '' @
            show_nat (rt_passed t) @ ''/'' @ show_nat (rt_total t) @ '' passed'' @
            (if rt_healed t \<noteq> 0 then '', '' @ show_nat (rt_healed t) @ '' healed'' else []) @
            (if regressions \<noteq> [] then '', '' @ show_nat (length regressions) @ '' regression(s)'' else []))
           (if regressions \<noteq> [] \<or> counted_failures results \<noteq> 0 then ''error''
            else if rt_healed t \<noteq> 0 then ''warn'' else ''success'')
           (show_int (rs_id s3)) (dict_get project ''owner_uid'') (finish_project project s3))"

definition report_run :: "pipeline_env \<Rightarrow> document \<Rightarrow> document list \<Rightarrow> scan_summary option \<Rightarrow> unit step" where
  "report_run env project results security =
     and_next (act (stage ''report'' ''running'' None)) (\<lambda>_.
     and_next (look (\<lambda>s. doc_find (w_db s) pipeline_runs (Some ''id'') True (Some (int flaky_window + 5))
                  [(''project_id'', dict_get project ''id'')])) (\<lambda>found.
     and_next (need (pe_crash env) found) (\<lambda>rows.
     and_next (look id) (\<lambda>s.
       let finished = finished_before (rs_id s) rows;
           previous = (case finished of [] \<Rightarrow> None | r # _ \<Rightarrow> Some r);
           flaky = flaky_tests (map (rows_of ''tests'') (rev (take flaky_window finished))) results;
           results' = flaky_marked flaky results;
           regressions = regressions_of (case previous of None \<Rightarrow> [] | Some p \<Rightarrow> rows_of ''tests'' p) results'
             (case security of None \<Rightarrow> [] | Some (_, reopened) \<Rightarrow> reopened);
           t = totals_of (rs_doc s) results' flaky security previous
       in
     and_next (need (pe_crash env) (run_summary t results' regressions)) (\<lambda>narrative.
     act (write_report env project results' regressions t narrative))))))"

end
