(* ===== verification/Deployment.thy ===== *)
theory Deployment
  imports Pipeline_Plan
begin

text \<open>
  Verified deploys with automatic rollback, \<^verbatim>\<open>backend/pipeline/deploy.py\<close> and the checks of hook
  addresses in \<^verbatim>\<open>deploy_config.py\<close>. A deployment is a document of the collection \<open>deployments\<close>
  with one entry per step; \<open>_State\<close> is the state of a pipeline run over that collection.

  The environment gives the HTTP calls, the commit at the tip of the repository, the execution of one
  smoke test, the readings of the monotonic clock while waiting for health, and \<open>iso_seconds\<close>, which
  reads a time stamp. Waiting is bounded by fuel; None is a wait that has not ended yet.
\<close>

section \<open>Addresses of hooks\<close>

definition default_hook_hosts :: "string list" where
  "default_hook_hosts = [''api.render.com'', ''api.vercel.com'', ''api.netlify.com'']"

text \<open>\<open>parts.username or parts.password\<close>\<close>

definition has_credentials :: "string \<Rightarrow> bool" where
  "has_credentials netloc \<longleftrightarrow>
     CHR ''@'' \<in> set netloc \<and>
     (let userinfo = take (length netloc - length (after_last_at netloc) - 1) netloc; (user, password) = cut CHR '':'' userinfo
      in user \<noteq> [] \<or> password \<noteq> [])"

datatype hook_check = Hook_Ok string | Hook_Refused string | Hook_Malformed

definition check_hook_url :: "string list \<Rightarrow> string \<Rightarrow> hook_check" where
  "check_hook_url extra_hosts url0 =
     (let url = strip url0 in
      if url = [] then Hook_Ok []
      else case urlparse url of
        None \<Rightarrow> Hook_Malformed
      | Some p \<Rightarrow>
          let host = host_of (up_netloc p) in
          if up_scheme p \<noteq> ''https'' \<or> has_credentials (up_netloc p) then
            Hook_Refused ''Deploy hook must be a plain https:// URL.''
          else case port_of (up_netloc p) of
            None \<Rightarrow> Hook_Malformed
          | Some port \<Rightarrow>
              if port \<notin> {None, Some 443} then Hook_Refused ''Deploy hook must be a plain https:// URL.''
              else if host \<notin> set default_hook_hosts \<union> set extra_hosts then
                Hook_Refused (''Deploy hook host '' @ (if host = [] then ''?'' else host) @ '' is not allowed ('' @
                  join '', '' (sort (dedup (default_hook_hosts @ extra_hosts))) @
                  ''; more with DEPLOY_HOOK_HOSTS).'')
              else Hook_Ok url)"

definition provider_of :: "pyval \<Rightarrow> pyval" where
  "provider_of url =
     (let host = (case urlparse (or_empty (opt_of url)) of None \<Rightarrow> [] | Some p \<Rightarrow> host_of (up_netloc p))
      in if host = ''api.render.com'' then PStr ''render''
         else if host = ''api.vercel.com'' then PStr ''vercel''
         else if host = ''api.netlify.com'' then PStr ''netlify''
         else if host = [] then PNone else PStr host)"

section \<open>Environment\<close>

record probe =
  pr_status :: "int option"
  pr_ms :: int
  pr_hash :: "string option"
  pr_error :: string

definition pr_ok :: "probe \<Rightarrow> bool" where
  "pr_ok p \<longleftrightarrow> (case pr_status p of None \<Rightarrow> False | Some n \<Rightarrow> n < 400)"

datatype hook_reply = Hook_Answered int | Hook_Unreachable string

record deploy_env =
  de_crash :: string
  de_timeout :: int
  de_settle :: int
  de_healthy_checks :: nat
  de_stale :: int
  de_hook_hosts :: "string list"
  de_iso_seconds :: "string \<Rightarrow> rat option"
  de_blocked :: "string \<Rightarrow> string option"
  de_clock :: "string \<Rightarrow> nat \<Rightarrow> rat"
  de_probe :: "string \<Rightarrow> probe call"
  de_post :: "string \<Rightarrow> hook_reply call"
  de_remote_head :: "document \<Rightarrow> string option call"
  de_with_ref :: "string \<Rightarrow> string \<Rightarrow> string"
  de_run_test :: "int \<Rightarrow> document call"

definition deployments :: string where "deployments = ''deployments''"

definition deploy_steps :: "(string \<times> string) list" where
  "deploy_steps =
     [(''deploy'', ''Deploy''), (''health'', ''Health check''), (''smoke'', ''Smoke tests''), (''rollback'', ''Rollback'')]"

definition active_deploy_statuses :: "string list" where
  "active_deploy_statuses = [''queued'', ''deploying'', ''verifying'', ''rolling_back'']"

section \<open>Records\<close>

definition stamp_seconds :: "deploy_env \<Rightarrow> pyval \<Rightarrow> rat option" where
  "stamp_seconds env v = Option.bind (opt_of v) (de_iso_seconds env)"

text \<open>\<open>_end_if_stale\<close>; \<open>now\<close> is the time in seconds. \<open>heartbeat_at\<close> counts before \<open>started_at\<close>.\<close>

definition last_sign_of_life :: "deploy_env \<Rightarrow> document \<Rightarrow> rat option" where
  "last_sign_of_life env row =
     (case stamp_seconds env (dict_get row ''heartbeat_at'') of
        Some t \<Rightarrow> Some t
      | None \<Rightarrow> stamp_seconds env (dict_get row ''started_at''))"

definition end_if_stale :: "deploy_env \<Rightarrow> rat \<Rightarrow> document \<Rightarrow> 'a world_scheme \<Rightarrow> bool \<times> 'a world_scheme" where
  "end_if_stale env now row w =
     (case last_sign_of_life env row of
        None \<Rightarrow> (False, w)
      | Some t \<Rightarrow>
          if now - t < of_int (de_stale env) then (False, w)
          else let (at', w') = now_iso w
               in put_if deployments (row_id row) ''status'' (status_of row)
                    [(''status'', PStr ''error''), (''finished_at'', PStr at'),
                     (''error'', PStr ''Interrupted: the process running this deployment stopped. Check the site.'')] w')"

fun first_live :: "deploy_env \<Rightarrow> rat \<Rightarrow> document list \<Rightarrow> 'a world_scheme \<Rightarrow> document option \<times> 'a world_scheme" where
  "first_live env now [] w = (None, w)"
| "first_live env now (row # rows) w =
     (let (ended, w') = end_if_stale env now row w
      in if ended then first_live env now rows w' else (Some row, w'))"

fun active_among ::
  "deploy_env \<Rightarrow> rat \<Rightarrow> pyval \<Rightarrow> string list \<Rightarrow> 'a world_scheme \<Rightarrow> document option option \<times> 'a world_scheme" where
  "active_among env now project_id [] w = (Some None, w)"
| "active_among env now project_id (status # ss) w =
     (case doc_find (w_db w) deployments None False None [(''project_id'', project_id), (''status'', PStr status)] of
        None \<Rightarrow> (None, w)
      | Some rows \<Rightarrow>
          (case first_live env now rows w of
             (Some row, w') \<Rightarrow> (Some (Some row), w')
           | (None, w') \<Rightarrow> active_among env now project_id ss w'))"

text \<open>\<open>active_deployment\<close>; the outer None is a query that raises.\<close>

definition active_deployment ::
  "deploy_env \<Rightarrow> rat \<Rightarrow> pyval \<Rightarrow> 'a world_scheme \<Rightarrow> document option option \<times> 'a world_scheme" where
  "active_deployment env now project_id w = active_among env now project_id active_deploy_statuses w"

definition last_verified :: "doc_store \<Rightarrow> pyval \<Rightarrow> int option \<Rightarrow> document option option" where
  "last_verified db project_id below =
     map_option (\<lambda>rows. find (\<lambda>row. status_of row = PStr ''verified'' \<and>
         (case below of None \<Rightarrow> True | Some i \<Rightarrow> row_id row < i)) rows)
       (doc_find db deployments (Some ''id'') True (Some 25) [(''project_id'', project_id)])"

definition create_deployment ::
  "pyval \<Rightarrow> document \<Rightarrow> string \<Rightarrow> string \<Rightarrow> pyval \<Rightarrow> 'a world_scheme \<Rightarrow> document \<times> 'a world_scheme" where
  "create_deployment executor project actor trigger run_id w =
     (let (t, w') = now_iso w
      in put_new deployments
        [(''project_id'', dict_get project ''id''), (''project_name'', dict_get project ''name''),
         (''owner_uid'', dict_get project ''owner_uid''), (''actor'', PStr actor), (''trigger'', PStr trigger),
         (''run_id'', run_id), (''status'', PStr ''queued''), (''provider'', provider_of (dict_get project ''deploy_hook_url'')),
         (''executor'', executor), (''heartbeat_at'', PStr t), (''commit'', PNone), (''rollback_to'', PNone),
         (''error'', PNone), (''health'', PList []), (''steps'', entries_value (map pending_entry deploy_steps)),
         (''started_at'', PNone), (''finished_at'', PNone)] w')"

definition start_deployment ::
  "pyval \<Rightarrow> document \<Rightarrow> string \<Rightarrow> string \<Rightarrow> pyval \<Rightarrow> 'a world_scheme \<Rightarrow> document \<times> 'a world_scheme" where
  "start_deployment executor project actor trigger run_id w =
     (let (dep, w') = create_deployment executor project actor trigger run_id w
      in (dep, record_audit (PStr actor) ''deploy''
           (''Deployment #'' @ show_int (row_id dep) @ '' of '' @ test_name project @ '' started ('' @ trigger @ '')'')
           ''info'' (show_int (row_id dep)) (dict_get project ''owner_uid'') w'))"

text \<open>\<open>recover_interrupted\<close>: a worker's deployments are left alone unless stale.\<close>

definition recover_deployment ::
  "deploy_env \<Rightarrow> rat \<Rightarrow> pyval \<Rightarrow> document \<Rightarrow> nat \<times> 'a world_scheme \<Rightarrow> nat \<times> 'a world_scheme" where
  "recover_deployment env now executor row nw =
     (let (n, w) = nw in
      if pv_true (dict_get row ''executor'') \<and> dict_get row ''executor'' \<noteq> executor then
        let (ended, w') = end_if_stale env now row w in (if ended then n + 1 else n, w')
      else let (at', w') = now_iso w
           in (n + 1, put deployments (row_id row)
                [(''status'', PStr ''error''), (''finished_at'', PStr at'),
                 (''error'', PStr ''Interrupted: the server restarted during this deployment. Check the site.'')] w'))"

fun recover_deployments ::
  "deploy_env \<Rightarrow> rat \<Rightarrow> pyval \<Rightarrow> string list \<Rightarrow> nat \<times> 'a world_scheme \<Rightarrow> (nat \<times> 'a world_scheme) option" where
  "recover_deployments env now executor [] nw = Some nw"
| "recover_deployments env now executor (status # ss) nw =
     (case doc_find (w_db (snd nw)) deployments None False None [(''status'', PStr status)] of
        None \<Rightarrow> None
      | Some rows \<Rightarrow>
          recover_deployments env now executor ss (fold (recover_deployment env now executor) rows nw))"

section \<open>The state of a deployment\<close>

definition dsave :: "document \<Rightarrow> run_state \<Rightarrow> run_state" where
  "dsave changes0 s =
     (let (t, s') = now_iso s; changes = merge_fields changes0 [(''heartbeat_at'', PStr t)]
      in put deployments (rs_id s') changes (s'\<lparr>rs_doc := merge_fields (rs_doc s') changes\<rparr>))"

definition step_entries :: "run_state \<Rightarrow> document list" where
  "step_entries s = entries_of ''steps'' (rs_doc s)"

definition dstep :: "string \<Rightarrow> string \<Rightarrow> string option \<Rightarrow> run_state \<Rightarrow> run_state" where
  "dstep key status detail s =
     (let (es, s') = mark_entries key (status = ''running'') (status \<noteq> ''running'') status detail (step_entries s) s
      in dsave [(''steps'', entries_value es)] s')"

text \<open>\<open>finished_at=now_iso()\<close> is read before the change is saved.\<close>

definition dfinish :: "string \<Rightarrow> pyval \<Rightarrow> run_state \<Rightarrow> run_state" where
  "dfinish status error s =
     (let (t, s') = now_iso s
      in dsave ([(''status'', PStr status)] @ (if error = PNone then [] else [(''error'', error)]) @
                [(''finished_at'', PStr t)]) s')"

section \<open>Waiting for health\<close>

definition probe_value :: "string \<Rightarrow> probe \<Rightarrow> pyval" where
  "probe_value t p = PDict
     ([(''at'', PStr t), (''status'', case pr_status p of None \<Rightarrow> PNone | Some n \<Rightarrow> PInt n), (''ok'', PBool (pr_ok p)),
       (''ms'', PInt (pr_ms p)), (''hash'', opt_str (pr_hash p))] @
      (if pr_status p = None then [(''error'', PStr (py_take 200 (pr_error p)))] else []))"

definition answer_text :: "probe \<Rightarrow> string" where
  "answer_text p =
     (case pr_status p of None \<Rightarrow> py_take 200 (pr_error p) | Some n \<Rightarrow> if n = 0 then ''no answer'' else show_int n)"

definition last_samples :: "pyval list \<Rightarrow> pyval list" where
  "last_samples xs = drop (length xs - 60) xs"

text \<open>The variables of the loop.\<close>

record wait_vars =
  wv_changed :: bool
  wv_streak :: nat
  wv_samples :: "pyval list"
  wv_previous :: "string option"

text \<open>\<open>clock i\<close> is the i-th reading of \<open>time.monotonic()\<close> during this wait.\<close>

definition observe :: "string option \<Rightarrow> bool \<Rightarrow> string \<Rightarrow> probe \<Rightarrow> wait_vars \<Rightarrow> wait_vars" where
  "observe before_hash settled t p v =
     (let changed = wv_changed v \<or> (pr_ok p \<and> pr_hash p \<noteq> before_hash \<and> pr_hash p = wv_previous v);
          live = changed \<or> settled
      in \<lparr>wv_changed = changed, wv_streak = (if pr_ok p \<and> live then wv_streak v + 1 else 0),
          wv_samples = last_samples (wv_samples v @ [probe_value t p]),
          wv_previous = (if pr_ok p then pr_hash p else None)\<rparr>)"

definition wait_note :: "deploy_env \<Rightarrow> wait_vars \<Rightarrow> probe \<Rightarrow> string" where
  "wait_note env v p =
     (if wv_changed v then ''New version live'' else ''Waiting for the new version'') @ middle_dot @
     show_nat (wv_streak v) @ ''/'' @ show_nat (de_healthy_checks env) @ '' healthy checks'' @ middle_dot @
     ''last: '' @ answer_text p"

definition healthy_note :: "string option \<Rightarrow> wait_vars \<Rightarrow> probe \<Rightarrow> string" where
  "healthy_note before_hash v p =
     ''Healthy '' @ show_nat (wv_streak v) @ '' times in a row after '' @
     (if wv_changed v \<and> or_empty before_hash \<noteq> [] then ''the page changed'' else ''the settle time passed'') @
     '' ('' @ show_int (pr_ms p) @ '' ms)''"

definition last_answer :: "pyval list \<Rightarrow> string" where
  "last_answer samples =
     (case rev samples of
        PDict d # _ \<Rightarrow>
          if pv_true (dict_get d ''status'') then pv_str (dict_get d ''status'')
          else pv_str (dict_get_or d ''error'' (PStr ''none''))
      | _ \<Rightarrow> ''none'')"

definition unhealthy_note :: "deploy_env \<Rightarrow> wait_vars \<Rightarrow> string" where
  "unhealthy_note env v =
     ''Not healthy within '' @ show_int (de_timeout env) @ ''s (last answer: '' @ last_answer (wv_samples v) @ '')''"

fun wait_loop ::
  "deploy_env \<Rightarrow> string \<Rightarrow> string option \<Rightarrow> string \<Rightarrow> rat \<Rightarrow> rat \<Rightarrow> nat \<Rightarrow> nat \<Rightarrow> wait_vars \<Rightarrow> (bool \<times> string) step" where
  "wait_loop env url before_hash key deadline settle_until 0 i v s = (Unfinished, s)"
| "wait_loop env url before_hash key deadline settle_until (Suc fuel) i v s =
     (if deadline \<le> de_clock env key i then ret (False, unhealthy_note env v) s
      else and_next (ask (de_probe env url)) (\<lambda>p s1.
        let (t, s2) = now_iso s1; v' = observe before_hash (settle_until \<le> de_clock env key (i + 1)) t p v;
            s3 = dstep key ''running'' (Some (wait_note env v' p)) (dsave [(''health'', PList (wv_samples v'))] s2)
        in if de_healthy_checks env \<le> wv_streak v' then ret (True, healthy_note before_hash v' p) s3
           else wait_loop env url before_hash key deadline settle_until fuel (i + 2) v' s3) s)"

definition wait_healthy :: "deploy_env \<Rightarrow> nat \<Rightarrow> string \<Rightarrow> string option \<Rightarrow> string \<Rightarrow> (bool \<times> string) step" where
  "wait_healthy env fuel url before_hash key =
     and_next (look rs_doc) (\<lambda>doc.
     wait_loop env url before_hash key (de_clock env key 0 + of_int (de_timeout env))
       (de_clock env key 1 + of_int (de_settle env)) fuel 2
       \<lparr>wv_changed = before_hash = None, wv_streak = 0,
        wv_samples = (case dict_get doc ''health'' of PList vs \<Rightarrow> vs | _ \<Rightarrow> []), wv_previous = None\<rparr>)"

section \<open>Deploying\<close>

definition hook_host :: "string \<Rightarrow> string" where
  "hook_host url = (case urlparse url of None \<Rightarrow> [] | Some p \<Rightarrow> host_of (up_netloc p))"

text \<open>\<open>_call_hook\<close>: the address is checked again before it is called.\<close>

definition call_hook :: "deploy_env \<Rightarrow> string \<Rightarrow> (bool \<times> string) step" where
  "call_hook env url =
     (case check_hook_url (de_hook_hosts env) url of
        Hook_Refused message \<Rightarrow> raise_step message
      | Hook_Malformed \<Rightarrow> raise_step (de_crash env)
      | Hook_Ok _ \<Rightarrow>
          and_next (ask (de_post env url)) (\<lambda>reply.
            case reply of
              Hook_Unreachable why \<Rightarrow> ret (False, ''could not reach '' @ hook_host url @ '': '' @ why)
            | Hook_Answered status \<Rightarrow>
                if 400 \<le> status then ret (False, hook_host url @ '' answered HTTP '' @ show_int status)
                else ret (True, hook_host url @ '' accepted it (HTTP '' @ show_int status @ '')'')))"

definition is_smoke_case :: "document \<Rightarrow> bool" where
  "is_smoke_case tc \<longleftrightarrow>
     (dict_get tc ''category'' = PStr ''smoke'' \<or>
      prefix ''smoke'' (lower (pv_str (dict_get_or tc ''name'' (PStr []))))) \<and>
     \<not> pv_true (dict_get tc ''quarantined'')"

fun cases_of_apps :: "doc_store \<Rightarrow> document list \<Rightarrow> document list option" where
  "cases_of_apps db [] = Some []"
| "cases_of_apps db (app # apps) =
     (case (doc_find db test_cases None False None [(''application_id'', dict_get app ''id'')], cases_of_apps db apps) of
        (Some tcs, Some rest) \<Rightarrow> Some (filter is_smoke_case tcs @ rest)
      | _ \<Rightarrow> None)"

definition smoke_result :: "document \<Rightarrow> document \<Rightarrow> pyval \<Rightarrow> pyval \<Rightarrow> document" where
  "smoke_result tc execution status error =
     [(''test_case_id'', dict_get tc ''id''), (''name'', dict_get tc ''name''),
      (''execution_id'', dict_get execution ''id''), (''status'', status), (''error'', error)]"

text \<open>A smoke test that raises is a failed smoke test.\<close>

definition run_smoke_test :: "deploy_env \<Rightarrow> document \<Rightarrow> document \<Rightarrow> document step" where
  "run_smoke_test env tc execution s =
     (case ask (de_run_test env (row_id execution)) s of
        (Raised m, s') \<Rightarrow> (Value (smoke_result tc execution (PStr ''FAILED'') (PStr (''Execution error: '' @ m))), s')
      | (r, s') \<Rightarrow> and_next (\<lambda>s. (r, s)) (\<lambda>res. ret (smoke_result tc execution
            (dict_get_or res ''status'' (PStr ''FAILED'')) (dict_get res ''error_message''))) s')"

fun run_smoke_tests :: "deploy_env \<Rightarrow> pyval \<Rightarrow> nat \<Rightarrow> nat \<Rightarrow> document list \<Rightarrow> document list \<Rightarrow> document list step" where
  "run_smoke_tests env owner n i [] results = ret results"
| "run_smoke_tests env owner n i (tc # tcs) results =
     and_next (act (dstep ''smoke'' ''running''
       (Some (''Running '' @ show_nat i @ '' of '' @ show_nat n @ '': '' @ test_name tc)))) (\<lambda>_.
     and_next (create_execution (dict_get tc ''id'') owner) (\<lambda>execution.
     and_next (run_smoke_test env tc execution) (\<lambda>result.
     run_smoke_tests env owner n (i + 1) tcs (results @ [result]))))"

definition first_line :: "string \<Rightarrow> string" where
  "first_line s = takeWhile (\<lambda>c. c \<noteq> CHR 0x0A \<and> c \<noteq> CHR 0x0D) s"

definition failure_text :: "document \<Rightarrow> string" where
  "failure_text r =
     test_name r @ '' ('' @
     (if pv_true (dict_get r ''error'') then py_take 120 (first_line (pv_str (dict_get r ''error''))) else ''failed'') @ '')''"

definition smoke_note :: "document list \<Rightarrow> string" where
  "smoke_note results =
     (let failed = filter test_failed results
      in show_nat (length results - length failed) @ '' of '' @ show_nat (length results) @ '' passed'' @
         (if failed \<noteq> [] then '': '' @ join ''; '' (map failure_text (take 3 failed)) else []))"

text \<open>The smoke tests of the project's applications; None when the query raises.\<close>

definition smoke_cases :: "doc_store \<Rightarrow> document \<Rightarrow> document list option" where
  "smoke_cases db project =
     Option.bind (doc_find db applications None False None [(''project_id'', dict_get project ''id'')])
       (cases_of_apps db)"

text \<open>\<open>_smoke\<close>: whether the smoke tests passed (None: there are none), the note, the results.\<close>

definition smoke :: "deploy_env \<Rightarrow> document \<Rightarrow> (bool option \<times> string \<times> document list) step" where
  "smoke env project =
     and_next (look (\<lambda>s. smoke_cases (w_db s) project)) (\<lambda>found.
     and_next (need (de_crash env) found) (\<lambda>tcs.
       if tcs = [] then ret (None, ''No smoke tests yet: run the pipeline once to generate them'', [])
       else and_next (run_smoke_tests env (dict_get project ''owner_uid'') (min (length tcs) 10) 1 (take 10 tcs) [])
              (\<lambda>results. ret (Some (filter test_failed results = []), smoke_note results, results))))"

text \<open>Where a rollback goes: the address to call and how it is described.\<close>

definition rollback_target :: "deploy_env \<Rightarrow> document \<Rightarrow> document \<Rightarrow> (string \<times> string) option" where
  "rollback_target env project doc =
     (if pv_true (dict_get project ''rollback_hook_url'') then
        Some (pv_str (dict_get project ''rollback_hook_url''), ''rollback hook'')
      else if provider_of (dict_get project ''deploy_hook_url'') = PStr ''render'' \<and> pv_true (dict_get doc ''rollback_to'') then
        Some (de_with_ref env (pv_str (dict_get project ''deploy_hook_url'')) (pv_str (dict_get doc ''rollback_to'')),
              ''redeploy of last verified commit '' @ py_take 7 (pv_str (dict_get doc ''rollback_to'')))
      else None)"

definition rollback :: "deploy_env \<Rightarrow> nat \<Rightarrow> document \<Rightarrow> string \<Rightarrow> string \<Rightarrow> unit step" where
  "rollback env fuel project health_url problem =
     and_next (look rs_doc) (\<lambda>doc.
       case rollback_target env project doc of
         None \<Rightarrow>
           act (dfinish ''failed'' (PStr problem) \<circ> dstep ''rollback'' ''skipped'' (Some
             (''No rollback configured: add a rollback hook, or use a Render deploy hook '' @
              ''so the last verified commit can be redeployed'')))
       | Some (url, how) \<Rightarrow>
           and_next (act (dstep ''rollback'' ''running'' (Some (''Calling '' @ how)) \<circ>
                          dsave [(''status'', PStr ''rolling_back'')])) (\<lambda>_.
           and_next (ask (de_probe env health_url)) (\<lambda>bad.
           and_next (act (snd \<circ> now_iso)) (\<lambda>_.
           and_next (call_hook env url) (\<lambda>(ok, detail).
             if \<not> ok then
               act (dfinish ''rollback_failed'' (PStr (problem @ ''. Rollback failed: '' @ detail)) \<circ>
                    dstep ''rollback'' ''failed'' (Some (how @ '': '' @ detail)))
             else
               and_next (wait_healthy env fuel health_url (pr_hash bad) ''rollback'') (\<lambda>(healthy, note).
               act (dfinish (if healthy then ''rolled_back'' else ''rollback_failed'') (PStr problem) \<circ>
                    dstep ''rollback'' (if healthy then ''done'' else ''failed'') (Some (how @ middle_dot @ note)))))))))"

definition refuse_deploy :: "string \<Rightarrow> unit step" where
  "refuse_deploy message = act (dfinish ''error'' (PStr message))"

definition hook_failed :: "string \<Rightarrow> run_state \<Rightarrow> run_state" where
  "hook_failed detail =
     dfinish ''failed'' (PStr (''Deploy hook failed: '' @ detail)) \<circ>
     dstep ''rollback'' ''skipped'' (Some ''Nothing was deployed'') \<circ>
     dstep ''smoke'' ''skipped'' (Some ''Not run: the deploy was not accepted'') \<circ>
     dstep ''health'' ''skipped'' (Some ''Not run: the deploy was not accepted'')"

text \<open>The smoke tests after a healthy answer: the problem they show, if any.\<close>

definition smoke_stage :: "deploy_env \<Rightarrow> document \<Rightarrow> string option step" where
  "smoke_stage env project =
     and_next (act (dstep ''smoke'' ''running'' None)) (\<lambda>_.
     and_next (smoke env project) (\<lambda>(passed, detail, results).
     and_next (act (dstep ''smoke'' (case passed of None \<Rightarrow> ''skipped'' | Some b \<Rightarrow> if b then ''done'' else ''failed'')
                      (Some detail) \<circ> dsave [(''smoke'', entries_value results)])) (\<lambda>_.
     ret (if passed = Some False then Some (''Smoke tests failed: '' @ detail) else None))))"

definition verify_deploy :: "deploy_env \<Rightarrow> nat \<Rightarrow> document \<Rightarrow> string \<Rightarrow> string option \<Rightarrow> unit step" where
  "verify_deploy env fuel project health_url before_hash =
     and_next (act (dstep ''health'' ''running'' None \<circ> dsave [(''status'', PStr ''verifying'')])) (\<lambda>_.
     and_next (wait_healthy env fuel health_url before_hash ''health'') (\<lambda>(healthy, detail).
     and_next (act (dstep ''health'' (if healthy then ''done'' else ''failed'') (Some detail))) (\<lambda>_.
     and_next (if healthy then smoke_stage env project
               else and_next (act (dstep ''smoke'' ''skipped'' (Some ''Not run: the site never became healthy'')))
                      (\<lambda>_. ret (Some detail))) (\<lambda>problem.
       case problem of
         None \<Rightarrow> act (dfinish ''verified'' PNone \<circ> dstep ''rollback'' ''skipped'' (Some ''Not needed''))
       | Some p \<Rightarrow> rollback env fuel project health_url p))))"

definition deploy_project :: "deploy_env \<Rightarrow> nat \<Rightarrow> document \<Rightarrow> string \<Rightarrow> string \<Rightarrow> unit step" where
  "deploy_project env fuel project hook health_url =
     and_next (act (\<lambda>s. let (t, s') = now_iso s
                     in dsave [(''status'', PStr ''deploying''), (''started_at'', PStr t)] s')) (\<lambda>_.
     and_next (ask (de_probe env health_url)) (\<lambda>probe0.
     and_next (act (snd \<circ> now_iso)) (\<lambda>_.
     and_next (ask (de_remote_head env project)) (\<lambda>commit.
     and_next (look (\<lambda>s. last_verified (w_db s) (dict_get project ''id'') (Some (rs_id s)))) (\<lambda>found.
     and_next (need (de_crash env) found) (\<lambda>previous.
     and_next (act (dstep ''deploy'' ''running'' None \<circ>
        dsave [(''commit'', opt_str commit),
               (''rollback_to'', case previous of None \<Rightarrow> PNone | Some d \<Rightarrow> dict_get d ''commit'')])) (\<lambda>_.
     and_next (call_hook env hook) (\<lambda>(ok, detail).
     and_next (act (dstep ''deploy'' (if ok then ''done'' else ''failed'')
        (Some (detail @ (if or_empty commit = [] then [] else middle_dot @ ''commit '' @ py_take 7 (or_empty commit)))))) (\<lambda>_.
       if \<not> ok then act (hook_failed detail)
       else verify_deploy env fuel project health_url (pr_hash probe0))))))))))"

definition deploy_checked :: "deploy_env \<Rightarrow> nat \<Rightarrow> document \<Rightarrow> unit step" where
  "deploy_checked env fuel project =
     (let hook = dict_get project ''deploy_hook_url'';
          health = pv_or (dict_get project ''health_url'') (dict_get project ''app_url'') in
      if \<not> pv_true hook \<or> \<not> pv_true health then
        refuse_deploy (''Set the project'' @ [CHR 0x27] @ ''s deploy hook and app URL (Autopilot '' @ arrow @
          '' Settings) to deploy.'')
      else case check_hook_url (de_hook_hosts env) (pv_str hook) of
        Hook_Refused message \<Rightarrow> refuse_deploy message
      | Hook_Malformed \<Rightarrow> raise_step (de_crash env)
      | Hook_Ok _ \<Rightarrow>
          (case de_blocked env (pv_str health) of
             Some message \<Rightarrow> refuse_deploy message
           | None \<Rightarrow> deploy_project env fuel project (pv_str hook) (pv_str health)))"

text \<open>What \<open>execute_deployment\<close> does once the deployment has been tried.\<close>

definition interrupted_deploy :: string where
  "interrupted_deploy = ''Interrupted: the process running this deployment stopped. Check the site.''"

definition deploy_guarded :: "deploy_env \<Rightarrow> nat \<Rightarrow> document option \<Rightarrow> unit step" where
  "deploy_guarded env fuel project s =
     (case project of
        None \<Rightarrow> act (dfinish ''error'' (PStr ''The project was deleted.'')) s
      | Some p \<Rightarrow>
          (case deploy_checked env fuel p s of
             (Raised m, s') \<Rightarrow> act (dfinish ''error'' (PStr (''Internal error: '' @ m))) s'
           | (Store_Down m, s') \<Rightarrow> act (dfinish ''error'' (PStr (''Internal error: '' @ m))) s'
           | (Stopped, s') \<Rightarrow> (Stopped, dfinish ''error'' (PStr interrupted_deploy) s')
           | (r, s') \<Rightarrow> (r, s')))"

definition deploy_audit :: "document \<Rightarrow> document \<Rightarrow> run_state \<Rightarrow> run_state" where
  "deploy_audit project finished s =
     (let st = pv_str (status_of finished) in
      put projects (row_id project)
        [(''last_deploy_id'', PInt (rs_id s)), (''last_deploy_status'', status_of finished)]
        (record_audit (dict_get finished ''actor'') ''deploy''
          (''Deployment #'' @ show_int (rs_id s) @ '' of '' @ test_name project @ '': '' @
           map (\<lambda>c. if c = CHR ''_'' then CHR '' '' else c) st @
           (if pv_true (dict_get finished ''error'') then '' ('' @ pv_str (dict_get finished ''error'') @ '')'' else []))
          (if st = ''verified'' then ''success'' else if st = ''rolled_back'' then ''warn'' else ''error'')
          (show_int (rs_id s)) (dict_get project ''owner_uid'') s))"

text \<open>
  \<open>execute_deployment\<close>: the finished document, or Stopped when the process is stopping (after the
  deployment was closed).
\<close>

definition execute_deployment :: "deploy_env \<Rightarrow> nat \<Rightarrow> int \<Rightarrow> world \<Rightarrow> document option outcome \<times> world" where
  "execute_deployment env fuel i w =
     (case fetch w deployments i of
        None \<Rightarrow> (Value None, w)
      | Some doc \<Rightarrow>
          let project = fetch w projects (as_int (dict_get doc ''project_id''));
              (r, s) = deploy_guarded env fuel project (run_state_of w doc)
          in case r of
               Value _ \<Rightarrow>
                 let finished = fetch s deployments i
                 in (Value finished,
                     world_of (case (project, finished) of
                       (Some p, Some d) \<Rightarrow> deploy_audit p d s
                     | _ \<Rightarrow> s))
             | Stopped \<Rightarrow> (Stopped, world_of s)
             | Raised m \<Rightarrow> (Raised m, world_of s)
             | Store_Down m \<Rightarrow> (Store_Down m, world_of s)
             | Unfinished \<Rightarrow> (Unfinished, world_of s))"

end
