(* ===== verification/Pipeline_Run.thy ===== *)
theory Pipeline_Run
  imports Pipeline_Plan Pipeline_Report Deployment
begin

text \<open>
  A whole pipeline run, \<open>_execute\<close> and \<open>execute_run\<close> of \<^verbatim>\<open>backend/pipeline/runner.py\<close>: every
  stage in order, what an exception does to the run, and what follows it (the deploy of a green run and
  the run of a push that arrived meanwhile); the scheduler of \<^verbatim>\<open>backend/pipeline/scheduler.py\<close> and
  the queue of \<^verbatim>\<open>backend/worker.py\<close>.
\<close>

section \<open>The stages in order\<close>

definition finish_error :: "string \<Rightarrow> run_state \<Rightarrow> run_state" where
  "finish_error error s =
     (let (t, s') = now_iso s
      in save [(''status'', PStr ''error''), (''error'', PStr error), (''finished_at'', PStr t)] s')"

definition no_app_url :: "run_state \<Rightarrow> run_state" where
  "no_app_url s =
     finish_error (''Set the project'' @ [CHR 0x27] @ ''s app URL to run the pipeline.'')
       (skip_rest ''Not run: the project has no app URL'' s)"

definition failure_reason :: "page_analysis \<Rightarrow> string" where
  "failure_reason a =
     (if pa_status_code a \<noteq> 0 then ''HTTP '' @ show_int (pa_status_code a)
      else or_name (pa_error a) ''unreachable'')"

definition not_loaded :: "document \<Rightarrow> string \<Rightarrow> page_analysis \<Rightarrow> run_state \<Rightarrow> run_state" where
  "not_loaded project app_url a s =
     (let reason = failure_reason a;
          s1 = stage ''analyze'' ''failed'' (Some (app_url @ '' did not load ('' @ reason @ '')'')) s;
          s2 = skip_rest ''Not run: the target did not load'' s1;
          s3 = finish_error (''Could not load '' @ app_url @ '' ('' @ reason @
                 ''). No tests were planned from an error page.'') s2
      in record_audit (dict_get (rs_doc s3) ''actor'') ''pipeline''
           (''Pipeline #'' @ show_int (rs_id s3) @ '' for '' @ test_name project @ '': '' @ app_url @ '' did not load ('' @
            reason @ '')'')
           ''error'' (show_int (rs_id s3)) (dict_get project ''owner_uid'') (finish_project project s3))"

definition analyze_note :: "page_analysis \<Rightarrow> string" where
  "analyze_note a =
     ''HTTP '' @ show_int (pa_status_code a) @ '' in '' @ show_int (pa_latency_ms a) @ '' ms'' @ middle_dot @
     show_int (pa_inputs_count a) @ '' inputs, '' @ show_int (pa_buttons_count a) @ '' buttons, '' @
     show_int (pa_links_count a) @ '' links''"

definition is_interaction_case :: "document \<Rightarrow> bool" where
  "is_interaction_case tc \<longleftrightarrow> suffix ''-interaction'' (pv_str (dict_get_or tc ''external_id'' (PStr [])))"

definition goal_untested :: "document \<Rightarrow> document list \<Rightarrow> bool" where
  "goal_untested project tcs \<longleftrightarrow>
     strip (or_empty (opt_of (dict_get project ''prompt''))) \<noteq> [] \<and> \<not> list_ex is_interaction_case tcs"

definition untested_parts :: "document \<Rightarrow> page_analysis \<Rightarrow> document list \<Rightarrow> string list" where
  "untested_parts project a tcs = (if goal_untested project tcs then [] else pa_untested a)"

definition goal_note :: "document \<Rightarrow> page_analysis \<Rightarrow> document list \<Rightarrow> string" where
  "goal_note project a tcs =
     (if goal_untested project tcs then
        middle_dot @ ''Your goal was not tested: no form fields or buttons were found on the page'' @
        (if pa_rendered_in_browser a then [] else '' (even before scripts ran)'')
      else []) @
     (let parts = untested_parts project a tcs
      in if parts \<noteq> [] then
           middle_dot @ ''Not tested from your goal: '' @ join ''; '' (map (\<lambda>p. curly (py_take 80 p)) parts)
         else [])"

definition plan_stage ::
  "pipeline_env \<Rightarrow> document \<Rightarrow> page_analysis \<Rightarrow> pyval \<Rightarrow> document list step" where
  "plan_stage env project a blueprint =
     and_next (act (stage ''plan'' ''running'' None)) (\<lambda>_.
     and_next (plan_run env project a blueprint) (\<lambda>(tcs, note).
     and_next (act (save [(''goal_untested'', PBool (goal_untested project tcs)),
                          (''goal_untested_parts'', str_list (untested_parts project a tcs))])) (\<lambda>_.
     and_next (act (stage ''plan'' ''done'' (Some (note @ goal_note project a tcs)))) (\<lambda>_.
     ret tcs))))"

text \<open>The tests, between the two checks of the project's database.\<close>

definition test_stage :: "pipeline_env \<Rightarrow> document \<Rightarrow> document list \<Rightarrow> document list step" where
  "test_stage env project tcs =
     and_next (ask (pe_start_check env project)) (\<lambda>check.
     and_next (stage_execute env tcs (dict_get project ''owner_uid'') (pv_true (dict_get project ''sign_in_first''))) (\<lambda>results.
     and_next (ask (pe_finish_check env check
        (case pe_goal_text env (dict_get project ''prompt'') of None \<Rightarrow> [] | Some t \<Rightarrow> if t = [] then [] else [t]))) (\<lambda>database.
     and_next (act (save [(''database'', database)])) (\<lambda>_.
     ret results))))"

definition stages_after_load :: "pipeline_env \<Rightarrow> document \<Rightarrow> string \<Rightarrow> page_analysis \<Rightarrow> pyval \<Rightarrow> unit step" where
  "stages_after_load env project app_url a blueprint =
     and_next (act (stage ''analyze'' ''done'' (Some (analyze_note a)))) (\<lambda>_.
     and_next (plan_stage env project a blueprint) (\<lambda>tcs.
     and_next (test_stage env project tcs) (\<lambda>results.
     and_next (stage_heal results) (\<lambda>_.
     and_next (stage_security env (PStr app_url) (dict_get project ''owner_uid'')
                 (pv_true (dict_get project ''active_scan''))) (\<lambda>security.
     report_run env project results security)))))"

definition execute_stages :: "pipeline_env \<Rightarrow> document \<Rightarrow> unit step" where
  "execute_stages env project =
     (if \<not> pv_true (dict_get project ''app_url'') then act no_app_url
      else let app_url = pv_str (dict_get project ''app_url'') in
        and_next (stage_codebase env project) (\<lambda>blueprint.
        and_next (act (stage ''analyze'' ''running'' None)) (\<lambda>_.
        and_next (ask (pe_analyze env app_url (opt_of (dict_get project ''prompt'')))) (\<lambda>a.
          if pa_success a then stages_after_load env project app_url a blueprint
          else act (not_loaded project app_url a)))))"

section \<open>After the run\<close>

text \<open>What the notification and the commit status do is the environment's; the rest is here.\<close>

record run_env = pipeline_env +
  re_lock :: "unit call"
  re_notify :: "document \<Rightarrow> document \<Rightarrow> unit call"
  re_commit_status :: "document \<Rightarrow> document \<Rightarrow> unit call"
  re_executor :: pyval
  re_here :: bool
  re_deploy :: deploy_env
  re_now :: "world \<Rightarrow> rat"

definition wants_deploy :: "document \<Rightarrow> document \<Rightarrow> bool" where
  "wants_deploy project run \<longleftrightarrow>
     pv_true (dict_get project ''deploy_on_pass'') \<and> pv_true (dict_get project ''deploy_hook_url'') \<and>
     status_of run = PStr ''passed'' \<and> \<not> pv_true (dict_get run ''regressions'')"

definition or_value :: "pyval \<Rightarrow> string \<Rightarrow> string" where
  "or_value v dflt = (if pv_true v then pv_str v else dflt)"

text \<open>\<open>_deploy_if_green\<close>; None when a query raises.\<close>

definition deploy_if_green :: "'b run_env_scheme \<Rightarrow> document \<Rightarrow> document \<Rightarrow> world \<Rightarrow> world option" where
  "deploy_if_green env project run w =
     (if \<not> wants_deploy project run then Some w
      else case active_deployment (re_deploy env) (re_now env w) (dict_get project ''id'') w of
        (None, w') \<Rightarrow> None
      | (Some (Some _), w') \<Rightarrow> Some w'
      | (Some None, w') \<Rightarrow>
          Some (snd (start_deployment (re_executor env) project (or_value (dict_get run ''actor'') ''pipeline'') ''pipeline''
                  (dict_get run ''id'') w')))"

text \<open>\<open>_start_pending_push\<close>; the push is a dictionary.\<close>

definition start_pending_push :: "bool \<Rightarrow> document \<Rightarrow> world \<Rightarrow> string + world" where
  "start_pending_push here project w =
     (let push = dict_get project ''pending_push''; p = dict_of push in
      if \<not> pv_true push \<or> \<not> pv_true (dict_get project ''app_url'') then Inr w
      else case put_if projects (row_id project) ''pending_push'' push [(''pending_push'', PNone)] w of
        (False, w') \<Rightarrow> Inr w'
      | (True, w') \<Rightarrow>
          (case start_run here project ''webhook'' (or_value (dict_get p ''actor'') ''github'') (dict_get p ''detail'') True
                  (dict_get p ''commit_sha'') w' of
             Inl e \<Rightarrow> Inl e
           | Inr (_, w'') \<Rightarrow> Inr w''))"

text \<open>
  The steps after the stages. A run whose document is gone raises (\<open>run.get\<close> of None); only an
  unavailable database is passed over.
\<close>

definition after_run :: "'b run_env_scheme \<Rightarrow> document \<Rightarrow> document option \<Rightarrow> unit step" where
  "after_run env project finished s =
     (let current = (case fetch s projects (row_id project) of Some p \<Rightarrow> p | None \<Rightarrow> project) in
      case finished of
        None \<Rightarrow> raise_step (pe_crash env) s
      | Some run \<Rightarrow>
          (case and_next (ask (re_notify env current run)) (\<lambda>_.
                and_next (ask (re_commit_status env current run)) (\<lambda>_.
                and_next (ask (\<lambda>w. case deploy_if_green env current run w of
                    None \<Rightarrow> (Raised (pe_crash env), w) | Some w' \<Rightarrow> (Value (), w'))) (\<lambda>_.
                ask (\<lambda>w. case start_pending_push (re_here env) current w of
                    Inl e \<Rightarrow> (Raised e, w) | Inr w' \<Rightarrow> (Value (), w'))))) s of
             (Store_Down m, s') \<Rightarrow> (Value (), s')
           | result \<Rightarrow> result))"

section \<open>Executing a run\<close>

text \<open>The stages with their exceptions turned into the end of the run.\<close>

definition run_guarded :: "'b pipeline_env_scheme \<Rightarrow> document \<Rightarrow> unit step" where
  "run_guarded env project s =
     (case execute_stages (pipeline_env.truncate env) project s of
        (Store_Down m, s') \<Rightarrow> (Value (), end_run (''Database unavailable: '' @ m) s')
      | (Raised m, s') \<Rightarrow> (Value (), end_run (''Internal error: '' @ m) s')
      | result \<Rightarrow> result)"

text \<open>What happens once the lock is held.\<close>

definition run_locked :: "'b run_env_scheme \<Rightarrow> int \<Rightarrow> document \<Rightarrow> run_state \<Rightarrow> document option outcome \<times> run_state" where
  "run_locked env i run s =
     (case fetch s projects (as_int (dict_get run ''project_id'')) of
        None \<Rightarrow>
          (let s' = finish_error ''The project was deleted.'' s in (Value (fetch s' pipeline_runs i), s'))
      | Some project \<Rightarrow>
          and_next (act (\<lambda>s. let (t, s') = now_iso s
                      in save [(''status'', PStr ''running''), (''started_at'', PStr t)] s')) (\<lambda>_.
          and_next (run_guarded env project) (\<lambda>_ s.
            let finished = fetch s pipeline_runs i
            in and_next (after_run env project finished) (\<lambda>_. ret finished) s)) s)"

definition execute_run :: "'b run_env_scheme \<Rightarrow> int \<Rightarrow> world \<Rightarrow> document option outcome \<times> world" where
  "execute_run env i w =
     (case fetch w pipeline_runs i of
        None \<Rightarrow> (Value None, w)
      | Some run \<Rightarrow>
          if status_of run = PStr ''cancelled'' then (Value (Some run), w)
          else apsnd world_of (and_next (ask (re_lock env)) (\<lambda>_. run_locked env i run) (run_state_of w run)))"

section \<open>The scheduler\<close>

text \<open>
  \<open>tick\<close> for the projects found due: the slot is claimed by moving \<open>next_run_at\<close> from the value that
  was read, so that one scheduler wins; \<open>next_run\<close> is \<open>next_run_after\<close> at the time of the tick.
\<close>

definition due_projects :: "(string \<Rightarrow> rat option) \<Rightarrow> rat \<Rightarrow> document list \<Rightarrow> document list" where
  "due_projects seconds now rows =
     filter (\<lambda>p. pv_true (dict_get p ''schedule_minutes'') \<and>
       (case Option.bind (opt_of (dict_get p ''next_run_at'')) seconds of None \<Rightarrow> True | Some t \<Rightarrow> t \<le> now)) rows"

definition tick_project ::
  "bool \<Rightarrow> (pyval \<Rightarrow> pyval) \<Rightarrow> document \<Rightarrow> world \<Rightarrow> (int option \<times> world) option" where
  "tick_project here next_run p w =
     (case put_if projects (row_id p) ''next_run_at'' (dict_get p ''next_run_at'')
             [(''next_run_at'', next_run (dict_get p ''schedule_minutes''))] w of
        (False, w') \<Rightarrow> Some (None, w')
      | (True, w') \<Rightarrow>
          if \<not> pv_true (dict_get p ''app_url'') then Some (None, w')
          else if active_run w' (row_id p) \<noteq> None then Some (None, w')
          else (case start_run here p ''schedule'' ''scheduler''
                  (PStr (''every '' @ pv_str (dict_get p ''schedule_minutes'') @ '' min'')) False PNone w' of
                  Inl _ \<Rightarrow> None
                | Inr (run, w'') \<Rightarrow> Some (Some (row_id run), w'')))"

fun tick_projects ::
  "bool \<Rightarrow> (pyval \<Rightarrow> pyval) \<Rightarrow> document list \<Rightarrow> int list \<times> world \<Rightarrow> (int list \<times> world) option" where
  "tick_projects here next_run [] acc = Some acc"
| "tick_projects here next_run (p # ps) (started, w) =
     Option.bind (tick_project here next_run p w) (\<lambda>(i, w').
       tick_projects here next_run ps (started @ (case i of None \<Rightarrow> [] | Some n \<Rightarrow> [n]), w'))"

definition tick ::
  "bool \<Rightarrow> (pyval \<Rightarrow> pyval) \<Rightarrow> (string \<Rightarrow> rat option) \<Rightarrow> string \<Rightarrow> rat \<Rightarrow> world \<Rightarrow> (int list \<times> world) option" where
  "tick here next_run seconds now_text now w =
     Option.bind (doc_find_at_most (w_db w) projects ''next_run_at'' (PStr now_text)) (\<lambda>rows.
       tick_projects here next_run (due_projects seconds now rows) ([], w))"

section \<open>The worker's queue\<close>

fun claim_first :: "string \<Rightarrow> document list \<Rightarrow> world \<Rightarrow> document option \<times> world" where
  "claim_first me [] w = (None, w)"
| "claim_first me (row # rows) w =
     (let (t, w1) = now_iso w;
          (ok, w2) = put_if pipeline_runs (row_id row) ''status'' (PStr ''queued'')
             [(''status'', PStr ''running''), (''worker'', PStr me), (''started_at'', PStr t), (''heartbeat_at'', PStr t)] w1
      in if ok then (fetch w2 pipeline_runs (row_id row), w2) else claim_first me rows w2)"

text \<open>\<open>claim_next\<close>: the oldest queued run, now running for this worker; None when the query raises.\<close>

definition claim_next :: "string \<Rightarrow> world \<Rightarrow> (document option \<times> world) option" where
  "claim_next me w =
     map_option (\<lambda>rows. claim_first me (sort_key row_id rows) w)
       (doc_find (w_db w) pipeline_runs None False None [(''status'', PStr ''queued'')])"

definition reap_one ::
  "(pyval \<Rightarrow> rat option) \<Rightarrow> rat \<Rightarrow> rat \<Rightarrow> document \<Rightarrow> int list \<times> world \<Rightarrow> int list \<times> world" where
  "reap_one seconds stale now row reaped_w =
     (let (reaped, w) = reaped_w;
          last = (case seconds (dict_get row ''heartbeat_at'') of
                    Some t \<Rightarrow> Some t | None \<Rightarrow> seconds (dict_get row ''started_at''));
          error = ''Interrupted: the worker running it stopped before it finished.''
      in if (case last of None \<Rightarrow> False | Some t \<Rightarrow> now - t < stale) then (reaped, w)
         else let (t, w1) = now_iso w;
                  (ok, w2) = put_if pipeline_runs (row_id row) ''heartbeat_at'' (dict_get row ''heartbeat_at'')
                     [(''status'', PStr ''error''), (''finished_at'', PStr t), (''error'', PStr error)] w1
              in if ok then (reaped @ [row_id row], end_interrupted (set_field ''status'' (PStr ''error'') row) error w2)
                 else (reaped, w2))"

definition reap_stale ::
  "(pyval \<Rightarrow> rat option) \<Rightarrow> rat \<Rightarrow> rat \<Rightarrow> world \<Rightarrow> (int list \<times> world) option" where
  "reap_stale seconds stale now w =
     map_option (\<lambda>rows. fold (reap_one seconds stale now) rows ([], w))
       (doc_find (w_db w) pipeline_runs None False None [(''status'', PStr ''running'')])"

definition next_poll :: "rat \<Rightarrow> rat \<Rightarrow> rat \<Rightarrow> rat" where
  "next_poll poll_seconds idle_poll idle_seconds =
     min (max (idle_seconds * 2) poll_seconds) (max idle_poll poll_seconds)"

end
