(* ===== verification/Pipeline_Samples.thy ===== *)
theory Pipeline_Samples
  imports Pipeline_Run
begin

text \<open>
  A small world for the concrete cases of the properties: one project with one page, calls that answer
  at once and leave the world as it is, a hook that accepts and a site that answers.
\<close>

definition still :: "'a \<Rightarrow> 'a call" where
  "still a w = (Value a, w)"

definition plain_json :: json_text where
  "plain_json = \<lparr>jt_dumps = (\<lambda>_. ''{}''), jt_loads = (\<lambda>_. Some (PDict []))\<rparr>"

definition sample_page :: page_analysis where
  "sample_page = \<lparr>pa_success = True, pa_url = ''https://shop.test/'', pa_final_url = ''https://shop.test/'',
     pa_status_code = 200, pa_latency_ms = 80, pa_error = None, pa_page_title = ''Shop'', pa_meta_description = [],
     pa_rendered_in_browser = True, pa_inputs_count = 0, pa_buttons_count = 1, pa_links_count = 3, pa_inputs = [],
     pa_buttons = [\<lparr>ct_selector = Some ''#buy'', ct_id = Some ''buy'', ct_name = None, ct_type = None,
       ct_placeholder = None, ct_text = Some ''Buy''\<rparr>],
     pa_headings = [''Welcome''], pa_links = [''/about'', ''/about/'', ''/logout'', ''https://other.test/''],
     pa_steps = [], pa_untested = []\<rparr>"

definition sample_pipeline_env :: pipeline_env where
  "sample_pipeline_env = \<lparr>pe_json = plain_json, pe_crash = ''error'',
     pe_ingest = (\<lambda>_ _. still (Source_Failure ''no repository'')), pe_save_blueprint = (\<lambda>_ _. still ()),
     pe_analyze = (\<lambda>_ _. still sample_page), pe_ai_plan = (\<lambda>_. still None), pe_reachable = (\<lambda>_. still (\<lambda>_. Some 200)),
     pe_pages = (\<lambda>_. still (\<lambda>_. None)), pe_explore = (\<lambda>_ _. still (Inl (''Error'', ''off''))), pe_explorer_on = False,
     pe_link_pages = 5, pe_route_pages = 5, pe_deep_pages = 0,
     pe_run_test = (\<lambda>_ _ _ w. ((Value [(''status'', PStr ''PASSED'')], []), w)), pe_refusal = (\<lambda>_. None),
     pe_scan = (\<lambda>_ _ _. still (Out_Of_Scope ''not in scope'')), pe_start_check = (\<lambda>_. still PNone),
     pe_finish_check = (\<lambda>_ _. still PNone), pe_database_line = (\<lambda>_. None), pe_goal_text = (\<lambda>_. None)\<rparr>"

definition sample_probe :: probe where
  "sample_probe = \<lparr>pr_status = Some 200, pr_ms = 50, pr_hash = Some ''a1'', pr_error = []\<rparr>"

definition sample_deploy_env :: deploy_env where
  "sample_deploy_env = \<lparr>de_crash = ''error'', de_timeout = 600, de_settle = 90, de_healthy_checks = 3, de_stale = 900,
     de_hook_hosts = [], de_iso_seconds = (\<lambda>_. None), de_blocked = (\<lambda>_. None), de_clock = (\<lambda>_ n. of_nat n * 10),
     de_probe = (\<lambda>_. still sample_probe), de_post = (\<lambda>_. still (Hook_Answered 200)),
     de_remote_head = (\<lambda>_. still None), de_with_ref = (\<lambda>u _. u), de_run_test = (\<lambda>_. still [(''status'', PStr ''PASSED'')])\<rparr>"

definition sample_run_env :: run_env where
  "sample_run_env = pipeline_env.extend sample_pipeline_env
     \<lparr>re_lock = still (), re_notify = (\<lambda>_ _. still ()), re_commit_status = (\<lambda>_ _. still ()), re_executor = PNone,
      re_here = True, re_deploy = sample_deploy_env, re_now = (\<lambda>_. 0)\<rparr>"

definition empty_world :: world where
  "empty_world = \<lparr>w_db = empty_docs, w_clock = (\<lambda>n. ''t'' @ show_nat n), w_tasks = []\<rparr>"

definition shop :: document where
  "shop = [(''name'', PStr ''Shop''), (''app_url'', PStr ''https://shop.test/''), (''owner_uid'', PStr ''u1''),
     (''deploy_hook_url'', PStr ''https://api.render.com/deploy/x'')]"

definition shop_world :: world where
  "shop_world = snd (put_new projects shop empty_world)"

definition queued_world :: world where
  "queued_world =
     (case start_run True (fst (put_new projects shop empty_world)) ''manual'' ''u1'' PNone False PNone shop_world of
        Inr (_, w) \<Rightarrow> w | Inl _ \<Rightarrow> shop_world)"

definition queued_run :: document where
  "queued_run = (case fetch queued_world pipeline_runs 1 of Some d \<Rightarrow> d | None \<Rightarrow> [])"

definition deploy_world :: world where
  "deploy_world =
     snd (start_deployment PNone (fst (put_new projects shop empty_world)) ''u1'' ''manual'' PNone shop_world)"

definition sample_ai_test :: suite_test where
  "sample_ai_test = \<lparr>su_slug = ''ai-1-buy'', su_name = ''AI: buy'', su_category = ''ai'',
     su_steps = [suite_step 1 ''click'' (Some ''#buy'') None ''Buy'']\<rparr>"

definition app_state :: run_state where
  "app_state = run_state_of (snd (put_new applications shop empty_world)) queued_run"

definition stored_case :: document where
  "stored_case = [(''id'', PInt 1), (''name'', PStr ''Buy''), (''quarantined'', PBool True)]"

definition case_state :: run_state where
  "case_state = run_state_of (snd (put_new test_cases stored_case empty_world)) queued_run"

end
