(* ===== verification/Suite_Properties.thy ===== *)
theory Suite_Properties
  imports Pipeline_Samples
begin

text \<open>
  The tests a run gets: which cases of the planner agent are taken over and how they look, against a
  reference that says it case by case; and which other pages of a site are visited.
\<close>

section \<open>A reference for taking over a case\<close>

datatype wanted = Do test_step | Look test_assertion

definition navigates :: "test_step \<Rightarrow> bool" where
  "navigates s \<longleftrightarrow> map_of engine_actions (test_action_value (ts_action s)) = Some ''NAVIGATE''"

definition wanted_of_steps :: "test_step list \<Rightarrow> wanted list" where
  "wanted_of_steps ss =
     concat (map (\<lambda>s. if navigates s then [] else Do s # map Look (ts_assertions s)) ss)"

definition wanted_of :: "test_case \<Rightarrow> wanted list" where
  "wanted_of tc = wanted_of_steps (tc_steps tc) @ map Look (tc_assertions tc)"

fun usable :: "string list \<Rightarrow> wanted \<Rightarrow> bool" where
  "usable known (Do s) \<longleftrightarrow>
     test_action_value (ts_action s) \<in> fst ` set engine_actions \<and>
     (or_empty (ts_target s) = [] \<or> or_empty (ts_target s) \<in> set known)"
| "usable known (Look a) \<longleftrightarrow>
     (\<exists>action. map_of engine_checks (assertion_type_value (as_type a)) = Some action \<and>
       (action \<in> set page_checks \<or> as_target a \<in> set known))"

fun rendered :: "nat \<Rightarrow> wanted \<Rightarrow> document" where
  "rendered n (Do s) =
     (let action = the (map_of engine_actions (test_action_value (ts_action s)))
      in suite_step n action (ts_target s) (ts_value s) (step_description action s))"
| "rendered n (Look a) =
     (let action = the (map_of engine_checks (assertion_type_value (as_type a)))
      in suite_step n action (or_text_value (as_target a)) (or_text_value (as_expected a))
           (if as_description a = [] then lower action else as_description a))"

fun rendered_from :: "nat \<Rightarrow> wanted list \<Rightarrow> document list" where
  "rendered_from n [] = []"
| "rendered_from n (x # xs) = rendered n x # rendered_from (n + 1) xs"

lemma rendered_from_append: "rendered_from n (xs @ ys) = rendered_from n xs @ rendered_from (n + length xs) ys"
  by (induction xs arbitrary: n) simp_all

lemma length_rendered [simp]: "length (rendered_from n xs) = length xs"
  by (induction xs arbitrary: n) simp_all

definition taken :: "string list \<Rightarrow> wanted list \<Rightarrow> bool \<times> document list \<Rightarrow> bool \<times> document list \<Rightarrow> bool" where
  "taken known xs state state' \<longleftrightarrow>
     (fst state' \<longleftrightarrow> fst state \<and> list_all (usable known) xs) \<and>
     (fst state' \<longrightarrow> snd state' = snd state @ rendered_from (length (snd state) + 1) xs)"

lemma taken_Nil [simp]: "taken known [] state state"
  by (simp add: taken_def)

lemma taken_append: "taken known xs s s1 \<Longrightarrow> taken known ys s1 s2 \<Longrightarrow> taken known (xs @ ys) s s2"
  by (auto simp: taken_def rendered_from_append)

lemma taken_Cons: "taken known [x] s s1 \<Longrightarrow> taken known ys s1 s2 \<Longrightarrow> taken known (x # ys) s s2"
  using taken_append[of known "[x]"] by simp

lemma add_check_taken:
  "taken known [Look a] (True, steps) (case add_check known steps a of None \<Rightarrow> (False, steps) | Some steps' \<Rightarrow> (True, steps'))"
  by (auto simp: taken_def add_check_def Let_def split: option.split)

lemma add_checks_taken: "taken known (map Look as) state (add_checks known as state)"
proof (induction as arbitrary: state)
  case (Cons a as)
  obtain ok steps where s: "state = (ok, steps)" by fastforce
  have "taken known [Look a] state
      (if ok then (case add_check known steps a of None \<Rightarrow> (False, steps) | Some steps' \<Rightarrow> (True, steps')) else (ok, steps))"
    using add_check_taken by (simp add: s taken_def)
  then show ?case using Cons.IH by (simp add: s taken_Cons)
qed simp

lemma known_action: "map_of engine_actions v = Some action \<Longrightarrow> v \<in> fst ` set engine_actions"
  by (metis domI dom_map_of_conv_image_fst)

lemma unknown_action: "map_of engine_actions v = None \<Longrightarrow> v \<notin> fst ` set engine_actions"
  by (metis map_of_eq_None_iff)

lemma add_steps_taken: "taken known (wanted_of_steps ss) state (add_steps known ss state)"
proof (induction ss arbitrary: state)
  case (Cons s ss)
  obtain ok steps where st: "state = (ok, steps)" by fastforce
  let ?rest = "wanted_of_steps ss"
  have split: "wanted_of_steps (s # ss) = (if navigates s then [] else Do s # map Look (ts_assertions s)) @ ?rest"
    by (simp add: wanted_of_steps_def)
  show ?case
  proof (cases "map_of engine_actions (test_action_value (ts_action s))")
    case None
    then show ?thesis using unknown_action[OF None]
      by (simp add: st split taken_def navigates_def)
  next
    case (Some action)
    consider "action = ''NAVIGATE''"
      | "action \<noteq> ''NAVIGATE''" "or_empty (ts_target s) \<noteq> []" "or_empty (ts_target s) \<notin> set known"
      | "action \<noteq> ''NAVIGATE''" "or_empty (ts_target s) = [] \<or> or_empty (ts_target s) \<in> set known" by blast
    then show ?thesis
    proof cases
      case 1
      then show ?thesis using Some Cons.IH[of state] by (simp add: st split navigates_def)
    next
      case 2
      then show ?thesis using Some by (simp add: st split navigates_def taken_def)
    next
      case 3
      let ?state = "(ok, steps @ [suite_step (length steps + 1) action (ts_target s) (ts_value s) (step_description action s)])"
      have "taken known [Do s] state ?state"
        using 3 Some known_action[OF Some] by (auto simp: taken_def st Let_def)
      then have "taken known (Do s # map Look (ts_assertions s)) state (add_checks known (ts_assertions s) ?state)"
        using add_checks_taken by (rule taken_Cons)
      from taken_append[OF this Cons.IH]
      have "taken known ((Do s # map Look (ts_assertions s)) @ ?rest) state
          (add_steps known ss (add_checks known (ts_assertions s) ?state))" .
      moreover have "add_steps known (s # ss) state = add_steps known ss (add_checks known (ts_assertions s) ?state)"
        using 3 Some by (auto simp: st)
      ultimately show ?thesis using 3(1) Some by (simp add: split navigates_def)
    qed
  qed
qed (simp add: wanted_of_steps_def)

definition usable_case :: "string list \<Rightarrow> test_case \<Rightarrow> bool" where
  "usable_case known tc \<longleftrightarrow> wanted_of tc \<noteq> [] \<and> list_all (usable known) (wanted_of tc)"

definition case_steps :: "string \<Rightarrow> test_case \<Rightarrow> document list" where
  "case_steps url tc = open_step url # rendered_from 2 (wanted_of tc)"

lemma ai_steps_reference:
  "ai_steps known url tc = (if usable_case known tc then Some (case_steps url tc) else None)"
proof -
  have "taken known (wanted_of tc) (True, [open_step url])
      (add_checks known (tc_assertions tc) (add_steps known (tc_steps tc) (True, [open_step url])))"
    unfolding wanted_of_def by (rule taken_append[OF add_steps_taken add_checks_taken])
  then show ?thesis
    by (auto simp: ai_steps_def taken_def usable_case_def case_steps_def Let_def split_beta numeral_2_eq_2)
qed

lemma take_over_reference:
  "take_over known url tcs (kept, dropped) =
     (kept @ map (\<lambda>(k, tc). ai_test k tc (case_steps url tc)) (enumerate (length kept) (filter (usable_case known) tcs)),
      dropped + (length tcs - length (filter (usable_case known) tcs)))"
proof (induction tcs arbitrary: kept dropped)
  case (Cons tc tcs)
  have "length (filter (usable_case known) tcs) \<le> length tcs" by (rule length_filter_le)
  then show ?case by (auto simp: ai_steps_reference Cons.IH Suc_diff_le)
qed simp

text \<open>
  C17: Which cases of the planner agent become tests of the run, and how. What counts of a case are its
  steps other than navigations, each followed by the checks attached to it, and then the checks of the
  case; a navigation is left out together with the checks attached to it, whatever they are and whatever
  they target. Of the first five cases those are kept of which something counts and every action and
  check that counts is one the engine knows, with a target that is a selector of the analyzed page, or
  empty for an action, or any for a check of the page as a whole. A kept case opens the page and then does
  what counts, in order, numbered from 2; the others are counted as dropped.
\<close>

theorem ai_tests_reference:
  "to_suite_tests cases a =
     (let known = known_selectors a; kept = filter (usable_case known) (take 5 cases)
      in (map (\<lambda>(k, tc). ai_test k tc (open_step (pa_url a) # rendered_from 2 (wanted_of tc))) (enumerate 0 kept),
          length (take 5 cases) - length kept))"
  by (simp add: to_suite_tests_def take_over_reference max_ai_tests_def case_steps_def Let_def)

lemma dict_get_suite_step [simp]:
  "dict_get (suite_step n action target value d) ''action'' = PStr action"
  "dict_get (suite_step n action target value d) ''target'' = opt_str target"
  "dict_get (suite_step n action target value d) ''step_number'' = PInt (int n)"
  "dict_get (suite_step n action target value d) ''value'' = opt_str value"
  by (simp_all add: suite_step_def dict_get_def)

definition grounded_step :: "string list \<Rightarrow> document \<Rightarrow> bool" where
  "grounded_step known s \<longleftrightarrow>
     dict_get s ''action'' \<noteq> PStr ''NAVIGATE'' \<and>
     (dict_get s ''target'' \<in> {PNone, PStr []} \<or> dict_get s ''target'' \<in> PStr ` set known \<or>
      dict_get s ''action'' \<in> PStr ` set page_checks)"

lemma check_no_navigation: "map_of engine_checks v = Some action \<Longrightarrow> action \<noteq> ''NAVIGATE''"
  using map_of_SomeD[of engine_checks v action] unfolding engine_checks_def by auto

lemma grounded_target: "or_empty t = [] \<or> or_empty t \<in> K \<Longrightarrow> opt_str t \<in> {PNone, PStr []} \<or> opt_str t \<in> PStr ` K"
  by (cases t) (auto simp: or_empty_def opt_str_def)

lemma usable_rendered:
  assumes "usable known x" "\<forall>s. x = Do s \<longrightarrow> \<not> navigates s"
  shows "grounded_step known (rendered n x)"
proof (cases x)
  case (Do s)
  obtain action where a: "map_of engine_actions (test_action_value (ts_action s)) = Some action"
    using assms(1) Do unknown_action[of "test_action_value (ts_action s)"]
    by (cases "map_of engine_actions (test_action_value (ts_action s))") auto
  then have "action \<noteq> ''NAVIGATE''" using assms(2) Do by (simp add: navigates_def)
  then show ?thesis using assms(1) grounded_target[of "ts_target s" "set known"]
    by (auto simp: Do a Let_def grounded_step_def)
next
  case (Look a)
  then show ?thesis using assms(1) check_no_navigation
    by (auto simp: grounded_step_def Let_def or_text_value_def opt_str_def)
qed

lemma rendered_member: "s \<in> set (rendered_from n xs) \<Longrightarrow> \<exists>x\<in>set xs. \<exists>m. s = rendered m x"
  by (induction xs arbitrary: n) auto

lemma wanted_no_navigation: "Do s \<in> set (wanted_of tc) \<Longrightarrow> \<not> navigates s"
  by (auto simp: wanted_of_def wanted_of_steps_def split: if_splits)

text \<open>
  C18: A test of the planner agent stays on the page: it opens the analyzed address, never navigates
  itself, and every later step acts on an element the analysis found (or on the page as a whole).
\<close>

theorem ai_tests_grounded:
  assumes "t \<in> set (fst (to_suite_tests cases a))"
  shows "su_category t = ''ai'' \<and> hd (su_steps t) = open_step (pa_url a) \<and> tl (su_steps t) \<noteq> [] \<and>
    list_all (\<lambda>s. dict_get s ''action'' \<noteq> PStr ''NAVIGATE'' \<and>
      (dict_get s ''target'' \<in> {PNone, PStr []} \<or> dict_get s ''target'' \<in> PStr ` set (known_selectors a) \<or>
       dict_get s ''action'' \<in> {PStr ''ASSERT_URL'', PStr ''ASSERT_URL_EQUALS''})) (tl (su_steps t))"
proof -
  obtain k tc where tc: "usable_case (known_selectors a) tc" "t = ai_test k tc (case_steps (pa_url a) tc)"
    using assms by (auto simp: to_suite_tests_def take_over_reference dest!: in_set_enumerate_eq[THEN iffD1] nth_mem)
  have "grounded_step (known_selectors a) s" if "s \<in> set (rendered_from 2 (wanted_of tc))" for s
    using rendered_member[OF that] usable_rendered wanted_no_navigation tc(1)
    by (metis usable_case_def list_all_iff)
  then show ?thesis
    using tc(1) by (simp add: tc(2) ai_test_def case_steps_def usable_case_def grounded_step_def page_checks_def list_all_iff)
      (metis length_0_conv length_rendered)
qed

definition buy_case :: test_case where
  "buy_case = \<lparr>tc_test_id = ''TC-1'', tc_name = ''Buy'', tc_description = [], tc_category = TC_FUNCTIONAL, tc_priority = TP_HIGH,
     tc_steps = [\<lparr>ts_step_number = 1, ts_action = TA_CLICK, ts_target = Some ''#buy'', ts_value = None,
       ts_description = [], ts_assertions = [], ts_timeout = None, ts_metadata = []\<rparr>],
     tc_assertions = [], tc_page_url = None, tc_preconditions = [], tc_tags = [], tc_generated_reasoning = None\<rparr>"

lemma ai_tests_grounded_witness:
  "\<exists>t. t \<in> set (fst (to_suite_tests [buy_case] sample_page)) \<and> hd (su_steps t) = open_step ''https://shop.test/''"
proof -
  have "fst (to_suite_tests [buy_case] sample_page) \<noteq> []" by code_simp
  then obtain t where "t \<in> set (fst (to_suite_tests [buy_case] sample_page))" by (meson last_in_set)
  with ai_tests_grounded[OF this] show ?thesis by (auto simp: sample_page_def)
qed

section \<open>Other pages of the site\<close>

definition page_key :: "candidate \<Rightarrow> string" where
  "page_key c = (case urlparse (cd_url c) of None \<Rightarrow> [] | Some p \<Rightarrow> normalize_parts p)"

definition safe_page :: "url_parts \<Rightarrow> candidate \<Rightarrow> bool" where
  "safe_page origin c \<longleftrightarrow>
     (\<exists>p. urlparse (cd_url c) = Some p \<and> up_scheme p \<in> {''http'', ''https''} \<and>
       lower (up_netloc p) = lower (up_netloc origin) \<and> \<not> unsafe_path (up_path p))"

definition pages_ok :: "url_parts \<Rightarrow> (string \<Rightarrow> int) \<Rightarrow> page_set \<Rightarrow> bool" where
  "pages_ok origin limit so \<longleftrightarrow>
     fst so = normalize_parts origin # map page_key (snd so) \<and> distinct (fst so) \<and>
     list_all (safe_page origin) (snd so) \<and>
     (\<forall>k. int (count_if (\<lambda>c. cd_kind c = k) (snd so)) \<le> max 0 (limit k))"

lemma add_candidate_ok:
  assumes "pages_ok origin limit so" "add_candidate origin kind url label (limit kind) so = Some so'"
  shows "pages_ok origin limit so'"
proof -
  obtain seen out where so: "so = (seen, out)" by fastforce
  show ?thesis
  proof (cases "so' = so")
    case False
    then have small: "int (count_if (\<lambda>c. cd_kind c = kind) out) < limit kind"
      using assms(2) by (auto simp: add_candidate_def so split: if_splits)
    with assms(2) False obtain p where p: "urlparse url = Some p" "up_scheme p \<in> {''http'', ''https''}"
      "lower (up_netloc p) = lower (up_netloc origin)" "normalize_parts p \<notin> set seen" "\<not> unsafe_path (up_path p)"
      "so' = (seen @ [normalize_parts p], out @ [\<lparr>cd_kind = kind, cd_url = url, cd_label = label\<rparr>])"
      by (auto simp: add_candidate_def so split: option.splits if_splits)
    let ?c = "\<lparr>cd_kind = kind, cd_url = url, cd_label = label\<rparr>"
    have "page_key ?c = normalize_parts p" "safe_page origin ?c" using p(1-5) by (simp_all add: page_key_def safe_page_def)
    then show ?thesis using assms(1) p(4) small
      by (auto simp: pages_ok_def so p(6) count_if_def)
  qed (use assms in simp)
qed

lemma add_links_ok:
  "pages_ok origin limit so \<Longrightarrow> add_links base origin (limit ''link'') links so = Some so' \<Longrightarrow> pages_ok origin limit so'"
proof (induction links arbitrary: so)
  case (Cons href links)
  show ?case
  proof (cases "ignored_link (strip href)")
    case True
    then show ?thesis using Cons by (simp add: Let_def)
  next
    case False
    then obtain url label so1 where "add_candidate origin ''link'' url label (limit ''link'') so = Some so1"
      "add_links base origin (limit ''link'') links so1 = Some so'"
      using Cons.prems(2) by (auto simp: Let_def bind_eq_Some_conv split: option.splits)
    then show ?thesis using Cons.IH add_candidate_ok[OF Cons.prems(1)] by blast
  qed
qed simp

lemma add_routes_ok:
  "pages_ok origin limit so \<Longrightarrow> add_routes site origin (limit ''route'') paths so = Some so' \<Longrightarrow> pages_ok origin limit so'"
proof (induction paths arbitrary: so)
  case (Cons path paths)
  then obtain so1 where "add_candidate origin ''route'' (site @ path) (''GET '' @ path) (limit ''route'') so = Some so1"
    "add_routes site origin (limit ''route'') paths so1 = Some so'"
    by (auto simp: bind_eq_Some_conv)
  then show ?case using Cons.IH add_candidate_ok[OF Cons.prems(1)] by blast
qed simp

text \<open>
  C19: The other pages that a run visits belong to the analyzed site and are safe to open: every candidate
  is a web address on the same host whose path names no logout, deletion or the like; no two of them,
  and none with the analyzed page, are the same page; and neither limit is exceeded.
\<close>

theorem candidate_pages_safe:
  assumes "candidate_pages a routes link_limit route_limit = Some cs" "urlparse (pa_url a) = Some origin"
  shows "list_all (\<lambda>c. \<exists>p. urlparse (cd_url c) = Some p \<and> up_scheme p \<in> {''http'', ''https''} \<and>
      lower (up_netloc p) = lower (up_netloc origin) \<and>
      \<not> list_ex (\<lambda>w. contains w (lower (up_path p))) unsafe_words) cs \<and>
    distinct (normalize_parts origin # map page_key cs) \<and>
    int (length (filter (\<lambda>c. cd_kind c = ''link'') cs)) \<le> max 0 link_limit \<and>
    int (length (filter (\<lambda>c. cd_kind c = ''route'') cs)) \<le> max 0 route_limit"
proof -
  define limit where "limit k = (if k = ''link'' then link_limit else if k = ''route'' then route_limit else 0)" for k
  let ?site = "up_scheme origin @ ''://'' @ up_netloc origin"
  have limits: "limit ''link'' = link_limit" "limit ''route'' = route_limit" by (simp_all add: limit_def)
  obtain so1 so where "add_links (pa_url a) origin (limit ''link'') (pa_links a) ([normalize_parts origin], []) = Some so1"
    and "add_routes ?site origin (limit ''route'') (get_routes routes) so1 = Some so" and cs: "cs = snd so"
    using assms by (auto simp: candidate_pages_def bind_eq_Some_conv limits)
  moreover have "pages_ok origin limit ([normalize_parts origin], [])" by (simp add: pages_ok_def count_if_def)
  ultimately have ok: "pages_ok origin limit so" using add_links_ok[of origin limit] add_routes_ok[of origin limit] by blast
  have "int (count_if (\<lambda>c. cd_kind c = k) cs) \<le> max 0 (limit k)" for k
    using ok unfolding pages_ok_def cs by blast
  from this[of "''link''"] this[of "''route''"] ok show ?thesis
    by (auto simp: pages_ok_def cs count_if_def safe_page_def unsafe_path_def limits list_all_iff)
qed

lemma candidate_pages_safe_witness:
  "\<exists>cs. candidate_pages sample_page [] 5 5 = Some cs \<and> cs \<noteq> [] \<and>
     list_all (\<lambda>c. \<not> list_ex (\<lambda>w. contains w (lower (url_path (cd_url c)))) unsafe_words) cs"
proof -
  have cs: "candidate_pages sample_page [] 5 5 =
      Some [\<lparr>cd_kind = ''link'', cd_url = ''https://shop.test/about'', cd_label = ''/about''\<rparr>]" by code_simp
  obtain origin where "urlparse (pa_url sample_page) = Some origin" by (cases "urlparse (pa_url sample_page)") (auto, code_simp)
  from candidate_pages_safe[OF cs this] show ?thesis by (auto simp: cs url_path_def)
qed

end
