(* ===== verification/Pipeline_Invariants.thy ===== *)
theory Pipeline_Invariants
  imports Pipeline_Run
begin

text \<open>
  What the steps of a pipeline run do to its document: reading a document back after a write, the
  statuses of the stages, and rules for sequences of steps.
\<close>

named_theorems fetch_simps \<open>reading a document after a write\<close>

section \<open>Reading after writing\<close>

lemma dict_get_update [simp]: "dict_get (AList.update k v d) k' = (if k' = k then v else dict_get d k')"
  by (simp add: dict_get_def update_conv')

lemma dict_get_set_field [simp]: "dict_get (set_field k v d) k' = (if k' = k then v else dict_get d k')"
  by (simp add: set_field_def)

lemma dict_get_merge:
  "dict_get (merge_fields d e) k = (case map_of (rev e) k of Some v \<Rightarrow> v | None \<Rightarrow> dict_get d k)"
proof (induction e arbitrary: d)
  case Nil
  then show ?case by (simp add: merge_fields_def)
next
  case (Cons x e)
  obtain a v where x: "x = (a, v)" by fastforce
  have "merge_fields d (x # e) = merge_fields (AList.update a v d) e" by (simp add: merge_fields_def x)
  then show ?case by (simp add: Cons.IH x map_add_def split: option.splits)
qed

lemma doc_table_set_any: "doc_table (set_table c t s) c' = (if c' = c then t else doc_table s c')"
  by (simp add: doc_table_def set_table_def update_conv')

lemma doc_get_update [fetch_simps]:
  "doc_get (snd (doc_update t c i ch s)) c' j =
     (if c' = c \<and> j = i then map_option (\<lambda>d. merge_fields d (stamped t ch)) (doc_get s c i) else doc_get s c' j)"
  by (auto simp: doc_update_def change_doc_def doc_table_set_any update_conv' doc_get_def split: option.splits)

lemma doc_get_update_if [fetch_simps]:
  "doc_get (snd (doc_update_if t c i f e ch s)) c' j =
     (if c' = c \<and> j = i \<and> fst (doc_update_if t c i f e ch s)
      then map_option (\<lambda>d. merge_fields d (stamped t ch)) (doc_get s c i) else doc_get s c' j)"
  by (auto simp: doc_update_if_def change_doc_def doc_table_set_any update_conv' doc_get_def split: option.splits)

lemma doc_get_insert [fetch_simps]:
  "doc_get (snd (doc_insert t c fs s)) c' j =
     (if c' = c \<and> j = next_id s c then Some (fst (doc_insert t c fs s)) else doc_get s c' j)"
  by (auto simp: doc_insert_def doc_create_def Let_def doc_get_def doc_table_def update_conv')

lemma fetch_now_iso [simp]: "fetch (snd (now_iso w)) c i = fetch w c i"
  by (simp add: now_iso_def fetch_def)

lemma fetch_put [fetch_simps]:
  "fetch (put c i ch w) c' j =
     (if c' = c \<and> j = i then map_option (\<lambda>d. merge_fields d (stamped (w_clock w 0) ch)) (fetch w c i)
      else fetch w c' j)"
  by (simp add: put_def put_row_def now_iso_def fetch_def Let_def split_beta fetch_simps)

lemma fetch_put_new [fetch_simps]:
  "fetch (snd (put_new c fs w)) c' j =
     (if c' = c \<and> j = next_id (w_db w) c then Some (fst (put_new c fs w)) else fetch w c' j)"
  by (simp add: put_new_def now_iso_def fetch_def Let_def split_beta fetch_simps)

lemma row_id_put_new: "''id'' \<notin> fst ` set fs \<Longrightarrow> row_id (fst (put_new c fs w)) = next_id (w_db w) c"
proof -
  assume "''id'' \<notin> fst ` set fs"
  then have "''id'' \<notin> fst ` set (merge_fields [(''created_at'', a), (''updated_at'', a)] fs)" for a
    by (auto simp: keys_merge)
  then show ?thesis
    by (simp add: put_new_def doc_insert_def doc_create_def now_iso_def Let_def split_beta row_id_def
        dict_get_merge_other) (simp add: dict_get_def as_int_def)
qed

lemma fetch_record_audit [simp]:
  "c \<noteq> audit_events \<Longrightarrow> fetch (record_audit actor kind message level ref owner w) c i = fetch w c i"
  by (simp add: record_audit_def Let_def split_beta fetch_put_new)

lemma fetch_put_other [simp]: "c' \<noteq> c \<Longrightarrow> fetch (put c i ch w) c' j = fetch w c' j"
  by (simp add: fetch_put)

lemma fetch_put_row: "fetch (snd (put_row c i ch w)) c' j = fetch (put c i ch w) c' j"
  by (simp add: put_def)

lemma collections_distinct [simp]:
  "pipeline_runs \<noteq> projects" "pipeline_runs \<noteq> audit_events" "pipeline_runs \<noteq> test_cases"
  "pipeline_runs \<noteq> test_executions" "pipeline_runs \<noteq> applications" "pipeline_runs \<noteq> deployments"
  "deployments \<noteq> projects" "deployments \<noteq> audit_events" "deployments \<noteq> test_executions"
  "deployments \<noteq> pipeline_runs" "projects \<noteq> audit_events" "projects \<noteq> pipeline_runs"
  "test_cases \<noteq> test_executions" "test_cases \<noteq> applications"
  by (simp_all add: pipeline_runs_def projects_def audit_events_def test_cases_def test_executions_def
      applications_def deployments_def)

lemma map_of_stamped [simp]: "k \<noteq> ''updated_at'' \<Longrightarrow> map_of (rev (stamped t ch)) k = map_of (rev ch) k"
proof -
  assume k: "k \<noteq> ''updated_at''"
  have "stamped t ch = AList.update ''updated_at'' (PStr t) ch" by (simp add: stamped_def merge_fields_def)
  moreover have "map_of (rev (AList.update ''updated_at'' v ch)) k = map_of (rev ch) k" for v
    using k by (induction ch) (auto simp: map_add_def split: option.splits)
  ultimately show ?thesis by simp
qed

section \<open>Statuses of the stages\<close>

definition progress :: "run_state \<Rightarrow> (pyval \<times> pyval) list" where
  "progress s = map (\<lambda>e. (dict_get e ''key'', status_of e)) (stage_entries s)"

definition mark :: "string \<Rightarrow> string \<Rightarrow> (pyval \<times> pyval) list \<Rightarrow> (pyval \<times> pyval) list" where
  "mark key status = map (\<lambda>(k, v). (k, if k = PStr key then PStr status else v))"

lemma entries_of_value: "dict_get d field = entries_value es \<Longrightarrow> entries_of field d = es"
  by (simp add: entries_of_def entries_value_def comp_def dict_of_def)

lemma dict_get_finished_now [simp]:
  "k \<notin> {''started_at'', ''finished_at''} \<Longrightarrow> dict_get (finished_now t e) k = dict_get e k"
  by (simp add: finished_now_def Let_def)

lemma mark_entries_progress:
  "map (\<lambda>e. (dict_get e ''key'', status_of e)) (fst (mark_entries key a b status detail es w)) =
     mark key status (map (\<lambda>e. (dict_get e ''key'', status_of e)) es)"
  by (induction es arbitrary: w)
     (auto simp: mark_def mark_entry_def Let_def split_beta status_of_def split: option.split)

lemma mark_entries_world:
  "\<exists>n. snd (mark_entries key a b status detail es w) = w\<lparr>w_clock := \<lambda>k. w_clock w (k + n)\<rparr>"
proof (induction es arbitrary: w)
  case Nil
  have "w = w\<lparr>w_clock := \<lambda>k. w_clock w (k + 0)\<rparr>" by simp
  then show ?case by (metis mark_entries.simps(1) snd_conv)
next
  case (Cons e es)
  let ?w = "snd (if dict_get e ''key'' = PStr key then mark_entry a b status detail e w else (e, w))"
  have "?w = w \<or> ?w = w\<lparr>w_clock := \<lambda>k. w_clock w (Suc k)\<rparr>"
    by (auto simp: mark_entry_def now_iso_def Let_def split_beta)
  then obtain m where m: "?w = w\<lparr>w_clock := \<lambda>k. w_clock w (k + m)\<rparr>"
  proof (elim disjE)
    assume "?w = w" then show ?thesis by (intro that[of 0]) simp
  next
    assume "?w = w\<lparr>w_clock := \<lambda>k. w_clock w (Suc k)\<rparr>" then show ?thesis by (intro that[of 1]) simp
  qed
  obtain n where "snd (mark_entries key a b status detail es ?w) = ?w\<lparr>w_clock := \<lambda>k. w_clock ?w (k + n)\<rparr>"
    using Cons.IH by blast
  then have "snd (mark_entries key a b status detail (e # es) w) = w\<lparr>w_clock := \<lambda>k. w_clock w (k + (n + m))\<rparr>"
    by (simp add: m Let_def split_beta add.assoc)
  then show ?case by blast
qed

lemma save_doc [simp]: "rs_doc (save ch s) = merge_fields (rs_doc s) ch"
  by (simp add: save_def put_def put_row_def now_iso_def Let_def split_beta)

lemma rs_doc_put [simp]: "rs_doc (put c i ch s) = rs_doc s"
  by (simp add: put_def put_row_def now_iso_def Let_def split_beta)

lemma rs_doc_record_audit [simp]: "rs_doc (record_audit a k m l r own s) = rs_doc s"
  by (simp add: record_audit_def put_new_def now_iso_def Let_def split_beta)

lemma rs_doc_now_iso [simp]: "rs_doc (snd (now_iso s)) = rs_doc s"
  by (simp add: now_iso_def)

lemma progress_stage: "progress (stage key status detail s) = mark key status (progress s)"
proof -
  let ?m = "mark_entries key (status = ''running'') (status \<in> {''done'', ''failed'', ''skipped''}) status detail
      (stage_entries s) s"
  obtain n where n: "snd ?m = s\<lparr>w_clock := \<lambda>k. w_clock s (k + n)\<rparr>" using mark_entries_world by blast
  have "stage_entries (stage key status detail s) = fst ?m"
    unfolding stage_entries_def by (rule entries_of_value) (simp add: stage_def stage_entries_def Let_def split_beta dict_get_merge)
  then show ?thesis by (simp add: progress_def mark_entries_progress)
qed

lemma mark_entries_same [simp]: "w_db (snd (mark_entries key a b status detail es w)) = w_db w"
  using mark_entries_world[of key a b status detail es w] by auto

lemma mark_entries_doc [simp]: "rs_doc (snd (mark_entries key a b status detail es s)) = rs_doc s"
  using mark_entries_world[of key a b status detail es s] by auto

lemma end_entries_same:
  "w_db (snd (end_entries error es w)) = w_db w"
  by (induction es arbitrary: w) (simp_all add: now_iso_def Let_def split_beta)

lemma end_entries_doc: "rs_doc (snd (end_entries error es s)) = rs_doc s"
  by (induction es arbitrary: s) (simp_all add: now_iso_def Let_def split_beta)

definition settled_status :: "pyval \<Rightarrow> bool" where
  "settled_status v \<longleftrightarrow> v \<notin> {PStr ''pending'', PStr ''running''}"

definition settled :: "document list \<Rightarrow> bool" where
  "settled es \<longleftrightarrow> list_all (\<lambda>e. settled_status (status_of e)) es"

lemma end_entries_settled: "settled (fst (end_entries error es w))"
  by (induction es arbitrary: w)
     (auto simp: settled_def settled_status_def status_of_def Let_def split_beta)

lemma fetch_save:
  "rs_id s = i \<Longrightarrow> fetch (save ch s) c j =
     (if c = pipeline_runs \<and> j = i then map_option (\<lambda>d. merge_fields d (stamped (w_clock s 0) ch)) (fetch s c j)
      else fetch s c j)"
  by (simp add: save_def fetch_put) (auto simp: fetch_def)

section \<open>The run's document stays\<close>

definition alive_run :: "int \<Rightarrow> run_state \<Rightarrow> bool" where
  "alive_run i s \<longleftrightarrow> rs_id s = i \<and> fetch s pipeline_runs i \<noteq> None"

lemma fetch_same_db: "w_db w = w_db w' \<Longrightarrow> fetch w c i = fetch w' c i"
  by (simp add: fetch_def)

lemma rs_id_merge: "''id'' \<notin> fst ` set ch \<Longrightarrow> row_id (merge_fields d ch) = row_id d"
  by (simp add: row_id_def dict_get_merge_other)

lemma alive_save:
  assumes "alive_run i s" "''id'' \<notin> fst ` set ch"
  shows "alive_run i (save ch s)"
  using assms by (auto simp: alive_run_def fetch_save rs_id_def rs_id_merge)

lemma alive_same:
  assumes "alive_run i s" "w_db s' = w_db s" "rs_doc s' = rs_doc s"
  shows "alive_run i s'"
  using assms by (auto simp: alive_run_def rs_id_def fetch_def)

lemma alive_now_iso [simp]: "alive_run i (snd (now_iso s)) \<longleftrightarrow> alive_run i s"
  by (simp add: alive_run_def rs_id_def)

lemma alive_stage: "alive_run i s \<Longrightarrow> alive_run i (stage key status detail s)"
  unfolding stage_def Let_def split_beta by (rule alive_save[OF alive_same]) simp_all

lemma alive_put: "alive_run i s \<Longrightarrow> alive_run i (put c j ch s)"
  by (auto simp: alive_run_def rs_id_def fetch_put)

lemma alive_put_new: "alive_run i s \<Longrightarrow> alive_run i (snd (put_new c fs s))"
  by (auto simp: alive_run_def rs_id_def fetch_put_new)
     (simp_all add: put_new_def now_iso_def Let_def split_beta)

lemma alive_record_audit: "alive_run i s \<Longrightarrow> alive_run i (record_audit a k m l r own s)"
  by (simp add: record_audit_def Let_def split_beta alive_put_new)

lemma alive_finish_project: "alive_run i s \<Longrightarrow> alive_run i (finish_project p s)"
  by (simp add: finish_project_def Let_def split_beta alive_put)

lemma alive_skip_rest: "alive_run i s \<Longrightarrow> alive_run i (skip_rest reason s)"
  unfolding skip_rest_def by (rule fold_invariant[where Q = "\<lambda>_. True"]) (auto intro: alive_stage)

lemma alive_finish_error: "alive_run i s \<Longrightarrow> alive_run i (finish_error error s)"
  by (simp add: finish_error_def Let_def split_beta alive_save)

text \<open>
  Calls that come back (with a value or an exception, not as a cancelled task) and do not delete the
  run's document.
\<close>

definition ends :: "'a outcome \<Rightarrow> bool" where
  "ends r \<longleftrightarrow> r \<noteq> Stopped \<and> r \<noteq> Unfinished"

definition call_serves :: "int \<Rightarrow> 'a call \<Rightarrow> bool" where
  "call_serves i c \<longleftrightarrow>
     (\<forall>w. ends (fst (c w)) \<and> (fetch w pipeline_runs i \<noteq> None \<longrightarrow> fetch (snd (c w)) pipeline_runs i \<noteq> None))"

definition test_serves :: "int \<Rightarrow> (world \<Rightarrow> ('a outcome \<times> 'b) \<times> world) \<Rightarrow> bool" where
  "test_serves i c \<longleftrightarrow> call_serves i (\<lambda>w. (fst (fst (c w)), snd (c w)))"

definition env_serves :: "int \<Rightarrow> pipeline_env \<Rightarrow> bool" where
  "env_serves i env \<longleftrightarrow>
     (\<forall>r owner. call_serves i (pe_ingest env r owner)) \<and> (\<forall>r b. call_serves i (pe_save_blueprint env r b)) \<and>
     (\<forall>u p. call_serves i (pe_analyze env u p)) \<and> (\<forall>c. call_serves i (pe_ai_plan env c)) \<and>
     (\<forall>us. call_serves i (pe_reachable env us)) \<and> (\<forall>us. call_serves i (pe_pages env us)) \<and>
     (\<forall>u g. call_serves i (pe_explore env u g)) \<and> (\<forall>e k st. test_serves i (pe_run_test env e k st)) \<and>
     (\<forall>u a owner. call_serves i (pe_scan env u a owner)) \<and> (\<forall>p. call_serves i (pe_start_check env p)) \<and>
     (\<forall>c vs. call_serves i (pe_finish_check env c vs))"

lemma ends_simps [simp]: "ends (Value a)" "ends (Raised m)" "ends (Store_Down m)" "\<not> ends Stopped" "\<not> ends Unfinished"
  by (simp_all add: ends_def)

lemma fetch_world_of [simp]: "fetch (world_of s) c i = fetch s c i"
  by (simp add: fetch_def world_of_def)

lemma fetch_in_world [simp]: "fetch (in_world w s) c i = fetch w c i"
  by (simp add: fetch_def in_world_def)

lemma rs_doc_in_world [simp]: "rs_doc (in_world w s) = rs_doc s"
  by (simp add: in_world_def)

lemma alive_in_world: "alive_run i s \<Longrightarrow> fetch w pipeline_runs i \<noteq> None \<Longrightarrow> alive_run i (in_world w s)"
  by (simp add: alive_run_def rs_id_def)

lemma alive_ask: "call_serves i c \<Longrightarrow> alive_run i s \<Longrightarrow> alive_run i (snd (ask c s))"
  by (simp add: ask_def Let_def split_beta call_serves_def alive_in_world) (auto simp: alive_run_def rs_id_def)

lemma env_serves_calls:
  assumes "env_serves i env"
  shows "call_serves i (pe_ingest env r owner)" "call_serves i (pe_save_blueprint env r b)"
    "call_serves i (pe_analyze env u p)" "call_serves i (pe_ai_plan env c)" "call_serves i (pe_reachable env us)"
    "call_serves i (pe_pages env us)" "call_serves i (pe_explore env u g)" "test_serves i (pe_run_test env e k st)"
    "call_serves i (pe_scan env pu a owner)" "call_serves i (pe_start_check env pr)"
    "call_serves i (pe_finish_check env ch vs)"
  using assms unfolding env_serves_def by blast+

text \<open>
  \<open>at_stage i K\<close>: the document is there, its stages have names, and only those in the first set of
  \<open>K\<close> may be pending, only those in the second running. \<open>runs i K f K'\<close>: from there the step ends and keeps
  the document however it ends, and with a value the stages are as \<open>K'\<close> allows.
\<close>

type_synonym open_stages = "string set \<times> string set"

definition opened :: "string \<Rightarrow> open_stages \<Rightarrow> open_stages" where
  "opened k K = (insert k (fst K), insert k (snd K))"

definition open_only :: "open_stages \<Rightarrow> (pyval \<times> pyval) list \<Rightarrow> bool" where
  "open_only K l \<longleftrightarrow>
     (\<forall>k v. (k, v) \<in> set l \<longrightarrow>
       (\<exists>n. k = PStr n \<and>
         (settled_status v \<or> v = PStr ''pending'' \<and> n \<in> fst K \<or> v = PStr ''running'' \<and> n \<in> snd K)))"

definition at_stage :: "int \<Rightarrow> open_stages \<Rightarrow> run_state \<Rightarrow> bool" where
  "at_stage i K s \<longleftrightarrow> alive_run i s \<and> open_only K (progress s)"

definition runs :: "int \<Rightarrow> open_stages \<Rightarrow> 'a step \<Rightarrow> open_stages \<Rightarrow> bool" where
  "runs i K f K' \<longleftrightarrow>
     (\<forall>s. at_stage i K s \<longrightarrow>
       ends (fst (f s)) \<and> alive_run i (snd (f s)) \<and> (\<forall>a s'. f s = (Value a, s') \<longrightarrow> at_stage i K' s'))"

lemma settled_progress: "open_only ({}, {}) (progress s) \<Longrightarrow> settled (stage_entries s)"
  by (fastforce simp: settled_def open_only_def progress_def list_all_iff)

lemma mark_member: "(k', v) \<in> set (mark k st l) \<Longrightarrow>
    (k' = PStr k \<and> v = PStr st \<and> (\<exists>v0. (k', v0) \<in> set l)) \<or> (k' \<noteq> PStr k \<and> (k', v) \<in> set l)"
  by (auto simp: mark_def split: if_splits)

lemma open_only_mark_ended:
  assumes "open_only (opened k K) l" "st \<in> {''done'', ''failed'', ''skipped''}"
  shows "open_only K (mark k st l)"
  unfolding open_only_def
proof (intro allI impI)
  fix k' v assume "(k', v) \<in> set (mark k st l)"
  then consider "k' = PStr k" "v = PStr st" | "k' \<noteq> PStr k" "(k', v) \<in> set l" by (auto dest: mark_member)
  then show "\<exists>n. k' = PStr n \<and>
      (settled_status v \<or> v = PStr ''pending'' \<and> n \<in> fst K \<or> v = PStr ''running'' \<and> n \<in> snd K)"
  proof cases
    case 1
    then show ?thesis using assms(2) by (auto simp: settled_status_def)
  next
    case 2
    then show ?thesis using assms(1) by (auto simp: open_only_def opened_def)
  qed
qed

lemma open_only_mark_running:
  assumes "open_only (opened k K) l"
  shows "open_only (opened k K) (mark k ''running'' l)"
  unfolding open_only_def
proof (intro allI impI)
  fix k' v assume "(k', v) \<in> set (mark k ''running'' l)"
  then consider "k' = PStr k" "v = PStr ''running''" | "(k', v) \<in> set l" by (auto dest: mark_member)
  then show "\<exists>n. k' = PStr n \<and>
      (settled_status v \<or> v = PStr ''pending'' \<and> n \<in> fst (opened k K) \<or> v = PStr ''running'' \<and> n \<in> snd (opened k K))"
  proof cases
    case 2
    then show ?thesis using assms by (auto simp: open_only_def)
  qed (simp add: opened_def)
qed

lemma open_only_mono: "open_only K l \<Longrightarrow> fst K \<subseteq> fst K' \<Longrightarrow> snd K \<subseteq> snd K' \<Longrightarrow> open_only K' l"
  unfolding open_only_def by blast

lemma progress_same: "rs_doc s' = rs_doc s \<Longrightarrow> progress s' = progress s"
  by (simp add: progress_def stage_entries_def)

lemma progress_save: "''stages'' \<notin> fst ` set ch \<Longrightarrow> progress (save ch s) = progress s"
  by (simp add: progress_def stage_entries_def entries_of_def dict_get_merge_other)

lemma rs_doc_put_new [simp]: "rs_doc (snd (put_new c fs s)) = rs_doc s"
  by (simp add: put_new_def now_iso_def Let_def split_beta)

lemma at_stage_save:
  "at_stage i K s \<Longrightarrow> ''id'' \<notin> fst ` set ch \<Longrightarrow> ''stages'' \<notin> fst ` set ch \<Longrightarrow> at_stage i K (save ch s)"
  by (simp add: at_stage_def alive_save progress_save)

lemma at_stage_same_doc: "at_stage i K s \<Longrightarrow> alive_run i s' \<Longrightarrow> rs_doc s' = rs_doc s \<Longrightarrow> at_stage i K s'"
  by (simp add: at_stage_def progress_def stage_entries_def)

lemma at_stage_alive: "at_stage i K s \<Longrightarrow> alive_run i s"
  by (simp add: at_stage_def)

subsection \<open>Rules\<close>

lemma runs_next:
  assumes f: "runs i K f K'" and g: "\<And>a. runs i K' (g a) K''"
  shows "runs i K (and_next f g) K''"
  unfolding runs_def
proof (intro allI impI)
  fix s assume s: "at_stage i K s"
  obtain r s1 where r: "f s = (r, s1)" by fastforce
  with f s have "ends r" "alive_run i s1" "\<And>a. r = Value a \<Longrightarrow> at_stage i K' s1" unfolding runs_def by auto
  then show "ends (fst (and_next f g s)) \<and> alive_run i (snd (and_next f g s)) \<and>
      (\<forall>b s'. and_next f g s = (Value b, s') \<longrightarrow> at_stage i K'' s')"
    using g unfolding runs_def by (cases r) (auto simp: and_next_def r)
qed

lemma runs_keep:
  assumes "\<And>s. ends (fst (f s))" "\<And>s. alive_run i s \<Longrightarrow> alive_run i (snd (f s))" "\<And>s. rs_doc (snd (f s)) = rs_doc s"
  shows "runs i K f K"
  unfolding runs_def
proof (intro allI impI conjI)
  fix s assume s: "at_stage i K s"
  show "ends (fst (f s))" by (rule assms(1))
  show "alive_run i (snd (f s))" using s assms(2) at_stage_alive by blast
  then show "at_stage i K s'" if "f s = (Value a, s')" for a s'
    using at_stage_same_doc[OF s, of s'] assms(3)[of s] that by simp
qed

text \<open>A stage that is still pending is one that may be pending or running.\<close>

lemma at_stage_mono:
  assumes "at_stage i K s" "fst K \<subseteq> fst K'" "snd K \<subseteq> snd K'"
  shows "at_stage i K' s"
  using assms open_only_mono[of K "progress s" K'] by (simp add: at_stage_def)

lemma runs_mono:
  assumes "runs i K f K'" "fst L \<subseteq> fst K" "snd L \<subseteq> snd K"
  shows "runs i L f K'"
  using assms(1) at_stage_mono[OF _ assms(2,3)] unfolding runs_def by blast

lemma runs_from_pending: "runs i (opened k (P, R)) f K \<Longrightarrow> runs i (insert k P, R) f K"
  by (rule runs_mono) (auto simp: opened_def)

lemma runs_ret: "runs i K (ret a) K"
  by (rule runs_keep) (simp_all add: ret_def)

lemma runs_raise: "runs i K (raise_step m) K'"
  by (simp add: runs_def raise_step_def at_stage_def)

lemma runs_need: "runs i K (need crash v) K"
  by (cases v) (simp_all add: need_def runs_ret runs_raise)

lemma runs_look: "runs i K (look f) K"
  by (rule runs_keep) (simp_all add: look_def)

lemma runs_ask: "call_serves i c \<Longrightarrow> runs i K (ask c) K"
  by (intro runs_keep alive_ask) (simp_all add: ask_def Let_def split_beta call_serves_def)

lemma runs_save: "''id'' \<notin> fst ` set ch \<Longrightarrow> ''stages'' \<notin> fst ` set ch \<Longrightarrow> runs i K (act (save ch)) K"
  using at_stage_save[of i K _ ch] at_stage_alive[of i K] by (simp add: runs_def act_def)

lemma runs_running: "runs i (opened k K) (act (stage k ''running'' d)) (opened k K)"
  using open_only_mark_running[of k K]
  by (simp add: runs_def act_def at_stage_def alive_stage progress_stage)

lemma runs_ended:
  "st \<in> {''done'', ''failed'', ''skipped''} \<Longrightarrow> runs i (opened k K) (act (stage k st d)) K"
  using open_only_mark_ended[of k K _ st]
  by (simp add: runs_def act_def at_stage_def alive_stage progress_stage)

lemma runs_put_new: "runs i K (\<lambda>s. let (d, s') = put_new c fs s in (Value (f d), s')) K"
  by (rule runs_keep) (simp_all add: Let_def split_beta alive_put_new)

lemma alive_put_row: "alive_run i s \<Longrightarrow> alive_run i (snd (put_row c j ch s))"
  using alive_put[of i s c j ch] by (simp add: put_def)

lemma rs_doc_put_row [simp]: "rs_doc (snd (put_row c j ch s)) = rs_doc s"
  using rs_doc_put[of c j ch s] by (simp add: put_def)

end
