(* ===== verification/Pipeline_Progress.thy ===== *)
theory Pipeline_Progress
  imports Pipeline_Invariants
begin

text \<open>
  Every stage of a pipeline run keeps the run's document and leaves its own entry closed; the last
  one writes a document whose stages are all closed and whose status follows from its tests.
\<close>

lemma runs_keep_next: "runs i K f K \<Longrightarrow> (\<And>a. runs i K (g a) K') \<Longrightarrow> runs i K (and_next f g) K'"
  by (rule runs_next)

lemma runs_closed:
  "runs i (opened k K) (act (stage k ''done'' d)) K"
  "runs i (opened k K) (act (stage k ''failed'' d)) K"
  "runs i (opened k K) (act (stage k ''skipped'' d)) K"
  by (simp_all add: runs_ended)

lemmas step_runs = runs_closed[THEN runs_next] runs_keep_next runs_ret runs_raise runs_need runs_look runs_ask

lemma runs_if: "(b \<Longrightarrow> runs i K f K') \<Longrightarrow> (\<not> b \<Longrightarrow> runs i K g K') \<Longrightarrow> runs i K (if b then f else g) K'"
  by simp

lemma runs_case_option:
  "runs i K f K' \<Longrightarrow> (\<And>a. runs i K (g a) K') \<Longrightarrow> runs i K (case x of None \<Rightarrow> f | Some a \<Rightarrow> g a) K'"
  by (cases x) simp_all

lemma runs_case_sum:
  "(\<And>a. runs i K (f a) K') \<Longrightarrow> (\<And>b. runs i K (g b) K') \<Longrightarrow> runs i K (case x of Inl a \<Rightarrow> f a | Inr b \<Rightarrow> g b) K'"
  by (cases x) simp_all

lemma runs_case_prod: "(\<And>a b. runs i K (f a b) K') \<Longrightarrow> runs i K (case x of (a, b) \<Rightarrow> f a b) K'"
  by (cases x) simp

lemma runs_case_ingest:
  "(\<And>b. runs i K (f b) K') \<Longrightarrow> (\<And>m. runs i K (g m) K') \<Longrightarrow>
   runs i K (case x of Ingested b \<Rightarrow> f b | Source_Failure m \<Rightarrow> g m) K'"
  by (cases x) simp_all

lemma runs_case_scan:
  "(\<And>m. runs i K (f m) K') \<Longrightarrow> (\<And>m. runs i K (g m) K') \<Longrightarrow> (\<And>a b. runs i K (h a b) K') \<Longrightarrow>
   runs i K (case x of Out_Of_Scope m \<Rightarrow> f m | Scan_Failed m \<Rightarrow> g m | Scanned a b \<Rightarrow> h a b) K'"
  by (cases x) simp_all

lemmas runs_splits = runs_if runs_case_option runs_case_sum runs_case_prod runs_case_ingest runs_case_scan

section \<open>Codebase and planning\<close>

lemma runs_codebase:
  assumes "env_serves i env"
  shows "runs i (opened ''codebase'' K) (stage_codebase env project) K"
proof -
  have "runs i (opened ''codebase'' K) (ingest_repository env project latest) K" for latest
    unfolding ingest_repository_def Let_def
    by (intro runs_next[OF runs_running] step_runs runs_splits env_serves_calls[OF assms])
  then show ?thesis
    unfolding stage_codebase_def by (intro step_runs runs_splits)
qed

lemma runs_find_case: "runs i K (find_case env app ext) K"
  unfolding find_case_def by (intro step_runs)

lemma runs_create_test_case: "runs i K (create_test_case a ext name d c owner) K"
  by (rule runs_keep) (auto simp: create_test_case_def Let_def split_beta alive_put_new split: option.splits)

lemma runs_update_case: "runs i K (update_case env row ch) K"
  by (rule runs_keep)
     (auto simp: update_case_def Let_def split_beta need_def ret_def raise_step_def alive_put_row split: option.splits)

lemma runs_insert: "runs i K (\<lambda>s. case put_new c fs s of (d, s') \<Rightarrow> (Value d, s')) K"
  by (rule runs_keep) (simp_all add: split_beta alive_put_new)

lemmas row_runs = runs_find_case runs_create_test_case runs_update_case runs_insert

lemma runs_store_test: "runs i K (store_test env project app t) K"
  unfolding store_test_def Let_def by (intro step_runs runs_splits row_runs)

lemma runs_store_tests: "runs i K (store_tests env project app ts acc) K"
proof (induction ts arbitrary: acc)
  case (Cons t ts)
  show ?case unfolding store_tests.simps by (intro step_runs runs_splits runs_store_test Cons.IH)
qed (simp add: runs_ret)

lemma runs_save_recording: "runs i K (save_recording env project app ext row goal x) K"
  unfolding save_recording_def Let_def by (intro step_runs runs_splits row_runs)

lemma runs_explored_test:
  assumes "env_serves i env"
  shows "runs i K (explored_test env project app) K"
  unfolding explored_test_def Let_def
  by (intro step_runs runs_splits row_runs runs_save_recording env_serves_calls[OF assms])

lemma runs_find_application: "runs i K (find_application env project a) K"
  unfolding find_application_def Let_def by (intro step_runs runs_splits row_runs)

lemma runs_planned_tests:
  assumes "env_serves i env"
  shows "runs i K (planned_tests env project a blueprint) K"
  unfolding planned_tests_def Let_def other_pages_def
  by (intro step_runs runs_splits env_serves_calls[OF assms])

lemma runs_plan:
  assumes "env_serves i env"
  shows "runs i K (plan_run env project a blueprint) K"
  unfolding plan_run_def Let_def
  by (intro step_runs runs_splits runs_find_application runs_planned_tests[OF assms] runs_store_tests
      runs_explored_test[OF assms])

lemma runs_save_parts:
  "runs i K (act (save [(''goal_untested'', a), (''goal_untested_parts'', b)])) K"
  "runs i K (act (save [(''tests'', c)])) K"
  "runs i K (act (save [(''database'', d)])) K"
  by (rule runs_save; simp)+

lemma runs_plan_stage:
  assumes "env_serves i env"
  shows "runs i (opened ''plan'' K) (plan_stage env project a blueprint) K"
  unfolding plan_stage_def
  by (intro runs_next[OF runs_running] step_runs runs_splits runs_plan[OF assms] runs_save_parts)

section \<open>Tests, healing, security\<close>

lemma runs_create_execution: "runs i K (create_execution tc owner) K"
  by (rule runs_keep) (auto simp: create_execution_def Let_def split_beta alive_put_new split: option.splits)

lemma runs_run_one:
  assumes "env_serves i env"
  shows "runs i K (run_one env e keep st) K"
proof (rule runs_keep)
  fix s
  have call: "test_serves i (pe_run_test env (row_id e) keep st)" by (rule env_serves_calls(8)[OF assms])
  let ?r = "fst (fst (pe_run_test env (row_id e) keep st (world_of s)))"
  have r: "ends ?r" using call by (simp add: test_serves_def call_serves_def)
  show "ends (fst (run_one env e keep st s))"
    using r by (cases ?r) (simp_all add: run_one_def Let_def split_beta)
  show "rs_doc (snd (run_one env e keep st s)) = rs_doc s"
    by (simp add: run_one_def Let_def split_beta split: outcome.split)
  assume s: "alive_run i s"
  let ?s = "in_world (snd (pe_run_test env (row_id e) keep st (world_of s))) s"
  have "alive_run i ?s"
    using s call by (intro alive_in_world) (auto simp: test_serves_def call_serves_def alive_run_def)
  then show "alive_run i (snd (run_one env e keep st s))"
    by (simp add: run_one_def Let_def split_beta alive_put split: outcome.split)
qed

lemma runs_run_tests:
  assumes "env_serves i env"
  shows "runs i (opened ''execute'' K) (run_tests env owner sign_in n idx tcs results session) (opened ''execute'' K)"
proof (induction tcs arbitrary: idx results session)
  case (Cons tc tcs)
  show ?case
    unfolding run_tests.simps Let_def
    by (intro runs_next[OF runs_running] assms step_runs runs_splits runs_create_execution runs_run_one
        runs_save_parts Cons.IH)
qed (simp add: runs_ret)

lemma runs_test_stage:
  assumes "env_serves i env"
  shows "runs i (opened ''execute'' K) (test_stage env project tcs) K"
proof -
  have "runs i (opened ''execute'' K) (stage_execute env tcs owner sign_in) K" for owner sign_in
  proof -
    have "runs i (opened ''execute'' K)
        (act (stage ''execute'' (if counted_failures results \<noteq> 0 then ''failed'' else ''done'') d)) K" for results d
      by (cases "counted_failures results = 0") (simp_all add: runs_closed)
    then show ?thesis
      unfolding stage_execute_def Let_def
      by (intro runs_next[OF runs_running] runs_next[OF runs_run_tests[OF assms]] runs_next[where K' = K] runs_ret)
  qed
  note execute = this
  show ?thesis
    unfolding test_stage_def
    by (intro runs_next[OF runs_ask] runs_next[OF execute] step_runs runs_save_parts env_serves_calls[OF assms])
qed

lemma runs_stage_heal: "runs i (opened ''heal'' K) (stage_heal results) K"
  unfolding stage_heal_def by (rule runs_closed)

lemma runs_stage_security:
  assumes "env_serves i env"
  shows "runs i (opened ''security'' K) (stage_security env u owner active) K"
  unfolding stage_security_def Let_def
  by (intro runs_next[OF runs_running] step_runs runs_splits env_serves_calls[OF assms])

section \<open>The end of a run\<close>

definition runs_to :: "int \<Rightarrow> open_stages \<Rightarrow> unit step \<Rightarrow> (run_state \<Rightarrow> bool) \<Rightarrow> bool" where
  "runs_to i K f Q \<longleftrightarrow>
     (\<forall>s. at_stage i K s \<longrightarrow>
       ends (fst (f s)) \<and> alive_run i (snd (f s)) \<and> (\<forall>s'. f s = (Value (), s') \<longrightarrow> Q s'))"

lemma runs_to_next:
  assumes f: "runs i K f K'" and g: "\<And>a. runs_to i K' (g a) Q"
  shows "runs_to i K (and_next f g) Q"
  unfolding runs_to_def
proof (intro allI impI)
  fix s assume s: "at_stage i K s"
  obtain r s1 where r: "f s = (r, s1)" by fastforce
  with f s have "ends r" "alive_run i s1" "\<And>a. r = Value a \<Longrightarrow> at_stage i K' s1" unfolding runs_def by auto
  then show "ends (fst (and_next f g s)) \<and> alive_run i (snd (and_next f g s)) \<and>
      (\<forall>s'. and_next f g s = (Value (), s') \<longrightarrow> Q s')"
    using g unfolding runs_to_def by (cases r) (auto simp: and_next_def r)
qed

lemma runs_to_act: "(\<And>s. at_stage i K s \<Longrightarrow> alive_run i (f s) \<and> Q (f s)) \<Longrightarrow> runs_to i K (act f) Q"
  by (simp add: runs_to_def act_def)

text \<open>
  The stored document of a finished run: its stages are closed, its status is passed, failed or error,
  and passed or failed exactly as its tests say.
\<close>

definition verdict_ok :: "document \<Rightarrow> bool" where
  "verdict_ok d \<longleftrightarrow>
     status_of d = PStr ''error'' \<or>
     status_of d = PStr (if list_ex (\<lambda>r. test_failed r \<and> \<not> is_quarantined r) (entries_of ''tests'' d)
                         then ''failed'' else ''passed'')"

definition final_document :: "document \<Rightarrow> bool" where
  "final_document d \<longleftrightarrow> settled (entries_of ''stages'' d) \<and> verdict_ok d"

definition finished_run :: "int \<Rightarrow> run_state \<Rightarrow> bool" where
  "finished_run i s \<longleftrightarrow> (\<exists>d. fetch s pipeline_runs i = Some d \<and> final_document d)"

lemma counted_failures_zero: "counted_failures rs \<noteq> 0 \<longleftrightarrow> list_ex (\<lambda>r. test_failed r \<and> \<not> is_quarantined r) rs"
  by (auto simp: counted_failures_def count_if_def list_ex_iff filter_empty_conv)

text \<open>What a save leaves in the stored document.\<close>

lemma stored_save:
  assumes "alive_run i s"
  shows "\<exists>d. fetch s pipeline_runs i = Some d \<and>
    fetch (save ch s) pipeline_runs i = Some (merge_fields d (stamped (w_clock s 0) ch))"
  using assms by (auto simp: alive_run_def fetch_save)

lemma stored_stage:
  assumes "alive_run i s"
  shows "\<exists>d. fetch (stage k st detail s) pipeline_runs i = Some d \<and>
    dict_get d ''stages'' = entries_value (stage_entries (stage k st detail s))"
proof -
  let ?m = "mark_entries k (st = ''running'') (st \<in> {''done'', ''failed'', ''skipped''}) st detail (stage_entries s) s"
  have "alive_run i (snd ?m)" by (rule alive_same[OF assms]) simp_all
  from stored_save[OF this, of "[(''stages'', entries_value (fst ?m))]"]
  obtain d where d: "fetch (save [(''stages'', entries_value (fst ?m))] (snd ?m)) pipeline_runs i =
      Some (merge_fields d (stamped (w_clock (snd ?m) 0) [(''stages'', entries_value (fst ?m))]))"
    by blast
  have "stage_entries (stage k st detail s) = fst ?m"
    unfolding stage_entries_def
    by (rule entries_of_value) (simp add: stage_def stage_entries_def Let_def split_beta dict_get_merge)
  then show ?thesis using d by (simp add: stage_def Let_def split_beta dict_get_merge)
qed

text \<open>A save that writes neither the stages nor the id leaves the stored stages alone.\<close>

lemma stored_keeps_stages:
  assumes "fetch s pipeline_runs i = Some d" "rs_id s = i" "''stages'' \<notin> fst ` set ch" "''id'' \<notin> fst ` set ch"
  shows "fetch (save ch s) pipeline_runs i = Some (merge_fields d (stamped (w_clock s 0) ch)) \<and>
    dict_get (merge_fields d (stamped (w_clock s 0) ch)) ''stages'' = dict_get d ''stages'' \<and>
    stage_entries (save ch s) = stage_entries s"
proof -
  have "map_of (rev ch) ''stages'' = None" using assms(3) by (simp add: map_of_eq_None_iff)
  then show ?thesis using assms
    by (simp add: fetch_save dict_get_merge stage_entries_def entries_of_def)
qed

lemma finish_project_fetch [simp]: "fetch (finish_project p s) pipeline_runs i = fetch s pipeline_runs i"
  by (simp add: finish_project_def Let_def split_beta fetch_put)

lemma finish_project_doc [simp]: "rs_doc (finish_project p s) = rs_doc s"
  by (simp add: finish_project_def Let_def split_beta)

lemma finished_end_run:
  assumes "alive_run i s"
  shows "finished_run i (end_run error s)"
proof -
  let ?e = "end_entries error (stage_entries s) s" and ?s2 = "snd (now_iso (snd (end_entries error (stage_entries s) s)))"
  let ?ch = "[(''stages'', entries_value (fst ?e)), (''status'', PStr ''error''), (''error'', PStr error),
     (''finished_at'', PStr (fst (now_iso (snd ?e))))]"
  have "alive_run i ?s2"
    using alive_same[OF assms, of "snd ?e"] by (simp add: end_entries_same end_entries_doc)
  from stored_save[OF this, of ?ch]
  obtain d where d: "fetch (save ?ch ?s2) pipeline_runs i = Some (merge_fields d (stamped (w_clock ?s2 0) ?ch))" by blast
  have "fetch (end_run error s) pipeline_runs i = fetch (save ?ch ?s2) pipeline_runs i"
    by (auto simp: end_run_def Let_def split_beta split: option.split)
  moreover have "final_document (merge_fields d (stamped t ?ch))" for t
  proof -
    have "entries_of ''stages'' (merge_fields d (stamped t ?ch)) = fst ?e"
      by (rule entries_of_value) (simp add: dict_get_merge)
    then show ?thesis
      by (simp add: final_document_def verdict_ok_def status_of_def dict_get_merge end_entries_settled)
  qed
  ultimately show ?thesis by (simp add: finished_run_def d)
qed

lemma alive_end_run: "alive_run i s \<Longrightarrow> alive_run i (end_run error s)"
proof -
  assume s: "alive_run i s"
  let ?e = "end_entries error (stage_entries s) s"
  have "alive_run i (snd (now_iso (snd ?e)))"
    using alive_same[OF s, of "snd ?e"] by (simp add: end_entries_same end_entries_doc)
  then show ?thesis
    by (auto simp: end_run_def Let_def split_beta intro!: alive_finish_project alive_save split: option.split)
qed

lemma finished_finish_error:
  assumes "fetch s pipeline_runs i = Some d" "rs_id s = i" "settled (entries_of ''stages'' d)"
  shows "finished_run i (finish_error error s)"
proof -
  let ?s = "snd (now_iso s)"
  let ?ch = "[(''status'', PStr ''error''), (''error'', PStr error), (''finished_at'', PStr (fst (now_iso s)))]"
  have "fetch ?s pipeline_runs i = Some d" "rs_id ?s = i" using assms by (simp_all add: rs_id_def)
  from stored_keeps_stages[OF this, of ?ch] assms(3)
  show ?thesis
    by (simp add: finished_run_def finish_error_def Let_def split_beta final_document_def verdict_ok_def status_of_def
        dict_get_merge entries_of_def)
qed

text \<open>After a stage is marked, and stages skipped, the stored stages are those of the copy.\<close>

definition stored_stages :: "int \<Rightarrow> run_state \<Rightarrow> bool" where
  "stored_stages i s \<longleftrightarrow>
     (\<exists>d. fetch s pipeline_runs i = Some d \<and> dict_get d ''stages'' = entries_value (stage_entries s))"

lemma stored_stages_stage: "alive_run i s \<Longrightarrow> stored_stages i (stage k st detail s)"
  unfolding stored_stages_def by (rule stored_stage)

lemma stored_stages_fold:
  assumes "alive_run i s" "stored_stages i s \<or> es \<noteq> []"
  shows "stored_stages i (fold (\<lambda>e. stage (f e) st detail) es s)"
  using assms
proof (induction es arbitrary: s)
  case (Cons e es)
  show ?case unfolding fold_simps
    using Cons.IH[OF alive_stage[OF Cons.prems(1)]] stored_stages_stage[OF Cons.prems(1)] by blast
qed simp

lemma finished_from_stored:
  assumes "stored_stages i s" "alive_run i s" "settled (stage_entries s)"
  shows "finished_run i (finish_error error s)"
proof -
  obtain d where d: "fetch s pipeline_runs i = Some d" "dict_get d ''stages'' = entries_value (stage_entries s)"
    using assms(1) by (auto simp: stored_stages_def)
  have "entries_of ''stages'' d = stage_entries s" using d(2) by (rule entries_of_value)
  then show ?thesis using finished_finish_error[OF d(1)] assms(2,3) by (simp add: alive_run_def)
qed

lemma progress_fold_stage:
  "progress (fold (\<lambda>e. stage (f e) st detail) es s) = fold (\<lambda>e. mark (f e) st) es (progress s)"
  by (induction es arbitrary: s) (simp_all add: progress_stage)

lemma open_only_fold_skip:
  "open_only (set (map f es), {}) l \<Longrightarrow> open_only ({}, {}) (fold (\<lambda>e. mark (f e) ''skipped'') es l)"
proof (induction es arbitrary: l)
  case (Cons e es)
  have "open_only (opened (f e) (set (map f es), {})) l"
    using Cons.prems by (rule open_only_mono) (simp_all add: opened_def)
  then have "open_only (set (map f es), {}) (mark (f e) ''skipped'' l)" by (rule open_only_mark_ended) simp
  then show ?case using Cons.IH by simp
qed simp

lemma skip_rest_settled:
  assumes "at_stage i (P, {}) s"
  shows "settled (stage_entries (skip_rest reason s))"
proof -
  let ?es = "filter (\<lambda>e. status_of e = PStr ''pending'') (stage_entries s)"
  have l: "open_only (P, {}) (progress s)" using assms by (simp add: at_stage_def)
  have "open_only (set (map entry_key ?es), {}) (progress s)"
    unfolding open_only_def
  proof (intro allI impI)
    fix k v assume kv: "(k, v) \<in> set (progress s)"
    then obtain e where e: "e \<in> set (stage_entries s)" "k = dict_get e ''key''" "v = status_of e"
      by (auto simp: progress_def)
    obtain n where n: "k = PStr n" "settled_status v \<or> v = PStr ''pending''"
      using l kv by (auto simp: open_only_def)
    have "n \<in> set (map entry_key ?es)" if "v = PStr ''pending''"
    proof -
      have key: "entry_key e = n" using n e(2) by (simp add: entry_key_def)
      have "e \<in> set ?es" using e that by simp
      then have "entry_key e \<in> set (map entry_key ?es)" unfolding set_map by (rule imageI)
      then show ?thesis unfolding key .
    qed
    then show "\<exists>n. k = PStr n \<and>
        (settled_status v \<or> v = PStr ''pending'' \<and> n \<in> fst (set (map entry_key ?es), {}) \<or>
         v = PStr ''running'' \<and> n \<in> snd (set (map entry_key ?es), {}))"
      using n unfolding fst_conv by blast
  qed
  then have "open_only ({}, {}) (progress (skip_rest reason s))"
    unfolding skip_rest_def progress_fold_stage by (rule open_only_fold_skip)
  then show ?thesis by (rule settled_progress)
qed

end
