(* ===== verification/Pipeline_Properties.thy ===== *)
theory Pipeline_Properties
  imports Pipeline_Progress Pipeline_Samples
begin

text \<open>
  A pipeline run ends: however its stages go, the document it leaves says passed, failed or error, and
  no stage is left open.
\<close>

section \<open>The three ends of the stages\<close>

lemma finished_other:
  assumes "finished_run i s" "fetch s' pipeline_runs i = fetch s pipeline_runs i"
  shows "finished_run i s'"
  using assms by (simp add: finished_run_def)

lemma at_stage_ended:
  "at_stage i (opened k K) s \<Longrightarrow> st \<in> {''done'', ''failed'', ''skipped''} \<Longrightarrow> at_stage i K (stage k st d s)"
  using open_only_mark_ended[of k K "progress s" st] by (simp add: at_stage_def alive_stage progress_stage)

lemma finished_audited:
  assumes "alive_run i s \<and> finished_run i s"
  shows "alive_run i (record_audit a k m l r own (finish_project p s)) \<and>
    finished_run i (record_audit a k m l r own (finish_project p s))"
  using assms by (simp add: alive_record_audit alive_finish_project finished_run_def)

lemma finished_write_report:
  assumes "at_stage i (opened ''report'' ({}, {})) s"
  shows "alive_run i (write_report env project results regressions t narrative s) \<and>
    finished_run i (write_report env project results regressions t narrative s)"
proof -
  define s1 where "s1 = stage ''report'' ''done'' (Some (report_note t regressions (pe_database_line env (rt_database t)))) s"
  define s2 where "s2 = snd (now_iso s1)"
  define ch where "ch = [(''status'', PStr (run_status results)), (''summary'', totals_value t narrative),
      (''regressions'', entries_value regressions), (''tests'', entries_value results),
      (''finished_at'', PStr (fst (now_iso s1)))]"
  have at1: "at_stage i ({}, {}) s1" unfolding s1_def by (rule at_stage_ended[OF assms]) simp
  obtain d where d: "fetch s1 pipeline_runs i = Some d" "dict_get d ''stages'' = entries_value (stage_entries s1)"
    using stored_stage[OF at_stage_alive[OF assms]] unfolding s1_def by blast
  have stages: "entries_of ''stages'' d = stage_entries s1" using d(2) by (rule entries_of_value)
  have settled: "settled (stage_entries s1)" using at1 by (intro settled_progress) (simp add: at_stage_def)
  have alive2: "alive_run i s2" using at1 by (simp add: s2_def at_stage_def)
  have f2: "fetch s2 pipeline_runs i = Some d" "rs_id s2 = i" using d(1) alive2 by (simp_all add: s2_def alive_run_def)
  have keys: "''stages'' \<notin> fst ` set ch" "''id'' \<notin> fst ` set ch" by (simp_all add: ch_def)
  let ?d = "merge_fields d (stamped (w_clock s2 0) ch)"
  have stored: "fetch (save ch s2) pipeline_runs i = Some ?d" "dict_get ?d ''stages'' = dict_get d ''stages''"
    using stored_keeps_stages[OF f2 keys] by blast+
  have "entries_of ''tests'' ?d = results"
    by (rule entries_of_value) (simp add: dict_get_merge ch_def)
  moreover have "status_of ?d = PStr (run_status results)" by (simp add: status_of_def dict_get_merge ch_def)
  ultimately have "verdict_ok ?d"
    unfolding verdict_ok_def run_status_def counted_failures_zero by simp
  moreover have "settled (entries_of ''stages'' ?d)"
    using settled stages stored(2) by (simp add: entries_of_def)
  ultimately have fin: "finished_run i (save ch s2)" by (simp add: finished_run_def final_document_def stored(1))
  have alive3: "alive_run i (save ch s2)" by (rule alive_save[OF alive2 keys(2)])
  have w: "write_report env project results regressions t narrative s =
      (let s3 = save ch s2 in record_audit (dict_get (rs_doc s3) ''actor'') ''pipeline''
           (''Pipeline #'' @ show_int (rs_id s3) @ '' for '' @ pv_str (dict_get project ''name'') @ '': '' @
            show_nat (rt_passed t) @ ''/'' @ show_nat (rt_total t) @ '' passed'' @
            (if rt_healed t \<noteq> 0 then '', '' @ show_nat (rt_healed t) @ '' healed'' else []) @
            (if regressions \<noteq> [] then '', '' @ show_nat (length regressions) @ '' regression(s)'' else []))
           (if regressions \<noteq> [] \<or> counted_failures results \<noteq> 0 then ''error''
            else if rt_healed t \<noteq> 0 then ''warn'' else ''success'')
           (show_int (rs_id s3)) (dict_get project ''owner_uid'') (finish_project project s3))"
    unfolding write_report_def Let_def split_beta s2_def ch_def s1_def ..
  show ?thesis unfolding w Let_def
    by (rule finished_audited) (simp add: alive3 fin)
qed

lemma finished_skip_rest:
  assumes "at_stage i (P, {}) s" "stored_stages i s \<or> filter (\<lambda>e. status_of e = PStr ''pending'') (stage_entries s) \<noteq> []"
  shows "alive_run i (finish_error error (skip_rest reason s)) \<and> finished_run i (finish_error error (skip_rest reason s))"
proof -
  have alive: "alive_run i s" using assms(1) by (rule at_stage_alive)
  have "stored_stages i (skip_rest reason s)"
    unfolding skip_rest_def by (rule stored_stages_fold[OF alive assms(2)])
  moreover have "alive_run i (skip_rest reason s)" using alive by (rule alive_skip_rest)
  ultimately show ?thesis
    using finished_from_stored skip_rest_settled[OF assms(1)] alive_finish_error by blast
qed

lemma finished_not_loaded:
  assumes "at_stage i (opened ''analyze'' (P, {})) s"
  shows "alive_run i (not_loaded project app_url a s) \<and> finished_run i (not_loaded project app_url a s)"
proof -
  have "at_stage i (P, {}) (stage ''analyze'' ''failed'' d s)" for d by (rule at_stage_ended[OF assms]) simp
  then show ?thesis
    unfolding not_loaded_def Let_def
    by (rule finished_audited[OF finished_skip_rest]) (simp add: stored_stages_stage[OF at_stage_alive[OF assms]])
qed

section \<open>All stages\<close>

lemma runs_to_report:
  "runs_to i (opened ''report'' ({}, {})) (report_run env project results security) (finished_run i)"
  unfolding report_run_def Let_def
  by (intro runs_to_next[OF runs_running] runs_to_next[OF runs_look] runs_to_next[OF runs_need] runs_to_act
      finished_write_report)

lemma runs_to_mono:
  assumes "runs_to i K f Q" "fst L \<subseteq> fst K" "snd L \<subseteq> snd K"
  shows "runs_to i L f Q"
  using assms(1) at_stage_mono[OF _ assms(2,3)] unfolding runs_to_def by blast

lemma runs_to_after_load:
  assumes "env_serves i env"
  shows "runs_to i (opened ''analyze'' ({''plan'', ''execute'', ''heal'', ''security'', ''report''}, {}))
    (stages_after_load env project app_url a blueprint) (finished_run i)"
  unfolding stages_after_load_def
  by (rule runs_to_next[OF runs_closed(1)] runs_to_next[OF runs_from_pending[OF runs_plan_stage[OF assms]]]
      runs_to_next[OF runs_from_pending[OF runs_test_stage[OF assms]]]
      runs_to_next[OF runs_from_pending[OF runs_stage_heal]]
      runs_to_next[OF runs_from_pending[OF runs_stage_security[OF assms]]]
      runs_to_mono[OF runs_to_report] | simp add: opened_def)+

abbreviation stage_keys :: "string set" where
  "stage_keys \<equiv> {''codebase'', ''analyze'', ''plan'', ''execute'', ''heal'', ''security'', ''report''}"

lemma runs_to_stages:
  assumes "env_serves i env" "pv_true (dict_get project ''app_url'')"
  shows "runs_to i (stage_keys, {}) (execute_stages env project) (finished_run i)"
proof -
  have "runs_to i (opened ''analyze'' ({''plan'', ''execute'', ''heal'', ''security'', ''report''}, {}))
      (if pa_success a then stages_after_load env project app_url a blueprint else act (not_loaded project app_url a))
      (finished_run i)" for a app_url blueprint
    using runs_to_after_load[OF assms(1)] by (simp add: runs_to_act finished_not_loaded)
  note rest = this
  show ?thesis
    unfolding execute_stages_def Let_def
    using assms(2)
    by (simp, intro runs_to_next[OF runs_from_pending[OF runs_codebase[OF assms(1)]]]
        runs_to_next[OF runs_from_pending[OF runs_running]] runs_to_next[OF runs_ask] env_serves_calls[OF assms(1)] rest)
qed

section \<open>Tests\<close>

lemma and_next_Value_iff:
  "and_next f g s = (Value b, s') \<longleftrightarrow> (\<exists>a s1. f s = (Value a, s1) \<and> g a s1 = (Value b, s'))"
  unfolding and_next_def by (auto split: prod.splits outcome.splits)





















section \<open>Planned rows\<close>

lemma updated_case:
  assumes "update_case env row ch s = (Value r, s')"
  shows "\<exists>d now. fetch s test_cases (row_id row) = Some d \<and> r = merge_fields d (stamped now ch)"
  using assms
  by (auto simp: update_case_def put_row_def doc_update_def need_def ret_def raise_step_def now_iso_def Let_def
      split_beta fetch_def split: option.splits)

definition planned_as :: "pipeline_env \<Rightarrow> document \<Rightarrow> suite_test \<Rightarrow> document \<Rightarrow> bool" where
  "planned_as env project t row \<longleftrightarrow>
     dict_get row ''name'' = PStr (row_name t) \<and> dict_get row ''description'' = PStr (suite_description env project t)"

lemmas field_simps = dict_get_merge stamped_def merge_fields_def is_quarantined_def planned_as_def

lemma created_case:
  assumes "create_test_case app_id ext name description category owner s = (Value row, s')"
  shows "dict_get row ''name'' = PStr name" "dict_get row ''description'' = PStr description"
  using assms
  by (auto simp: create_test_case_def put_new_def doc_insert_def doc_create_def Let_def split_beta field_simps
      now_iso_def dict_get_def split: option.splits)

lemma created_case_stored:
  assumes "create_test_case app_id ext name description category owner s = (Value row, s')"
  shows "fetch s' test_cases (row_id row) = Some row"
  using assms
  by (auto simp: create_test_case_def Let_def split_beta fetch_put_new row_id_put_new split: option.splits)

lemma found_case:
  "find_case env app ext s = (Value found, s1) \<Longrightarrow>
   s1 = s \<and> doc_find_one (w_db s) test_cases
     [(''application_id'', dict_get app ''id''), (''external_id'', PStr ext)] = Some found"
  by (auto simp: find_case_def and_next_Value_iff look_def need_def ret_def raise_step_def split: option.splits)

text \<open>
  C16: A planned test is stored under the name and the steps it was planned with, and a test a model
  wrote starts quarantined: unless exactly these steps are already stored for its id, the row the run
  executes is quarantined, so its failure cannot fail the run before a person trusts it.
\<close>

theorem new_ai_tests_quarantined:
  assumes "store_test env project app t s = (Value (row, new), s')"
  shows "dict_get row ''name'' = PStr (row_name t) \<and>
    dict_get row ''description'' = PStr (suite_description env project t) \<and>
    (is_ai t \<longrightarrow> is_quarantined row \<or>
      (\<exists>old. doc_find_one (w_db s) test_cases
               [(''application_id'', dict_get app ''id''), (''external_id'', PStr (external_id project (su_slug t)))] =
             Some (Some old) \<and> dict_get old ''description'' = PStr (suite_description env project t)))"
proof -
  obtain found where f: "find_case env app (external_id project (su_slug t)) s = (Value found, s)"
    using assms found_case by (fastforce simp: store_test_def Let_def and_next_Value_iff)
  note stored = found_case[OF f]
  show ?thesis
  proof (cases found)
    case None
    then obtain row0 s1 where r: "create_test_case (dict_get app ''id'') (external_id project (su_slug t)) (row_name t)
        (suite_description env project t) (su_category t) (dict_get project ''owner_uid'') s = (Value row0, s1)"
      and rest: "(if is_ai t then \<exists>s2. update_case env row0 [(''quarantined'', PBool True)] s1 = (Value row, s2) else row = row0)"
      using assms f by (auto simp: store_test_def Let_def and_next_Value_iff ret_def split: if_splits)
    have p: "planned_as env project t row0" using created_case[OF r] by (simp add: planned_as_def)
    show ?thesis
    proof (cases "is_ai t")
      case True
      then obtain now where "row = merge_fields row0 (stamped now [(''quarantined'', PBool True)])"
        using rest updated_case created_case_stored[OF r] by fastforce
      then show ?thesis using p by (simp add: field_simps)
    qed (use rest p in \<open>simp add: planned_as_def\<close>)
  next
    case (Some old)
    then show ?thesis
      using assms f stored
      by (auto simp: store_test_def Let_def and_next_Value_iff ret_def need_def raise_step_def field_simps
          dest!: updated_case split: if_splits option.splits)
  qed
qed

lemma stored_ai_test:
  "case fst (store_test sample_pipeline_env shop [(''id'', PInt 1)] sample_ai_test app_state) of
     Value (row, new) \<Rightarrow> new | _ \<Rightarrow> False"
  by code_simp

theorem new_ai_tests_quarantined_witness:
  "\<exists>row s'. store_test sample_pipeline_env shop [(''id'', PInt 1)] sample_ai_test app_state = (Value (row, True), s') \<and>
     dict_get row ''name'' = PStr ''AI: buy'' \<and> is_quarantined row"
proof -
  obtain row s' where run: "store_test sample_pipeline_env shop [(''id'', PInt 1)] sample_ai_test app_state =
      (Value (row, True), s')"
    using stored_ai_test by (cases "store_test sample_pipeline_env shop [(''id'', PInt 1)] sample_ai_test app_state")
      (auto split: outcome.splits)
  have "is_ai sample_ai_test" "PStr (row_name sample_ai_test) = PStr ''AI: buy''" by code_simp+
  moreover have "doc_find_one (w_db app_state) test_cases
      [(''application_id'', PInt 1), (''external_id'', PStr (external_id shop (su_slug sample_ai_test)))] = Some None"
    by code_simp
  moreover have "dict_get [(''id'', PInt 1)] ''id'' = PInt 1" by code_simp
  ultimately show ?thesis using new_ai_tests_quarantined[OF run] run by auto
qed

section \<open>Executing a run\<close>

lemma and_next_value: "f s = (Value a, s') \<Longrightarrow> and_next f g s = g a s'"
  by (simp add: and_next_def)

lemma guarded_run:
  assumes "env_serves i (pipeline_env.truncate env)" "at_stage i (stage_keys, {}) s"
    "stage_entries s = map pending_entry pipeline_stages"
  shows "\<exists>s'. run_guarded env project s = (Value (), s') \<and> finished_run i s'"
proof -
  let ?env = "pipeline_env.truncate env"
  obtain r s1 where r: "execute_stages ?env project s = (r, s1)" by fastforce
  have "ends r \<and> alive_run i s1 \<and> (r = Value () \<longrightarrow> finished_run i s1)"
  proof (cases "pv_true (dict_get project ''app_url'')")
    case True
    then show ?thesis using runs_to_stages[OF assms(1)] assms(2) r by (fastforce simp: runs_to_def)
  next
    case False
    have "filter (\<lambda>e. status_of e = PStr ''pending'') (stage_entries s) \<noteq> []"
      by (simp add: assms(3) pipeline_stages_def pending_entry_def status_of_def dict_get_def)
    then have "alive_run i (no_app_url s) \<and> finished_run i (no_app_url s)"
      unfolding no_app_url_def by (rule finished_skip_rest[OF assms(2) disjI2])
    then show ?thesis using False r by (auto simp: execute_stages_def act_def)
  qed
  then show ?thesis by (cases r) (auto simp: run_guarded_def r finished_end_run)
qed

text \<open>A run as it was created.\<close>

definition fresh_run :: "int \<Rightarrow> document \<Rightarrow> bool" where
  "fresh_run i run \<longleftrightarrow> row_id run = i \<and> entries_of ''stages'' run = map pending_entry pipeline_stages"

lemma fresh_open: "open_only (stage_keys, {}) (map (\<lambda>e. (dict_get e ''key'', status_of e)) (map pending_entry pipeline_stages))"
  by (auto simp: open_only_def pipeline_stages_def pending_entry_def status_of_def dict_get_def)

lemma fresh_at_stage:
  assumes "alive_run i s" "stage_entries s = map pending_entry pipeline_stages"
  shows "at_stage i (stage_keys, {}) s"
  unfolding at_stage_def progress_def assms(2) using assms(1) fresh_open by simp

definition deleted_error :: pyval where
  "deleted_error = PStr ''The project was deleted.''"

definition run_outcome_ok :: "document \<Rightarrow> bool" where
  "run_outcome_ok d \<longleftrightarrow> verdict_ok d \<and> (settled (entries_of ''stages'' d) \<or> dict_get d ''error'' = deleted_error)"

lemma locked_run:
  assumes "env_serves i (pipeline_env.truncate env)"
    "alive_run i s" "stage_entries s = map pending_entry pipeline_stages"
  shows "\<exists>d s'. fetch s' pipeline_runs i = Some d \<and> run_outcome_ok d \<and>
    (run_locked env i run s = (Value (Some d), s') \<or>
     (\<exists>project. run_locked env i run s = and_next (after_run env project (Some d)) (\<lambda>_. ret (Some d)) s'))"
proof (cases "fetch s projects (as_int (dict_get run ''project_id''))")
  case None
  define s1 where "s1 = snd (now_iso s)"
  define ch where "ch = [(''status'', PStr ''error''), (''error'', deleted_error), (''finished_at'', PStr (fst (now_iso s)))]"
  have "alive_run i s1" using assms(2) by (simp add: s1_def)
  from stored_save[OF this, of ch] obtain d where
    d: "fetch (save ch s1) pipeline_runs i = Some (merge_fields d (stamped (w_clock s1 0) ch))" by blast
  have "run_locked env i run s = (Value (fetch (save ch s1) pipeline_runs i), save ch s1)"
    unfolding run_locked_def None finish_error_def Let_def split_beta s1_def ch_def deleted_error_def by simp
  moreover have "run_outcome_ok (merge_fields d (stamped (w_clock s1 0) ch))"
    by (simp add: run_outcome_ok_def verdict_ok_def status_of_def dict_get_merge ch_def)
  ultimately show ?thesis using d by metis
next
  case (Some project)
  define s1 where "s1 = save [(''status'', PStr ''running''), (''started_at'', PStr (fst (now_iso s)))] (snd (now_iso s))"
  have alive: "alive_run i s1" unfolding s1_def by (rule alive_save) (simp_all add: assms(2))
  have "stage_entries s1 = map pending_entry pipeline_stages"
    using assms(3) by (simp add: s1_def stage_entries_def entries_of_def dict_get_merge)
  from guarded_run[OF assms(1) fresh_at_stage[OF alive this] this, of project]
  obtain s2 d where s2: "run_guarded env project s1 = (Value (), s2)"
    and d: "fetch s2 pipeline_runs i = Some d" "final_document d" unfolding finished_run_def by blast
  have guarded: "and_next (run_guarded env project) g s1 = g () s2" for g :: "unit \<Rightarrow> document option step"
    using s2 by (rule and_next_value)
  have "run_locked env i run s = and_next (run_guarded env project) (\<lambda>_ s.
      let finished = fetch s pipeline_runs i in and_next (after_run env project finished) (\<lambda>_. ret finished) s) s1"
    unfolding run_locked_def Some option.case
    by (rule and_next_value) (simp add: act_def s1_def split_beta Let_def)
  also have "\<dots> = and_next (after_run env project (Some d)) (\<lambda>_. ret (Some d)) s2"
    unfolding guarded Let_def d(1) ..
  finally show ?thesis using d by (auto simp: run_outcome_ok_def final_document_def)
qed

text \<open>
  C3: Executing a queued run leaves its final document: if the calls of the environment come back
  (with whatever answer, exception or outage) and leave the run's document in the store, the stored run
  is passed, failed or error; passed and failed exactly as its unquarantined tests say; and no stage is
  left pending or running, unless the project was deleted before the run started. That document is
  returned, once the notification, the commit status, the deploy and the next push have been seen to.
\<close>

theorem pipeline_run_settles:
  assumes "env_serves i (pipeline_env.truncate env)" "\<And>w. fst (re_lock env w) = Value ()" "call_serves i (re_lock env)"
    "fetch w pipeline_runs i = Some run" "fresh_run i run" "status_of run \<noteq> PStr ''cancelled''"
  shows "\<exists>d s. fetch s pipeline_runs i = Some d \<and>
    (status_of d = PStr ''error'' \<or>
     status_of d = PStr (if list_ex (\<lambda>r. test_failed r \<and> \<not> is_quarantined r) (entries_of ''tests'' d)
                         then ''failed'' else ''passed'')) \<and>
    (list_all (\<lambda>e. status_of e \<notin> {PStr ''pending'', PStr ''running''}) (entries_of ''stages'' d) \<or>
     dict_get d ''error'' = PStr ''The project was deleted.'') \<and>
    (execute_run env i w = (Value (Some d), world_of s) \<or>
     (\<exists>project. execute_run env i w = apsnd world_of (and_next (after_run env project (Some d)) (\<lambda>_. ret (Some d)) s)))"
proof -
  let ?s = "run_state_of w run"
  obtain s1 where lock: "ask (re_lock env) ?s = (Value (), s1)"
    using assms(2)[of "world_of ?s"] by (auto simp: ask_def Let_def split_beta)
  have "alive_run i ?s" using assms(4,5) by (simp add: alive_run_def rs_id_def fresh_run_def run_state_of_def fetch_def)
  from alive_ask[OF assms(3) this] have alive: "alive_run i s1" by (simp add: lock)
  have "rs_doc s1 = run" using lock by (auto simp: ask_def Let_def split_beta run_state_of_def)
  then have "stage_entries s1 = map pending_entry pipeline_stages"
    using assms(5) by (simp add: stage_entries_def fresh_run_def)
  from locked_run[OF assms(1) alive this, of run]
  obtain d s2 where d: "fetch s2 pipeline_runs i = Some d" "run_outcome_ok d"
    "run_locked env i run s1 = (Value (Some d), s2) \<or>
     (\<exists>project. run_locked env i run s1 = and_next (after_run env project (Some d)) (\<lambda>_. ret (Some d)) s2)" by blast
  have "execute_run env i w = apsnd world_of (run_locked env i run s1)"
    using assms(4,6) lock by (simp add: execute_run_def and_next_def[of "ask (re_lock env)"])
  with d have "execute_run env i w = (Value (Some d), world_of s2) \<or>
      (\<exists>project. execute_run env i w = apsnd world_of (and_next (after_run env project (Some d)) (\<lambda>_. ret (Some d)) s2))"
    by auto
  with d(1,2) show ?thesis
    unfolding run_outcome_ok_def verdict_ok_def settled_def settled_status_def deleted_error_def by blast
qed

lemma serves_still [simp]: "call_serves i (still a)"
  by (simp add: call_serves_def still_def)

lemma sample_env_serves: "env_serves i (pipeline_env.truncate sample_run_env)"
  by (simp add: env_serves_def test_serves_def call_serves_def sample_run_env_def sample_pipeline_env_def
      pipeline_env.defs still_def)

lemma pipeline_run_settles_witness:
  "\<exists>d s. fetch s pipeline_runs 1 = Some d \<and>
    (status_of d = PStr ''error'' \<or>
     status_of d = PStr (if list_ex (\<lambda>r. test_failed r \<and> \<not> is_quarantined r) (entries_of ''tests'' d)
                         then ''failed'' else ''passed'')) \<and>
    (execute_run sample_run_env 1 queued_world = (Value (Some d), world_of s) \<or>
     (\<exists>project. execute_run sample_run_env 1 queued_world =
        apsnd world_of (and_next (after_run sample_run_env project (Some d)) (\<lambda>_. ret (Some d)) s)))"
proof -
  have run: "fetch queued_world pipeline_runs 1 = Some queued_run" "fresh_run 1 queued_run"
    "status_of queued_run \<noteq> PStr ''cancelled''"
    by code_simp+
  have lock: "re_lock sample_run_env = still ()" by (simp add: sample_run_env_def pipeline_env.defs)
  have "fst (re_lock sample_run_env w) = Value ()" "call_serves 1 (re_lock sample_run_env)" for w
    unfolding lock by (simp_all add: still_def[of "()"] serves_still)
  from pipeline_run_settles[OF sample_env_serves this run] show ?thesis by blast
qed

end
