(* ===== verification/Deploy_Properties.thy ===== *)
theory Deploy_Properties
  imports Pipeline_Invariants Pipeline_Samples
begin

text \<open>
  A deployment ends, and one that ends verified was accepted by its hook, answered healthily as often in
  a row as asked, and failed no smoke test.

  \<open>deploys i c c' P f Q\<close>: from a document of which \<open>P\<close> holds, the step ends, leaves the stored
  document as the copy is, and \<open>Q\<close> holds when it ends with a value. \<open>c\<close> and \<open>c'\<close> give the
  applications and test cases of the store before and after, where they are to be known: until the smoke
  tests have been chosen.
\<close>

section \<open>The stored deployment and its copy\<close>

definition case_tables :: "doc_store \<Rightarrow> doc_table \<times> doc_table" where
  "case_tables db = (doc_table db applications, doc_table db test_cases)"



lemma case_tables_other [simp]:
  "c \<noteq> applications \<Longrightarrow> c \<noteq> test_cases \<Longrightarrow> case_tables (w_db (put c j ch w)) = case_tables (w_db w)"
  "c \<noteq> applications \<Longrightarrow> c \<noteq> test_cases \<Longrightarrow> case_tables (w_db (snd (put_new c ch w))) = case_tables (w_db w)"
  "case_tables (w_db (snd (now_iso w))) = case_tables (w_db w)"
  by (auto simp: case_tables_def put_def put_row_def put_new_def now_iso_def Let_def split_beta doc_update_def
    doc_insert_def doc_create_def change_doc_def set_table_def doc_table_def update_conv' split: option.split)

lemma kept_collections [simp]: "deployments \<noteq> applications" "deployments \<noteq> test_cases"
  "test_executions \<noteq> applications" "test_executions \<noteq> test_cases" "test_executions \<noteq> deployments"
  by (simp_all add: deployments_def applications_def test_cases_def test_executions_def)

lemma world_parts [simp]: "w_db (in_world w s) = w_db w" "w_db (world_of s) = w_db s"
  by (simp_all add: in_world_def world_of_def)

definition synced :: "int \<Rightarrow> (doc_table \<times> doc_table) option \<Rightarrow> run_state \<Rightarrow> bool" where
  "synced i c s \<longleftrightarrow> rs_id s = i \<and> c \<in> {None, Some (case_tables (w_db s))} \<and>
     (\<exists>d. fetch s deployments i = Some d \<and> (\<forall>k. k \<noteq> ''updated_at'' \<longrightarrow> dict_get d k = dict_get (rs_doc s) k))"

















section \<open>Saving\<close>

lemma synced_now_iso [simp]: "synced i c (snd (now_iso s)) = synced i c s"
  by (simp add: synced_def rs_id_def)

lemma dsave_doc [simp]:
  assumes "''heartbeat_at'' \<notin> fst ` set ch"
  shows "dict_get (rs_doc (dsave ch s)) k =
     (if k = ''heartbeat_at'' then PStr (w_clock s 0)
      else case map_of (rev ch) k of Some v \<Rightarrow> v | None \<Rightarrow> dict_get (rs_doc s) k)"
proof -
  have "merge_fields ch [(''heartbeat_at'', v)] = ch @ [(''heartbeat_at'', v)]" for v
    using assms by (simp add: merge_fields_def update_fresh)
  then show ?thesis
    by (simp add: dsave_def now_iso_def Let_def split_beta dict_get_merge)
qed

lemma synced_dsave:
  assumes "synced i c s" "''id'' \<notin> fst ` set ch" "''heartbeat_at'' \<notin> fst ` set ch"
  shows "synced i c (dsave ch s)"
proof -
  have ch: "merge_fields ch [(''heartbeat_at'', v)] = ch @ [(''heartbeat_at'', v)]" for v
    using assms(3) by (simp add: merge_fields_def update_fresh)
  have id: "rs_id (dsave ch s) = i"
    using assms by (simp add: rs_id_def row_id_def synced_def map_of_eq_None_iff[THEN iffD2])
  obtain d where d: "fetch s deployments i = Some d" "\<forall>k. k \<noteq> ''updated_at'' \<longrightarrow> dict_get d k = dict_get (rs_doc s) k"
    "rs_id s = i" using assms(1) by (auto simp: synced_def)
  have tables: "case_tables (w_db (dsave ch s)) = case_tables (w_db s)"
    by (simp add: dsave_def now_iso_def Let_def split_beta)
  show ?thesis unfolding synced_def
  proof (intro conjI id)
    show "c \<in> {None, Some (case_tables (w_db (dsave ch s)))}" using assms(1) by (simp add: synced_def tables)
    let ?c = "ch @ [(''heartbeat_at'', PStr (w_clock s 0))]"
    have "fetch (dsave ch s) deployments i = Some (merge_fields d (stamped (w_clock s (Suc 0)) ?c))"
      using d(1,3) by (simp add: dsave_def now_iso_def Let_def split_beta ch fetch_put rs_id_def) (simp add: fetch_def)
    moreover have "dict_get (merge_fields d (stamped t ?c)) k = dict_get (rs_doc (dsave ch s)) k" if "k \<noteq> ''updated_at''" for k t
      using that d(2) assms(3) by (simp add: dict_get_merge split: option.split)
    ultimately show "\<exists>d. fetch (dsave ch s) deployments i = Some d \<and>
        (\<forall>k. k \<noteq> ''updated_at'' \<longrightarrow> dict_get d k = dict_get (rs_doc (dsave ch s)) k)" by blast
  qed
qed


lemma other_collections [simp]: "test_executions \<noteq> deployments" "projects \<noteq> deployments" "audit_events \<noteq> deployments"
  by (simp_all add: test_executions_def projects_def audit_events_def deployments_def)

lemma synced_put: "col \<noteq> deployments \<Longrightarrow> col \<noteq> applications \<Longrightarrow> col \<noteq> test_cases \<Longrightarrow> synced i c s \<Longrightarrow> synced i c (put col j ch s)"
  by (simp add: synced_def rs_id_def fetch_put)


section \<open>Steps of a deployment\<close>

definition dprogress :: "document \<Rightarrow> (pyval \<times> pyval) list" where
  "dprogress d = map (\<lambda>e. (dict_get e ''key'', status_of e)) (entries_of ''steps'' d)"

definition step_has :: "string \<Rightarrow> string set \<Rightarrow> document \<Rightarrow> bool" where
  "step_has k sts d \<longleftrightarrow> (\<forall>v. (PStr k, v) \<in> set (dprogress d) \<longrightarrow> v \<in> PStr ` sts)"





lemma dstep_other [simp]:
  "k \<notin> {''steps'', ''heartbeat_at''} \<Longrightarrow> dict_get (rs_doc (dstep key st detail s)) k = dict_get (rs_doc s) k"
  by (simp add: dstep_def Let_def split_beta)



lemma dfinish_status [simp]: "status_of (rs_doc (dfinish st e s)) = PStr st"
  by (simp add: dfinish_def Let_def split_beta status_of_def)

lemma dfinish_other [simp]:
  "k \<notin> {''status'', ''error'', ''finished_at'', ''heartbeat_at''} \<Longrightarrow>
   dict_get (rs_doc (dfinish st e s)) k = dict_get (rs_doc s) k"
  by (simp add: dfinish_def Let_def split_beta)

lemma step_has_dfinish [simp]: "step_has k sts (rs_doc (dfinish st e s)) = step_has k sts (rs_doc s)"
  by (simp add: step_has_def dprogress_def entries_of_def)

section \<open>Waiting for health\<close>










section \<open>The end of a deployment\<close>










lemma synced_acts [simp]: "synced i c s \<Longrightarrow> synced i c (dsave [(''status'', a)] s)" "synced i c s \<Longrightarrow> synced i c (dsave [(''smoke'', a)] s)"
  "synced i c s \<Longrightarrow> synced i c (dsave [(''status'', a), (''started_at'', b)] s)"
  "synced i c s \<Longrightarrow> synced i c (dsave [(''commit'', a), (''rollback_to'', b)] s)"
  by (simp_all add: synced_dsave)



































end
