(* ===== verification/Explorer.thy ===== *)
theory Explorer
  imports Pipeline_Stages Engine_Runner
begin

text \<open>
  The goal explorer, \<^verbatim>\<open>agents/explorer\<close>: a model reaches a written goal in a live page, one action at
  a time. Each turn it sees the page, names one action, the guardrails check the action and it runs with
  the element's recorded locator; the exploration ends when a check the model names holds.

  The browser and the model are an \<open>explorer_env\<close> over a state \<open>'w\<close> that contains the page the
  explorer is on. A command returns None or the message of its exception; \<open>Inl\<close> is an exception that
  leaves \<open>explore\<close>. The word boundaries and letters of the refusal words are those of ASCII.
\<close>

section \<open>The page as the model sees it\<close>

record viewed_element =
  pg_index :: nat
  pg_role :: string
  pg_tag :: string
  pg_label :: string
  pg_primary :: string
  pg_fallbacks :: "string list"
  pg_href :: "string option"
  pg_input_type :: "string option"
  pg_options :: "string list option"

definition element_line :: "viewed_element \<Rightarrow> string" where
  "element_line e =
     join '' '' ([''['' @ show_nat (pg_index e) @ ''] '' @ pg_role e,
        if pg_label e \<noteq> [] then [CHR 0x22] @ pg_label e @ [CHR 0x22] else ''(no label)''] @
       (if or_empty (pg_input_type e) \<notin> {[], ''text'', ''submit'', ''button''}
        then [''(type='' @ or_empty (pg_input_type e) @ '')''] else []) @
       (if or_empty (pg_href e) \<noteq> [] then [arrow @ '' '' @ py_take 80 (or_empty (pg_href e))] else []) @
       (case pg_options e of None \<Rightarrow> [] | Some os \<Rightarrow> if os = [] then [] else [''options: '' @ join '', '' os]))"

record page_view =
  vw_url :: string
  vw_title :: string
  vw_text :: string
  vw_elements :: "viewed_element list"

definition max_page_text :: nat where "max_page_text = 1500"

text \<open>\<open>int(v)\<close>; None is a \<open>TypeError\<close> or \<open>ValueError\<close>.\<close>

definition int_of :: "pyval \<Rightarrow> int option" where
  "int_of v =
     (case v of
        PInt i \<Rightarrow> Some i
      | PBool b \<Rightarrow> Some (if b then 1 else 0)
      | PFloat x \<Rightarrow> Some (if 0 \<le> x then \<lfloor>x\<rfloor> else \<lceil>x\<rceil>)
      | PStr s \<Rightarrow> py_int s
      | _ \<Rightarrow> None)"

text \<open>\<open>xs[i]\<close>, where a negative index counts from the end; None is an \<open>IndexError\<close>.\<close>

definition py_index :: "'a list \<Rightarrow> int \<Rightarrow> 'a option" where
  "py_index xs i =
     (let k = (if i < 0 then i + int (length xs) else i)
      in if 0 \<le> k \<and> k < int (length xs) then Some (xs ! nat k) else None)"

definition view_element :: "page_view \<Rightarrow> pyval \<Rightarrow> viewed_element option" where
  "view_element v index =
     (case int_of index of None \<Rightarrow> None | Some i \<Rightarrow> py_index (vw_elements v) (i - 1))"

definition describe_view :: "page_view \<Rightarrow> string" where
  "describe_view v =
     join [CHR 0x0A]
       ([''URL: '' @ vw_url v, ''Title: '' @ vw_title v,
         ''Visible text: '' @ py_take max_page_text (vw_text v) @
           (if max_page_text < py_len (vw_text v) then ellipsis else []),
         ''Elements you can act on:''] @
        (if vw_elements v = [] then [''(none)''] else map element_line (vw_elements v)))"

section \<open>Guardrails\<close>

definition explorer_actions :: "string list" where
  "explorer_actions = [''click'', ''fill'', ''select'', ''check'', ''uncheck'', ''hover'', ''press'', ''goto'', ''done'',
     ''give_up'']"

definition allowed_keys :: "string list" where
  "allowed_keys = [''Enter'', ''Tab'', ''Escape'', ''ArrowDown'', ''ArrowUp'']"

text \<open>The alternatives of \<open>_RISKY\<close>, in order.\<close>

definition risky_phrases :: "string list" where
  "risky_phrases = [''delete'', ''remove'', ''destroy'', ''erase'', ''deactivate'', ''close account'', ''unsubscribe'', ''pay'',
     ''payment'', ''purchase'', ''buy now'', ''place order'', ''checkout'', ''check out'', ''transfer'', ''withdraw'',
     ''send money'', ''cancel subscription'', ''cancel order'', ''cancel account'', ''cancel booking'', ''log out'',
     ''logout'', ''sign out'', ''signout'', ''reset'']"

definition ends_word :: "string \<Rightarrow> bool" where
  "ends_word s = (case s of [] \<Rightarrow> True | c # _ \<Rightarrow> \<not> word_char c)"

definition phrase_here :: "string \<Rightarrow> string option" where
  "phrase_here s = find (\<lambda>p. prefix p (lower s) \<and> ends_word (drop (length p) s)) risky_phrases"

text \<open>\<open>_RISKY.search\<close>, the matched phrase in lower case; \<open>in_word\<close>: a word character comes before.\<close>

fun risky_match :: "bool \<Rightarrow> string \<Rightarrow> string option" where
  "risky_match in_word [] = None"
| "risky_match in_word (c # s) =
     (case (if in_word then None else phrase_here (c # s)) of
        Some p \<Rightarrow> Some p
      | None \<Rightarrow> risky_match (word_char c) s)"

definition not_asked :: "string \<Rightarrow> string \<Rightarrow> string option" where
  "not_asked goal text =
     (case risky_match False text of None \<Rightarrow> None | Some p \<Rightarrow> if contains p (lower goal) then None else Some p)"

definition risky_reason :: "string \<Rightarrow> string option \<Rightarrow> string \<Rightarrow> string option" where
  "risky_reason label href goal =
     (case somes (map (not_asked goal) [label, or_empty href]) of
        [] \<Rightarrow> None
      | p # _ \<Rightarrow> Some ([CHR 0x22] @ py_take 60 (if label \<noteq> [] then label else or_empty href) @ [CHR 0x22] @
          '' looks like it would '' @ p @ ''; the goal does not ask for that''))"

definition typed_value_reason :: "string option \<Rightarrow> string list \<Rightarrow> string option" where
  "typed_value_reason value allowed =
     (if or_empty value = [] then Some ''nothing to type''
      else if or_empty value \<notin> set allowed then
        Some (''only values written in the goal may be typed'' @
          (if allowed \<noteq> [] then '' ('' @ join '', '' (sort (map py_repr allowed)) @ '')'' else ''; the goal gives none''))
      else None)"

text \<open>The outer None is the \<open>ValueError\<close> of a malformed address.\<close>

definition same_site :: "string \<Rightarrow> string \<Rightarrow> bool option" where
  "same_site start_url url =
     (case urljoin start_url url of
        None \<Rightarrow> None
      | Some joined \<Rightarrow>
          (case urlparse joined of
             None \<Rightarrow> None
           | Some target \<Rightarrow>
               if up_scheme target \<notin> {''http'', ''https''} then Some False
               else map_option (\<lambda>start. host_of (up_netloc target) = host_of (up_netloc start)) (urlparse start_url)))"

section \<open>Browser and model\<close>

text \<open>
  The answer of the model: a JSON object, an answer that is none, a model that cannot be reached (the
  name and text of the error), or any other exception.
\<close>

datatype decision_reply =
    Decided document
  | Unreadable string
  | Unavailable string string
  | Model_Crash string

record 'w explorer_env =
  xe_goto :: "string \<Rightarrow> 'w \<Rightarrow> string option \<times> 'w"
  xe_settle :: "'w \<Rightarrow> 'w"
  xe_url :: "'w \<Rightarrow> string"
  xe_tabs :: "'w \<Rightarrow> nat"
  xe_last_tab :: "'w \<Rightarrow> 'w"
  xe_pause :: "'w \<Rightarrow> 'w"
  xe_press :: "string \<Rightarrow> 'w \<Rightarrow> string option \<times> 'w"
  xe_interact :: "string \<Rightarrow> string \<Rightarrow> string option \<Rightarrow> 'w \<Rightarrow> string option \<times> 'w"
  xe_count :: "string \<Rightarrow> 'w \<Rightarrow> nat option \<times> 'w"
  xe_read :: "nat \<Rightarrow> 'w \<Rightarrow> (string + page_view) \<times> 'w"
  xe_body_text :: "'w \<Rightarrow> (string + string) \<times> 'w"
  xe_decide :: "string \<Rightarrow> 'w \<Rightarrow> decision_reply \<times> 'w"
  xe_crash :: string

type_synonym ('w, 'a) page_op = "'w \<Rightarrow> (string + 'a) \<times> 'w"

definition then_try :: "('w, 'a) page_op \<Rightarrow> ('a \<Rightarrow> ('w, 'b) page_op) \<Rightarrow> ('w, 'b) page_op" where
  "then_try f g w = (case f w of (Inl e, w') \<Rightarrow> (Inl e, w') | (Inr a, w') \<Rightarrow> g a w')"

definition command :: "('w \<Rightarrow> string option \<times> 'w) \<Rightarrow> ('w, unit) page_op" where
  "command f w = (case f w of (None, w') \<Rightarrow> (Inr (), w') | (Some e, w') \<Rightarrow> (Inl e, w'))"

definition open_url :: "'w explorer_env \<Rightarrow> string \<Rightarrow> ('w, unit) page_op" where
  "open_url env url = then_try (command (xe_goto env url)) (\<lambda>_ w. (Inr (), xe_settle env w))"

text \<open>\<open>_following\<close>: a tab the action opened becomes the page.\<close>

definition following :: "'w explorer_env \<Rightarrow> ('w \<Rightarrow> string option \<times> 'w) \<Rightarrow> 'w \<Rightarrow> string option \<times> 'w" where
  "following env action w =
     (case action w of
        (Some e, w1) \<Rightarrow> (Some e, w1)
      | (None, w1) \<Rightarrow>
          let w2 = xe_pause env w1;
              w3 = (if xe_tabs env w < xe_tabs env w2 then xe_last_tab env w2 else w2)
          in (None, xe_settle env w3))"

fun unique_locator :: "'w explorer_env \<Rightarrow> string list \<Rightarrow> 'w \<Rightarrow> string option \<times> 'w" where
  "unique_locator env [] w = (None, w)"
| "unique_locator env (l # ls) w =
     (case xe_count env l w of
        (Some n, w') \<Rightarrow> if n = 1 then (Some l, w') else unique_locator env ls w'
      | (None, w') \<Rightarrow> unique_locator env ls w')"

section \<open>Recording\<close>

record recording =
  rc_steps :: "document list"
  rc_targets :: "document list"
  rc_notes :: "string list"
  rc_calls :: nat

definition stored_step :: "nat \<Rightarrow> string \<Rightarrow> string option \<Rightarrow> string option \<Rightarrow> string \<Rightarrow> document" where
  "stored_step n action target value description =
     [(''step_number'', PInt (int n)), (''action'', PStr action), (''target'', opt_str target),
      (''value'', opt_str value), (''description'', PStr description)]"

definition record_step :: "string \<Rightarrow> string option \<Rightarrow> string option \<Rightarrow> string \<Rightarrow> recording \<Rightarrow> recording" where
  "record_step action target value description r =
     r\<lparr>rc_steps := rc_steps r @ [stored_step (length (rc_steps r) + 1) action target value description]\<rparr>"

definition record_target :: "string \<Rightarrow> string list \<Rightarrow> recording \<Rightarrow> recording" where
  "record_target locator fallbacks r =
     (if fallbacks \<noteq> [] \<and> \<not> list_ex (\<lambda>t. dict_get t ''locator'' = PStr locator) (rc_targets r)
      then r\<lparr>rc_targets := rc_targets r @
               [[(''locator'', PStr locator), (''fallback_locators'', str_list fallbacks), (''fingerprint'', PNone)]]\<rparr>
      else r)"

definition record_note :: "nat \<Rightarrow> string \<Rightarrow> recording \<Rightarrow> recording" where
  "record_note turn text r = r\<lparr>rc_notes := rc_notes r @ [show_nat turn @ ''. '' @ text]\<rparr>"

definition ended_with :: "bool \<Rightarrow> pyval \<Rightarrow> string \<Rightarrow> recording \<Rightarrow> exploration" where
  "ended_with reached outcome reason r =
     \<lparr>xp_reached = reached, xp_steps = rc_steps r, xp_healing_targets = entries_value (rc_targets r),
      xp_outcome = outcome, xp_notes = str_list (rc_notes r), xp_reason = reason, xp_model_calls = int (rc_calls r)\<rparr>"

definition gave_up :: "string \<Rightarrow> recording \<Rightarrow> exploration" where
  "gave_up reason r = ended_with False PNone reason r"

text \<open>\<open>_check_step\<close>\<close>

definition record_check :: "string \<Rightarrow> string \<Rightarrow> recording \<Rightarrow> recording" where
  "record_check kind value r =
     (if kind = ''url_contains''
      then record_step ''ASSERT_URL'' None (Some value) (''URL contains '' @ quoted value) r
      else record_step ''ASSERT_CONTAINS_TEXT'' (Some ''body'') (Some value) (''Page shows '' @ quoted value) r)"

text \<open>\<open>_verify\<close>: None when the check holds, else why it does not.\<close>

definition check_value :: "document \<Rightarrow> string" where
  "check_value chk = strip (pv_str (pv_or (dict_get chk ''value'') (PStr [])))"

definition verify_check :: "'w explorer_env \<Rightarrow> document \<Rightarrow> ('w, string option) page_op" where
  "verify_check env chk w =
     (let kind = dict_get chk ''type''; value = check_value chk in
      if kind \<notin> {PStr ''url_contains'', PStr ''text_visible''} \<or> value = [] then
        (Inr (Some ''a done answer needs a check: url_contains or text_visible with a value''), w)
      else if kind = PStr ''url_contains'' then
        (Inr (if contains value (xe_url env w) then None
              else Some (''the URL '' @ xe_url env w @ '' does not contain '' @ py_repr value)), w)
      else then_try (xe_body_text env) (\<lambda>text w'.
        (Inr (if text_contains (collapse_spaces text) value then None
              else Some (''the page does not show '' @ py_repr value)), w')) w)"

section \<open>One action\<close>

definition opt_repr :: "string option \<Rightarrow> string" where
  "opt_repr v = (case v of None \<Rightarrow> ''None'' | Some s \<Rightarrow> py_repr s)"

definition now_at :: "'w explorer_env \<Rightarrow> 'w \<Rightarrow> string" where
  "now_at env w = '' '' @ arrow @ '' now at '' @ xe_url env w"

definition element_name :: "viewed_element \<Rightarrow> string" where
  "element_name e =
     ''['' @ show_nat (pg_index e) @ ''] '' @ pg_role e @ '' '' @ [CHR 0x22] @ pg_label e @ [CHR 0x22]"

text \<open>\<open>str(exc).splitlines()[0]\<close>; None is the \<open>IndexError\<close> of an empty message.\<close>

definition error_line :: "string \<Rightarrow> string option" where
  "error_line s =
     (if s = [] then None else Some (takeWhile (\<lambda>c. (of_char c :: nat) \<notin> {10, 11, 12, 13, 28, 29, 30}) s))"

definition go_to ::
  "'w explorer_env \<Rightarrow> string \<Rightarrow> string option \<Rightarrow> recording \<Rightarrow> ('w, string \<times> recording) page_op" where
  "go_to env start_url value r w =
     (let refused = (Inr (''refused: goto '' @ opt_repr value @ '' leaves the site'', r), w) in
      if or_empty value = [] then refused
      else case same_site start_url (or_empty value) of
        None \<Rightarrow> (Inl (xe_crash env), w)
      | Some False \<Rightarrow> refused
      | Some True \<Rightarrow>
          (case urljoin (xe_url env w) (or_empty value) of
             None \<Rightarrow> (Inl (xe_crash env), w)
           | Some url \<Rightarrow>
               then_try (open_url env url) (\<lambda>_ w'.
                 (Inr (''opened '' @ url @ now_at env w',
                       record_step ''NAVIGATE'' None (Some url) (''Open '' @ url) r), w')) w))"

definition press_key ::
  "'w explorer_env \<Rightarrow> string option \<Rightarrow> recording \<Rightarrow> ('w, string \<times> recording) page_op" where
  "press_key env value r w =
     (case value of
        Some key \<Rightarrow>
          if key \<in> set allowed_keys then
            then_try (command (following env (xe_press env key))) (\<lambda>_ w'.
              (Inr (''pressed '' @ key @ now_at env w', record_step ''PRESS'' None (Some key) (''Press '' @ key) r), w')) w
          else (Inr (''refused: key '' @ py_repr key @ '' is not one of '' @ join '', '' (sort allowed_keys), r), w)
      | None \<Rightarrow> (Inr (''refused: key None is not one of '' @ join '', '' (sort allowed_keys), r), w))"

text \<open>Why acting on an element is refused\<close>

definition element_refusal ::
  "string \<Rightarrow> string list \<Rightarrow> string \<Rightarrow> string option \<Rightarrow> viewed_element \<Rightarrow> string option" where
  "element_refusal goal allowed action value e =
     (case risky_reason (pg_label e) (pg_href e) goal of
        Some why \<Rightarrow> Some (''refused '' @ action @ '' on '' @ element_name e @ '': '' @ why)
      | None \<Rightarrow>
          (case (if action = ''fill'' then typed_value_reason value allowed else None) of
             Some why \<Rightarrow> Some (''refused to type '' @ opt_repr value @ '' into '' @ element_name e @ '': '' @ why)
           | None \<Rightarrow>
               let options = (case pg_options e of None \<Rightarrow> [] | Some os \<Rightarrow> os) in
               if action = ''select'' \<and> value \<notin> Some ` set (options @ allowed) then
                 Some (''refused: '' @ opt_repr value @ '' is not an option of '' @ element_name e @ '' ('' @
                   join '', '' options @ '')'')
               else None))"

definition verb_of :: "string \<Rightarrow> string" where
  "verb_of action =
     (if action = ''click'' then ''Click'' else if action = ''fill'' then ''Type into''
      else if action = ''select'' then ''Choose in'' else if action = ''check'' then ''Tick''
      else if action = ''uncheck'' then ''Untick'' else ''Hover over'')"

text \<open>What is handed to the browser: the text for \<open>fill\<close>, the label for \<open>select\<close>.\<close>

definition given_value :: "string \<Rightarrow> string option \<Rightarrow> string option" where
  "given_value action value =
     (if action = ''fill'' then Some (or_empty value) else if action = ''select'' then value else None)"

definition perform_on ::
  "'w explorer_env \<Rightarrow> string \<Rightarrow> string \<Rightarrow> string option \<Rightarrow> 'w \<Rightarrow> string option \<times> 'w" where
  "perform_on env action locator value =
     (if action = ''click'' then following env (xe_interact env action locator None)
      else xe_interact env action locator (given_value action value))"

definition performed_note :: "'w explorer_env \<Rightarrow> string \<Rightarrow> string option \<Rightarrow> viewed_element \<Rightarrow> 'w \<Rightarrow> string" where
  "performed_note env action value e w =
     action @ '' '' @ element_name e @
     (if or_empty value \<noteq> [] \<and> action \<noteq> ''click'' then '' with '' @ opt_repr value else []) @ now_at env w"

definition record_performed ::
  "string \<Rightarrow> string option \<Rightarrow> string \<Rightarrow> viewed_element \<Rightarrow> recording \<Rightarrow> recording" where
  "record_performed action value locator e r =
     record_target locator (filter (\<lambda>l. l \<noteq> locator) (pg_primary e # pg_fallbacks e))
       (record_step (upper action) (Some locator) (if action \<in> {''fill'', ''select''} then value else None)
          (verb_of action @ '' '' @ [CHR 0x22] @ (if pg_label e \<noteq> [] then pg_label e else locator) @ [CHR 0x22]) r)"

definition act_on ::
  "'w explorer_env \<Rightarrow> string \<Rightarrow> string list \<Rightarrow> string \<Rightarrow> string option \<Rightarrow> viewed_element \<Rightarrow> recording \<Rightarrow>
     ('w, string \<times> recording) page_op" where
  "act_on env goal allowed action value e r w =
     (case element_refusal goal allowed action value e of
        Some note \<Rightarrow> (Inr (note, r), w)
      | None \<Rightarrow>
          (case unique_locator env (pg_primary e # pg_fallbacks e) w of
             (None, w1) \<Rightarrow>
               (Inr (''could not act on '' @ element_name e @ '': none of its locators matches exactly one element'', r), w1)
           | (Some locator, w1) \<Rightarrow>
               (case perform_on env action locator value w1 of
                  (Some message, w2) \<Rightarrow>
                    (case error_line message of
                       None \<Rightarrow> (Inl (xe_crash env), w2)
                     | Some line \<Rightarrow>
                         (Inr (action @ '' on '' @ element_name e @ '' failed: '' @ py_take 160 line, r), w2))
                | (None, w2) \<Rightarrow>
                    (Inr (performed_note env action value e w2, record_performed action value locator e r), w2))))"

definition given_text :: "pyval \<Rightarrow> string option" where
  "given_text v = (if v = PNone then None else Some (pv_str v))"

text \<open>\<open>_act\<close>\<close>

definition act_explorer ::
  "'w explorer_env \<Rightarrow> string \<Rightarrow> string \<Rightarrow> string list \<Rightarrow> page_view \<Rightarrow> document \<Rightarrow> string \<Rightarrow> recording \<Rightarrow>
     ('w, string \<times> recording) page_op" where
  "act_explorer env start_url goal allowed view decision action r w =
     (let value = given_text (dict_get decision ''value'') in
      if action = ''goto'' then go_to env start_url value r w
      else if action = ''press'' then press_key env value r w
      else case view_element view (dict_get decision ''element'') of
        None \<Rightarrow> (Inr (''refused: there is no element '' @ pv_repr (dict_get decision ''element'') @ '' on this page'', r), w)
      | Some e \<Rightarrow> act_on env goal allowed action value e r w)"

section \<open>The exploration\<close>

definition max_bad_answers :: nat where "max_bad_answers = 2"
definition max_elements :: nat where "max_elements = 80"

text \<open>The request of \<open>_decide\<close>, without the constant instructions.\<close>

definition decide_prompt :: "string \<Rightarrow> string list \<Rightarrow> page_view \<Rightarrow> string list \<Rightarrow> string" where
  "decide_prompt goal allowed view notes =
     (let recent = drop (length notes - 10) notes; nl = [CHR 0x0A] in
      ''Goal: '' @ goal @ nl @ ''Values you may type: '' @
      (if allowed = [] then ''(none: do not type anything)'' else join '', '' (map py_repr (sort allowed))) @ nl @ nl @
      ''Actions so far:'' @ nl @ (if join nl recent = [] then ''(none yet)'' else join nl recent) @ nl @ nl @
      ''Current page:'' @ nl @ describe_view view @ nl @ nl @ ''Your next action (JSON):'')"

datatype turn_end = Next_Turn recording nat | Finished exploration

definition said_done ::
  "'w explorer_env \<Rightarrow> nat \<Rightarrow> document \<Rightarrow> recording \<Rightarrow> nat \<Rightarrow> ('w, turn_end) page_op" where
  "said_done env turn decision r bad =
     (let chk = dict_of (dict_get decision ''check''); kind = pv_str (dict_get chk ''type'');
          value = pv_str (dict_get chk ''value'') in
      then_try (verify_check env chk) (\<lambda>verdict w.
        case verdict of
          None \<Rightarrow>
            (Inr (Finished (ended_with True (PDict [(''type'', PStr kind), (''value'', PStr value)]) []
               (record_note turn (''goal reached: '' @ kind @ '' '' @ pv_repr (dict_get chk ''value'') @ '' verified on '' @
                  xe_url env w) (record_check kind value r)))), w)
        | Some why \<Rightarrow> (Inr (Next_Turn (record_note turn (''said done, but the check did not hold: '' @ why) r) bad), w)))"

definition take_decision ::
  "'w explorer_env \<Rightarrow> string \<Rightarrow> string \<Rightarrow> string list \<Rightarrow> nat \<Rightarrow> page_view \<Rightarrow> document \<Rightarrow> recording \<Rightarrow> nat \<Rightarrow>
     ('w, turn_end) page_op" where
  "take_decision env start_url goal allowed turn view decision r bad w =
     (let action = lower (strip (pv_str (pv_or (dict_get decision ''action'') (PStr [])))) in
      if action \<notin> set explorer_actions then
        (Inr (Next_Turn (record_note turn (''refused: unknown action '' @ py_repr action) r) bad), w)
      else if action = ''give_up'' then
        (Inr (Finished (gave_up (''the model gave up: '' @
           py_take 200 (pv_str (pv_or (dict_get decision ''reason'') (PStr ''no reason given'')))) r)), w)
      else if action = ''done'' then said_done env turn decision r bad w
      else then_try (act_explorer env start_url goal allowed view decision action r) (\<lambda>(note, r') w'.
        (Inr (Next_Turn (record_note turn note r') bad), w')) w)"

definition one_turn ::
  "'w explorer_env \<Rightarrow> string \<Rightarrow> string \<Rightarrow> string list \<Rightarrow> nat \<Rightarrow> recording \<Rightarrow> nat \<Rightarrow> ('w, turn_end) page_op" where
  "one_turn env start_url goal allowed turn r bad =
     then_try (xe_read env max_elements) (\<lambda>view w.
       case xe_decide env (decide_prompt goal allowed view (rc_notes r)) w of
         (Decided decision, w1) \<Rightarrow>
           take_decision env start_url goal allowed turn view decision (r\<lparr>rc_calls := rc_calls r + 1\<rparr>) bad w1
       | (Unreadable message, w1) \<Rightarrow>
           (let r' = record_note turn (''unreadable answer from the model ('' @ message @ '')'')
                       (r\<lparr>rc_calls := rc_calls r + 1\<rparr>)
            in if max_bad_answers < bad + 1 then
                 (Inr (Finished (gave_up ''the model kept answering with something other than one JSON action'' r')), w1)
               else (Inr (Next_Turn r' (bad + 1)), w1))
       | (Unavailable kind message, w1) \<Rightarrow>
           (Inr (Finished (gave_up (''the model is unavailable ('' @ kind @ '': '' @ py_take 120 message @ '')'') r)), w1)
       | (Model_Crash message, w1) \<Rightarrow> (Inl message, w1))"

fun explore_turns ::
  "'w explorer_env \<Rightarrow> string \<Rightarrow> string \<Rightarrow> string list \<Rightarrow> nat \<Rightarrow> nat list \<Rightarrow> recording \<Rightarrow> nat \<Rightarrow> ('w, exploration) page_op" where
  "explore_turns env start_url goal allowed max_steps [] r bad w =
     (Inr (gave_up (''did not reach the goal within '' @ show_nat max_steps @ '' steps'') r), w)"
| "explore_turns env start_url goal allowed max_steps (turn # turns) r bad w =
     (case one_turn env start_url goal allowed turn r bad w of
        (Inl e, w') \<Rightarrow> (Inl e, w')
      | (Inr (Finished x), w') \<Rightarrow> (Inr x, w')
      | (Inr (Next_Turn r' bad'), w') \<Rightarrow> explore_turns env start_url goal allowed max_steps turns r' bad' w')"

definition explore_goal ::
  "'w explorer_env \<Rightarrow> nat \<Rightarrow> string \<Rightarrow> string \<Rightarrow> (string \<times> string) list \<Rightarrow> ('w, exploration) page_op" where
  "explore_goal env max_steps start_url goal values =
     (let allowed = dedup (filter (\<lambda>v. v \<noteq> []) (map snd values)) in
      then_try (open_url env start_url) (\<lambda>_.
        explore_turns env start_url goal allowed max_steps [1..<max_steps + 1]
          (record_step ''NAVIGATE'' None (Some start_url) (''Open '' @ start_url)
             \<lparr>rc_steps = [], rc_targets = [], rc_notes = [], rc_calls = 0\<rparr>) 0))"

end
