(* ===== verification/Explorer_Properties.thy ===== *)
theory Explorer_Properties
  imports Explorer
begin

text \<open>
  What the explorer may do to a live page, and what a verified exploration records. The first is stated
  for every property of the browser's state that each permitted command keeps: an exploration keeps it
  too, so it issues no other command.
\<close>

section \<open>Commands\<close>

definition keeps :: "('w \<Rightarrow> bool) \<Rightarrow> ('w \<Rightarrow> 'a \<times> 'w) \<Rightarrow> bool" where
  "keeps P f \<longleftrightarrow> (\<forall>w. P w \<longrightarrow> P (snd (f w)))"

lemma keepsD: "keeps P f \<Longrightarrow> P w \<Longrightarrow> f w = (a, w') \<Longrightarrow> P w'"
  by (metis keeps_def snd_conv)

lemma keeps_then_try: "keeps P f \<Longrightarrow> (\<And>a. keeps P (g a)) \<Longrightarrow> keeps P (then_try f g)"
  by (auto simp: keeps_def then_try_def split: prod.splits sum.splits)

lemma keeps_command: "keeps P f \<Longrightarrow> keeps P (command f)"
  by (auto simp: keeps_def command_def split: prod.splits option.splits)

text \<open>The commands that do nothing to the site.\<close>

definition watching :: "'w explorer_env \<Rightarrow> ('w \<Rightarrow> bool) \<Rightarrow> bool" where
  "watching env P \<longleftrightarrow>
     (\<forall>w. P w \<longrightarrow> P (xe_settle env w) \<and> P (xe_last_tab env w) \<and> P (xe_pause env w)) \<and>
     (\<forall>n. keeps P (xe_read env n)) \<and> keeps P (xe_body_text env) \<and> (\<forall>l. keeps P (xe_count env l)) \<and>
     (\<forall>prompt. keeps P (xe_decide env prompt))"

lemma keeps_following:
  assumes "watching env P" "keeps P move"
  shows "keeps P (following env move)"
  unfolding keeps_def
proof (intro allI impI)
  fix w assume "P w"
  obtain e w1 where a: "move w = (e, w1)" by fastforce
  have kept: "P w1" "\<And>v. P v \<Longrightarrow> P (xe_settle env v)" "\<And>v. P v \<Longrightarrow> P (xe_last_tab env v)" "\<And>v. P v \<Longrightarrow> P (xe_pause env v)"
    using keepsD[OF assms(2) \<open>P w\<close> a] assms(1) by (auto simp: watching_def)
  then show "P (snd (following env move w))" by (cases e) (simp_all add: following_def a Let_def)
qed

lemma keeps_open: "watching env P \<Longrightarrow> keeps P (xe_goto env url) \<Longrightarrow> keeps P (open_url env url)"
  unfolding open_url_def by (intro keeps_then_try keeps_command) (auto simp: keeps_def watching_def)

lemma unique_locator_kept:
  assumes "watching env P" "P w" "unique_locator env ls w = (found, w')"
  shows "P w' \<and> (case found of None \<Rightarrow> True | Some l \<Rightarrow> l \<in> set ls)"
  using assms(2,3)
proof (induction ls arbitrary: w)
  case (Cons l ls)
  obtain n w1 where c: "xe_count env l w = (n, w1)" by fastforce
  have "P w1" using assms(1) Cons.prems(1) c by (auto simp: watching_def keeps_def) (metis snd_conv)
  then show ?case using Cons.IH[of w1] Cons.prems(2) c by (auto split: option.splits if_splits)
qed auto

definition interactions :: "string list" where
  "interactions = [''click'', ''fill'', ''select'', ''check'', ''uncheck'', ''hover'']"

text \<open>
  A risky phrase stands at a place of a text, as a whole word and whatever its case. The first one is asked
  for: if there is any, then at the leftmost such place stands one that the goal contains.
\<close>

definition risky_at :: "bool \<Rightarrow> string \<Rightarrow> nat \<Rightarrow> string \<Rightarrow> bool" where
  "risky_at in_word text i p \<longleftrightarrow>
     p \<in> set risky_phrases \<and> i < length text \<and> prefix p (lower (drop i text)) \<and> ends_word (drop (length p) (drop i text)) \<and>
     (case i of 0 \<Rightarrow> \<not> in_word | Suc j \<Rightarrow> \<not> word_char (text ! j))"

definition first_risk_asked :: "string \<Rightarrow> string \<Rightarrow> bool" where
  "first_risk_asked goal text \<longleftrightarrow>
     (\<forall>i p. risky_at False text i p \<longrightarrow>
        (\<exists>j q. j \<le> i \<and> risky_at False text j q \<and> contains q (lower goal) \<and> (\<forall>k<j. \<forall>q'. \<not> risky_at False text k q')))"

lemma risky_at_Cons:
  "risky_at b (c # s) (Suc i) p = risky_at (word_char c) s i p"
  by (cases i) (simp_all add: risky_at_def)

lemma phrase_here_None: "phrase_here s = None \<longleftrightarrow> (\<forall>p \<in> set risky_phrases. \<not> (prefix p (lower s) \<and> ends_word (drop (length p) s)))"
  by (auto simp: phrase_here_def find_None_iff)

lemma phrase_here_Some:
  "phrase_here s = Some p \<Longrightarrow> p \<in> set risky_phrases \<and> prefix p (lower s) \<and> ends_word (drop (length p) s)"
  by (auto simp: phrase_here_def find_Some_iff)

lemma risky_at_0: "risky_at b (c # s) 0 p \<longleftrightarrow>
    \<not> b \<and> p \<in> set risky_phrases \<and> prefix p (lower (c # s)) \<and> ends_word (drop (length p) (c # s))"
  by (auto simp: risky_at_def)

lemma risky_match_None: "risky_match b s = None \<Longrightarrow> \<not> risky_at b s i p"
proof (induction b s arbitrary: i rule: risky_match.induct)
  case (2 b c s)
  show ?case
  proof (cases i)
    case 0
    then show ?thesis using "2.prems" by (auto simp: risky_at_0 phrase_here_None split: if_splits option.splits)
  next
    case (Suc j)
    then show ?thesis using 2 by (auto simp: risky_at_Cons split: if_splits option.splits)
  qed
qed (simp add: risky_at_def)

lemma risky_match_Some: "risky_match b s = Some q \<Longrightarrow> \<exists>j. risky_at b s j q \<and> (\<forall>k<j. \<forall>q'. \<not> risky_at b s k q')"
proof (induction b s rule: risky_match.induct)
  case (2 b c s)
  show ?case
  proof (cases "if b then None else phrase_here (c # s)")
    case None
    then obtain j where j: "risky_at (word_char c) s j q" "\<forall>k<j. \<forall>q'. \<not> risky_at (word_char c) s k q'" using 2 by auto
    have "\<not> risky_at b (c # s) 0 q'" for q' using None by (auto simp: risky_at_0 phrase_here_None split: if_splits)
    then show ?thesis using j
      by (intro exI[of _ "Suc j"]) (auto simp: risky_at_Cons less_Suc_eq_0_disj)
  next
    case (Some p)
    then have "risky_at b (c # s) 0 q" using "2.prems" phrase_here_Some by (auto simp: risky_at_0 split: if_splits)
    then show ?thesis by auto
  qed
qed simp

lemma not_asked_None: "not_asked goal text = None \<Longrightarrow> first_risk_asked goal text"
  unfolding first_risk_asked_def
proof (intro allI impI)
  fix i p assume ok: "not_asked goal text = None" and risk: "risky_at False text i p"
  then obtain q where q: "risky_match False text = Some q" using risky_match_None by (cases "risky_match False text") auto
  with ok have "contains q (lower goal)" by (auto simp: not_asked_def split: if_splits)
  moreover obtain j where j: "risky_at False text j q" "\<forall>k<j. \<forall>q'. \<not> risky_at False text k q'" using risky_match_Some[OF q] by blast
  moreover have "j \<le> i" using j(2) risk by (meson not_le)
  ultimately show "\<exists>j q. j \<le> i \<and> risky_at False text j q \<and> contains q (lower goal) \<and> (\<forall>k<j. \<forall>q'. \<not> risky_at False text k q')"
    by blast
qed

text \<open>
  A command on an element that the guardrails let through: the element is one the page showed, the first
  risky phrase of its label and that of its link are in the goal, only a value of the goal is typed, and
  only one of the goal or one of the element's own options is chosen.
\<close>

definition permitted ::
  "'w explorer_env \<Rightarrow> string \<Rightarrow> string list \<Rightarrow> string \<Rightarrow> string \<Rightarrow> string option \<Rightarrow> bool" where
  "permitted env goal allowed action locator value \<longleftrightarrow>
     action \<in> set interactions \<and>
     (\<exists>e. (\<exists>n v w. fst (xe_read env n w) = Inr v \<and> e \<in> set (vw_elements v)) \<and>
        locator \<in> set (pg_primary e # pg_fallbacks e) \<and>
        first_risk_asked goal (pg_label e) \<and> first_risk_asked goal (or_empty (pg_href e)) \<and>
        (action = ''fill'' \<longrightarrow> (\<exists>v \<in> set allowed. value = Some v)) \<and>
        (action = ''select'' \<longrightarrow>
           (\<exists>v \<in> set allowed \<union> (case pg_options e of None \<Rightarrow> {} | Some os \<Rightarrow> set os). value = Some v)))"

definition acting :: "'w explorer_env \<Rightarrow> ('w \<Rightarrow> bool) \<Rightarrow> string \<Rightarrow> string \<Rightarrow> string list \<Rightarrow> bool" where
  "acting env P start_url goal allowed \<longleftrightarrow>
     (\<forall>value url w. P w \<longrightarrow> same_site start_url value = Some True \<longrightarrow> urljoin (xe_url env w) value = Some url \<longrightarrow>
        P (snd (xe_goto env url w))) \<and>
     (\<forall>key \<in> set allowed_keys. keeps P (xe_press env key)) \<and>
     (\<forall>action locator value. permitted env goal allowed action locator value \<longrightarrow>
        keeps P (xe_interact env action locator value))"

section \<open>One action\<close>

lemma keeps_go_to:
  assumes "watching env P" "acting env P start_url goal allowed"
  shows "keeps P (go_to env start_url value r)"
  unfolding keeps_def
proof (intro allI impI)
  fix w assume P: "P w"
  show "P (snd (go_to env start_url value r w))"
  proof (cases "same_site start_url (or_empty value) = Some True \<and> or_empty value \<noteq> []")
    case True
    then show ?thesis
    proof (cases "urljoin (xe_url env w) (or_empty value)")
      case (Some url)
      obtain e w1 where g: "xe_goto env url w = (e, w1)" by fastforce
      have "P w1" using assms(2) P True Some g unfolding acting_def by (metis snd_conv)
      then show ?thesis using True Some g assms(1)
        by (auto simp: go_to_def open_url_def then_try_def command_def watching_def split: option.splits)
    qed (use P True in \<open>simp add: go_to_def\<close>)
  qed (use P in \<open>auto simp: go_to_def Let_def split: option.splits bool.splits\<close>)
qed

lemma keeps_press_key:
  assumes "watching env P" "acting env P start_url goal allowed"
  shows "keeps P (press_key env value r)"
proof (cases "value")
  case (Some key)
  show ?thesis
  proof (cases "key \<in> set allowed_keys")
    case True
    have "keeps P (then_try (command (following env (xe_press env key))) (\<lambda>_ w'. (Inr (f w'), w')))" for f
      using assms True by (intro keeps_then_try keeps_command keeps_following) (auto simp: acting_def keeps_def)
    then show ?thesis using Some True by (simp add: press_key_def[abs_def])
  qed (simp add: Some press_key_def keeps_def)
qed (simp add: press_key_def keeps_def)

lemma somes_Nil_iff: "somes xs = [] \<longleftrightarrow> (\<forall>x \<in> set xs. x = None)"
  by (induction xs rule: somes.induct) auto

lemma refusal_none:
  assumes "element_refusal goal allowed action value e = None"
  shows "not_asked goal (pg_label e) = None" "not_asked goal (or_empty (pg_href e)) = None"
    "action = ''fill'' \<Longrightarrow> \<exists>v \<in> set allowed. value = Some v"
    "action = ''select'' \<Longrightarrow> \<exists>v \<in> set allowed \<union> (case pg_options e of None \<Rightarrow> {} | Some os \<Rightarrow> set os). value = Some v"
  using assms
  by (auto simp: element_refusal_def risky_reason_def typed_value_reason_def or_empty_def Let_def somes_Nil_iff
      split: option.splits list.splits if_splits)

lemma view_element_in: "view_element v index = Some e \<Longrightarrow> e \<in> set (vw_elements v)"
  by (auto simp: view_element_def py_index_def Let_def split: option.splits if_splits)

lemma keeps_act_on:
  assumes "watching env P" "acting env P start_url goal allowed" "action \<in> set interactions"
    "fst (xe_read env n w0) = Inr v" "e \<in> set (vw_elements v)"
  shows "keeps P (act_on env goal allowed action value e r)"
  unfolding keeps_def
proof (intro allI impI)
  fix w assume P: "P w"
  show "P (snd (act_on env goal allowed action value e r w))"
  proof (cases "element_refusal goal allowed action value e")
    case None
    obtain found w1 where u: "unique_locator env (pg_primary e # pg_fallbacks e) w = (found, w1)" by fastforce
    note kept = unique_locator_kept[OF assms(1) P u]
    show ?thesis
    proof (cases found)
      case (Some l)
      then have l: "l \<in> set (pg_primary e # pg_fallbacks e)" using kept by simp
      have may: "keeps P (xe_interact env action l v)" if "permitted env goal allowed action l v" for v
        using assms(2) that unfolding acting_def by blast
      have "permitted env goal allowed action l (given_value action value)"
        using refusal_none[OF None] l assms(3-5) by (auto simp: permitted_def not_asked_None given_value_def or_empty_def intro!: exI[of _ e])
      moreover have "permitted env goal allowed action l None" if "action = ''click''"
        using that refusal_none[OF None] l assms(3-5) by (auto simp: permitted_def not_asked_None intro!: exI[of _ e])
      ultimately have "keeps P (perform_on env action l value)"
        using keeps_following[OF assms(1)] may by (auto simp: perform_on_def[abs_def])
      then show ?thesis using kept None u Some
        by (auto simp: act_on_def keeps_def split: prod.splits option.splits)
    qed (use kept None u in \<open>simp add: act_on_def\<close>)
  qed (use P in \<open>simp add: act_on_def\<close>)
qed

lemma keeps_act_explorer:
  assumes "watching env P" "acting env P start_url goal allowed" "fst (xe_read env n w0) = Inr view"
    "action \<in> set explorer_actions" "action \<notin> {''done'', ''give_up''}"
  shows "keeps P (act_explorer env start_url goal allowed view decision action r)"
proof (cases "action = ''goto'' \<or> action = ''press''")
  case True
  then show ?thesis using keeps_go_to[OF assms(1,2)] keeps_press_key[OF assms(1,2)]
    by (auto simp: act_explorer_def[abs_def] Let_def)
next
  case False
  then have a: "action \<in> set interactions" using assms(4,5) by (auto simp: explorer_actions_def interactions_def)
  show ?thesis
  proof (cases "view_element view (dict_get decision ''element'')")
    case (Some e)
    show ?thesis
      using keeps_act_on[OF assms(1,2) a assms(3) view_element_in[OF Some]] False Some
      by (simp add: act_explorer_def[abs_def] Let_def)
  qed (use False in \<open>simp add: act_explorer_def keeps_def Let_def\<close>)
qed

section \<open>All turns\<close>

lemma keeps_verify: "watching env P \<Longrightarrow> keeps P (verify_check env chk)"
proof -
  assume w: "watching env P"
  have "keeps P (then_try (xe_body_text env) (\<lambda>text w'. (Inr (f text), w')))" for f :: "string \<Rightarrow> string option"
    using w by (intro keeps_then_try) (auto simp: watching_def keeps_def)
  then show ?thesis by (simp add: keeps_def verify_check_def Let_def)
qed

lemma keeps_said_done: "watching env P \<Longrightarrow> keeps P (said_done env turn decision r bad)"
  unfolding said_done_def Let_def
  by (intro keeps_then_try keeps_verify) (auto simp: keeps_def split: option.splits)

lemma keeps_take_decision:
  assumes "watching env P" "acting env P start_url goal allowed" "fst (xe_read env n w0) = Inr view"
  shows "keeps P (take_decision env start_url goal allowed turn view decision r bad)"
proof -
  define action where "action = lower (strip (pv_str (pv_or (dict_get decision ''action'') (PStr []))))"
  have "keeps P (then_try (act_explorer env start_url goal allowed view decision action r)
      (\<lambda>(note, r') w'. (Inr (Next_Turn (record_note turn note r') bad), w')))"
    if "action \<in> set explorer_actions" "action \<notin> {''done'', ''give_up''}"
    by (intro keeps_then_try keeps_act_explorer[OF assms that]) (auto simp: keeps_def)
  then show ?thesis
    using keeps_said_done[OF assms(1)] by (simp add: keeps_def take_decision_def Let_def action_def)
qed

lemma keeps_one_turn:
  assumes "watching env P" "acting env P start_url goal allowed"
  shows "keeps P (one_turn env start_url goal allowed turn r bad)"
  unfolding keeps_def
proof (intro allI impI)
  fix w assume P: "P w"
  obtain v w1 where v: "xe_read env max_elements w = (v, w1)" by fastforce
  have P1: "P w1" using keepsD[where P=P and f="xe_read env max_elements", OF _ P v] assms(1) by (simp add: watching_def)
  show "P (snd (one_turn env start_url goal allowed turn r bad w))"
  proof (cases v)
    case (Inr view)
    obtain reply w2 where d: "xe_decide env (decide_prompt goal allowed view (rc_notes r)) w1 = (reply, w2)" by fastforce
    have P2: "P w2" using keepsD[where P=P and f="xe_decide env (decide_prompt goal allowed view (rc_notes r))", OF _ P1 d] assms(1) by (simp add: watching_def)
    have "fst (xe_read env max_elements w) = Inr view" using v Inr by simp
    note kept = keeps_take_decision[OF assms this]
    show ?thesis using P2 kept v Inr d
      by (cases reply) (auto simp: one_turn_def then_try_def keeps_def Let_def)
  qed (use P1 v in \<open>simp add: one_turn_def then_try_def\<close>)
qed

lemma keeps_turns:
  assumes "watching env P" "acting env P start_url goal allowed"
  shows "keeps P (explore_turns env start_url goal allowed max_steps turns r bad)"
proof (induction turns arbitrary: r bad)
  case (Cons turn turns)
  show ?case
    unfolding keeps_def
  proof (intro allI impI)
    fix w assume P: "P w"
    obtain t w1 where t: "one_turn env start_url goal allowed turn r bad w = (t, w1)" by fastforce
    have "P w1" by (rule keepsD[OF keeps_one_turn[OF assms] P t])
    then show "P (snd (explore_turns env start_url goal allowed max_steps (turn # turns) r bad w))"
      using Cons.IH t by (auto simp: keeps_def split: sum.splits turn_end.splits)
  qed
qed (simp add: keeps_def)

text \<open>
  C13: An exploration issues only these commands, whatever the model answers: reading the page, opening
  the start address, the allowed keys, opening an address the model named, and acting on an element the
  page showed. Stated as preservation: whatever is true of the browser and is kept by each of them is
  still true when the exploration ends or fails. An address named by the model is one that, resolved
  against the start address, lies on the start address's host with http or https; what is opened is the
  same value resolved against the current page, so a relative value may be opened on another site once a
  link has led there. An element is acted on only if the first risky phrase (deletion, payment,
  sign-out...) of its label, if it has one, is a phrase the goal contains, and likewise for its link; a
  later risky phrase of the same text is not compared. Only values of the goal are typed, and only those or
  the element's own options are chosen.
\<close>

theorem explorer_only_permitted:
  assumes "\<And>w. P w \<Longrightarrow> P (xe_settle env w) \<and> P (xe_last_tab env w) \<and> P (xe_pause env w)"
    "\<And>n. keeps P (xe_read env n)" "keeps P (xe_body_text env)" "\<And>l. keeps P (xe_count env l)"
    "\<And>prompt. keeps P (xe_decide env prompt)" "keeps P (xe_goto env start_url)"
    "\<And>value url w. P w \<Longrightarrow> same_site start_url value = Some True \<Longrightarrow> urljoin (xe_url env w) value = Some url \<Longrightarrow>
       P (snd (xe_goto env url w))"
    "\<And>key. key \<in> set allowed_keys \<Longrightarrow> keeps P (xe_press env key)"
    "\<And>action locator value. permitted env goal (dedup (filter (\<lambda>v. v \<noteq> []) (map snd values))) action locator value \<Longrightarrow>
       keeps P (xe_interact env action locator value)"
    "P w"
  shows "P (snd (explore_goal env max_steps start_url goal values w))"
proof -
  have w: "watching env P" using assms(1-5) by (simp add: watching_def)
  have a: "acting env P start_url goal (dedup (filter (\<lambda>v. v \<noteq> []) (map snd values)))"
    using assms(7-9) by (simp add: acting_def)
  have "keeps P (explore_goal env max_steps start_url goal values)"
    unfolding explore_goal_def Let_def
    by (intro keeps_then_try keeps_open[OF w assms(6)] keeps_turns[OF w a])
  then show ?thesis using assms(10) by (simp add: keeps_def)
qed

section \<open>The recording\<close>

definition recorded :: "string \<Rightarrow> nat \<Rightarrow> recording \<Rightarrow> bool" where
  "recorded start_url n r \<longleftrightarrow>
     rc_steps r \<noteq> [] \<and> hd (rc_steps r) = stored_step 1 ''NAVIGATE'' None (Some start_url) (''Open '' @ start_url) \<and>
     map (\<lambda>s. dict_get s ''step_number'') (rc_steps r) = map (\<lambda>k. PInt (int k)) [1..<length (rc_steps r) + 1] \<and>
     rc_calls r \<le> n"

lemma step_number [simp]: "dict_get (stored_step n action target value d) ''step_number'' = PInt (int n)"
  by (simp add: stored_step_def dict_get_def)

lemma recorded_step: "recorded start_url n r \<Longrightarrow> recorded start_url n (record_step action target value d r)"
  by (simp add: recorded_def record_step_def)

lemma recorded_other:
  "recorded start_url n r \<Longrightarrow> recorded start_url n (record_target l fs r)"
  "recorded start_url n r \<Longrightarrow> recorded start_url n (record_note turn text r)"
  "recorded start_url n r \<Longrightarrow> recorded start_url (Suc n) (r\<lparr>rc_calls := rc_calls r + 1\<rparr>)"
  "recorded start_url n r \<Longrightarrow> recorded start_url (Suc n) r"
  by (simp_all add: recorded_def record_target_def record_note_def)

lemmas recorded_intros = recorded_step recorded_other

lemma then_try_Inr:
  "then_try f g w = (Inr b, w') \<longleftrightarrow> (\<exists>a w1. f w = (Inr a, w1) \<and> g a w1 = (Inr b, w'))"
  by (auto simp: then_try_def split: prod.splits sum.splits)

lemma recorded_act:
  assumes "act_explorer env start_url goal allowed view decision action r w = (Inr (note, r'), w')" "recorded s n r"
  shows "recorded s n r'"
  using assms
  by (auto simp: act_explorer_def go_to_def press_key_def act_on_def record_performed_def then_try_Inr Let_def
      intro!: recorded_intros split: if_splits option.splits bool.splits prod.splits)

text \<open>What a check says of the browser once it has been looked at.\<close>

definition check_holds :: "'w explorer_env \<Rightarrow> string \<Rightarrow> string \<Rightarrow> 'w \<Rightarrow> bool" where
  "check_holds env kind value w \<longleftrightarrow>
     strip value \<noteq> [] \<and>
     (kind = ''url_contains'' \<and> contains (strip value) (xe_url env w) \<or>
      kind = ''text_visible'' \<and>
      (\<exists>w0 text. xe_body_text env w0 = (Inr text, w) \<and> text_contains (collapse_spaces text) (strip value)))"

lemma verified_holds:
  assumes "verify_check env chk w = (Inr None, w')"
  shows "\<exists>kind. dict_get chk ''type'' = PStr kind \<and> check_holds env kind (pv_str (dict_get chk ''value'')) w'"
proof -
  have "check_value chk = strip (pv_str (dict_get chk ''value''))" if "check_value chk \<noteq> []"
    using that by (auto simp: check_value_def pv_or_def pv_str_def strip_def lstrip_def rstrip_def split: if_splits)
  then show ?thesis
    using assms
    by (auto simp: verify_check_def check_holds_def Let_def then_try_Inr split: if_splits)
qed

definition settled_exploration :: "'w explorer_env \<Rightarrow> string \<Rightarrow> nat \<Rightarrow> exploration \<Rightarrow> 'w \<Rightarrow> bool" where
  "settled_exploration env start_url n x w \<longleftrightarrow>
     (if xp_reached x then
        \<exists>kind value r. xp_outcome x = PDict [(''type'', PStr kind), (''value'', PStr value)] \<and> recorded start_url n r \<and>
          xp_steps x = rc_steps (record_check kind value r) \<and> xp_model_calls x = int (rc_calls r) \<and>
          check_holds env kind value w
      else xp_outcome x = PNone \<and> xp_reason x \<noteq> [] \<and>
        (\<exists>r. recorded start_url n r \<and> xp_steps x = rc_steps r \<and> xp_model_calls x = int (rc_calls r)))"

lemma settled_gave_up: "recorded start_url n r \<Longrightarrow> reason \<noteq> [] \<Longrightarrow> settled_exploration env start_url n (gave_up reason r) w"
  by (auto simp: settled_exploration_def gave_up_def ended_with_def)

lemma settled_done:
  assumes "recorded start_url n r" "check_holds env kind value w"
  shows "settled_exploration env start_url n
    (ended_with True (PDict [(''type'', PStr kind), (''value'', PStr value)]) [] (record_note turn text (record_check kind value r))) w"
proof -
  have "rc_calls (record_check kind value r) = rc_calls r" by (simp add: record_check_def record_step_def)
  then show ?thesis using assms by (auto simp: settled_exploration_def ended_with_def record_note_def)
qed

definition turned :: "'w explorer_env \<Rightarrow> string \<Rightarrow> nat \<Rightarrow> turn_end \<Rightarrow> 'w \<Rightarrow> bool" where
  "turned env start_url n t w \<longleftrightarrow>
     (case t of Next_Turn r _ \<Rightarrow> recorded start_url n r | Finished x \<Rightarrow> settled_exploration env start_url n x w)"

lemma turned_simps [simp]:
  "turned env start_url n (Next_Turn r bad) w = recorded start_url n r"
  "turned env start_url n (Finished x) w = settled_exploration env start_url n x w"
  by (simp_all add: turned_def)

lemma turned_done:
  assumes "said_done env turn decision r bad w = (Inr t, w')" "recorded start_url n r"
  shows "turned env start_url n t w'"
proof -
  obtain verdict where v: "verify_check env (dict_of (dict_get decision ''check'')) w = (Inr verdict, w')"
    using assms(1) by (auto simp: said_done_def Let_def then_try_Inr split: option.splits)
  show ?thesis
  proof (cases verdict)
    case None
    then obtain kind where "dict_get (dict_of (dict_get decision ''check'')) ''type'' = PStr kind"
      "check_holds env kind (pv_str (dict_get (dict_of (dict_get decision ''check'')) ''value'')) w'"
      using verified_holds[of env _ w w'] v by blast
    then show ?thesis using assms v None settled_done[OF assms(2)]
      by (auto simp: said_done_def Let_def then_try_Inr pv_str_def)
  next
    case (Some why)
    then show ?thesis using assms v
      by (auto simp: said_done_def Let_def then_try_Inr intro: recorded_intros)
  qed
qed

lemma turned_decision:
  assumes "take_decision env start_url goal allowed turn view decision r bad w = (Inr t, w')" "recorded start_url n r"
  shows "turned env start_url n t w'"
proof -
  define action where "action = lower (strip (pv_str (pv_or (dict_get decision ''action'') (PStr []))))"
  consider "action \<in> {''done'', ''give_up''} \<union> - set explorer_actions"
    | note' r' where "act_explorer env start_url goal allowed view decision action r w = (Inr (note', r'), w')"
        "t = Next_Turn (record_note turn note' r') bad"
    using assms(1) by (auto simp: take_decision_def Let_def then_try_Inr action_def split: if_splits)
  then show ?thesis
  proof cases
    case 1
    then show ?thesis using assms turned_done[OF _ assms(2)]
      by (auto simp: take_decision_def Let_def action_def explorer_actions_def intro: recorded_intros settled_gave_up
          split: if_splits)
  next
    case 2
    then show ?thesis using recorded_act[OF 2(1) assms(2)] by (simp add: recorded_intros)
  qed
qed

lemma turned_turn:
  assumes "one_turn env start_url goal allowed turn r bad w = (Inr t, w')" "recorded start_url n r"
  shows "turned env start_url (Suc n) t w'"
proof -
  have r: "recorded start_url (Suc n) (r\<lparr>rc_calls := rc_calls r + 1\<rparr>)" "recorded start_url (Suc n) r"
    using recorded_other(3,4)[OF assms(2)] by simp_all
  obtain view w1 where v: "xe_read env max_elements w = (Inr view, w1)"
    using assms(1) by (auto simp: one_turn_def then_try_Inr)
  obtain reply w2 where d: "xe_decide env (decide_prompt goal allowed view (rc_notes r)) w1 = (reply, w2)" by fastforce
  show ?thesis
  proof (cases reply)
    case (Decided decision)
    then show ?thesis using assms(1) v d turned_decision[OF _ r(1)] by (simp add: one_turn_def then_try_Inr)
  qed (use assms(1) v d r in \<open>auto simp: one_turn_def then_try_Inr Let_def intro!: recorded_intros(3) settled_gave_up
    split: if_splits\<close>)
qed

lemma settled_turns:
  assumes "explore_turns env start_url goal allowed max_steps turns r bad w = (Inr x, w')" "recorded start_url n r"
  shows "settled_exploration env start_url (n + length turns) x w'"
  using assms
proof (induction turns arbitrary: r bad w n)
  case Nil
  then show ?case by (auto intro!: settled_gave_up)
next
  case (Cons turn turns)
  obtain t w1 where t: "one_turn env start_url goal allowed turn r bad w = (Inr t, w1)"
    using Cons.prems(1) by (auto split: sum.splits prod.splits)
  note turned = turned_turn[OF t Cons.prems(2)]
  show ?case
  proof (cases t)
    case (Next_Turn r' bad')
    then show ?thesis using Cons.IH[of r' bad' w1 "Suc n"] Cons.prems(1) t turned by (simp add: turned_def)
  next
    case (Finished y)
    then have "settled_exploration env start_url (Suc n) x w'" using Cons.prems(1) t turned by (simp add: turned_def)
    then show ?thesis
      by (auto simp: settled_exploration_def recorded_def split: if_splits)
  qed
qed

text \<open>
  C14: What an exploration returns: it asked the model at most once per step; the recording is numbered
  from 1 and opens the start address first; and it counts as reached only when the check that the model
  named last was looked up on the page it ended on and holds there (the URL, or the visible text,
  contains the stripped text), this check being the last recorded step. Otherwise a reason is given.
\<close>

theorem exploration_verified:
  assumes "explore_goal env max_steps start_url goal values w = (Inr x, w')"
  shows "xp_model_calls x \<le> int max_steps \<and>
    map (\<lambda>s. dict_get s ''step_number'') (xp_steps x) = map (\<lambda>k. PInt (int k)) [1..<length (xp_steps x) + 1] \<and>
    hd (xp_steps x) = stored_step 1 ''NAVIGATE'' None (Some start_url) (''Open '' @ start_url) \<and>
    (if xp_reached x then
       \<exists>kind value. xp_outcome x = PDict [(''type'', PStr kind), (''value'', PStr value)] \<and>
         dict_get (last (xp_steps x)) ''value'' = PStr value \<and>
         (dict_get (last (xp_steps x)) ''action'', kind) \<in>
           {(PStr ''ASSERT_URL'', ''url_contains''), (PStr ''ASSERT_CONTAINS_TEXT'', ''text_visible'')} \<and>
         check_holds env kind value w'
     else xp_reason x \<noteq> [])"
proof -
  let ?allowed = "dedup (filter (\<lambda>v. v \<noteq> []) (map snd values))"
  obtain r0 w0 where turns: "explore_turns env start_url goal ?allowed max_steps [1..<max_steps + 1] r0 0 w0 = (Inr x, w')"
    and r0: "r0 = record_step ''NAVIGATE'' None (Some start_url) (''Open '' @ start_url)
               \<lparr>rc_steps = [], rc_targets = [], rc_notes = [], rc_calls = 0\<rparr>"
    using assms by (auto simp: explore_goal_def Let_def then_try_Inr)
  have "recorded start_url 0 r0" by (simp add: r0 recorded_def record_step_def)
  from settled_turns[OF turns this] have x: "settled_exploration env start_url max_steps x w'" by (simp del: upt_Suc)
  show ?thesis
  proof (cases "xp_reached x")
    case True
    then obtain kind v r where k: "xp_outcome x = PDict [(''type'', PStr kind), (''value'', PStr v)]"
      "recorded start_url max_steps r" "xp_steps x = rc_steps (record_check kind v r)"
      "xp_model_calls x = int (rc_calls r)" "check_holds env kind v w'"
      using x by (auto simp: settled_exploration_def)
    have "recorded start_url max_steps (record_check kind v r)"
      using k(2) by (auto simp: record_check_def intro: recorded_intros)
    moreover have "kind \<in> {''url_contains'', ''text_visible''}" using k(5) by (auto simp: check_holds_def)
    ultimately show ?thesis
      using True k by (auto simp: recorded_def record_check_def record_step_def stored_step_def dict_get_def opt_str_def)
  next
    case False
    then show ?thesis using x by (auto simp: settled_exploration_def recorded_def)
  qed
qed

section \<open>An exploration\<close>

text \<open>A page with a dangerous and a harmless link, and a model that tries the dangerous one first.\<close>

definition sample_element :: "nat \<Rightarrow> string \<Rightarrow> string \<Rightarrow> viewed_element" where
  "sample_element n label locator =
     \<lparr>pg_index = n, pg_role = ''link'', pg_tag = ''a'', pg_label = label, pg_primary = locator, pg_fallbacks = [],
      pg_href = None, pg_input_type = None, pg_options = None\<rparr>"

definition sample_view :: page_view where
  "sample_view = \<lparr>vw_url = [], vw_title = [], vw_text = [],
     vw_elements = [sample_element 1 ''Delete account'' ''#delete'', sample_element 2 ''Sign in'' ''#login'']\<rparr>"

type_synonym sample_page_state = "string \<times> string list \<times> nat"

definition sample_decision :: "nat \<Rightarrow> document" where
  "sample_decision k =
     (if k < 2 then [(''action'', PStr ''click''), (''element'', PInt (int k + 1))]
      else [(''action'', PStr ''done''),
            (''check'', PDict [(''type'', PStr ''url_contains''), (''value'', PStr ''/login'')])])"

definition sample_explorer :: "sample_page_state explorer_env" where
  "sample_explorer = \<lparr>xe_goto = (\<lambda>url (u, log, k). (None, (url, log @ [''goto '' @ url], k))), xe_settle = (\<lambda>w. w),
     xe_url = fst, xe_tabs = (\<lambda>_. 1), xe_last_tab = (\<lambda>w. w), xe_pause = (\<lambda>w. w),
     xe_press = (\<lambda>key (u, log, k). (None, (u, log @ [''press '' @ key], k))),
     xe_interact = (\<lambda>action l v (u, log, k). (None, (''https://shop.test/login'', log @ [l], k))),
     xe_count = (\<lambda>_ w. (Some 1, w)), xe_read = (\<lambda>_ w. (Inr sample_view, w)),
     xe_body_text = (\<lambda>w. (Inr [], w)), xe_decide = (\<lambda>_ (u, log, k). (Decided (sample_decision k), (u, log, k + 1))),
     xe_crash = []\<rparr>"

definition sample_exploration :: "(string + exploration) \<times> sample_page_state" where
  "sample_exploration = explore_goal sample_explorer 15 ''https://shop.test/'' ''sign in'' [] ([], [], 0)"

lemma sample_exploration_run:
  "(case sample_exploration of (Inr x, w) \<Rightarrow> xp_reached x | _ \<Rightarrow> False)"
  "snd sample_exploration = (''https://shop.test/login'', [''goto https://shop.test/'', ''#login''], 3)"
  by code_simp+

theorem explorer_only_permitted_witness:
  "''#delete'' \<notin> set (fst (snd (snd sample_exploration)))"
  unfolding sample_exploration_def
proof (rule explorer_only_permitted[where P = "\<lambda>w. ''#delete'' \<notin> set (fst (snd w))"])
  fix action locator v assume "permitted sample_explorer ''sign in'' (dedup (filter (\<lambda>v. v \<noteq> []) (map snd []))) action locator v"
  moreover have "\<not> first_risk_asked ''sign in'' ''Delete account''"
  proof
    assume "first_risk_asked ''sign in'' ''Delete account''"
    moreover have "risky_at False ''Delete account'' 0 ''delete''" by code_simp
    ultimately obtain q where "q \<in> set risky_phrases" "contains q (lower ''sign in'')"
      unfolding first_risk_asked_def by (meson risky_at_def)
    moreover have "list_all (\<lambda>q. \<not> contains q (lower ''sign in'')) risky_phrases" by code_simp
    ultimately show False by (simp add: list_all_iff)
  qed
  ultimately have "locator \<noteq> ''#delete''"
    by (auto simp: permitted_def sample_explorer_def sample_view_def sample_element_def)
  then show "keeps (\<lambda>w. ''#delete'' \<notin> set (fst (snd w))) (xe_interact sample_explorer action locator v)"
    by (auto simp: keeps_def sample_explorer_def)
qed (auto simp: keeps_def sample_explorer_def)

theorem exploration_verified_witness:
  "\<exists>x. sample_exploration = (Inr x, (''https://shop.test/login'', [''goto https://shop.test/'', ''#login''], 3)) \<and>
     xp_reached x \<and> xp_model_calls x \<le> 15 \<and> dict_get (last (xp_steps x)) ''value'' = PStr ''/login''"
proof -
  obtain x where x: "sample_exploration = (Inr x, snd sample_exploration)" "xp_reached x"
    using sample_exploration_run(1) by (cases "fst sample_exploration") (auto simp: split_beta, metis prod.collapse)
  have "xp_outcome x = PDict [(''type'', PStr ''url_contains''), (''value'', PStr ''/login'')]"
  proof -
    have "(case sample_exploration of (Inr x, w) \<Rightarrow> xp_outcome x = PDict [(''type'', PStr ''url_contains''), (''value'', PStr ''/login'')]
        | _ \<Rightarrow> False)" by code_simp
    then show ?thesis by (subst (asm) x(1)) simp
  qed
  then show ?thesis
    using exploration_verified[OF x(1)[unfolded sample_exploration_def]] x sample_exploration_run(2) by auto
qed

end
