(* ===== verification/Rate_Limit.thy ===== *)
theory Rate_Limit
  imports Pipeline_State Float64
begin

text \<open>
  The budget of expensive actions, \<^verbatim>\<open>backend/ratelimit.py\<close>: each user may start so many runs per
  minute. The starts are kept in the process, one deque per user, or in one row per user of the store,
  written only if nobody else changed the row meanwhile.
\<close>

definition window_seconds :: f64 where "window_seconds = 60"

text \<open>The answer over the limit: status 429, its text, and the seconds of \<open>Retry-After\<close>.\<close>

record too_many =
  tm_status :: int
  tm_detail :: string
  tm_retry_after :: int

definition too_many_runs :: "nat \<Rightarrow> int \<Rightarrow> too_many" where
  "too_many_runs budget retry_after =
     \<lparr>tm_status = 429,
      tm_detail = ''Too many runs: at most '' @ show_nat budget @ '' per minute. Try again in '' @ show_int retry_after @ ''s.'',
      tm_retry_after = retry_after\<rparr>"

text \<open>\<open>max(1, int(WINDOW_SECONDS - (now - oldest)) + 1)\<close>\<close>

definition seconds_left :: "f64 \<Rightarrow> f64 \<Rightarrow> int" where
  "seconds_left now oldest =
     (let left = fl (window_seconds - fl (now - oldest))
      in max 1 ((if 0 \<le> left then \<lfloor>left\<rfloor> else \<lceil>left\<rceil>) + 1))"

section \<open>Starts in the process\<close>

definition recent_starts :: "f64 \<Rightarrow> f64 list \<Rightarrow> f64 list" where
  "recent_starts now starts = dropWhile (\<lambda>s. window_seconds \<le> fl (now - s)) starts"

definition limit_starts :: "nat \<Rightarrow> f64 \<Rightarrow> f64 list \<Rightarrow> (too_many + unit) \<times> f64 list" where
  "limit_starts budget now starts =
     (let kept = recent_starts now starts in
      if budget \<le> length kept then (Inl (too_many_runs budget (seconds_left now (hd kept))), kept)
      else (Inr (), kept @ [now]))"

text \<open>\<open>limit_runs\<close> for the starts of all users; a budget that is not positive is no limit.\<close>

definition limit_runs ::
  "int \<Rightarrow> string \<Rightarrow> f64 \<Rightarrow> (string \<Rightarrow> f64 list) \<Rightarrow> (too_many + unit) \<times> (string \<Rightarrow> f64 list)" where
  "limit_runs budget uid now starts =
     (if budget \<le> 0 then (Inr (), starts)
      else let (answer, kept) = limit_starts (nat budget) now (starts uid) in (answer, starts(uid := kept)))"

section \<open>Starts in the store\<close>

definition rate_limits :: string where "rate_limits = ''rate_limits''"

text \<open>What a call ends with; \<open>Limit_Crashed\<close>: a query or a stored value that is no number raises.\<close>

datatype limit_answer = Limit_Allowed | Limit_Refused too_many | Limit_Crashed

fun floats_of :: "pyval list \<Rightarrow> f64 list option" where
  "floats_of [] = Some []"
| "floats_of (v # vs) =
     (case number_of v of None \<Rightarrow> None | Some x \<Rightarrow> map_option (Cons x) (floats_of vs))"

definition stored_starts :: "document \<Rightarrow> f64 list option" where
  "stored_starts row = (case pv_or (dict_get row ''starts'') (PList []) of PList vs \<Rightarrow> floats_of vs | _ \<Rightarrow> None)"

definition starts_value :: "f64 list \<Rightarrow> pyval" where
  "starts_value ts = PList (map PFloat ts)"

definition starts_row :: "string \<Rightarrow> 'a world_scheme \<Rightarrow> document option \<times> 'a world_scheme" where
  "starts_row uid w =
     (case doc_find_one (w_db w) rate_limits [(''owner_uid'', PStr uid)] of
        None \<Rightarrow> (None, w)
      | Some (Some row) \<Rightarrow> (Some row, w)
      | Some None \<Rightarrow>
          (let (row, w') = put_new rate_limits [(''owner_uid'', PStr uid), (''starts'', PList [])] w in (Some row, w')))"

text \<open>
  One try for each element of the list: the time it reads, and what other instances do to the world
  between its reading and its conditional write.
\<close>

fun limit_in_store ::
  "nat \<Rightarrow> string \<Rightarrow> (f64 \<times> ('a world_scheme \<Rightarrow> 'a world_scheme)) list \<Rightarrow> 'a world_scheme \<Rightarrow>
     limit_answer \<times> 'a world_scheme" where
  "limit_in_store budget uid [] w = (Limit_Refused (too_many_runs budget 1), w)"
| "limit_in_store budget uid ((now, others) # tries) w =
     (case starts_row uid w of
        (None, w1) \<Rightarrow> (Limit_Crashed, w1)
      | (Some row, w1) \<Rightarrow>
          (case stored_starts row of
             None \<Rightarrow> (Limit_Crashed, w1)
           | Some ts \<Rightarrow>
               let recent = filter (\<lambda>t. fl (now - t) < window_seconds) ts in
               if budget \<le> length recent then
                 (Limit_Refused (too_many_runs budget (seconds_left now (Min (set recent)))), w1)
               else
                 let (written, w2) = put_if rate_limits (row_id row) ''starts'' (dict_get row ''starts'')
                                       [(''starts'', starts_value (recent @ [now]))] (others w1)
                 in if written then (Limit_Allowed, w2) else limit_in_store budget uid tries w2))"

definition max_tries :: nat where "max_tries = 5"

section \<open>A sequence of calls\<close>

text \<open>The answers to calls made one after the other, each with its user and time.\<close>

fun limit_calls ::
  "int \<Rightarrow> (string \<times> f64) list \<Rightarrow> (string \<Rightarrow> f64 list) \<Rightarrow> (too_many + unit) list \<times> (string \<Rightarrow> f64 list)" where
  "limit_calls budget [] starts = ([], starts)"
| "limit_calls budget ((uid, now) # calls) starts =
     (let (answer, starts') = limit_runs budget uid now starts; (answers, starts'') = limit_calls budget calls starts'
      in (answer # answers, starts''))"

text \<open>What the budget means: a call is allowed when fewer than \<open>budget\<close> allowed calls of its user are in the minute before it.\<close>

definition in_window :: "string \<Rightarrow> f64 \<Rightarrow> (string \<times> f64) list \<Rightarrow> nat" where
  "in_window uid now allowed = count_if (\<lambda>(u, s). u = uid \<and> fl (now - s) < window_seconds) allowed"

fun reference_calls :: "nat \<Rightarrow> (string \<times> f64) list \<Rightarrow> (string \<times> f64) list \<Rightarrow> bool list" where
  "reference_calls budget allowed [] = []"
| "reference_calls budget allowed ((uid, now) # calls) =
     (let ok = (in_window uid now allowed < budget)
      in ok # reference_calls budget (if ok then allowed @ [(uid, now)] else allowed) calls)"

section \<open>The window\<close>

definition old_at :: "f64 \<Rightarrow> f64 \<Rightarrow> bool" where
  "old_at now s \<longleftrightarrow> window_seconds \<le> fl (now - s)"

lemma old_at_later: "old_at now s \<Longrightarrow> now \<le> now' \<Longrightarrow> old_at now' s"
  using fl_mono[of "now - s" "now' - s"] by (simp add: old_at_def)

lemma old_at_earlier: "old_at now s \<Longrightarrow> s' \<le> s \<Longrightarrow> old_at now s'"
  using fl_mono[of "now - s" "now - s'"] by (simp add: old_at_def)

lemma recent_starts_filter: "sorted starts \<Longrightarrow> recent_starts now starts = filter (\<lambda>s. \<not> old_at now s) starts"
proof (induction starts)
  case (Cons s starts)
  show ?case
  proof (cases "old_at now s")
    case False
    then have "\<forall>x \<in> set starts. \<not> old_at now x" using old_at_earlier Cons.prems by auto
    then show ?thesis using False by (simp add: recent_starts_def old_at_def filter_id_conv)
  qed (use Cons in \<open>simp add: recent_starts_def old_at_def\<close>)
qed (simp add: recent_starts_def)

definition times_of :: "string \<Rightarrow> (string \<times> f64) list \<Rightarrow> f64 list" where
  "times_of uid allowed = map snd (filter (\<lambda>c. fst c = uid) allowed)"

lemma in_window_times: "in_window uid now allowed = length (filter (\<lambda>s. \<not> old_at now s) (times_of uid allowed))"
  by (induction allowed) (auto simp: in_window_def times_of_def count_if_def old_at_def)

text \<open>The deques against the calls allowed so far, at the time \<open>now\<close> of the latest call.\<close>

definition tracks :: "nat \<Rightarrow> f64 \<Rightarrow> (string \<times> f64) list \<Rightarrow> (string \<Rightarrow> f64 list) \<Rightarrow> bool" where
  "tracks budget now allowed starts \<longleftrightarrow>
     (\<forall>uid. length (starts uid) \<le> budget) \<and> sorted (map snd allowed) \<and> (\<forall>c \<in> set allowed. snd c \<le> now) \<and>
     (\<forall>uid. \<exists>gone. times_of uid allowed = gone @ starts uid \<and> (\<forall>s \<in> set gone. old_at now s))"

lemma sorted_times: "sorted (map snd allowed) \<Longrightarrow> sorted (times_of uid allowed)"
  by (induction allowed) (auto simp: times_of_def)

lemma tracks_later: "tracks budget now allowed starts \<Longrightarrow> now \<le> now' \<Longrightarrow> tracks budget now' allowed starts"
  unfolding tracks_def by (meson old_at_later order_trans)

lemma tracked_recent:
  assumes "tracks budget now allowed starts"
  shows "length (recent_starts now (starts uid)) = in_window uid now allowed"
    "sorted (starts uid)"
proof -
  obtain gone where g: "times_of uid allowed = gone @ starts uid" "\<forall>s \<in> set gone. old_at now s"
    using assms unfolding tracks_def by blast
  have "sorted (gone @ starts uid)" using sorted_times[of allowed uid] assms g(1) by (simp add: tracks_def)
  then show s: "sorted (starts uid)" by (simp add: sorted_append)
  have "filter (\<lambda>s. \<not> old_at now s) gone = []" using g(2) by (simp add: filter_empty_conv)
  then show "length (recent_starts now (starts uid)) = in_window uid now allowed"
    by (simp add: recent_starts_filter[OF s] in_window_times g(1))
qed

lemma tracks_call:
  assumes "tracks (nat budget) now allowed starts" "0 < budget" "limit_runs budget uid now starts = (answer, starts')"
  shows "(answer = Inr ()) = (in_window uid now allowed < nat budget)"
    "tracks (nat budget) now (if answer = Inr () then allowed @ [(uid, now)] else allowed) starts'"
proof -
  let ?kept = "recent_starts now (starts uid)"
  note recent = tracked_recent[OF assms(1), of uid]
  have runs: "answer = fst (limit_starts (nat budget) now (starts uid))"
    "starts' = starts(uid := snd (limit_starts (nat budget) now (starts uid)))"
    using assms(2,3) by (auto simp: limit_runs_def Let_def split_beta)
  show ok: "(answer = Inr ()) = (in_window uid now allowed < nat budget)"
    using recent(1) by (simp add: runs limit_starts_def Let_def)
  obtain gone where g: "times_of uid allowed = gone @ starts uid" "\<forall>s \<in> set gone. old_at now s"
    using assms(1) unfolding tracks_def by blast
  have split: "starts uid = takeWhile (\<lambda>s. old_at now s) (starts uid) @ ?kept"
    by (simp add: recent_starts_def old_at_def)
  have gone: "times_of uid allowed = (gone @ takeWhile (\<lambda>s. old_at now s) (starts uid)) @ ?kept"
    "\<forall>s \<in> set (gone @ takeWhile (\<lambda>s. old_at now s) (starts uid)). old_at now s"
    using g split by (auto dest: set_takeWhileD)
  have len: "length ?kept \<le> nat budget"
    using assms(1) by (auto simp: tracks_def recent_starts_def intro: order_trans[OF length_dropWhile_le])
  show "tracks (nat budget) now (if answer = Inr () then allowed @ [(uid, now)] else allowed) starts'"
  proof (cases "answer = Inr ()")
    case True
    then have k: "starts' = starts(uid := ?kept @ [now])" "length ?kept < nat budget"
      using ok recent(1) by (auto simp: runs limit_starts_def Let_def)
    have "\<exists>gone. times_of u (allowed @ [(uid, now)]) = gone @ starts' u \<and> (\<forall>s \<in> set gone. old_at now s)" for u
      using assms(1) gone k by (cases "u = uid") (auto simp: tracks_def times_of_def)
    then show ?thesis using True assms(1) k by (auto simp: tracks_def sorted_append)
  next
    case False
    then have k: "starts' = starts(uid := ?kept)" using ok recent(1) by (auto simp: runs limit_starts_def Let_def)
    have "\<exists>gone. times_of u allowed = gone @ starts' u \<and> (\<forall>s \<in> set gone. old_at now s)" for u
      using assms(1) gone k by (cases "u = uid") (auto simp: tracks_def)
    then show ?thesis using False assms(1) k len by (auto simp: tracks_def)
  qed
qed

definition allowed_calls :: "(string \<times> f64) list \<Rightarrow> (too_many + unit) list \<Rightarrow> (string \<times> f64) list" where
  "allowed_calls calls answers = map fst (filter (\<lambda>(c, a). a = Inr ()) (zip calls answers))"

lemma tracked_calls:
  assumes "tracks (nat budget) now allowed starts" "0 < budget" "sorted (map snd calls)" "\<forall>c \<in> set calls. now \<le> snd c"
    "limit_calls budget calls starts = (answers, starts')"
  shows "map (\<lambda>a. a = Inr ()) answers = reference_calls (nat budget) allowed calls \<and>
    (\<forall>t. now \<le> t \<longrightarrow> (\<forall>c \<in> set calls. snd c \<le> t) \<longrightarrow> tracks (nat budget) t (allowed @ allowed_calls calls answers) starts')"
  using assms
proof (induction calls arbitrary: now allowed starts answers)
  case Nil
  then show ?case by (auto simp: allowed_calls_def tracks_later)
next
  case (Cons c calls)
  obtain uid t where c: "c = (uid, t)" by fastforce
  obtain answer starts1 where a: "limit_runs budget uid t starts = (answer, starts1)" by fastforce
  obtain rest where r: "limit_calls budget calls starts1 = (rest, starts')" "answers = answer # rest"
    using Cons.prems(5) by (auto simp: c a Let_def split: prod.splits)
  have "tracks (nat budget) t allowed starts" using tracks_later Cons.prems(1,4) by (simp add: c)
  note call = tracks_call[OF this Cons.prems(2) a]
  have "sorted (map snd calls)" "\<forall>c \<in> set calls. t \<le> snd c" using Cons.prems(3) by (auto simp: c)
  note IH = Cons.IH[OF call(2) Cons.prems(2) this r(1)]
  then show ?case using call(1) by (auto simp: c r allowed_calls_def Let_def)
qed

lemma tracked_from_start:
  assumes "0 < budget" "sorted (map snd calls)" "limit_calls budget calls (\<lambda>_. []) = (answers, starts)"
  shows "map (\<lambda>a. a = Inr ()) answers = reference_calls (nat budget) [] calls"
    "(\<forall>c \<in> set calls. snd c \<le> t) \<Longrightarrow> tracks (nat budget) t (allowed_calls calls answers) starts"
proof -
  define first where "first = (if calls = [] then t else snd (hd calls))"
  have t0: "tracks (nat budget) first [] (\<lambda>_. [])" by (simp add: tracks_def times_of_def)
  have "\<forall>c \<in> set calls. first \<le> snd c" using assms(2) by (cases calls) (auto simp: first_def)
  note run = tracked_calls[OF t0 assms(1,2) this assms(3)]
  show "map (\<lambda>a. a = Inr ()) answers = reference_calls (nat budget) [] calls" using run by simp
  assume "\<forall>c \<in> set calls. snd c \<le> t"
  moreover from this have "first \<le> t" by (simp add: first_def)
  ultimately show "tracks (nat budget) t (allowed_calls calls answers) starts" using run by simp
qed

text \<open>
  C21: The budget is exact: of calls made one after the other, exactly those are allowed that find fewer
  than \<open>budget\<close> allowed calls of their user in the minute before them, so at no time has a user more than
  \<open>budget\<close> allowed calls within a minute; and what other users do makes no difference.
\<close>

theorem rate_limit_exact:
  assumes "0 < budget" "sorted (map snd calls)" "limit_calls budget calls (\<lambda>_. []) = (answers, starts)"
  shows "map (\<lambda>a. a = Inr ()) answers = reference_calls (nat budget) [] calls \<and>
    (\<forall>uid t. (\<forall>c \<in> set calls. snd c \<le> t) \<longrightarrow> in_window uid t (allowed_calls calls answers) \<le> nat budget)"
proof -
  have "in_window uid t (allowed_calls calls answers) \<le> nat budget" if "\<forall>c \<in> set calls. snd c \<le> t" for uid t
  proof -
    note tr = tracked_from_start(2)[OF assms that]
    have "length (recent_starts t (starts uid)) \<le> nat budget"
      using tr by (auto simp: tracks_def recent_starts_def intro: order_trans[OF length_dropWhile_le])
    then show ?thesis by (simp add: tracked_recent(1)[OF tr])
  qed
  then show ?thesis using tracked_from_start(1)[OF assms] by blast
qed

section \<open>Retry-After\<close>

lemma fl_int: "- 1 \<le> n \<Longrightarrow> n \<le> 61 \<Longrightarrow> fl (of_int n) = of_int n"
proof -
  have "list_all (\<lambda>n. fl (of_int n) = of_int n) [- 1..61]" by code_simp
  then show "- 1 \<le> n \<Longrightarrow> n \<le> 61 \<Longrightarrow> ?thesis" by (simp add: list_all_iff)
qed

lemma waited_old:
  assumes "s \<le> now" "\<not> old_at now s" "now + of_int (seconds_left now s) \<le> now'"
  shows "1 \<le> seconds_left now s" "seconds_left now s \<le> 61" "old_at now' s"
proof -
  define d where "d = fl (now - s)"
  define left where "left = fl (60 - d)"
  define r where "r = seconds_left now s"
  have d: "0 \<le> d" "d < 60" using assms(1,2) fl_nonneg[of "now - s"] by (auto simp: d_def old_at_def window_seconds_def)
  have left: "0 \<le> left" "left \<le> 60" using d fl_nonneg[of "60 - d"] fl_mono[of "60 - d" 60] fl_int[of 60] by (simp_all add: left_def)
  have r: "r = \<lfloor>left\<rfloor> + 1"
    using left(1) by (simp add: r_def seconds_left_def window_seconds_def d_def[symmetric] left_def[symmetric] Let_def)
  show "1 \<le> seconds_left now s" "seconds_left now s \<le> 61" using left by (simp_all add: r_def[symmetric] r floor_le_iff)
  then have range: "1 \<le> r" "r \<le> 61" by (simp_all add: r_def)
  have "60 - of_int r < now - s"
  proof (rule ccontr)
    assume "\<not> ?thesis"
    then have "d \<le> fl (of_int (60 - r))" using fl_mono[of "now - s" "of_int (60 - r)"] by (simp add: d_def)
    then have "of_int r \<le> 60 - d" using fl_int[of "60 - r"] range by simp
    then have "of_int r \<le> left" using fl_mono[of "of_int r" "60 - d"] fl_int[of r] range by (simp add: left_def)
    then show False using r by linarith
  qed
  then have "60 \<le> now' - s" using assms(3) by (simp add: r_def)
  then show "old_at now' s" using fl_mono[of 60 "now' - s"] fl_int[of 60] by (simp add: old_at_def window_seconds_def)
qed

text \<open>
  C22: The announced waiting time is right: a refused user is told to wait between 1 and 61 seconds, and
  a call of that user made at least that long after the refusal is allowed.
\<close>

theorem rate_limit_retry:
  assumes "0 < budget" "sorted (map snd calls)" "limit_calls budget calls (\<lambda>_. []) = (answers, starts)"
    "\<forall>c \<in> set calls. snd c \<le> now" "limit_runs budget uid now starts = (Inl e, starts')"
    "now + of_int (tm_retry_after e) \<le> now'"
  shows "1 \<le> tm_retry_after e \<and> tm_retry_after e \<le> 61 \<and> tm_status e = 429 \<and>
    fst (limit_runs budget uid now' starts') = Inr ()"
proof -
  note tr = tracked_from_start(2)[OF assms(1-4)]
  let ?kept = "recent_starts now (starts uid)"
  have e: "e = too_many_runs (nat budget) (seconds_left now (hd ?kept))" "starts' uid = ?kept" "nat budget \<le> length ?kept"
    using assms(1,5) by (auto simp: limit_runs_def limit_starts_def Let_def split: if_splits)
  have "length ?kept \<le> nat budget"
    using tr by (auto simp: tracks_def recent_starts_def intro: order_trans[OF length_dropWhile_le])
  then obtain s ss where k: "?kept = s # ss" "length (s # ss) = nat budget" using e(3) assms(1) by (cases ?kept) auto
  have "\<not> old_at now s" using k(1) hd_dropWhile[of "\<lambda>s. window_seconds \<le> fl (now - s)" "starts uid"]
    by (simp add: recent_starts_def old_at_def)
  moreover have "s \<le> now"
  proof -
    have "s \<in> set (starts uid)" using k(1) unfolding recent_starts_def by (metis list.set_intros(1) set_dropWhileD)
    moreover obtain gone where "times_of uid (allowed_calls calls answers) = gone @ starts uid"
      using tr unfolding tracks_def by blast
    ultimately have "s \<in> set (times_of uid (allowed_calls calls answers))" by simp
    then show ?thesis using tr by (auto simp: tracks_def times_of_def)
  qed
  moreover have "now + of_int (seconds_left now s) \<le> now'" using assms(6) e(1) k(1) by (simp add: too_many_runs_def)
  ultimately have w: "1 \<le> seconds_left now s" "seconds_left now s \<le> 61" "old_at now' s" using waited_old by blast+
  have "length (recent_starts now' (s # ss)) < nat budget"
    using w(3) k(2) length_dropWhile_le[of "\<lambda>x. window_seconds \<le> fl (now' - x)" ss]
    by (simp add: recent_starts_def old_at_def)
  then show ?thesis using w e k assms(1) by (auto simp: too_many_runs_def limit_runs_def limit_starts_def Let_def split_beta)
qed

section \<open>Two users\<close>

definition sample_calls :: "(string \<times> f64) list" where
  "sample_calls = [(''ann'', 0), (''ann'', 10), (''bob'', 10), (''ann'', 20), (''ann'', 61)]"

lemma sample_calls_run:
  "map (\<lambda>a. a = Inr ()) (fst (limit_calls 2 sample_calls (\<lambda>_. []))) = [True, True, True, False, True]"
  by code_simp

theorem rate_limit_exact_witness:
  "reference_calls 2 [] sample_calls = [True, True, True, False, True] \<and>
   in_window ''ann'' 61 (allowed_calls sample_calls (fst (limit_calls 2 sample_calls (\<lambda>_. [])))) \<le> 2"
  using rate_limit_exact[of 2 sample_calls, OF _ _ prod.collapse[symmetric]] sample_calls_run
  by (auto simp: sample_calls_def)

theorem rate_limit_retry_witness:
  "\<exists>e starts'. limit_runs 2 ''ann'' 62 (snd (limit_calls 2 sample_calls (\<lambda>_. []))) = (Inl e, starts') \<and>
     fst (limit_runs 2 ''ann'' 123 starts') = Inr ()"
proof -
  have "fst (limit_runs 2 ''ann'' 62 (snd (limit_calls 2 sample_calls (\<lambda>_. [])))) \<noteq> Inr ()" by code_simp
  then obtain e starts' where r: "limit_runs 2 ''ann'' 62 (snd (limit_calls 2 sample_calls (\<lambda>_. []))) = (Inl e, starts')"
    by (cases "limit_runs 2 ''ann'' 62 (snd (limit_calls 2 sample_calls (\<lambda>_. [])))") (auto, metis old.unit.exhaust sumE)
  note retry = rate_limit_retry[of 2 sample_calls, OF _ _ prod.collapse[symmetric] _ r]
  have "tm_retry_after e \<le> 61" using retry[of "62 + of_int (tm_retry_after e)"] by (simp add: sample_calls_def)
  then show ?thesis using retry[of 123] r by (simp add: sample_calls_def)
qed

end
