(* ===== verification/Net_Guard.thy ===== *)
theory Net_Guard
  imports Url_Parts
begin

text \<open>
  Which hosts the server may contact: the guard of outbound URLs, \<^verbatim>\<open>backend/netguard.py\<close>, the forward
  proxy that applies a guard to every connection of the browser, \<^verbatim>\<open>engine/egress.py\<close>, and the scope of
  security scans, \<^verbatim>\<open>security/scope.py\<close>.

  The network is a \<open>net_env\<close>: the resolver answers the texts of addresses, or why there are none, and
  may answer differently each time; a connection succeeds or not. The order of a Python set is a
  parameter too. Requests to the proxy do not interleave.
\<close>

section \<open>Addresses that are refused\<close>

text \<open>IPv4 addresses inside IPv6: mapped (\<open>::ffff:a.b.c.d\<close>) and NAT64 (\<open>64:ff9b::a.b.c.d\<close>).\<close>

definition embedded_ipv4 :: "128 word \<Rightarrow> 32 word option" where
  "embedded_ipv4 a =
     (if drop_bit 32 a = 0xFFFF \<or> in_net a (net6 0x0064FF9B 0, 96) then Some (ucast a) else None)"

fun blocked :: "ip_address \<Rightarrow> bool" where
  "blocked (V4 a) = blocked4 a"
| "blocked (V6 a) = (case embedded_ipv4 a of Some b \<Rightarrow> blocked4 b | None \<Rightarrow> blocked6 a)"

text \<open>
  Why a URL is refused: no web address, a host that does not resolve, an internal address, or an error
  Python raises on a malformed host, port or address.
\<close>

datatype refusal =
    Not_Web string
  | Unresolved string string
  | Internal string ip_address
  | Malformed_Target

record 'w net_env =
  ne_private_allowed :: bool
  ne_resolve :: "string \<Rightarrow> int \<Rightarrow> 'w \<Rightarrow> (string + string list) \<times> 'w"
  ne_connect :: "string \<Rightarrow> int \<Rightarrow> 'w \<Rightarrow> bool \<times> 'w"
  ne_set_order :: "string list \<Rightarrow> string list"

text \<open>\<open>s.split("%")[0]\<close>\<close>

definition before_scope :: "string \<Rightarrow> string" where
  "before_scope s = takeWhile (\<lambda>c. c \<noteq> CHR ''%'') s"

fun check_addresses :: "string \<Rightarrow> string list \<Rightarrow> refusal option" where
  "check_addresses host [] = None"
| "check_addresses host (t # ts) =
     (case ip_of_text (before_scope t) of
        None \<Rightarrow> Some Malformed_Target
      | Some ip \<Rightarrow> if blocked ip then Some (Internal host ip) else check_addresses host ts)"

definition port_or :: "int option \<Rightarrow> int \<Rightarrow> int" where
  "port_or port dflt = (case port of None \<Rightarrow> dflt | Some n \<Rightarrow> if n = 0 then dflt else n)"

definition check_target :: "'w net_env \<Rightarrow> string \<Rightarrow> 'w \<Rightarrow> refusal option \<times> 'w" where
  "check_target env url w =
     (case urlparse url of
        None \<Rightarrow> (Some Malformed_Target, w)
      | Some p \<Rightarrow>
          let host = host_of (up_netloc p) in
          if up_scheme p \<notin> {''http'', ''https''} \<or> host = [] then (Some (Not_Web url), w)
          else if ne_private_allowed env then (None, w)
          else case port_of (up_netloc p) of
            None \<Rightarrow> (Some Malformed_Target, w)
          | Some port \<Rightarrow>
              (case ne_resolve env host (port_or port (if up_scheme p = ''https'' then 443 else 80)) w of
                 (Inl why, w') \<Rightarrow> (Some (Unresolved host why), w')
               | (Inr texts, w') \<Rightarrow> (check_addresses host texts, w')))"

section \<open>The proxy\<close>

datatype verdict_reason = Guard_Refused refusal | Lookup_Failed string | No_Address

type_synonym egress_verdict = "verdict_reason option \<times> string list"
type_synonym verdicts = "((string \<times> int) \<times> egress_verdict) list"

definition address_url :: "string \<Rightarrow> string \<Rightarrow> int \<Rightarrow> string" where
  "address_url scheme ip port =
     scheme @ ''://'' @ (if CHR '':'' \<in> set ip then ''['' @ ip @ '']'' else ip) @ '':'' @ show_int port @ ''/''"

fun check_ips ::
  "(string \<Rightarrow> 'w \<Rightarrow> refusal option \<times> 'w) \<Rightarrow> string \<Rightarrow> int \<Rightarrow> string list \<Rightarrow> 'w \<Rightarrow> refusal option \<times> 'w" where
  "check_ips guard scheme port [] w = (None, w)"
| "check_ips guard scheme port (ip # ips) w =
     (case guard (address_url scheme ip port) w of
        (Some r, w') \<Rightarrow> (Some r, w')
      | (None, w') \<Rightarrow> check_ips guard scheme port ips w')"

text \<open>\<open>_check\<close>: IPv4 addresses come first.\<close>

definition check_destination ::
  "'w net_env \<Rightarrow> (string \<Rightarrow> 'w \<Rightarrow> refusal option \<times> 'w) \<Rightarrow> string \<Rightarrow> int \<Rightarrow> string \<Rightarrow> 'w \<Rightarrow> egress_verdict \<times> 'w" where
  "check_destination env guard host port url w =
     (case guard url w of
        (Some r, w1) \<Rightarrow> ((Some (Guard_Refused r), []), w1)
      | (None, w1) \<Rightarrow>
          (case ne_resolve env host port w1 of
             (Inl why, w2) \<Rightarrow> ((Some (Lookup_Failed why), []), w2)
           | (Inr texts, w2) \<Rightarrow>
               let ips = sort_key (\<lambda>ip. CHR '':'' \<in> set ip) (ne_set_order env (dedup (map before_scope texts))) in
               if ips = [] then ((Some No_Address, []), w2)
               else case urlsplit url of
                 None \<Rightarrow> ((Some (Guard_Refused Malformed_Target), []), w2)
               | Some p \<Rightarrow>
                   (case check_ips guard (up_scheme p) port ips w2 of
                      (Some r, w3) \<Rightarrow> ((Some (Guard_Refused r), []), w3)
                    | (None, w3) \<Rightarrow> ((None, ips), w3))))"

definition verdict_for ::
  "'w net_env \<Rightarrow> (string \<Rightarrow> 'w \<Rightarrow> refusal option \<times> 'w) \<Rightarrow> string \<Rightarrow> int \<Rightarrow> string \<Rightarrow> verdicts \<Rightarrow> 'w \<Rightarrow>
     egress_verdict \<times> verdicts \<times> 'w" where
  "verdict_for env guard host port url vs w =
     (case map_of vs (lower host, port) of
        Some v \<Rightarrow> (v, vs, w)
      | None \<Rightarrow>
          let (v, w') = check_destination env guard host port url w in (v, AList.update (lower host, port) v vs, w'))"

fun connect_first :: "'w net_env \<Rightarrow> string list \<Rightarrow> int \<Rightarrow> 'w \<Rightarrow> string option \<times> 'w" where
  "connect_first env [] port w = (None, w)"
| "connect_first env (ip # ips) port w =
     (case ne_connect env ip port w of
        (True, w') \<Rightarrow> (Some ip, w')
      | (False, w') \<Rightarrow> connect_first env ips port w')"

text \<open>
  What becomes of a request: the connection is closed without an answer, answered with a status, or
  tunnelled or forwarded to an address, a forwarded one with its new head.
\<close>

datatype served = Dropped | Answered nat | Tunnelled string int | Forwarded string int string

definition crlf :: string where "crlf = [CHR 0x0D, CHR 0x0A]"

definition hop_by_hop :: "string list" where
  "hop_by_hop = [''proxy-connection:'', ''connection:'', ''keep-alive:'', ''proxy-authorization:'']"

definition forwarded_head :: "string \<Rightarrow> string \<Rightarrow> url_parts \<Rightarrow> string list \<Rightarrow> string" where
  "forwarded_head http_method version p headers =
     (let path = (if up_path p = [] then ''/'' else up_path p) @ (if up_query p = [] then [] else ''?'' @ up_query p)
      in join crlf
           ([http_method @ '' '' @ path @ '' '' @ version] @
            filter (\<lambda>l. l \<noteq> [] \<and> \<not> list_ex (\<lambda>h. prefix h (lower l)) hop_by_hop) headers @
            [''Connection: close'', [], []]))"

text \<open>\<open>target.rpartition(":")\<close>, without the separator\<close>

definition last_colon :: "string \<Rightarrow> string \<times> string" where
  "last_colon s =
     (let b = rev (takeWhile (\<lambda>c. c \<noteq> CHR '':'') (rev s)) in (take (length s - length b - 1) s, b))"

definition strip_brackets :: "string \<Rightarrow> string" where
  "strip_brackets s = rev (dropWhile (\<lambda>c. c \<in> set ''[]'') (rev (dropWhile (\<lambda>c. c \<in> set ''[]'') s)))"

text \<open>Where a request goes: host, port, the URL to check, and for a plain request its parts.\<close>

datatype destination = No_Destination | Bad_Request | Destination string int string "url_parts option"

definition destination_of :: "string \<Rightarrow> string \<Rightarrow> destination" where
  "destination_of http_method target =
     (if http_method = ''CONNECT'' then
        let (host0, port_text) = last_colon target; host = strip_brackets host0 in
        case py_int port_text of
          None \<Rightarrow> No_Destination
        | Some port \<Rightarrow> Destination host port (address_url ''https'' host port) None
      else case urlsplit target of
        None \<Rightarrow> No_Destination
      | Some p \<Rightarrow>
          if up_scheme p \<noteq> ''http'' \<or> host_of (up_netloc p) = [] then Bad_Request
          else case port_of (up_netloc p) of
            None \<Rightarrow> No_Destination
          | Some port \<Rightarrow> Destination (host_of (up_netloc p)) (port_or port 80) target (Some p))"

definition serve_destination ::
  "'w net_env \<Rightarrow> (string \<Rightarrow> 'w \<Rightarrow> refusal option \<times> 'w) \<Rightarrow> string \<times> string \<times> string list \<Rightarrow> destination \<Rightarrow>
     verdicts \<Rightarrow> 'w \<Rightarrow> served \<times> verdicts \<times> 'w" where
  "serve_destination env guard request d vs w =
     (case d of
        No_Destination \<Rightarrow> (Dropped, vs, w)
      | Bad_Request \<Rightarrow> (Answered 400, vs, w)
      | Destination host port url parts \<Rightarrow>
          (case verdict_for env guard host port url vs w of
             ((Some reason, _), vs', w1) \<Rightarrow> (Dropped, vs', w1)
           | ((None, ips), vs', w1) \<Rightarrow>
               (case connect_first env ips port w1 of
                  (None, w2) \<Rightarrow> (Answered 502, vs', w2)
                | (Some ip, w2) \<Rightarrow>
                    (case (parts, request) of
                       (None, _) \<Rightarrow> (Tunnelled ip port, vs', w2)
                     | (Some p, http_method, version, headers) \<Rightarrow>
                         (Forwarded ip port (forwarded_head http_method version p headers), vs', w2)))))"

text \<open>\<open>_serve\<close>, from the lines of the head\<close>

definition serve ::
  "'w net_env \<Rightarrow> (string \<Rightarrow> 'w \<Rightarrow> refusal option \<times> 'w) \<Rightarrow> string list \<Rightarrow> verdicts \<Rightarrow> 'w \<Rightarrow> served \<times> verdicts \<times> 'w" where
  "serve env guard head_lines vs w =
     (case head_lines of
        [] \<Rightarrow> (Dropped, vs, w)
      | first # headers \<Rightarrow>
          let (http_method, rest) = cut CHR '' '' first; (target, version) = cut CHR '' '' rest in
          if CHR '' '' \<notin> set first \<or> CHR '' '' \<notin> set rest then (Dropped, vs, w)
          else serve_destination env guard (http_method, version, headers) (destination_of http_method target) vs w)"

text \<open>The requests of one session, one after the other.\<close>

fun serve_all ::
  "'w net_env \<Rightarrow> (string \<Rightarrow> 'w \<Rightarrow> refusal option \<times> 'w) \<Rightarrow> string list list \<Rightarrow> verdicts \<Rightarrow> 'w \<Rightarrow>
     served list \<times> verdicts \<times> 'w" where
  "serve_all env guard [] vs w = ([], vs, w)"
| "serve_all env guard (h # hs) vs w =
     (let (r, vs', w') = serve env guard h vs w; (rs, vs'', w'') = serve_all env guard hs vs' w'
      in (r # rs, vs'', w''))"

section \<open>The scope of scans\<close>

definition loopback_hosts :: "string list" where
  "loopback_hosts = [''localhost'', ''127.0.0.1'', ''::1'']"

definition scope_of :: "string list \<Rightarrow> string list" where
  "scope_of hosts = map (\<lambda>h. lower (strip h)) (filter (\<lambda>h. strip h \<noteq> []) hosts)"

datatype scope_answer = In_Scope | Out_Scope string | Scope_Malformed

definition scope_check :: "string list \<Rightarrow> string \<Rightarrow> scope_answer" where
  "scope_check allowed_hosts url =
     (case urlsplit url of
        None \<Rightarrow> Scope_Malformed
      | Some p \<Rightarrow>
          if up_scheme p \<notin> {''http'', ''https''} then
            Out_Scope (''Only http(s) URLs can be scanned, got '' @ py_repr (up_scheme p))
          else let host = lower (host_of (up_netloc p)) in
            if host = [] then Out_Scope (''URL has no host: '' @ py_repr url)
            else case port_of (up_netloc p) of
              None \<Rightarrow> Scope_Malformed
            | Some port0 \<Rightarrow>
                let host_port = host @ '':'' @ show_int (port_or port0 (if up_scheme p = ''https'' then 443 else 80)) in
                if host \<in> set allowed_hosts \<or> host_port \<in> set allowed_hosts then In_Scope
                else Out_Scope (host_port @ '' is not in the authorized scope ('' @ join '', '' (sort (dedup allowed_hosts)) @ '')''))"

definition is_loopback :: "string \<Rightarrow> bool option" where
  "is_loopback url = map_option (\<lambda>p. lower (host_of (up_netloc p)) \<in> set loopback_hosts) (urlsplit url)"

end
