(* ===== verification/Guard_Properties.thy ===== *)
theory Guard_Properties
  imports Net_Guard
begin

text \<open>
  The guard of outbound URLs refuses every internal address, spelled out in dotted quads, and the
  browser's proxy connects to no address the guard has not accepted, however names resolve later.
\<close>

section \<open>Internal IPv4 addresses\<close>

definition quad :: "32 word \<Rightarrow> nat \<times> nat \<times> nat \<times> nat" where
  "quad a = (let n = unat a in (n div 2 ^ 24, n div 2 ^ 16 mod 256, n div 2 ^ 8 mod 256, n mod 256))"

text \<open>This network, private, loopback, link-local, special-purpose, documentation, benchmark, multicast and reserved addresses.\<close>

definition internal_quad :: "nat \<times> nat \<times> nat \<times> nat \<Rightarrow> bool" where
  "internal_quad q \<longleftrightarrow>
     (case q of (a, b, c, d) \<Rightarrow>
        a \<in> {0, 10, 127} \<or> (a = 169 \<and> b = 254) \<or> (a = 172 \<and> 16 \<le> b \<and> b < 32) \<or> (a = 192 \<and> b = 168) \<or>
        (a = 192 \<and> b = 0 \<and> (c = 0 \<and> d \<notin> {9, 10} \<or> c = 2)) \<or> (a = 198 \<and> (b \<in> {18, 19} \<or> b = 51 \<and> c = 100)) \<or>
        (a = 203 \<and> b = 0 \<and> c = 113) \<or> 224 \<le> a)"

lemma in_net_unat:
  fixes a :: "'a::len word"
  shows "in_net a (b, n) \<longleftrightarrow> unat a div 2 ^ (LENGTH('a) - n) = unat b div 2 ^ (LENGTH('a) - n)"
  by (simp add: in_net_def word_unat_eq_iff unat_drop_bit_eq flip: drop_bit_eq_div)

lemma in_net4:
  fixes a :: "32 word"
  shows "in_net a (b, n) \<longleftrightarrow> unat a div 2 ^ (32 - n) = unat b div 2 ^ (32 - n)"
  by (simp add: in_net_unat)

lemma two_digits:
  fixes a b k :: nat
  assumes "b < m"
  shows "(a * m + b = k) = (a = k div m \<and> b = k mod m)"
  using assms by auto

lemma blocked4_quad: "blocked4 a = internal_quad (quad a)"
proof -
  define n where "n = unat a"
  define A where "A = n div 2 ^ 24"
  define B where "B = n div 2 ^ 16 mod 256"
  define C where "C = n div 2 ^ 8 mod 256"
  define D where "D = n mod 256"
  have "n < 2 ^ 32" using unsigned_less[of a] by (simp add: n_def)
  then have bounds: "A < 256" "B < 256" "C < 256" "D < 256" by (simp_all add: A_def B_def C_def D_def)
  have n: "n = ((A * 256 + B) * 256 + C) * 256 + D"
  proof -
    have "n div 256 div 256 = n div 2 ^ 16" "n div 2 ^ 16 div 256 = n div 2 ^ 24" by (simp_all flip: div_mult2_eq)
    then show ?thesis
      using div_mult_mod_eq[of n 256] div_mult_mod_eq[of "n div 256" 256] div_mult_mod_eq[of "n div 2 ^ 16" 256]
      by (simp add: A_def B_def C_def D_def)
  qed
  have divs: "n div 2 ^ 24 = A" "n div 2 ^ 16 = A * 256 + B" "n div 2 ^ 8 = (A * 256 + B) * 256 + C"
    "n div 2 ^ 28 = A div 16" "n div 2 ^ 20 = A * 16 + B div 16" "n div 2 ^ 17 = A * 128 + B div 2"
    "n div 2 ^ 1 = ((A * 256 + B) * 256 + C) * 128 + D div 2"
    using bounds by (simp_all add: n)
  have zero: "(a = 0) = (n = 0)" by (simp add: n_def unat_eq_0)
  have q: "quad a = (A, B, C, D)" by (simp add: quad_def Let_def A_def B_def C_def D_def n_def)
  have halves: "B div 16 < 16" "B div 2 < 128" "D div 2 < 128" using bounds by auto
  have digits: "(A * 256 + B = k) = (A = k div 256 \<and> B = k mod 256)"
    "((A * 256 + B) * 256 + C = k) = (A = k div 256 div 256 \<and> B = k div 256 mod 256 \<and> C = k mod 256)"
    "(((A * 256 + B) * 256 + C) * 256 + D = k) =
       (A = k div 256 div 256 div 256 \<and> B = k div 256 div 256 mod 256 \<and> C = k div 256 mod 256 \<and> D = k mod 256)"
    "(A * 16 + B div 16 = k) = (A = k div 16 \<and> B div 16 = k mod 16)"
    "(A * 128 + B div 2 = k) = (A = k div 128 \<and> B div 2 = k mod 128)"
    "(((A * 256 + B) * 256 + C) * 128 + D div 2 = k) =
       (A = k div 128 div 256 div 256 \<and> B = k div 128 div 256 mod 256 \<and> C = k div 128 mod 256 \<and> D div 2 = k mod 128)" for k
    using bounds halves by (simp_all only: two_digits) simp_all
  have nets: "in_net a (0, 8) = (A = 0)" "in_net a (0x0A000000, 8) = (A = 10)" "in_net a (0x7F000000, 8) = (A = 127)"
    "in_net a (0xA9FE0000, 16) = (A = 169 \<and> B = 254)" "in_net a (0xAC100000, 12) = (A = 172 \<and> B div 16 = 1)"
    "in_net a (0xC0000000, 24) = (A = 192 \<and> B = 0 \<and> C = 0)" "in_net a (0xC0000200, 24) = (A = 192 \<and> B = 0 \<and> C = 2)"
    "in_net a (0xC00000AA, 31) = (A = 192 \<and> B = 0 \<and> C = 0 \<and> D div 2 = 85)" "in_net a (0xC0A80000, 16) = (A = 192 \<and> B = 168)"
    "in_net a (0xC6120000, 15) = (A = 198 \<and> B div 2 = 9)" "in_net a (0xC6336400, 24) = (A = 198 \<and> B = 51 \<and> C = 100)"
    "in_net a (0xCB007100, 24) = (A = 203 \<and> B = 0 \<and> C = 113)" "in_net a (0xF0000000, 4) = (A div 16 = 15)"
    "in_net a (0xE0000000, 4) = (A div 16 = 14)"
    unfolding in_net4 n_def[symmetric] by (simp_all add: divs[simplified] digits[simplified])
  have hosts: "in_net a (0xFFFFFFFF, 32) = (A = 255 \<and> B = 255 \<and> C = 255 \<and> D = 255)"
    "in_net a (0xC0000009, 32) = (A = 192 \<and> B = 0 \<and> C = 0 \<and> D = 9)"
    "in_net a (0xC000000A, 32) = (A = 192 \<and> B = 0 \<and> C = 0 \<and> D = 10)"
    unfolding in_net4 n_def[symmetric] by (simp_all add: n digits(3)[simplified])
  have parts: "(B div 16 = Suc 0) = (16 \<le> B \<and> B < 32)" "(B div 2 = 9) = (B = 18 \<or> B = 19)" "(A div 16 = 15) = (240 \<le> A)"
    "(A div 16 = 14) = (224 \<le> A \<and> A < 240)" "(D div 2 = 85) = (D = 170 \<or> D = 171)" "n = 0 \<Longrightarrow> A = 0"
    using bounds by (auto simp: A_def)
  have priv: "private4 a = (A \<in> {0, 10, 127} \<or> A = 169 \<and> B = 254 \<or> A = 172 \<and> 16 \<le> B \<and> B < 32 \<or>
      A = 192 \<and> B = 0 \<and> (C = 0 \<and> D \<notin> {9, 10} \<or> C = 2) \<or> A = 192 \<and> B = 168 \<or> A = 198 \<and> (B \<in> {18, 19} \<or> B = 51 \<and> C = 100) \<or>
      A = 203 \<and> B = 0 \<and> C = 113 \<or> 240 \<le> A)"
    unfolding private4_def private_nets4_def private_exceptions4_def
    by (cases "A = 192"; simp add: nets hosts parts; auto)
  have high: "224 \<le> A \<Longrightarrow> 240 \<le> A \<or> A < 240" "\<not> 224 \<le> A \<Longrightarrow> \<not> 240 \<le> A" by auto
  have "blocked4 a = internal_quad (A, B, C, D)"
    unfolding blocked4_def priv nets zero internal_quad_def prod.case
    using parts(6) high by (cases "224 \<le> A"; cases "n = 0"; simp add: parts(1-5); (auto; fail)?)
  then show ?thesis by (simp add: q)
qed

section \<open>Accepted targets\<close>

text \<open>Not internal: for IPv6 not the unspecified or the loopback address, no unique local, link-local or multicast one.\<close>

definition external :: "ip_address \<Rightarrow> bool" where
  "external ip \<longleftrightarrow>
     (case ip of
        V4 a \<Rightarrow> \<not> internal_quad (quad a)
      | V6 a \<Rightarrow>
          (case embedded_ipv4 a of
             Some b \<Rightarrow> \<not> internal_quad (quad b)
           | None \<Rightarrow>
               unat a \<notin> {0, 1} \<and> unat a div 2 ^ 121 \<noteq> 0x7E \<and> unat a div 2 ^ 118 \<noteq> 0x3FA \<and> unat a div 2 ^ 120 \<noteq> 0xFF))"

lemma net6_prefixes:
  "unat (net6 0xFC000000 0) div 2 ^ 121 = 0x7E" "unat (net6 0xFE800000 0) div 2 ^ 118 = 0x3FA"
  "unat (net6 0xFF000000 0) div 2 ^ 120 = 0xFF"
  by (simp_all add: net6_def)

lemma in_net6:
  fixes a :: "128 word"
  shows "in_net a (b, n) \<longleftrightarrow> unat a div 2 ^ (128 - n) = unat b div 2 ^ (128 - n)"
  by (simp add: in_net_unat)

lemma in_net_shorter:
  fixes a :: "128 word"
  assumes "in_net a (b, n)" "m \<le> n" "n \<le> 128"
  shows "in_net a (b, m)"
proof -
  have k: "(128 - m) = (128 - n) + (n - m)" using assms(2,3) by simp
  have "unat x div 2 ^ (128 - m) = unat x div 2 ^ (128 - n) div 2 ^ (n - m)" for x :: "128 word"
    by (simp only: k power_add div_mult2_eq)
  then show ?thesis using assms(1) by (simp only: in_net6)
qed

lemma no_exception6:
  assumes "in_net a (net6 0xFC000000 0, 7)"
  shows "\<not> list_ex (in_net a) private_exceptions6"
proof
  assume "list_ex (in_net a) private_exceptions6"
  then obtain b n where b: "(b, n) \<in> set private_exceptions6" "in_net a (b, n)" by (auto simp: list_ex_iff)
  moreover have "list_all (\<lambda>(b, n). 7 \<le> n \<and> n \<le> 128 \<and> unat b div 2 ^ 121 = 0x10) private_exceptions6"
    by (simp add: private_exceptions6_def net6_def)
  ultimately have n: "7 \<le> n" "n \<le> 128" "unat b div 2 ^ 121 = 0x10" by (auto simp: list_all_iff)
  have "in_net a (b, 7)" by (rule in_net_shorter[OF b(2) n(1,2)])
  then show False using assms n(3) net6_prefixes(1) by (simp only: in_net6) simp
qed

lemma not_blocked6:
  assumes "\<not> blocked6 a"
  shows "unat a \<notin> {0, 1} \<and> unat a div 2 ^ 121 \<noteq> 0x7E \<and> unat a div 2 ^ 118 \<noteq> 0x3FA \<and> unat a div 2 ^ 120 \<noteq> 0xFF"
proof -
  have "a \<noteq> 0" "a \<noteq> 1" "\<not> in_net a (net6 0xFE800000 0, 10)" "\<not> in_net a (net6 0xFF000000 0, 8)"
    using assms by (auto simp: blocked6_def)
  moreover have "\<not> in_net a (net6 0xFC000000 0, 7)"
    using assms no_exception6[of a] by (auto simp: blocked6_def private6_def private_nets6_def)
  ultimately show ?thesis
    using net6_prefixes by (auto simp: in_net6 word_unat_eq_iff)
qed

lemma not_blocked_external: "\<not> blocked ip \<Longrightarrow> external ip"
  using not_blocked6 by (cases ip) (auto simp: external_def blocked4_quad split: option.splits)

lemma checked_addresses:
  "check_addresses host ts = None \<Longrightarrow> t \<in> set ts \<Longrightarrow> \<exists>ip. ip_of_text (before_scope t) = Some ip \<and> \<not> blocked ip"
  by (induction ts) (auto split: option.splits if_splits)

lemma accepted_target:
  assumes "check_target env url w = (None, w')" "\<not> ne_private_allowed env"
  obtains p port texts where "urlparse url = Some p" "up_scheme p \<in> {''http'', ''https''}"
    "ne_resolve env (host_of (up_netloc p)) port w = (Inr texts, w')" "check_addresses (host_of (up_netloc p)) texts = None"
  using assms by (auto simp: check_target_def Let_def split: option.splits if_splits sum.splits prod.splits)

text \<open>
  C12: A URL that the guard lets through, where private targets are not allowed, is a web address whose
  host the resolver answered with external addresses only: none of them lies in this network, in a
  private, loopback, link-local, multicast, documentation or reserved IPv4 range, also not when it is
  written inside an IPv6 address, nor is it an internal IPv6 address.
\<close>

theorem accepted_target_external:
  assumes "check_target env url w = (None, w')" "\<not> ne_private_allowed env"
  shows "\<exists>p port texts. urlparse url = Some p \<and> up_scheme p \<in> {''http'', ''https''} \<and>
    ne_resolve env (host_of (up_netloc p)) port w = (Inr texts, w') \<and>
    (\<forall>t \<in> set texts. \<exists>ip. ip_of_text (before_scope t) = Some ip \<and> external ip)"
proof -
  obtain p port texts where "urlparse url = Some p" "up_scheme p \<in> {''http'', ''https''}"
    "ne_resolve env (host_of (up_netloc p)) port w = (Inr texts, w')" "check_addresses (host_of (up_netloc p)) texts = None"
    using accepted_target[OF assms] .
  then show ?thesis using checked_addresses not_blocked_external by blast
qed

section \<open>Text of an address in a URL\<close>

lemma set_split_on: "x \<in> set s \<Longrightarrow> x = c \<or> (\<exists>w \<in> set (split_at_char c s). x \<in> set w)"
  by (induction s) (auto split: list.splits)

lemma split_on_nonempty [simp]: "split_at_char c s \<noteq> []"
  by (induction s) (auto split: list.splits)

lemma split_on_one: "c \<notin> set s \<Longrightarrow> split_at_char c s = [s]"
  by (induction s) auto

lemma each_Some: "each f xs = Some ys \<Longrightarrow> x \<in> set xs \<Longrightarrow> f x \<noteq> None"
  by (induction xs arbitrary: ys) (auto split: option.splits)

definition address_char :: "char \<Rightarrow> bool" where
  "address_char c \<longleftrightarrow> hex_value c \<noteq> None \<or> c = CHR '':'' \<or> c = CHR ''.''"

lemma digit_hex: "digit c \<Longrightarrow> hex_value c \<noteq> None"
  by (simp add: digit_def hex_value_def Let_def)

lemma ipv4_chars:
  assumes "ipv4_value s \<noteq> None" "c \<in> set s"
  shows "digit c \<or> c = CHR ''.''"
proof -
  obtain ds where ds: "each octet_of (split_at_char CHR ''.'' s) = Some ds"
    using assms(1) by (auto simp: ipv4_value_def split: option.splits)
  have "list_all digit w" if "w \<in> set (split_at_char CHR ''.'' s)" for w
    using each_Some[OF ds that] by (auto simp: octet_of_def split: if_splits)
  then show ?thesis using set_split_on[OF assms(2), of "CHR ''.''"] by (auto simp: list_all_iff)
qed

lemma hextet_chars:
  assumes "hextet_of s \<noteq> None" "c \<in> set s"
  shows "hex_value c \<noteq> None"
proof -
  obtain ds where "each hex_value s = Some ds" using assms(1) by (auto simp: hextet_of_def split: if_splits)
  then show ?thesis using each_Some assms(2) by fastforce
qed

lemma hextets_chars: "hextets_of ws = Some hs \<Longrightarrow> w \<in> set ws \<Longrightarrow> c \<in> set w \<Longrightarrow> hex_value c \<noteq> None"
  using each_Some[of hextet_of ws hs w] hextet_chars[of w c] by (auto simp: hextets_of_def)

lemma tl_keeps: "w \<in> set ws \<Longrightarrow> w \<noteq> hd ws \<Longrightarrow> w \<in> set (tl ws)"
  by (cases ws) auto

lemma butlast_keeps: "w \<in> set ws \<Longrightarrow> w \<noteq> last ws \<Longrightarrow> w \<in> set (butlast ws)"
  by (cases ws rule: rev_cases) auto

lemma ipv6_join_parts:
  assumes "ipv6_join ps low \<noteq> None" "w \<in> set ps" "w \<noteq> []"
  shows "\<exists>ws hs. hextets_of ws = Some hs \<and> w \<in> set ws"
proof -
  let ?gaps = "filter (\<lambda>i. ps ! i = []) [1..<if low = [] then length ps - 1 else length ps]"
  consider "?gaps = []" | g where "?gaps = [g]" | g g' gs where "?gaps = g # g' # gs" by (metis neq_Nil_conv)
  then show ?thesis
  proof cases
    case 1
    then have "hextets_of ps \<noteq> None" using assms(1) by (auto simp: ipv6_join_def Let_def split: if_splits)
    then show ?thesis using assms(2) by blast
  next
    case (2 g)
    define b where "b = (if hd ps = [] then tl (take g ps) else take g ps)"
    define a where "a = (if low = [] \<and> last ps = [] then butlast (drop (g + 1) ps) else drop (g + 1) ps)"
    have "g \<in> set ?gaps" unfolding 2 by simp
    then have g: "g < length ps" "ps ! g = []" "0 < g" by (auto split: if_splits)
    have some: "hextets_of b \<noteq> None" "hextets_of a \<noteq> None"
      using assms(1) 2 by (auto simp: ipv6_join_def Let_def a_def[symmetric] b_def[symmetric] split: if_splits option.splits)
    have "w \<in> set (take g ps) \<or> w \<in> set (drop (g + 1) ps)"
      using assms(2,3) g id_take_nth_drop[OF g(1)] by (metis Suc_eq_plus1 Un_iff set_ConsD set_append)
    then have "w \<in> set b \<or> w \<in> set a"
    proof
      assume w: "w \<in> set (take g ps)"
      have "hd (take g ps) = hd ps" using g by (simp add: hd_take)
      then show ?thesis using tl_keeps[OF w] w assms(3) by (auto simp: b_def)
    next
      assume w: "w \<in> set (drop (g + 1) ps)"
      have "last (drop (g + 1) ps) = last ps" using w by (cases "g + 1 < length ps") auto
      then show ?thesis using butlast_keeps[OF w] w assms(3) by (auto simp: a_def)
    qed
    then show ?thesis using some by blast
  next
    case (3 g g' gs)
    then show ?thesis using assms(1) by (simp add: ipv6_join_def Let_def split: if_splits)
  qed
qed

lemma ipv6_chars:
  assumes "ipv6_value s \<noteq> None" "c \<in> set s"
  shows "address_char c"
proof -
  obtain ps low where p: "ipv6_parts s = Some (ps, low)" "ipv6_join ps low \<noteq> None"
    using assms(1) by (auto simp: ipv6_value_def split: option.splits)
  have hex: "hex_value c \<noteq> None" if w: "w \<in> set ps" "c \<in> set w" for w
    using ipv6_join_parts[OF p(2) w(1)] hextets_chars w(2) by fastforce
  consider "c = CHR '':''" | w where "w \<in> set (split_at_char CHR '':'' s)" "c \<in> set w"
    using set_split_on[OF assms(2)] by blast
  then show ?thesis
  proof cases
    case (2 w)
    show ?thesis
    proof (cases "w \<in> set ps")
      case False
      then have "w = last (split_at_char CHR '':'' s)" "ipv4_value w \<noteq> None"
        using 2(1) p(1) butlast_keeps[OF 2(1)] by (auto simp: ipv6_parts_def Let_def split: if_splits)
      then show ?thesis using ipv4_chars[OF _ 2(2)] digit_hex by (auto simp: address_char_def)
    qed (use hex 2 in \<open>auto simp: address_char_def\<close>)
  qed (simp add: address_char_def)
qed

lemma address_value:
  assumes "ip_of_text t = Some ip" "CHR ''%'' \<notin> set t"
  shows "case ip of V4 a \<Rightarrow> ipv4_value t \<noteq> None | V6 a \<Rightarrow> ipv6_value t \<noteq> None"
proof -
  have "takeWhile (\<lambda>c. c \<noteq> CHR ''%'') t = t" using assms(2) by (auto simp: takeWhile_eq_all_conv)
  then show ?thesis
    using assms by (cases "ipv4_value t"; cases "ipv6_value t"; simp add: ip_of_text_def Let_def split: if_splits; clarsimp)
qed

lemma ipv6_colon:
  assumes "ipv6_value t \<noteq> None"
  shows "CHR '':'' \<in> set t"
proof (rule ccontr)
  assume "CHR '':'' \<notin> set t"
  then have "split_at_char CHR '':'' t = [t]" by (rule split_on_one)
  then show False using assms by (simp add: ipv6_value_def ipv6_parts_def)
qed

lemma colon_no_digit: "\<not> digit CHR '':''"
  by (simp add: digit_def)

lemma address_chars:
  assumes "ip_of_text t = Some ip" "CHR ''%'' \<notin> set t" "c \<in> set t"
  shows "address_char c"
proof (cases ip)
  case (V4 a)
  then show ?thesis using address_value[OF assms(1,2)] ipv4_chars[of t c] assms(3) digit_hex by (auto simp: address_char_def)
next
  case (V6 a)
  then show ?thesis using address_value[OF assms(1,2)] ipv6_chars[of t c] assms(3) by auto
qed

lemma address_colon:
  assumes "ip_of_text t = Some ip" "CHR ''%'' \<notin> set t"
  shows "(CHR '':'' \<in> set t) = (case ip of V4 a \<Rightarrow> False | V6 a \<Rightarrow> True)"
proof (cases ip)
  case (V4 a)
  then show ?thesis using address_value[OF assms] ipv4_chars[of t "CHR '':''"] colon_no_digit by auto
next
  case (V6 a)
  then show ?thesis using address_value[OF assms] ipv6_colon by simp
qed

lemma address_nonempty: "ip_of_text t = Some ip \<Longrightarrow> t \<noteq> []"
  by (auto simp: ip_of_text_def ipv4_value_def octet_of_def ipv6_value_def ipv6_parts_def)

section \<open>The URL of an address\<close>

text \<open>Characters that separate no parts of a URL.\<close>

definition plain_char :: "char \<Rightarrow> bool" where
  "plain_char c \<longleftrightarrow> c \<notin> set ''/?#@[]%'' \<and> \<not> line_char c"

lemma hex_cases:
  assumes "hex_value c \<noteq> None"
  shows "c \<in> set ''0123456789ABCDEFabcdef''"
proof -
  define codes where "codes = [48..<58] @ [65..<71] @ [97..<103::nat]"
  have "of_char c \<in> set codes"
    unfolding codes_def set_append set_upt using assms by (auto simp: hex_value_def Let_def split: if_splits)
  then have "c \<in> set (map char_of codes)" by (metis char_of_char image_eqI set_map)
  moreover have "map char_of codes = ''0123456789ABCDEFabcdef''"
    unfolding codes_def by code_simp
  ultimately show ?thesis by (simp only:)
qed

lemma address_plain: "address_char c \<Longrightarrow> plain_char c"
proof -
  have "list_all plain_char ''0123456789ABCDEFabcdef:.''" by code_simp
  then show "address_char c \<Longrightarrow> plain_char c" using hex_cases[of c] unfolding address_char_def list_all_iff by auto
qed

lemma digit_plain: "digit c \<Longrightarrow> plain_char c"
  using digit_hex address_plain by (simp add: address_char_def)

lemma port_plain: "c \<in> set (show_int n) \<Longrightarrow> plain_char c"
proof -
  have "plain_char CHR ''-''" by code_simp
  then show "c \<in> set (show_int n) \<Longrightarrow> plain_char c"
    using show_digits_chars[of n c] show_digits_chars[of "- n" c] digit_plain[of c]
    unfolding show_int_def by (cases "n < 0") auto
qed

text \<open>Characters that end no host, and are kept.\<close>

definition host_char :: "char \<Rightarrow> bool" where
  "host_char c \<longleftrightarrow> c \<notin> set ''/?#'' \<and> \<not> line_char c"

lemma plain_host: "plain_char c \<Longrightarrow> host_char c"
  by (simp add: plain_char_def host_char_def)

lemma delimiter_host: "host_char CHR '':''" "host_char CHR ''[''" "host_char CHR '']''"
  by code_simp+

lemma with_params_netloc: "up_netloc (with_params p) = up_netloc p"
  by (simp add: with_params_def split: prod.split)

lemma parsed_url:
  assumes "urlparse (s @ ''://'' @ n @ ''/'') = Some p" "s \<in> {''http'', ''https''}"
    "\<forall>c \<in> set n. host_char c"
  shows "up_netloc p = n"
proof -
  have kept: "filter (\<lambda>c. \<not> line_char c) n = n" using assms(3) by (simp add: filter_id_conv host_char_def)
  have "takeWhile (\<lambda>x. x \<notin> set ''/?#'') (n @ ''/'') = n" using assms(3) by (simp add: takeWhile_append host_char_def)
  then have net: "split_netloc (''//'' @ n @ ''/'') = (n, ''/'')" by (simp add: split_netloc_def)
  have clean: "filter (\<lambda>c. \<not> line_char c) (dropWhile control_or_space (s @ ''://'' @ n @ ''/'')) = s @ ''://'' @ n @ ''/''"
    using assms(2) kept by (auto simp: control_or_space_def line_char_def)
  have scheme: "split_scheme [] (s @ ''://'' @ n @ ''/'') = (s, ''//'' @ n @ ''/'')"
    using assms(2) by (auto simp: split_scheme_def cut_def letter_def scheme_char_def lower_def lower_char_def)
  have "split_url [] (s @ ''://'' @ n @ ''/'') = (if \<not> brackets_ok n then None
      else Some \<lparr>up_scheme = s, up_netloc = n, up_path = ''/'', up_params = [], up_query = [], up_fragment = []\<rparr>)"
    unfolding split_url_def Let_def clean scheme net prod.case by (simp add: cut_def)
  then show ?thesis using assms(1) by (auto simp: urlparse_def urlparse_in_def with_params_netloc split: if_splits)
qed

lemma text_host:
  assumes "ip_of_text t = Some ip" "lower t = t" "CHR ''%'' \<notin> set t"
    "n = (if CHR '':'' \<in> set t then ''['' @ t @ '']'' else t) @ '':'' @ show_int port"
  shows "host_of n = t"
proof -
  have plain: "plain_char c" if "c \<in> set t \<or> c \<in> set (show_int port)" for c
    using that address_plain[OF address_chars[OF assms(1,3)]] port_plain by auto
  then have free: "c \<notin> set t" "c \<notin> set (show_int port)" if "c \<in> set ''/?#@[]%''" for c
    using that by (auto simp: plain_char_def)
  have at: "after_last_at n = n"
  proof -
    have "CHR ''@'' \<notin> set (rev n)" using free[of "CHR ''@''"] assms(4) by (cases "CHR '':'' \<in> set t") auto
    then have "takeWhile (\<lambda>c. c \<noteq> CHR ''@'') (rev n) = rev n" by (auto simp: takeWhile_eq_all_conv)
    then show ?thesis unfolding after_last_at_def by (simp only: rev_rev_ident)
  qed
  have whole: "takeWhile (\<lambda>c. c \<noteq> CHR ''%'') t = t" using assms(3) by (auto simp: takeWhile_eq_all_conv)
  have "fst (host_and_port n) = t"
  proof (cases "CHR '':'' \<in> set t")
    case True
    then have n: "n = CHR ''['' # t @ CHR '']'' # CHR '':'' # show_int port" using assms(4) by simp
    have "takeWhile (\<lambda>x. x \<noteq> CHR '']'') (t @ CHR '']'' # r) = t" for r
      using free[of "CHR '']''"] by (simp add: takeWhile_append)
    then show ?thesis by (simp add: host_and_port_def at) (simp add: n cut_def after_first_def)
  next
    case False
    then have n: "n = t @ CHR '':'' # show_int port" using assms(4) by simp
    have "takeWhile (\<lambda>x. x \<noteq> CHR '':'') (t @ CHR '':'' # r) = t" for r
      using False by (simp add: takeWhile_append)
    then show ?thesis using free[of "CHR ''[''"] by (simp add: host_and_port_def at) (simp add: n cut_def)
  qed
  then show ?thesis by (simp add: host_of_def whole assms(2))
qed

text \<open>
  A resolver of addresses, like \<open>getaddrinfo\<close>: it answers texts of addresses, in lower case, and the
  text of an address is answered with that address.
\<close>

definition resolves_addresses :: "'w net_env \<Rightarrow> bool" where
  "resolves_addresses env \<longleftrightarrow>
     (\<forall>host port w texts w'. ne_resolve env host port w = (Inr texts, w') \<longrightarrow>
        (\<forall>t \<in> set texts. ip_of_text (before_scope t) \<noteq> None \<and> lower (before_scope t) = before_scope t) \<and>
        (ip_of_text host \<noteq> None \<and> CHR ''%'' \<notin> set host \<longrightarrow>
           texts \<noteq> [] \<and> (\<forall>t \<in> set texts. ip_of_text (before_scope t) = ip_of_text host)))"

definition external_text :: "string \<Rightarrow> bool" where
  "external_text t \<longleftrightarrow> (\<exists>ip. ip_of_text t = Some ip \<and> external ip)"

lemma accepted_address:
  assumes "check_target env (address_url s t port) w = (None, w')" "\<not> ne_private_allowed env"
    "resolves_addresses env" "s \<in> {''http'', ''https''}" "ip_of_text t = Some ip" "lower t = t" "CHR ''%'' \<notin> set t"
  shows "external_text t"
proof -
  let ?n = "(if CHR '':'' \<in> set t then ''['' @ t @ '']'' else t) @ '':'' @ show_int port"
  obtain p port' texts where p: "urlparse (address_url s t port) = Some p"
    "ne_resolve env (host_of (up_netloc p)) port' w = (Inr texts, w')" "check_addresses (host_of (up_netloc p)) texts = None"
    using accepted_target[OF assms(1,2)] .
  have "host_char c" if "c \<in> set t \<or> c \<in> set (show_int port)" for c
    using that address_plain[OF address_chars[OF assms(5,7)]] port_plain plain_host by blast
  then have chars: "\<forall>c \<in> set ?n. host_char c"
    using delimiter_host unfolding set_append by (cases "CHR '':'' \<in> set t") auto
  have "up_netloc p = ?n" using parsed_url[of s ?n p, OF _ assms(4) chars] p(1) by (simp add: address_url_def)
  then have host: "host_of (up_netloc p) = t" using text_host[OF assms(5-7) refl] by simp
  then obtain t' where t': "t' \<in> set texts" "ip_of_text (before_scope t') = Some ip"
    using assms(3,5,7) p(2) unfolding resolves_addresses_def by (metis list.set_sel(1) option.distinct(1))
  then show ?thesis using checked_addresses[OF p(3) t'(1)] not_blocked_external[of ip] assms(5) by (simp add: external_text_def)
qed

section \<open>The proxy\<close>

text \<open>A property of the network that lookups keep, and connections to external addresses.\<close>

definition kept_by :: "'w net_env \<Rightarrow> ('w \<Rightarrow> bool) \<Rightarrow> bool" where
  "kept_by env P \<longleftrightarrow>
     (\<forall>host port w. P w \<longrightarrow> P (snd (ne_resolve env host port w))) \<and>
     (\<forall>t port w. P w \<and> external_text t \<longrightarrow> P (snd (ne_connect env t port w)))"

definition external_verdicts :: "verdicts \<Rightarrow> bool" where
  "external_verdicts vs \<longleftrightarrow> (\<forall>(k, v) \<in> set vs. fst v = None \<longrightarrow> list_all external_text (snd v))"

lemma guard_keeps: "kept_by env P \<Longrightarrow> P w \<Longrightarrow> P (snd (check_target env url w))"
  by (auto simp: check_target_def kept_by_def Let_def split: option.splits sum.splits prod.splits) (metis snd_conv)+

lemma check_ips_keeps: "kept_by env P \<Longrightarrow> P w \<Longrightarrow> P (snd (check_ips (check_target env) s port ips w))"
proof (induction ips arbitrary: w)
  case (Cons ip ips)
  have "P (snd (check_target env (address_url s ip port) w))" by (rule guard_keeps[OF Cons.prems])
  then show ?case using Cons.IH[OF Cons.prems(1)] by (auto split: prod.splits option.splits)
qed simp

lemma accepted_ips:
  assumes "check_ips (check_target env) s port ips w = (None, w')" "ip \<in> set ips"
  shows "\<exists>v v'. check_target env (address_url s ip port) v = (None, v')"
  using assms by (induction ips arbitrary: w) (auto split: prod.splits option.splits)

lemma with_params_scheme: "up_scheme (with_params p) = up_scheme p"
  by (simp add: with_params_def split: prod.split)

lemma accepted_scheme:
  assumes "check_target env url w = (None, w')" "urlsplit url = Some p"
  shows "up_scheme p \<in> {''http'', ''https''}"
  using assms with_params_scheme[of p]
  by (auto simp: check_target_def urlparse_def urlparse_in_def urlsplit_def Let_def split: if_splits)

lemma checked_destination:
  assumes "check_destination env (check_target env) host port url w = (v, w')" "\<not> ne_private_allowed env"
    "resolves_addresses env" "kept_by env P" "P w" "\<And>xs. set (ne_set_order env xs) = set xs"
  shows "(fst v = None \<longrightarrow> list_all external_text (snd v)) \<and> P w'"
proof -
  obtain r1 w1 where g: "check_target env url w = (r1, w1)" by fastforce
  have P1: "P w1" using guard_keeps[OF assms(4,5), of url] g by simp
  show ?thesis
  proof (cases r1)
    case None
    obtain a w2 where n: "ne_resolve env host port w1 = (a, w2)" by fastforce
    have P2: "P w2" using assms(4) P1 n unfolding kept_by_def by (metis snd_conv)
    show ?thesis
    proof (cases a)
      case (Inr texts)
      let ?ips = "sort_key (\<lambda>ip. CHR '':'' \<in> set ip) (ne_set_order env (dedup (map before_scope texts)))"
      have ips: "set ?ips = before_scope ` set texts" using assms(6) by simp
      show ?thesis
      proof (cases "?ips = [] \<or> urlsplit url = None")
        case True
        then show ?thesis using assms(1) g None n Inr P2 by (auto simp: check_destination_def Let_def split: if_splits)
      next
        case False
        then obtain p where p: "urlsplit url = Some p" by auto
        obtain r3 w3 where c: "check_ips (check_target env) (up_scheme p) port ?ips w2 = (r3, w3)" by fastforce
        have P3: "P w3" using check_ips_keeps[OF assms(4) P2, of "up_scheme p" port ?ips] c by simp
        have v: "v = (case r3 of Some r \<Rightarrow> (Some (Guard_Refused r), []) | None \<Rightarrow> (None, ?ips))" "w' = w3"
          using assms(1) False p c g None n Inr by (auto simp: check_destination_def Let_def split: option.splits)
        have "external_text ip" if ip: "ip \<in> set ?ips" "r3 = None" for ip
        proof -
          obtain t where t: "t \<in> set texts" "ip = before_scope t" using ip(1) ips by auto
          have "ip_of_text ip \<noteq> None" "lower ip = ip"
            using assms(3) n Inr t unfolding resolves_addresses_def by blast+
          moreover have "CHR ''%'' \<notin> set ip" using t(2) by (auto simp: before_scope_def dest: set_takeWhileD)
          moreover obtain u u' where "check_target env (address_url (up_scheme p) ip port) u = (None, u')"
            using accepted_ips[OF c[unfolded ip(2)] ip(1)] by blast
          ultimately show ?thesis
            using accepted_address[OF _ assms(2,3) accepted_scheme[OF g[unfolded None] p]] by blast
        qed
        then show ?thesis using v P3 by (auto simp: list_all_iff split: option.splits)
      qed
    qed (use assms(1) g None n P2 in \<open>auto simp: check_destination_def\<close>)
  qed (use assms(1) g P1 in \<open>auto simp: check_destination_def\<close>)
qed

definition external_served :: "served \<Rightarrow> bool" where
  "external_served r \<longleftrightarrow> (case r of Tunnelled t _ \<Rightarrow> external_text t | Forwarded t _ _ \<Rightarrow> external_text t | _ \<Rightarrow> True)"

lemma connect_keeps:
  assumes "kept_by env P" "list_all external_text ips" "P w" "connect_first env ips port w = (r, w')"
  shows "P w' \<and> (\<forall>t. r = Some t \<longrightarrow> external_text t)"
  using assms(2-)
proof (induction ips arbitrary: w)
  case (Cons t ips)
  have "P (snd (ne_connect env t port w))" using assms(1) Cons.prems unfolding kept_by_def by auto
  then show ?case using Cons.IH Cons.prems by (auto split: prod.splits bool.splits)
qed simp

lemma update_verdicts: "external_verdicts vs \<Longrightarrow> fst v = None \<longrightarrow> list_all external_text (snd v) \<Longrightarrow>
    external_verdicts (AList.update k v vs)"
  unfolding external_verdicts_def by (induction vs) auto

lemma verdict_keeps:
  assumes "verdict_for env (check_target env) host port url vs w = (v, vs', w')" "\<not> ne_private_allowed env"
    "resolves_addresses env" "kept_by env P" "P w" "\<And>xs. set (ne_set_order env xs) = set xs" "external_verdicts vs"
  shows "(fst v = None \<longrightarrow> list_all external_text (snd v)) \<and> external_verdicts vs' \<and> P w'"
proof (cases "map_of vs (lower host, port)")
  case None
  obtain x y where d: "check_destination env (check_target env) host port url w = (x, y)" by fastforce
  then show ?thesis
    using checked_destination[OF d assms(2-6)] update_verdicts[OF assms(7), of v] assms(1) None
    by (auto simp: verdict_for_def)
next
  case (Some u)
  then show ?thesis
    using map_of_SomeD[OF Some] assms(1,5,7) by (auto simp: verdict_for_def external_verdicts_def)
qed

lemma serve_keeps:
  assumes "serve env (check_target env) ls vs w = (r, vs', w')" "\<not> ne_private_allowed env"
    "resolves_addresses env" "kept_by env P" "P w" "\<And>xs. set (ne_set_order env xs) = set xs" "external_verdicts vs"
  shows "external_served r \<and> external_verdicts vs' \<and> P w'"
proof -
  have destination: "external_served r \<and> external_verdicts vs' \<and> P w'"
    if "serve_destination env (check_target env) q d vs w = (r, vs', w')" for q d
  proof (cases d)
    case (Destination host port url parts)
    obtain v vs1 w1 where v: "verdict_for env (check_target env) host port url vs w = (v, vs1, w1)" by (metis prod_cases3)
    obtain c w2 where c: "connect_first env (snd v) port w1 = (c, w2)" by fastforce
    note kept = verdict_keeps[OF v assms(2-7)]
    show ?thesis
    proof (cases "fst v")
      case None
      then have "P w2 \<and> (\<forall>t. c = Some t \<longrightarrow> external_text t)"
        using kept connect_keeps[OF assms(4) _ _ c] by blast
      then show ?thesis
        using that Destination v c kept None
        by (cases v) (auto simp: serve_destination_def external_served_def split: option.splits prod.splits)
    qed (use that Destination v kept in \<open>cases v; auto simp: serve_destination_def external_served_def\<close>)
  qed (use that assms(5,7) in \<open>auto simp: serve_destination_def external_served_def\<close>)
  then show ?thesis
    using assms(1,5,7) by (auto simp: serve_def external_served_def Let_def split: list.splits prod.splits if_splits)
qed

lemma serve_all_keeps:
  assumes "\<not> ne_private_allowed env" "resolves_addresses env" "kept_by env P" "\<And>xs. set (ne_set_order env xs) = set xs"
  shows "serve_all env (check_target env) heads vs w = (rs, vs', w') \<Longrightarrow> P w \<Longrightarrow> external_verdicts vs \<Longrightarrow>
    list_all external_served rs \<and> P w'"
proof (induction heads arbitrary: vs w rs)
  case (Cons h hs)
  obtain r vs1 w1 where h: "serve env (check_target env) h vs w = (r, vs1, w1)" by (metis prod_cases3)
  then show ?case
    using serve_keeps[OF h assms(1-3) Cons.prems(2) assms(4) Cons.prems(3)] Cons.IH Cons.prems(1)
    by (auto split: prod.splits)
qed simp

text \<open>
  C7: The browser's proxy, guarded by the check of outbound URLs where private targets are not allowed,
  only ever connects to external addresses: whatever requests one session makes, and however the names
  it asks for resolve later, every tunnel and every forwarded request goes to an external address, and a
  property of the network that lookups and connections to external addresses keep is never broken.
\<close>

theorem egress_connects_external:
  assumes "serve_all env (check_target env) heads [] w = (rs, vs, w')" "\<not> ne_private_allowed env"
    "resolves_addresses env" "\<And>xs. set (ne_set_order env xs) = set xs" "kept_by env P" "P w"
  shows "list_all external_served rs \<and> P w'"
  by (rule serve_all_keeps[OF assms(2,3,5,4) assms(1,6)]) (simp add: external_verdicts_def)

section \<open>Witnesses\<close>

text \<open>
  A network whose state is the number of lookups so far and the addresses connected to. The name
  \<open>shop.test\<close> first resolves to a public address, later to an address of the server's own network.
\<close>

definition rebinding_net :: "(nat \<times> string list) net_env" where
  "rebinding_net =
     \<lparr>ne_private_allowed = False,
      ne_resolve = (\<lambda>host port (n, log).
        (if ip_of_text host \<noteq> None \<and> CHR ''%'' \<notin> set host then
           (if lower host = host then Inr [host] else Inl ''not canonical'')
         else if host = ''shop.test'' then Inr [if n < 2 then ''93.184.216.34'' else ''10.0.0.5'']
         else Inl ''unknown'', (n + 1, log))),
      ne_connect = (\<lambda>t port (n, log). (True, (n, log @ [t]))),
      ne_set_order = (\<lambda>xs. xs)\<rparr>"

lemma accepted_target_external_witness:
  "\<exists>p port texts. urlparse ''http://shop.test/'' = Some p \<and> up_scheme p \<in> {''http'', ''https''} \<and>
     ne_resolve rebinding_net (host_of (up_netloc p)) port (0, []) = (Inr texts, (1, [])) \<and>
     (\<forall>t \<in> set texts. \<exists>ip. ip_of_text (before_scope t) = Some ip \<and> external ip)"
proof (rule accepted_target_external)
  show "check_target rebinding_net ''http://shop.test/'' (0, []) = (None, (1, []))" by code_simp
  show "\<not> ne_private_allowed rebinding_net" by (simp add: rebinding_net_def)
qed

definition session_heads :: "string list list" where
  "session_heads =
     [[''CONNECT shop.test:443 HTTP/1.1'', ''Host: shop.test:443'', [], []],
      [''CONNECT shop.test:443 HTTP/1.1'', ''Host: shop.test:443'', [], []],
      [''GET http://shop.test/cart HTTP/1.1'', ''Host: shop.test'', [], []],
      [''GET http://93.184.216.34/ HTTP/1.1'', ''Connection: keep-alive'', [], []],
      [''CONNECT [::ffff:169.254.169.254]:80 HTTP/1.1'', [], []]]"

lemma rebinding_resolves: "resolves_addresses rebinding_net"
proof -
  have "ip_of_text ''93.184.216.34'' \<noteq> None" "ip_of_text ''10.0.0.5'' \<noteq> None" "lower ''93.184.216.34'' = ''93.184.216.34''"
    "lower ''10.0.0.5'' = ''10.0.0.5''" "before_scope ''93.184.216.34'' = ''93.184.216.34''"
    "before_scope ''10.0.0.5'' = ''10.0.0.5''"
    by code_simp+
  moreover have "before_scope host = host" if "CHR ''%'' \<notin> set host" for host
    using that by (auto simp: before_scope_def takeWhile_eq_all_conv)
  ultimately show ?thesis
    by (auto simp: resolves_addresses_def rebinding_net_def split: if_splits)
qed

lemma session_run:
  "map_prod hd (\<lambda>r. snd (snd r)) (serve_all rebinding_net (check_target rebinding_net) session_heads [] (0, [])) =
     (Tunnelled ''93.184.216.34'' 443, replicate 3 ''93.184.216.34'')"
  by code_simp

lemma egress_connects_external_witness:
  "\<exists>rs vs n. serve_all rebinding_net (check_target rebinding_net) session_heads [] (0, []) =
       (rs, vs, n, replicate 3 ''93.184.216.34'') \<and> hd rs = Tunnelled ''93.184.216.34'' 443 \<and>
     list_all external_served rs \<and> list_all external_text (replicate 3 ''93.184.216.34'')"
proof -
  let ?P = "\<lambda>(n :: nat, log). list_all external_text log"
  obtain rs vs n log where
    run: "serve_all rebinding_net (check_target rebinding_net) session_heads [] (0, []) = (rs, vs, n, log)"
    by (metis prod_cases4)
  have "kept_by rebinding_net ?P" by (auto simp: kept_by_def rebinding_net_def)
  moreover have "\<not> ne_private_allowed rebinding_net" "set (ne_set_order rebinding_net xs) = set xs" for xs
    by (simp_all add: rebinding_net_def)
  ultimately have "list_all external_served rs \<and> ?P (n, log)"
    using egress_connects_external[OF run _ rebinding_resolves, of ?P] by simp
  then show ?thesis using session_run run by auto
qed

end
