(* ===== verification/Spec2Isabelle.thy ===== *)
theory Spec2Isabelle
  imports Memory_Properties Analysis_Properties Healing_Properties Policy_Properties
    Workflow_Properties Engine_Properties Converter_Properties Platform_Properties
    Store_Properties Planner_Properties Classifier_Properties LLM_Properties
    Suite_Properties Pipeline_Properties Deploy_Properties Explorer_Properties
    Rate_Limit Guard_Properties
begin

text \<open>
  A verification development of the platform: how tests are planned by a model and checked
  (\<^verbatim>\<open>src/agents/planner\<close>), how the engine runs them in a browser and heals locators on the way
  (\<^verbatim>\<open>src/engine\<close>), how the platform drives whole executions (\<^verbatim>\<open>src/backend/orchestration\<close>), what the
  self-healing agents (\<^verbatim>\<open>src/agents\<close>) do with a failed run, from the failure report to a replacement
  selector that is validated, learned, or given up, how the pipeline plans, tests, reports and deploys a
  project (\<^verbatim>\<open>src/backend/pipeline\<close>), and what the server may contact and how often.

  \<^bold>\<open>The program.\<close> The planner turns an application context into test cases: the model's JSON is
  coerced and parsed, invalid, duplicate and ungrounded cases are dropped, the rest may be
  prioritized. A stored test case is read back and converted to an engine plan. The engine runs the
  plan step by step; a step whose element is gone is healed from fallback locators or by comparing
  fingerprints. When the run fails, the failure analyzer classifies the report with ordered rules
  over the error text and the element memory, asking an LLM only when the rules find nothing. The
  decision engine generates replacement candidates from the elements of the current page and from
  earlier validated heals, scores and ranks them, and recommends. The recovery policy decides
  whether to retry, to try the best candidate, or to stop. The workflow orchestrator is the state
  machine around them: it takes execution results and validation feedback, records every validation
  in the healing memory, and offers the next candidate when one fails. The platform orchestrator
  connects both: it runs, retries, validates each proposal by running the plan with the replacement
  put in, learns from the outcome and reports a verdict.

  A pipeline run takes a project through its stages: the repository is ingested, the app analyzed, a
  suite planned from its pages (fixed tests of each page, tests the planner agent proposes for it, and a
  recorded exploration when the project has a goal), executed, healed, scanned and reported; a run
  that ends green may deploy the project, which is then watched, smoke tested and rolled back. A
  scheduler and a queue start runs. The goal explorer lets a model act on a live page under guardrails.
  Every call of a model goes through one client that classifies errors and retries. Every URL a user
  names passes the guard of outbound addresses, and the browser connects through a proxy that applies
  the same guard to each connection; starts of runs are limited per user and minute.

  \<^bold>\<open>Theories and sources.\<close> Each component theory is a translation of one source file, in the
  file's order, with the source's names in snake case; record fields carry a two-letter prefix.
    \<^item> \<open>Prelude\<close>: Python strings, slices, stable sorting, dicts of lists, first maximum; \<open>Py_Text\<close>:
      splitting, integers, \<open>repr\<close>, path segments; \<open>Py_Json\<close>: truth and text of JSON values and the
      reading of fields by pydantic. \<open>Float64\<close>: Python floats as rationals with every operation
      rounded to the nearest double (\<open>fl\<close>), \<open>round\<close>, square roots and the float formats.
    \<^item> \<open>Enums\<close>: \<^verbatim>\<open>agents/schemas/enums.py\<close>; every class is an interpretation of \<open>str_enum\<close>.
    \<^item> \<open>Memory_Schemas\<close>, \<open>Memory_Store\<close>, \<open>Healing_Evidence\<close>, \<open>Pattern_Detector\<close>,
      \<open>Context_Comparator\<close>, \<open>Persistent_Store\<close>: \<^verbatim>\<open>agents/memory/\<close>. The store is \<open>mem_store\<close>; the
      interface its clients use is the locale \<open>healing_memory\<close>, interpreted on it as \<open>mem\<close>. The
      persistent store keeps its rows in the \<open>Document_Store\<close> (\<^verbatim>\<open>backend/database/store.py\<close>)
      through the locale \<open>document_log\<close>.
    \<^item> \<open>Analyzer_Schemas\<close>, \<open>Failure_Analyzer\<close>, \<open>Failure_Classifier\<close>, \<open>Failure_Analysis\<close>:
      \<^verbatim>\<open>agents/analyzer/\<close>.
    \<^item> \<open>Healing_Schemas\<close>, \<open>Candidate_Scorer\<close>, \<open>Candidate_Generator\<close>, \<open>LLM_Evaluator\<close>,
      \<open>Healing_Decision\<close>, \<open>Healing_Feedback\<close>, \<open>Result_Mapper\<close>: \<^verbatim>\<open>agents/healer/\<close>.
    \<^item> \<open>Planner_Schemas\<close>, \<open>Planner_Validation\<close>, \<open>Structured_Output\<close>, \<open>Test_Priority\<close>,
      \<open>Test_Planner\<close>: \<^verbatim>\<open>agents/planner/\<close>.
    \<^item> \<open>Recovery_Policy\<close>, \<open>Workflow_Schemas\<close>, \<open>Agent_Orchestrator\<close>: \<^verbatim>\<open>agents/orchestration/\<close>. Both
      entry points of the policy interpret the locale \<open>healing_policy\<close>.
    \<^item> \<open>Engine_Schemas\<close>, \<open>Locators\<close> (with the detector), \<open>Engine_Healer\<close>, \<open>Engine_Runner\<close>: \<^verbatim>\<open>engine/\<close>. A
      step is an operation on a \<open>session\<close> that returns a value or an exception; the two scorers of
      the healer interpret the locale \<open>element_scorer\<close>.
    \<^item> \<open>Page_Elements\<close>, \<open>Converters\<close>: \<^verbatim>\<open>backend/orchestration/converters.py\<close>, first the collector of
      page elements and their unique selectors, then the conversions in both directions.
    \<^item> \<open>Stored_Tests\<close>, \<open>Platform_Run\<close>, \<open>Platform_Workflow\<close>: \<^verbatim>\<open>backend/orchestration/orchestrator.py\<close>,
      reading a stored test, one execution of it, and its effect on the workflow. The locale
      \<open>test_runner\<close> states what an execution needs of its runner; the engine interprets it.
    \<^item> \<open>LLM_Session\<close>: the client and its retry loop, \<^verbatim>\<open>agents/llm/client.py\<close>, with the errors, the
      configuration and the parser of answers; \<open>LLM_Providers\<close>: \<^verbatim>\<open>agents/llm/providers/\<close> (the HTTP
      provider and the mock) and their factory.
    \<^item> \<open>Net_Address\<close>, \<open>Url_Parts\<close>: the standard library's \<open>ipaddress\<close> and \<open>urllib.parse\<close>, as far as the
      program uses them. \<open>Suite\<close>, \<open>Ai_Plan\<close>: \<^verbatim>\<open>backend/pipeline/suite.py\<close> and \<^verbatim>\<open>ai_plan.py\<close>.
    \<^item> \<open>Pipeline_State\<close>, \<open>Pipeline_Stages\<close>, \<open>Pipeline_Report\<close>, \<open>Pipeline_Plan\<close>, \<open>Pipeline_Run\<close>:
      \<^verbatim>\<open>backend/pipeline/runner.py\<close>, with \<^verbatim>\<open>explore.py\<close>, \<^verbatim>\<open>backend/reporting/summary.py\<close>, the scheduler
      (\<^verbatim>\<open>scheduler.py\<close>), the queue (\<^verbatim>\<open>backend/worker.py\<close>) and the service calls a run makes. A run
      is the record \<open>run_state\<close> over a world whose collections are the \<open>Document_Store\<close>.
    \<^item> \<open>Deployment\<close>: \<^verbatim>\<open>backend/pipeline/deploy.py\<close> and \<^verbatim>\<open>deploy_config.py\<close>.
    \<^item> \<open>Explorer\<close>: \<^verbatim>\<open>agents/explorer/\<close>. \<open>Rate_Limit\<close>: \<^verbatim>\<open>backend/ratelimit.py\<close>. \<open>Net_Guard\<close>:
      \<^verbatim>\<open>backend/netguard.py\<close>, \<^verbatim>\<open>engine/egress.py\<close> and \<^verbatim>\<open>security/scope.py\<close>.

  \<^bold>\<open>State and effects.\<close> A workflow is the record \<open>agent_state\<close>, which every public method of
  the orchestrator takes and returns; memory and registered workflows are the \<open>world\<close>. A
  handler is a list of actions run by \<open>run_actions\<close>, so a refused transition or an exception is
  the value \<open>Inl\<close> and leaves the world as the code leaves it. The platform's state is the record
  \<open>platform\<close>, with the runs made so far as a ghost field. Time is a parameter: the k-th reading of the
  clock, counted by the ghost field \<open>ag_ticks\<close>; the engine's clock counts whole milliseconds.
  Pydantic constraints are the predicates \<open>valid_...\<close>; records are built without checking them, and
  the properties of kind type show that the records the pipeline builds satisfy them.

  \<^bold>\<open>Parameters.\<close> What is not under \<^verbatim>\<open>src\<close> is an argument: LLM clients and the planner's model, which may
  return anything or fail; every browser command, which may fail, take time, and answer anything; what
  the page's scripts report; the fuzzy text ratio; the events of the HTML parser; reading numbers out of
  text; writing and reading JSON text; files; ids and time stamps drawn from the system. They are
  function arguments or the fields of an environment record: \<open>pipeline_env\<close> and \<open>run_env\<close> (ingestion,
  page analysis, reachability, the planner's answer, an exploration, one execution, security scans), \<open>deploy_env\<close>
  (probes, the deploy hook, the remote head, the readings of the clock), \<open>explorer_env\<close> (the browser and
  the model), \<open>net_env\<close> (the resolver and connections). An environment may answer differently each
  time; what a property assumes of one is among its hypotheses.

  \<^bold>\<open>Lemmas and properties.\<close> \<open>Workflow_Actions\<close> evaluates each group of actions on the control
  part of the state; \<open>Workflow_Invariants\<close> reduces every accepted submission to one of three
  effects (\<open>stopped\<close>, \<open>retried\<close>, \<open>proposed\<close>) and derives the reachable-state invariant and the
  bound on submissions; \<open>Workflow_Log\<close> does the same for the event log. \<open>Engine_Runner\<close> relates a run
  to its plan step by step (\<open>runs_along\<close>, \<open>step_learned\<close>), and \<open>Platform_Run\<close> and
  \<open>Platform_Workflow\<close> lift that to whole executions. \<open>Pipeline_Invariants\<close> gives the rules by which
  every stage keeps the document of its run, \<open>Pipeline_Progress\<close> those by which a run ends;
  \<open>Deploy_Properties\<close> does both for deployments, and ties a verified one to the answers of the hook, of the
  health address and of the smoke tests. \<open>Explorer_Properties\<close> and \<open>Guard_Properties\<close> speak of every
  property of the browser or the network that the permitted commands keep: it is kept by the whole
  exploration, or by every request of a session, so no other command is issued. The theories \<open>..._Properties\<close> state the
  properties of each layer, with concrete runs for their witnesses (\<open>Workflow_Samples\<close> holds those of
  the workflow).

  \<^bold>\<open>Termination.\<close> Loops are bounded by the code's own limits (retries, healing attempts, steps of an
  exploration), with one exception: waiting for a healthy deployment ends by the clock, so it is given
  fuel, and \<open>Unfinished\<close> is the value of a wait that used it up. The property of deployments assumes a
  clock that passes the configured timeout within the fuel, and proves that the wait ends. The selector
  chain of \<open>Pattern_Detector\<close> is the code's \<^verbatim>\<open>while True\<close> loop, total because each round visits a new
  selector of the finite store. The number of submissions a workflow can accept and of browser runs an
  execution makes is bounded by the configured limits.

  \<^bold>\<open>Abstractions.\<close> A string is the bytes of its UTF-8 text; case folding and stripping act on ASCII, and
  lengths count bytes except where \<open>py_len\<close> is used. Float inputs are finite. A square root is rounded
  correctly. Tasks do not interleave inside one execution. The queries by which the engine's healer looks
  at a page take no time and do not change it. A page snapshot that can be read is the text the engine wrote.

  \<^bold>\<open>Not modelled.\<close> Logging; prompt texts and the canned answers of the mock model; screenshots, traces
  and visual baselines; the JSON file and Firestore backends; the browser session; the web API with
  its services and authentication; the page analyzer (\<^verbatim>\<open>url_analyzer.py\<close>), notifications and commit
  statuses; the security scanners and the patcher; the ingestion of repositories; the benchmarks. They
  are I/O, framework code, or text. Of the scheduler and the queue the endless loops around one tick or
  one claim are left out, and parsing a date is a parameter.
\<close>

end
